(* ===== verification/Prelude.thy ===== *)
theory Prelude
  imports Main "HOL-Library.Sublist" "HOL-Library.List_Lexorder" "HOL-Library.Char_ord"
begin

text \<open>
  Shared vocabulary of the development: the Python exceptions of
  \<^verbatim>\<open>src/zsec_shield/errors.py\<close> and of the standard library as one datatype, results as
  sums with their bind, the traversal of a list that stops at the first exception, and the
  list and substring facts that several components need.
\<close>

named_theorems res_simps \<open>inversion of results\<close>
named_theorems sub_intros \<open>closure rules for substrings\<close>

section \<open>Exceptions and results\<close>

text \<open>
  \<open>IntelligenceError\<close> is a subclass of \<open>FeedError\<close> and \<open>QuarantinePartialError\<close> one of
  \<open>QuarantineError\<close>; the predicates below are the \<^verbatim>\<open>except\<close> clauses of the code.
  An \<open>OSError\<close> carries what the code inspects of it: whether it is a missing path
  (\<^verbatim>\<open>ENOENT\<close>, \<^verbatim>\<open>ENOTDIR\<close> or the Windows equivalents), and its text.
\<close>

datatype exn =
    ZsecShieldError string
  | FeedError string
  | IntelligenceError string
  | ScanConfigurationError string
  | ScanWorkerError string
  | WatchError string
  | QuarantineError string
  | QuarantinePartialError string string
  | OSError string
  | FileNotFoundError string
  | FileExistsError string
  | ValueError string
  | UnicodeEncodeError string
  | OtherError string

type_synonym 'a res = "exn + 'a"

fun is_feed_error :: "exn \<Rightarrow> bool" where
  "is_feed_error (FeedError _) = True"
| "is_feed_error (IntelligenceError _) = True"
| "is_feed_error _ = False"

fun is_quarantine_error :: "exn \<Rightarrow> bool" where
  "is_quarantine_error (QuarantineError _) = True"
| "is_quarantine_error (QuarantinePartialError _ _) = True"
| "is_quarantine_error _ = False"

fun is_os_error :: "exn \<Rightarrow> bool" where
  "is_os_error (OSError _) = True"
| "is_os_error (FileNotFoundError _) = True"
| "is_os_error (FileExistsError _) = True"
| "is_os_error _ = False"

fun is_zsec_error :: "exn \<Rightarrow> bool" where
  "is_zsec_error (ZsecShieldError _) = True"
| "is_zsec_error (ScanConfigurationError _) = True"
| "is_zsec_error (ScanWorkerError _) = True"
| "is_zsec_error (WatchError _) = True"
| "is_zsec_error e = (is_feed_error e \<or> is_quarantine_error e)"

fun exn_text :: "exn \<Rightarrow> string" where
  "exn_text (ZsecShieldError m) = m"
| "exn_text (FeedError m) = m"
| "exn_text (IntelligenceError m) = m"
| "exn_text (ScanConfigurationError m) = m"
| "exn_text (ScanWorkerError m) = m"
| "exn_text (WatchError m) = m"
| "exn_text (QuarantineError m) = m"
| "exn_text (QuarantinePartialError m _) = m"
| "exn_text (OSError m) = m"
| "exn_text (FileNotFoundError m) = m"
| "exn_text (FileExistsError m) = m"
| "exn_text (ValueError m) = m"
| "exn_text (UnicodeEncodeError m) = m"
| "exn_text (OtherError m) = m"

fun exn_name :: "exn \<Rightarrow> string" where
  "exn_name (ZsecShieldError _) = ''ZsecShieldError''"
| "exn_name (FeedError _) = ''FeedError''"
| "exn_name (IntelligenceError _) = ''IntelligenceError''"
| "exn_name (ScanConfigurationError _) = ''ScanConfigurationError''"
| "exn_name (ScanWorkerError _) = ''ScanWorkerError''"
| "exn_name (WatchError _) = ''WatchError''"
| "exn_name (QuarantineError _) = ''QuarantineError''"
| "exn_name (QuarantinePartialError _ _) = ''QuarantinePartialError''"
| "exn_name (OSError _) = ''OSError''"
| "exn_name (FileNotFoundError _) = ''FileNotFoundError''"
| "exn_name (FileExistsError _) = ''FileExistsError''"
| "exn_name (ValueError _) = ''ValueError''"
| "exn_name (UnicodeEncodeError _) = ''UnicodeEncodeError''"
| "exn_name (OtherError _) = ''Exception''"

fun rbind :: "('e + 'a) \<Rightarrow> ('a \<Rightarrow> 'e + 'b) \<Rightarrow> 'e + 'b" where
  "rbind (Inl e) f = Inl e"
| "rbind (Inr x) f = f x"

lemma rbind_Inr_iff [res_simps]: "rbind m f = Inr y \<longleftrightarrow> (\<exists>x. m = Inr x \<and> f x = Inr y)"
  by (cases m) auto

lemma rbind_Inl_iff [res_simps]:
  "rbind m f = Inl e \<longleftrightarrow> m = Inl e \<or> (\<exists>x. m = Inr x \<and> f x = Inl e)"
  by (cases m) auto

lemma rbind_cong [fundef_cong]:
  "m = m' \<Longrightarrow> (\<And>x. m' = Inr x \<Longrightarrow> f x = g x) \<Longrightarrow> rbind m f = rbind m' g"
  by (cases m') auto

lemma rbind_assoc: "rbind (rbind m f) g = rbind m (\<lambda>x. rbind (f x) g)"
  by (cases m) auto

lemma if_Inr_iff [res_simps]:
  "(if b then Inl e else m) = Inr y \<longleftrightarrow> \<not> b \<and> m = Inr y"
  by auto

text \<open>The exceptions caught by \<^verbatim>\<open>except ... as exc: raise E(...) from exc\<close>.\<close>

fun rcatch :: "('e + 'a) \<Rightarrow> ('e \<Rightarrow> bool) \<Rightarrow> ('e \<Rightarrow> 'e + 'a) \<Rightarrow> 'e + 'a" where
  "rcatch (Inl e) p h = (if p e then h e else Inl e)"
| "rcatch (Inr x) p h = Inr x"

text \<open>A loop over a list that appends one result per element and stops at the first raise.\<close>

fun rmap :: "('a \<Rightarrow> 'e + 'b) \<Rightarrow> 'a list \<Rightarrow> 'e + 'b list" where
  "rmap f [] = Inr []"
| "rmap f (x # xs) = rbind (f x) (\<lambda>y. rbind (rmap f xs) (\<lambda>ys. Inr (y # ys)))"

lemma rmap_cong [fundef_cong]:
  "xs = ys \<Longrightarrow> (\<And>x. x \<in> set ys \<Longrightarrow> f x = g x) \<Longrightarrow> rmap f xs = rmap g ys"
  by (induction ys arbitrary: xs) auto

lemma rmap_Inr_iff: "rmap f xs = Inr ys \<longleftrightarrow> list_all2 (\<lambda>x y. f x = Inr y) xs ys"
  by (induction xs arbitrary: ys)
     (auto simp: rbind_Inr_iff list_all2_Cons1)

lemma rmap_InrD: "rmap f xs = Inr ys \<Longrightarrow> y \<in> set ys \<Longrightarrow> \<exists>x\<in>set xs. f x = Inr y"
  by (induction xs arbitrary: ys) (auto simp: rbind_Inr_iff)

lemma rmap_length: "rmap f xs = Inr ys \<Longrightarrow> length ys = length xs"
  by (simp add: rmap_Inr_iff list_all2_lengthD)

lemma rmap_all_Inr: "(\<And>x. x \<in> set xs \<Longrightarrow> f x = Inr (g x)) \<Longrightarrow> rmap f xs = Inr (map g xs)"
  by (induction xs) auto

text \<open>A loop with an accumulator that stops at the first raise.\<close>

fun rfold :: "('a \<Rightarrow> 's \<Rightarrow> 'e + 's) \<Rightarrow> 'a list \<Rightarrow> 's \<Rightarrow> 'e + 's" where
  "rfold f [] s = Inr s"
| "rfold f (x # xs) s = rbind (f x s) (rfold f xs)"

lemma rfold_cong [fundef_cong]:
  "xs = ys \<Longrightarrow> s = t \<Longrightarrow> (\<And>x u. x \<in> set ys \<Longrightarrow> f x u = g x u) \<Longrightarrow> rfold f xs s = rfold g ys t"
proof (induction ys arbitrary: xs s t)
  case (Cons y ys)
  then show ?case by (cases "g y t") auto
qed simp

lemma rfold_invariant:
  assumes "rfold f xs s = Inr t" and "P s"
    and "\<And>x u v. x \<in> set xs \<Longrightarrow> P u \<Longrightarrow> f x u = Inr v \<Longrightarrow> P v"
  shows "P t"
  using assms
proof (induction xs arbitrary: s)
  case (Cons x xs)
  from Cons.prems(1) obtain u where u: "f x s = Inr u" "rfold f xs u = Inr t"
    by (auto simp: rbind_Inr_iff)
  from Cons.prems(2,3) u(1) have "P u" by (meson list.set_intros(1))
  from Cons.IH [OF u(2) this] Cons.prems(3) show ?case
    by (meson list.set_intros(2))
qed simp

definition is_Inr :: "'e + 'a \<Rightarrow> bool" where
  "is_Inr m = (case m of Inl _ \<Rightarrow> False | Inr _ \<Rightarrow> True)"

lemma is_Inr_simps [simp]: "is_Inr (Inr x)" "\<not> is_Inr (Inl e)"
  by (simp_all add: is_Inr_def)

lemma is_Inr_iff: "is_Inr m \<longleftrightarrow> (\<exists>x. m = Inr x)"
  by (cases m) auto

section \<open>Substrings\<close>

text \<open>\<open>pat in s\<close> of Python on strings and bytes.\<close>

fun infixb :: "'a list \<Rightarrow> 'a list \<Rightarrow> bool" where
  "infixb pat [] = (pat = [])"
| "infixb pat (x # xs) = (prefix pat (x # xs) \<or> infixb pat xs)"

lemma infixb_iff_sublist: "infixb pat xs \<longleftrightarrow> sublist pat xs"
  by (induction xs) (auto simp: sublist_Cons_right)

lemma infixb_iff: "infixb pat xs \<longleftrightarrow> (\<exists>us vs. xs = us @ pat @ vs)"
  by (simp add: infixb_iff_sublist sublist_def)

lemma infixb_Nil [simp]: "infixb [] xs"
  by (cases xs) auto

lemma infixb_append1 [sub_intros]: "infixb pat xs \<Longrightarrow> infixb pat (xs @ ys)"
  by (fastforce simp: infixb_iff)

lemma infixb_append2 [sub_intros]: "infixb pat ys \<Longrightarrow> infixb pat (xs @ ys)"
  by (metis append.assoc infixb_iff)

text \<open>
  An occurrence in \<open>xs @ ys\<close> that is in neither part straddles the boundary, and then
  lies within the last \<open>n\<close> elements of \<open>xs\<close> followed by \<open>ys\<close>, for any \<open>n\<close> that is at
  least the length of the pattern less one.
\<close>

lemma infixb_split:
  assumes "infixb pat (xs @ ys)" and "length pat \<le> Suc n"
  shows "infixb pat xs \<or> infixb pat (drop (length xs - n) xs @ ys)"
proof -
  from assms(1) obtain us vs where eq: "xs @ ys = us @ pat @ vs"
    by (auto simp: infixb_iff)
  show ?thesis
  proof (cases "length us + length pat \<le> length xs")
    case True
    have "take (length us + length pat) (xs @ ys) = us @ pat"
      by (simp add: eq)
    with True have "xs = (us @ pat) @ drop (length us + length pat) xs"
      by (metis append_take_drop_id diff_is_0_eq' take_append take0 append_Nil2)
    then show ?thesis by (auto simp: infixb_iff)
  next
    case False
    with assms(2) have le: "length xs - n \<le> length us" by linarith
    have "drop (length xs - n) xs @ ys = drop (length xs - n) (xs @ ys)"
      by simp
    also have "\<dots> = drop (length xs - n) us @ pat @ vs"
      using le by (simp add: eq)
    finally show ?thesis by (auto simp: infixb_iff)
  qed
qed

lemma infixb_drop: "infixb pat (drop n xs @ ys) \<Longrightarrow> infixb pat (xs @ ys)"
  by (metis append.assoc append_take_drop_id infixb_append2)

section \<open>Lists\<close>

lemma subset_ball: "A \<subseteq> B \<Longrightarrow> \<forall>x \<in> B. P x \<Longrightarrow> \<forall>x \<in> A. P x"
  by blast

definition py_max :: "nat list \<Rightarrow> nat \<Rightarrow> nat" where
  "py_max xs d = (if xs = [] then d else Max (set xs))"

lemma py_max_ge: "x \<in> set xs \<Longrightarrow> x \<le> py_max xs d"
  by (cases xs) (auto simp: py_max_def)

definition enumerate0 :: "'a list \<Rightarrow> (nat \<times> 'a) list" where
  "enumerate0 xs = zip [0..<length xs] xs"

lemma snd_enumerate0 [simp]: "map snd (enumerate0 xs) = xs"
  by (simp add: enumerate0_def)

lemma set_enumerate0: "(i, x) \<in> set (enumerate0 xs) \<Longrightarrow> x \<in> set xs"
  by (auto simp: enumerate0_def dest: set_zip_rightD)

lemma length_enumerate0 [simp]: "length (enumerate0 xs) = length xs"
  by (simp add: enumerate0_def)

lemma map_of_filter_neq: "k \<noteq> k' \<Longrightarrow> map_of (filter (\<lambda>(x, _). x \<noteq> k') xs) k = map_of xs k"
  by (induction xs) auto

end
