(* ===== verification/Pystr.thy ===== *)
theory Pystr
  imports Prelude
begin

text \<open>
  The operations of Python's \<^verbatim>\<open>str\<close> and \<^verbatim>\<open>bytes\<close> that the program uses.  Both are a
  \<^typ>\<open>char list\<close>.  A \<^verbatim>\<open>bytes\<close> value is its list of bytes.  A \<^verbatim>\<open>str\<close> value is its
  UTF-8 encoding, generalised to surrogate code points, which a Python string can hold and
  UTF-8 cannot: so decoding checks and returns the same list, encoding fails exactly on
  surrogates, the length counts code points, and the byte order is the code point order.
\<close>

section \<open>Code points\<close>

definition ord :: "char \<Rightarrow> nat" where
  "ord c = of_char c"

definition is_cont :: "char \<Rightarrow> bool" where
  "is_cont c = (128 \<le> ord c \<and> ord c < 192)"

text \<open>\<^verbatim>\<open>len(s)\<close> of a string: every byte but the continuation bytes starts a code point.\<close>

definition py_len :: "string \<Rightarrow> nat" where
  "py_len s = length (filter (\<lambda>c. \<not> is_cont c) s)"

text \<open>\<^verbatim>\<open>s[:n]\<close> of a string.\<close>

fun py_take :: "nat \<Rightarrow> string \<Rightarrow> string" where
  "py_take n [] = []"
| "py_take n (c # cs) =
     (if is_cont c then c # py_take n cs
      else case n of 0 \<Rightarrow> [] | Suc m \<Rightarrow> c # py_take m cs)"

definition is_ascii :: "string \<Rightarrow> bool" where
  "is_ascii s = list_all (\<lambda>c. ord c < 128) s"

lemma py_len_le: "py_len s \<le> length s"
  by (simp add: py_len_def)

lemma py_len_ascii: "is_ascii s \<Longrightarrow> py_len s = length s"
  by (induction s) (auto simp: py_len_def is_ascii_def is_cont_def)

lemma py_len_take: "py_len (py_take n s) \<le> n"
  by (induction n s rule: py_take.induct) (auto simp: py_len_def split: nat.splits)

lemma py_take_id: "py_len s \<le> n \<Longrightarrow> py_take n s = s"
  by (induction n s rule: py_take.induct) (auto simp: py_len_def split: nat.splits if_splits)

text \<open>
  Strict UTF-8 decoding.  \<open>utf8_step\<close> returns what follows one well-formed sequence;
  \<open>surr\<close> says whether a surrogate is let through, as it is inside a Python string.
\<close>

definition cont_in :: "nat \<Rightarrow> nat \<Rightarrow> char \<Rightarrow> bool" where
  "cont_in lo hi c = (lo \<le> ord c \<and> ord c \<le> hi)"

definition lo3 :: "char \<Rightarrow> nat" where
  "lo3 c = (if ord c = 224 then 160 else 128)"

definition hi3 :: "bool \<Rightarrow> char \<Rightarrow> nat" where
  "hi3 surr c = (if ord c = 237 \<and> \<not> surr then 159 else 191)"

definition lo4 :: "char \<Rightarrow> nat" where
  "lo4 c = (if ord c = 240 then 144 else 128)"

definition hi4 :: "char \<Rightarrow> nat" where
  "hi4 c = (if ord c = 244 then 143 else 191)"

fun utf8_tail :: "(char \<Rightarrow> bool) list \<Rightarrow> string \<Rightarrow> string option" where
  "utf8_tail [] r = Some r"
| "utf8_tail (p # ps) [] = None"
| "utf8_tail (p # ps) (a # r) = (if p a then utf8_tail ps r else None)"

definition utf8_preds :: "bool \<Rightarrow> char \<Rightarrow> (char \<Rightarrow> bool) list option" where
  "utf8_preds surr c =
    (if ord c < 128 then Some []
     else if ord c < 194 then None
     else if ord c < 224 then Some [cont_in 128 191]
     else if ord c < 240 then Some [cont_in (lo3 c) (hi3 surr c), cont_in 128 191]
     else if ord c < 245 then Some [cont_in (lo4 c) (hi4 c), cont_in 128 191, cont_in 128 191]
     else None)"

definition utf8_step :: "bool \<Rightarrow> string \<Rightarrow> string option" where
  "utf8_step surr s =
    (case s of [] \<Rightarrow> None
     | c # r \<Rightarrow> (case utf8_preds surr c of None \<Rightarrow> None | Some ps \<Rightarrow> utf8_tail ps r))"

lemma utf8_tail_length: "utf8_tail ps s = Some r \<Longrightarrow> length r \<le> length s"
  by (induction ps s rule: utf8_tail.induct) (auto split: if_splits)

lemma utf8_tail_append: "utf8_tail ps s = Some r \<Longrightarrow> utf8_tail ps (s @ t) = Some (r @ t)"
  by (induction ps s rule: utf8_tail.induct) (auto split: if_splits)

lemma utf8_step_length: "utf8_step surr s = Some r \<Longrightarrow> length r < length s"
  by (auto simp: utf8_step_def less_Suc_eq_le split: list.splits option.splits
      dest: utf8_tail_length)

lemma utf8_step_append: "utf8_step surr s = Some r \<Longrightarrow> utf8_step surr (s @ t) = Some (r @ t)"
  by (auto simp: utf8_step_def utf8_tail_append split: list.splits option.splits)

function utf8_ok :: "bool \<Rightarrow> string \<Rightarrow> bool" where
  "utf8_ok surr s =
     (s = [] \<or> (case utf8_step surr s of None \<Rightarrow> False | Some r \<Rightarrow> utf8_ok surr r))"
  by pat_completeness auto
termination
  by (relation "measure (\<lambda>(b, s). length s)") (auto dest: utf8_step_length)

declare utf8_ok.simps [simp del]

lemma utf8_ok_Nil [simp]: "utf8_ok surr []"
  by (simp add: utf8_ok.simps)

lemma utf8_ok_append: "utf8_ok surr s \<Longrightarrow> utf8_ok surr t \<Longrightarrow> utf8_ok surr (s @ t)"
proof (induction surr s rule: utf8_ok.induct)
  case (1 surr s)
  show ?case
  proof (cases "s = []")
    case False
    with "1.prems" obtain r where r: "utf8_step surr s = Some r" "utf8_ok surr r"
      by (auto simp: utf8_ok.simps [of surr s] split: option.splits)
    with "1.IH" [OF r(1) r(2) "1.prems"(2)] show ?thesis
      by (simp add: utf8_ok.simps [of surr "s @ t"] utf8_step_append)
  qed (use "1.prems" in simp)
qed

lemma utf8_ok_ascii: "is_ascii s \<Longrightarrow> utf8_ok surr s"
proof (induction s)
  case (Cons c s)
  then show ?case
    by (simp add: utf8_ok.simps [of surr "c # s"] utf8_step_def utf8_preds_def is_ascii_def)
qed simp

lemma utf8_ok_Cons: "ord c < 128 \<Longrightarrow> utf8_ok surr (c # s) = utf8_ok surr s"
  by (simp add: utf8_ok.simps [of surr "c # s"] utf8_step_def utf8_preds_def)

text \<open>\<^verbatim>\<open>raw.decode("utf-8", "strict")\<close> and \<^verbatim>\<open>text.encode("utf-8")\<close>.\<close>

definition decode_utf8 :: "string \<Rightarrow> string option" where
  "decode_utf8 b = (if utf8_ok False b then Some b else None)"

definition encode_utf8 :: "string \<Rightarrow> string res" where
  "encode_utf8 s = (if utf8_ok False s then Inr s
                    else Inl (UnicodeEncodeError ''surrogates not allowed''))"

lemma encode_ascii: "is_ascii s \<Longrightarrow> encode_utf8 s = Inr s"
  by (simp add: encode_utf8_def utf8_ok_ascii)

text \<open>\<^verbatim>\<open>value.encode("ascii")\<close>.\<close>

definition encode_ascii_strict :: "string \<Rightarrow> string res" where
  "encode_ascii_strict s = (if is_ascii s then Inr s
                            else Inl (UnicodeEncodeError ''ordinal not in range(128)''))"

section \<open>Case, affixes, replacement\<close>

text \<open>
  Case conversion is the ASCII one, which is that of \<^verbatim>\<open>bytes\<close>; on \<^verbatim>\<open>str\<close> it agrees with
  Python's on ASCII text, and no non-ASCII character becomes an ASCII one under it.
\<close>

definition lower_char :: "char \<Rightarrow> char" where
  "lower_char c = (if 65 \<le> ord c \<and> ord c \<le> 90 then char_of (ord c + 32) else c)"

definition upper_char :: "char \<Rightarrow> char" where
  "upper_char c = (if 97 \<le> ord c \<and> ord c \<le> 122 then char_of (ord c - 32) else c)"

definition lower :: "string \<Rightarrow> string" where
  "lower s = map lower_char s"

definition upper :: "string \<Rightarrow> string" where
  "upper s = map upper_char s"

lemma length_lower [simp]: "length (lower s) = length s"
  by (simp add: lower_def)

lemma lower_lower [simp]: "lower (lower s) = lower s"
  by (simp add: lower_def lower_char_def ord_def)

definition starts_with :: "string \<Rightarrow> string \<Rightarrow> bool" where
  "starts_with s p = prefix p s"

definition ends_with :: "string \<Rightarrow> string \<Rightarrow> bool" where
  "ends_with s p = (take (length p) (rev s) = rev p)"

lemma ends_with_iff: "ends_with s p \<longleftrightarrow> (\<exists>q. s = q @ p)"
proof
  assume "ends_with s p"
  then have "rev s = rev p @ drop (length p) (rev s)"
    by (metis append_take_drop_id ends_with_def)
  then have "s = rev (drop (length p) (rev s)) @ p"
    by (metis rev_append rev_rev_ident)
  then show "\<exists>q. s = q @ p" by blast
next
  assume "\<exists>q. s = q @ p"
  then show "ends_with s p" by (auto simp: ends_with_def)
qed

text \<open>\<^verbatim>\<open>s.replace(a, b)\<close> for one-character \<open>a\<close>, \<open>b\<close>.\<close>

definition replace1 :: "char \<Rightarrow> char \<Rightarrow> string \<Rightarrow> string" where
  "replace1 a b s = map (\<lambda>c. if c = a then b else c) s"

text \<open>\<^verbatim>\<open>message.replace("\r", " ").replace("\n", " ")[:500]\<close>, the one-line bound on messages.\<close>

definition one_line :: "string \<Rightarrow> string" where
  "one_line s = py_take 500 (replace1 (CHR 0x0A) (CHR '' '') (replace1 (CHR 0x0D) (CHR '' '') s))"

lemma py_take_subset: "set (py_take n s) \<subseteq> set s"
  by (induction n s rule: py_take.induct) (auto split: nat.splits if_splits)

lemma one_line_no_break: "CHR 0x0A \<notin> set (one_line s) \<and> CHR 0x0D \<notin> set (one_line s)"
  using py_take_subset unfolding one_line_def
  by (fastforce simp: replace1_def split: if_splits)

lemma one_line_length: "py_len (one_line s) \<le> 500"
  by (simp add: one_line_def py_len_take)

text \<open>\<^verbatim>\<open>s.split(c)\<close> on one character, and \<^verbatim>\<open>sep.join(xs)\<close>.\<close>

fun split_on :: "char \<Rightarrow> string \<Rightarrow> string list" where
  "split_on a [] = [[]]"
| "split_on a (c # cs) =
     (if c = a then [] # split_on a cs
      else case split_on a cs of [] \<Rightarrow> [[c]] | p # ps \<Rightarrow> (c # p) # ps)"

fun join_with :: "string \<Rightarrow> string list \<Rightarrow> string" where
  "join_with sep [] = []"
| "join_with sep [x] = x"
| "join_with sep (x # y # ys) = x @ sep @ join_with sep (y # ys)"

section \<open>Decimal and hexadecimal\<close>

fun dec_nat :: "nat \<Rightarrow> string" where
  "dec_nat n = (if n < 10 then [char_of (48 + n)] else dec_nat (n div 10) @ [char_of (48 + n mod 10)])"

declare dec_nat.simps [simp del]

definition dec_int :: "int \<Rightarrow> string" where
  "dec_int i = (if i < 0 then CHR ''-'' # dec_nat (nat (- i)) else dec_nat (nat i))"

definition is_digit :: "char \<Rightarrow> bool" where
  "is_digit c = (48 \<le> ord c \<and> ord c \<le> 57)"

definition digit_val :: "char \<Rightarrow> nat" where
  "digit_val c = ord c - 48"

definition nat_of_dec :: "string \<Rightarrow> nat" where
  "nat_of_dec s = foldl (\<lambda>n c. 10 * n + digit_val c) 0 s"

definition dec_char :: "nat \<Rightarrow> char" where
  "dec_char d = char_of (48 + d)"

lemma ord_dec_char: "d < 10 \<Longrightarrow> ord (char_of (48 + d)) = 48 + d"
  by (simp add: ord_def)

lemma nat_of_dec_append: "nat_of_dec (s @ [c]) = 10 * nat_of_dec s + digit_val c"
  by (simp add: nat_of_dec_def)

lemma nat_of_dec_nat [simp]: "nat_of_dec (dec_nat n) = n"
proof (induction n rule: dec_nat.induct)
  case (1 n)
  show ?case
  proof (cases "n < 10")
    case True
    then show ?thesis
      by (simp add: dec_nat.simps [of n] nat_of_dec_def digit_val_def ord_dec_char)
  next
    case False
    have d: "n mod 10 < 10" by simp
    from False "1.IH" show ?thesis
      by (simp add: dec_nat.simps [of n] nat_of_dec_append digit_val_def ord_dec_char [OF d])
  qed
qed

lemma dec_nat_digits: "\<forall>c \<in> set (dec_nat n). is_digit c"
proof (induction n rule: dec_nat.induct)
  case (1 n)
  have d: "n mod 10 < 10" by simp
  show ?case
    using 1 ord_dec_char [OF d] ord_dec_char [of n]
    by (auto simp: dec_nat.simps [of n] is_digit_def)
qed

lemma dec_nat_neq_Nil [simp]: "dec_nat n \<noteq> []"
  by (subst dec_nat.simps) simp

lemma dec_nat_leading: "hd (dec_nat n) = CHR ''0'' \<Longrightarrow> dec_nat n = ''0''"
proof (induction n rule: dec_nat.induct)
  case (1 n)
  show ?case
  proof (cases "n < 10")
    case True
    with "1.prems" show ?thesis by (simp add: dec_nat.simps [of n])
  next
    case False
    with "1.prems" have "hd (dec_nat (n div 10)) = CHR ''0''"
      by (simp add: dec_nat.simps [of n])
    with "1.IH" False have "dec_nat (n div 10) = ''0''" by simp
    then have "n div 10 = nat_of_dec ''0''" by (metis nat_of_dec_nat)
    then have "n div 10 = 0" by (simp add: nat_of_dec_def digit_val_def ord_def)
    with False show ?thesis by simp
  qed
qed

lemma nat_of_dec_less: "\<forall>c \<in> set s. is_digit c \<Longrightarrow> nat_of_dec s < 10 ^ length s"
proof (induction s rule: rev_induct)
  case (snoc c s)
  then have "nat_of_dec s < 10 ^ length s" and "is_digit c" by simp_all
  moreover from this have "digit_val c < 10" by (auto simp: is_digit_def digit_val_def)
  ultimately show ?case by (simp add: nat_of_dec_append)
qed (simp add: nat_of_dec_def)

lemma length_dec_nat: "n < 10 ^ k \<Longrightarrow> 0 < k \<Longrightarrow> length (dec_nat n) \<le> k"
proof (induction n arbitrary: k rule: dec_nat.induct)
  case (1 n)
  show ?case
  proof (cases "n < 10")
    case True
    with "1.prems" show ?thesis by (simp add: dec_nat.simps [of n])
  next
    case False
    obtain j where k: "k = Suc j" using "1.prems"(2) by (cases k) auto
    have j: "0 < j" using False "1.prems"(1) by (cases j) (auto simp: k)
    have "n div 10 < 10 ^ j" using "1.prems"(1) by (simp add: k)
    from "1.IH" [OF False this j] False show ?thesis by (simp add: dec_nat.simps [of n] k)
  qed
qed

definition hex_digit :: "nat \<Rightarrow> char" where
  "hex_digit n = (if n < 10 then char_of (48 + n) else char_of (87 + n))"

text \<open>\<^verbatim>\<open>bytes.hex()\<close> and \<^verbatim>\<open>hexdigest()\<close>: two lower-case digits per byte.\<close>

definition hex_of :: "string \<Rightarrow> string" where
  "hex_of bs = concat (map (\<lambda>b. [hex_digit (ord b div 16), hex_digit (ord b mod 16)]) bs)"

definition hex_val :: "char \<Rightarrow> nat option" where
  "hex_val c =
    (if 48 \<le> ord c \<and> ord c \<le> 57 then Some (ord c - 48)
     else if 97 \<le> ord c \<and> ord c \<le> 102 then Some (ord c - 87)
     else if 65 \<le> ord c \<and> ord c \<le> 70 then Some (ord c - 55) else None)"

definition is_hex_lower :: "char \<Rightarrow> bool" where
  "is_hex_lower c = (48 \<le> ord c \<and> ord c \<le> 57 \<or> 97 \<le> ord c \<and> ord c \<le> 102)"

definition is_hex :: "char \<Rightarrow> bool" where
  "is_hex c = (hex_val c \<noteq> None)"

definition is_space_byte :: "char \<Rightarrow> bool" where
  "is_space_byte c = (9 \<le> ord c \<and> ord c \<le> 13 \<or> ord c = 32)"

text \<open>
  \<^verbatim>\<open>bytes.fromhex(s)\<close>: pairs of hexadecimal digits, with ASCII white space skipped before
  each pair and at the end; \<open>None\<close> is its \<^verbatim>\<open>ValueError\<close>.
\<close>

fun from_hex :: "string \<Rightarrow> string option" where
  "from_hex [] = Some []"
| "from_hex [c] = (if is_space_byte c then Some [] else None)"
| "from_hex (c # d # r) =
     (if is_space_byte c then from_hex (d # r)
      else case hex_val c of None \<Rightarrow> None
           | Some x \<Rightarrow> (case hex_val d of None \<Rightarrow> None
             | Some y \<Rightarrow> map_option (Cons (char_of (16 * x + y))) (from_hex r)))"

lemma length_hex_of [simp]: "length (hex_of bs) = 2 * length bs"
  by (induction bs) (auto simp: hex_of_def)

lemma ord_less: "ord c < 256"
  by (simp add: ord_def)

lemma hex_digit_lower: "n < 16 \<Longrightarrow> is_hex_lower (hex_digit n)"
  by (auto simp: is_hex_lower_def hex_digit_def ord_def)

lemma hex_of_lower: "\<forall>c \<in> set (hex_of bs). is_hex_lower c"
proof -
  have "ord b div 16 < 16" for b using ord_less [of b] by simp
  then show ?thesis by (auto simp: hex_of_def hex_digit_lower)
qed

lemma hex_val_digit: "n < 16 \<Longrightarrow> hex_val (hex_digit n) = Some n"
  by (auto simp: hex_val_def hex_digit_def ord_def)

lemma from_hex_hex_of: "from_hex (hex_of bs) = Some bs"
proof (induction bs)
  case (Cons b bs)
  have lt: "ord b div 16 < 16" "ord b mod 16 < 16" using ord_less [of b] by auto
  have ns: "\<not> is_space_byte (hex_digit (ord b div 16))"
    using hex_digit_lower [OF lt(1)] by (auto simp: is_space_byte_def is_hex_lower_def)
  have "16 * (ord b div 16) + ord b mod 16 = ord b" by simp
  with Cons lt ns show ?case
    by (simp add: hex_of_def hex_val_digit ord_def)
qed (simp add: hex_of_def)

lemma lower_hex: "list_all is_hex_lower s \<Longrightarrow> lower s = s"
  by (induction s) (auto simp: lower_def lower_char_def is_hex_lower_def)

end
