(* ===== verification/Json.thy ===== *)
theory Json
  imports Pystr
begin

text \<open>
  JSON values, Python dictionaries, and the part of Python's \<^verbatim>\<open>json\<close> module the program
  uses, with the program's own strict reader (\<^verbatim>\<open>src/zsec_shield/util.py\<close>) on top of it.

  A dictionary is an association list with strictly increasing keys, so that equality of
  dictionaries does not depend on insertion order; every writer of the program sorts the keys.
  A number with a fraction or an exponent is kept as its text and is equal only to itself.
  The nesting limit of Python's recursive decoder is not modelled, and the text of a decoding
  error is not part of the message.
\<close>

section \<open>Values and dictionaries\<close>

datatype json =
    JNull
  | JBool bool
  | JInt int
  | JFloat string
  | JStr string
  | JList "json list"
  | JObj "(string \<times> json) list"

type_synonym dict = "(string \<times> json) list"

fun dput :: "string \<Rightarrow> 'v \<Rightarrow> (string \<times> 'v) list \<Rightarrow> (string \<times> 'v) list" where
  "dput k v [] = [(k, v)]"
| "dput k v ((k', v') # d) =
     (if k < k' then (k, v) # (k', v') # d
      else if k = k' then (k, v) # d
      else (k', v') # dput k v d)"

definition mk_dict :: "(string \<times> 'v) list \<Rightarrow> (string \<times> 'v) list" where
  "mk_dict kvs = foldl (\<lambda>d (k, v). dput k v d) [] kvs"

definition keys_of :: "(string \<times> 'v) list \<Rightarrow> string set" where
  "keys_of d = set (map fst d)"

text \<open>\<^verbatim>\<open>d.get(k)\<close>; a subscript \<^verbatim>\<open>d[k]\<close> is the same where the code has checked the keys.\<close>

definition dget :: "dict \<Rightarrow> string \<Rightarrow> json" where
  "dget d k = (case map_of d k of None \<Rightarrow> JNull | Some v \<Rightarrow> v)"

definition dhas :: "(string \<times> 'v) list \<Rightarrow> string \<Rightarrow> bool" where
  "dhas d k = (map_of d k \<noteq> None)"

definition ddel :: "string \<Rightarrow> (string \<times> 'v) list \<Rightarrow> (string \<times> 'v) list" where
  "ddel k d = filter (\<lambda>(k', _). k' \<noteq> k) d"

definition wf_dict :: "(string \<times> 'v) list \<Rightarrow> bool" where
  "wf_dict d = sorted_wrt (<) (map fst d)"

lemma map_of_dput: "wf_dict d \<Longrightarrow> map_of (dput k v d) = (map_of d)(k \<mapsto> v)"
  by (induction k v d rule: dput.induct) (auto simp: wf_dict_def fun_eq_iff)

lemma keys_dput: "set (map fst (dput k v d)) = insert k (set (map fst d))"
  by (induction k v d rule: dput.induct) auto

lemma wf_dput: "wf_dict d \<Longrightarrow> wf_dict (dput k v d)"
proof (induction k v d rule: dput.induct)
  case (2 k v k' v' d)
  then show ?case
    using keys_dput [of k v d] by (auto simp: wf_dict_def)
qed (simp add: wf_dict_def)

lemma wf_dict_Nil [simp]: "wf_dict []"
  by (simp add: wf_dict_def)

lemma mk_dict_snoc: "mk_dict (kvs @ [(k, v)]) = dput k v (mk_dict kvs)"
  by (simp add: mk_dict_def)

lemma wf_mk_dict [simp]: "wf_dict (mk_dict kvs)"
proof (induction kvs rule: rev_induct)
  case (snoc x kvs)
  then show ?case by (cases x) (simp add: mk_dict_snoc wf_dput)
qed (simp add: mk_dict_def)

lemma keys_mk_dict: "set (map fst (mk_dict kvs)) = set (map fst kvs)"
proof (induction kvs rule: rev_induct)
  case (snoc x kvs)
  then show ?case by (cases x) (simp only: mk_dict_snoc keys_dput, simp)
qed (simp add: mk_dict_def)

lemma keys_of_mk_dict: "keys_of (mk_dict kvs) = fst ` set kvs"
  using keys_mk_dict [of kvs] by (simp add: keys_of_def)

lemma map_of_mk_dict: "map_of (mk_dict kvs) = map_of (rev kvs)"
proof (induction kvs rule: rev_induct)
  case (snoc x kvs)
  then show ?case by (cases x) (simp add: mk_dict_snoc map_of_dput)
qed (simp add: mk_dict_def)

lemma wf_ddel: "wf_dict d \<Longrightarrow> wf_dict (ddel k d)"
  unfolding wf_dict_def ddel_def
  by (induction d) auto

lemma map_of_ddel: "map_of (ddel k d) k' = (if k' = k then None else map_of d k')"
  by (induction d) (auto simp: ddel_def)

lemma keys_of_iff: "k \<in> keys_of d \<longleftrightarrow> map_of d k \<noteq> None"
  by (auto simp: keys_of_def map_of_eq_None_iff)

lemma wf_dict_eqI:
  assumes "wf_dict d" "wf_dict e" "map_of d = map_of e"
  shows "d = e"
  using assms
proof (induction d arbitrary: e)
  case Nil
  then have "map_of e = Map.empty" by simp
  then show ?case by simp
next
  case (Cons p d)
  obtain k v where p: "p = (k, v)" by force
  have "map_of e \<noteq> Map.empty"
    using Cons.prems(3) by (metis list.distinct(1) map_of_eq_empty_iff)
  then obtain k' v' e' where e: "e = (k', v') # e'"
    by (cases e) auto
  have lt: "\<forall>x \<in> fst ` set d. k < x" "\<forall>x \<in> fst ` set e'. k' < x"
    using Cons.prems(1,2) by (auto simp: p e wf_dict_def)
  have "map_of e k = Some v" "map_of (p # d) k' = Some v'"
    using fun_cong [OF Cons.prems(3), of k] fun_cong [OF Cons.prems(3), of k']
    by (simp_all add: p e)
  then have "k \<in> fst ` set e" "k' \<in> fst ` set (p # d)"
    by (metis domI dom_map_of_conv_image_fst)+
  with lt have kk: "k = k'"
    by (metis (no_types, lifting) e fst_conv image_insert insertE less_asym list.simps(15) p)
  have "map_of d x = map_of e' x" for x
  proof (cases "x = k")
    case True
    with lt kk have "map_of d x = None" "map_of e' x = None"
      by (auto simp: map_of_eq_None_iff)
    then show ?thesis by simp
  next
    case False
    with fun_cong [OF Cons.prems(3), of x] kk show ?thesis by (simp add: p e)
  qed
  moreover have "v = v'" using fun_cong [OF Cons.prems(3), of k] kk by (simp add: p e)
  ultimately show ?case
    using Cons.IH [of e'] Cons.prems(1,2) kk by (auto simp: p e wf_dict_def)
qed

section \<open>Type tests and equality\<close>

text \<open>
  In Python \<^verbatim>\<open>bool\<close> is a subclass of \<^verbatim>\<open>int\<close>: \<^verbatim>\<open>isinstance(True, int)\<close> holds and
  \<^verbatim>\<open>True == 1\<close>.  \<open>is_pyint\<close> is the bare \<^verbatim>\<open>isinstance\<close> test and \<open>is_int_nb\<close> the one
  that excludes booleans first.
\<close>

fun is_str :: "json \<Rightarrow> bool" where
  "is_str (JStr _) = True" | "is_str _ = False"

fun is_int_nb :: "json \<Rightarrow> bool" where
  "is_int_nb (JInt _) = True" | "is_int_nb _ = False"

fun is_pyint :: "json \<Rightarrow> bool" where
  "is_pyint (JInt _) = True" | "is_pyint (JBool _) = True" | "is_pyint _ = False"

fun is_bool :: "json \<Rightarrow> bool" where
  "is_bool (JBool _) = True" | "is_bool _ = False"

fun is_list :: "json \<Rightarrow> bool" where
  "is_list (JList _) = True" | "is_list _ = False"

fun is_obj :: "json \<Rightarrow> bool" where
  "is_obj (JObj _) = True" | "is_obj _ = False"

fun str_of :: "json \<Rightarrow> string" where
  "str_of (JStr s) = s" | "str_of _ = []"

fun int_of :: "json \<Rightarrow> int" where
  "int_of (JInt i) = i" | "int_of (JBool b) = (if b then 1 else 0)" | "int_of _ = 0"

fun list_of :: "json \<Rightarrow> json list" where
  "list_of (JList xs) = xs" | "list_of _ = []"

fun obj_of :: "json \<Rightarrow> dict" where
  "obj_of (JObj d) = d" | "obj_of _ = []"

primrec py_norm :: "json \<Rightarrow> json" where
  "py_norm JNull = JNull"
| "py_norm (JBool b) = JInt (if b then 1 else 0)"
| "py_norm (JInt i) = JInt i"
| "py_norm (JFloat t) = JFloat t"
| "py_norm (JStr s) = JStr s"
| "py_norm (JList xs) = JList (map py_norm xs)"
| "py_norm (JObj d) = JObj (map (map_prod id py_norm) d)"

definition py_eq :: "json \<Rightarrow> json \<Rightarrow> bool" where
  "py_eq a b = (py_norm a = py_norm b)"

lemma py_eq_refl [simp]: "py_eq a a"
  by (simp add: py_eq_def)

lemma py_eq_JStr [simp]: "py_eq j (JStr s) \<longleftrightarrow> j = JStr s"
  by (cases j) (auto simp: py_eq_def)

lemma py_eq_JNull [simp]: "py_eq j JNull \<longleftrightarrow> j = JNull"
  by (cases j) (auto simp: py_eq_def)

lemma py_eq_JInt: "py_eq j (JInt i) \<longleftrightarrow> j = JInt i \<or> (i = 1 \<and> j = JBool True) \<or> (i = 0 \<and> j = JBool False)"
  by (cases j) (auto simp: py_eq_def)

section \<open>Printing\<close>

text \<open>
  \<^verbatim>\<open>json.dumps(value, sort_keys=True)\<close> in the styles the program uses: compact separators,
  or \<^verbatim>\<open>indent=2\<close>.
\<close>

datatype style = Compact | Indented

definition hex4 :: "nat \<Rightarrow> string" where
  "hex4 n = [hex_digit (n div 4096 mod 16), hex_digit (n div 256 mod 16),
             hex_digit (n div 16 mod 16), hex_digit (n mod 16)]"

definition esc_char :: "char \<Rightarrow> string" where
  "esc_char c =
    (if c = CHR 0x22 then [CHR 0x5C, CHR 0x22]
     else if c = CHR 0x5C then [CHR 0x5C, CHR 0x5C]
     else if c = CHR 0x0A then [CHR 0x5C, CHR ''n'']
     else if c = CHR 0x0D then [CHR 0x5C, CHR ''r'']
     else if c = CHR 0x09 then [CHR 0x5C, CHR ''t'']
     else if c = CHR 0x08 then [CHR 0x5C, CHR ''b'']
     else if c = CHR 0x0C then [CHR 0x5C, CHR ''f'']
     else if ord c < 32 then [CHR 0x5C, CHR ''u''] @ hex4 (ord c)
     else [c])"

definition quote_str :: "string \<Rightarrow> string" where
  "quote_str s = CHR 0x22 # concat (map esc_char s) @ [CHR 0x22]"

definition newline :: "style \<Rightarrow> nat \<Rightarrow> string" where
  "newline st lvl = (case st of Compact \<Rightarrow> [] | Indented \<Rightarrow> CHR 0x0A # replicate (2 * lvl) (CHR '' ''))"

definition colon :: "style \<Rightarrow> string" where
  "colon st = (case st of Compact \<Rightarrow> '':'' | Indented \<Rightarrow> '': '')"

fun dump_items :: "style \<Rightarrow> nat \<Rightarrow> string list \<Rightarrow> string" where
  "dump_items st lvl [] = newline st (lvl - 1)"
| "dump_items st lvl [x] = newline st lvl @ x @ newline st (lvl - 1)"
| "dump_items st lvl (x # y # ys) = newline st lvl @ x @ '','' @ dump_items st lvl (y # ys)"

fun dump :: "style \<Rightarrow> nat \<Rightarrow> json \<Rightarrow> string" where
  "dump st lvl JNull = ''null''"
| "dump st lvl (JBool b) = (if b then ''true'' else ''false'')"
| "dump st lvl (JInt i) = dec_int i"
| "dump st lvl (JFloat t) = t"
| "dump st lvl (JStr s) = quote_str s"
| "dump st lvl (JList xs) =
     (if xs = [] then ''[]''
      else ''['' @ dump_items st (Suc lvl) (map (dump st (Suc lvl)) xs) @ '']'')"
| "dump st lvl (JObj d) =
     (if d = [] then ''{}''
      else ''{'' @ dump_items st (Suc lvl)
             (map (\<lambda>(k, v). quote_str k @ colon st @ dump st (Suc lvl) v) d) @ ''}'')"

text \<open>\<open>canonical_json_bytes\<close> of \<^verbatim>\<open>util.py\<close>, and the text \<open>atomic_write_json\<close> writes.\<close>

definition canonical_json_bytes :: "json \<Rightarrow> string res" where
  "canonical_json_bytes v = encode_utf8 (dump Compact 0 v)"

definition indented_json_bytes :: "json \<Rightarrow> string res" where
  "indented_json_bytes v = rbind (encode_utf8 (dump Indented 0 v)) (\<lambda>b. Inr (b @ [CHR 0x0A]))"

section \<open>Parsing\<close>

datatype jerr = JInvalid | JNonFinite string | JDup string | JFuel

definition is_ws :: "char \<Rightarrow> bool" where
  "is_ws c = (c = CHR '' '' \<or> c = CHR 0x09 \<or> c = CHR 0x0A \<or> c = CHR 0x0D)"

definition skip_ws :: "string \<Rightarrow> string" where
  "skip_ws s = dropWhile is_ws s"

definition utf8_enc :: "nat \<Rightarrow> string" where
  "utf8_enc n =
    (if n < 128 then [char_of n]
     else if n < 2048 then [char_of (192 + n div 64), char_of (128 + n mod 64)]
     else if n < 65536 then [char_of (224 + n div 4096), char_of (128 + n div 64 mod 64),
                             char_of (128 + n mod 64)]
     else [char_of (240 + n div 262144), char_of (128 + n div 4096 mod 64),
           char_of (128 + n div 64 mod 64), char_of (128 + n mod 64)])"

definition hex4_val :: "char \<Rightarrow> char \<Rightarrow> char \<Rightarrow> char \<Rightarrow> nat option" where
  "hex4_val a b c d =
    (case (hex_val a, hex_val b, hex_val c, hex_val d) of
       (Some w, Some x, Some y, Some z) \<Rightarrow> Some (4096 * w + 256 * x + 16 * y + z)
     | _ \<Rightarrow> None)"

definition simple_escape :: "char \<Rightarrow> char option" where
  "simple_escape e =
    (if e = CHR 0x22 then Some (CHR 0x22) else if e = CHR 0x5C then Some (CHR 0x5C)
     else if e = CHR ''/'' then Some (CHR ''/'') else if e = CHR ''n'' then Some (CHR 0x0A)
     else if e = CHR ''r'' then Some (CHR 0x0D) else if e = CHR ''t'' then Some (CHR 0x09)
     else if e = CHR ''b'' then Some (CHR 0x08) else if e = CHR ''f'' then Some (CHR 0x0C)
     else None)"

text \<open>A \<^verbatim>\<open>\u\<close> escape, with the low half of a surrogate pair if one follows.\<close>

definition unicode_escape :: "string \<Rightarrow> (string \<times> string) option" where
  "unicode_escape r =
    (case r of a # b # c # d # r1 \<Rightarrow>
       (case hex4_val a b c d of None \<Rightarrow> None
        | Some u \<Rightarrow>
          (case r1 of e0 # e1 # e # f # g # h # r2 \<Rightarrow>
             (case hex4_val e f g h of
                Some v \<Rightarrow>
                  if 55296 \<le> u \<and> u < 56320 \<and> e0 = CHR 0x5C \<and> e1 = CHR ''u''
                     \<and> 56320 \<le> v \<and> v < 57344
                  then Some (utf8_enc (65536 + 1024 * (u - 55296) + (v - 56320)), r2)
                  else Some (utf8_enc u, r1)
              | None \<Rightarrow> Some (utf8_enc u, r1))
           | _ \<Rightarrow> Some (utf8_enc u, r1)))
     | _ \<Rightarrow> None)"

lemma unicode_escape_length: "unicode_escape r = Some (u, r') \<Longrightarrow> length r' < length r"
  by (auto simp: unicode_escape_def split: list.splits option.splits if_splits)

function parse_str :: "string \<Rightarrow> (string \<times> string) option" where
  "parse_str s =
    (case s of [] \<Rightarrow> None
     | c # r \<Rightarrow>
       if c = CHR 0x22 then Some ([], r)
       else if c = CHR 0x5C then
         (case r of [] \<Rightarrow> None
          | e # r1 \<Rightarrow>
            if e = CHR ''u'' then
              (case unicode_escape r1 of None \<Rightarrow> None
               | Some (u, r2) \<Rightarrow> map_option (map_prod (append u) id) (parse_str r2))
            else
              (case simple_escape e of None \<Rightarrow> None
               | Some x \<Rightarrow> map_option (map_prod (Cons x) id) (parse_str r1)))
       else if ord c < 32 then None
       else map_option (map_prod (Cons c) id) (parse_str r))"
  by pat_completeness auto
termination
  by (relation "measure length") (auto dest: unicode_escape_length)

declare parse_str.simps [simp del]

definition span_digits :: "string \<Rightarrow> string \<times> string" where
  "span_digits s = (takeWhile is_digit s, dropWhile is_digit s)"

text \<open>The integer part, the fraction and the exponent of a number, each maximal.\<close>

definition frac_part :: "string \<Rightarrow> string \<times> string" where
  "frac_part s =
    (case s of c # r \<Rightarrow>
       if c = CHR ''.'' \<and> fst (span_digits r) \<noteq> []
       then (c # fst (span_digits r), snd (span_digits r)) else ([], s)
     | [] \<Rightarrow> ([], s))"

definition exp_part :: "string \<Rightarrow> string \<times> string" where
  "exp_part s =
    (case s of c # r \<Rightarrow>
       if c = CHR ''e'' \<or> c = CHR ''E'' then
         (let sgn = (case r of x # _ \<Rightarrow> if x = CHR ''+'' \<or> x = CHR ''-'' then [x] else [] | [] \<Rightarrow> []);
              r1 = drop (length sgn) r
          in if fst (span_digits r1) \<noteq> []
             then (c # sgn @ fst (span_digits r1), snd (span_digits r1)) else ([], s))
       else ([], s)
     | [] \<Rightarrow> ([], s))"

definition int_part :: "string \<Rightarrow> (string \<times> string) option" where
  "int_part s =
    (case s of [] \<Rightarrow> None
     | c # r \<Rightarrow> if c = CHR ''0'' then Some ([c], r)
                else if is_digit c then Some (span_digits s) else None)"

definition parse_number :: "string \<Rightarrow> jerr + json \<times> string" where
  "parse_number s =
    (let neg = (case s of c # _ \<Rightarrow> c = CHR ''-'' | [] \<Rightarrow> False);
         s1 = (if neg then tl s else s)
     in case int_part s1 of None \<Rightarrow> Inl JInvalid
        | Some (ip, s2) \<Rightarrow>
          (let (fp, s3) = frac_part s2; (ep, s4) = exp_part s3
           in if fp = [] \<and> ep = [] then
                (if length ip > 4300 then Inl JInvalid
                 else Inr (JInt (if neg then - int (nat_of_dec ip) else int (nat_of_dec ip)), s4))
              else Inr (JFloat ((if neg then ''-'' else []) @ ip @ fp @ ep), s4)))"

text \<open>\<open>_reject_duplicate_keys\<close> of \<^verbatim>\<open>util.py\<close>, the hook called on every object.\<close>

fun reject_duplicate_keys :: "(string \<times> json) list \<Rightarrow> dict \<Rightarrow> jerr + dict" where
  "reject_duplicate_keys [] d = Inr d"
| "reject_duplicate_keys ((k, v) # ps) d =
     (if dhas d k then Inl (JDup k) else reject_duplicate_keys ps (dput k v d))"

text \<open>
  The recursive decoder.  The flag says whether \<^verbatim>\<open>NaN\<close> and \<^verbatim>\<open>Infinity\<close> are accepted (the
  default of \<^verbatim>\<open>json.loads\<close>) or raise (\<open>parse_constant\<close> of the strict reader).  The first
  argument is fuel; \<open>parse_fuel\<close> below shows that \<^verbatim>\<open>2 * length + 2\<close> is always enough.
\<close>

definition constants :: "(string \<times> json option) list" where
  "constants = [(''null'', Some JNull), (''true'', Some (JBool True)), (''false'', Some (JBool False)),
     (''NaN'', None), (''Infinity'', None), (''-Infinity'', None)]"

definition parse_scalar :: "bool \<Rightarrow> string \<Rightarrow> jerr + json \<times> string" where
  "parse_scalar nan s =
    (case find (\<lambda>(w, _). prefix w s) constants of
       Some (w, Some v) \<Rightarrow> Inr (v, drop (length w) s)
     | Some (w, None) \<Rightarrow> (if nan then Inr (JFloat w, drop (length w) s) else Inl (JNonFinite w))
     | None \<Rightarrow> parse_number s)"

fun parse_value :: "bool \<Rightarrow> nat \<Rightarrow> string \<Rightarrow> jerr + json \<times> string"
  and parse_elems :: "bool \<Rightarrow> nat \<Rightarrow> string \<Rightarrow> jerr + json list \<times> string"
  and parse_members :: "bool \<Rightarrow> nat \<Rightarrow> string \<Rightarrow> jerr + (string \<times> json) list \<times> string" where
  "parse_value nan 0 s = Inl JFuel"
| "parse_value nan (Suc n) s =
    (case s of [] \<Rightarrow> Inl JInvalid
     | c # r \<Rightarrow>
       if c = CHR 0x22 then
         (case parse_str r of None \<Rightarrow> Inl JInvalid | Some (t, r') \<Rightarrow> Inr (JStr t, r'))
       else if c = CHR ''['' then
         (if prefix '']'' (skip_ws r) then Inr (JList [], tl (skip_ws r))
          else rbind (parse_elems nan n (skip_ws r)) (\<lambda>(xs, r'). Inr (JList xs, r')))
       else if c = CHR ''{'' then
         (if prefix ''}'' (skip_ws r) then Inr (JObj [], tl (skip_ws r))
          else rbind (parse_members nan n (skip_ws r)) (\<lambda>(ps, r').
               rbind (reject_duplicate_keys ps []) (\<lambda>d. Inr (JObj d, r'))))
       else parse_scalar nan s)"
| "parse_elems nan 0 s = Inl JFuel"
| "parse_elems nan (Suc n) s =
    rbind (parse_value nan n s) (\<lambda>(x, r).
      if prefix '']'' (skip_ws r) then Inr ([x], tl (skip_ws r))
      else if prefix '','' (skip_ws r) then
        rbind (parse_elems nan n (skip_ws (tl (skip_ws r)))) (\<lambda>(xs, r'). Inr (x # xs, r'))
      else Inl JInvalid)"
| "parse_members nan 0 s = Inl JFuel"
| "parse_members nan (Suc n) s =
    (if \<not> prefix [CHR 0x22] s then Inl JInvalid
     else case parse_str (tl s) of None \<Rightarrow> Inl JInvalid
       | Some (k, r) \<Rightarrow>
         if \<not> prefix '':'' (skip_ws r) then Inl JInvalid
         else rbind (parse_value nan n (skip_ws (tl (skip_ws r)))) (\<lambda>(v, r1).
           if prefix ''}'' (skip_ws r1) then Inr ([(k, v)], tl (skip_ws r1))
           else if prefix '','' (skip_ws r1) then
             rbind (parse_members nan n (skip_ws (tl (skip_ws r1)))) (\<lambda>(ps, r2). Inr ((k, v) # ps, r2))
           else Inl JInvalid))"

definition json_loads :: "bool \<Rightarrow> string \<Rightarrow> jerr + json" where
  "json_loads nan s =
    rbind (parse_value nan (2 * length s + 2) (skip_ws s)) (\<lambda>(v, r).
      if skip_ws r = [] then Inr v else Inl JInvalid)"

text \<open>\<open>strict_json_loads\<close> of \<^verbatim>\<open>util.py\<close>.\<close>

fun jerr_feed :: "jerr \<Rightarrow> exn" where
  "jerr_feed (JDup k) = FeedError (''duplicate JSON key rejected: '' @ k)"
| "jerr_feed (JNonFinite w) = FeedError (''non-finite JSON number rejected: '' @ w)"
| "jerr_feed _ = FeedError ''invalid JSON''"

definition strict_json_loads :: "string \<Rightarrow> json res" where
  "strict_json_loads raw =
    (case decode_utf8 raw of None \<Rightarrow> Inl (FeedError ''JSON must be valid UTF-8'')
     | Some text \<Rightarrow> (case json_loads False text of Inl e \<Rightarrow> Inl (jerr_feed e) | Inr v \<Rightarrow> Inr v))"

end
