(* ===== verification/Json_Roundtrip.thy ===== *)
theory Json_Roundtrip
  imports Json
begin

text \<open>
  Facts about the JSON reader and writer: the fuel of the decoder always suffices, whatever it
  returns is well formed, and reading back what either printing style writes gives the value
  again.
\<close>

section \<open>Fuel\<close>

lemma skip_ws_length: "length (skip_ws s) \<le> length s"
  by (simp add: skip_ws_def length_dropWhile_le)

lemma parse_str_length: "parse_str s = Some (t, r) \<Longrightarrow> length r < length s"
proof (induction s arbitrary: t r rule: parse_str.induct)
  case (1 s)
  then show ?case
    by (subst (asm) (4) parse_str.simps)
       (fastforce split: list.splits if_splits option.splits dest: unicode_escape_length)
qed

lemma span_digits_append: "fst (span_digits s) @ snd (span_digits s) = s"
  by (simp add: span_digits_def)

lemma span_digits_length: "length (snd (span_digits s)) \<le> length s"
  by (simp add: span_digits_def length_dropWhile_le)

lemma frac_part_length: "frac_part s = (x, r) \<Longrightarrow> length r \<le> length s"
  by (cases s) (auto simp: frac_part_def le_SucI span_digits_length split: if_splits)

lemma exp_part_length: "exp_part s = (x, r) \<Longrightarrow> length r \<le> length s"
proof (cases s)
  case (Cons c cs)
  assume e: "exp_part s = (x, r)"
  have "length (snd (span_digits (drop n cs))) \<le> length s" for n
    using span_digits_length [of "drop n cs"] Cons by simp
  with e Cons show ?thesis
    by (auto simp: exp_part_def Let_def split: if_splits)
qed (simp add: exp_part_def)

lemma int_part_length: "int_part s = Some (x, r) \<Longrightarrow> length r < length s"
proof (cases s)
  case (Cons c cs)
  assume e: "int_part s = Some (x, r)"
  have "length (dropWhile is_digit cs) < length s"
    using length_dropWhile_le [of is_digit cs] Cons by simp
  with e Cons show ?thesis
    by (auto simp: int_part_def span_digits_def split: if_splits)
qed (simp add: int_part_def)

lemma parse_number_length: "parse_number s = Inr (v, r) \<Longrightarrow> length r < length s"
  by (cases s)
     (auto simp: parse_number_def Let_def split: option.splits if_splits prod.splits
       dest!: int_part_length frac_part_length exp_part_length)

lemma constants_nonempty: "find (\<lambda>(w, _). prefix w s) constants = Some (w, x) \<Longrightarrow>
   prefix w s \<and> w \<noteq> []"
  by (auto simp: constants_def split: if_splits)

lemma parse_scalar_length: "parse_scalar nan s = Inr (v, r) \<Longrightarrow> length r < length s"
proof -
  have d: "length s - length w < length s" if "prefix w s" "w \<noteq> []" for w
    using that by (cases s; cases w) auto
  assume "parse_scalar nan s = Inr (v, r)"
  then show ?thesis
    unfolding parse_scalar_def
    by (auto split: option.splits prod.splits if_splits
        dest!: constants_nonempty parse_number_length simp: d)
qed

lemma tl_length: "prefix (c # cs) s \<Longrightarrow> length (tl s) < length s"
  by (cases s) auto

lemma skip_tl_length: "prefix (c # cs) (skip_ws s) \<Longrightarrow> length (tl (skip_ws s)) < length s"
  using tl_length [of c cs "skip_ws s"] skip_ws_length [of s] by linarith

lemma skip_tl_skip_length: "prefix (c # cs) (skip_ws s) \<Longrightarrow>
    length (skip_ws (tl (skip_ws s))) < length s"
  using skip_tl_length [of c cs s] skip_ws_length [of "tl (skip_ws s)"] by linarith

lemma parse_shorter:
  "parse_value nan n s = Inr (v, r) \<Longrightarrow> length r < length s"
  "parse_elems nan n s = Inr (xs, r1) \<Longrightarrow> length r1 < length s"
  "parse_members nan n s = Inr (ps, r2) \<Longrightarrow> length r2 < length s"
proof (induction nan n s and nan n s and nan n s
    arbitrary: v r and xs r1 and ps r2
    rule: parse_value_parse_elems_parse_members.induct)
  case (2 nan n s)
  show ?case
  proof (cases s)
    case Nil
    with "2.prems" show ?thesis by simp
  next
    case (Cons c t)
    have sk: "length (skip_ws t) \<le> length t" by (rule skip_ws_length)
    show ?thesis
      using "2.prems" "2.IH" [OF Cons] sk Cons
      by (fastforce simp: rbind_Inr_iff split: if_splits option.splits prod.splits
          dest: parse_str_length parse_scalar_length skip_tl_length)
  qed
next
  case (4 nan n s)
  from "4.prems" obtain x r where x: "parse_value nan n s = Inr (x, r)"
    by (auto simp: rbind_Inr_iff)
  have l: "length r < length s" using "4.IH"(1) x by simp
  show ?case
  proof (cases "prefix '']'' (skip_ws r)")
    case True
    with "4.prems" x l skip_tl_length [OF True] show ?thesis by simp
  next
    case False
    with "4.prems" x obtain ys where c: "prefix '','' (skip_ws r)"
      and e: "parse_elems nan n (skip_ws (tl (skip_ws r))) = Inr (ys, r1)"
      by (auto simp: rbind_Inr_iff split: if_splits)
    from "4.IH"(2) [OF x refl False c e] l skip_tl_skip_length [OF c] show ?thesis by simp
  qed
next
  case (6 nan n s)
  from "6.prems" obtain k r where q: "prefix [CHR 0x22] s" and k: "parse_str (tl s) = Some (k, r)"
    and c: "prefix '':'' (skip_ws r)"
    by (auto split: if_splits option.splits)
  from "6.prems" q k c obtain v r1 where
    v: "parse_value nan n (skip_ws (tl (skip_ws r))) = Inr (v, r1)"
    by (auto simp: rbind_Inr_iff)
  have l: "length r1 < length s"
    using "6.IH"(1) [OF _ k refl _ v] q c parse_str_length [OF k] skip_tl_skip_length [OF c]
      tl_length [OF q] by simp
  show ?case
  proof (cases "prefix ''}'' (skip_ws r1)")
    case True
    with "6.prems" q k c v l skip_tl_length [OF True] show ?thesis by simp
  next
    case False
    with "6.prems" q k c v obtain qs where m: "prefix '','' (skip_ws r1)"
      and e: "parse_members nan n (skip_ws (tl (skip_ws r1))) = Inr (qs, r2)"
      by (auto simp: rbind_Inr_iff split: if_splits)
    have "length r2 < length (skip_ws (tl (skip_ws r1)))"
      by (rule "6.IH"(2) [OF _ k refl _ v refl False m e]) (use q c in simp_all)
    with l skip_tl_skip_length [OF m] show ?thesis by simp
  qed
qed simp_all

text \<open>With two units of fuel per character the decoder never runs out.\<close>

lemma parse_fuel:
  "2 * length s + 1 \<le> n \<Longrightarrow> parse_value nan n s \<noteq> Inl JFuel"
  "2 * length s + 2 \<le> n \<Longrightarrow> parse_elems nan n s \<noteq> Inl JFuel"
  "2 * length s + 2 \<le> n \<Longrightarrow> parse_members nan n s \<noteq> Inl JFuel"
proof (induction nan n s and nan n s and nan n s
    rule: parse_value_parse_elems_parse_members.induct)
  case (2 nan n s)
  have dup: "reject_duplicate_keys ps d \<noteq> Inl JFuel" for ps d
    by (induction ps d rule: reject_duplicate_keys.induct) auto
  have sc: "parse_scalar nan s \<noteq> Inl JFuel"
    by (auto simp: parse_scalar_def parse_number_def Let_def split: option.splits prod.splits if_splits)
  show ?case
  proof (cases s)
    case (Cons c t)
    have "2 * length (skip_ws t) + 2 \<le> n"
      using skip_ws_length [of t] "2.prems" Cons by simp
    then show ?thesis
      using "2.IH" [OF Cons] sc dup Cons
      by (auto simp: rbind_Inl_iff split: option.splits prod.splits)
  qed simp
next
  case (4 nan n s)
  show ?case
  proof (cases "parse_value nan n s")
    case (Inl e)
    with 4 show ?thesis by (auto simp: rbind_Inl_iff)
  next
    case (Inr p)
    obtain x r where p: "p = (x, r)" by force
    have l: "length r < length s" using parse_shorter(1) Inr p by simp
    have "parse_elems nan n (skip_ws (tl (skip_ws r))) \<noteq> Inl JFuel"
      if "\<not> prefix '']'' (skip_ws r)" "prefix '','' (skip_ws r)"
      using "4.IH"(2) [OF _ _ that, of "(x, r)" x] Inr p l skip_tl_skip_length [OF that(2)] "4.prems" by simp
    with Inr p show ?thesis by (auto simp: rbind_Inl_iff)
  qed
next
  case (6 nan n s)
  have "parse_value nan n (skip_ws (tl (skip_ws r))) \<noteq> Inl JFuel"
    if "prefix [CHR 0x22] s" "parse_str (tl s) = Some (k, r)" "prefix '':'' (skip_ws r)" for k r
  proof -
    have "length r < length s" using parse_str_length [OF that(2)] tl_length [OF that(1)] by simp
    with skip_tl_skip_length [OF that(3)] "6.prems"
    have "2 * length (skip_ws (tl (skip_ws r))) + 1 \<le> n" by simp
    with "6.IH"(1) that show ?thesis by simp
  qed
  moreover have "parse_members nan n (skip_ws (tl (skip_ws r1))) \<noteq> Inl JFuel"
    if "prefix [CHR 0x22] s" "parse_str (tl s) = Some (k, r)" "prefix '':'' (skip_ws r)"
      "parse_value nan n (skip_ws (tl (skip_ws r))) = Inr (v, r1)"
      "\<not> prefix ''}'' (skip_ws r1)" "prefix '','' (skip_ws r1)" for k r v r1
  proof -
    have "length r1 < length s"
      using parse_str_length [OF that(2)] tl_length [OF that(1)] skip_tl_skip_length [OF that(3)]
        parse_shorter(1) [OF that(4)] by simp
    with skip_tl_skip_length [OF that(6)] "6.prems"
    have "2 * length (skip_ws (tl (skip_ws r1))) + 2 \<le> n" by simp
    with "6.IH"(2) [OF _ that(2) refl _ that(4) refl that(5,6)] that(1,3) show ?thesis by simp
  qed
  ultimately show ?case
    by (auto simp: rbind_Inl_iff split: option.splits)
qed simp_all

theorem json_loads_total: "json_loads nan s \<noteq> Inl JFuel"
proof -
  have "2 * length (skip_ws s) + 1 \<le> 2 * length s + 2"
    using skip_ws_length [of s] by simp
  from parse_fuel(1) [OF this] show ?thesis
    by (auto simp: json_loads_def rbind_Inl_iff split: if_splits)
qed

section \<open>Well-formed values\<close>

primrec wf_json :: "json \<Rightarrow> bool" where
  "wf_json JNull = True"
| "wf_json (JBool b) = True"
| "wf_json (JInt i) = (length (dec_nat (nat \<bar>i\<bar>)) \<le> 4300)"
| "wf_json (JFloat t) = False"
| "wf_json (JStr s) = True"
| "wf_json (JList xs) = list_all id (map wf_json xs)"
| "wf_json (JObj d) = (wf_dict d \<and> list_all snd (map (map_prod id wf_json) d))"

lemma wf_json_JList [simp]: "wf_json (JList xs) \<longleftrightarrow> (\<forall>x \<in> set xs. wf_json x)"
  by (auto simp: list_all_iff)

lemma wf_json_JObj [simp]:
  "wf_json (JObj d) \<longleftrightarrow> wf_dict d \<and> (\<forall>(k, v) \<in> set d. wf_json v)"
  by (auto simp: list_all_iff)

declare wf_json.simps(6,7) [simp del]

lemma reject_duplicate_keys_wf:
  "reject_duplicate_keys ps d = Inr e \<Longrightarrow> wf_dict d \<Longrightarrow> wf_dict e"
  by (induction ps d rule: reject_duplicate_keys.induct) (auto split: if_splits simp: wf_dput)

text \<open>The hook accepts exactly the objects without a repeated key.\<close>

lemma reject_duplicate_keys_distinct:
  assumes "wf_dict d" and "distinct (map fst ps)" and "fst ` set ps \<inter> fst ` set d = {}"
  shows "\<exists>e. reject_duplicate_keys ps d = Inr e \<and> wf_dict e \<and>
           map_of e = map_of d ++ map_of (rev ps)"
  using assms
proof (induction ps arbitrary: d)
  case (Cons p ps)
  obtain k v where p: "p = (k, v)" by force
  have nk: "\<not> dhas d k" using Cons.prems(3) by (auto simp: p dhas_def map_of_eq_None_iff)
  have "fst ` set ps \<inter> fst ` set (dput k v d) = {}"
    using Cons.prems(2,3) keys_dput [of k v d] by (auto simp: p)
  from Cons.IH [OF wf_dput [OF Cons.prems(1)] _ this] Cons.prems(2)
  obtain e where e: "reject_duplicate_keys ps (dput k v d) = Inr e" "wf_dict e"
    "map_of e = map_of (dput k v d) ++ map_of (rev ps)" by auto
  have "k \<notin> fst ` set ps" using Cons.prems(2) by (simp add: p)
  then have "map_of (rev ps) k = None" by (simp add: map_of_eq_None_iff)
  with e nk Cons.prems(1) show ?case
    by (auto simp: p map_of_dput fun_eq_iff map_add_def split: option.splits)
qed simp

lemma reject_duplicate_keys_self:
  assumes "wf_dict d"
  shows "reject_duplicate_keys d [] = Inr d"
proof -
  have dist: "distinct (map fst d)"
    using assms by (auto simp: wf_dict_def strict_sorted_iff)
  obtain e where e: "reject_duplicate_keys d [] = Inr e" "wf_dict e" "map_of e = map_of (rev d)"
    using reject_duplicate_keys_distinct [of "[]" d] dist by auto
  have "map_of (rev d) = map_of d"
    using dist by (subst map_of_inject_set) (simp_all add: rev_map [symmetric])
  with e assms show ?thesis by (metis wf_dict_eqI)
qed

section \<open>Round trip\<close>

lemma utf8_enc_ctrl: "ord c < 32 \<Longrightarrow> utf8_enc (ord c) = [c]"
  by (simp add: utf8_enc_def ord_def)

lemma hex4_val_hex4:
  assumes "n < 32"
  shows "hex4_val (hex_digit (n div 4096 mod 16)) (hex_digit (n div 256 mod 16))
           (hex_digit (n div 16 mod 16)) (hex_digit (n mod 16)) = Some n"
proof -
  have z: "n div 4096 = 0" "n div 256 = 0" using assms by simp_all
  have m: "n div 16 mod 16 = n div 16" using assms by simp
  have l: "n div 16 < 16" using assms by simp
  show ?thesis by (simp only: z m) (simp add: hex4_val_def hex_val_digit l)
qed

lemma unicode_escape_ctrl: "ord c < 32 \<Longrightarrow> unicode_escape (hex4 (ord c) @ r) = Some ([c], r)"
  using hex4_val_hex4 [of "ord c"]
  by (auto simp: unicode_escape_def hex4_def utf8_enc_ctrl split: list.splits option.splits)

lemma parse_str_esc:
  "parse_str (esc_char c @ r) = map_option (map_prod (Cons c) id) (parse_str r)"
proof -
  have p: "parse_str (CHR 0x5C # e # r)
            = map_option (map_prod (Cons (the (simple_escape e))) id) (parse_str r)"
    if "simple_escape e \<noteq> None" "e \<noteq> CHR ''u''" for e
    using that by (subst parse_str.simps) auto
  have u: "parse_str (CHR 0x5C # CHR ''u'' # hex4 (ord c) @ r)
            = map_option (map_prod (Cons c) id) (parse_str r)" if "ord c < 32"
  proof -
    have "(@) [c] = (#) c" by (rule ext) simp
    with unicode_escape_ctrl [OF that, of r] show ?thesis by (subst parse_str.simps) simp
  qed
  have n: "parse_str (c # r) = map_option (map_prod (Cons c) id) (parse_str r)"
    if "c \<noteq> CHR 0x22" "c \<noteq> CHR 0x5C" "\<not> ord c < 32"
    using that by (subst parse_str.simps) simp
  show ?thesis
    by (simp add: esc_char_def n u p simple_escape_def)
qed

lemma parse_str_quote:
  "parse_str (concat (map esc_char s) @ CHR 0x22 # r) = Some (s, r)"
proof (induction s)
  case Nil
  show ?case by (subst parse_str.simps) simp
next
  case (Cons c s)
  then show ?case by (simp add: parse_str_esc)
qed

definition delim :: "string \<Rightarrow> bool" where
  "delim r = (case r of [] \<Rightarrow> True
    | c # _ \<Rightarrow> \<not> is_digit c \<and> c \<noteq> CHR ''.'' \<and> c \<noteq> CHR ''e'' \<and> c \<noteq> CHR ''E'')"

lemma span_digits_all:
  assumes "\<forall>c \<in> set ds. is_digit c" and "delim r"
  shows "span_digits (ds @ r) = (ds, r)"
  using assms
  by (induction ds) (auto simp: span_digits_def delim_def split: list.splits)

lemma frac_part_delim: "delim r \<Longrightarrow> frac_part r = ([], r)"
  by (auto simp: frac_part_def delim_def split: list.splits)

lemma exp_part_delim: "delim r \<Longrightarrow> exp_part r = ([], r)"
  by (auto simp: exp_part_def delim_def split: list.splits)

lemma int_part_dec: "delim r \<Longrightarrow> int_part (dec_nat n @ r) = Some (dec_nat n, r)"
proof -
  assume d: "delim r"
  obtain c cs where c: "dec_nat n = c # cs" by (cases "dec_nat n") auto
  show ?thesis
  proof (cases "c = CHR ''0''")
    case True
    then have "dec_nat n = ''0''" using dec_nat_leading [of n] c by simp
    then show ?thesis by (simp add: int_part_def)
  next
    case False
    have "is_digit c" using dec_nat_digits [of n] c by simp
    with False span_digits_all [OF dec_nat_digits d, of n] c show ?thesis
      by (simp add: int_part_def)
  qed
qed

lemma parse_number_dec:
  assumes "delim r" and "length (dec_nat (nat \<bar>i\<bar>)) \<le> 4300"
  shows "parse_number (dec_int i @ r) = Inr (JInt i, r)"
proof (cases "i < 0")
  case True
  with assms int_part_dec [OF assms(1), of "nat (- i)"] show ?thesis
    by (simp add: parse_number_def dec_int_def frac_part_delim exp_part_delim)
next
  case False
  obtain c cs where c: "dec_nat (nat i) = c # cs" by (cases "dec_nat (nat i)") auto
  have "is_digit c" using dec_nat_digits [of "nat i"] c by simp
  then have "c \<noteq> CHR ''-''" by (auto simp: is_digit_def ord_def)
  moreover have "nat_of_dec (c # cs) = nat i" using c nat_of_dec_nat by metis
  ultimately show ?thesis using False assms int_part_dec [OF assms(1), of "nat i"] c
    by (auto simp: parse_number_def dec_int_def frac_part_delim exp_part_delim)
qed

lemma digit_first: "\<exists>c cs. dec_nat n = c # cs \<and> is_digit c"
  using dec_nat_digits [of n] by (cases "dec_nat n") auto

lemma parse_scalar_int:
  assumes "delim r" and "length (dec_nat (nat \<bar>i\<bar>)) \<le> 4300"
  shows "parse_scalar nan (dec_int i @ r) = Inr (JInt i, r)"
proof -
  have "find (\<lambda>(w, _). prefix w (dec_int i @ r)) constants = None"
    using digit_first [of "nat i"] digit_first [of "nat (- i)"]
    by (auto simp: dec_int_def constants_def is_digit_def ord_def)
  then show ?thesis by (simp add: parse_scalar_def parse_number_dec [OF assms])
qed

lemma skip_ws_newline [simp]: "skip_ws (newline st k @ s) = skip_ws s"
  by (cases st) (auto simp: newline_def skip_ws_def is_ws_def dropWhile_append)

lemma skip_ws_first: "\<not> is_ws c \<Longrightarrow> skip_ws (c # s) = c # s"
  by (simp add: skip_ws_def)

lemma skip_ws_punct [simp]:
  "skip_ws (CHR '']'' # s) = CHR '']'' # s" "skip_ws (CHR ''}'' # s) = CHR ''}'' # s"
  "skip_ws (CHR '','' # s) = CHR '','' # s" "skip_ws (CHR '':'' # s) = CHR '':'' # s"
  "skip_ws (CHR 0x22 # s) = CHR 0x22 # s" "skip_ws [] = []"
  by (simp_all add: skip_ws_def is_ws_def)

lemma delim_newline:
  "c = CHR '']'' \<or> c = CHR ''}'' \<or> c = CHR '','' \<Longrightarrow> delim (newline st k @ c # r)"
  by (cases st) (auto simp: newline_def delim_def is_digit_def ord_def)

lemma delim_Nil [simp]: "delim []"
  by (simp add: delim_def)

lemma dump_first: "wf_json v \<Longrightarrow> \<exists>c cs. dump st l v = c # cs \<and> \<not> is_ws c"
proof (cases v)
  case (JInt i)
  have "\<exists>c cs. dec_nat n = c # cs \<and> \<not> is_ws c" for n
    using digit_first [of n] by (auto simp: is_digit_def is_ws_def ord_def)
  with JInt show ?thesis by (auto simp: dec_int_def is_ws_def)
qed (auto simp: is_ws_def quote_str_def)

definition parses :: "bool \<Rightarrow> style \<Rightarrow> nat \<Rightarrow> json \<Rightarrow> bool" where
  "parses nan st l v \<longleftrightarrow> (\<forall>n r. delim r \<longrightarrow> 2 * length (dump st l v) \<le> n \<longrightarrow>
     parse_value nan n (dump st l v @ r) = Inr (v, r))"

lemma parsesD: "parses nan st l v \<Longrightarrow> delim r \<Longrightarrow> 2 * length (dump st l v) \<le> n \<Longrightarrow>
    parse_value nan n (dump st l v @ r) = Inr (v, r)"
  by (simp add: parses_def)

lemma parse_elems_dump:
  assumes "xs \<noteq> []" and "\<forall>x \<in> set xs. parses nan st l x \<and> wf_json x"
    and "2 * length (dump_items st l (map (dump st l) xs)) + 2 \<le> n"
  shows "parse_elems nan n (skip_ws (dump_items st l (map (dump st l) xs) @ CHR '']'' # r)) = Inr (xs, r)"
  using assms
proof (induction xs arbitrary: n)
  case (Cons x xs)
  obtain m where n: "n = Suc m" using Cons.prems(3) by (cases n) auto
  obtain c cs where c: "dump st l x = c # cs" "\<not> is_ws c"
    using dump_first [of x st l] Cons.prems(2) by auto
  have px: "parses nan st l x" using Cons.prems(2) by simp
  show ?case
  proof (cases xs)
    case Nil
    have le: "2 * length (dump st l x) \<le> m"
      using Cons.prems(3) by (simp add: Nil n)
    have "parse_value nan m (dump st l x @ newline st (l - 1) @ CHR '']'' # r)
            = Inr (x, newline st (l - 1) @ CHR '']'' # r)"
      by (rule parsesD [OF px delim_newline le]) simp
    then show ?thesis by (simp add: Nil n c skip_ws_first)
  next
    case (Cons y ys)
    let ?t = "dump_items st l (map (dump st l) xs)"
    have t: "dump_items st l (map (dump st l) (x # xs)) = newline st l @ dump st l x @ '','' @ ?t"
      by (simp add: Cons)
    have le: "2 * length (dump st l x) \<le> m" "2 * length ?t + 2 \<le> m"
      using Cons.prems(3) [unfolded t] by (simp_all add: n c)
    have d: "delim (CHR '','' # ?t @ CHR '']'' # r)"
      using delim_newline [of "CHR '',''" Compact 0] by (simp add: newline_def)
    have "parse_value nan m (dump st l x @ CHR '','' # ?t @ CHR '']'' # r)
            = Inr (x, CHR '','' # ?t @ CHR '']'' # r)"
      by (rule parsesD [OF px d le(1)])
    moreover have "parse_elems nan m (skip_ws (?t @ CHR '']'' # r)) = Inr (xs, r)"
      using Cons.IH [OF _ _ le(2)] Cons.prems(2) Cons by simp
    ultimately show ?thesis unfolding t by (simp add: n c skip_ws_first)
  qed
qed simp

lemma skip_colon: "\<not> is_ws c \<Longrightarrow> skip_ws (colon st @ c # s) = CHR '':'' # tl (colon st) @ c # s
    \<and> skip_ws (tl (colon st) @ c # s) = c # s"
  by (cases st) (simp_all add: colon_def skip_ws_def is_ws_def)

lemma parse_members_dump:
  assumes "d \<noteq> []" and "\<forall>(k, v) \<in> set d. parses nan st l v \<and> wf_json v"
    and "2 * length (dump_items st l (map (\<lambda>(k, v). quote_str k @ colon st @ dump st l v) d)) + 2 \<le> n"
  shows "parse_members nan n (skip_ws (dump_items st l
           (map (\<lambda>(k, v). quote_str k @ colon st @ dump st l v) d) @ CHR ''}'' # r)) = Inr (d, r)"
  using assms
proof (induction d arbitrary: n)
  case (Cons p d)
  obtain k v where p: "p = (k, v)" by force
  let ?f = "\<lambda>(k, v). quote_str k @ colon st @ dump st l v"
  obtain m where n: "n = Suc m" using Cons.prems(3) by (cases n) auto
  obtain c cs where c: "dump st l v = c # cs" "\<not> is_ws c"
    using dump_first [of v st l] Cons.prems(2) p by auto
  have pv: "parses nan st l v" using Cons.prems(2) p by simp
  have q: "quote_str k = CHR 0x22 # concat (map esc_char k) @ [CHR 0x22]"
    by (simp add: quote_str_def)
  show ?case
  proof (cases d)
    case Nil
    have le: "2 * length (dump st l v) \<le> m"
      using Cons.prems(3) by (simp add: Nil n p q)
    have "parse_value nan m (dump st l v @ newline st (l - 1) @ CHR ''}'' # r)
            = Inr (v, newline st (l - 1) @ CHR ''}'' # r)"
      by (rule parsesD [OF pv delim_newline le]) simp
    then show ?thesis
      by (simp add: Nil n p q c parse_str_quote skip_colon)
  next
    case (Cons p' d')
    let ?t = "dump_items st l (map ?f d)"
    have t: "dump_items st l (map ?f (p # d)) = newline st l @ quote_str k @ colon st @ dump st l v @ '','' @ ?t"
      by (simp add: Cons p)
    have le: "2 * length (dump st l v) \<le> m" "2 * length ?t + 2 \<le> m"
      using Cons.prems(3) [unfolded t] by (simp_all add: n c)
    have d: "delim (CHR '','' # ?t @ CHR ''}'' # r)"
      using delim_newline [of "CHR '',''" Compact 0] by (simp add: newline_def)
    have "parse_value nan m (dump st l v @ CHR '','' # ?t @ CHR ''}'' # r)
            = Inr (v, CHR '','' # ?t @ CHR ''}'' # r)"
      by (rule parsesD [OF pv d le(1)])
    moreover have "parse_members nan m (skip_ws (?t @ CHR ''}'' # r)) = Inr (d, r)"
      using Cons.IH [OF _ _ le(2)] Cons.prems(2) Cons by simp
    ultimately show ?thesis unfolding t by (simp add: n q c parse_str_quote skip_colon p)
  qed
qed simp

lemma parse_words:
  "1 \<le> n \<Longrightarrow> parse_value nan n (CHR ''n'' # CHR ''u'' # CHR ''l'' # CHR ''l'' # r) = Inr (JNull, r)"
  "1 \<le> n \<Longrightarrow> parse_value nan n (CHR ''t'' # CHR ''r'' # CHR ''u'' # CHR ''e'' # r) = Inr (JBool True, r)"
  "1 \<le> n \<Longrightarrow> parse_value nan n (CHR ''f'' # CHR ''a'' # CHR ''l'' # CHR ''s'' # CHR ''e'' # r)
     = Inr (JBool False, r)"
  by (cases n; simp add: parse_scalar_def constants_def)+

lemma parses_dump: "wf_json v \<Longrightarrow> parses nan st l v"
proof (induction v arbitrary: l)
  case (JStr s)
  show ?case
    unfolding parses_def
  proof (intro allI impI)
    fix n r
    assume "2 * length (dump st l (JStr s)) \<le> n"
    then obtain m where "n = Suc m" by (cases n) (auto simp: quote_str_def)
    then show "parse_value nan n (dump st l (JStr s) @ r) = Inr (JStr s, r)"
      by (simp add: quote_str_def parse_str_quote)
  qed
next
  case (JInt i)
  have "\<exists>c cs. dump st l (JInt i) = c # cs \<and> (c = CHR ''-'' \<or> is_digit c)"
    using digit_first [of "nat i"] digit_first [of "nat (- i)"] by (auto simp: dec_int_def)
  then obtain c cs where c: "dump st l (JInt i) = c # cs" "c = CHR ''-'' \<or> is_digit c"
    by blast
  then have "c \<noteq> CHR 0x22" "c \<noteq> CHR ''[''" "c \<noteq> CHR ''{''"
    by (auto simp: is_digit_def ord_def)
  then show ?case
    unfolding parses_def
  proof (intro allI impI)
    fix n r
    assume "delim r" and "2 * length (dump st l (JInt i)) \<le> n"
    then obtain m where "n = Suc m" using c by (cases n) auto
    moreover have "parse_scalar nan (dump st l (JInt i) @ r) = Inr (JInt i, r)"
      using parse_scalar_int [OF \<open>delim r\<close>] JInt by simp
    ultimately show "parse_value nan n (dump st l (JInt i) @ r) = Inr (JInt i, r)"
      using c(1) \<open>c \<noteq> CHR 0x22\<close> \<open>c \<noteq> CHR ''[''\<close> \<open>c \<noteq> CHR ''{''\<close> by simp
  qed
next
  case (JList xs)
  have all: "\<forall>x \<in> set xs. parses nan st (Suc l) x \<and> wf_json x"
    using JList by auto
  show ?case
    unfolding parses_def
  proof (intro allI impI)
    fix n r
    assume le: "2 * length (dump st l (JList xs)) \<le> n"
    then obtain m where m: "n = Suc m" by (cases n) (auto split: if_splits)
    show "parse_value nan n (dump st l (JList xs) @ r) = Inr (JList xs, r)"
    proof (cases "xs = []")
      case True
      then show ?thesis by (simp add: m)
    next
      case False
      let ?t = "dump_items st (Suc l) (map (dump st (Suc l)) xs)"
      have "2 * length ?t + 2 \<le> m" using le False by (simp add: m)
      from parse_elems_dump [OF False all this, of r]
      have e: "parse_elems nan m (skip_ws (?t @ CHR '']'' # r)) = Inr (xs, r)" .
      have "\<not> prefix '']'' (skip_ws (?t @ CHR '']'' # r))"
      proof -
        obtain x ys where xs: "xs = x # ys" using False by (cases xs) auto
        obtain c cs where c: "dump st (Suc l) x = c # cs" "\<not> is_ws c"
          using dump_first [of x st "Suc l"] all xs by auto
        have "c \<noteq> CHR '']''"
          using c(1) digit_first [of "nat (int_of x)"] digit_first [of "nat (- int_of x)"] all xs
          by (cases x) (auto simp: quote_str_def dec_int_def is_digit_def ord_def split: if_splits)
        with xs c show ?thesis by (cases ys) (auto simp: skip_ws_first)
      qed
      with e False show ?thesis by (simp add: m)
    qed
  qed
next
  case (JObj d)
  have all: "\<forall>(k, v) \<in> set d. parses nan st (Suc l) v \<and> wf_json v"
    using JObj by fastforce
  show ?case
    unfolding parses_def
  proof (intro allI impI)
    fix n r
    assume le: "2 * length (dump st l (JObj d)) \<le> n"
    then obtain m where m: "n = Suc m" by (cases n) (auto split: if_splits)
    show "parse_value nan n (dump st l (JObj d) @ r) = Inr (JObj d, r)"
    proof (cases "d = []")
      case True
      then show ?thesis by (simp add: m)
    next
      case False
      let ?t = "dump_items st (Suc l) (map (\<lambda>(k, v). quote_str k @ colon st @ dump st (Suc l) v) d)"
      have "2 * length ?t + 2 \<le> m" using le False by (simp add: m)
      from parse_members_dump [OF False all this, of r]
      have e: "parse_members nan m (skip_ws (?t @ CHR ''}'' # r)) = Inr (d, r)" .
      have "\<not> prefix ''}'' (skip_ws (?t @ CHR ''}'' # r))"
      proof -
        obtain k v ys where "d = (k, v) # ys" using False by (cases d) auto
        then show ?thesis by (cases ys) (simp_all add: quote_str_def)
      qed
      moreover have "reject_duplicate_keys d [] = Inr d"
        using reject_duplicate_keys_self JObj.prems by simp
      ultimately show ?thesis using e False by (simp add: m)
    qed
  qed
next
  case JNull
  show ?case by (simp add: parses_def parse_words)
next
  case (JBool b)
  show ?case by (simp add: parses_def parse_words)
qed simp

theorem json_loads_dump:
  assumes "wf_json v"
  shows "json_loads nan (dump st 0 v) = Inr v"
proof -
  obtain c cs where c: "dump st 0 v = c # cs" "\<not> is_ws c"
    using dump_first [OF assms] by blast
  have "parse_value nan (2 * length (dump st 0 v) + 2) (dump st 0 v @ []) = Inr (v, [])"
    by (rule parsesD [OF parses_dump [OF assms]]) simp_all
  with c show ?thesis by (simp add: json_loads_def skip_ws_first)
qed

lemma json_loads_dump_nl:
  assumes "wf_json v"
  shows "json_loads nan (dump st 0 v @ [CHR 0x0A]) = Inr v"
proof -
  obtain c cs where c: "dump st 0 v = c # cs" "\<not> is_ws c"
    using dump_first [OF assms] by blast
  have d: "delim [CHR 0x0A]" by (simp add: delim_def is_digit_def ord_def)
  have "parse_value nan (2 * length (dump st 0 v @ [CHR 0x0A]) + 2) (dump st 0 v @ [CHR 0x0A])
          = Inr (v, [CHR 0x0A])"
    by (rule parsesD [OF parses_dump [OF assms] d]) simp
  moreover have "skip_ws [CHR 0x0A] = []" by (simp add: skip_ws_def is_ws_def)
  ultimately show ?thesis using c by (simp add: json_loads_def skip_ws_first)
qed

end
