(* ===== verification/Util.thy ===== *)
theory Util
  imports Json_Roundtrip
begin

text \<open>
  The contract of the JSON helpers of \<^verbatim>\<open>src/zsec_shield/util.py\<close>: what
  \<open>strict_json_loads\<close> can return, and that the canonical bytes determine the value, which
  is what a signature over them relies on.
\<close>

section \<open>What the decoder returns\<close>

text \<open>
  \<open>parsed v\<close>: no object of \<open>v\<close> has a repeated key, and every integer has at most 4300
  decimal digits, the limit of Python's integer parser.  \<open>no_float v\<close>: no number of \<open>v\<close>
  has a fraction or an exponent.
\<close>

primrec parsed :: "json \<Rightarrow> bool" where
  "parsed JNull = True"
| "parsed (JBool b) = True"
| "parsed (JInt i) = (length (dec_nat (nat \<bar>i\<bar>)) \<le> 4300)"
| "parsed (JFloat t) = True"
| "parsed (JStr s) = True"
| "parsed (JList xs) = list_all id (map parsed xs)"
| "parsed (JObj d) = (wf_dict d \<and> list_all snd (map (map_prod id parsed) d))"

primrec no_float :: "json \<Rightarrow> bool" where
  "no_float JNull = True"
| "no_float (JBool b) = True"
| "no_float (JInt i) = True"
| "no_float (JFloat t) = False"
| "no_float (JStr s) = True"
| "no_float (JList xs) = list_all id (map no_float xs)"
| "no_float (JObj d) = list_all snd (map (map_prod id no_float) d)"

lemma parsed_JList [simp]: "parsed (JList xs) \<longleftrightarrow> (\<forall>x \<in> set xs. parsed x)"
  by (auto simp: list_all_iff)

lemma parsed_JObj [simp]:
  "parsed (JObj d) \<longleftrightarrow> wf_dict d \<and> (\<forall>(k, v) \<in> set d. parsed v)"
  by (auto simp: list_all_iff)

lemma no_float_JList [simp]: "no_float (JList xs) \<longleftrightarrow> (\<forall>x \<in> set xs. no_float x)"
  by (auto simp: list_all_iff)

lemma no_float_JObj [simp]: "no_float (JObj d) \<longleftrightarrow> (\<forall>(k, v) \<in> set d. no_float v)"
  by (auto simp: list_all_iff)

declare parsed.simps(6,7) [simp del] no_float.simps(6,7) [simp del]

lemma wf_json_iff: "wf_json v \<longleftrightarrow> parsed v \<and> no_float v"
  by (induction v) auto

lemma int_part_digits: "int_part s = Some (ip, r) \<Longrightarrow> (\<forall>c \<in> set ip. is_digit c) \<and> ip \<noteq> []"
proof (induction s)
  case (Cons c s)
  have "is_digit CHR ''0''" by (simp add: is_digit_def ord_def)
  with Cons.prems show ?case
    by (auto simp: int_part_def span_digits_def dest: set_takeWhileD split: if_splits)
qed (simp add: int_part_def)

lemma parse_number_parsed: "parse_number s = Inr (v, r) \<Longrightarrow> parsed v"
proof -
  assume a: "parse_number s = Inr (v, r)"
  define neg where "neg = (case s of c # _ \<Rightarrow> c = CHR ''-'' | [] \<Rightarrow> False)"
  define s1 where "s1 = (if neg then tl s else s)"
  show ?thesis
  proof (cases "int_part s1")
    case None
    with a show ?thesis by (simp add: parse_number_def Let_def neg_def s1_def)
  next
    case (Some p)
    obtain ip s2 where p: "p = (ip, s2)" by force
    obtain fp s3 ep s4 where q: "frac_part s2 = (fp, s3)" "exp_part s3 = (ep, s4)" by fastforce
    from a Some p q have
      "v = JFloat ((if neg then ''-'' else []) @ ip @ fp @ ep)
       \<or> length ip \<le> 4300 \<and> (v = JInt (- int (nat_of_dec ip)) \<or> v = JInt (int (nat_of_dec ip)))"
      by (auto simp: parse_number_def Let_def neg_def s1_def split: if_splits)
    moreover have "length (dec_nat (nat_of_dec ip)) \<le> length ip"
      using int_part_digits [of s1 ip s2] Some p nat_of_dec_less [of ip]
      by (intro length_dec_nat) auto
    ultimately show ?thesis by auto
  qed
qed

lemma parse_scalar_parsed: "parse_scalar nan s = Inr (v, r) \<Longrightarrow> parsed v"
  by (auto simp: parse_scalar_def constants_def parse_number_parsed split: option.splits if_splits)

lemma dput_vals: "snd ` set (dput k v d) \<subseteq> insert v (snd ` set d)"
  by (induction k v d rule: dput.induct) auto

lemma mk_dict_vals: "snd ` set (mk_dict kvs) \<subseteq> snd ` set kvs"
proof (induction kvs rule: rev_induct)
  case (snoc x kvs)
  obtain k v where x: "x = (k, v)" by force
  have "snd ` set (kvs @ [x]) = insert v (snd ` set kvs)" by (simp add: x)
  with snoc.IH dput_vals [of k v "mk_dict kvs"] show ?case
    by (simp only: x mk_dict_snoc) blast
qed (simp add: mk_dict_def)

lemma reject_duplicate_keys_vals:
  "reject_duplicate_keys ps d = Inr e \<Longrightarrow> snd ` set e \<subseteq> snd ` set ps \<union> snd ` set d"
proof (induction ps d rule: reject_duplicate_keys.induct)
  case (2 k v ps d)
  then have "snd ` set e \<subseteq> snd ` set ps \<union> snd ` set (dput k v d)"
    by (simp split: if_splits)
  moreover have "snd ` set ((k, v) # ps) = insert v (snd ` set ps)" by simp
  ultimately show ?case using dput_vals [of k v d] by blast
qed simp

lemma reject_duplicate_keys_parsed:
  assumes "reject_duplicate_keys ps [] = Inr d" and "\<forall>(k, v) \<in> set ps. parsed v"
  shows "parsed (JObj d)"
proof -
  have "wf_dict d" using reject_duplicate_keys_wf [OF assms(1)] by simp
  moreover have "\<forall>v \<in> snd ` set d. parsed v"
    using reject_duplicate_keys_vals [OF assms(1)] assms(2) by fastforce
  ultimately show ?thesis by force
qed

lemma parse_parsed:
  "parse_value nan n s = Inr (v, r) \<Longrightarrow> parsed v"
  "parse_elems nan n s = Inr (xs, r1) \<Longrightarrow> \<forall>x \<in> set xs. parsed x"
  "parse_members nan n s = Inr (ps, r2) \<Longrightarrow> \<forall>(k, x) \<in> set ps. parsed x"
proof (induction nan n s and nan n s and nan n s
    arbitrary: v r and xs r1 and ps r2
    rule: parse_value_parse_elems_parse_members.induct)
  case (2 nan n s)
  show ?case
  proof (cases s)
    case Nil
    with "2.prems" show ?thesis by simp
  next
    case (Cons c t)
    show ?thesis
      using "2.prems" "2.IH" [OF Cons] Cons
      by (auto simp: rbind_Inr_iff split: if_splits option.splits prod.splits
          dest: parse_scalar_parsed dest!: reject_duplicate_keys_parsed [unfolded parsed_JObj])
  qed
next
  case (4 nan n s)
  from "4.prems" obtain x r where x: "parse_value nan n s = Inr (x, r)"
    by (auto simp: rbind_Inr_iff)
  show ?case
  proof (cases "prefix '']'' (skip_ws r)")
    case True
    with "4.prems" x "4.IH"(1) [OF x] show ?thesis by auto
  next
    case False
    with "4.prems" x obtain ys where c: "prefix '','' (skip_ws r)" and xs: "xs = x # ys"
      and e: "parse_elems nan n (skip_ws (tl (skip_ws r))) = Inr (ys, r1)"
      by (auto simp: rbind_Inr_iff split: if_splits)
    from "4.IH"(2) [OF x refl False c e] "4.IH"(1) [OF x] xs show ?thesis by simp
  qed
next
  case (6 nan n s)
  from "6.prems" obtain k r where q: "prefix [CHR 0x22] s" and k: "parse_str (tl s) = Some (k, r)"
    and c: "prefix '':'' (skip_ws r)"
    by (auto split: if_splits option.splits)
  from "6.prems" q k c obtain v r1 where
    v: "parse_value nan n (skip_ws (tl (skip_ws r))) = Inr (v, r1)"
    by (auto simp: rbind_Inr_iff)
  have pv: "parsed v"
    using "6.IH"(1) [OF _ k refl _ v] q c by simp
  show ?case
  proof (cases "prefix ''}'' (skip_ws r1)")
    case True
    with "6.prems" q k c v pv show ?thesis by auto
  next
    case False
    with "6.prems" q k c v obtain qs where m: "prefix '','' (skip_ws r1)" and ps: "ps = (k, v) # qs"
      and e: "parse_members nan n (skip_ws (tl (skip_ws r1))) = Inr (qs, r2)"
      by (auto simp: rbind_Inr_iff split: if_splits)
    have "\<forall>(k, x) \<in> set qs. parsed x"
      by (rule "6.IH"(2) [OF _ k refl _ v refl False m e]) (use q c in simp_all)
    with pv show ?thesis by (simp add: ps)
  qed
qed simp_all

lemma json_loads_parsed: "json_loads nan s = Inr v \<Longrightarrow> parsed v"
  by (auto simp: json_loads_def rbind_Inr_iff simp del: parse_value.simps split: if_splits
      dest: parse_parsed(1))

lemma strict_json_loads_parsed: "strict_json_loads raw = Inr v \<Longrightarrow> parsed v"
  by (auto simp: strict_json_loads_def split: option.splits sum.splits dest: json_loads_parsed)

lemma jerr_feed_error [simp]: "is_feed_error (jerr_feed e)"
  by (cases e) simp_all

lemma strict_json_loads_error: "strict_json_loads raw = Inl e \<Longrightarrow> is_feed_error e"
  by (auto simp: strict_json_loads_def split: option.splits sum.splits)

section \<open>Values whose text is ASCII\<close>

primrec ascii_json :: "json \<Rightarrow> bool" where
  "ascii_json JNull = True"
| "ascii_json (JBool b) = True"
| "ascii_json (JInt i) = True"
| "ascii_json (JFloat t) = is_ascii t"
| "ascii_json (JStr s) = is_ascii s"
| "ascii_json (JList xs) = list_all id (map ascii_json xs)"
| "ascii_json (JObj d) = (list_all is_ascii (map fst d) \<and> list_all snd (map (map_prod id ascii_json) d))"

lemma is_ascii_append [simp]: "is_ascii (s @ t) = (is_ascii s \<and> is_ascii t)"
  by (simp add: is_ascii_def)

lemma is_ascii_Cons [simp]: "is_ascii (c # s) = (ord c < 128 \<and> is_ascii s)"
  by (simp add: is_ascii_def)

lemma is_ascii_Nil [simp]: "is_ascii []"
  by (simp add: is_ascii_def)

lemma dec_nat_ascii: "is_ascii (dec_nat n)"
  using dec_nat_digits [of n] by (auto simp: is_ascii_def list_all_iff is_digit_def)

lemma hex_digit_ascii: "n < 16 \<Longrightarrow> ord (hex_digit n) < 128"
  using hex_digit_lower [of n] by (auto simp: is_hex_lower_def is_digit_def)

lemma quote_ascii: "is_ascii s \<Longrightarrow> is_ascii (quote_str s)"
proof -
  have h: "is_ascii (hex4 n)" for n
    by (simp add: hex4_def hex_digit_ascii)
  have l: "is_ascii [CHR 0x22]" "is_ascii [CHR 0x5C, CHR 0x22]" "is_ascii [CHR 0x5C, CHR 0x5C]"
    "is_ascii [CHR 0x5C, CHR ''n'']" "is_ascii [CHR 0x5C, CHR ''r'']" "is_ascii [CHR 0x5C, CHR ''t'']"
    "is_ascii [CHR 0x5C, CHR ''b'']" "is_ascii [CHR 0x5C, CHR ''f'']" "is_ascii [CHR 0x5C, CHR ''u'']"
    by (simp_all only: is_ascii_Cons is_ascii_Nil ord_def) simp_all
  have e: "is_ascii [c] \<Longrightarrow> is_ascii (esc_char c)" for c
    unfolding esc_char_def by (simp only: is_ascii_append h l split: if_split) simp
  have "is_ascii s \<Longrightarrow> is_ascii (concat (map esc_char s))"
  proof (induction s)
    case (Cons c s)
    then have "is_ascii (esc_char c)" by (intro e) simp
    with Cons show ?case by simp
  qed simp
  moreover have "quote_str s = [CHR 0x22] @ concat (map esc_char s) @ [CHR 0x22]"
    by (simp add: quote_str_def)
  ultimately show "is_ascii s \<Longrightarrow> is_ascii (quote_str s)"
    by (simp only: is_ascii_append l)
qed

lemma newline_ascii: "is_ascii (newline st l)"
  by (cases st) (auto simp: newline_def is_ascii_def list_all_iff ord_def)

lemma dump_items_ascii: "list_all is_ascii xs \<Longrightarrow> is_ascii (dump_items st l xs)"
  by (induction st l xs rule: dump_items.induct) (auto simp: newline_ascii, simp_all add: ord_def)

lemma dump_ascii: "ascii_json v \<Longrightarrow> is_ascii (dump st l v)"
proof (induction st l v rule: dump.induct)
  case (6 st l xs)
  then show ?case by (auto simp: list_all_iff dump_items_ascii ord_def intro!: dump_items_ascii)
next
  case (7 st l d)
  have "list_all is_ascii (map (\<lambda>(k, v). quote_str k @ colon st @ dump st (Suc l) v) d)" if "d \<noteq> []"
  proof -
    have "is_ascii (colon st)" by (cases st) (simp_all add: colon_def ord_def)
    then show ?thesis
      using 7 that by (fastforce simp: list_all_iff quote_ascii)
  qed
  then show ?case by (auto simp: ord_def intro!: dump_items_ascii)
qed (auto simp: dec_int_def dec_nat_ascii quote_ascii ord_def)

lemma canonical_ascii: "ascii_json v \<Longrightarrow> canonical_json_bytes v = Inr (dump Compact 0 v)"
  by (simp add: canonical_json_bytes_def encode_ascii dump_ascii)

lemma indented_ascii: "ascii_json v \<Longrightarrow> indented_json_bytes v = Inr (dump Indented 0 v @ [CHR 0x0A])"
  by (simp add: indented_json_bytes_def encode_ascii dump_ascii)

text \<open>A document built from a list of fields.\<close>

lemma ascii_mk_dict:
  assumes k: "\<forall>k \<in> fst ` set kvs. is_ascii k" and v: "\<forall>v \<in> snd ` set kvs. ascii_json v"
  shows "ascii_json (JObj (mk_dict kvs))"
proof -
  have "\<forall>v \<in> snd ` set (mk_dict kvs). ascii_json v" by (rule subset_ball [OF mk_dict_vals v])
  moreover have "\<forall>k \<in> fst ` set (mk_dict kvs). is_ascii k"
    using k keys_of_mk_dict [of kvs] by (simp add: keys_of_def)
  ultimately show ?thesis by (auto simp: list_all_iff)
qed

lemma ascii_dput: "ascii_json (JObj d) \<Longrightarrow> is_ascii k \<Longrightarrow> ascii_json v \<Longrightarrow> ascii_json (JObj (dput k v d))"
  by (induction k v d rule: dput.induct) auto

lemma ascii_ddel: "ascii_json (JObj d) \<Longrightarrow> ascii_json (JObj (ddel k d))"
  by (auto simp: ddel_def list_all_iff)

lemma dget_mk_dict:
  "distinct (map fst kvs) \<Longrightarrow> (k, v) \<in> set kvs \<Longrightarrow> dget (mk_dict kvs) k = v"
  using map_of_is_SomeI [of "rev kvs" k v] by (simp add: dget_def map_of_mk_dict rev_map [symmetric])

lemma wf_json_mk_dict:
  assumes "\<forall>v \<in> snd ` set kvs. wf_json v"
  shows "wf_json (JObj (mk_dict kvs))"
  using subset_ball [OF mk_dict_vals assms] by auto

lemma quote_length: "length (quote_str s) \<le> 6 * length s + 2"
proof -
  have "length (esc_char c) \<le> 6" for c
    by (simp add: esc_char_def hex4_def)
  then have "length (concat (map esc_char s)) \<le> 6 * length s"
    by (induction s) (auto intro: add_mono)
  then show ?thesis by (simp add: quote_str_def)
qed

section \<open>Canonical bytes\<close>

lemma canonical_json_bytes_Inr: "canonical_json_bytes v = Inr b \<Longrightarrow> b = dump Compact 0 v \<and> utf8_ok False b"
  by (auto simp: canonical_json_bytes_def encode_utf8_def split: if_splits)

lemma strict_dump:
  "wf_json v \<Longrightarrow> utf8_ok False (dump st 0 v) \<Longrightarrow> strict_json_loads (dump st 0 v) = Inr v"
  by (simp add: strict_json_loads_def decode_utf8_def json_loads_dump)

lemma strict_canonical:
  "wf_json v \<Longrightarrow> canonical_json_bytes v = Inr b \<Longrightarrow> strict_json_loads b = Inr v"
  by (auto dest!: canonical_json_bytes_Inr intro: strict_dump)

lemma utf8_ok_newline: "utf8_ok surr s \<Longrightarrow> utf8_ok surr (s @ [CHR 0x0A])"
  by (rule utf8_ok_append) (simp_all add: utf8_ok_ascii is_ascii_def ord_def)

lemma strict_indented:
  "wf_json v \<Longrightarrow> indented_json_bytes v = Inr b \<Longrightarrow> strict_json_loads b = Inr v"
  by (auto simp: indented_json_bytes_def encode_utf8_def strict_json_loads_def decode_utf8_def
      json_loads_dump_nl utf8_ok_newline split: if_splits)

text \<open>
  C38: Reading back what was written: for every value without fractions and with integers of at
  most 4300 digits, the strict reader returns exactly the value from its canonical bytes, and
  from the indented text of \<^verbatim>\<open>atomic_write_json\<close>.
\<close>

theorem strict_json_roundtrip:
  assumes "wf_json v"
  shows "(canonical_json_bytes v = Inr b \<longrightarrow> strict_json_loads b = Inr v)
         \<and> (indented_json_bytes v = Inr c \<longrightarrow> strict_json_loads c = Inr v)"
  using assms strict_indented by (auto dest!: canonical_json_bytes_Inr intro: strict_dump)

lemma strict_json_roundtrip_witness:
  "strict_json_loads (CHR 0x7B # quote_str ''a'' @ '':[1,-20,'' @ quote_str ''x'' @ ''],''
      @ quote_str ''b'' @ '':null}'')
   = Inr (JObj [(''a'', JList [JInt 1, JInt (- 20), JStr ''x'']), (''b'', JNull)])"
proof -
  let ?v = "JObj [(''a'', JList [JInt 1, JInt (- 20), JStr ''x'']), (''b'', JNull)]"
  have "wf_json ?v" by code_simp
  moreover have "canonical_json_bytes ?v = Inr (CHR 0x7B # quote_str ''a'' @ '':[1,-20,''
      @ quote_str ''x'' @ ''],'' @ quote_str ''b'' @ '':null}'')" by code_simp
  ultimately show ?thesis using strict_json_roundtrip [of ?v] by blast
qed

text \<open>
  Canonical bytes bind the value: two documents read by the strict reader, without
  fractional numbers, that have the same canonical bytes are the same document.
\<close>

theorem canonical_json_injective:
  assumes "strict_json_loads r1 = Inr v" and "no_float v"
    and "strict_json_loads r2 = Inr w" and "no_float w"
    and "canonical_json_bytes v = Inr b" and "canonical_json_bytes w = Inr b"
  shows "v = w"
proof -
  have "wf_json v" "wf_json w"
    using assms(1-4) by (simp_all add: wf_json_iff strict_json_loads_parsed)
  then have "strict_json_loads b = Inr v" "strict_json_loads b = Inr w"
    using assms(5,6) by (auto dest!: canonical_json_bytes_Inr intro: strict_dump)
  then show ?thesis by simp
qed

lemma canonical_json_injective_witness:
  "JObj [(''a'', JInt 1), (''b'', JBool True)] = JObj [(''a'', JInt 1), (''b'', JBool True)]"
  by (rule canonical_json_injective
        [where ?r1.0 = "''{ '' @ quote_str ''b'' @ '': true, '' @ quote_str ''a'' @ '':1}''"
           and ?r2.0 = "''{'' @ quote_str ''a'' @ '':1, '' @ quote_str ''b'' @ '':true}''"
           and b = "''{'' @ quote_str ''a'' @ '':1,'' @ quote_str ''b'' @ '':true}''"])
     code_simp+

end
