(* ===== verification/Sha256.thy ===== *)
theory Sha256
  imports Pystr "HOL-Library.Word"
begin

text \<open>
  The part of Python's \<^verbatim>\<open>hashlib\<close> and \<^verbatim>\<open>hmac\<close> that the program uses: SHA-256
  and HMAC-SHA-256, written out as executable functions on byte strings. A Python
  \<^verbatim>\<open>bytes\<close> value is a \<^typ>\<open>char list\<close>.  The constants of the round function are given
  in decimal.  Nothing below is assumed about the digest beyond what the algorithm computes;
  in particular no collision freedom is used anywhere in the development.
\<close>

unbundle bit_operations_syntax

section \<open>The compression function\<close>

definition sha_k :: "32 word list" where
  "sha_k =
    [1116352408, 1899447441, 3049323471, 3921009573, 961987163, 1508970993, 2453635748, 2870763221,
     3624381080, 310598401, 607225278, 1426881987, 1925078388, 2162078206, 2614888103, 3248222580,
     3835390401, 4022224774, 264347078, 604807628, 770255983, 1249150122, 1555081692, 1996064986,
     2554220882, 2821834349, 2952996808, 3210313671, 3336571891, 3584528711, 113926993, 338241895,
     666307205, 773529912, 1294757372, 1396182291, 1695183700, 1986661051, 2177026350, 2456956037,
     2730485921, 2820302411, 3259730800, 3345764771, 3516065817, 3600352804, 4094571909, 275423344,
     430227734, 506948616, 659060556, 883997877, 958139571, 1322822218, 1537002063, 1747873779,
     1955562222, 2024104815, 2227730452, 2361852424, 2428436474, 2756734187, 3204031479, 3329325298]"

definition sha_init :: "32 word list" where
  "sha_init = [1779033703, 3144134277, 1013904242, 2773480762,
               1359893119, 2600822924, 528734635, 1541459225]"

text \<open>The message schedule, newest word first, so that each new word is a cons.\<close>

definition sched_word :: "32 word list \<Rightarrow> 32 word" where
  "sched_word ws =
     (let a = ws ! 14; b = ws ! 1;
          s0 = word_rotr 7 a XOR word_rotr 18 a XOR drop_bit 3 a;
          s1 = word_rotr 17 b XOR word_rotr 19 b XOR drop_bit 10 b
      in (ws ! 15) + s0 + (ws ! 6) + s1)"

fun schedule :: "nat \<Rightarrow> 32 word list \<Rightarrow> 32 word list" where
  "schedule 0 ws = rev ws"
| "schedule (Suc n) ws = schedule n (sched_word ws # ws)"

fun sha_round :: "32 word list \<Rightarrow> 32 word \<times> 32 word \<Rightarrow> 32 word list" where
  "sha_round [a, b, c, d, e, f, g, h] (k, w) =
     (let t1 = h + (word_rotr 6 e XOR word_rotr 11 e XOR word_rotr 25 e)
                 + ((e AND f) XOR (NOT e AND g)) + k + w;
          t2 = (word_rotr 2 a XOR word_rotr 13 a XOR word_rotr 22 a)
                 + ((a AND b) XOR (a AND c) XOR (b AND c))
      in [t1 + t2, a, b, c, d + t1, e, f, g])"
| "sha_round st _ = st"

definition sha_compress :: "32 word list \<Rightarrow> 32 word list \<Rightarrow> 32 word list" where
  "sha_compress st block =
     map2 (+) st (foldl sha_round st (zip sha_k (schedule 48 (rev block))))"

section \<open>Padding and the digest\<close>

definition word_of_bytes :: "char list \<Rightarrow> 32 word" where
  "word_of_bytes bs = foldl (\<lambda>w c. push_bit 8 w OR of_char c) 0 bs"

definition bytes_of_word :: "32 word \<Rightarrow> char list" where
  "bytes_of_word w = map (\<lambda>k. char_of (unat (take_bit 8 (drop_bit k w)))) [24, 16, 8, 0]"

function chunks_of :: "nat \<Rightarrow> 'a list \<Rightarrow> 'a list list" where
  "chunks_of n xs = (if xs = [] \<or> n = 0 then [] else take n xs # chunks_of n (drop n xs))"
  by pat_completeness auto
termination by (relation "measure (\<lambda>(n, xs). length xs)") auto

declare chunks_of.simps [simp del]

fun be_bytes :: "nat \<Rightarrow> nat \<Rightarrow> char list" where
  "be_bytes 0 n = []"
| "be_bytes (Suc k) n = be_bytes k (n div 256) @ [char_of (n mod 256)]"

definition sha_pad :: "char list \<Rightarrow> char list" where
  "sha_pad m =
     m @ [CHR 0x80] @ replicate ((119 - length m mod 64) mod 64) (CHR 0x00)
       @ be_bytes 8 (8 * length m)"

definition sha_blocks :: "char list \<Rightarrow> 32 word list list" where
  "sha_blocks m = map (\<lambda>b. map word_of_bytes (chunks_of 4 b)) (chunks_of 64 (sha_pad m))"

definition sha256 :: "char list \<Rightarrow> char list" where
  "sha256 m = concat (map bytes_of_word (foldl sha_compress sha_init (sha_blocks m)))"

definition hexdigest :: "char list \<Rightarrow> string" where
  "hexdigest m = hex_of (sha256 m)"

lemma sha_compress_length: "length st = 8 \<Longrightarrow> length (sha_compress st b) = 8"
proof -
  have r: "length st = 8 \<Longrightarrow> length (sha_round st x) = 8" for st x
    by (cases "(st, x)" rule: sha_round.cases) (auto simp: Let_def)
  have "length (foldl sha_round s xs) = 8" if "length s = 8" for s xs
    using that by (induction xs arbitrary: s) (auto simp: r)
  then show "length st = 8 \<Longrightarrow> length (sha_compress st b) = 8"
    by (simp add: sha_compress_def)
qed

lemma sha256_length [simp]: "length (sha256 m) = 32"
proof -
  have "length (foldl sha_compress s bs) = 8" if "length s = 8" for s bs
    using that by (induction bs arbitrary: s) (auto simp: sha_compress_length)
  then have l: "length (foldl sha_compress sha_init (sha_blocks m)) = 8"
    by (simp add: sha_init_def)
  have "length (concat (map bytes_of_word ws)) = 4 * length ws" for ws
    by (induction ws) (auto simp: bytes_of_word_def)
  with l show ?thesis by (simp add: sha256_def)
qed

lemma hexdigest_length [simp]: "length (hexdigest m) = 64"
  by (simp add: hexdigest_def)

lemma hexdigest_lower: "list_all is_hex_lower (hexdigest m)"
  using hex_of_lower by (simp add: hexdigest_def list_all_iff)

lemma hex_of_ascii: "is_ascii (hex_of m)"
  using hex_of_lower [of m] by (auto simp: is_ascii_def list_all_iff is_hex_lower_def is_digit_def)

lemma hexdigest_ascii: "is_ascii (hexdigest m)"
  by (simp add: hexdigest_def hex_of_ascii)

text \<open>HMAC with SHA-256.\<close>

definition hmac_key :: "string \<Rightarrow> string" where
  "hmac_key k = (let k' = (if length k > 64 then sha256 k else k)
                 in k' @ replicate (64 - length k') (CHR 0x00))"

definition xor_byte :: "nat \<Rightarrow> char \<Rightarrow> char" where
  "xor_byte n c = char_of (unat ((of_nat n :: 8 word) XOR of_char c))"

definition hmac_sha256 :: "string \<Rightarrow> string \<Rightarrow> string" where
  "hmac_sha256 k m =
    sha256 (map (xor_byte 92) (hmac_key k) @ sha256 (map (xor_byte 54) (hmac_key k) @ m))"

end
