(* ===== verification/Models.thy ===== *)
theory Models
  imports Util Sha256
begin

text \<open>
  The data of \<^verbatim>\<open>src/zsec_shield/models.py\<close> with its serialisations, and the built-in rules of
  \<^verbatim>\<open>src/zsec_shield/rules.py\<close>.  The string-typed literals \<^verbatim>\<open>Severity\<close> and \<^verbatim>\<open>RuleKind\<close> are
  datatypes; \<open>severity_of\<close> and \<open>kind_of\<close> read the strings a document may contain.
\<close>

section \<open>Severities\<close>

datatype severity = Info | Low | Medium | High | Critical

primrec severity_rank :: "severity \<Rightarrow> nat" where
  "severity_rank Info = 0"
| "severity_rank Low = 1"
| "severity_rank Medium = 2"
| "severity_rank High = 3"
| "severity_rank Critical = 4"

primrec severity_str :: "severity \<Rightarrow> string" where
  "severity_str Info = ''info''"
| "severity_str Low = ''low''"
| "severity_str Medium = ''medium''"
| "severity_str High = ''high''"
| "severity_str Critical = ''critical''"

definition severity_of :: "json \<Rightarrow> severity option" where
  "severity_of v = find (\<lambda>s. v = JStr (severity_str s)) [Info, Low, Medium, High, Critical]"

instantiation severity :: linorder
begin

definition less_eq_severity :: "severity \<Rightarrow> severity \<Rightarrow> bool" where
  "less_eq_severity a b = (severity_rank a \<le> severity_rank b)"

definition less_severity :: "severity \<Rightarrow> severity \<Rightarrow> bool" where
  "less_severity a b = (severity_rank a < severity_rank b)"

instance
proof
  fix a b :: severity
  show "a \<le> b \<Longrightarrow> b \<le> a \<Longrightarrow> a = b"
    by (cases a; cases b) (simp_all add: less_eq_severity_def)
qed (auto simp: less_eq_severity_def less_severity_def)

end

lemma severity_of_str [simp]: "severity_of (JStr (severity_str s)) = Some s"
  by (cases s) (simp_all add: severity_of_def)

lemma severity_of_Some: "severity_of v = Some s \<Longrightarrow> v = JStr (severity_str s)"
  unfolding severity_of_def find_Some_iff by auto

text \<open>\<open>highest_severity\<close>: the maximum by rank, \<^verbatim>\<open>"info"\<close> when there is none.\<close>

definition highest_severity :: "severity list \<Rightarrow> severity" where
  "highest_severity vs = fold max vs Info"

lemma highest_severity_ge: "v \<in> set vs \<Longrightarrow> v \<le> highest_severity vs"
proof -
  have "x \<le> fold max vs x \<and> (\<forall>v \<in> set vs. v \<le> fold max vs x)" for x :: severity and vs
  proof (induction vs arbitrary: x)
    case (Cons y vs)
    from Cons.IH [of "max y x"] show ?case by (auto intro: order_trans)
  qed simp
  then show "v \<in> set vs \<Longrightarrow> v \<le> highest_severity vs" by (simp add: highest_severity_def)
qed

lemma highest_severity_in: "vs \<noteq> [] \<Longrightarrow> highest_severity vs \<in> set vs"
proof -
  have "fold max vs x = x \<or> fold max vs x \<in> set vs" for x :: severity and vs
  proof (induction vs arbitrary: x)
    case (Cons y vs)
    from Cons.IH [of "max y x"] show ?case by (auto simp: max_def)
  qed simp
  moreover have "fold max vs Info = Info \<Longrightarrow> vs \<noteq> [] \<Longrightarrow> Info \<in> set vs"
    using highest_severity_ge [of _ vs] unfolding highest_severity_def
    by (metis Models.less_eq_severity_def antisym bot_nat_0.extremum last_in_set severity_rank.simps(1))
  ultimately show "vs \<noteq> [] \<Longrightarrow> highest_severity vs \<in> set vs"
    unfolding highest_severity_def by metis
qed

section \<open>Rules, findings, issues\<close>

datatype rule_kind = Sha256_Rule | Literal_Rule

primrec kind_str :: "rule_kind \<Rightarrow> string" where
  "kind_str Sha256_Rule = ''sha256''"
| "kind_str Literal_Rule = ''literal''"

definition kind_of :: "json \<Rightarrow> rule_kind option" where
  "kind_of v = find (\<lambda>k. v = JStr (kind_str k)) [Sha256_Rule, Literal_Rule]"

record rule =
  rule_id :: string
  r_name :: string
  r_kind :: rule_kind
  r_severity :: severity
  r_description :: string
  r_source :: string
  r_digest :: "string option"
  r_literal :: "string option"

record rule_match =
  m_rule_id :: string
  m_name :: string
  m_kind :: rule_kind
  m_severity :: severity
  m_description :: string
  m_source :: string

definition from_rule :: "rule \<Rightarrow> rule_match" where
  "from_rule r = \<lparr>m_rule_id = rule_id r, m_name = r_name r, m_kind = r_kind r,
     m_severity = r_severity r, m_description = r_description r, m_source = r_source r\<rparr>"

definition rule_public_dict :: "rule \<Rightarrow> dict" where
  "rule_public_dict r = mk_dict
    [(''id'', JStr (rule_id r)), (''name'', JStr (r_name r)), (''kind'', JStr (kind_str (r_kind r))),
     (''severity'', JStr (severity_str (r_severity r))), (''description'', JStr (r_description r)),
     (''source'', JStr (r_source r))]"

definition match_to_dict :: "rule_match \<Rightarrow> dict" where
  "match_to_dict m = mk_dict
    [(''id'', JStr (m_rule_id m)), (''name'', JStr (m_name m)), (''kind'', JStr (kind_str (m_kind m))),
     (''severity'', JStr (severity_str (m_severity m))), (''description'', JStr (m_description m)),
     (''source'', JStr (m_source m))]"

record file_finding =
  ff_path :: string
  ff_sha256 :: string
  ff_size :: nat
  ff_modified_at :: string
  ff_severity :: severity
  ff_matches :: "rule_match list"

definition finding_to_dict :: "file_finding \<Rightarrow> dict" where
  "finding_to_dict f = mk_dict
    [(''path'', JStr (ff_path f)), (''sha256'', JStr (ff_sha256 f)), (''size'', JInt (int (ff_size f))),
     (''modified_at'', JStr (ff_modified_at f)), (''severity'', JStr (severity_str (ff_severity f))),
     (''matches'', JList (map (JObj \<circ> match_to_dict) (ff_matches f)))]"

record scan_issue =
  si_path :: string
  si_code :: string
  si_message :: string

definition issue_to_dict :: "scan_issue \<Rightarrow> dict" where
  "issue_to_dict i = mk_dict [(''path'', JStr (si_path i)), (''code'', JStr (si_code i)),
     (''message'', JStr (si_message i))]"

record observation =
  ob_path :: string
  ob_provider :: string
  ob_category :: string
  ob_severity :: severity
  ob_summary :: string
  ob_evidence :: dict
  ob_quarantine_eligible :: bool

definition observation_to_dict :: "observation \<Rightarrow> dict" where
  "observation_to_dict b = mk_dict
    [(''path'', JStr (ob_path b)), (''provider'', JStr (ob_provider b)),
     (''category'', JStr (ob_category b)), (''severity'', JStr (severity_str (ob_severity b))),
     (''summary'', JStr (ob_summary b)), (''evidence'', JObj (ob_evidence b)),
     (''quarantine_eligible'', JBool (ob_quarantine_eligible b))]"

record scan_stats =
  st_roots_requested :: nat
  st_files_hashed :: nat
  st_bytes_hashed :: nat
  st_findings :: nat
  st_errors :: nat
  st_observations :: nat
  st_skipped_symlinks :: nat
  st_skipped_special :: nat
  st_skipped_too_large :: nat
  st_skipped_filesystems :: nat
  st_skipped_excluded :: nat

definition stats0 :: scan_stats where
  "stats0 = \<lparr>st_roots_requested = 0, st_files_hashed = 0, st_bytes_hashed = 0, st_findings = 0,
     st_errors = 0, st_observations = 0, st_skipped_symlinks = 0, st_skipped_special = 0,
     st_skipped_too_large = 0, st_skipped_filesystems = 0, st_skipped_excluded = 0\<rparr>"

definition stats_to_dict :: "scan_stats \<Rightarrow> dict" where
  "stats_to_dict s = mk_dict (map (map_prod id (JInt \<circ> int))
    [(''roots_requested'', st_roots_requested s), (''files_hashed'', st_files_hashed s),
     (''bytes_hashed'', st_bytes_hashed s), (''findings'', st_findings s), (''errors'', st_errors s),
     (''observations'', st_observations s), (''skipped_symlinks'', st_skipped_symlinks s),
     (''skipped_special'', st_skipped_special s), (''skipped_too_large'', st_skipped_too_large s),
     (''skipped_filesystems'', st_skipped_filesystems s), (''skipped_excluded'', st_skipped_excluded s)])"

record scan_result =
  sr_started_at :: string
  sr_completed_at :: string
  sr_roots :: "string list"
  sr_findings :: "file_finding list"
  sr_observations :: "observation list"
  sr_issues :: "scan_issue list"
  sr_stats :: scan_stats

definition scan_result_to_dict :: "scan_result \<Rightarrow> dict" where
  "scan_result_to_dict r = mk_dict
    [(''started_at'', JStr (sr_started_at r)), (''completed_at'', JStr (sr_completed_at r)),
     (''roots'', JList (map JStr (sr_roots r))),
     (''findings'', JList (map (JObj \<circ> finding_to_dict) (sr_findings r))),
     (''observations'', JList (map (JObj \<circ> observation_to_dict) (sr_observations r))),
     (''issues'', JList (map (JObj \<circ> issue_to_dict) (sr_issues r))),
     (''stats'', JObj (stats_to_dict (sr_stats r)))]"

section \<open>The built-in rules\<close>

definition eicar :: string where
  "eicar = ''X5O!P%@AP[4'' @ [CHR 0x5C] @ ''PZX54(P^)7CC)7}$EIC'' @ ''AR-STANDARD-ANTIVIRUS-TEST-FILE!$H+H*''"

definition eicar_digest :: string where
  "eicar_digest = ''275a021bbfb6489e54d471899f7db9d1663fc695ec2fe2a2c4538aabf651fd0f''"

definition builtin_rules :: "rule list" where
  "builtin_rules =
    [\<lparr>rule_id = ''builtin:eicar-test-file'', r_name = ''EICAR antivirus test file'',
      r_kind = Literal_Rule, r_severity = High,
      r_description = ''Harmless industry-standard antivirus test pattern; not malware.'',
      r_source = ''ZSEC Shield built-in'', r_digest = None, r_literal = Some eicar\<rparr>,
     \<lparr>rule_id = ''builtin:eicar-test-file-sha256'', r_name = ''EICAR antivirus test file SHA-256'',
      r_kind = Sha256_Rule, r_severity = High,
      r_description = ''Exact SHA-256 of the canonical EICAR test file; not malware.'',
      r_source = ''ZSEC Shield built-in'', r_digest = Some eicar_digest, r_literal = None\<rparr>]"

end
