(* ===== verification/Eicar.thy ===== *)
theory Eicar
  imports Models
begin

text \<open>
  The two built-in rules of \<^verbatim>\<open>src/zsec_shield/rules.py\<close> name the same file: the digest of the
  second is the SHA-256 of the literal of the first.  The digest is computed in the kernel,
  one block of the message at a time.
\<close>

definition eicar_blocks :: "32 word list list" where
  "eicar_blocks =
    [[1479888673, 1344618561, 1348154460, 1348098101, 875057246, 691487555, 691502372,
     1162429249, 1378702164, 1095648321, 1380199745, 1314146646, 1230132563, 760497491,
     1412253257, 1279598884],
     [1210796074, 2147483648, 0, 0, 0, 0, 0, 0, 0, 0, 0, 0, 0, 0, 0, 544]]"

definition eicar_state :: "32 word list" where
  "eicar_state = [1053168051, 1076509164, 2021726309, 797191943, 947053323, 851853240, 806589865,
     1512203808]"

definition eicar_final :: "32 word list" where
  "eicar_final = [660210203, 3216394398, 1423208841, 2675816913, 1715455637, 3962561186, 3293809323,
     4132568335]"

lemma eicar_blocks: "sha_blocks eicar = eicar_blocks"
  by code_simp

lemma eicar_block1: "sha_compress sha_init (hd eicar_blocks) = eicar_state"
  by code_simp

lemma eicar_block2: "sha_compress eicar_state (hd (tl eicar_blocks)) = eicar_final"
  by code_simp

lemma eicar_bytes: "hex_of (concat (map bytes_of_word eicar_final)) = eicar_digest"
  by code_simp

text \<open>
  The two built-in rules describe the same file: the digest of the second rule is the
  SHA-256 of the test string the first rule searches for.
\<close>

theorem eicar_rules_agree:
  "map r_literal builtin_rules = [Some eicar, None]
   \<and> map r_digest builtin_rules = [None, Some (hexdigest eicar)]"
proof -
  have "foldl sha_compress sha_init eicar_blocks = eicar_final"
    using eicar_block1 eicar_block2 by (simp add: eicar_blocks_def)
  then have "hexdigest eicar = eicar_digest"
    by (simp only: hexdigest_def sha256_def eicar_blocks eicar_bytes)
  then show ?thesis by (simp add: builtin_rules_def)
qed

end
