(* ===== verification/Base64.thy ===== *)
theory Base64
  imports Pystr
begin

text \<open>
  Python's \<^verbatim>\<open>base64.b64encode\<close> and \<^verbatim>\<open>base64.b64decode(text, validate=True)\<close>.  The decoder
  is the state machine of \<^verbatim>\<open>binascii.a2b_base64\<close> in strict mode: its acceptance of stray
  bits before the padding and of a lone pad after a complete group is the reason the program
  compares the text with its re-encoding.
\<close>

definition b64_alphabet :: string where
  "b64_alphabet = ''ABCDEFGHIJKLMNOPQRSTUVWXYZabcdefghijklmnopqrstuvwxyz0123456789+/''"

definition b64_char :: "nat \<Rightarrow> char" where
  "b64_char n = b64_alphabet ! n"

definition b64_val :: "char \<Rightarrow> nat option" where
  "b64_val c =
    (let n = ord c in
     if 65 \<le> n \<and> n \<le> 90 then Some (n - 65)
     else if 97 \<le> n \<and> n \<le> 122 then Some (n - 71)
     else if 48 \<le> n \<and> n \<le> 57 then Some (n + 4)
     else if n = 43 then Some 62 else if n = 47 then Some 63 else None)"

fun b64encode :: "string \<Rightarrow> string" where
  "b64encode [] = []"
| "b64encode [a] =
     [b64_char (ord a div 4), b64_char (ord a mod 4 * 16), CHR ''='', CHR ''='']"
| "b64encode [a, b] =
     [b64_char (ord a div 4), b64_char (ord a mod 4 * 16 + ord b div 16),
      b64_char (ord b mod 16 * 4), CHR ''='']"
| "b64encode (a # b # c # r) =
     b64_char (ord a div 4) # b64_char (ord a mod 4 * 16 + ord b div 16)
     # b64_char (ord b mod 16 * 4 + ord c div 64) # b64_char (ord c mod 64) # b64encode r"

text \<open>
  The arguments are \<^verbatim>\<open>quad_pos\<close>, \<^verbatim>\<open>leftchar\<close>, \<^verbatim>\<open>pads\<close> and \<^verbatim>\<open>padding_started\<close>.
\<close>

fun a2b_strict :: "nat \<Rightarrow> nat \<Rightarrow> nat \<Rightarrow> bool \<Rightarrow> string \<Rightarrow> string option" where
  "a2b_strict q l p started [] = (if q = 0 then Some [] else None)"
| "a2b_strict q l p started (c # cs) =
    (if c = CHR ''='' then
       (if 2 \<le> q \<and> 4 \<le> q + Suc p then (if cs = [] then Some [] else None)
        else a2b_strict q l (if 2 \<le> q then Suc p else p) True cs)
     else case b64_val c of None \<Rightarrow> None
       | Some v \<Rightarrow>
         if started then None
         else if q = 0 then a2b_strict 1 v 0 False cs
         else if q = 1 then
           map_option (Cons (char_of (l * 4 + v div 16))) (a2b_strict 2 (v mod 16) 0 False cs)
         else if q = 2 then
           map_option (Cons (char_of (l * 16 + v div 4))) (a2b_strict 3 (v mod 4) 0 False cs)
         else map_option (Cons (char_of (l * 64 + v))) (a2b_strict 0 0 0 False cs))"

definition b64decode_strict :: "string \<Rightarrow> string option" where
  "b64decode_strict s =
    (if \<not> is_ascii s \<or> prefix ''='' s then None else a2b_strict 0 0 0 False s)"

lemma b64_alphabet_length: "length b64_alphabet = 64"
  by (simp add: b64_alphabet_def)

lemma b64_alphabet_vals: "map b64_val b64_alphabet = map Some [0..<64]"
  by (simp add: b64_alphabet_def b64_val_def ord_def Let_def upt_rec)

lemma b64_alphabet_chars: "\<forall>c \<in> set b64_alphabet. c \<noteq> CHR ''='' \<and> ord c < 128 \<and> 32 \<le> ord c"
  by (simp add: b64_alphabet_def ord_def)

lemma b64_char_facts:
  assumes "n < 64"
  shows "b64_val (b64_char n) = Some n" and "b64_char n \<noteq> CHR ''=''"
    and "ord (b64_char n) < 128" and "32 \<le> ord (b64_char n)"
proof -
  have "map b64_val b64_alphabet ! n = map Some [0..<64] ! n"
    by (simp only: b64_alphabet_vals)
  with assms show "b64_val (b64_char n) = Some n"
    by (simp add: b64_char_def b64_alphabet_length)
  have "b64_char n \<in> set b64_alphabet"
    using assms by (simp add: b64_char_def b64_alphabet_length)
  with b64_alphabet_chars show "b64_char n \<noteq> CHR ''=''" and "ord (b64_char n) < 128"
    and "32 \<le> ord (b64_char n)" by blast+
qed

lemma char_split: "char_of (ord c div k * k + ord c mod k) = c"
  by (simp add: ord_def)

lemma ord_bounds: "ord a div 4 < 64" "ord a mod 4 * 16 + ord b div 16 < 64"
  "ord b mod 16 * 4 + ord c div 64 < 64" "ord c mod 64 < 64" "ord a mod 4 * 16 < 64"
  "ord a mod 16 * 4 < 64"
  using ord_less [of a] ord_less [of b] ord_less [of c] by auto

lemma group_bytes:
  "(ord a mod 4 * 16 + ord b div 16) div 16 = ord a mod 4"
  "(ord a mod 4 * 16 + ord b div 16) mod 16 = ord b div 16"
  "(ord b mod 16 * 4 + ord c div 64) div 4 = ord b mod 16"
  "(ord b mod 16 * 4 + ord c div 64) mod 4 = ord c div 64"
  "ord b div 16 mod 16 = ord b div 16" "ord c div 64 mod 4 = ord c div 64"
  using ord_less [of b] ord_less [of c] by auto

lemma b64encode_ascii: "is_ascii (b64encode bs)"
  by (induction bs rule: b64encode.induct)
     (simp_all add: is_ascii_def b64_char_facts ord_bounds, simp_all add: ord_def)

lemma b64encode_printable: "c \<in> set (b64encode bs) \<Longrightarrow> 32 \<le> ord c"
  by (induction bs rule: b64encode.induct)
     (auto simp: b64_char_facts ord_bounds, simp_all add: ord_def)

lemma length_b64encode: "length (b64encode bs) = 4 * ((length bs + 2) div 3)"
proof (induction bs rule: b64encode.induct)
  case (4 a b c r)
  have "(length (a # b # c # r) + 2) div 3 = Suc ((length r + 2) div 3)" by simp
  with "4.IH" show ?case by simp
qed auto

lemma a2b_encode: "a2b_strict 0 l p False (b64encode bs) = Some bs"
proof (induction bs arbitrary: l p rule: b64encode.induct)
  case 1
  show ?case by simp
next
  case (2 a)
  show ?case using char_split [of a 4] by (simp add: b64_char_facts ord_bounds)
next
  case (3 a b)
  show ?case using char_split [of a 4] char_split [of b 16]
    by (simp add: b64_char_facts ord_bounds group_bytes)
next
  case (4 a b c r)
  show ?case using char_split [of a 4] char_split [of b 16] char_split [of c 64]
    by (simp add: b64_char_facts ord_bounds group_bytes "4.IH")
qed

lemma b64encode_no_lead: "\<not> prefix ''='' (b64encode bs)"
  using b64_char_facts(2) ord_bounds(1) by (cases bs rule: b64encode.cases) (auto, metis+)

theorem b64decode_encode: "b64decode_strict (b64encode bs) = Some bs"
  by (simp add: b64decode_strict_def b64encode_ascii b64encode_no_lead a2b_encode)

lemma b64encode_inj: "b64encode x = b64encode y \<Longrightarrow> x = y"
  by (metis b64decode_encode option.inject)

end
