(* ===== verification/Zba.thy ===== *)
theory Zba
  imports Util Sha256 Base64
begin

text \<open>
  \<^verbatim>\<open>src/zsec_shield/zba.py\<close>: the provenance record sealed with every vault object.  A record is
  a dictionary; its commitment is the SHA-256 of a domain string, the predecessor commitment
  and the canonical bytes of the other fields.
\<close>

definition zba_spec :: string where
  "zba_spec = ''zero.security.zba.quarantine.v1''"

definition zba_domain :: string where
  "zba_domain = ''ZERO-SECURITY/ZBA-QUARANTINE/V1'' @ [CHR 0x00]"

definition zero_commitment :: string where
  "zero_commitment = replicate 64 (CHR ''0'')"

text \<open>\<open>bytes.fromhex\<close> skips white space, so 64 characters need not be 32 bytes.\<close>

definition is_sha256 :: "string \<Rightarrow> bool" where
  "is_sha256 v = (py_len v = 64 \<and> from_hex v \<noteq> None \<and> v = lower v)"

definition commitment :: "dict \<Rightarrow> string res" where
  "commitment r =
    (let projection = ddel ''commitment'' r; previous = dget projection ''previous_commitment'' in
     if \<not> is_str previous \<or> \<not> is_sha256 (str_of previous) then
       Inl (QuarantineError ''ZBA predecessor commitment is invalid'')
     else rbind (canonical_json_bytes (JObj projection)) (\<lambda>b.
       Inr (hexdigest (zba_domain @ the (from_hex (str_of previous)) @ b))))"

definition zba_fixed :: "string \<Rightarrow> string \<Rightarrow> (string \<times> json) list" where
  "zba_fixed entry_id payload_sha256 =
    [(''spec'', JStr zba_spec), (''asset_id'', JStr entry_id), (''sequence'', JInt 0),
     (''operation'', JStr ''quarantine.encrypt''), (''polarity'', JStr ''neutral''),
     (''phase'', JStr ''boundary''), (''recursion_depth'', JInt 0),
     (''policy_id'', JStr ''zero-security-quarantine''), (''policy_version'', JInt 1),
     (''previous_commitment'', JStr zero_commitment), (''payload_commitment'', JStr payload_sha256),
     (''actor_id'', JStr ''local-device''), (''evidence_status'', JStr ''sealed''),
     (''commitment_algorithm'', JStr ''sha256'')]"

definition create_quarantine_record :: "string \<Rightarrow> string \<Rightarrow> string \<Rightarrow> dict res" where
  "create_quarantine_record entry_id payload_sha256 created_at =
    (let r = mk_dict (zba_fixed entry_id payload_sha256 @ [(''event_time'', JStr created_at)])
     in rbind (commitment r) (\<lambda>c. Inr (dput ''commitment'' (JStr c) r)))"

definition zba_required :: "string set" where
  "zba_required = fst ` set (zba_fixed [] []) \<union> {''event_time'', ''commitment''}"

definition check_fixed :: "dict \<Rightarrow> string \<times> json \<Rightarrow> unit \<Rightarrow> unit res" where
  "check_fixed r fe u =
    (if py_eq (dget r (fst fe)) (snd fe) then Inr ()
     else Inl (QuarantineError (''ZBA record field is invalid: '' @ fst fe)))"

definition validate_quarantine_record :: "json \<Rightarrow> string \<Rightarrow> string \<Rightarrow> dict res" where
  "validate_quarantine_record record entry_id payload_sha256 =
    (if \<not> is_obj record then Inl (QuarantineError ''ZBA record must be an object'')
     else let r = obj_of record in
     if keys_of r \<noteq> zba_required then Inl (QuarantineError ''ZBA record fields are invalid'')
     else rbind (rfold (check_fixed r) (zba_fixed entry_id payload_sha256) ()) (\<lambda>_.
       let t = dget r ''event_time'' in
       if \<not> is_str t \<or> \<not> ends_with (str_of t) ''Z'' then
         Inl (QuarantineError ''ZBA event time is invalid'')
       else let c = dget r ''commitment'' in
       if \<not> is_str c \<or> \<not> is_sha256 (str_of c) then Inl (QuarantineError ''ZBA commitment is invalid'')
       else rbind (commitment r) (\<lambda>d.
         if str_of c \<noteq> d then Inl (QuarantineError ''ZBA commitment verification failed'')
         else Inr r)))"

section \<open>Correctness\<close>

lemma zba_fixed_keys: "map fst (zba_fixed e p) = map fst (zba_fixed [] [])"
  by (simp add: zba_fixed_def)

lemma zba_keys_distinct: "distinct (map fst (zba_fixed e p @ [(''event_time'', t)]))"
  by (simp add: zba_fixed_def)

lemma is_sha256_hexdigest: "is_sha256 (hexdigest m)"
proof -
  have "list_all is_hex_lower (hexdigest m)" by (rule hexdigest_lower)
  then show ?thesis
    using hexdigest_ascii [of m] by (simp add: is_sha256_def py_len_ascii lower_hex) (simp add: hexdigest_def from_hex_hex_of)
qed

lemma is_sha256_zero: "is_sha256 zero_commitment"
  by code_simp

text \<open>The validator accepts exactly the records with the fixed fields and the right commitment.\<close>

lemma check_fixed_all:
  "rfold (check_fixed r) fs () = Inr () \<longleftrightarrow> (\<forall>(k, v) \<in> set fs. py_eq (dget r k) v)"
  by (induction fs) (auto simp: check_fixed_def)

lemma rfold_unit: "rfold f fs () = Inr u \<longleftrightarrow> rfold f fs () = Inr ()"
  by simp

lemma validate_iff:
  "validate_quarantine_record (JObj r) e p = Inr r' \<longleftrightarrow>
     r' = r \<and> keys_of r = zba_required \<and> (\<forall>(k, v) \<in> set (zba_fixed e p). py_eq (dget r k) v)
     \<and> (\<exists>t. dget r ''event_time'' = JStr (t @ ''Z''))
     \<and> (\<exists>c. dget r ''commitment'' = JStr c \<and> commitment r = Inr c)"
proof -
  have e: "is_str t \<and> ends_with (str_of t) ''Z'' \<longleftrightarrow> (\<exists>s. t = JStr (s @ ''Z''))" for t
    by (cases t) (auto simp: ends_with_iff)
  have c: "commitment r = Inr d \<Longrightarrow> is_sha256 d" for d
    by (auto simp: commitment_def Let_def rbind_Inr_iff is_sha256_hexdigest split: if_splits)
  have s: "is_str v \<longleftrightarrow> (\<exists>s. v = JStr s)" for v by (cases v) auto
  show ?thesis
    unfolding validate_quarantine_record_def Let_def
    using e [of "dget r ''event_time''"] c
    by (auto simp: rbind_Inr_iff check_fixed_all s split: if_splits)
qed

lemma dget_dput: "wf_dict d \<Longrightarrow> dget (dput k v d) k' = (if k' = k then v else dget d k')"
  by (simp add: dget_def map_of_dput)

lemma dget_ddel: "dget (ddel k d) k' = (if k' = k then JNull else dget d k')"
  by (simp add: dget_def map_of_ddel)

lemma ddel_dput: "wf_dict d \<Longrightarrow> k \<notin> keys_of d \<Longrightarrow> ddel k (dput k v d) = d"
  by (rule wf_dict_eqI) (auto simp: wf_ddel wf_dput map_of_ddel map_of_dput keys_of_iff fun_eq_iff)

lemma ddel_absent: "k \<notin> keys_of d \<Longrightarrow> ddel k d = d"
  by (induction d) (auto simp: keys_of_def ddel_def)

lemma create_ok:
  assumes "is_Inr (canonical_json_bytes (JObj (ddel ''commitment''
      (mk_dict (zba_fixed e p @ [(''event_time'', JStr t)])))))"
  shows "\<exists>r. create_quarantine_record e p t = Inr r"
proof -
  let ?kvs = "zba_fixed e p @ [(''event_time'', JStr t)]"
  have "dget (mk_dict ?kvs) ''previous_commitment'' = JStr zero_commitment"
    by (rule dget_mk_dict [OF zba_keys_distinct]) (simp add: zba_fixed_def)
  then show ?thesis
    using assms is_sha256_zero
    by (auto simp: create_quarantine_record_def commitment_def Let_def dget_ddel is_Inr_iff)
qed

lemma create_validates:
  assumes "create_quarantine_record entry_id payload_sha256 created_at = Inr r"
    and "ends_with created_at ''Z''"
  shows "validate_quarantine_record (JObj r) entry_id payload_sha256 = Inr r"
proof -
  let ?kvs = "zba_fixed entry_id payload_sha256 @ [(''event_time'', JStr created_at)]"
  let ?r = "mk_dict ?kvs"
  from assms(1) obtain c where c: "commitment ?r = Inr c" "r = dput ''commitment'' (JStr c) ?r"
    by (auto simp: create_quarantine_record_def Let_def rbind_Inr_iff)
  have keys: "keys_of ?r = fst ` set ?kvs"
    using keys_mk_dict [of ?kvs] by (simp add: keys_of_def)
  have fr: "fst ` set (zba_fixed entry_id payload_sha256) = fst ` set (zba_fixed [] [])"
    by (metis zba_fixed_keys list.set_map)
  have nc: "''commitment'' \<notin> keys_of ?r" unfolding keys by (simp add: zba_fixed_def)
  have kr: "keys_of r = zba_required"
    using keys fr keys_dput [of "''commitment''" "JStr c" ?r]
    by (auto simp: c(2) keys_of_def zba_required_def)
  have g: "dget r k = v" if "(k, v) \<in> set ?kvs" for k v
  proof -
    have "k \<noteq> ''commitment''" using that nc keys by force
    with dget_mk_dict [OF zba_keys_distinct that] show ?thesis by (simp add: c(2) dget_dput)
  qed
  have "ddel ''commitment'' r = ddel ''commitment'' ?r"
    using nc by (simp add: c(2) ddel_dput ddel_absent)
  then have "commitment r = Inr c" using c(1) by (simp add: commitment_def)
  moreover have "dget r ''commitment'' = JStr c" by (simp add: c(2) dget_dput)
  moreover have "dget r ''event_time'' = JStr created_at" by (rule g) simp
  moreover have "\<forall>(k, v) \<in> set (zba_fixed entry_id payload_sha256). py_eq (dget r k) v"
  proof clarify
    fix k v
    assume "(k, v) \<in> set (zba_fixed entry_id payload_sha256)"
    then have "dget r k = v" by (intro g) simp
    then show "py_eq (dget r k) v" by simp
  qed
  ultimately show ?thesis
    using kr assms(2) by (simp add: validate_iff ends_with_iff)
qed

lemma create_wf: "create_quarantine_record e p t = Inr r \<Longrightarrow> wf_json (JObj r)"
proof -
  assume "create_quarantine_record e p t = Inr r"
  then obtain c where r: "r = dput ''commitment'' (JStr c) (mk_dict (zba_fixed e p @ [(''event_time'', JStr t)]))"
    by (auto simp: create_quarantine_record_def Let_def rbind_Inr_iff)
  have d: "length (dec_nat 0) \<le> 4300" "length (dec_nat (Suc 0)) \<le> 4300" by (simp_all add: dec_nat.simps)
  have "\<forall>v \<in> snd ` set (zba_fixed e p @ [(''event_time'', JStr t)]). wf_json v"
    by (simp add: zba_fixed_def d)
  from this have "\<forall>v \<in> snd ` set (mk_dict (zba_fixed e p @ [(''event_time'', JStr t)])). wf_json v"
    by (rule subset_ball [OF mk_dict_vals])
  then have "\<forall>v \<in> snd ` set r. wf_json v"
    using dput_vals [of "''commitment''" "JStr c"] unfolding r by fastforce
  then show "wf_json (JObj r)" by (force simp: r wf_dput)
qed

lemma create_example: "\<exists>r. create_quarantine_record ''7'' ''aa'' ''2026-01-01T00:00:00Z'' = Inr r"
  by (rule create_ok) code_simp

lemma create_example2: "\<exists>r. create_quarantine_record ''8'' ''bb'' ''2026-01-01T00:00:00Z'' = Inr r"
  by (rule create_ok) code_simp

text \<open>
  A record created for an entry and a payload digest is accepted by the validator for that
  entry and digest, unchanged, whenever its event time ends in Z.
\<close>

theorem zba_create_validates:
  assumes "create_quarantine_record entry_id payload_sha256 created_at = Inr r"
    and "ends_with created_at ''Z''"
  shows "validate_quarantine_record (JObj r) entry_id payload_sha256 = Inr r"
  using assms by (rule create_validates)

lemma zba_create_validates_witness:
  "\<exists>r. create_quarantine_record ''7'' ''aa'' ''2026-01-01T00:00:00Z'' = Inr r
     \<and> validate_quarantine_record (JObj r) ''7'' ''aa'' = Inr r"
  using create_example zba_create_validates [of "''7''" "''aa''" "''2026-01-01T00:00:00Z''"]
  by (auto simp: ends_with_def)

lemma equal_commitments_collide:
  assumes "validate_quarantine_record (JObj r) e p = Inr r" and "wf_json (JObj r)"
    and "validate_quarantine_record (JObj s) e' p' = Inr s" and "wf_json (JObj s)"
    and "dget r ''commitment'' = dget s ''commitment''" and "r \<noteq> s"
  shows "\<exists>m n. m \<noteq> n \<and> sha256 m = sha256 n"
proof -
  let ?d = "ddel ''commitment''"
  have prev: "dget (?d x) ''previous_commitment'' = JStr zero_commitment"
    if "validate_quarantine_record (JObj x) a b = Inr x" for x a b
  proof -
    have "(''previous_commitment'', JStr zero_commitment) \<in> set (zba_fixed a b)"
      by (simp add: zba_fixed_def)
    with that have "py_eq (dget x ''previous_commitment'') (JStr zero_commitment)"
      unfolding validate_iff by fastforce
    then show ?thesis by (simp add: dget_ddel)
  qed
  have com: "\<exists>b. canonical_json_bytes (JObj (?d x)) = Inr b \<and> dget x ''commitment'' =
      JStr (hexdigest (zba_domain @ the (from_hex zero_commitment) @ b))"
    if "validate_quarantine_record (JObj x) a b = Inr x" for x a b
    using that prev [OF that]
    by (auto simp: validate_iff commitment_def Let_def rbind_Inr_iff split: if_splits)
  obtain b where b: "canonical_json_bytes (JObj (?d r)) = Inr b" "dget r ''commitment'' =
      JStr (hexdigest (zba_domain @ the (from_hex zero_commitment) @ b))"
    using com [OF assms(1)] by blast
  obtain c where c: "canonical_json_bytes (JObj (?d s)) = Inr c" "dget s ''commitment'' =
      JStr (hexdigest (zba_domain @ the (from_hex zero_commitment) @ c))"
    using com [OF assms(3)] by blast
  have wfd: "wf_json (JObj (?d x))" if "wf_json (JObj x)" for x
    using that wf_ddel by (auto simp: ddel_def)
  have "b \<noteq> c"
  proof
    assume "b = c"
    moreover have "strict_json_loads b = Inr (JObj (?d r))" "strict_json_loads c = Inr (JObj (?d s))"
      using strict_canonical [OF wfd [OF assms(2)] b(1)] strict_canonical [OF wfd [OF assms(4)] c(1)]
      by blast+
    ultimately have "?d r = ?d s" by simp
    have "map_of x k = (if k = ''commitment'' then Some (dget x k) else map_of (?d x) k)"
      if "validate_quarantine_record (JObj x) a b = Inr x" for x a b k
    proof -
      have "''commitment'' \<in> keys_of x" using that by (simp add: validate_iff zba_required_def)
      then show ?thesis by (auto simp: map_of_ddel keys_of_iff dget_def)
    qed
    from this [OF assms(1)] this [OF assms(3)] \<open>?d r = ?d s\<close> have "map_of r k = map_of s k" for k
      using assms(5) by simp
    then have "map_of r = map_of s" by (rule ext)
    then have "r = s" using assms(2,4) by (intro wf_dict_eqI) auto
    with assms(6) show False by simp
  qed
  moreover have "sha256 (zba_domain @ the (from_hex zero_commitment) @ b)
      = sha256 (zba_domain @ the (from_hex zero_commitment) @ c)"
    using b(2) c(2) assms(5) by (simp add: hexdigest_def) (metis from_hex_hex_of option.inject)
  ultimately show ?thesis by (metis append.assoc same_append_eq)
qed

text \<open>
  The commitment binds the record: two different records that both validate, each for its
  own vault object, carry different commitments, or they exhibit a SHA-256 collision.
\<close>

theorem zba_commitment_binds:
  assumes "validate_quarantine_record (JObj r) e p = Inr r" and "wf_json (JObj r)"
    and "validate_quarantine_record (JObj s) e' p' = Inr s" and "wf_json (JObj s)"
    and "r \<noteq> s"
  shows "dget r ''commitment'' \<noteq> dget s ''commitment'' \<or> (\<exists>m n. m \<noteq> n \<and> sha256 m = sha256 n)"
  using equal_commitments_collide [OF assms(1-4)] assms(5) by blast

lemma zba_commitment_binds_witness:
  "\<exists>r s. dget r ''asset_id'' = JStr ''7'' \<and> dget s ''asset_id'' = JStr ''8''
     \<and> \<not> (dget r ''commitment'' = dget s ''commitment'' \<and> inj sha256)"
proof -
  obtain r s where c: "create_quarantine_record ''7'' ''aa'' ''2026-01-01T00:00:00Z'' = Inr r"
    "create_quarantine_record ''8'' ''bb'' ''2026-01-01T00:00:00Z'' = Inr s"
    using create_example create_example2 by blast
  have v: "validate_quarantine_record (JObj r) ''7'' ''aa'' = Inr r"
    "validate_quarantine_record (JObj s) ''8'' ''bb'' = Inr s"
    using c by (auto intro!: create_validates simp: ends_with_def)
  then have a: "dget r ''asset_id'' = JStr ''7''" "dget s ''asset_id'' = JStr ''8''"
    by (auto simp: validate_iff zba_fixed_def)
  then have "r \<noteq> s" by auto
  from zba_commitment_binds [OF v(1) create_wf [OF c(1)] v(2) create_wf [OF c(2)] this]
  have "\<not> (dget r ''commitment'' = dget s ''commitment'' \<and> inj sha256)" by (auto simp: inj_def)
  with a show ?thesis by blast
qed

end
