(* ===== verification/World.thy ===== *)
theory World
  imports Util
begin

text \<open>
  The operating system the program runs on: a file system of inodes, and a schedule that says,
  for every system call by its number, what other processes did to the file system before it
  and whether it fails.  A computation takes the world and returns a result, a value or the
  exception raised, and the world; the control structures of Python (\<^verbatim>\<open>try\<close>, \<^verbatim>\<open>except\<close>,
  \<^verbatim>\<open>finally\<close>, \<^verbatim>\<open>contextlib.suppress\<close>) are the combinators below.  On top of it stand
  \<open>atomic_write_bytes\<close>, \<open>atomic_write_json\<close> and \<open>update_lock\<close> of
  \<^verbatim>\<open>src/zsec_shield/util.py\<close>, on a POSIX system.
\<close>

section \<open>The world\<close>

type_synonym path = string

datatype fkind = Reg | Dir | Lnk | Special

record inode =
  i_kind :: fkind
  i_dev :: nat
  i_mtime :: int
  i_mode :: nat
  i_data :: string

record fs =
  f_names :: "path \<Rightarrow> nat option"
  f_inodes :: "nat \<Rightarrow> inode"
  f_next :: nat

record world =
  w_fs :: fs
  w_tick :: nat
  w_faults :: "nat \<Rightarrow> exn option"
  w_env :: "nat \<Rightarrow> fs \<Rightarrow> fs"
  w_cut :: "nat \<Rightarrow> nat"
  w_fresh :: "nat \<Rightarrow> string"
  w_clock :: "nat \<Rightarrow> nat"
  w_locked :: "path list"

type_synonym 'a io = "world \<Rightarrow> 'a res \<times> world"

definition io_ret :: "'a \<Rightarrow> 'a io" where
  "io_ret x w = (Inr x, w)"

definition io_raise :: "exn \<Rightarrow> 'a io" where
  "io_raise e w = (Inl e, w)"

definition io_lift :: "'a res \<Rightarrow> 'a io" where
  "io_lift r w = (r, w)"

definition io_bind :: "'a io \<Rightarrow> ('a \<Rightarrow> 'b io) \<Rightarrow> 'b io" where
  "io_bind m f w = (case m w of (Inl e, w') \<Rightarrow> (Inl e, w') | (Inr x, w') \<Rightarrow> f x w')"

definition io_then :: "'a io \<Rightarrow> 'b io \<Rightarrow> 'b io" where
  "io_then m k = io_bind m (\<lambda>_. k)"

definition io_if :: "bool \<Rightarrow> exn \<Rightarrow> 'a io \<Rightarrow> 'a io" where
  "io_if b e k = (if b then io_raise e else k)"

text \<open>\<^verbatim>\<open>except\<close> clauses: the handler runs for the exceptions that satisfy \<open>p\<close>.\<close>

definition io_catch :: "'a io \<Rightarrow> (exn \<Rightarrow> bool) \<Rightarrow> (exn \<Rightarrow> 'a io) \<Rightarrow> 'a io" where
  "io_catch m p h w =
    (case m w of (Inl e, w') \<Rightarrow> if p e then h e w' else (Inl e, w') | (Inr x, w') \<Rightarrow> (Inr x, w'))"

text \<open>\<^verbatim>\<open>finally\<close>: an exception of the clean-up replaces the outcome of the body.\<close>

definition io_finally :: "'a io \<Rightarrow> unit io \<Rightarrow> 'a io" where
  "io_finally m c w =
    (case m w of (r, w') \<Rightarrow> (case c w' of (Inl e, w'') \<Rightarrow> (Inl e, w'') | (Inr _, w'') \<Rightarrow> (r, w'')))"

definition io_suppress :: "unit io \<Rightarrow> unit io" where
  "io_suppress m = io_catch m is_os_error (\<lambda>_. io_ret ())"

lemma io_bind_simps [simp]:
  "io_bind (io_ret x) f w = f x w" "io_bind (io_raise e) f w = (Inl e, w)"
  "io_then (io_ret x) k w = k w" "io_then (io_raise e) k w = (Inl e, w)"
  by (simp_all add: io_bind_def io_then_def io_ret_def io_raise_def)

lemma io_if_simps [simp]: "io_if True e k = io_raise e" "io_if False e k = k"
  by (simp_all add: io_if_def)

lemma io_bind_Inr: "m w = (Inr x, w') \<Longrightarrow> io_bind m f w = f x w'"
  by (simp add: io_bind_def)

lemma io_then_Inr: "m w = (Inr x, w') \<Longrightarrow> io_then m k w = k w'"
  by (simp add: io_then_def io_bind_def)

lemma io_bind_Inl: "m w = (Inl e, w') \<Longrightarrow> io_bind m f w = (Inl e, w')"
  by (simp add: io_bind_def)

lemma io_bind_eq_Inr:
  "io_bind m f w = (Inr y, w'') \<longleftrightarrow> (\<exists>x w'. m w = (Inr x, w') \<and> f x w' = (Inr y, w''))"
  by (auto simp: io_bind_def split: prod.splits sum.splits)

lemma io_then_eq_Inr:
  "io_then m k w = (Inr y, w'') \<longleftrightarrow> (\<exists>x w'. m w = (Inr x, w') \<and> k w' = (Inr y, w''))"
  by (simp add: io_then_def io_bind_eq_Inr)

lemma io_bind_eq_Inl:
  "io_bind m f w = (Inl e, w'') \<longleftrightarrow>
     m w = (Inl e, w'') \<or> (\<exists>x w'. m w = (Inr x, w') \<and> f x w' = (Inl e, w''))"
  by (auto simp: io_bind_def split: prod.splits sum.splits)

lemma io_if_eq_Inr: "io_if b e k w = (Inr y, w') \<longleftrightarrow> \<not> b \<and> k w = (Inr y, w')"
  by (auto simp: io_if_def io_raise_def)

lemma io_ret_eq [simp]: "io_ret x w = (r, w') \<longleftrightarrow> r = Inr x \<and> w' = w"
  by (auto simp: io_ret_def)

lemma io_raise_eq [simp]: "io_raise e w = (r, w') \<longleftrightarrow> r = Inl e \<and> w' = w"
  by (auto simp: io_raise_def)

lemma io_lift_eq [simp]: "io_lift m w = (r, w') \<longleftrightarrow> r = m \<and> w' = w"
  by (auto simp: io_lift_def)

lemma io_catch_eq_Inr:
  "io_catch m p h w = (Inr x, w'') \<longleftrightarrow>
     m w = (Inr x, w'') \<or> (\<exists>e w'. m w = (Inl e, w') \<and> p e \<and> h e w' = (Inr x, w''))"
  by (auto simp: io_catch_def split: prod.splits sum.splits if_splits)

lemmas io_inv = io_bind_eq_Inr io_then_eq_Inr io_if_eq_Inr io_catch_eq_Inr

section \<open>System calls\<close>

definition step_world :: "world \<Rightarrow> world" where
  "step_world w = w\<lparr>w_fs := w_env w (w_tick w) (w_fs w), w_tick := Suc (w_tick w)\<rparr>"

text \<open>One call: others act, then it fails as scheduled or does its work.\<close>

definition sys :: "(fs \<Rightarrow> 'a res \<times> fs) \<Rightarrow> 'a io" where
  "sys act w =
    (let w' = step_world w in
     case w_faults w (w_tick w) of Some e \<Rightarrow> (Inl e, w')
     | None \<Rightarrow> (case act (w_fs w') of (r, f) \<Rightarrow> (r, w'\<lparr>w_fs := f\<rparr>)))"

definition quiet :: "world \<Rightarrow> bool" where
  "quiet w = ((\<forall>n. w_faults w n = None) \<and> (\<forall>n f. w_env w n f = f))"

definition parent_of :: "path \<Rightarrow> path" where
  "parent_of p = rev (drop 1 (dropWhile (\<lambda>c. c \<noteq> CHR ''/'') (rev p)))"

definition base_name :: "path \<Rightarrow> string" where
  "base_name p = rev (takeWhile (\<lambda>c. c \<noteq> CHR ''/'') (rev p))"

definition join_path :: "path \<Rightarrow> string \<Rightarrow> path" where
  "join_path d n = d @ ''/'' @ n"

fun resolve :: "nat \<Rightarrow> fs \<Rightarrow> path \<Rightarrow> nat res" where
  "resolve 0 f p = Inl (OSError ''too many levels of symbolic links'')"
| "resolve (Suc n) f p =
    (case f_names f p of None \<Rightarrow> Inl (FileNotFoundError p)
     | Some i \<Rightarrow> if i_kind (f_inodes f i) = Lnk then resolve n f (i_data (f_inodes f i)) else Inr i)"

definition max_links :: nat where "max_links = 40"

definition sys_stat :: "path \<Rightarrow> (nat \<times> inode) io" where
  "sys_stat p = sys (\<lambda>f. (rbind (resolve max_links f p) (\<lambda>i. Inr (i, f_inodes f i)), f))"

definition sys_lstat :: "path \<Rightarrow> (nat \<times> inode) io" where
  "sys_lstat p = sys (\<lambda>f.
    (case f_names f p of None \<Rightarrow> Inl (FileNotFoundError p) | Some i \<Rightarrow> Inr (i, f_inodes f i), f))"

definition path_exists :: "path \<Rightarrow> bool io" where
  "path_exists p = io_catch (io_bind (sys_stat p) (\<lambda>_. io_ret True))
     (\<lambda>e. case e of FileNotFoundError _ \<Rightarrow> True | _ \<Rightarrow> False) (\<lambda>_. io_ret False)"

definition path_is_file :: "path \<Rightarrow> bool io" where
  "path_is_file p = io_catch (io_bind (sys_stat p) (\<lambda>(_, d). io_ret (i_kind d = Reg)))
     (\<lambda>e. case e of FileNotFoundError _ \<Rightarrow> True | _ \<Rightarrow> False) (\<lambda>_. io_ret False)"

definition stat_size :: "path \<Rightarrow> nat io" where
  "stat_size p = io_bind (sys_stat p) (\<lambda>(_, d). io_ret (length (i_data d)))"

definition sys_read_bytes :: "path \<Rightarrow> string io" where
  "sys_read_bytes p = sys (\<lambda>f. (rbind (resolve max_links f p) (\<lambda>i.
      if i_kind (f_inodes f i) = Dir then Inl (OSError ''is a directory'')
      else Inr (i_data (f_inodes f i))), f))"

definition sys_open_read :: "path \<Rightarrow> nat io" where
  "sys_open_read p = sys (\<lambda>f.
    (case f_names f p of None \<Rightarrow> Inl (FileNotFoundError p)
     | Some i \<Rightarrow> if i_kind (f_inodes f i) = Lnk then Inl (OSError ''is a symbolic link'') else Inr i, f))"

definition sys_fstat :: "nat \<Rightarrow> (nat \<times> inode) io" where
  "sys_fstat i = sys (\<lambda>f. (Inr (i, f_inodes f i), f))"

definition sys_read :: "nat \<Rightarrow> nat \<Rightarrow> nat \<Rightarrow> string io" where
  "sys_read i off n = sys (\<lambda>f. (Inr (take n (drop off (i_data (f_inodes f i)))), f))"

definition new_inode :: "fs \<Rightarrow> path \<Rightarrow> inode \<Rightarrow> fs" where
  "new_inode f p d = f\<lparr>f_names := (f_names f)(p \<mapsto> f_next f),
     f_inodes := (f_inodes f)(f_next f := d), f_next := Suc (f_next f)\<rparr>"

definition dir_inode :: inode where
  "dir_inode = \<lparr>i_kind = Dir, i_dev = 1, i_mtime = 0, i_mode = 448, i_data = []\<rparr>"

definition file_inode :: "string \<Rightarrow> inode" where
  "file_inode d = \<lparr>i_kind = Reg, i_dev = 1, i_mtime = 0, i_mode = 384, i_data = d\<rparr>"

text \<open>The missing directories of a path, outermost first, and \<^verbatim>\<open>mkdir(parents, exist_ok)\<close>.\<close>

function ancestors :: "path \<Rightarrow> path list" where
  "ancestors p = (if length (parent_of p) < length p \<and> p \<noteq> [] then ancestors (parent_of p) @ [p] else [])"
  by pat_completeness auto
termination by (relation "measure length") auto

declare ancestors.simps [simp del]

definition add_dir :: "path \<Rightarrow> fs \<Rightarrow> fs" where
  "add_dir p f = (if f_names f p = None then new_inode f p dir_inode else f)"

definition sys_mkdirs :: "path \<Rightarrow> unit io" where
  "sys_mkdirs p = sys (\<lambda>f.
    let f' = fold add_dir (ancestors p) f in
    case f_names f' p of None \<Rightarrow> (Inr (), f')
    | Some i \<Rightarrow> if i_kind (f_inodes f' i) = Dir then (Inr (), f') else (Inl (FileExistsError p), f))"

definition dir_exists :: "fs \<Rightarrow> path \<Rightarrow> bool" where
  "dir_exists f p = (p = [] \<or> (case resolve max_links f p of Inl _ \<Rightarrow> False
     | Inr i \<Rightarrow> i_kind (f_inodes f i) = Dir))"

text \<open>Create a new empty file, failing when the name is taken (\<^verbatim>\<open>O_EXCL\<close>).\<close>

definition create_excl :: "path \<Rightarrow> fs \<Rightarrow> nat res \<times> fs" where
  "create_excl p f =
    (if f_names f p \<noteq> None then (Inl (FileExistsError p), f)
     else if \<not> dir_exists f (parent_of p) then (Inl (FileNotFoundError p), f)
     else (Inr (f_next f), new_inode f p (file_inode [])))"

definition sys_create :: "path \<Rightarrow> nat io" where
  "sys_create p = sys (create_excl p)"

definition sys_mkstemp :: "path \<Rightarrow> string \<Rightarrow> (nat \<times> path) io" where
  "sys_mkstemp d pre w =
    (let p = join_path d (pre @ w_fresh w (w_tick w))
     in io_bind (sys_create p) (\<lambda>i. io_ret (i, p)) w)"

definition append_data :: "nat \<Rightarrow> string \<Rightarrow> fs \<Rightarrow> fs" where
  "append_data i d f = f\<lparr>f_inodes := (f_inodes f)
     (i := (f_inodes f i)\<lparr>i_data := i_data (f_inodes f i) @ d\<rparr>)\<rparr>"

text \<open>A write that fails leaves a prefix of the data, as long as the schedule says.\<close>

definition sys_write :: "nat \<Rightarrow> string \<Rightarrow> unit io" where
  "sys_write i d w =
    (let w' = step_world w in
     case w_faults w (w_tick w) of
       Some e \<Rightarrow> (Inl e, w'\<lparr>w_fs := append_data i (take (w_cut w (w_tick w)) d) (w_fs w')\<rparr>)
     | None \<Rightarrow> (Inr (), w'\<lparr>w_fs := append_data i d (w_fs w')\<rparr>))"

definition sys_nop :: "unit io" where
  "sys_nop = sys (\<lambda>f. (Inr (), f))"

definition sys_fsync :: "nat \<Rightarrow> unit io" where
  "sys_fsync i = sys_nop"

definition sys_chmod :: "path \<Rightarrow> nat \<Rightarrow> unit io" where
  "sys_chmod p m = sys (\<lambda>f. case resolve max_links f p of Inl e \<Rightarrow> (Inl e, f)
     | Inr i \<Rightarrow> (Inr (), f\<lparr>f_inodes := (f_inodes f)(i := (f_inodes f i)\<lparr>i_mode := m\<rparr>)\<rparr>))"

definition sys_unlink :: "path \<Rightarrow> unit io" where
  "sys_unlink p = sys (\<lambda>f. case f_names f p of None \<Rightarrow> (Inl (FileNotFoundError p), f)
     | Some i \<Rightarrow> if i_kind (f_inodes f i) = Dir then (Inl (OSError ''is a directory''), f)
                else (Inr (), f\<lparr>f_names := (f_names f)(p := None)\<rparr>))"

text \<open>\<^verbatim>\<open>os.replace\<close> of a file: it replaces the name in one step.\<close>

definition sys_replace :: "path \<Rightarrow> path \<Rightarrow> unit io" where
  "sys_replace a b = sys (\<lambda>f. case f_names f a of None \<Rightarrow> (Inl (FileNotFoundError a), f)
     | Some i \<Rightarrow>
       (case f_names f b of
          Some j \<Rightarrow> if i_kind (f_inodes f j) = Dir then (Inl (OSError ''is a directory''), f)
                   else (Inr (), f\<lparr>f_names := (f_names f)(a := None, b \<mapsto> i)\<rparr>)
        | None \<Rightarrow> (Inr (), f\<lparr>f_names := (f_names f)(a := None, b \<mapsto> i)\<rparr>)))"

section \<open>Atomic writes and the update lock\<close>

definition fsync_directory :: "path \<Rightarrow> unit io" where
  "fsync_directory p =
    io_bind (io_catch (io_bind (sys_open_read p) (\<lambda>i. io_ret (Some i))) is_os_error (\<lambda>_. io_ret None))
      (\<lambda>d. case d of None \<Rightarrow> io_ret () | Some i \<Rightarrow> sys_fsync i)"

definition atomic_write_bytes :: "path \<Rightarrow> string \<Rightarrow> nat \<Rightarrow> unit io" where
  "atomic_write_bytes p data mode =
    io_then (sys_mkdirs (parent_of p))
    (io_bind (sys_mkstemp (parent_of p) (''.'' @ base_name p @ ''.'')) (\<lambda>(i, tmp).
      io_catch
        (io_then (sys_write i data)
        (io_then (sys_fsync i)
        (io_then (io_suppress (sys_chmod tmp mode))
        (io_then (sys_replace tmp p)
                 (fsync_directory (parent_of p))))))
        (\<lambda>_. True)
        (\<lambda>e. io_then (io_suppress (sys_unlink tmp)) (io_raise e))))"

definition atomic_write_json :: "path \<Rightarrow> json \<Rightarrow> nat \<Rightarrow> unit io" where
  "atomic_write_json p v mode =
    io_bind (io_lift (indented_json_bytes v)) (\<lambda>data. atomic_write_bytes p data mode)"

text \<open>
  \<open>update_lock\<close>: the lock file is opened, the lock is taken without waiting, the body runs,
  and the lock is released.  \<open>w_locked\<close> are the lock files other processes hold.
\<close>

definition sys_open_append :: "path \<Rightarrow> unit io" where
  "sys_open_append p = sys (\<lambda>f. case resolve max_links f p of
       Inr i \<Rightarrow> (if i_kind (f_inodes f i) = Dir then Inl (OSError ''is a directory'') else Inr (), f)
     | Inl _ \<Rightarrow> (case create_excl p f of (Inl e, f') \<Rightarrow> (Inl e, f') | (Inr _, f') \<Rightarrow> (Inr (), f')))"

definition try_flock :: "path \<Rightarrow> unit io" where
  "try_flock p w =
    (if p \<in> set (w_locked w) then (Inl (OSError ''resource temporarily unavailable''), step_world w)
     else (case sys_nop w of (Inl e, w') \<Rightarrow> (Inl e, w')
           | (Inr _, w') \<Rightarrow> (Inr (), w'\<lparr>w_locked := p # w_locked w'\<rparr>)))"

definition unlock :: "path \<Rightarrow> unit io" where
  "unlock p w = (Inr (), w\<lparr>w_locked := remove1 p (w_locked w)\<rparr>)"

definition update_lock :: "path \<Rightarrow> 'a io \<Rightarrow> 'a io" where
  "update_lock p body =
    io_then (sys_mkdirs (parent_of p))
    (io_then (sys_open_append p)
    (io_then (io_catch (try_flock p) is_os_error
                (\<lambda>_. io_raise (FeedError ''another feed update is already in progress'')))
             (io_finally body (unlock p))))"

end
