(* ===== verification/World_Logic.thy ===== *)
theory World_Logic
  imports World
begin

text \<open>
  Partial-correctness triples over the world for systems where no other process interferes
  and no call reports a file as missing that is there (\<open>calm\<close>), while any system call may
  otherwise still fail at any point: \<open>triple P m Q R\<close> says that
  from a file system that satisfies \<open>P\<close> the computation returns \<open>x\<close> with \<open>Q x\<close>, or raises
  \<open>e\<close> with \<open>R e\<close>.  Every computation here is a total function, so it always does one of the
  two.  With them, the guarantee of \<open>atomic_write_bytes\<close>: whatever fails, a reader of the
  path finds the old file or the complete new one.
\<close>

definition calm :: "world \<Rightarrow> bool" where
  "calm w = ((\<forall>n f. w_env w n f = f) \<and> (\<forall>n p. w_faults w n \<noteq> Some (FileNotFoundError p)))"

fun post :: "('a \<Rightarrow> fs \<Rightarrow> bool) \<Rightarrow> (exn \<Rightarrow> fs \<Rightarrow> bool) \<Rightarrow> 'a res \<Rightarrow> fs \<Rightarrow> bool" where
  "post Q R (Inl e) f = R e f"
| "post Q R (Inr x) f = Q x f"

definition triple :: "(fs \<Rightarrow> bool) \<Rightarrow> 'a io \<Rightarrow> ('a \<Rightarrow> fs \<Rightarrow> bool) \<Rightarrow> (exn \<Rightarrow> fs \<Rightarrow> bool) \<Rightarrow> bool" where
  "triple P m Q R = (\<forall>w. calm w \<and> P (w_fs w) \<longrightarrow>
      calm (snd (m w)) \<and> post Q R (fst (m w)) (w_fs (snd (m w))))"

lemma quiet_calm: "quiet w \<Longrightarrow> calm w"
  by (simp add: quiet_def calm_def)

lemma tripleI:
  "(\<And>w r w'. calm w \<Longrightarrow> P (w_fs w) \<Longrightarrow> m w = (r, w') \<Longrightarrow> calm w' \<and> post Q R r (w_fs w'))
   \<Longrightarrow> triple P m Q R"
  unfolding triple_def by (metis prod.collapse)

lemma tripleX:
  "triple P m Q R \<Longrightarrow> calm w \<Longrightarrow> P (w_fs w) \<Longrightarrow> m w = (r, w') \<Longrightarrow> calm w' \<and> post Q R r (w_fs w')"
  unfolding triple_def by (metis fst_conv snd_conv)

lemma tripleD: "triple P m Q R \<Longrightarrow> calm w \<Longrightarrow> P (w_fs w) \<Longrightarrow> m w = (Inr x, w') \<Longrightarrow> Q x (w_fs w')"
  by (drule (3) tripleX) simp

lemma tripleE: "triple P m Q R \<Longrightarrow> calm w \<Longrightarrow> P (w_fs w) \<Longrightarrow> m w = (Inl e, w') \<Longrightarrow> R e (w_fs w')"
  by (drule (3) tripleX) simp

lemma post_mono:
  "post Q R r f \<Longrightarrow> (\<And>x. Q x f \<Longrightarrow> Q' x f) \<Longrightarrow> (\<And>e. R e f \<Longrightarrow> R' e f) \<Longrightarrow> post Q' R' r f"
  by (cases r) auto

lemma triple_conseq:
  assumes "triple P m Q R" "\<And>f. P' f \<Longrightarrow> P f" "\<And>x f. Q x f \<Longrightarrow> Q' x f" "\<And>e f. R e f \<Longrightarrow> R' e f"
  shows "triple P' m Q' R'"
proof (rule tripleI)
  fix w r w'
  assume "calm w" "P' (w_fs w)" "m w = (r, w')"
  with assms(1,2) have "calm w' \<and> post Q R r (w_fs w')" by (blast dest: tripleX)
  with assms(3,4) show "calm w' \<and> post Q' R' r (w_fs w')" by (blast intro: post_mono)
qed

lemma triple_pre: "triple P m Q R \<Longrightarrow> (\<And>f. P' f \<Longrightarrow> P f) \<Longrightarrow> triple P' m Q R"
  by (rule triple_conseq)

lemma triple_ret: "(\<And>f. P f \<Longrightarrow> Q x f) \<Longrightarrow> triple P (io_ret x) Q R"
  by (simp add: triple_def io_ret_def)

lemma triple_raise: "(\<And>f. P f \<Longrightarrow> R e f) \<Longrightarrow> triple P (io_raise e) Q R"
  by (simp add: triple_def io_raise_def)

lemma triple_lift:
  "(\<And>f x. P f \<Longrightarrow> m = Inr x \<Longrightarrow> Q x f) \<Longrightarrow> (\<And>f e. P f \<Longrightarrow> m = Inl e \<Longrightarrow> R e f)
   \<Longrightarrow> triple P (io_lift m) Q R"
  by (cases m) (auto simp: triple_def io_lift_def)

lemma triple_bind:
  assumes m: "triple P m Q R" and f: "\<And>x. triple (Q x) (f x) Q' R"
  shows "triple P (io_bind m f) Q' R"
proof (rule tripleI)
  fix w r w'
  assume w: "calm w" "P (w_fs w)" and e: "io_bind m f w = (r, w')"
  obtain r1 w1 where m1: "m w = (r1, w1)" by force
  note s = tripleX [OF m w m1]
  show "calm w' \<and> post Q' R r (w_fs w')"
  proof (cases r1)
    case (Inl a)
    with e m1 s show ?thesis by (auto simp: io_bind_def)
  next
    case (Inr x)
    with e m1 have "f x w1 = (r, w')" by (simp add: io_bind_def)
    with f [of x] s Inr show ?thesis by (auto dest: tripleX)
  qed
qed

lemma triple_then:
  "triple P m (\<lambda>_. Q) R \<Longrightarrow> triple Q k Q' R \<Longrightarrow> triple P (io_then m k) Q' R"
  unfolding io_then_def by (rule triple_bind)

lemma triple_if:
  "(b \<Longrightarrow> \<forall>f. P f \<longrightarrow> R e f) \<Longrightarrow> (\<not> b \<Longrightarrow> triple P k Q R) \<Longrightarrow> triple P (io_if b e k) Q R"
  by (cases b) (auto simp: triple_raise)

lemma triple_catch:
  assumes m: "triple P m Q R'" and h: "\<And>e. p e \<Longrightarrow> triple (R' e) (h e) Q R"
    and n: "\<And>e f. \<not> p e \<Longrightarrow> R' e f \<Longrightarrow> R e f"
  shows "triple P (io_catch m p h) Q R"
proof (rule tripleI)
  fix w r w'
  assume w: "calm w" "P (w_fs w)" and e: "io_catch m p h w = (r, w')"
  obtain r1 w1 where m1: "m w = (r1, w1)" by force
  note s = tripleX [OF m w m1]
  show "calm w' \<and> post Q R r (w_fs w')"
  proof (cases r1)
    case (Inl a)
    show ?thesis
    proof (cases "p a")
      case True
      with Inl e m1 have "h a w1 = (r, w')" by (simp add: io_catch_def)
      with h [OF True] s Inl show ?thesis by (auto dest: tripleX)
    next
      case False
      with Inl e m1 s n show ?thesis by (auto simp: io_catch_def)
    qed
  next
    case (Inr x)
    with e m1 s show ?thesis by (auto simp: io_catch_def)
  qed
qed

lemma triple_finally:
  assumes m: "triple P m Q R"
    and q: "\<And>x. triple (Q x) c (\<lambda>_. Q x) R" and r: "\<And>e. triple (R e) c (\<lambda>_. R e) R"
  shows "triple P (io_finally m c) Q R"
proof (rule tripleI)
  fix w res w'
  assume w: "calm w" "P (w_fs w)" and e: "io_finally m c w = (res, w')"
  obtain r1 w1 where m1: "m w = (r1, w1)" by force
  obtain r2 w2 where c2: "c w1 = (r2, w2)" by force
  note s = tripleX [OF m w m1]
  show "calm w' \<and> post Q R res (w_fs w')"
  proof (cases r1)
    case (Inl a)
    with s have "calm w2 \<and> post (\<lambda>_. R a) R r2 (w_fs w2)"
      using tripleX [OF r [of a] _ _ c2] by simp
    with e m1 c2 Inl show ?thesis by (cases r2) (auto simp: io_finally_def)
  next
    case (Inr x)
    with s have "calm w2 \<and> post (\<lambda>_. Q x) R r2 (w_fs w2)"
      using tripleX [OF q [of x] _ _ c2] by simp
    with e m1 c2 Inr show ?thesis by (cases r2) (auto simp: io_finally_def)
  qed
qed

lemma triple_suppress:
  assumes "triple P m (\<lambda>_. Q) (\<lambda>e f. if is_os_error e then Q f else R e f)"
  shows "triple P (io_suppress m) (\<lambda>_. Q) R"
  unfolding io_suppress_def
  by (rule triple_catch [OF assms]) (auto intro!: triple_ret)

lemma calm_step: "calm w \<Longrightarrow> calm (step_world w) \<and> w_fs (step_world w) = w_fs w"
  by (simp add: step_world_def calm_def)

lemma calm_fs_update [simp]: "calm (w\<lparr>w_fs := f\<rparr>) = calm w"
  by (simp add: calm_def)

lemma triple_sys:
  assumes "\<And>e f. P f \<Longrightarrow> R e f"
    and "\<And>f r f'. P f \<Longrightarrow> act f = (r, f') \<Longrightarrow> post Q R r f'"
  shows "triple P (sys act) Q R"
proof (rule tripleI)
  fix w r w'
  assume w: "calm w" "P (w_fs w)" and e: "sys act w = (r, w')"
  note c = calm_step [OF w(1)]
  show "calm w' \<and> post Q R r (w_fs w')"
  proof (cases "w_faults w (w_tick w)")
    case None
    obtain r1 f1 where a: "act (w_fs w) = (r1, f1)" by force
    from e None a c have "r = r1" "w' = (step_world w)\<lparr>w_fs := f1\<rparr>"
      by (auto simp: sys_def Let_def)
    with assms(2) [OF w(2) a] c show ?thesis by simp
  next
    case (Some x)
    with e c assms(1) w show ?thesis by (auto simp: sys_def Let_def)
  qed
qed

text \<open>Calls that only look.\<close>

lemma triple_look:
  assumes "\<And>e f. P f \<Longrightarrow> R e f" and "\<And>f x. P f \<Longrightarrow> act f = Inr x \<Longrightarrow> Q x f"
  shows "triple P (sys (\<lambda>f. (act f, f))) Q R"
proof (rule triple_sys)
  fix f r f'
  assume "P f" "(act f, f) = (r, f')"
  with assms show "post Q R r f'" by (cases r) auto
qed (rule assms)

section \<open>Files as a reader sees them\<close>

definition view :: "fs \<Rightarrow> path \<Rightarrow> inode option" where
  "view f p = map_option (f_inodes f) (f_names f p)"

definition fs_ok :: "fs \<Rightarrow> bool" where
  "fs_ok f = (\<forall>p i. f_names f p = Some i \<longrightarrow> i < f_next f)"

lemma view_new_inode:
  "fs_ok f \<Longrightarrow> view (new_inode f p d) q = (if q = p then Some d else view f q)"
  by (cases "f_names f q") (auto simp: view_def new_inode_def fs_ok_def dest: spec)

lemma fs_ok_new_inode: "fs_ok f \<Longrightarrow> fs_ok (new_inode f p d)"
  by (auto simp: fs_ok_def new_inode_def less_SucI)

lemma ancestors_length: "q \<in> set (ancestors p) \<Longrightarrow> length q \<le> length p"
proof (induction p rule: ancestors.induct)
  case (1 p)
  from "1.prems" show ?case
    using "1.IH" by (subst (asm) ancestors.simps) (auto split: if_splits)
qed

lemma add_dirs:
  "fs_ok f \<Longrightarrow> fs_ok (fold add_dir ps f) \<and>
   (\<forall>q. view (fold add_dir ps f) q = (if view f q = None \<and> q \<in> set ps then Some dir_inode else view f q))"
proof (induction ps arbitrary: f)
  case (Cons p ps)
  have ok: "fs_ok (add_dir p f)" using Cons.prems by (simp add: add_dir_def fs_ok_new_inode)
  have v: "view (add_dir p f) q = (if view f q = None \<and> q = p then Some dir_inode else view f q)" for q
    using Cons.prems by (auto simp: add_dir_def view_new_inode) (simp_all add: view_def)
  show ?case using Cons.IH [OF ok] by (auto simp: v)
qed simp

lemma parent_shorter: "length (parent_of p) \<le> length p"
  by (simp add: parent_of_def) (metis diff_le_self le_trans length_dropWhile_le length_rev)

lemma length_parent_base: "length p \<le> length (parent_of p) + 1 + length (base_name p)"
proof -
  have "length (takeWhile (\<lambda>c. c \<noteq> CHR ''/'') (rev p)) + length (dropWhile (\<lambda>c. c \<noteq> CHR ''/'') (rev p)) = length p"
    by (metis length_append length_rev takeWhile_dropWhile_id)
  then show ?thesis by (simp add: parent_of_def base_name_def)
qed

section \<open>The guarantee of an atomic write\<close>

text \<open>
  \<open>grown f0 f p\<close>: every file but \<open>p\<close> that existed is as it was.  \<open>staged\<close> is the state
  between the creation of the temporary file and its renaming.
\<close>

definition grown :: "fs \<Rightarrow> fs \<Rightarrow> path \<Rightarrow> bool" where
  "grown f0 f p = (\<forall>q d. q \<noteq> p \<longrightarrow> view f0 q = Some d \<longrightarrow> view f q = Some d)"

definition published :: "string \<Rightarrow> fs \<Rightarrow> path \<Rightarrow> bool" where
  "published data f p = (\<exists>d. view f p = Some d \<and> i_kind d = Reg \<and> i_data d = data)"

definition staged :: "fs \<Rightarrow> path \<Rightarrow> nat \<Rightarrow> path \<Rightarrow> fs \<Rightarrow> bool" where
  "staged f0 p i tmp f =
    (fs_ok f \<and> tmp \<noteq> p \<and> view f0 tmp = None \<and> grown f0 f p \<and> view f p = view f0 p
     \<and> f_names f tmp = Some i \<and> (\<forall>q. q \<noteq> tmp \<longrightarrow> f_names f q \<noteq> Some i)
     \<and> i_kind (f_inodes f i) = Reg)"

lemma view_update_other:
  "(\<And>q. q \<noteq> tmp \<Longrightarrow> f_names f q \<noteq> Some i) \<Longrightarrow> q \<noteq> tmp \<Longrightarrow>
   view (f\<lparr>f_inodes := (f_inodes f)(i := d)\<rparr>) q = view f q"
  by (cases "f_names f q") (auto simp: view_def)

lemma staged_update:
  assumes "staged f0 p i tmp f" and "i_kind d = Reg"
  shows "staged f0 p i tmp (f\<lparr>f_inodes := (f_inodes f)(i := d)\<rparr>)"
proof -
  have o: "\<And>q. q \<noteq> tmp \<Longrightarrow> f_names f q \<noteq> Some i" and t: "view f0 tmp = None"
    using assms(1) by (auto simp: staged_def)
  note v = view_update_other [of tmp f i _ d, OF o]
  show ?thesis
    using assms v t by (auto simp: staged_def grown_def fs_ok_def) (metis option.distinct(1) v)
qed

lemma triple_mkdirs:
  "triple (\<lambda>f. f = f0 \<and> fs_ok f0) (sys_mkdirs d)
     (\<lambda>_ f. fs_ok f \<and> (\<forall>q. view f q = view f0 q \<or> view f0 q = None \<and> length q \<le> length d)) (\<lambda>_ f. f = f0)"
  unfolding sys_mkdirs_def
proof (rule triple_sys)
  fix f :: fs and r f'
  assume f: "f = f0 \<and> fs_ok f0" and a: "(let f' = fold add_dir (ancestors d) f in
      case f_names f' d of None \<Rightarrow> (Inr (), f')
      | Some i \<Rightarrow> if i_kind (f_inodes f' i) = Dir then (Inr (), f') else (Inl (FileExistsError d), f)) = (r, f')"
  define g where "g = fold add_dir (ancestors d) f0"
  have g: "fs_ok g \<and> (\<forall>q. view g q = view f0 q \<or> view f0 q = None \<and> length q \<le> length d)"
    using add_dirs [of f0 "ancestors d"] f ancestors_length [of _ d] by (auto simp: g_def)
  from a f have "r = Inr () \<and> f' = g \<or> (\<exists>e. r = Inl e) \<and> f' = f0"
    by (auto simp: Let_def g_def split: option.splits if_splits)
  with g show "post (\<lambda>_ f. fs_ok f \<and> (\<forall>q. view f q = view f0 q \<or> view f0 q = None \<and> length q \<le> length d))
      (\<lambda>_ f. f = f0) r f'" by auto
qed simp

lemma triple_mkstemp:
  assumes "\<And>f s. P f \<Longrightarrow> f_names f (join_path d (pre @ s)) = None \<Longrightarrow>
      Q (f_next f, join_path d (pre @ s)) (new_inode f (join_path d (pre @ s)) (file_inode []))"
    and "\<And>e f. P f \<Longrightarrow> R e f"
  shows "triple P (sys_mkstemp d pre) Q R"
proof (rule tripleI)
  fix w r w'
  assume w: "calm w" "P (w_fs w)" and e: "sys_mkstemp d pre w = (r, w')"
  define p where "p = join_path d (pre @ w_fresh w (w_tick w))"
  have "triple P (io_bind (sys_create p) (\<lambda>i. io_ret (i, p))) Q R"
    unfolding sys_create_def
    by (rule triple_bind [where Q = "\<lambda>i. Q (i, p)"], rule triple_sys)
       (use assms in \<open>auto simp: create_excl_def p_def split: if_splits intro!: triple_ret\<close>)
  moreover have "io_bind (sys_create p) (\<lambda>i. io_ret (i, p)) w = (r, w')"
    using e by (simp add: sys_mkstemp_def p_def Let_def)
  ultimately show "calm w' \<and> post Q R r (w_fs w')" using w by (blast dest: tripleX)
qed

lemma triple_write:
  assumes "\<And>f. P f \<Longrightarrow> Q () (append_data i d f)"
    and "\<And>f e n. P f \<Longrightarrow> R e (append_data i (take n d) f)"
  shows "triple P (sys_write i d) Q R"
proof (rule tripleI)
  fix w r w'
  assume w: "calm w" "P (w_fs w)" and e: "sys_write i d w = (r, w')"
  note c = calm_step [OF w(1)]
  show "calm w' \<and> post Q R r (w_fs w')"
    using e c assms w by (cases "w_faults w (w_tick w)") (auto simp: sys_write_def Let_def)
qed

lemma triple_nop: "(\<And>f. P f \<Longrightarrow> Q () f) \<Longrightarrow> (\<And>e f. P f \<Longrightarrow> R e f) \<Longrightarrow> triple P sys_nop Q R"
  unfolding sys_nop_def by (rule triple_look) auto

lemma triple_fsync_directory:
  "(\<And>e f. P f \<Longrightarrow> R e f) \<Longrightarrow> triple P (fsync_directory p) (\<lambda>_. P) R"
  unfolding fsync_directory_def
  apply (rule triple_bind [where Q = "\<lambda>_. P"])
   apply (rule triple_catch [where R' = "\<lambda>_. P"])
     apply (rule triple_bind [where Q = "\<lambda>_. P"])
  subgoal unfolding sys_open_read_def by (rule triple_look) auto
     apply (rule triple_ret, assumption)
    apply (rule triple_ret, assumption)
   apply blast
  apply (auto split: option.split simp: sys_fsync_def intro!: triple_ret triple_nop)
  done

definition settled :: "fs \<Rightarrow> path \<Rightarrow> string \<Rightarrow> fs \<Rightarrow> bool" where
  "settled f0 p data f =
    (fs_ok f \<and> grown f0 f p \<and> (view f p = view f0 p \<or> published data f p))"

lemma staged_settled: "staged f0 p i tmp f \<Longrightarrow> settled f0 p data f"
  by (simp add: staged_def settled_def)

lemma triple_replace:
  "triple (\<lambda>f. staged f0 p i tmp f \<and> i_data (f_inodes f i) = data) (sys_replace tmp p)
     (\<lambda>_ f. fs_ok f \<and> grown f0 f p \<and> published data f p \<and> view f0 tmp = None \<and> tmp \<noteq> p)
     (\<lambda>_ f. staged f0 p i tmp f)"
  unfolding sys_replace_def
proof (rule triple_sys)
  fix f :: fs and r f'
  let ?g = "f\<lparr>f_names := (f_names f)(tmp := None, p \<mapsto> i)\<rparr>"
  assume f: "staged f0 p i tmp f \<and> i_data (f_inodes f i) = data"
    and a: "(case f_names f tmp of None \<Rightarrow> (Inl (FileNotFoundError tmp), f)
     | Some i \<Rightarrow> (case f_names f p of
          Some j \<Rightarrow> if i_kind (f_inodes f j) = Dir then (Inl (OSError ''is a directory''), f)
                   else (Inr (), f\<lparr>f_names := (f_names f)(tmp := None, p \<mapsto> i)\<rparr>)
        | None \<Rightarrow> (Inr (), f\<lparr>f_names := (f_names f)(tmp := None, p \<mapsto> i)\<rparr>))) = (r, f')"
  from a f have "r = Inr () \<and> f' = ?g \<or> (\<exists>e. r = Inl e) \<and> f' = f"
    by (auto simp: staged_def split: option.splits if_splits)
  moreover have "view ?g q = (if q = p then Some (f_inodes f i) else if q = tmp then None else view f q)" for q
    by (simp add: view_def)
  then have "fs_ok ?g \<and> grown f0 ?g p \<and> published data ?g p"
    using f by (auto simp: staged_def grown_def published_def fs_ok_def)
  ultimately show "post (\<lambda>_ f. fs_ok f \<and> grown f0 f p \<and> published data f p \<and> view f0 tmp = None \<and> tmp \<noteq> p)
      (\<lambda>_ f. staged f0 p i tmp f) r f'" using f by (auto simp: staged_def)
qed simp

lemma triple_unlink_other:
  "tmp \<noteq> p \<Longrightarrow> view f0 tmp = None \<Longrightarrow>
   triple (settled f0 p data) (sys_unlink tmp) (\<lambda>_. settled f0 p data) (\<lambda>_. settled f0 p data)"
  unfolding sys_unlink_def
proof (rule triple_sys)
  fix f :: fs and r f'
  let ?g = "f\<lparr>f_names := (f_names f)(tmp := None)\<rparr>"
  assume t: "tmp \<noteq> p" "view f0 tmp = None" and f: "settled f0 p data f"
    and a: "(case f_names f tmp of None \<Rightarrow> (Inl (FileNotFoundError tmp), f)
     | Some i \<Rightarrow> if i_kind (f_inodes f i) = Dir then (Inl (OSError ''is a directory''), f)
                else (Inr (), ?g)) = (r, f')"
  from a have "f' = ?g \<or> f' = f" by (auto split: option.splits if_splits)
  moreover have "view ?g q = (if q = tmp then None else view f q)" for q by (simp add: view_def)
  then have "settled f0 p data ?g"
    using f t by (auto simp: settled_def grown_def published_def fs_ok_def)
  ultimately show "post (\<lambda>_. settled f0 p data) (\<lambda>_. settled f0 p data) r f'"
    using f by (cases r) auto
qed

lemma staged_new:
  assumes ok: "fs_ok f" and v: "\<forall>q. view f q = view f0 q \<or> view f0 q = None \<and> length q \<le> length (parent_of p)"
    and n: "f_names f tmp = None" and l: "length p < length tmp"
    and pp: "length (parent_of p) < length p"
  shows "staged f0 p (f_next f) tmp (new_inode f tmp (file_inode []))"
proof -
  have vt: "view f tmp = None" using n by (simp add: view_def)
  with v have "view f0 tmp = None" by metis
  moreover have "view f p = view f0 p" using v pp by (metis not_le)
  moreover have "tmp \<noteq> p" using l by auto
  moreover have "f_names (new_inode f tmp (file_inode [])) q \<noteq> Some (f_next f)" if "q \<noteq> tmp" for q
    using ok that by (auto simp: new_inode_def fs_ok_def)
  moreover have "grown f0 (new_inode f tmp (file_inode [])) p"
    using v vt ok unfolding grown_def by (metis option.distinct(1) view_new_inode)
  ultimately show ?thesis
    using ok by (auto simp: staged_def view_new_inode fs_ok_new_inode)
      (simp_all add: new_inode_def file_inode_def)
qed

lemma staged_kind: "staged f0 p i tmp f \<Longrightarrow> i_kind (f_inodes f i) = Reg"
  and staged_neq: "staged f0 p i tmp f \<Longrightarrow> tmp \<noteq> p \<and> view f0 tmp = None"
  by (simp_all add: staged_def)

lemma resolve_staged: "staged f0 p i tmp f \<Longrightarrow> resolve max_links f tmp = Inr i"
  by (simp add: staged_def max_links_def numeral_eq_Suc)

lemma triple_chmod_staged:
  "triple (\<lambda>f. staged f0 p i tmp f \<and> i_data (f_inodes f i) = data) (sys_chmod tmp m)
     (\<lambda>_ f. staged f0 p i tmp f \<and> i_data (f_inodes f i) = data)
     (\<lambda>_ f. staged f0 p i tmp f \<and> i_data (f_inodes f i) = data)"
  unfolding sys_chmod_def
  by (rule triple_sys) (auto simp: resolve_staged staged_kind intro!: staged_update)

lemma triple_write_staged:
  "triple (\<lambda>f. staged f0 p i tmp f \<and> i_data (f_inodes f i) = []) (sys_write i data)
     (\<lambda>_ f. staged f0 p i tmp f \<and> i_data (f_inodes f i) = data) (\<lambda>_. staged f0 p i tmp)"
  by (rule triple_write) (auto simp: append_data_def staged_kind intro!: staged_update)

lemma clean_up:
  assumes "tmp \<noteq> p" and "view f0 tmp = None"
  shows "triple (settled f0 p data) (io_then (io_suppress (sys_unlink tmp)) (io_raise e)) Q (\<lambda>_. settled f0 p data)"
proof (rule triple_then [where Q = "settled f0 p data"])
  show "triple (settled f0 p data) (io_suppress (sys_unlink tmp)) (\<lambda>_. settled f0 p data) (\<lambda>_. settled f0 p data)"
    by (rule triple_suppress, rule triple_conseq [OF triple_unlink_other [OF assms]]) auto
qed (rule triple_raise, assumption)

theorem triple_atomic_write:
  assumes pp: "length (parent_of p) < length p"
  shows "triple (\<lambda>f. f = f0 \<and> fs_ok f0) (atomic_write_bytes p data mode)
     (\<lambda>_ f. fs_ok f \<and> grown f0 f p \<and> published data f p) (\<lambda>_. settled f0 p data)"
  unfolding atomic_write_bytes_def
proof (rule triple_then)
  let ?A = "\<lambda>f. fs_ok f \<and> (\<forall>q. view f q = view f0 q \<or> view f0 q = None \<and> length q \<le> length (parent_of p))"
  have start: "settled f0 p data f" if "?A f" for f
    using that pp unfolding settled_def grown_def by (metis not_le option.distinct(1))
  show "triple (\<lambda>f. f = f0 \<and> fs_ok f0) (sys_mkdirs (parent_of p)) (\<lambda>_. ?A) (\<lambda>_. settled f0 p data)"
  proof (rule tripleI)
    fix w r w'
    assume w: "calm w" "w_fs w = f0 \<and> fs_ok f0" "sys_mkdirs (parent_of p) w = (r, w')"
    from tripleX [OF triple_mkdirs w] w(2)
    show "calm w' \<and> post (\<lambda>_. ?A) (\<lambda>_. settled f0 p data) r (w_fs w')"
      by (cases r) (auto simp: settled_def grown_def)
  qed
next
  let ?A = "\<lambda>f. fs_ok f \<and> (\<forall>q. view f q = view f0 q \<or> view f0 q = None \<and> length q \<le> length (parent_of p))"
  let ?d = "parent_of p" and ?pre = "''.'' @ base_name p @ ''.''"
  let ?B = "\<lambda>(i, tmp) f. staged f0 p i tmp f \<and> i_data (f_inodes f i) = []"
  let ?done = "\<lambda>_ f. fs_ok f \<and> grown f0 f p \<and> published data f p"
  have start: "settled f0 p data f" if "?A f" for f
    using that pp unfolding settled_def grown_def by (metis not_le option.distinct(1))
  have len: "length p < length (join_path ?d (?pre @ s))" for s
    using length_parent_base [of p] by (simp add: join_path_def)
  show "triple ?A (io_bind (sys_mkstemp ?d ?pre) (\<lambda>(i, tmp). io_catch
        (io_then (sys_write i data) (io_then (sys_fsync i) (io_then (io_suppress (sys_chmod tmp mode))
        (io_then (sys_replace tmp p) (fsync_directory (parent_of p))))))
        (\<lambda>_. True) (\<lambda>e. io_then (io_suppress (sys_unlink tmp)) (io_raise e)))) ?done (\<lambda>_. settled f0 p data)"
  proof (rule triple_bind [where Q = ?B])
    show "triple ?A (sys_mkstemp ?d ?pre) ?B (\<lambda>_. settled f0 p data)"
      by (rule triple_mkstemp)
         (use staged_new [OF _ _ _ len pp] start in \<open>auto simp: new_inode_def file_inode_def\<close>)
  next
    fix x :: "nat \<times> path"
    obtain i tmp where x: "x = (i, tmp)" by force
    let ?S = "\<lambda>f. staged f0 p i tmp f \<and> i_data (f_inodes f i) = data"
    let ?R = "\<lambda>_ f. settled f0 p data f \<and> view f0 tmp = None \<and> tmp \<noteq> p"
    have sr: "settled f0 p data f \<and> view f0 tmp = None \<and> tmp \<noteq> p" if "staged f0 p i tmp f" for f
      using that staged_settled staged_neq by blast
    have w: "triple (?B x) (sys_write i data) (\<lambda>_. ?S) ?R"
      by (rule triple_conseq [OF triple_write_staged [of f0 p i tmp data]]) (use sr in \<open>auto simp: x\<close>)
    have c: "triple ?S (io_suppress (sys_chmod tmp mode)) (\<lambda>_. ?S) ?R"
      by (rule triple_suppress, rule triple_conseq [OF triple_chmod_staged]) (use sr in auto)
    have r: "triple ?S (sys_replace tmp p) (\<lambda>_ f. ?done () f \<and> view f0 tmp = None \<and> tmp \<noteq> p) ?R"
      by (rule triple_conseq [OF triple_replace]) (use sr in auto)
    have d: "triple (\<lambda>f. ?done () f \<and> view f0 tmp = None \<and> tmp \<noteq> p) (fsync_directory (parent_of p)) ?done ?R"
      by (rule triple_conseq [OF triple_fsync_directory
            [where R = ?R and P = "\<lambda>f. ?done () f \<and> view f0 tmp = None \<and> tmp \<noteq> p"]])
         (auto simp: settled_def)
    have f: "triple ?S (sys_fsync i) (\<lambda>_. ?S) ?R"
      unfolding sys_fsync_def by (rule triple_nop) (use sr in auto)
    have u: "triple (?R e) (io_then (io_suppress (sys_unlink tmp)) (io_raise e :: unit io)) ?done (\<lambda>_. settled f0 p data)" for e
    proof (rule tripleI)
      fix w r w'
      assume a: "calm w" "?R e (w_fs w)" "io_then (io_suppress (sys_unlink tmp)) (io_raise e :: unit io) w = (r, w')"
      have t: "triple (settled f0 p data) (io_then (io_suppress (sys_unlink tmp)) (io_raise e :: unit io))
          ?done (\<lambda>_. settled f0 p data)"
        by (rule clean_up) (use a(2) in simp_all)
      show "calm w' \<and> post ?done (\<lambda>_. settled f0 p data) r (w_fs w')"
        by (rule tripleX [OF t a(1) _ a(3)]) (use a(2) in simp)
    qed
    show "triple (?B x) (case x of (i, tmp) \<Rightarrow> io_catch
        (io_then (sys_write i data) (io_then (sys_fsync i) (io_then (io_suppress (sys_chmod tmp mode))
        (io_then (sys_replace tmp p) (fsync_directory (parent_of p))))))
        (\<lambda>_. True) (\<lambda>e. io_then (io_suppress (sys_unlink tmp)) (io_raise e))) ?done (\<lambda>_. settled f0 p data)"
      unfolding x prod.case
      by (rule triple_catch [OF triple_then [OF w [unfolded x prod.case] triple_then [OF f triple_then [OF c triple_then [OF r d]]]]])
         (use u in auto)
  qed
qed

section \<open>Writing in a quiet world\<close>

text \<open>
  When no call fails and no other process interferes, a write returns.  The conditions: the
  ancestors of the path are directories where they exist, the path is not a directory, and the
  names drawn for temporary files from now on are not in use.
\<close>

definition writable :: "fs \<Rightarrow> path \<Rightarrow> bool" where
  "writable f p =
    (parent_of p \<noteq> [] \<and> length (parent_of p) < length p
     \<and> (\<forall>q \<in> set (ancestors (parent_of p)). view f q = None \<or> (\<exists>d. view f q = Some d \<and> i_kind d = Dir))
     \<and> (\<forall>d. view f p = Some d \<longrightarrow> i_kind d \<noteq> Dir))"

definition fresh_name :: "world \<Rightarrow> path \<Rightarrow> bool" where
  "fresh_name w p = (\<forall>n. \<not> suffix (w_fresh w n) p)"

definition fresh_ok :: "world \<Rightarrow> bool" where
  "fresh_ok w = ((\<forall>n. CHR ''/'' \<notin> set (w_fresh w n))
     \<and> (\<forall>q. view (w_fs w) q \<noteq> None \<longrightarrow> fresh_name w q))"

lemma quiet_sys:
  "quiet w \<Longrightarrow> sys act w = (fst (act (w_fs w)), w\<lparr>w_fs := snd (act (w_fs w)), w_tick := Suc (w_tick w)\<rparr>)"
  by (simp add: sys_def step_world_def quiet_def Let_def split: prod.splits)

lemma quiet_step:
  "quiet w \<Longrightarrow> quiet (w\<lparr>w_fs := f, w_tick := n\<rparr>)"
  by (simp add: quiet_def)

lemma parent_of_join: "CHR ''/'' \<notin> set n \<Longrightarrow> parent_of (join_path d n) = d"
proof -
  assume n: "CHR ''/'' \<notin> set n"
  have "dropWhile (\<lambda>c. c \<noteq> CHR ''/'') (rev n @ CHR ''/'' # rev d) = CHR ''/'' # rev d"
    using n by (subst dropWhile_append2) auto
  then show ?thesis by (simp add: parent_of_def join_path_def)
qed

lemma base_name_no_slash: "CHR ''/'' \<notin> set (base_name p)"
  by (auto simp: base_name_def dest: set_takeWhileD)

lemma self_ancestor: "p \<noteq> [] \<Longrightarrow> length (parent_of p) < length p \<Longrightarrow> p \<in> set (ancestors p)"
  by (subst ancestors.simps) simp

lemma parent_len: "p \<noteq> [] \<Longrightarrow> length (parent_of p) < length p"
proof -
  assume p: "p \<noteq> []"
  show ?thesis
  proof (cases "dropWhile (\<lambda>c. c \<noteq> CHR ''/'') (rev p)")
    case Nil
    with p show ?thesis by (simp only: parent_of_def) simp
  next
    case (Cons c cs)
    then have "length (c # cs) \<le> length p" by (metis length_dropWhile_le length_rev)
    with Cons show ?thesis by (simp add: parent_of_def)
  qed
qed

lemma view_names: "view f p = None \<longleftrightarrow> f_names f p = None"
  by (simp add: view_def)

lemma resolve_nonlink: "view f p = Some d \<Longrightarrow> i_kind d \<noteq> Lnk \<Longrightarrow>
    \<exists>i. f_names f p = Some i \<and> resolve max_links f p = Inr i \<and> f_inodes f i = d"
  by (auto simp: view_def max_links_def numeral_eq_Suc)

lemma mkdirs_quiet:
  assumes "quiet w" and ok: "fs_ok (w_fs w)" and d: "d \<noteq> []"
    and anc: "\<forall>q \<in> set (ancestors d). view (w_fs w) q = None \<or> (\<exists>x. view (w_fs w) q = Some x \<and> i_kind x = Dir)"
  shows "\<exists>f. sys_mkdirs d w = (Inr (), w\<lparr>w_fs := f, w_tick := Suc (w_tick w)\<rparr>) \<and> fs_ok f
     \<and> (\<exists>x. view f d = Some x \<and> i_kind x = Dir)
     \<and> (\<forall>q. view f q = view (w_fs w) q \<or> view (w_fs w) q = None \<and> q \<in> set (ancestors d))"
proof -
  define g where "g = fold add_dir (ancestors d) (w_fs w)"
  have g: "fs_ok g" "\<And>q. view g q = (if view (w_fs w) q = None \<and> q \<in> set (ancestors d) then Some dir_inode else view (w_fs w) q)"
    using add_dirs [OF ok] by (auto simp: g_def)
  have da: "d \<in> set (ancestors d)" using d by (intro self_ancestor parent_len)
  then have v: "\<exists>x. view g d = Some x \<and> i_kind x = Dir"
    using g(2) [of d] anc by (auto simp: dir_inode_def)
  then obtain i where "f_names g d = Some i" "i_kind (f_inodes g i) = Dir"
    by (auto simp: view_def)
  then have "sys_mkdirs d w = (Inr (), w\<lparr>w_fs := g, w_tick := Suc (w_tick w)\<rparr>)"
    by (simp add: sys_mkdirs_def quiet_sys [OF assms(1)] g_def [symmetric] Let_def)
  with g(1) v g(2) show ?thesis by (intro exI [of _ g]) auto
qed

lemma dir_exists_view: "view f d = Some x \<Longrightarrow> i_kind x = Dir \<Longrightarrow> dir_exists f d"
  using resolve_nonlink [of f d x] by (auto simp: dir_exists_def)

lemma fsync_directory_quiet:
  "quiet w \<Longrightarrow> \<exists>n. fsync_directory d w = (Inr (), w\<lparr>w_tick := n\<rparr>)"
  by (simp add: fsync_directory_def io_bind_def io_catch_def sys_open_read_def sys_fsync_def sys_nop_def
      quiet_sys io_ret_def split: option.splits sum.splits)
     (auto simp: quiet_def quiet_sys)

text \<open>From the creation of the temporary file on.\<close>

lemma write_phase_quiet:
  assumes q: "quiet w" and s: "staged f0 p i tmp (w_fs w)" and d: "i_data (f_inodes (w_fs w) i) = []"
    and nd: "\<forall>d. view f0 p = Some d \<longrightarrow> i_kind d \<noteq> Dir"
  shows "\<exists>f n. (io_then (sys_write i data) (io_then (sys_fsync i) (io_then (io_suppress (sys_chmod tmp mode))
        (io_then (sys_replace tmp p) (fsync_directory (parent_of p)))))) w = (Inr (), w\<lparr>w_fs := f, w_tick := n\<rparr>)
     \<and> (\<forall>q. view f q \<noteq> None \<longrightarrow> q = p \<or> q \<noteq> tmp \<and> view (w_fs w) q \<noteq> None)"
proof -
  define f1 where "f1 = append_data i data (w_fs w)"
  have s1: "staged f0 p i tmp f1"
    using s by (simp add: f1_def append_data_def staged_update staged_kind)
  define f2 where "f2 = f1\<lparr>f_inodes := (f_inodes f1)(i := (f_inodes f1 i)\<lparr>i_mode := mode\<rparr>)\<rparr>"
  have s2: "staged f0 p i tmp f2"
    using s1 by (simp add: f2_def staged_update staged_kind)
  define f3 where "f3 = f2\<lparr>f_names := (f_names f2)(tmp := None, p \<mapsto> i)\<rparr>"
  have nm: "f_names f2 = f_names (w_fs w)"
    by (simp add: f2_def f1_def append_data_def)
  let ?w = "\<lambda>f n. w\<lparr>w_fs := f, w_tick := n\<rparr>"
  have t1: "sys_write i data w = (Inr (), ?w f1 (Suc (w_tick w)))"
    using q by (simp add: sys_write_def step_world_def quiet_def f1_def Let_def)
  have t2: "sys_fsync i (?w f n) = (Inr (), ?w f (Suc n))" for f n
    by (simp add: sys_fsync_def sys_nop_def quiet_sys quiet_step q)
  have t3: "io_suppress (sys_chmod tmp mode) (?w f1 n) = (Inr (), ?w f2 (Suc n))" for n
    by (simp add: io_suppress_def io_catch_def sys_chmod_def quiet_sys quiet_step q resolve_staged [OF s1] f2_def)
  have v2: "view f2 p = view f0 p" and t: "f_names f2 tmp = Some i" using s2 by (simp_all add: staged_def)
  have t4: "sys_replace tmp p (?w f2 n) = (Inr (), ?w f3 (Suc n))" for n
  proof -
    have "\<forall>j. f_names f2 p = Some j \<longrightarrow> i_kind (f_inodes f2 j) \<noteq> Dir"
    proof (intro allI impI)
      fix j
      assume "f_names f2 p = Some j"
      then have "view f2 p = Some (f_inodes f2 j)" by (simp add: view_def)
      with v2 nd show "i_kind (f_inodes f2 j) \<noteq> Dir" by simp
    qed
    then show ?thesis
      using t by (auto simp: sys_replace_def quiet_sys quiet_step q f3_def split: option.splits)
  qed
  obtain n where t5: "fsync_directory (parent_of p) (?w f3 (Suc (Suc (Suc (Suc (w_tick w)))))) = (Inr (), ?w f3 n)"
    using fsync_directory_quiet [OF quiet_step [OF q]] by fastforce
  have "(io_then (sys_write i data) (io_then (sys_fsync i) (io_then (io_suppress (sys_chmod tmp mode))
        (io_then (sys_replace tmp p) (fsync_directory (parent_of p)))))) w = (Inr (), ?w f3 n)"
    by (simp add: io_then_def io_bind_def t1 t2 t3 t4 t5)
  moreover have "view f3 q \<noteq> None \<longrightarrow> q = p \<or> q \<noteq> tmp \<and> view (w_fs w) q \<noteq> None" for q
    by (simp add: view_names f3_def nm)
  ultimately show ?thesis by blast
qed

theorem atomic_write_returns:
  assumes q: "quiet w" and ok: "fs_ok (w_fs w)" and wr: "writable (w_fs w) p" and fr: "fresh_ok w"
    and fp: "\<forall>q \<in> set (p # ancestors (parent_of p)). fresh_name w q"
  shows "\<exists>f n. atomic_write_bytes p data mode w = (Inr (), w\<lparr>w_fs := f, w_tick := n\<rparr>)
     \<and> fresh_ok (w\<lparr>w_fs := f, w_tick := n\<rparr>)"
proof -
  let ?w = "\<lambda>f n. w\<lparr>w_fs := f, w_tick := n\<rparr>" and ?n = "Suc (w_tick w)"
  obtain f1 x where m: "sys_mkdirs (parent_of p) w = (Inr (), ?w f1 ?n)" "fs_ok f1"
    "view f1 (parent_of p) = Some x" "i_kind x = Dir"
    and v: "\<forall>q. view f1 q = view (w_fs w) q \<or> view (w_fs w) q = None \<and> q \<in> set (ancestors (parent_of p))"
    using mkdirs_quiet [OF q ok, of "parent_of p"] wr unfolding writable_def by blast
  define sfx where "sfx = w_fresh w ?n"
  define tmp where "tmp = join_path (parent_of p) (''.'' @ base_name p @ ''.'' @ sfx)"
  have sf: "suffix sfx tmp" by (simp add: tmp_def join_path_def suffix_def)
  have fn: "fresh_name w q" if "view f1 q \<noteq> None" for q
    using v [THEN spec, of q] that fr fp by (auto simp: fresh_ok_def)
  have nt: "f_names f1 tmp = None"
    using fn [of tmp] sf unfolding view_names [symmetric] fresh_name_def sfx_def by blast
  have pt: "parent_of tmp = parent_of p"
    unfolding tmp_def using base_name_no_slash [of p] fr by (intro parent_of_join) (auto simp: fresh_ok_def sfx_def)
  define f2 where "f2 = new_inode f1 tmp (file_inode [])"
  have c: "sys_mkstemp (parent_of p) (''.'' @ base_name p @ ''.'') (?w f1 ?n) = (Inr (f_next f1, tmp), ?w f2 (Suc ?n))"
  proof -
    have e: "join_path (parent_of p) ((''.'' @ base_name p @ ''.'') @ w_fresh (?w f1 ?n) (w_tick (?w f1 ?n))) = tmp"
      by (simp add: tmp_def sfx_def)
    have "sys_create tmp (?w f1 ?n) = (Inr (f_next f1), ?w f2 (Suc ?n))"
      using nt dir_exists_view [OF m(3,4)] pt
      by (simp add: sys_create_def create_excl_def quiet_sys quiet_step q f2_def)
    then show ?thesis
      unfolding sys_mkstemp_def e Let_def by (simp add: io_bind_def io_ret_def)
  qed
  have len: "length p < length tmp" "length (parent_of p) < length p"
    using length_parent_base [of p] wr by (simp_all add: tmp_def join_path_def writable_def)
  have "\<forall>q. view f1 q = view (w_fs w) q \<or> view (w_fs w) q = None \<and> length q \<le> length (parent_of p)"
    using v ancestors_length by blast
  from staged_new [OF m(2) this nt len] have st: "staged (w_fs w) p (f_next f1) tmp f2"
    by (simp add: f2_def)
  obtain f3 n where wp: "(io_then (sys_write (f_next f1) data) (io_then (sys_fsync (f_next f1))
        (io_then (io_suppress (sys_chmod tmp mode))
        (io_then (sys_replace tmp p) (fsync_directory (parent_of p)))))) (?w f2 (Suc ?n)) = (Inr (), ?w f3 n)"
    and v3: "\<forall>q. view f3 q \<noteq> None \<longrightarrow> q = p \<or> q \<noteq> tmp \<and> view f2 q \<noteq> None"
    using write_phase_quiet [of "?w f2 (Suc ?n)" "w_fs w" p "f_next f1" tmp data mode] st q wr
    by (auto simp: quiet_step f2_def new_inode_def file_inode_def writable_def)
  have "atomic_write_bytes p data mode w = (Inr (), ?w f3 n)"
    by (simp add: atomic_write_bytes_def io_then_def [of "sys_mkdirs _"] io_bind_def m(1) c [simplified] io_catch_def wp)
  moreover have "fresh_name w q" if "view f3 q \<noteq> None" for q
  proof (cases "q = p")
    case False
    with v3 that have "q \<noteq> tmp \<and> view f2 q \<noteq> None" by blast
    with fn [of q] show ?thesis by (auto simp: f2_def view_new_inode [OF m(2)] split: if_splits)
  qed (use fp in simp)
  then have "fresh_ok (?w f3 n)"
    using fr by (auto simp: fresh_ok_def fresh_name_def)
  ultimately show ?thesis by blast
qed

section \<open>Keeping a file\<close>

text \<open>
  \<open>has q d f\<close>: the path is there with that inode.  The calls that only look keep every
  assertion, and a write to one path keeps every other file.
\<close>

definition has :: "path \<Rightarrow> inode \<Rightarrow> fs \<Rightarrow> bool" where
  "has q d f = (fs_ok f \<and> view f q = Some d)"

definition looks :: "'a io \<Rightarrow> bool" where
  "looks m = (\<forall>P. triple P m (\<lambda>_. P) (\<lambda>_. P))"

lemma looksD: "looks m \<Longrightarrow> triple P m (\<lambda>_. P) (\<lambda>_. P)"
  by (simp add: looks_def)

lemma looks_sys: "looks (sys (\<lambda>f. (act f, f)))"
  unfolding looks_def by (intro allI triple_look)

lemma looks_ret: "looks (io_ret x)" and looks_raise: "looks (io_raise e)"
  by (auto simp: looks_def intro: triple_ret triple_raise)

lemma looks_lift: "looks (io_lift r)"
  by (auto simp: looks_def intro: triple_lift)

lemma looks_bind: "looks m \<Longrightarrow> (\<And>x. looks (f x)) \<Longrightarrow> looks (io_bind m f)"
  unfolding looks_def by (metis triple_bind)

lemma looks_catch: "looks m \<Longrightarrow> (\<And>e. looks (h e)) \<Longrightarrow> looks (io_catch m p h)"
  unfolding looks_def by (intro allI triple_catch) auto

lemma looks_if: "looks m \<Longrightarrow> looks (io_if b e m)"
  by (cases b) (simp_all add: looks_raise)

lemma looks_stat: "looks (sys_stat p)" and looks_read_bytes: "looks (sys_read_bytes p)"
  and looks_lstat: "looks (sys_lstat p)" and looks_open: "looks (sys_open_read p)"
  and looks_fstat: "looks (sys_fstat i)" and looks_read: "looks (sys_read i n m)"
  by (simp_all only: sys_stat_def sys_read_bytes_def sys_lstat_def sys_open_read_def sys_fstat_def
      sys_read_def looks_sys)

lemmas looks_intros = looks_stat looks_read_bytes looks_lstat looks_open looks_fstat looks_read
  looks_ret looks_raise looks_lift looks_bind looks_catch looks_if

lemma looks_stat_size: "looks (stat_size p)"
  unfolding stat_size_def by (auto intro!: looks_intros split: prod.split)

lemma looks_exists: "looks (path_exists p)" and looks_is_file: "looks (path_is_file p)"
  unfolding path_exists_def path_is_file_def by (auto intro!: looks_intros split: prod.split)

lemma triple_fs_exact: "(\<And>f0. P f0 \<Longrightarrow> triple (\<lambda>f. f = f0) m Q R) \<Longrightarrow> triple P m Q R"
  unfolding triple_def by blast

lemma triple_read_bytes_Reg:
  "i_kind d = Reg \<Longrightarrow> triple (has p d) (sys_read_bytes p) (\<lambda>x f. has p d f \<and> x = i_data d) (\<lambda>_. has p d)"
  unfolding sys_read_bytes_def
  by (rule triple_look) (auto simp: has_def rbind_Inr_iff dest!: resolve_nonlink split: if_splits)

lemma has_exists:
  assumes "i_kind d \<noteq> Lnk"
  shows "triple (has p d) (path_exists p) (\<lambda>b f. has p d f \<and> b) (\<lambda>_. has p d)"
proof (rule tripleI)
  fix w r w'
  assume w: "calm w" "has p d (w_fs w)" and e: "path_exists p w = (r, w')"
  note c = calm_step [OF w(1)]
  obtain i where i: "resolve max_links (w_fs w) p = Inr i"
    using w(2) assms by (auto simp: has_def dest!: resolve_nonlink)
  show "calm w' \<and> post (\<lambda>b f. has p d f \<and> b) (\<lambda>_. has p d) r (w_fs w')"
  proof (cases "w_faults w (w_tick w)")
    case None
    with e i c w show ?thesis
      by (auto simp: path_exists_def sys_stat_def sys_def Let_def io_catch_def io_bind_def io_ret_def)
  next
    case (Some x)
    moreover have "\<not> (case x of FileNotFoundError _ \<Rightarrow> True | _ \<Rightarrow> False)"
      using w(1) Some by (cases x) (auto simp: calm_def)
    ultimately show ?thesis
      using e c w by (auto simp: path_exists_def sys_stat_def sys_def Let_def io_catch_def io_bind_def io_ret_def)
  qed
qed

lemma triple_assume: "(b \<Longrightarrow> triple P m Q R) \<Longrightarrow> triple (\<lambda>f. P f \<and> b) m Q R"
  by (auto simp: triple_def)

lemma triple_ex: "(\<And>x. triple (P x) m Q R) \<Longrightarrow> triple (\<lambda>f. \<exists>x. P x f) m Q R"
  unfolding triple_def by blast

lemma absent_exists:
  assumes "view f0 p = None"
  shows "triple (\<lambda>f. f = f0) (path_exists p) (\<lambda>b f. f = f0 \<and> \<not> b) (\<lambda>_ f. f = f0)"
proof (rule tripleI)
  fix w r w'
  assume w: "calm w" "w_fs w = f0" and e: "path_exists p w = (r, w')"
  note c = calm_step [OF w(1)]
  have i: "resolve max_links f0 p = Inl (FileNotFoundError p)"
    using assms by (simp add: max_links_def numeral_eq_Suc view_names)
  show "calm w' \<and> post (\<lambda>b f. f = f0 \<and> \<not> b) (\<lambda>_ f. f = f0) r (w_fs w')"
  proof (cases "w_faults w (w_tick w)")
    case None
    with e i c w show ?thesis
      by (auto simp: path_exists_def sys_stat_def sys_def Let_def io_catch_def io_bind_def io_ret_def)
  next
    case (Some x)
    moreover have "\<not> (case x of FileNotFoundError _ \<Rightarrow> True | _ \<Rightarrow> False)"
      using w(1) Some by (cases x) (auto simp: calm_def)
    ultimately show ?thesis
      using e c w by (auto simp: path_exists_def sys_stat_def sys_def Let_def io_catch_def io_bind_def io_ret_def)
  qed
qed

lemma has_mkdirs: "triple (has q d) (sys_mkdirs p) (\<lambda>_. has q d) (\<lambda>_. has q d)"
proof (rule triple_fs_exact)
  fix f0
  assume h: "has q d f0"
  show "triple (\<lambda>f. f = f0) (sys_mkdirs p) (\<lambda>_. has q d) (\<lambda>_. has q d)"
    by (rule triple_conseq [OF triple_mkdirs [of f0 p]])
       (use h in \<open>auto simp: has_def, metis option.distinct(1)\<close>)
qed

lemma has_open_append: "triple (has q d) (sys_open_append p) (\<lambda>_. has q d) (\<lambda>_. has q d)"
  unfolding sys_open_append_def
proof (rule triple_sys)
  fix f r f'
  assume h: "has q d f" and a: "(case resolve max_links f p of
       Inr i \<Rightarrow> (if i_kind (f_inodes f i) = Dir then Inl (OSError ''is a directory'') else Inr (), f)
     | Inl _ \<Rightarrow> (case create_excl p f of (Inl e, f') \<Rightarrow> (Inl e, f') | (Inr _, f') \<Rightarrow> (Inr (), f'))) = (r, f')"
  have c: "has q d g" if "create_excl p f = (x, g)" for x g
    using that h by (auto simp: create_excl_def has_def view_new_inode fs_ok_new_inode view_names split: if_splits)
      (simp add: view_def)
  from a have "f' = f \<or> (\<exists>x. create_excl p f = (x, f'))"
    by (auto split: sum.splits prod.splits)
  with h c have "has q d f'" by blast
  then show "post (\<lambda>_. has q d) (\<lambda>_. has q d) r f'" by (cases r) auto
qed auto

lemma looks_flock: "looks (try_flock p)"
  unfolding looks_def
proof (intro allI tripleI)
  fix P w r w'
  assume "calm w" "P (w_fs w)" "try_flock p w = (r, w')"
  then show "calm w' \<and> post (\<lambda>_. P) (\<lambda>_. P) r (w_fs w')"
    by (auto simp: try_flock_def sys_nop_def sys_def Let_def step_world_def calm_def split: if_splits option.splits)
qed

lemma triple_unlock: "triple P (unlock p) (\<lambda>_. P) R"
  by (rule tripleI) (auto simp: unlock_def calm_def)

text \<open>The lock adds directories and the lock file at most, so a body that works from a state
  where the file is there works under the lock.\<close>

lemma triple_update_lock:
  assumes "triple (has q d) body Q R" and "\<And>e f. has q d f \<Longrightarrow> R e f"
  shows "triple (has q d) (update_lock p body) Q R"
  unfolding update_lock_def
proof (rule triple_then [where Q = "has q d"])
  show "triple (has q d) (sys_mkdirs (parent_of p)) (\<lambda>_. has q d) R"
    by (rule triple_conseq [OF has_mkdirs]) (use assms(2) in auto)
  show "triple (has q d) (io_then (sys_open_append p)
    (io_then (io_catch (try_flock p) is_os_error
                (\<lambda>_. io_raise (FeedError ''another feed update is already in progress'')))
             (io_finally body (unlock p)))) Q R"
  proof (rule triple_then [where Q = "has q d"], goal_cases)
    case 1
    show ?case by (rule triple_conseq [OF has_open_append]) (use assms(2) in auto)
  next
    case 2
    show ?case
    proof (rule triple_then [where Q = "has q d"], goal_cases)
      case 1
      show ?case
        by (rule triple_conseq [OF looksD [OF looks_catch [OF looks_flock looks_raise], of "has q d"]])
           (use assms(2) in auto)
    next
      case 2
      show ?case
        by (rule triple_finally [OF assms(1)])
           (rule triple_unlock)+
    qed
  qed
qed

lemma atomic_write_keeps:
  assumes "q \<noteq> p" and "length (parent_of p) < length p"
  shows "triple (has q d) (atomic_write_bytes p data mode)
    (\<lambda>_ f. has q d f \<and> published data f p) (\<lambda>_. has q d)"
proof (rule triple_fs_exact)
  fix f0
  assume h: "has q d f0"
  show "triple (\<lambda>f. f = f0) (atomic_write_bytes p data mode)
    (\<lambda>_ f. has q d f \<and> published data f p) (\<lambda>_. has q d)"
    by (rule triple_conseq [OF triple_atomic_write [OF assms(2), of f0]])
       (use h assms(1) in \<open>auto simp: has_def grown_def settled_def\<close>)
qed

lemma atomic_write_own:
  assumes "length (parent_of p) < length p"
  shows "triple (has p d) (atomic_write_bytes p data mode)
    (\<lambda>_ f. fs_ok f \<and> published data f p) (\<lambda>_ f. has p d f \<or> fs_ok f \<and> published data f p)"
proof (rule triple_fs_exact)
  fix f0
  assume h: "has p d f0"
  show "triple (\<lambda>f. f = f0) (atomic_write_bytes p data mode)
    (\<lambda>_ f. fs_ok f \<and> published data f p) (\<lambda>_ f. has p d f \<or> fs_ok f \<and> published data f p)"
    by (rule triple_conseq [OF triple_atomic_write [OF assms, of f0]])
       (use h in \<open>auto simp: has_def settled_def\<close>)
qed

section \<open>Reading in a quiet world\<close>

definition tick :: "world \<Rightarrow> world" where
  "tick w = w\<lparr>w_tick := Suc (w_tick w)\<rparr>"

definition file_at :: "world \<Rightarrow> path \<Rightarrow> string \<Rightarrow> bool" where
  "file_at w p b = (\<exists>d. view (w_fs w) p = Some d \<and> i_kind d = Reg \<and> i_data d = b)"

lemma tick_simps [simp]: "quiet (tick w) = quiet w" "file_at (tick w) p b = file_at w p b"
  "w_fs (tick w) = w_fs w"
  by (simp_all add: tick_def quiet_def file_at_def)

lemma quiet_look: "quiet w \<Longrightarrow> sys (\<lambda>f. (act f, f)) w = (act (w_fs w), tick w)"
  by (simp add: quiet_sys tick_def)

lemma file_at_resolve:
  "file_at w p b \<Longrightarrow> \<exists>i. resolve max_links (w_fs w) p = Inr i \<and> i_kind (f_inodes (w_fs w) i) = Reg
     \<and> i_data (f_inodes (w_fs w) i) = b"
  by (auto simp: file_at_def dest!: resolve_nonlink)

lemma quiet_reads:
  assumes "quiet w" and "file_at w p b"
  shows "stat_size p w = (Inr (length b), tick w)" and "path_exists p w = (Inr True, tick w)"
    and "path_is_file p w = (Inr True, tick w)" and "sys_read_bytes p w = (Inr b, tick w)"
  using assms(1) file_at_resolve [OF assms(2)]
  by (auto simp: stat_size_def path_exists_def path_is_file_def sys_read_bytes_def sys_stat_def
      quiet_look io_bind_def io_catch_def io_ret_def)

lemma quiet_absent:
  assumes "quiet w" and "view (w_fs w) p = None"
  shows "path_exists p w = (Inr False, tick w)" and "path_is_file p w = (Inr False, tick w)"
  using assms
  by (auto simp: path_exists_def path_is_file_def sys_stat_def view_names max_links_def numeral_eq_Suc
      quiet_look io_bind_def io_catch_def io_ret_def)

end
