(* ===== verification/Pytime.thy ===== *)
theory Pytime
  imports Pystr
begin

text \<open>
  The part of Python's \<^verbatim>\<open>datetime\<close> the program uses.  An aware moment is its number of
  microseconds since midnight UTC of 1 January of year 1, so comparison and \<^verbatim>\<open>timedelta\<close>
  arithmetic are those of numbers.  \<open>from_iso\<close> is \<^verbatim>\<open>datetime.fromisoformat\<close> of Python 3.11,
  with its quirks (any separator, a comma, digits or other text after the sixth fractional
  digit when a zone follows), and \<open>format_utc\<close> is the function of \<^verbatim>\<open>src/zsec_shield/util.py\<close>.
\<close>

section \<open>The calendar\<close>

definition usec :: nat where "usec = 1000000"

definition usec_day :: nat where "usec_day = 86400000000"

definition minutes :: "nat \<Rightarrow> nat" where "minutes n = n * 60000000"

definition hours :: "nat \<Rightarrow> nat" where "hours n = n * 3600000000"

definition days :: "nat \<Rightarrow> nat" where "days n = n * usec_day"

definition leap_year :: "nat \<Rightarrow> bool" where
  "leap_year y = (y mod 4 = 0 \<and> (y mod 100 \<noteq> 0 \<or> y mod 400 = 0))"

definition days_before_year :: "nat \<Rightarrow> nat" where
  "days_before_year y = 365 * (y - 1) + (y - 1) div 4 - (y - 1) div 100 + (y - 1) div 400"

text \<open>The days before a month, zero based: \<open>month_starts leap ! m\<close>.\<close>

definition month_starts :: "bool \<Rightarrow> nat list" where
  "month_starts leap =
    (if leap then [0, 31, 60, 91, 121, 152, 182, 213, 244, 274, 305, 335, 366]
     else [0, 31, 59, 90, 120, 151, 181, 212, 243, 273, 304, 334, 365])"

definition days_before_month :: "nat \<Rightarrow> nat \<Rightarrow> nat" where
  "days_before_month y m = month_starts (leap_year y) ! (m - 1)"

definition days_in_month :: "nat \<Rightarrow> nat \<Rightarrow> nat" where
  "days_in_month y m = month_starts (leap_year y) ! m - month_starts (leap_year y) ! (m - 1)"

definition valid_date :: "nat \<Rightarrow> nat \<Rightarrow> nat \<Rightarrow> bool" where
  "valid_date y m d = (1 \<le> y \<and> y \<le> 9999 \<and> 1 \<le> m \<and> m \<le> 12 \<and> 1 \<le> d \<and> d \<le> days_in_month y m)"

text \<open>The day number, counted from zero.\<close>

definition day_number :: "nat \<Rightarrow> nat \<Rightarrow> nat \<Rightarrow> nat" where
  "day_number y m d = days_before_year y + days_before_month y m + (d - 1)"

definition year_of_day :: "nat \<Rightarrow> nat \<times> nat" where
  "year_of_day n =
    (let a = n div 146097; n1 = n mod 146097;
         b = min 3 (n1 div 36524); n2 = n1 - b * 36524;
         c = n2 div 1461; n3 = n2 mod 1461;
         d = min 3 (n3 div 365)
     in (400 * a + 100 * b + 4 * c + d + 1, n3 - d * 365))"

definition month_of_day :: "bool \<Rightarrow> nat \<Rightarrow> nat" where
  "month_of_day leap k = length (takeWhile (\<lambda>s. s \<le> k) (month_starts leap))"

definition date_of_day :: "nat \<Rightarrow> nat \<times> nat \<times> nat" where
  "date_of_day n =
    (let (y, k) = year_of_day n; m = month_of_day (leap_year y) k
     in (y, m, k - days_before_month y m + 1))"

definition max_day :: nat where "max_day = 3652059"

section \<open>\<^verbatim>\<open>datetime.fromisoformat\<close>\<close>

fun take_digits :: "nat \<Rightarrow> string \<Rightarrow> (nat \<times> string) option" where
  "take_digits n s =
    (if length (take n s) = n \<and> list_all is_digit (take n s)
     then Some (nat_of_dec (take n s), drop n s) else None)"

declare take_digits.simps [simp del]

text \<open>The character at a position, NUL past the end.\<close>

fun char_at :: "string \<Rightarrow> nat \<Rightarrow> char" where
  "char_at [] n = CHR 0x00"
| "char_at (c # cs) 0 = c"
| "char_at (c # cs) (Suc n) = char_at cs n"

definition iso_weekday_jan1 :: "nat \<Rightarrow> nat" where
  "iso_weekday_jan1 y = days_before_year y mod 7"

definition iso_day_number :: "nat \<Rightarrow> nat \<Rightarrow> nat \<Rightarrow> nat option" where
  "iso_day_number y w d =
    (let wd = iso_weekday_jan1 y;
         monday = int (days_before_year y) - int wd + (if wd > 3 then 7 else 0);
         n = monday + int (w - 1) * 7 + int (d - 1)
     in if 1 \<le> y \<and> y \<le> 9999 \<and> 1 \<le> w \<and> 1 \<le> d \<and> d \<le> 7
           \<and> (w \<le> 52 \<or> w = 53 \<and> (wd = 3 \<or> wd = 2 \<and> leap_year y))
           \<and> 0 \<le> n \<and> n < int max_day
        then Some (nat n) else None)"

definition parse_date :: "string \<Rightarrow> nat \<Rightarrow> nat option" where
  "parse_date s n =
    (case take_digits 4 s of None \<Rightarrow> None
     | Some (y, p) \<Rightarrow>
       let sep = (char_at p 0 = CHR ''-''); p1 = (if sep then tl p else p) in
       if char_at p1 0 = CHR ''W'' then
         (case take_digits 2 (tl p1) of None \<Rightarrow> None
          | Some (w, p2) \<Rightarrow>
            if length s - length p2 < n then
              if sep \<and> char_at p2 0 \<noteq> CHR ''-'' then None
              else (case take_digits 1 (if sep then tl p2 else p2) of None \<Rightarrow> None
                    | Some (d, _) \<Rightarrow> iso_day_number y w d)
            else iso_day_number y w 1)
       else
         (case take_digits 2 p1 of None \<Rightarrow> None
          | Some (m, p2) \<Rightarrow>
            if sep \<and> char_at p2 0 \<noteq> CHR ''-'' then None
            else (case take_digits 2 (if sep then tl p2 else p2) of None \<Rightarrow> None
                  | Some (d, _) \<Rightarrow>
                    if valid_date y m d then Some (day_number y m d) else None)))"

definition iso_separator :: "string \<Rightarrow> nat option" where
  "iso_separator s =
    (let n = length s in
     if n = 7 then Some 7
     else if char_at s 4 = CHR ''-'' then
       if char_at s 5 = CHR ''W'' then
         if n > 8 \<and> char_at s 8 = CHR ''-'' then
           if n = 9 then None else if n > 10 \<and> is_digit (char_at s 10) then Some 8 else Some 10
         else Some 8
       else Some 10
     else if char_at s 4 = CHR ''W'' then
       (let pos = 7 + length (takeWhile is_digit (drop 7 s))
        in if pos < 9 then Some pos else if pos mod 2 = 0 then Some 7 else Some 8)
     else Some 8)"

text \<open>
  \<open>[HH[:?MM[:?SS]]][.ffffff]\<close>: the components, the microseconds, and whether the text did
  not end here; \<open>tail\<close> says that a zone follows.
\<close>

definition parse_fraction :: "string \<Rightarrow> bool \<Rightarrow> (nat \<times> bool) option" where
  "parse_fraction s tail =
    (let k = min 6 (length s) in
     case take_digits k s of None \<Rightarrow> None
     | Some (m, r) \<Rightarrow> Some (m * 10 ^ (6 - k), dropWhile is_digit r \<noteq> [] \<or> tail))"

function parse_hms :: "nat \<Rightarrow> bool \<Rightarrow> string \<Rightarrow> bool \<Rightarrow> (nat list \<times> nat \<times> bool) option" where
  "parse_hms i sep s tail =
    (case take_digits 2 s of None \<Rightarrow> None
     | Some (v, r) \<Rightarrow>
       (case r of [] \<Rightarrow> Some ([v], 0, tail)
        | c # r1 \<Rightarrow>
          let sep' = (if i = 0 then c = CHR '':'' else sep);
              frac = (\<lambda>x. map_option (\<lambda>(m, rv). ([v], m, rv)) (parse_fraction x tail))
          in if r1 = [] then Some ([v], 0, True)
             else if sep' \<and> c = CHR '':'' then
               (if 2 \<le> i then frac r1
                else map_option (map_prod (Cons v) id) (parse_hms (Suc i) sep' r1 tail))
             else if c = CHR ''.'' \<or> c = CHR '','' then frac r1
             else if \<not> sep' then
               (if 2 \<le> i then frac r
                else map_option (map_prod (Cons v) id) (parse_hms (Suc i) sep' r tail))
             else None))"
  by pat_completeness auto
termination
  by (relation "measure (\<lambda>(i, _, _, _). 3 - i)") auto

declare parse_hms.simps [simp del]

definition is_tz_char :: "char \<Rightarrow> bool" where
  "is_tz_char c = (c = CHR ''+'' \<or> c = CHR ''-'' \<or> c = CHR ''Z'')"

definition hms_usec :: "nat list \<Rightarrow> nat \<Rightarrow> nat" where
  "hms_usec vs m = ((vs @ [0, 0, 0]) ! 0 * 3600 + (vs @ [0, 0, 0]) ! 1 * 60
     + (vs @ [0, 0, 0]) ! 2) * usec + m"

definition valid_hms :: "nat list \<Rightarrow> bool" where
  "valid_hms vs = ((vs @ [0, 0, 0]) ! 0 < 24 \<and> (vs @ [0, 0, 0]) ! 1 < 60 \<and> (vs @ [0, 0, 0]) ! 2 < 60)"

text \<open>A parsed zone: none (a naive value), or the offset in microseconds.\<close>

definition parse_zone :: "string \<Rightarrow> int option" where
  "parse_zone t =
    (if prefix ''Z'' t then (if t = ''Z'' then Some 0 else None)
     else case parse_hms 0 True (tl t) False of
       Some (vs, m, False) \<Rightarrow>
         (let whole = hms_usec vs 0;
              off = (if whole = 0 then 0 else int (hms_usec vs m))
          in if off < int usec_day then Some (if prefix ''-'' t then - off else off) else None)
     | _ \<Rightarrow> None)"

definition parse_time_of_day :: "string \<Rightarrow> (nat \<times> int option) option" where
  "parse_time_of_day s =
    (let a = takeWhile (\<lambda>c. \<not> is_tz_char c) s; t = dropWhile (\<lambda>c. \<not> is_tz_char c) s
     in case parse_hms 0 True a (t \<noteq> []) of None \<Rightarrow> None
        | Some (vs, m, rv) \<Rightarrow>
          if \<not> valid_hms vs then None
          else if t = [] then (if rv then None else Some (hms_usec vs m, None))
          else (case parse_zone t of None \<Rightarrow> None | Some z \<Rightarrow> Some (hms_usec vs m, Some z)))"

text \<open>A naive value, or an aware one: its local time and its offset from UTC.\<close>

datatype iso_dt = Naive nat | Aware nat int

definition to_utc :: "nat \<Rightarrow> int \<Rightarrow> nat" where
  "to_utc t off = nat (int t - off)"

definition sep_width :: "char \<Rightarrow> nat" where
  "sep_width c = (if ord c < 128 then 1 else if ord c < 224 then 2 else if ord c < 240 then 3 else 4)"

definition from_iso :: "string \<Rightarrow> iso_dt option" where
  "from_iso s =
    (if py_len s < 7 then None
     else case iso_separator s of None \<Rightarrow> None
     | Some n \<Rightarrow>
       (case parse_date s n of None \<Rightarrow> None
        | Some d \<Rightarrow>
          if n < length s then
            (case parse_time_of_day (drop (n + sep_width (s ! n)) s) of None \<Rightarrow> None
             | Some (u, None) \<Rightarrow> Some (Naive (d * usec_day + u))
             | Some (u, Some z) \<Rightarrow> Some (Aware (d * usec_day + u) z))
          else Some (Naive (d * usec_day))))"

section \<open>\<^verbatim>\<open>format_utc\<close>\<close>

definition pad_dec :: "nat \<Rightarrow> nat \<Rightarrow> string" where
  "pad_dec w n = replicate (w - length (dec_nat n)) (CHR ''0'') @ dec_nat n"

definition format_utc :: "nat \<Rightarrow> string" where
  "format_utc t =
    (let (y, m, d) = date_of_day (t div usec_day); s = t mod usec_day div usec
     in pad_dec 4 y @ ''-'' @ pad_dec 2 m @ ''-'' @ pad_dec 2 d @ ''T''
          @ pad_dec 2 (s div 3600) @ '':'' @ pad_dec 2 (s div 60 mod 60) @ '':''
          @ pad_dec 2 (s mod 60) @ ''Z'')"

definition max_time :: nat where "max_time = max_day * usec_day"

section \<open>The calendar is a bijection\<close>

lemma year_of_day_bounds:
  assumes "year_of_day n = (y, k)"
  shows "1 \<le> y" and "n = days_before_year y + k" and "k < (if leap_year y then 366 else 365)"
proof -
  define a where "a = n div 146097"
  define n1 where "n1 = n mod 146097"
  define b where "b = min 3 (n1 div 36524)"
  define n2 where "n2 = n1 - b * 36524"
  define c where "c = n2 div 1461"
  define n3 where "n3 = n2 mod 1461"
  define d where "d = min 3 (n3 div 365)"
  have yk: "y = 400 * a + 100 * b + 4 * c + d + 1" "k = n3 - d * 365"
    using assms by (simp_all add: year_of_day_def Let_def a_def n1_def b_def n2_def c_def n3_def d_def)
  have n: "n = 146097 * a + n1" and n1: "n1 < 146097"
    by (simp_all add: a_def n1_def)
  have b: "b \<le> 3" and n12: "n1 = b * 36524 + n2" and n2: "n2 \<le> 36524" "b < 3 \<longrightarrow> n2 < 36524"
    using n1 by (auto simp: b_def n2_def min_def)
  have n23: "n2 = 1461 * c + n3" and n3: "n3 < 1461"
    by (simp_all add: c_def n3_def)
  have c: "c \<le> 24" using n2 n23 by linarith
  have d: "d \<le> 3" and n3k: "n3 = d * 365 + k" and k: "k \<le> 365" "d < 3 \<longrightarrow> k < 365"
    using n3 by (auto simp: d_def yk(2) min_def)
  define z where "z = y - 1"
  have z: "z = 400 * a + 100 * b + 4 * c + d" by (simp add: z_def yk)
  have dv: "z div 4 = 100 * a + 25 * b + c" "z div 100 = 4 * a + b" "z div 400 = a"
    using b c d by (simp_all add: z)
  have "days_before_year y = 146097 * a + 36524 * b + 1461 * c + 365 * d"
    unfolding days_before_year_def z_def [symmetric] dv using z by simp
  with n n12 n23 n3k show "n = days_before_year y + k" by simp
  show "1 \<le> y" by (simp add: yk)
  show "k < (if leap_year y then 366 else 365)"
  proof (cases "k = 365")
    case True
    with k(2) d have d3: "d = 3" by linarith
    have "c < 24 \<or> b = 3"
    proof (rule disjCI)
      assume "b \<noteq> 3"
      with b n2(2) have "n2 < 36524" by linarith
      with True d3 n3k n23 show "c < 24" by linarith
    qed
    have y: "y = 400 * a + 100 * b + 4 * c + 4" by (simp add: yk d3)
    have "leap_year y"
    proof (cases "c = 24")
      case True
      with \<open>c < 24 \<or> b = 3\<close> have "y = 400 * (a + 1)" by (simp add: y)
      then show ?thesis by (simp add: leap_year_def)
    next
      case False
      with c have "4 * c + 4 < 100" by simp
      moreover have "y = 4 * c + 4 + 100 * (4 * a + b)" by (simp add: y)
      ultimately have "y mod 100 = 4 * c + 4" by (simp only: mod_mult_self2 mod_less)
      then have "y mod 100 \<noteq> 0" by simp
      moreover have "y mod 4 = 0" by (simp add: y)
      ultimately show ?thesis by (simp add: leap_year_def)
    qed
    with True show ?thesis by simp
  qed (use k in auto)
qed

lemma month_of_day_bounds:
  assumes "k < (if leap then 366 else 365)"
  shows "1 \<le> month_of_day leap k" and "month_of_day leap k \<le> 12"
    and "month_starts leap ! (month_of_day leap k - 1) \<le> k"
    and "k < month_starts leap ! month_of_day leap k"
  using assms by (cases leap; simp add: month_of_day_def month_starts_def)+

lemma date_of_day_correct:
  assumes "n < max_day" and "date_of_day n = (y, m, d)"
  shows "valid_date y m d" and "day_number y m d = n"
proof -
  obtain y' k where yk: "year_of_day n = (y', k)" by force
  note b = year_of_day_bounds [OF yk]
  note mb = month_of_day_bounds [OF b(3)]
  have e: "y' = y" "month_of_day (leap_year y) k = m" "d = k - days_before_month y m + 1"
    using assms(2) by (auto simp: date_of_day_def yk Let_def)
  note mb = mb [unfolded e]
  show dn: "day_number y m d = n"
    using mb(3) b(2) by (simp add: day_number_def e days_before_month_def)
  have "y \<le> 9999"
  proof (rule ccontr)
    assume "\<not> y \<le> 9999"
    then have "9999 \<le> y - 1" by simp
    then have "days_before_year y \<ge> 3652059"
      unfolding days_before_year_def by linarith
    with b(2) assms(1) show False by (simp add: e max_day_def)
  qed
  moreover have "1 \<le> d \<and> d \<le> days_in_month y m"
    using mb(3,4) by (simp add: e days_before_month_def days_in_month_def)
  ultimately show "valid_date y m d"
    using b(1) mb(1,2) by (simp add: valid_date_def e)
qed

lemma take_digits_pad:
  assumes "n < 10 ^ w" and "0 < w"
  shows "take_digits w (pad_dec w n @ r) = Some (n, r)" and "length (pad_dec w n) = w"
    and "list_all is_digit (pad_dec w n)"
proof -
  have l: "length (dec_nat n) \<le> w"
    using assms by (rule length_dec_nat)
  then show len: "length (pad_dec w n) = w" by (simp add: pad_dec_def)
  show dig: "list_all is_digit (pad_dec w n)"
    using dec_nat_digits [of n] by (auto simp: pad_dec_def list_all_iff is_digit_def ord_def)
  have z: "foldl (\<lambda>n c. 10 * n + digit_val c) 0 (replicate k (CHR ''0'')) = 0" for k
    by (induction k) (simp_all add: digit_val_def ord_def)
  have "nat_of_dec (pad_dec w n) = nat_of_dec (dec_nat n)"
    by (simp add: pad_dec_def nat_of_dec_def z)
  with len dig show "take_digits w (pad_dec w n @ r) = Some (n, r)"
    by (simp add: take_digits.simps)
qed

lemma char_at_numeral [simp]: "char_at (c # cs) (numeral k) = char_at cs (pred_numeral k)"
  by (simp add: numeral_eq_Suc)

lemma list_length2: "length xs = 2 \<Longrightarrow> \<exists>a b. xs = [a, b]"
  by (auto simp: numeral_eq_Suc length_Suc_conv)

lemma list_length4: "length xs = 4 \<Longrightarrow> \<exists>a b c d. xs = [a, b, c, d]"
  by (auto simp: numeral_eq_Suc length_Suc_conv)

text \<open>
  The fixed form the program writes: \<open>hms_text\<close> is read back by the parser of times, and
  a moment printed by \<open>format_utc\<close> is read back as the moment, to the second.
\<close>

definition utc_text :: "nat \<Rightarrow> string" where
  "utc_text t =
    (let (y, m, d) = date_of_day (t div usec_day); s = t mod usec_day div usec
     in pad_dec 4 y @ ''-'' @ pad_dec 2 m @ ''-'' @ pad_dec 2 d @ ''T''
          @ pad_dec 2 (s div 3600) @ '':'' @ pad_dec 2 (s div 60 mod 60) @ '':''
          @ pad_dec 2 (s mod 60))"

lemma format_utc_text: "format_utc t = utc_text t @ ''Z''"
  by (simp add: format_utc_def utc_text_def Let_def split: prod.splits)

lemma digit_not_special:
  "is_digit c \<Longrightarrow> \<not> is_tz_char c \<and> c \<noteq> CHR '':'' \<and> c \<noteq> CHR ''W'' \<and> c \<noteq> CHR ''-'' \<and> \<not> is_cont c \<and> ord c < 128"
  by (auto simp: is_digit_def is_tz_char_def is_cont_def ord_def)

lemma zone_utc: "parse_zone ''+00:00'' = Some 0"
  by (simp add: parse_zone_def parse_hms.simps take_digits.simps is_digit_def ord_def
      nat_of_dec_def digit_val_def hms_usec_def usec_def usec_day_def)

lemma parse_time_fixed:
  assumes "h < 24" and "m < 60" and "s < 60"
  shows "parse_time_of_day (pad_dec 2 h @ '':'' @ pad_dec 2 m @ '':'' @ pad_dec 2 s @ ''+00:00'')
         = Some ((h * 3600 + m * 60 + s) * usec, Some 0)"
proof -
  have b: "h < 10 ^ 2" "m < 10 ^ 2" "s < 10 ^ 2" using assms by simp_all
  note H = take_digits_pad [OF b(1)] note M = take_digits_pad [OF b(2)] note S = take_digits_pad [OF b(3)]
  obtain h1 h2 m1 m2 s1 s2 where e: "pad_dec 2 h = [h1, h2]" "pad_dec 2 m = [m1, m2]"
    "pad_dec 2 s = [s1, s2]"
    using H(2) M(2) S(2) by (metis list_length2 zero_less_numeral)
  have d: "is_digit h1" "is_digit h2" "is_digit m1" "is_digit m2" "is_digit s1" "is_digit s2"
    using H(3) M(3) S(3) by (simp_all add: e)
  note t = H(1) [unfolded e, simplified] M(1) [unfolded e, simplified] S(1) [unfolded e, simplified]
  let ?a = "[h1, h2, CHR '':'', m1, m2, CHR '':'', s1, s2]"
  have tw: "takeWhile (\<lambda>c. \<not> is_tz_char c) (?a @ ''+00:00'') = ?a"
    "dropWhile (\<lambda>c. \<not> is_tz_char c) (?a @ ''+00:00'') = ''+00:00''"
    using d digit_not_special by (auto simp: is_tz_char_def)
  have "parse_hms 0 True ?a True = Some ([h, m, s], 0, True)"
    by (simp add: parse_hms.simps t Let_def)
  then show ?thesis
    using tw assms by (simp add: parse_time_of_day_def e zone_utc valid_hms_def hms_usec_def)
qed

lemma valid_date_bounds: "valid_date y m d \<Longrightarrow> y < 10 ^ 4 \<and> m < 10 ^ 2 \<and> d < 10 ^ 2"
proof -
  assume v: "valid_date y m d"
  then have "m \<in> set [1..<13]" by (auto simp: valid_date_def)
  then have "m \<in> {1, 2, 3, 4, 5, 6, 7, 8, 9, 10, 11, 12}" by (simp add: upt_rec numeral_eq_Suc)
  then have "days_in_month y m \<le> 31"
    by (auto simp: days_in_month_def month_starts_def)
  with v show ?thesis by (auto simp: valid_date_def)
qed

theorem from_iso_utc_text:
  assumes "t < max_time"
  shows "from_iso (utc_text t @ ''+00:00'') = Some (Aware (t - t mod usec) 0)"
proof -
  define n where "n = t div usec_day"
  define s where "s = t mod usec_day div usec"
  have nm: "n < max_day" using assms by (simp add: n_def max_time_def less_mult_imp_div_less)
  obtain y m d where ymd: "date_of_day n = (y, m, d)" by (metis prod_cases3)
  note dc = date_of_day_correct [OF nm ymd]
  note vb = valid_date_bounds [OF dc(1)]
  have s: "s < 86400" by (simp add: s_def usec_day_def usec_def less_mult_imp_div_less)
  then have hb: "s div 3600 < 24" "s div 60 mod 60 < 60" "s mod 60 < 60" by auto
  have sum: "s div 3600 * 3600 + s div 60 mod 60 * 60 + s mod 60 = s"
  proof -
    have "s div 3600 = s div 60 div 60" by (simp add: div_mult2_eq [symmetric])
    moreover have "s div 60 div 60 * 60 + s div 60 mod 60 = s div 60" by simp
    moreover have "s div 60 * 60 + s mod 60 = s" by simp
    ultimately show ?thesis by linarith
  qed
  let ?tod = "pad_dec 2 (s div 3600) @ '':'' @ pad_dec 2 (s div 60 mod 60) @ '':''
      @ pad_dec 2 (s mod 60) @ ''+00:00''"
  have td: "parse_time_of_day ?tod = Some (s * usec, Some 0)"
    using parse_time_fixed [OF hb] by (simp only: sum)
  have ut: "utc_text t @ ''+00:00'' = pad_dec 4 y @ ''-'' @ pad_dec 2 m @ ''-'' @ pad_dec 2 d @ ''T'' @ ?tod"
    by (simp add: utc_text_def ymd n_def [symmetric] s_def [symmetric] Let_def)
  note Y = take_digits_pad [of y 4] note M = take_digits_pad [of m 2] note D = take_digits_pad [of d 2]
  obtain y1 y2 y3 y4 m1 m2 d1 d2 where e: "pad_dec 4 y = [y1, y2, y3, y4]" "pad_dec 2 m = [m1, m2]"
    "pad_dec 2 d = [d1, d2]"
    using Y(2) M(2) D(2) vb by (metis list_length2 list_length4 zero_less_numeral)
  have dig: "is_digit y1" "is_digit y2" "is_digit y3" "is_digit y4" "is_digit m1" "is_digit m2"
    "is_digit d1" "is_digit d2"
    using Y(3) M(3) D(3) vb by (simp_all add: e)
  have tk: "take_digits 4 (y1 # y2 # y3 # y4 # r) = Some (y, r)"
    "take_digits 2 (m1 # m2 # r) = Some (m, r)" "take_digits 2 (d1 # d2 # r) = Some (d, r)" for r
    using Y(1) M(1) D(1) vb by (simp_all add: e)
  let ?s = "[y1, y2, y3, y4, CHR ''-'', m1, m2, CHR ''-'', d1, d2, CHR ''T''] @ ?tod"
  have sep: "iso_separator ?s = Some 10"
    using dig digit_not_special [of m1] by (simp add: iso_separator_def)
  have date: "parse_date ?s 10 = Some n"
    using dig digit_not_special [of m1] dc by (simp add: parse_date_def tk)
  have len: "7 \<le> py_len ?s"
    using dig digit_not_special by (simp add: py_len_def)
  have w: "sep_width (?s ! 10) = 1" "drop (10 + 1) ?s = ?tod" "10 < length ?s"
    by (simp_all add: sep_width_def ord_def)
  have "from_iso ?s = Some (Aware (n * usec_day + s * usec) 0)"
    using len by (simp only: from_iso_def sep date w td if_True option.case prod.case not_le [symmetric]
        if_False not_not) simp
  moreover have "n * usec_day + s * usec = t - t mod usec"
  proof -
    have "t = n * usec_day + t mod usec_day" by (simp add: n_def)
    moreover have "t mod usec_day = s * usec + t mod usec_day mod usec" by (simp add: s_def)
    moreover have "t mod usec_day mod usec = t mod usec"
      by (rule mod_mod_cancel) (simp add: usec_day_def usec_def)
    ultimately show ?thesis by linarith
  qed
  ultimately show ?thesis by (simp add: ut e)
qed

lemma utc_text_shape:
  assumes "t < max_time"
  shows "length (utc_text t) = 19" and "\<forall>c \<in> set (utc_text t). 32 \<le> ord c \<and> ord c < 128"
proof -
  define n where "n = t div usec_day"
  define s where "s = t mod usec_day div usec"
  have nm: "n < max_day" using assms by (simp add: n_def max_time_def less_mult_imp_div_less)
  obtain y m d where ymd: "date_of_day n = (y, m, d)" by (metis prod_cases3)
  note vb = valid_date_bounds [OF date_of_day_correct(1) [OF nm ymd]]
  have "s < 86400" by (simp add: s_def usec_day_def usec_def less_mult_imp_div_less)
  then have hb: "s div 3600 < 10 ^ 2" "s div 60 mod 60 < 10 ^ 2" "s mod 60 < 10 ^ 2" by auto
  have dg: "c \<in> set (pad_dec w k) \<Longrightarrow> k < 10 ^ w \<Longrightarrow> 0 < w \<Longrightarrow> 32 \<le> ord c \<and> ord c < 128" for c w k
    using take_digits_pad(3) [of k w] by (fastforce simp: list_all_iff is_digit_def)
  have u: "utc_text t = pad_dec 4 y @ ''-'' @ pad_dec 2 m @ ''-'' @ pad_dec 2 d @ ''T''
      @ pad_dec 2 (s div 3600) @ '':'' @ pad_dec 2 (s div 60 mod 60) @ '':''
      @ pad_dec 2 (s mod 60)"
    by (simp add: utc_text_def ymd n_def [symmetric] s_def [symmetric] Let_def)
  have 2: "length (pad_dec 2 k) = 2" if "k < 10 ^ 2" for k
    using that by (rule take_digits_pad(2)) simp
  have 4: "length (pad_dec 4 y) = 4" using vb by (intro take_digits_pad(2)) auto
  have l: "length (pad_dec 2 m) = 2" "length (pad_dec 2 d) = 2" using vb by (simp_all only: 2)
  show "length (utc_text t) = 19"
    unfolding u using 2 [OF hb(1)] 2 [OF hb(2)] 2 [OF hb(3)] 4 l by simp
  show "\<forall>c \<in> set (utc_text t). 32 \<le> ord c \<and> ord c < 128"
    unfolding u using dg [where w = 2] dg [where w = 4 and k = y] hb vb by (auto simp: ord_def)
qed

end
