(* ===== verification/Feed.thy ===== *)
theory Feed
  imports World_Logic Base64 Pytime Models
begin

text \<open>
  \<^verbatim>\<open>src/zsec_shield/feed.py\<close>: the trust store, the signed rule feed, its verification, its
  installation with a rollback state, and its inspection.  The signature check of the
  \<^verbatim>\<open>cryptography\<close> package is the parameter \<open>vf\<close> of the definitions: \<open>vf key signature message\<close>
  says that the key is well formed and the signature verifies.  Where a message of the code
  shows the \<^verbatim>\<open>repr\<close> of a value or the text of another exception, the message here omits it.
\<close>

section \<open>Field validators\<close>

definition max_feed_bytes :: nat where "max_feed_bytes = 2 * 1024 * 1024"

definition max_rules :: nat where "max_rules = 2048"

definition max_literal_bytes :: nat where "max_literal_bytes = 4096"

definition exact_keys :: "(string \<Rightarrow> exn) \<Rightarrow> dict \<Rightarrow> string list \<Rightarrow> string \<Rightarrow> unit res" where
  "exact_keys E d expected context =
    (if keys_of d = set expected then Inr ()
     else let missing = filter (\<lambda>k. k \<notin> keys_of d) (sort expected);
              unexpected = filter (\<lambda>k. k \<notin> set expected) (map fst d);
              details = (if missing \<noteq> [] then [''missing='' @ join_with '','' missing] else [])
                @ (if unexpected \<noteq> [] then [''unexpected='' @ join_with '','' unexpected] else [])
          in Inl (E (''invalid '' @ context @ '' fields ('' @ join_with ''; '' details @ '')'')))"

definition bounded_string :: "json \<Rightarrow> string \<Rightarrow> nat \<Rightarrow> nat \<Rightarrow> string res" where
  "bounded_string v field lo hi =
    (if \<not> is_str v \<or> \<not> (lo \<le> py_len (str_of v) \<and> py_len (str_of v) \<le> hi) then
       Inl (FeedError (field @ '' must be a string of '' @ dec_nat lo @ ''..'' @ dec_nat hi @ '' characters''))
     else if list_ex (\<lambda>c. ord c < 32 \<and> c \<noteq> CHR 0x09) (str_of v) then
       Inl (FeedError (field @ '' contains disallowed control characters''))
     else Inr (str_of v))"

definition timestamp :: "json \<Rightarrow> string \<Rightarrow> nat res" where
  "timestamp v field =
    rbind (bounded_string v field 20 35) (\<lambda>t.
      if \<not> ends_with t ''Z'' then
        Inl (FeedError (field @ '' must be an RFC 3339 UTC timestamp ending in Z''))
      else case from_iso (butlast t @ ''+00:00'') of
          None \<Rightarrow> Inl (FeedError (field @ '' is not a valid RFC 3339 timestamp''))
        | Some (Naive _) \<Rightarrow> Inl (FeedError (field @ '' must use UTC''))
        | Some (Aware local off) \<Rightarrow>
            if off \<noteq> 0 then Inl (FeedError (field @ '' must use UTC'')) else Inr (to_utc local off))"

definition decode_base64 :: "json \<Rightarrow> string \<Rightarrow> nat option \<Rightarrow> string res" where
  "decode_base64 v field expected_length =
    rbind (bounded_string v field 4 8192) (\<lambda>t.
      case b64decode_strict t of
        None \<Rightarrow> Inl (FeedError (field @ '' must be canonical base64''))
      | Some d \<Rightarrow>
          if b64encode d \<noteq> t then Inl (FeedError (field @ '' must use canonical padded base64''))
          else case expected_length of
              None \<Rightarrow> Inr d
            | Some n \<Rightarrow> if length d \<noteq> n then Inl (FeedError (field @ '' must decode to '' @ dec_nat n @ '' bytes''))
                        else Inr d)"

text \<open>\<^verbatim>\<open>RULE_ID_PATTERN\<close> and \<^verbatim>\<open>SHA256_PATTERN\<close>, both with \<^verbatim>\<open>fullmatch\<close>.\<close>

definition id_first :: "char \<Rightarrow> bool" where
  "id_first c = (is_digit c \<or> 97 \<le> ord c \<and> ord c \<le> 122)"

definition id_char :: "char \<Rightarrow> bool" where
  "id_char c = (id_first c \<or> c \<in> set ''._:-'')"

definition rule_id_pattern :: "string \<Rightarrow> bool" where
  "rule_id_pattern s =
    (case s of [] \<Rightarrow> False
     | c # r \<Rightarrow> id_first c \<and> 2 \<le> length r \<and> length r \<le> 127 \<and> list_all id_char r)"

definition sha256_pattern :: "string \<Rightarrow> bool" where
  "sha256_pattern s = (length s = 64 \<and> list_all is_hex s)"

text \<open>Membership of a value in a set of strings raises for a list or a dictionary.\<close>

definition unhashable :: "json \<Rightarrow> bool" where
  "unhashable v = (is_list v \<or> is_obj v)"

definition in_set :: "json \<Rightarrow> string list \<Rightarrow> bool res" where
  "in_set v xs = (if unhashable v then Inl (OtherError ''unhashable type'') else Inr (v \<in> JStr ` set xs))"

section \<open>The trust store\<close>

record trusted_key =
  tk_key_id :: string
  tk_public_key :: string
  tk_status :: string
  tk_not_before :: "nat option"
  tk_not_after :: "nat option"

type_synonym keyring = "(string \<times> trusted_key) list"

definition optional_time :: "dict \<Rightarrow> string \<Rightarrow> nat option res" where
  "optional_time r k = (if dhas r k then rbind (timestamp (dget r k) k) (\<lambda>t. Inr (Some t)) else Inr None)"

definition inverted :: "nat option \<Rightarrow> nat option \<Rightarrow> bool" where
  "inverted nb na = (case (nb, na) of (Some a, Some b) \<Rightarrow> b \<le> a | _ \<Rightarrow> False)"

definition key_record :: "nat \<times> json \<Rightarrow> keyring \<Rightarrow> keyring res" where
  "key_record ir result =
    (let i = dec_nat (fst ir); r = obj_of (snd ir);
         required = {''key_id'', ''algorithm'', ''public_key'', ''status''};
         allowed = required \<union> {''not_before'', ''not_after''} in
     if \<not> is_obj (snd ir) then Inl (FeedError (''keyring key '' @ i @ '' must be an object''))
     else if \<not> required \<subseteq> keys_of r \<or> \<not> keys_of r \<subseteq> allowed then
       Inl (FeedError (''keyring key '' @ i @ '' has invalid fields''))
     else rbind (bounded_string (dget r ''key_id'') (''keys['' @ i @ ''].key_id'') 3 128) (\<lambda>key_id.
       if \<not> rule_id_pattern key_id then Inl (FeedError (''keys['' @ i @ ''].key_id has an invalid format''))
       else if key_id \<in> fst ` set result then Inl (FeedError (''duplicate key_id rejected: '' @ key_id))
       else if dget r ''algorithm'' \<noteq> JStr ''ed25519'' then
         Inl (FeedError (''key '' @ key_id @ '' uses an unsupported algorithm''))
       else rbind (in_set (dget r ''status'') [''active'', ''revoked'']) (\<lambda>ok.
         if \<not> ok then Inl (FeedError (''key '' @ key_id @ '' has an invalid status''))
         else rbind (decode_base64 (dget r ''public_key'') (''key '' @ key_id @ '' public_key'') (Some 32)) (\<lambda>pk.
              rbind (optional_time r ''not_before'') (\<lambda>nb.
              rbind (optional_time r ''not_after'') (\<lambda>na.
                if inverted nb na then Inl (FeedError (''key '' @ key_id @ '' validity window is inverted''))
                else Inr (result @ [(key_id, \<lparr>tk_key_id = key_id, tk_public_key = pk,
                       tk_status = str_of (dget r ''status''), tk_not_before = nb, tk_not_after = na\<rparr>)])))))))"

definition parse_keyring :: "string \<Rightarrow> keyring res" where
  "parse_keyring raw =
    rbind (strict_json_loads raw) (\<lambda>v.
      if \<not> is_obj v then Inl (FeedError ''keyring root must be an object'')
      else let root = obj_of v in
      rbind (exact_keys FeedError root [''schema'', ''keys''] ''keyring'') (\<lambda>_.
        if dget root ''schema'' \<noteq> JStr ''zsec.shield.keyring.v1'' then
          Inl (FeedError ''unsupported keyring schema'')
        else let records = dget root ''keys'' in
        if \<not> is_list records \<or> 64 < length (list_of records) then
          Inl (FeedError ''keyring keys must be an array with at most 64 entries'')
        else rfold key_record (enumerate0 (list_of records)) []))"

definition load_keyring :: "path \<Rightarrow> keyring io" where
  "load_keyring p =
    io_bind (io_catch
        (io_bind (stat_size p) (\<lambda>n.
          if n > 256 * 1024 then io_raise (FeedError ''keyring is larger than 256 KiB'')
          else sys_read_bytes p))
        is_os_error (\<lambda>e. io_raise (FeedError (''cannot read keyring: '' @ p @ '': '' @ exn_text e))))
      (\<lambda>raw. io_lift (parse_keyring raw))"

section \<open>Rules and the signed document\<close>

text \<open>The last part of \<open>_validate_rule\<close>: the value, by kind.\<close>

definition rule_value :: "dict \<Rightarrow> string \<Rightarrow> string \<Rightarrow> string \<Rightarrow> string \<Rightarrow> string \<Rightarrow> rule res" where
  "rule_value r ctx rid name description source =
    (let severity = the (severity_of (dget r ''severity'')) in
     if dget r ''kind'' = JStr ''sha256'' then
       rbind (bounded_string (dget r ''value'') (ctx @ ''.value'') 64 64) (\<lambda>v.
         if \<not> sha256_pattern (lower v) then
           Inl (FeedError (ctx @ ''.value must be a SHA-256 hex digest''))
         else Inr \<lparr>rule_id = rid, r_name = name, r_kind = Sha256_Rule, r_severity = severity,
                r_description = description, r_source = source, r_digest = Some (lower v), r_literal = None\<rparr>)
     else
       rbind (decode_base64 (dget r ''value'') (ctx @ ''.value'') None) (\<lambda>lit.
         if lit = [] \<or> max_literal_bytes < length lit then
           Inl (FeedError (ctx @ ''.value must decode to 1..4096 bytes''))
         else Inr \<lparr>rule_id = rid, r_name = name, r_kind = Literal_Rule, r_severity = severity,
                r_description = description, r_source = source, r_digest = None, r_literal = Some lit\<rparr>))"

definition validate_rule :: "nat \<times> json \<Rightarrow> rule res" where
  "validate_rule ir =
    (let ctx = ''rules['' @ dec_nat (fst ir) @ '']''; r = obj_of (snd ir) in
     if \<not> is_obj (snd ir) then Inl (FeedError (ctx @ '' must be an object''))
     else
     rbind (exact_keys FeedError r
        [''id'', ''name'', ''kind'', ''severity'', ''description'', ''source'', ''value''] ctx) (\<lambda>_.
     rbind (bounded_string (dget r ''id'') (ctx @ ''.id'') 3 128) (\<lambda>rid.
     if \<not> rule_id_pattern rid \<or> starts_with rid ''builtin:'' then
       Inl (FeedError (ctx @ ''.id has an invalid or reserved format''))
     else
     rbind (bounded_string (dget r ''name'') (ctx @ ''.name'') 1 160) (\<lambda>name.
     rbind (bounded_string (dget r ''description'') (ctx @ ''.description'') 1 500) (\<lambda>description.
     rbind (bounded_string (dget r ''source'') (ctx @ ''.source'') 1 300) (\<lambda>source.
     rbind (in_set (dget r ''kind'') [''sha256'', ''literal'']) (\<lambda>kind_ok.
     if \<not> kind_ok then Inl (FeedError (ctx @ ''.kind must be sha256 or literal''))
     else
     rbind (in_set (dget r ''severity'') [''info'', ''low'', ''medium'', ''high'', ''critical'']) (\<lambda>sev_ok.
     if \<not> sev_ok then Inl (FeedError (ctx @ ''.severity is invalid''))
     else rule_value r ctx rid name description source))))))))"

record verified_feed =
  vf_document :: dict
  vf_sequence :: int
  vf_generated_at :: nat
  vf_expires_at :: nat
  vf_key_id :: string
  vf_payload_sha256 :: string
  vf_rules :: "rule list"

definition trusted_now :: "keyring \<Rightarrow> string \<Rightarrow> nat \<Rightarrow> trusted_key res" where
  "trusted_now keyring key_id now =
    (case map_of keyring key_id of
       None \<Rightarrow> Inl (FeedError (''feed key is not trusted: '' @ key_id))
     | Some k \<Rightarrow>
       if tk_status k \<noteq> ''active'' then Inl (FeedError (''feed key is revoked: '' @ key_id))
       else if (case tk_not_before k of None \<Rightarrow> False | Some t \<Rightarrow> now < t) then
         Inl (FeedError (''feed key is not valid yet: '' @ key_id))
       else if (case tk_not_after k of None \<Rightarrow> False | Some t \<Rightarrow> t \<le> now) then
         Inl (FeedError (''feed key has expired: '' @ key_id))
       else Inr k)"

definition valid_sequence :: "json \<Rightarrow> bool" where
  "valid_sequence v = (is_int_nb v \<and> 1 \<le> int_of v \<and> int_of v < 2 ^ 63)"

definition verify_payload :: "dict \<Rightarrow> nat \<Rightarrow> (int \<times> nat \<times> nat \<times> rule list) res" where
  "verify_payload payload now =
    rbind (exact_keys FeedError payload
       [''schema'', ''sequence'', ''generated_at'', ''expires_at'', ''rules''] ''signed payload'') (\<lambda>_.
    if dget payload ''schema'' \<noteq> JStr ''zsec.shield.rules.v1'' then
      Inl (FeedError ''unsupported signed payload schema'')
    else if \<not> valid_sequence (dget payload ''sequence'') then
      Inl (FeedError ''sequence must be an integer between 1 and 2^63-1'')
    else
    rbind (timestamp (dget payload ''generated_at'') ''generated_at'') (\<lambda>generated_at.
    rbind (timestamp (dget payload ''expires_at'') ''expires_at'') (\<lambda>expires_at.
    if generated_at > now + minutes 5 then Inl (FeedError ''feed generated_at is too far in the future'')
    else if expires_at \<le> now then Inl (FeedError ''feed has expired'')
    else if expires_at \<le> generated_at then
      Inl (FeedError ''feed expiry must be later than generation time'')
    else if expires_at - generated_at > days 90 then
      Inl (FeedError ''feed validity window exceeds 90 days'')
    else let records = dget payload ''rules'' in
    if \<not> is_list records \<or> max_rules < length (list_of records) then
      Inl (FeedError ''rules must be an array with at most 2048 entries'')
    else
    rbind (rmap validate_rule (enumerate0 (list_of records))) (\<lambda>rules.
    if \<not> distinct (map rule_id rules) then Inl (FeedError ''duplicate rule IDs are not allowed'')
    else Inr (int_of (dget payload ''sequence''), generated_at, expires_at, rules)))))"

definition verify_feed_document ::
    "(string \<Rightarrow> string \<Rightarrow> string \<Rightarrow> bool) \<Rightarrow> string \<Rightarrow> keyring \<Rightarrow> nat \<Rightarrow> verified_feed res" where
  "verify_feed_document vf raw keyring now =
    (if max_feed_bytes < length raw then Inl (FeedError ''feed is larger than 2097152 bytes'')
     else rbind (strict_json_loads raw) (\<lambda>v.
     if \<not> is_obj v then Inl (FeedError ''feed root must be an object'')
     else let root = obj_of v in
     rbind (exact_keys FeedError root
        [''schema'', ''algorithm'', ''key_id'', ''payload'', ''signature''] ''feed envelope'') (\<lambda>_.
     if dget root ''schema'' \<noteq> JStr ''zsec.shield.feed.v1'' \<or> dget root ''algorithm'' \<noteq> JStr ''ed25519'' then
       Inl (FeedError ''unsupported feed schema or signature algorithm'')
     else
     rbind (bounded_string (dget root ''key_id'') ''key_id'' 3 128) (\<lambda>key_id.
     rbind (trusted_now keyring key_id now) (\<lambda>trusted.
     if \<not> is_obj (dget root ''payload'') then Inl (FeedError ''feed payload must be an object'')
     else
     rbind (canonical_json_bytes (dget root ''payload'')) (\<lambda>canonical.
     rbind (decode_base64 (dget root ''signature'') ''signature'' (Some 64)) (\<lambda>signature.
     if \<not> vf (tk_public_key trusted) signature canonical then
       Inl (FeedError ''feed signature verification failed'')
     else
     rbind (verify_payload (obj_of (dget root ''payload'')) now) (\<lambda>(sequence, generated_at, expires_at, rules).
     Inr \<lparr>vf_document = root, vf_sequence = sequence, vf_generated_at = generated_at,
          vf_expires_at = expires_at, vf_key_id = key_id, vf_payload_sha256 = hexdigest canonical,
          vf_rules = rules\<rparr>))))))))"

section \<open>The rollback state, inspection and installation\<close>

definition feed_document_path :: "path \<Rightarrow> path" where
  "feed_document_path d = join_path (join_path d ''feed'') ''current.json''"

definition feed_state_path :: "path \<Rightarrow> path" where
  "feed_state_path d = join_path (join_path d ''feed'') ''state.json''"

definition feed_lock_path :: "path \<Rightarrow> path" where
  "feed_lock_path d = join_path (join_path d ''feed'') ''.update.lock''"

definition parse_state :: "string \<Rightarrow> dict res" where
  "parse_state raw =
    rbind (strict_json_loads raw) (\<lambda>v.
    if \<not> is_obj v then Inl (FeedError ''feed state must be an object'')
    else let d = obj_of v in
    rbind (exact_keys FeedError d
      [''schema'', ''max_sequence'', ''current_payload_sha256'', ''key_id'', ''updated_at''] ''feed state'') (\<lambda>_.
    if dget d ''schema'' \<noteq> JStr ''zsec.shield.feed-state.v1'' then
      Inl (FeedError ''unsupported feed state schema'')
    else if \<not> is_int_nb (dget d ''max_sequence'') \<or> int_of (dget d ''max_sequence'') < 1 then
      Inl (FeedError ''feed state sequence is invalid'')
    else if \<not> is_str (dget d ''current_payload_sha256'')
            \<or> \<not> sha256_pattern (str_of (dget d ''current_payload_sha256'')) then
      Inl (FeedError ''feed state digest is invalid'')
    else
    rbind (bounded_string (dget d ''key_id'') ''feed state key_id'' 3 128) (\<lambda>_.
    rbind (timestamp (dget d ''updated_at'') ''feed state updated_at'') (\<lambda>_. Inr d))))"

definition read_state :: "path \<Rightarrow> dict option io" where
  "read_state p =
    io_bind (path_exists p) (\<lambda>there.
      if \<not> there then io_ret None
      else io_bind (io_catch
          (io_bind (stat_size p) (\<lambda>n.
            if n > 64 * 1024 then io_raise (FeedError ''feed state is unexpectedly large'')
            else sys_read_bytes p))
          is_os_error (\<lambda>e. io_raise (FeedError (''cannot read feed state: '' @ exn_text e))))
        (\<lambda>raw. io_bind (io_lift (parse_state raw)) (\<lambda>d. io_ret (Some d))))"

record feed_status =
  fs_state :: string
  fs_path :: string
  fs_keyring_path :: string
  fs_sequence :: "int option"
  fs_key_id :: "string option"
  fs_rules_count :: nat
  fs_generated_at :: "string option"
  fs_expires_at :: "string option"
  fs_payload_sha256 :: "string option"
  fs_error :: "string option"

definition plain_status :: "string \<Rightarrow> path \<Rightarrow> path \<Rightarrow> string option \<Rightarrow> feed_status" where
  "plain_status st p k err = \<lparr>fs_state = st, fs_path = p, fs_keyring_path = k, fs_sequence = None,
     fs_key_id = None, fs_rules_count = 0, fs_generated_at = None, fs_expires_at = None,
     fs_payload_sha256 = None, fs_error = err\<rparr>"

definition valid_status :: "verified_feed \<Rightarrow> path \<Rightarrow> path \<Rightarrow> feed_status" where
  "valid_status v p k = \<lparr>fs_state = ''valid'', fs_path = p, fs_keyring_path = k,
     fs_sequence = Some (vf_sequence v), fs_key_id = Some (vf_key_id v),
     fs_rules_count = length (vf_rules v), fs_generated_at = Some (format_utc (vf_generated_at v)),
     fs_expires_at = Some (format_utc (vf_expires_at v)),
     fs_payload_sha256 = Some (vf_payload_sha256 v), fs_error = None\<rparr>"

definition opt_str :: "string option \<Rightarrow> json" where
  "opt_str v = (case v of None \<Rightarrow> JNull | Some s \<Rightarrow> JStr s)"

definition feed_status_to_dict :: "feed_status \<Rightarrow> dict" where
  "feed_status_to_dict s = mk_dict
    [(''state'', JStr (fs_state s)), (''path'', JStr (fs_path s)), (''keyring_path'', JStr (fs_keyring_path s)),
     (''sequence'', case fs_sequence s of None \<Rightarrow> JNull | Some n \<Rightarrow> JInt n), (''key_id'', opt_str (fs_key_id s)),
     (''rules_count'', JInt (int (fs_rules_count s))), (''generated_at'', opt_str (fs_generated_at s)),
     (''expires_at'', opt_str (fs_expires_at s)), (''payload_sha256'', opt_str (fs_payload_sha256 s)),
     (''error'', opt_str (fs_error s))]"

definition feed_or_os :: "exn \<Rightarrow> bool" where
  "feed_or_os e = (is_feed_error e \<or> is_os_error e)"

definition check_installed :: "(string \<Rightarrow> string \<Rightarrow> string \<Rightarrow> bool) \<Rightarrow> path \<Rightarrow> path \<Rightarrow> path \<Rightarrow> nat \<Rightarrow> verified_feed io" where
  "check_installed vf doc state keyring_path now =
    io_bind (path_is_file doc) (\<lambda>f1.
    io_bind (if f1 then path_is_file state else io_ret False) (\<lambda>f2.
    io_if (\<not> f1 \<or> \<not> f2) (FeedError ''feed document and rollback state must both exist'')
    (io_bind (stat_size doc) (\<lambda>n.
    io_if (max_feed_bytes < n) (FeedError ''installed feed exceeds the size limit'')
    (io_bind (load_keyring keyring_path) (\<lambda>keyring.
    io_bind (sys_read_bytes doc) (\<lambda>raw.
    io_bind (io_lift (verify_feed_document vf raw keyring now)) (\<lambda>verified.
    io_bind (read_state state) (\<lambda>st.
    case st of None \<Rightarrow> io_raise (FeedError ''feed rollback state is missing'')
    | Some d \<Rightarrow>
      io_if (int_of (dget d ''max_sequence'') \<noteq> vf_sequence verified)
        (FeedError ''feed sequence does not match rollback state'')
      (io_if (str_of (dget d ''current_payload_sha256'') \<noteq> vf_payload_sha256 verified)
        (FeedError ''feed payload does not match rollback state'')
      (io_ret verified)))))))))))"

definition inspect_feed ::
    "(string \<Rightarrow> string \<Rightarrow> string \<Rightarrow> bool) \<Rightarrow> path \<Rightarrow> path \<Rightarrow> nat \<Rightarrow> (feed_status \<times> rule list) io" where
  "inspect_feed vf state_dir keyring_path now =
    (let doc = feed_document_path state_dir; state = feed_state_path state_dir in
     io_bind (path_exists doc) (\<lambda>e1.
     io_bind (if e1 then io_ret True else path_exists state) (\<lambda>e2.
     if \<not> e1 \<and> \<not> e2 then io_ret (plain_status ''absent'' doc keyring_path None, [])
     else io_catch
       (io_bind (check_installed vf doc state keyring_path now) (\<lambda>v.
          io_ret (valid_status v doc keyring_path, vf_rules v)))
       feed_or_os
       (\<lambda>e. io_ret (plain_status ''invalid'' doc keyring_path (Some (exn_text e)), [])))))"

definition state_record :: "verified_feed \<Rightarrow> nat \<Rightarrow> dict" where
  "state_record v now = mk_dict
    [(''schema'', JStr ''zsec.shield.feed-state.v1''), (''max_sequence'', JInt (vf_sequence v)),
     (''current_payload_sha256'', JStr (vf_payload_sha256 v)), (''key_id'', JStr (vf_key_id v)),
     (''updated_at'', JStr (format_utc now))]"

definition rollback_check :: "dict option \<Rightarrow> verified_feed \<Rightarrow> string res" where
  "rollback_check previous v =
    (case previous of None \<Rightarrow> Inr ''installed''
     | Some d \<Rightarrow>
       let maximum = int_of (dget d ''max_sequence'') in
       if vf_sequence v < maximum then
         Inl (FeedError (''feed rollback rejected: sequence '' @ dec_int (vf_sequence v) @ '' is below '' @ dec_int maximum))
       else if vf_sequence v = maximum then
         (if JStr (vf_payload_sha256 v) \<noteq> dget d ''current_payload_sha256'' then
            Inl (FeedError ''feed sequence reuse with different signed content was rejected'')
          else Inr ''unchanged'')
       else Inr ''installed'')"

definition install_feed ::
    "(string \<Rightarrow> string \<Rightarrow> string \<Rightarrow> bool) \<Rightarrow> string \<Rightarrow> path \<Rightarrow> path \<Rightarrow> nat \<Rightarrow> (string \<times> verified_feed) io" where
  "install_feed vf raw state_dir keyring_path now =
    io_bind (load_keyring keyring_path) (\<lambda>keyring.
    io_bind (io_lift (verify_feed_document vf raw keyring now)) (\<lambda>verified.
    io_bind (update_lock (feed_lock_path state_dir)
      (io_bind (read_state (feed_state_path state_dir)) (\<lambda>previous.
       io_bind (io_lift (rollback_check previous verified)) (\<lambda>outcome.
       io_bind (io_lift (indented_json_bytes (JObj (vf_document verified)))) (\<lambda>normalized.
       io_then (atomic_write_bytes (feed_document_path state_dir) normalized 384)
       (io_then (atomic_write_json (feed_state_path state_dir) (JObj (state_record verified now)) 384)
       (io_ret outcome))))))) (\<lambda>outcome.
    io_ret (outcome, verified))))"

end
