(* ===== verification/Feed_Proofs.thy ===== *)
theory Feed_Proofs
  imports Feed
begin

text \<open>
  What the verification, the rollback state and the installation of signed rule feeds
  guarantee, under every failure of a system call.
\<close>

section \<open>Accepted documents\<close>

definition rule_ok :: "rule \<Rightarrow> bool" where
  "rule_ok r =
    (rule_id_pattern (rule_id r) \<and> \<not> starts_with (rule_id r) ''builtin:''
     \<and> 1 \<le> py_len (r_name r) \<and> py_len (r_name r) \<le> 160
     \<and> (case r_kind r of
          Sha256_Rule \<Rightarrow> r_literal r = None \<and>
            (\<exists>d. r_digest r = Some d \<and> length d = 64 \<and> list_all is_hex d \<and> lower d = d)
        | Literal_Rule \<Rightarrow> r_digest r = None \<and>
            (\<exists>l. r_literal r = Some l \<and> l \<noteq> [] \<and> length l \<le> max_literal_bytes)))"

lemma bounded_string_Inr:
  "bounded_string v f lo hi = Inr s \<longleftrightarrow> v = JStr s \<and> lo \<le> py_len s \<and> py_len s \<le> hi
     \<and> (\<forall>c \<in> set s. 32 \<le> ord c \<or> c = CHR 0x09)"
proof -
  have "list_ex (\<lambda>c. ord c < 32 \<and> c \<noteq> CHR 0x09) t \<longleftrightarrow> \<not> (\<forall>c \<in> set t. 32 \<le> ord c \<or> c = CHR 0x09)" for t
    by (auto simp: list_ex_iff not_le)
  then show ?thesis by (cases v) (auto simp: bounded_string_def simp del: list_ex_iff split: if_splits)
qed

lemma decode_base64_Inr:
  "decode_base64 v f n = Inr d \<longleftrightarrow> v = JStr (b64encode d) \<and> 4 \<le> length (b64encode d)
     \<and> length (b64encode d) \<le> 8192 \<and> (\<forall>k. n = Some k \<longrightarrow> length d = k)" (is "_ \<longleftrightarrow> ?R")
proof
  have a: "py_len (b64encode x) = length (b64encode x)" for x
    by (simp add: py_len_ascii b64encode_ascii)
  have p: "\<forall>c \<in> set (b64encode x). 32 \<le> ord c \<or> c = CHR 0x09" for x
    using b64encode_printable by blast
  show ?R if h: "decode_base64 v f n = Inr d"
  proof -
    from h obtain t where t: "bounded_string v f 4 8192 = Inr t"
      and g: "(case b64decode_strict t of None \<Rightarrow> Inl (FeedError (f @ '' must be canonical base64''))
        | Some d \<Rightarrow> if b64encode d \<noteq> t then Inl (FeedError (f @ '' must use canonical padded base64''))
          else case n of None \<Rightarrow> Inr d | Some n \<Rightarrow> if length d \<noteq> n
             then Inl (FeedError (f @ '' must decode to '' @ dec_nat n @ '' bytes'')) else Inr d) = Inr d"
      by (auto simp: decode_base64_def rbind_Inr_iff)
    from g obtain x where x: "b64decode_strict t = Some x" by (cases "b64decode_strict t") auto
    with g have "b64encode x = t" by (auto split: if_splits)
    with g x have "x = d" "\<forall>k. n = Some k \<longrightarrow> length d = k" by (auto split: option.splits if_splits)
    with \<open>b64encode x = t\<close> t a show ?R by (auto simp: bounded_string_Inr)
  qed
  show "decode_base64 v f n = Inr d" if ?R
    using that a p by (cases n) (auto simp: decode_base64_def rbind_Inr_iff bounded_string_Inr b64decode_encode)
qed

lemma timestamp_Inr:
  "timestamp v f = Inr t \<longleftrightarrow> (\<exists>s. v = JStr (s @ ''Z'') \<and> bounded_string v f 20 35 = Inr (s @ ''Z'')
     \<and> from_iso (s @ ''+00:00'') = Some (Aware t 0))" (is "_ \<longleftrightarrow> ?R")
proof
  have u: "to_utc l 0 = l" for l by (simp add: to_utc_def)
  show ?R if h: "timestamp v f = Inr t"
  proof -
    from h obtain x where x: "bounded_string v f 20 35 = Inr x" "ends_with x ''Z''"
      and g: "(case from_iso (butlast x @ ''+00:00'') of
          None \<Rightarrow> Inl (FeedError (f @ '' is not a valid RFC 3339 timestamp''))
        | Some (Naive _) \<Rightarrow> Inl (FeedError (f @ '' must use UTC''))
        | Some (Aware local off) \<Rightarrow>
            if off \<noteq> 0 then Inl (FeedError (f @ '' must use UTC'')) else Inr (to_utc local off)) = Inr t"
      unfolding timestamp_def rbind_Inr_iff if_Inr_iff by blast
    obtain s where s: "x = s @ ''Z''" using x(2) by (auto simp: ends_with_iff)
    from g s have "from_iso (s @ ''+00:00'') = Some (Aware t 0)"
      by (cases "from_iso (s @ ''+00:00'')") (auto simp: u split: iso_dt.splits if_splits)
    with s x show ?R by (auto simp: bounded_string_Inr)
  qed
  show "timestamp v f = Inr t" if ?R
    using that by (auto simp: timestamp_def rbind_Inr_iff ends_with_iff u)
qed

lemma exact_keys_Inr: "exact_keys E d ks c = Inr u \<longleftrightarrow> keys_of d = set ks"
  by (auto simp: exact_keys_def Let_def)

lemma in_set_Inr: "in_set v xs = Inr b \<longleftrightarrow> \<not> unhashable v \<and> b = (v \<in> JStr ` set xs)"
  by (auto simp: in_set_def)

lemmas accept_simps = rbind_Inr_iff exact_keys_Inr in_set_Inr Let_def

lemma dget_mem: "wf_dict d \<Longrightarrow> (k, x) \<in> set d \<Longrightarrow> dget d k = x"
  by (auto simp: wf_dict_def strict_sorted_iff dget_def)

lemma mem_keys: "(k, x) \<in> set d \<Longrightarrow> k \<in> keys_of d"
  by (force simp: keys_of_def)

lemma values_no_float:
  assumes "\<And>k. k \<in> keys_of d \<Longrightarrow> no_float (dget d k)" and "parsed (JObj d)"
  shows "no_float (JObj d)"
proof -
  have "wf_dict d" using assms(2) by simp
  then have "\<forall>(k, x) \<in> set d. no_float x"
    using assms(1) by (auto dest: mem_keys) (metis dget_mem mem_keys)
  then show ?thesis by simp
qed

lemma strings_no_float:
  "(\<And>k. k \<in> keys_of d \<Longrightarrow> \<exists>s. dget d k = JStr s) \<Longrightarrow> parsed (JObj d) \<Longrightarrow> no_float (JObj d)"
  by (rule values_no_float) fastforce+

lemma validate_rule_fields:
  assumes "validate_rule (i, v) = Inr r"
  obtains d where "v = JObj d"
    and "keys_of d = {''id'', ''name'', ''kind'', ''severity'', ''description'', ''source'', ''value''}"
    and "dget d ''id'' = JStr (rule_id r)" and "rule_id_pattern (rule_id r)"
    and "\<not> starts_with (rule_id r) ''builtin:''"
    and "dget d ''name'' = JStr (r_name r)" and "1 \<le> py_len (r_name r)" and "py_len (r_name r) \<le> 160"
    and "dget d ''description'' = JStr (r_description r)" and "dget d ''source'' = JStr (r_source r)"
    and "dget d ''severity'' = JStr (severity_str (r_severity r))"
    and "dget d ''kind'' = JStr (kind_str (r_kind r))"
    and "r_kind r = Sha256_Rule \<and> r_literal r = None \<and> (\<exists>s. dget d ''value'' = JStr s
            \<and> r_digest r = Some (lower s) \<and> sha256_pattern (lower s))
         \<or> r_kind r = Literal_Rule \<and> r_digest r = None \<and> (\<exists>l. dget d ''value'' = JStr (b64encode l)
            \<and> r_literal r = Some l \<and> l \<noteq> [] \<and> length l \<le> max_literal_bytes)"
proof -
  note a = assms [unfolded validate_rule_def Let_def fst_conv snd_conv]
  from a obtain d where v: "v = JObj d" by (cases v) auto
  from a v obtain rid name desc src where
    k: "keys_of d = {''id'', ''name'', ''kind'', ''severity'', ''description'', ''source'', ''value''}" and
    f: "dget d ''id'' = JStr rid" "rule_id_pattern rid" "\<not> starts_with rid ''builtin:''"
    "dget d ''name'' = JStr name" "1 \<le> py_len name" "py_len name \<le> 160"
    "dget d ''description'' = JStr desc" "dget d ''source'' = JStr src" and
    g: "dget d ''kind'' \<in> JStr ` set [''sha256'', ''literal'']"
    "dget d ''severity'' \<in> JStr ` set [''info'', ''low'', ''medium'', ''high'', ''critical'']" and
    h: "rule_value d (''rules['' @ dec_nat i @ '']'') rid name desc src = Inr r"
    by (auto simp: rbind_Inr_iff if_Inr_iff exact_keys_Inr bounded_string_Inr in_set_Inr)
  from g(2) obtain sev where sev: "dget d ''severity'' = JStr (severity_str sev)"
    by (auto intro: that [of Info] that [of Low] that [of Medium] that [of High] that [of Critical])
  show thesis
  proof (cases "dget d ''kind'' = JStr ''sha256''")
    case True
    with h sev obtain s where s: "dget d ''value'' = JStr s" "sha256_pattern (lower s)"
      "r = \<lparr>rule_id = rid, r_name = name, r_kind = Sha256_Rule, r_severity = sev,
            r_description = desc, r_source = src, r_digest = Some (lower s), r_literal = None\<rparr>"
      by (auto simp: rule_value_def rbind_Inr_iff if_Inr_iff bounded_string_Inr)
    show thesis by (rule that [OF v k]) (use f sev True s in simp_all)
  next
    case False
    with g(1) have kd: "dget d ''kind'' = JStr ''literal''" by auto
    with h sev obtain l where l: "dget d ''value'' = JStr (b64encode l)" "l \<noteq> []" "length l \<le> max_literal_bytes"
      "r = \<lparr>rule_id = rid, r_name = name, r_kind = Literal_Rule, r_severity = sev,
            r_description = desc, r_source = src, r_digest = None, r_literal = Some l\<rparr>"
      by (auto simp: rule_value_def rbind_Inr_iff if_Inr_iff decode_base64_Inr)
    show thesis by (rule that [OF v k]) (use f sev kd l in simp_all)
  qed
qed

lemma validate_rule_ok: "validate_rule ir = Inr r \<Longrightarrow> rule_ok r"
proof (cases ir)
  case (Pair i v)
  assume "validate_rule ir = Inr r"
  then show ?thesis unfolding Pair
    by (rule validate_rule_fields) (elim disjE conjE exE; simp add: rule_ok_def sha256_pattern_def)
qed

lemma validate_rule_json: "validate_rule (i, v) = Inr r \<Longrightarrow> parsed v \<Longrightarrow> no_float v"
proof (erule validate_rule_fields)
  fix d
  assume v: "v = JObj d" and k: "keys_of d = {''id'', ''name'', ''kind'', ''severity'', ''description'', ''source'', ''value''}"
    and s: "dget d ''id'' = JStr (rule_id r)" "dget d ''name'' = JStr (r_name r)"
    "dget d ''description'' = JStr (r_description r)" "dget d ''source'' = JStr (r_source r)"
    "dget d ''severity'' = JStr (severity_str (r_severity r))" "dget d ''kind'' = JStr (kind_str (r_kind r))"
    and vl: "r_kind r = Sha256_Rule \<and> r_literal r = None \<and> (\<exists>s. dget d ''value'' = JStr s
            \<and> r_digest r = Some (lower s) \<and> sha256_pattern (lower s))
         \<or> r_kind r = Literal_Rule \<and> r_digest r = None \<and> (\<exists>l. dget d ''value'' = JStr (b64encode l)
            \<and> r_literal r = Some l \<and> l \<noteq> [] \<and> length l \<le> max_literal_bytes)"
    and p: "parsed v"
  have "\<exists>s. dget d k = JStr s" if "k \<in> keys_of d" for k
    using that s vl unfolding k by auto
  then show "no_float v" using p unfolding v by (rule strings_no_float)
qed

section \<open>Timestamps the program wrote\<close>

lemma timestamp_format:
  assumes "t < max_time"
  shows "timestamp (JStr (format_utc t)) field = Inr (t - t mod usec)"
proof -
  note sh = utc_text_shape [OF assms]
  have "is_ascii (utc_text t)" using sh(2) by (simp add: is_ascii_def list_all_iff)
  then have "py_len (utc_text t @ ''Z'') = 20"
    using sh(1) by (subst py_len_ascii) (simp_all add: ord_def)
  then have "bounded_string (JStr (utc_text t @ ''Z'')) field 20 35 = Inr (utc_text t @ ''Z'')"
    using sh(2) unfolding bounded_string_Inr by (auto simp: ord_def)
  then show ?thesis
    using from_iso_utc_text [OF assms] by (auto simp: timestamp_Inr format_utc_text)
qed

lemma format_utc_ascii: "t < max_time \<Longrightarrow> is_ascii (format_utc t)"
  using utc_text_shape(2) by (auto simp: format_utc_text is_ascii_def list_all_iff ord_def)

section \<open>Acceptance\<close>

lemma verify_payload_Inr:
  assumes "verify_payload p now = Inr (seq, g, e, rules)"
  shows "keys_of p = {''schema'', ''sequence'', ''generated_at'', ''expires_at'', ''rules''}"
    and "dget p ''schema'' = JStr ''zsec.shield.rules.v1''"
    and "dget p ''sequence'' = JInt seq" and "1 \<le> seq" and "seq < 2 ^ 63"
    and "timestamp (dget p ''generated_at'') ''generated_at'' = Inr g"
    and "timestamp (dget p ''expires_at'') ''expires_at'' = Inr e"
    and "g \<le> now + minutes 5" and "now < e" and "g < e" and "e \<le> g + days 90"
    and "\<exists>vs. dget p ''rules'' = JList vs \<and> length vs \<le> max_rules \<and> rmap validate_rule (enumerate0 vs) = Inr rules"
    and "distinct (map rule_id rules)"
proof -
  have i: "is_int_nb v \<longleftrightarrow> (\<exists>i. v = JInt i)" for v by (cases v) auto
  have l: "is_list v \<longleftrightarrow> (\<exists>xs. v = JList xs)" for v by (cases v) auto
  note a = assms [unfolded verify_payload_def Let_def rbind_Inr_iff if_Inr_iff exact_keys_Inr not_not sum.inject]
  from a obtain g' e' rs where c: "keys_of p = set [''schema'', ''sequence'', ''generated_at'', ''expires_at'', ''rules'']"
    "dget p ''schema'' = JStr ''zsec.shield.rules.v1''" "valid_sequence (dget p ''sequence'')"
    "timestamp (dget p ''generated_at'') ''generated_at'' = Inr g'"
    "timestamp (dget p ''expires_at'') ''expires_at'' = Inr e'"
    "\<not> g' > now + minutes 5" "\<not> e' \<le> now" "\<not> e' \<le> g'" "\<not> e' - g' > days 90"
    "\<not> (\<not> is_list (dget p ''rules'') \<or> max_rules < length (list_of (dget p ''rules'')))"
    "rmap validate_rule (enumerate0 (list_of (dget p ''rules''))) = Inr rs"
    "distinct (map rule_id rs)"
    "(int_of (dget p ''sequence''), g', e', rs) = (seq, g, e, rules)"
    by (elim exE conjE) (rule that)
  note q = c(13) [unfolded prod.inject]
  show "keys_of p = {''schema'', ''sequence'', ''generated_at'', ''expires_at'', ''rules''}"
    using c(1) by simp
  show "dget p ''schema'' = JStr ''zsec.shield.rules.v1''" by (rule c(2))
  show "dget p ''sequence'' = JInt seq" "1 \<le> seq" "seq < 2 ^ 63"
    using c(3) q unfolding valid_sequence_def i by auto
  show "timestamp (dget p ''generated_at'') ''generated_at'' = Inr g"
    "timestamp (dget p ''expires_at'') ''expires_at'' = Inr e" using c(4,5) q by auto
  show "g \<le> now + minutes 5" "now < e" "g < e" "e \<le> g + days 90" using c(6-9) q by auto
  show "\<exists>vs. dget p ''rules'' = JList vs \<and> length vs \<le> max_rules \<and> rmap validate_rule (enumerate0 vs) = Inr rules"
    using c(10,11) q unfolding l by auto
  show "distinct (map rule_id rules)" using c(12) q by simp
qed

lemma verify_feed_Inr:
  assumes "verify_feed_document vf raw keyring now = Inr v"
  obtains root k payload canonical signature where "length raw \<le> max_feed_bytes"
    and "strict_json_loads raw = Inr (JObj root)"
    and "keys_of root = {''schema'', ''algorithm'', ''key_id'', ''payload'', ''signature''}"
    and "dget root ''schema'' = JStr ''zsec.shield.feed.v1''" and "dget root ''algorithm'' = JStr ''ed25519''"
    and "dget root ''key_id'' = JStr (vf_key_id v)"
    and "trusted_now keyring (vf_key_id v) now = Inr k"
    and "dget root ''payload'' = JObj payload" and "canonical_json_bytes (JObj payload) = Inr canonical"
    and "dget root ''signature'' = JStr (b64encode signature)" and "length signature = 64"
    and "vf (tk_public_key k) signature canonical"
    and "verify_payload payload now = Inr (vf_sequence v, vf_generated_at v, vf_expires_at v, vf_rules v)"
    and "vf_document v = root" and "vf_payload_sha256 v = hexdigest canonical"
proof -
  have o: "is_obj x \<longleftrightarrow> (\<exists>d. x = JObj d)" for x by (cases x) auto
  note a = assms [unfolded verify_feed_document_def Let_def rbind_Inr_iff if_Inr_iff exact_keys_Inr
      bounded_string_Inr decode_base64_Inr not_not]
  from a obtain x kid k can sg q where c: "\<not> max_feed_bytes < length raw" "strict_json_loads raw = Inr x" "is_obj x"
    "keys_of (obj_of x) = set [''schema'', ''algorithm'', ''key_id'', ''payload'', ''signature'']"
    "\<not> (dget (obj_of x) ''schema'' \<noteq> JStr ''zsec.shield.feed.v1'' \<or> dget (obj_of x) ''algorithm'' \<noteq> JStr ''ed25519'')"
    "dget (obj_of x) ''key_id'' = JStr kid" "trusted_now keyring kid now = Inr k"
    "is_obj (dget (obj_of x) ''payload'')" "canonical_json_bytes (dget (obj_of x) ''payload'') = Inr can"
    "dget (obj_of x) ''signature'' = JStr (b64encode sg)" "\<forall>k. Some 64 = Some k \<longrightarrow> length sg = k"
    "vf (tk_public_key k) sg can" "verify_payload (obj_of (dget (obj_of x) ''payload'')) now = Inr q"
    "(case q of (sequence, generated_at, expires_at, rules) \<Rightarrow>
       Inr \<lparr>vf_document = obj_of x, vf_sequence = sequence, vf_generated_at = generated_at,
          vf_expires_at = expires_at, vf_key_id = kid, vf_payload_sha256 = hexdigest can,
          vf_rules = rules\<rparr>) = (Inr v :: verified_feed res)"
    by (elim exE conjE) (rule that)
  obtain seq g e rules where q: "q = (seq, g, e, rules)" by (cases q)
  obtain root where r: "x = JObj root" using c(3) o by auto
  obtain payload where p: "dget root ''payload'' = JObj payload" using c(8) o r by auto
  have v: "v = \<lparr>vf_document = root, vf_sequence = seq, vf_generated_at = g,
          vf_expires_at = e, vf_key_id = kid, vf_payload_sha256 = hexdigest can, vf_rules = rules\<rparr>"
    using c(14) by (simp add: q r)
  show thesis
    by (rule that [of root k payload can sg]) (use c q r p v in simp_all)
qed

lemma trusted_now_Inr:
  "trusted_now keyring key_id now = Inr k \<longleftrightarrow> map_of keyring key_id = Some k \<and> tk_status k = ''active''
     \<and> (\<forall>t. tk_not_before k = Some t \<longrightarrow> t \<le> now) \<and> (\<forall>t. tk_not_after k = Some t \<longrightarrow> now < t)"
  by (auto simp: trusted_now_def not_less not_le split: option.splits if_splits)

text \<open>
  C2: A feed document is accepted only if an active trusted key, valid at the moment of the check,
  verifies the signature over the canonical bytes of its payload, its lifetime is at most 90
  days, includes the present and does not start more than five minutes ahead, its sequence is
  in range, and its at most 2048 rules are well formed with distinct identifiers; the digest
  reported is the SHA-256 of the signed bytes.
\<close>

theorem verify_feed_accepts:
  assumes "verify_feed_document vf raw keyring now = Inr v"
  shows "\<exists>k payload canonical signature.
      map_of keyring (vf_key_id v) = Some k \<and> tk_status k = ''active''
      \<and> (\<forall>t. tk_not_before k = Some t \<longrightarrow> t \<le> now) \<and> (\<forall>t. tk_not_after k = Some t \<longrightarrow> now < t)
      \<and> dget (vf_document v) ''payload'' = JObj payload
      \<and> canonical_json_bytes (JObj payload) = Inr canonical
      \<and> dget (vf_document v) ''signature'' = JStr (b64encode signature)
      \<and> vf (tk_public_key k) signature canonical \<and> vf_payload_sha256 v = hexdigest canonical
      \<and> dget payload ''sequence'' = JInt (vf_sequence v) \<and> 1 \<le> vf_sequence v \<and> vf_sequence v < 2 ^ 63
      \<and> vf_generated_at v \<le> now + minutes 5 \<and> now < vf_expires_at v
      \<and> vf_generated_at v < vf_expires_at v \<and> vf_expires_at v \<le> vf_generated_at v + days 90
      \<and> length (vf_rules v) \<le> max_rules \<and> distinct (map rule_id (vf_rules v))
      \<and> (\<forall>r \<in> set (vf_rules v). rule_ok r)"
proof (rule verify_feed_Inr [OF assms])
  fix root k payload canonical signature
  assume t: "trusted_now keyring (vf_key_id v) now = Inr k" and p: "dget root ''payload'' = JObj payload"
    "canonical_json_bytes (JObj payload) = Inr canonical" "dget root ''signature'' = JStr (b64encode signature)"
    "vf (tk_public_key k) signature canonical" "vf_document v = root" "vf_payload_sha256 v = hexdigest canonical"
    and q: "verify_payload payload now = Inr (vf_sequence v, vf_generated_at v, vf_expires_at v, vf_rules v)"
  note a = verify_payload_Inr [OF q]
  obtain vs where vs: "length vs \<le> max_rules" "rmap validate_rule (enumerate0 vs) = Inr (vf_rules v)"
    using a(12) by blast
  have "length (vf_rules v) \<le> max_rules" using rmap_length [OF vs(2)] vs(1) by simp
  moreover have "\<forall>r \<in> set (vf_rules v). rule_ok r"
    using rmap_InrD [OF vs(2)] validate_rule_ok by blast
  ultimately show ?thesis
    using t p a(3-5,8-11,13) unfolding trusted_now_Inr by blast
qed

section \<open>What the installer writes can be read back\<close>

lemma enumerate0_mem: "x \<in> set xs \<Longrightarrow> \<exists>i. (i, x) \<in> set (enumerate0 xs)"
  by (metis (no_types, lifting) imageE list.set_map prod.collapse snd_enumerate0)

lemma rmap_mem: "rmap f xs = Inr ys \<Longrightarrow> x \<in> set xs \<Longrightarrow> \<exists>y. f x = Inr y"
  by (induction xs arbitrary: ys) (auto simp: rbind_Inr_iff)

lemma verified_wf: "verify_feed_document vf raw keyring now = Inr v \<Longrightarrow> wf_json (JObj (vf_document v))"
proof (erule verify_feed_Inr)
  fix root k payload canonical signature
  assume s: "strict_json_loads raw = Inr (JObj root)"
    and k: "keys_of root = {''schema'', ''algorithm'', ''key_id'', ''payload'', ''signature''}"
    and f: "dget root ''schema'' = JStr ''zsec.shield.feed.v1''" "dget root ''algorithm'' = JStr ''ed25519''"
    "dget root ''key_id'' = JStr (vf_key_id v)" "dget root ''payload'' = JObj payload"
    "dget root ''signature'' = JStr (b64encode signature)" and doc: "vf_document v = root"
    and q: "verify_payload payload now = Inr (vf_sequence v, vf_generated_at v, vf_expires_at v, vf_rules v)"
  have pr: "parsed (JObj root)" using s by (rule strict_json_loads_parsed)
  note a = verify_payload_Inr [OF q]
  have pp: "parsed (JObj payload)"
  proof -
    have "''payload'' \<in> keys_of root" by (simp add: k)
    then obtain x where "(''payload'', x) \<in> set root" by (auto simp: keys_of_def)
    with pr f(4) show ?thesis by (metis (no_types, lifting) case_prodD dget_mem parsed_JObj)
  qed
  obtain vs where vs: "dget payload ''rules'' = JList vs" "rmap validate_rule (enumerate0 vs) = Inr (vf_rules v)"
    using a(12) by blast
  have pv: "parsed (JList vs)"
  proof -
    have "''rules'' \<in> keys_of payload" by (simp add: a(1))
    then obtain x where "(''rules'', x) \<in> set payload" by (auto simp: keys_of_def)
    with pp vs(1) show ?thesis by (metis (no_types, lifting) case_prodD dget_mem parsed_JObj)
  qed
  have nv: "no_float (JList vs)"
  proof -
    have "no_float x" if "x \<in> set vs" for x
    proof -
      from that obtain i where "(i, x) \<in> set (enumerate0 vs)" by (blast dest: enumerate0_mem)
      from rmap_mem [OF vs(2) this] obtain r where "validate_rule (i, x) = Inr r" by blast
      with pv that show ?thesis by (intro validate_rule_json) auto
    qed
    then show ?thesis by simp
  qed
  obtain g e where ge: "dget payload ''generated_at'' = JStr g" "dget payload ''expires_at'' = JStr e"
    using a(6,7) unfolding timestamp_Inr by blast
  have "no_float (dget payload key)" if "key \<in> keys_of payload" for key
    using that unfolding a(1) by (elim insertE emptyE) (simp_all only: a(2,3) ge vs(1) nv no_float.simps(1-5))
  then have np: "no_float (JObj payload)" by (rule values_no_float [OF _ pp])
  have "no_float (dget root key)" if "key \<in> keys_of root" for key
    using that unfolding k by (elim insertE emptyE) (simp_all only: f np no_float.simps(1-5))
  then have "no_float (JObj root)" by (rule values_no_float [OF _ pr])
  with pr show "wf_json (JObj (vf_document v))" by (simp add: wf_json_iff doc)
qed

text \<open>The document the installer writes is verified with the same result.\<close>

lemma verify_reindented:
  assumes "verify_feed_document vf raw keyring now = Inr v"
    and "indented_json_bytes (JObj (vf_document v)) = Inr b" and "length b \<le> max_feed_bytes"
  shows "verify_feed_document vf b keyring now = Inr v"
proof -
  have s: "strict_json_loads b = Inr (JObj (vf_document v))"
    using strict_indented [OF verified_wf [OF assms(1)] assms(2)] .
  obtain root where r: "strict_json_loads raw = Inr (JObj root)" "vf_document v = root" "length raw \<le> max_feed_bytes"
    using verify_feed_Inr [OF assms(1)] by metis
  then have "strict_json_loads raw = strict_json_loads b" using s by simp
  then have "verify_feed_document vf raw keyring now = verify_feed_document vf b keyring now"
    using assms(3) r(3) by (simp only: verify_feed_document_def not_less [symmetric] if_False)
  with assms(1) show ?thesis by simp
qed

lemma wf_state_record: "0 \<le> vf_sequence v \<Longrightarrow> vf_sequence v < 2 ^ 63 \<Longrightarrow> wf_json (JObj (state_record v now))"
proof -
  assume s: "0 \<le> vf_sequence v" "vf_sequence v < 2 ^ 63"
  have "nat \<bar>vf_sequence v\<bar> < 2 ^ 63" using s by (simp add: nat_less_iff)
  then have "nat \<bar>vf_sequence v\<bar> < 10 ^ 19" by simp
  then have "length (dec_nat (nat \<bar>vf_sequence v\<bar>)) \<le> 19" by (rule length_dec_nat) simp
  then have "\<forall>x \<in> snd ` set (state_record v now). wf_json x"
    unfolding state_record_def by (intro subset_ball [OF mk_dict_vals]) simp
  then show ?thesis by (auto simp: state_record_def)
qed

lemma state_record_fields:
  "dget (state_record v now) ''schema'' = JStr ''zsec.shield.feed-state.v1''"
  "dget (state_record v now) ''max_sequence'' = JInt (vf_sequence v)"
  "dget (state_record v now) ''current_payload_sha256'' = JStr (vf_payload_sha256 v)"
  "dget (state_record v now) ''key_id'' = JStr (vf_key_id v)"
  "dget (state_record v now) ''updated_at'' = JStr (format_utc now)"
  "keys_of (state_record v now) =
     set [''schema'', ''max_sequence'', ''current_payload_sha256'', ''key_id'', ''updated_at'']"
  by (simp_all add: state_record_def dget_def map_of_mk_dict keys_of_mk_dict)

lemma sha256_pattern_hexdigest: "sha256_pattern (hexdigest m)"
proof -
  have "is_hex_lower c \<Longrightarrow> is_hex c" for c
    by (auto simp: is_hex_def is_hex_lower_def hex_val_def is_digit_def)
  then show ?thesis
    using hexdigest_lower [of m] by (auto simp: sha256_pattern_def list_all_iff)
qed

lemma parse_state_record:
  assumes v: "verify_feed_document vf raw keyring t = Inr v" and n: "now < max_time"
    and b: "indented_json_bytes (JObj (state_record v now)) = Inr b"
  shows "parse_state b = Inr (state_record v now)"
proof (rule verify_feed_Inr [OF v])
  fix root k payload canonical signature
  assume r: "strict_json_loads raw = Inr (JObj root)" "dget root ''key_id'' = JStr (vf_key_id v)"
    "vf_payload_sha256 v = hexdigest canonical"
    "verify_payload payload t = Inr (vf_sequence v, vf_generated_at v, vf_expires_at v, vf_rules v)"
  note a = verify_payload_Inr [OF r(4)]
  have s: "strict_json_loads b = Inr (JObj (state_record v now))"
    using a(4,5) b by (intro strict_indented wf_state_record) simp_all
  have k: "bounded_string (JStr (vf_key_id v)) f 3 128 = Inr (vf_key_id v)" for f
    using v r(1,2) by (auto simp: verify_feed_document_def rbind_Inr_iff bounded_string_Inr Let_def split: if_splits)
  show ?thesis
    using a(4) by (simp add: parse_state_def s Let_def exact_keys_def state_record_fields k r(3)
        sha256_pattern_hexdigest timestamp_format [OF n])
qed

section \<open>A feed that is accepted\<close>

definition ex_payload :: "nat \<Rightarrow> dict" where
  "ex_payload n = mk_dict [(''schema'', JStr ''zsec.shield.rules.v1''), (''sequence'', JInt 7),
     (''generated_at'', JStr (format_utc n)), (''expires_at'', JStr (format_utc (n + days 30))),
     (''rules'', JList [])]"
definition ex_root :: "nat \<Rightarrow> dict" where
  "ex_root n = mk_dict [(''schema'', JStr ''zsec.shield.feed.v1''), (''algorithm'', JStr ''ed25519''), (''key_id'', JStr ''k01''),
    (''payload'', JObj (ex_payload n)), (''signature'', JStr (b64encode (replicate 64 CHR ''s'')))]"
definition ex_ring :: keyring where
  "ex_ring = [(''k01'', \<lparr>tk_key_id = ''k01'', tk_public_key = replicate 32 CHR ''p'', tk_status = ''active'', tk_not_before = None, tk_not_after = None\<rparr>)]"

lemma ex_wf: "wf_json (JObj (ex_root n))"
proof -
  have "length (dec_nat 7) \<le> 4300" by code_simp
  then have "wf_json (JObj (ex_payload n))"
    unfolding ex_payload_def by (intro wf_json_mk_dict) simp
  then show ?thesis unfolding ex_root_def by (intro wf_json_mk_dict) simp
qed

lemma ex_ascii: "n + days 30 < max_time \<Longrightarrow> ascii_json (JObj (ex_payload n))"
  "n + days 30 < max_time \<Longrightarrow> ascii_json (JObj (ex_root n))"
proof -
  assume n: "n + days 30 < max_time"
  then show p: "ascii_json (JObj (ex_payload n))" 
  unfolding ex_payload_def by (intro ascii_mk_dict) (simp_all add: format_utc_ascii ord_def)
  have "ascii_json (JStr (b64encode x))" for x by (simp add: b64encode_ascii)
  with p show "ascii_json (JObj (ex_root n))" 
  unfolding ex_root_def by (intro ascii_mk_dict) (simp_all add: ord_def)
qed

lemma ex_payload_ok: "0 + days 30 < max_time \<Longrightarrow> verify_payload (ex_payload 0) 0 = Inr (7, 0, 0 + days 30, [])"
proof -
  assume n: "0 + days 30 < max_time"
  have f: "dget (ex_payload 0) ''schema'' = JStr ''zsec.shield.rules.v1''" "dget (ex_payload 0) ''sequence'' = JInt 7"
    "dget (ex_payload 0) ''generated_at'' = JStr (format_utc 0)" "dget (ex_payload 0) ''expires_at'' = JStr (format_utc (0 + days 30))"
    "dget (ex_payload 0) ''rules'' = JList []"
    "keys_of (ex_payload 0) = set [''schema'', ''sequence'', ''generated_at'', ''expires_at'', ''rules'']"
    by (simp_all add: ex_payload_def dget_mk_dict keys_of_mk_dict)
  have m: "days 30 mod usec = 0" by (simp add: days_def usec_def usec_day_def)
  have l: "length [] = 0" "enumerate0 [] = []" "\<not> days 90 < days 30" "0 < days 30"
    by (simp_all add: enumerate0_def days_def usec_day_def)
  show ?thesis
    using n by (simp add: verify_payload_def f exact_keys_def timestamp_format valid_sequence_def m l)
qed



lemmas format_eval = format_utc_def usec_def usec_day_def days_def date_of_day_def year_of_day_def Let_def pad_dec_def month_of_day_def
  month_starts_def leap_year_def days_before_month_def dec_nat.simps
lemma ex_from: "format_utc 0 = ''0001-01-01T00:00:00Z''" by (simp add: format_eval, code_simp)
lemma ex_until: "format_utc (days 30) = ''0001-01-31T00:00:00Z''" by (simp add: format_eval, code_simp)
lemma ex_fits: "length (dump Compact 0 (JObj (ex_root 0))) \<le> 1000"
  by (simp only: ex_root_def ex_payload_def ex_from ex_until add_0) code_simp


definition ex_feed :: verified_feed where
  "ex_feed = \<lparr>vf_document = ex_root 0, vf_sequence = 7, vf_generated_at = 0, vf_expires_at = days 30,
     vf_key_id = ''k01'', vf_payload_sha256 = hexdigest (dump Compact 0 (JObj (ex_payload 0))), vf_rules = []\<rparr>"

lemma ex_accepted:
  "verify_feed_document (\<lambda>_ _ _. True) (dump Compact 0 (JObj (ex_root 0))) ex_ring 0 = Inr ex_feed"
proof -
  have n: "0 + days 30 < max_time" "True" by (simp_all add: days_def usec_def usec_day_def max_time_def max_day_def)
  have f: "dget (ex_root 0) ''schema'' = JStr ''zsec.shield.feed.v1''" "dget (ex_root 0) ''algorithm'' = JStr ''ed25519''"
    "dget (ex_root 0) ''key_id'' = JStr ''k01''" "dget (ex_root 0) ''payload'' = JObj (ex_payload 0)"
    "dget (ex_root 0) ''signature'' = JStr (b64encode (replicate 64 CHR ''s''))"
    "keys_of (ex_root 0) = set [''schema'', ''algorithm'', ''key_id'', ''payload'', ''signature'']"
    by (simp_all add: ex_root_def dget_mk_dict keys_of_mk_dict)
  have s: "strict_json_loads (dump Compact 0 (JObj (ex_root 0))) = Inr (JObj (ex_root 0))"
    using strict_canonical [OF ex_wf canonical_ascii [OF ex_ascii(2) [OF n(1)]]] .
  have b: "bounded_string (JStr ''k01'') ''key_id'' 3 128 = Inr ''k01''" by code_simp
  have t: "trusted_now ex_ring ''k01'' 0 = Inr (snd (hd ex_ring))" by (simp add: trusted_now_def ex_ring_def)
  have d: "decode_base64 (JStr (b64encode (replicate 64 CHR ''s''))) ''signature'' (Some 64) = Inr (replicate 64 CHR ''s'')"
  proof -
    have "4 \<le> length (b64encode (replicate 64 CHR ''s'')) \<and> length (b64encode (replicate 64 CHR ''s'')) \<le> 8192" by code_simp
    then show ?thesis unfolding decode_base64_Inr by simp
  qed
  have l: "\<not> max_feed_bytes < length (dump Compact 0 (JObj (ex_root 0)))"
    using ex_fits by (simp add: max_feed_bytes_def del: dump.simps)
  note p = ex_payload_ok [OF n(1)]
  show ?thesis
    using l by (simp add: verify_feed_document_def s f exact_keys_def b t d p canonical_ascii [OF ex_ascii(1) [OF n(1)]]
      ex_feed_def del: dump.simps)
qed

lemma verify_feed_accepts_witness:
  "\<exists>v. verify_feed_document (\<lambda>_ _ _. True) (dump Compact 0 (JObj (ex_root 0))) ex_ring 0 = Inr v
     \<and> 0 < vf_expires_at v \<and> distinct (map rule_id (vf_rules v))"
  using verify_feed_accepts [OF ex_accepted] ex_accepted by blast

end
