(* ===== verification/Rollback.thy ===== *)
theory Rollback
  imports World_Logic
begin

text \<open>
  The interface of a rollback state: a file that holds the highest sequence that was accepted, with
  its reader.  Whoever reads it, checks the new sequence against it and writes the new record last
  never lowers the recorded sequence, whichever system call fails.
\<close>

definition record_floor :: "(string \<Rightarrow> dict res) \<Rightarrow> path \<Rightarrow> int \<Rightarrow> fs \<Rightarrow> bool" where
  "record_floor parse p n f =
    (fs_ok f \<and> (\<exists>d st. view f p = Some d \<and> i_kind d = Reg \<and> parse (i_data d) = Inr st
       \<and> n \<le> int_of (dget st ''max_sequence'')))"

lemma floor_has:
  "has p d f \<Longrightarrow> i_kind d = Reg \<Longrightarrow> parse (i_data d) = Inr st
   \<Longrightarrow> n \<le> int_of (dget st ''max_sequence'') \<Longrightarrow> record_floor parse p n f"
  by (auto simp: record_floor_def has_def)

lemma floor_published:
  "fs_ok f \<Longrightarrow> published b f p \<Longrightarrow> parse b = Inr st \<Longrightarrow> n \<le> int_of (dget st ''max_sequence'')
   \<Longrightarrow> record_floor parse p n f"
  by (auto simp: record_floor_def published_def)

lemma floorE:
  assumes "record_floor parse p n f"
  obtains d st where "has p d f" "i_kind d = Reg" "parse (i_data d) = Inr st" "n \<le> int_of (dget st ''max_sequence'')"
  using assms by (auto simp: record_floor_def has_def)

text \<open>A computation that keeps the file keeps the recorded sequence.\<close>

lemma floor_guarded:
  assumes "\<And>d st. i_kind d = Reg \<Longrightarrow> parse (i_data d) = Inr st \<Longrightarrow> n \<le> int_of (dget st ''max_sequence'') \<Longrightarrow>
      triple (has p d) m (\<lambda>_. record_floor parse p n) (\<lambda>_. record_floor parse p n)"
  shows "triple (record_floor parse p n) m (\<lambda>_. record_floor parse p n) (\<lambda>_. record_floor parse p n)"
proof (rule tripleI)
  fix w r w'
  assume w: "calm w" "record_floor parse p n (w_fs w)" and e: "m w = (r, w')"
  from w(2) obtain d st where h: "has p d (w_fs w)" and d: "i_kind d = Reg" "parse (i_data d) = Inr st"
    "n \<le> int_of (dget st ''max_sequence'')" by (rule floorE)
  show "calm w' \<and> post (\<lambda>_. record_floor parse p n) (\<lambda>_. record_floor parse p n) r (w_fs w')"
    by (rule tripleX [where P = "has p d", OF assms w(1) h e]) (rule d)+
qed

lemma floor_frame:
  assumes "\<And>d. triple (has p d) m (\<lambda>_. has p d) (\<lambda>_. has p d)"
  shows "triple (record_floor parse p n) m (\<lambda>_. record_floor parse p n) (\<lambda>_. record_floor parse p n)"
  by (rule floor_guarded, rule triple_conseq [OF assms]) (auto intro: floor_has [where parse = parse])

lemma floor_other:
  assumes "p \<noteq> q" and "length (parent_of q) < length q"
  shows "triple (record_floor parse p n) (atomic_write_json q v mode)
     (\<lambda>_. record_floor parse p n) (\<lambda>_. record_floor parse p n)"
proof (rule floor_frame)
  fix d
  show "triple (has p d) (atomic_write_json q v mode) (\<lambda>_. has p d) (\<lambda>_. has p d)"
    unfolding atomic_write_json_def
    by (rule triple_bind [OF looksD [OF looks_lift, of "has p d"]], rule triple_conseq [OF atomic_write_keeps [OF assms]]) auto
qed

text \<open>The new record replaces the old one, or the old one stays.\<close>

lemma write_record:
  assumes d: "i_kind d = Reg" "parse (i_data d) = Inr st" "n \<le> int_of (dget st ''max_sequence'')"
    and p: "length (parent_of p) < length p"
    and new: "\<And>b. indented_json_bytes v = Inr b \<Longrightarrow> \<exists>st'. parse b = Inr st' \<and> n \<le> int_of (dget st' ''max_sequence'')"
  shows "triple (has p d) (atomic_write_json p v mode) (\<lambda>_. record_floor parse p n) (\<lambda>_. record_floor parse p n)"
  unfolding atomic_write_json_def
proof (rule triple_bind [where Q = "\<lambda>b f. has p d f \<and> indented_json_bytes v = Inr b"], goal_cases)
  case 1
  show ?case by (rule triple_lift) (auto intro: floor_has [where parse = parse, OF _ d])
next
  case (2 b)
  have "triple (has p d) (atomic_write_bytes p b mode) (\<lambda>_. record_floor parse p n) (\<lambda>_. record_floor parse p n)"
    if b: "indented_json_bytes v = Inr b"
    using new [OF b] by (intro triple_conseq [OF atomic_write_own [OF p]]) (auto intro: floor_has [where parse = parse, OF _ d] floor_published)
  then show ?case by (rule triple_assume)
qed

locale rollback_record =
  fixes parse :: "string \<Rightarrow> dict res" and reader :: "path \<Rightarrow> dict option io"
  assumes reader_has: "i_kind d = Reg \<Longrightarrow> parse (i_data d) = Inr st \<Longrightarrow>
    triple (has p d) (reader p) (\<lambda>x f. has p d f \<and> x = Some st) (\<lambda>_. has p d)"
begin

text \<open>The recorded state is what the check sees, so what follows runs only for a sequence it allows.\<close>

lemma read_checked:
  assumes d: "i_kind d = Reg" "parse (i_data d) = Inr st" "n \<le> int_of (dget st ''max_sequence'')"
    and k: "\<And>x. check (Some st) = Inr x \<Longrightarrow> triple (has p d) (k x) Q (\<lambda>_. record_floor parse p n)"
  shows "triple (has p d) (io_bind (reader p) (\<lambda>previous. io_bind (io_lift (check previous)) k)) Q
     (\<lambda>_. record_floor parse p n)"
proof -
  have fl: "has p d f \<Longrightarrow> record_floor parse p n f" for f by (rule floor_has [where parse = parse, OF _ d])
  show ?thesis
  proof (rule triple_bind [where Q = "\<lambda>x f. has p d f \<and> x = Some st"], goal_cases)
    case 1
    show ?case by (rule triple_conseq [OF reader_has [OF d(1,2)]]) (auto intro: fl)
  next
    case (2 x)
    have "triple (has p d) (io_bind (io_lift (check (Some st))) k) Q (\<lambda>_. record_floor parse p n)"
      by (rule triple_bind [where Q = "\<lambda>x f. has p d f \<and> check (Some st) = Inr x", OF triple_lift triple_assume])
         (auto intro: fl k)
    then show ?case by (intro triple_assume) auto
  qed
qed

end

end
