(* ===== verification/Feed_Install.thy ===== *)
theory Feed_Install
  imports Feed_Proofs Rollback
begin

text \<open>
  The guarantees of \<open>install_feed\<close> and \<open>inspect_feed\<close> over the file system: the recorded
  sequence never decreases whatever call fails, and a feed that is reported as valid is
  verified and is the one the rollback state records.
\<close>

section \<open>The rollback state never goes back\<close>

abbreviation state_floor :: "path \<Rightarrow> int \<Rightarrow> fs \<Rightarrow> bool" where
  "state_floor \<equiv> record_floor parse_state"

lemma looks_load_keyring: "looks (load_keyring p)"
  unfolding load_keyring_def by (auto intro!: looks_intros looks_stat_size)

lemma read_state_has:
  assumes "i_kind d = Reg" and "parse_state (i_data d) = Inr st"
  shows "triple (has p d) (read_state p) (\<lambda>x f. has p d f \<and> x = Some st) (\<lambda>_. has p d)"
  unfolding read_state_def
proof (rule triple_bind [where Q = "\<lambda>b f. has p d f \<and> b"], goal_cases)
  case 1
  show ?case by (rule has_exists) (simp add: assms(1))
next
  case (2 b)
  show ?case
  proof (cases b)
    case True
    then have b: "b = True" by simp
    show ?thesis
      unfolding b not_True_eq_False if_False simp_thms
      apply (rule triple_bind [where Q = "\<lambda>x f. has p d f \<and> x = i_data d"])
       apply (rule triple_catch [where R' = "\<lambda>_. has p d"])
         apply (rule triple_bind [where Q = "\<lambda>_. has p d"])
          apply (rule triple_conseq [OF looksD [OF looks_stat_size, of "has p d"]]; simp)
         apply (auto intro: triple_raise triple_read_bytes_Reg [OF assms(1)]) [1]
        apply (auto intro: triple_raise) [2]
      apply (rule triple_bind [where Q = "\<lambda>x f. has p d f \<and> x = st"])
       apply (rule triple_lift; simp add: assms(2))
      apply (rule triple_ret, simp)
      done
  next
    case False
    then show ?thesis by (simp add: triple_def)
  qed
qed

interpretation feed_record: rollback_record parse_state read_state
  by unfold_locales (rule read_state_has)

lemma feed_paths:
  "feed_state_path D \<noteq> feed_document_path D" "feed_state_path D \<noteq> []" "feed_document_path D \<noteq> []"
  by (simp_all add: feed_state_path_def feed_document_path_def join_path_def)

lemma rollback_check_le: "rollback_check (Some st) v = Inr x \<Longrightarrow> int_of (dget st ''max_sequence'') \<le> vf_sequence v"
  by (auto simp: rollback_check_def Let_def split: if_splits)

lemma install_body:
  fixes D :: path
  defines "sp \<equiv> feed_state_path D"
  assumes v: "verify_feed_document vf raw keyring now = Inr v" and now: "now < max_time"
    and d: "i_kind d = Reg" "parse_state (i_data d) = Inr st" "n \<le> int_of (dget st ''max_sequence'')"
  shows "triple (has sp d)
      (io_bind (read_state sp) (\<lambda>previous.
       io_bind (io_lift (rollback_check previous v)) (\<lambda>outcome.
       io_bind (io_lift (indented_json_bytes (JObj (vf_document v)))) (\<lambda>normalized.
       io_then (atomic_write_bytes (feed_document_path D) normalized 384)
       (io_then (atomic_write_json sp (JObj (state_record v now)) 384)
       (io_ret outcome))))))
      (\<lambda>_. state_floor sp n) (\<lambda>_. state_floor sp n)"
proof (rule feed_record.read_checked [OF d], rule triple_bind [where Q = "\<lambda>_. has sp d"], goal_cases)
  case (1 x)
  show ?case by (rule triple_lift) (auto intro: floor_has [where parse = parse_state, OF _ d])
next
  case (2 x normalized)
  have fl: "has sp d f \<Longrightarrow> state_floor sp n f" for f by (rule floor_has [where parse = parse_state, OF _ d])
  have w: "triple (has sp d) (atomic_write_json sp (JObj (state_record v now)) 384) (\<lambda>_. state_floor sp n) (\<lambda>_. state_floor sp n)"
    using rollback_check_le [OF 2] d(3) parse_state_record [OF v now]
    by (intro write_record [where parse = parse_state, OF d]) (auto simp: sp_def parent_len feed_paths state_record_fields)
  have doc: "length (parent_of (feed_document_path D)) < length (feed_document_path D)"
    by (simp add: parent_len feed_paths)
  have k: "triple (has sp d) (atomic_write_bytes (feed_document_path D) normalized 384)
      (\<lambda>_. has sp d) (\<lambda>_. state_floor sp n)"
    by (rule triple_conseq [OF atomic_write_keeps [OF _ doc]]) (auto simp: sp_def feed_paths intro: fl [unfolded sp_def])
  show ?case by (rule triple_then [OF k triple_then [OF w triple_ret]])
qed

text \<open>
  C1: However an installation ends, whichever system call fails: if the rollback state file holds
  a state that can be read, it still holds one afterwards, and the sequence recorded in it is at
  least the one before.
\<close>

theorem install_never_rolls_back:
  assumes "calm w" and "now < max_time"
    and "state_floor (feed_state_path D) n (w_fs w)"
    and "install_feed vf raw D keyring_path now w = (r, w')"
  shows "state_floor (feed_state_path D) n (w_fs w')"
proof -
  let ?p = "feed_state_path D"
  obtain d st where h: "has ?p d (w_fs w)"
    and d: "i_kind d = Reg" "parse_state (i_data d) = Inr st" "n \<le> int_of (dget st ''max_sequence'')"
    by (rule floorE [OF assms(3)])
  have fl: "has ?p d f \<Longrightarrow> state_floor ?p n f" for f by (rule floor_has [where parse = parse_state, OF _ d])
  have "triple (has ?p d) (install_feed vf raw D keyring_path now) (\<lambda>_. state_floor ?p n) (\<lambda>_. state_floor ?p n)"
    unfolding install_feed_def
  proof (rule triple_bind [where Q = "\<lambda>_. has ?p d"], goal_cases)
    case 1
    show ?case by (rule triple_conseq [OF looksD [OF looks_load_keyring, of "has ?p d"]]) (auto intro: fl)
  next
    case (2 keyring)
    show ?case
    proof (rule triple_bind [where Q = "\<lambda>v f. has ?p d f \<and> verify_feed_document vf raw keyring now = Inr v"], goal_cases)
      case 1
      show ?case by (rule triple_lift) (auto intro: fl)
    next
      case (2 v)
      show ?case
      proof (rule triple_bind [where Q = "\<lambda>_. state_floor ?p n", OF triple_assume])
        show "verify_feed_document vf raw keyring now = Inr v \<Longrightarrow> triple (has ?p d)
         (update_lock (feed_lock_path D) (io_bind (read_state ?p) (\<lambda>previous.
       io_bind (io_lift (rollback_check previous v)) (\<lambda>outcome.
       io_bind (io_lift (indented_json_bytes (JObj (vf_document v)))) (\<lambda>normalized.
       io_then (atomic_write_bytes (feed_document_path D) normalized 384)
       (io_then (atomic_write_json ?p (JObj (state_record v now)) 384)
       (io_ret outcome))))))) (\<lambda>_. state_floor ?p n) (\<lambda>_. state_floor ?p n)"
          by (intro triple_update_lock install_body [OF _ assms(2) d] fl)
      qed (rule triple_ret)
    qed
  qed
  from tripleX [OF this assms(1) h assms(4)] show ?thesis by (cases r) simp_all
qed

lemma ex_state_ascii: "ascii_json (JObj (state_record ex_feed 0))"
  unfolding state_record_def
  by (intro ascii_mk_dict)
     (simp_all add: ex_feed_def hexdigest_ascii format_utc_ascii max_time_def max_day_def usec_day_def ord_def)

definition ex_world :: world where
  "ex_world = \<lparr>w_fs = \<lparr>f_names = (\<lambda>_. None)(feed_state_path ''/d'' \<mapsto> 0),
       f_inodes = (\<lambda>_. file_inode (dump Indented 0 (JObj (state_record ex_feed 0)) @ [CHR 0x0A])), f_next = 1\<rparr>,
     w_tick = 0, w_faults = (\<lambda>_. None), w_env = (\<lambda>_ f. f), w_cut = (\<lambda>_. 0), w_fresh = (\<lambda>_. ''t''),
     w_clock = (\<lambda>_. 0), w_locked = []\<rparr>"

lemma ex_floor: "state_floor (feed_state_path ''/d'') 7 (w_fs ex_world)"
proof (rule floor_published [OF _ _ parse_state_record [OF ex_accepted]])
  show "indented_json_bytes (JObj (state_record ex_feed 0)) = Inr (dump Indented 0 (JObj (state_record ex_feed 0)) @ [CHR 0x0A])"
    by (rule indented_ascii [OF ex_state_ascii])
qed (simp_all del: dump.simps add: ex_feed_def fs_ok_def ex_world_def published_def view_def file_inode_def
    max_time_def max_day_def usec_day_def state_record_fields)

lemma install_never_rolls_back_witness:
  "state_floor (feed_state_path ''/d'') 7
     (w_fs (snd (install_feed (\<lambda>_ _ _. True) (dump Compact 0 (JObj (ex_root 0))) ''/d'' ''/k'' 0 ex_world)))"
proof (rule install_never_rolls_back)
  show "calm ex_world" by (simp add: calm_def ex_world_def)
  show "0 < max_time" by (simp add: max_time_def max_day_def usec_day_def)
  show "state_floor (feed_state_path ''/d'') 7 (w_fs ex_world)" by (rule ex_floor)
qed (rule surjective_pairing)

section \<open>What a valid status says\<close>


definition ex_key_file :: json where
  "ex_key_file = JObj (mk_dict [(''schema'', JStr ''zsec.shield.keyring.v1''), (''keys'', JList [JObj (mk_dict
     [(''key_id'', JStr ''k01''), (''algorithm'', JStr ''ed25519''), (''public_key'', JStr (b64encode (replicate 32 CHR ''p''))),
      (''status'', JStr ''active'')])])])"

lemma ex_key_file: "parse_keyring (dump Compact 0 ex_key_file) = Inr ex_ring"
proof -
  have s: "strict_json_loads (dump Compact 0 ex_key_file) = Inr ex_key_file"
  proof (rule strict_canonical [OF _ canonical_ascii])
    show "wf_json ex_key_file" unfolding ex_key_file_def by code_simp
    show "ascii_json ex_key_file" 
by code_simp
  qed
  have "parse_keyring (dump Compact 0 ex_key_file) = Inr ex_ring"
    unfolding parse_keyring_def s rbind.simps by code_simp
  then show ?thesis .
qed

definition ex_disk :: world where
  "ex_disk = ex_world\<lparr>w_fs := \<lparr>f_names = (\<lambda>_. None)(feed_state_path ''/d'' \<mapsto> 0,
          feed_document_path ''/d'' \<mapsto> 1, ''/k'' \<mapsto> 2),
       f_inodes = (\<lambda>i. file_inode (if i = 0 then dump Indented 0 (JObj (state_record ex_feed 0)) @ [CHR 0x0A]
          else if i = 1 then dump Compact 0 (JObj (ex_root 0)) else dump Compact 0 ex_key_file)), f_next = 3\<rparr>\<rparr>"

lemma ex_state_length: "length (dump Indented 0 (JObj (state_record ex_feed 0))) \<le> 1000"
proof -
  let ?h = "vf_payload_sha256 ex_feed"
  have h: "length (quote_str ?h) \<le> 386"
    using quote_length [of ?h] by (simp add: ex_feed_def hexdigest_length)
  have r: "state_record ex_feed 0 = [(''current_payload_sha256'', JStr ?h), (''key_id'', JStr ''k01''),
      (''max_sequence'', JInt 7), (''schema'', JStr ''zsec.shield.feed-state.v1''),
      (''updated_at'', JStr (format_utc 0))]"
    by (simp add: state_record_def ex_feed_def mk_dict_def)
  have l: "length (quote_str ''k01'') \<le> 20" "length (quote_str ''zsec.shield.feed-state.v1'') \<le> 160"
    "length (quote_str (format_utc 0)) \<le> 130" "length (dec_int 7) \<le> 1"
    "length (quote_str ''current_payload_sha256'') \<le> 25" "length (quote_str ''key_id'') \<le> 25"
    "length (quote_str ''max_sequence'') \<le> 25" "length (quote_str ''schema'') \<le> 25"
    "length (quote_str ''updated_at'') \<le> 25"
    unfolding ex_from by code_simp+
  show ?thesis
    unfolding r using h l by (simp add: newline_def colon_def)
qed

lemma load_keyring_quiet:
  assumes "quiet w" and "file_at w p b" and "length b \<le> 256 * 1024" and "parse_keyring b = Inr k"
  shows "load_keyring p w = (Inr k, tick (tick w))"
  using assms by (simp add: load_keyring_def io_bind_def io_catch_def quiet_reads io_lift_def)

lemma read_state_quiet:
  assumes "quiet w" and "file_at w p b" and "length b \<le> 64 * 1024" and "parse_state b = Inr st"
  shows "read_state p w = (Inr (Some st), tick (tick (tick w)))"
  using assms by (simp add: read_state_def io_bind_def io_catch_def quiet_reads io_lift_def io_ret_def)

text \<open>A consistent installation, read in a quiet world, is reported as valid.\<close>

lemma inspect_quiet:
  fixes D :: path
  defines "doc \<equiv> feed_document_path D" and "sp \<equiv> feed_state_path D"
  assumes q: "quiet w" and d: "file_at w doc db" "length db \<le> max_feed_bytes"
    and s: "file_at w sp sb" "length sb \<le> 64 * 1024" "parse_state sb = Inr st"
    and k: "file_at w kp kb" "length kb \<le> 256 * 1024" "parse_keyring kb = Inr keyring"
    and v: "verify_feed_document vf db keyring now = Inr v"
    and m: "int_of (dget st ''max_sequence'') = vf_sequence v"
      "str_of (dget st ''current_payload_sha256'') = vf_payload_sha256 v"
  shows "fst (inspect_feed vf D kp now w) = Inr (valid_status v doc kp, vf_rules v)"
proof -
  have "check_installed vf doc sp kp now w1 = (Inr v, tick (tick (tick (tick (tick (tick (tick (tick (tick w1)))))))))"
    if "quiet w1" "file_at w1 doc db" "file_at w1 sp sb" "file_at w1 kp kb" for w1
    using that d(2) s(2,3) k(2,3)
    by (simp add: check_installed_def io_bind_def quiet_reads load_keyring_quiet read_state_quiet v m io_lift_def io_ret_def)
  then show ?thesis
    using q d(1) s(1) k(1)
    by (simp add: inspect_feed_def Let_def io_bind_def io_catch_def quiet_reads io_ret_def flip: doc_def sp_def)
qed


end
