(* ===== verification/Atomic_Write.thy ===== *)
theory Atomic_Write
  imports World_Logic
begin

text \<open>
  The contract of \<open>atomic_write_bytes\<close> (\<^verbatim>\<open>src/zsec_shield/util.py\<close>), stated over worlds: all or
  nothing under any failure, and success when nothing fails.
\<close>

definition empty_world :: world where
  "empty_world = \<lparr>w_fs = \<lparr>f_names = (\<lambda>_. None), f_inodes = (\<lambda>_. dir_inode), f_next = 0\<rparr>,
     w_tick = 0, w_faults = (\<lambda>_. None), w_env = (\<lambda>_ f. f), w_cut = (\<lambda>_. 0), w_fresh = (\<lambda>_. ''t''),
     w_clock = (\<lambda>_. 0), w_locked = []\<rparr>"

lemma empty_world_ok: "quiet empty_world" "fs_ok (w_fs empty_world)" "fresh_ok empty_world"
  by (simp_all add: empty_world_def quiet_def fs_ok_def fresh_ok_def view_def)

text \<open>
  C27: Whichever call of an atomic write fails, and also when the process writes only part of the
  data, a reader of the path afterwards finds what was there before or the complete new content;
  success means the new content; every other existing file is unchanged.
\<close>

theorem atomic_write_all_or_nothing:
  assumes "calm w" and "fs_ok (w_fs w)" and "p \<noteq> []"
    and "atomic_write_bytes p data mode w = (r, w')"
  shows "(view (w_fs w') p = view (w_fs w) p \<or> published data (w_fs w') p)
    \<and> (r = Inr () \<longrightarrow> published data (w_fs w') p)
    \<and> (\<forall>q d. q \<noteq> p \<longrightarrow> view (w_fs w) q = Some d \<longrightarrow> view (w_fs w') q = Some d)"
  using tripleX [OF triple_atomic_write [OF parent_len [OF assms(3)], of "w_fs w"] assms(1) _ assms(4)] assms(2)
  by (cases r) (auto simp: settled_def grown_def)

lemma atomic_write_all_or_nothing_witness:
  "view (w_fs (snd (atomic_write_bytes ''/a'' ''x'' 384 empty_world))) ''/a'' = None
   \<or> published ''x'' (w_fs (snd (atomic_write_bytes ''/a'' ''x'' 384 empty_world))) ''/a''"
proof -
  have "view (w_fs empty_world) ''/a'' = None" by (simp add: empty_world_def view_def)
  then show ?thesis
    using atomic_write_all_or_nothing [OF quiet_calm [OF empty_world_ok(1)] empty_world_ok(2) _ surjective_pairing,
        of "''/a''" "''x''" 384]
    by auto
qed

text \<open>
  When no call fails, the directories above the path are directories or absent and the path
  is not a directory, an atomic write returns normally and the path then holds the new content.
\<close>

theorem atomic_write_completes:
  assumes "quiet w" and "fs_ok (w_fs w)" and "fresh_ok w" and "writable (w_fs w) p"
    and "\<forall>q \<in> set (p # ancestors (parent_of p)). fresh_name w q"
  shows "\<exists>w'. atomic_write_bytes p data mode w = (Inr (), w') \<and> published data (w_fs w') p"
proof -
  from assms(4) have l: "length (parent_of p) < length p" by (simp add: writable_def)
  obtain f n where e: "atomic_write_bytes p data mode w = (Inr (), w\<lparr>w_fs := f, w_tick := n\<rparr>)"
    using atomic_write_returns [OF assms(1,2,4,3,5)] by blast
  from tripleD [OF triple_atomic_write [OF l, of "w_fs w"] quiet_calm [OF assms(1)] _ e] assms(2) e
  show ?thesis by auto
qed

lemma atomic_write_completes_witness:
  "\<exists>w'. atomic_write_bytes ''/d/a'' ''x'' 384 empty_world = (Inr (), w') \<and> published ''x'' (w_fs w') ''/d/a''"
proof (rule atomic_write_completes [OF empty_world_ok])
  have a: "parent_of ''/d/a'' = ''/d''" "set (ancestors ''/d'') \<subseteq> {''/d'', ''/'', []}" by code_simp+
  show "writable (w_fs empty_world) ''/d/a''"
    by (simp add: writable_def a view_def empty_world_def)
  have "fresh_name empty_world q" if "q \<in> {''/d/a'', ''/d'', ''/'', []}" for q
    using that by (auto simp: fresh_name_def empty_world_def suffix_def Cons_eq_append_conv)
  with a(2) show "\<forall>q \<in> set (''/d/a'' # ancestors (parent_of ''/d/a'')). fresh_name empty_world q"
    by (auto simp: a(1))
qed

end
