(* ===== verification/Paths.thy ===== *)
theory Paths
  imports World
begin

text \<open>
  \<^verbatim>\<open>src/zsec_shield/paths.py\<close>: where the program keeps its files.  The environment variables, the
  home directory, the name of the platform, the directory of the package's data and
  \<^verbatim>\<open>Path(x).expanduser().absolute()\<close> are arguments.  An empty variable counts as unset, as in the
  code, so the record keeps the text.  The paths of the feed are in the theory \<open>Feed\<close>.
\<close>

record environ =
  ev_shield_home :: string
  ev_keyring :: string
  ev_localappdata :: string
  ev_xdg_state_home :: string
  ev_system :: string
  ev_user_home :: path

definition default_state_dir :: "(string \<Rightarrow> path) \<Rightarrow> environ \<Rightarrow> path" where
  "default_state_dir absolute e =
    (if ev_shield_home e \<noteq> [] then absolute (ev_shield_home e)
     else if ev_system e = ''Windows'' then
       (if ev_localappdata e \<noteq> [] then join_path (join_path (ev_localappdata e) ''ZSEC'') ''Shield''
        else join_path (join_path (join_path (join_path (ev_user_home e) ''AppData'') ''Local'') ''ZSEC'') ''Shield'')
     else if ev_system e = ''Darwin'' then
       join_path (join_path (join_path (ev_user_home e) ''Library'') ''Application Support'') ''ZSEC Shield''
     else if ev_xdg_state_home e \<noteq> [] then join_path (ev_xdg_state_home e) ''zsec-shield''
     else join_path (join_path (join_path (ev_user_home e) ''.local'') ''state'') ''zsec-shield'')"

definition bundled_keyring_path :: "path \<Rightarrow> path" where
  "bundled_keyring_path package = join_path (join_path package ''data'') ''trusted_keys.json''"

definition resolve_keyring_path ::
    "(string \<Rightarrow> path) \<Rightarrow> path \<Rightarrow> environ \<Rightarrow> path \<Rightarrow> string option \<Rightarrow> path io" where
  "resolve_keyring_path absolute package e state_dir explicit =
    (case explicit of Some p \<Rightarrow> io_ret (absolute p)
     | None \<Rightarrow>
       if ev_keyring e \<noteq> [] then io_ret (absolute (ev_keyring e))
       else let lp = join_path state_dir ''trusted_keys.json'' in
         io_bind (path_is_file lp) (\<lambda>there.
           io_ret (if there then lp else bundled_keyring_path package)))"

definition feed_last_known_good_document_path :: "path \<Rightarrow> path" where
  "feed_last_known_good_document_path d = join_path (join_path d ''feed'') ''last-known-good.json''"

definition feed_last_known_good_state_path :: "path \<Rightarrow> path" where
  "feed_last_known_good_state_path d = join_path (join_path d ''feed'') ''last-known-good-state.json''"

definition automatic_update_status_path :: "path \<Rightarrow> path" where
  "automatic_update_status_path d = join_path (join_path d ''feed'') ''automatic-update-status.json''"

definition application_update_status_path :: "path \<Rightarrow> path" where
  "application_update_status_path d = join_path (join_path d ''application-update'') ''status.json''"

definition application_update_notice_path :: "path \<Rightarrow> path" where
  "application_update_notice_path d = join_path (join_path d ''application-update'') ''current.json''"

definition application_update_state_path :: "path \<Rightarrow> path" where
  "application_update_state_path d = join_path (join_path d ''application-update'') ''state.json''"

definition intelligence_document_path :: "path \<Rightarrow> path" where
  "intelligence_document_path d = join_path (join_path d ''intelligence'') ''current.json''"

definition intelligence_envelope_path :: "path \<Rightarrow> path" where
  "intelligence_envelope_path d = join_path (join_path d ''intelligence'') ''current-envelope.json''"

definition intelligence_state_path :: "path \<Rightarrow> path" where
  "intelligence_state_path d = join_path (join_path d ''intelligence'') ''state.json''"

definition intelligence_last_known_good_path :: "path \<Rightarrow> path" where
  "intelligence_last_known_good_path d = join_path (join_path d ''intelligence'') ''last-known-good-envelope.json''"

definition quarantine_entries_dir :: "path \<Rightarrow> path" where
  "quarantine_entries_dir d = join_path (join_path d ''quarantine'') ''entries''"

end
