(* ===== verification/Ospath.thy ===== *)
theory Ospath
  imports World
begin

text \<open>
  The part of \<^verbatim>\<open>os.path\<close> the program computes with, on a POSIX system: \<open>normpath\<close>, \<open>abspath\<close>
  and the test \<^verbatim>\<open>commonpath((a, b)) == b\<close>.
\<close>

text \<open>The components of \<open>normpath\<close>, kept in reverse.\<close>

fun norm_comps :: "bool \<Rightarrow> string list \<Rightarrow> string list \<Rightarrow> string list" where
  "norm_comps rooted acc [] = rev acc"
| "norm_comps rooted acc (c # cs) =
    (if c = [] \<or> c = ''.'' then norm_comps rooted acc cs
     else if c \<noteq> ''..'' \<or> (\<not> rooted \<and> acc = []) \<or> (acc \<noteq> [] \<and> hd acc = ''..'') then norm_comps rooted (c # acc) cs
     else norm_comps rooted (tl acc) cs)"

definition initial_slashes :: "path \<Rightarrow> nat" where
  "initial_slashes p =
    (if \<not> prefix ''/'' p then 0 else if prefix ''//'' p \<and> \<not> prefix ''///'' p then 2 else 1)"

definition normpath :: "path \<Rightarrow> path" where
  "normpath p =
    (if p = [] then ''.''
     else let n = initial_slashes p;
              q = replicate n (CHR ''/'') @ join_with ''/'' (norm_comps (0 < n) [] (split_on (CHR ''/'') p))
          in if q = [] then ''.'' else q)"

definition abspath :: "path \<Rightarrow> path \<Rightarrow> path" where
  "abspath cwd p = normpath (if prefix ''/'' p then p else if p = [] then cwd
     else if ends_with cwd ''/'' then cwd @ p else join_path cwd p)"

fun common :: "'a list \<Rightarrow> 'a list \<Rightarrow> 'a list" where
  "common (a # as) (b # bs) = (if a = b then a # common as bs else [])"
| "common _ _ = []"

definition path_comps :: "path \<Rightarrow> string list" where
  "path_comps p = filter (\<lambda>c. c \<noteq> [] \<and> c \<noteq> ''.'') (split_on (CHR ''/'') p)"

text \<open>\<open>commonpath\<close> of two paths; \<open>None\<close> is the \<^verbatim>\<open>ValueError\<close> of an absolute and a relative one.\<close>

definition commonpath2 :: "path \<Rightarrow> path \<Rightarrow> path option" where
  "commonpath2 a b =
    (if prefix ''/'' a \<noteq> prefix ''/'' b then None
     else Some ((if prefix ''/'' a then ''/'' else []) @ join_with ''/'' (common (path_comps a) (path_comps b))))"

text \<open>\<open>a\<close> is \<open>b\<close> or lies below it.\<close>

definition under :: "path \<Rightarrow> path \<Rightarrow> bool" where
  "under a b = (commonpath2 a b = Some b)"

text \<open>The path of an entry of a directory, as \<^verbatim>\<open>os.scandir\<close> reports it.\<close>

definition entry_path :: "path \<Rightarrow> string \<Rightarrow> path" where
  "entry_path d n = (if ends_with d ''/'' then d @ n else join_path d n)"

end
