(* ===== verification/Content.thy ===== *)
theory Content
  imports Json
begin

text \<open>
  \<^verbatim>\<open>src/zsec_shield/content_inspection.py\<close>: the review-only providers for PE files, scripts and
  ZIP archives.  An observation is the dictionary the code builds.  Reading past the end of the
  data (\<^verbatim>\<open>struct.error\<close>) is the value \<open>None\<close> of the readers.  The entropy test is stated in exact
  integer arithmetic instead of floating point, and the quotient of two sizes compares as the
  correctly rounded quotient of the code does.  The reading of a ZIP directory by the standard
  library is the argument \<open>zf\<close>: the name of the exception it raises, or the entries.
\<close>

definition max_inspection_bytes :: nat where "max_inspection_bytes = 16 * 1024 * 1024"

definition max_observations :: nat where "max_observations = 32"

definition observe :: "string \<Rightarrow> string \<Rightarrow> string \<Rightarrow> string \<Rightarrow> (string \<times> json) list \<Rightarrow> dict" where
  "observe provider category severity summary evidence = mk_dict
    [(''provider'', JStr provider), (''category'', JStr category), (''severity'', JStr severity),
     (''summary'', JStr (py_take 300 summary)), (''evidence'', JObj (mk_dict evidence)),
     (''quarantine_eligible'', JBool False)]"

text \<open>
  \<^verbatim>\<open>_entropy(value) >= 7.6\<close>: with the counts \<open>c\<close> of the bytes and \<open>n = len(value)\<close> the sum of
  \<open>c / n * log2 (n / c)\<close> is at least \<open>38 / 5\<close> exactly when the product below is at most
  \<open>n ^ (5 * n)\<close>.
\<close>

definition high_entropy :: "string \<Rightarrow> bool" where
  "high_entropy s =
    (let n = length s
     in 2 ^ (38 * n) * prod_list (map (\<lambda>c. (count_list s c) ^ (5 * count_list s c)) (remdups s)) \<le> n ^ (5 * n))"

section \<open>PE files\<close>

fun le_val :: "string \<Rightarrow> nat" where
  "le_val [] = 0"
| "le_val (c # cs) = ord c + 256 * le_val cs"

definition unpack :: "nat \<Rightarrow> string \<Rightarrow> nat \<Rightarrow> nat option" where
  "unpack n value offset =
    (if offset + n \<le> length value then Some (le_val (take n (drop offset value))) else None)"

definition bit_set :: "nat \<Rightarrow> nat \<Rightarrow> bool" where
  "bit_set k n = odd (n div 2 ^ k)"

definition ascii_replace :: "string \<Rightarrow> string" where
  "ascii_replace s = concat (map (\<lambda>c. if ord c < 128 then [c] else [CHR 0xEF, CHR 0xBF, CHR 0xBD]) s)"

definition section_name :: "string \<Rightarrow> nat \<Rightarrow> nat \<Rightarrow> string" where
  "section_name value offset index =
    (let raw = takeWhile (\<lambda>c. c \<noteq> CHR 0x00) (take 8 (drop offset value));
         name = py_take 16 (ascii_replace raw)
     in if name = [] then ''section-'' @ dec_nat index else name)"

definition pe_section :: "string \<Rightarrow> nat \<Rightarrow> nat \<Rightarrow> string list \<times> string list \<Rightarrow> (string list \<times> string list) option" where
  "pe_section value section_table index acc =
    (let offset = section_table + index * 40; name = section_name value offset index in
     Option.bind (unpack 4 value (offset + 16)) (\<lambda>raw_size.
     Option.bind (unpack 4 value (offset + 20)) (\<lambda>raw_offset.
     Option.bind (unpack 4 value (offset + 36)) (\<lambda>flags.
       let wx = (if bit_set 29 flags \<and> bit_set 31 flags then fst acc @ [name] else fst acc);
           sample = take raw_size (drop raw_offset value);
           high = (if raw_size \<noteq> 0 \<and> raw_offset < length value \<and> 4096 \<le> length sample \<and> high_entropy sample
                   then snd acc @ [name] else snd acc)
       in Some (wx, high)))))"

fun pe_sections :: "string \<Rightarrow> nat \<Rightarrow> nat list \<Rightarrow> string list \<times> string list \<Rightarrow> (string list \<times> string list) option" where
  "pe_sections value section_table [] acc = Some acc"
| "pe_sections value section_table (i # is) acc =
     Option.bind (pe_section value section_table i acc) (pe_sections value section_table is)"

definition certificate_present :: "string \<Rightarrow> nat \<Rightarrow> nat \<Rightarrow> nat \<Rightarrow> bool option" where
  "certificate_present value declared_size optional optional_size =
    Option.bind (if 2 \<le> optional_size then unpack 2 value optional else Some 0) (\<lambda>magic.
      let plus = (magic = 0x20B);
          count_offset = optional + (if plus then 108 else 92);
          directory_offset = optional + (if plus then 112 else 96);
          minimum = (if plus then 128 else 112 :: nat)
      in if minimum \<le> optional_size \<and> count_offset + 4 \<le> length value then
           Option.bind (unpack 4 value count_offset) (\<lambda>directory_count.
             let entry = directory_offset + 4 * 8
             in if 4 < directory_count \<and> entry + 8 \<le> optional + optional_size then
                  Option.bind (unpack 4 value entry) (\<lambda>certificate_offset.
                  Option.bind (unpack 4 value (entry + 4)) (\<lambda>certificate_size.
                    Some (0 < certificate_offset \<and> 8 \<le> certificate_size
                          \<and> certificate_offset + certificate_size \<le> declared_size)))
                else Some False)
         else Some False)"

definition pe_observations :: "nat \<Rightarrow> nat \<Rightarrow> nat \<Rightarrow> nat \<Rightarrow> bool \<Rightarrow> string list \<Rightarrow> string list \<Rightarrow> dict list" where
  "pe_observations machine section_count timestamp characteristics certificate wx high =
    [observe ''pe'' ''metadata'' ''info'' ''Portable Executable metadata inspected''
      [(''machine'', JStr (''0x'' @ hex4 machine)), (''sections'', JInt (int section_count)),
       (''timestamp'', JInt (int timestamp)), (''characteristics'', JStr (''0x'' @ hex4 characteristics)),
       (''certificate_table_present'', JBool certificate)]]
    @ (if wx \<noteq> [] then [observe ''pe'' ''writable_executable_sections'' ''medium''
          ''PE contains writable and executable sections'' [(''sections'', JStr (join_with '','' (take 8 wx)))]]
       else [])
    @ (if high \<noteq> [] then [observe ''pe'' ''high_entropy_sections'' ''low''
          ''PE contains high-entropy section data; packed or compressed content is possible''
          [(''sections'', JStr (join_with '','' (take 8 high)))]]
       else [])"

definition pe_report :: "string \<Rightarrow> nat \<Rightarrow> dict list option" where
  "pe_report value declared_size =
    Option.bind (unpack 4 value 60) (\<lambda>pe.
    if length value - 24 < pe \<or> take 4 (drop pe value) \<noteq> ''PE'' @ [CHR 0x00, CHR 0x00] then
      Some [observe ''pe'' ''malformed_pe'' ''medium'' ''Malformed PE header'' []]
    else
    Option.bind (unpack 2 value (pe + 4)) (\<lambda>machine.
    Option.bind (unpack 2 value (pe + 6)) (\<lambda>section_count.
    Option.bind (unpack 4 value (pe + 8)) (\<lambda>timestamp.
    Option.bind (unpack 2 value (pe + 20)) (\<lambda>optional_size.
    Option.bind (unpack 2 value (pe + 22)) (\<lambda>characteristics.
    if section_count < 1 \<or> 96 < section_count then
      Some [observe ''pe'' ''malformed_pe'' ''medium'' ''PE section count is outside the bounded policy''
        [(''section_count'', JInt (int section_count))]]
    else let optional = pe + 24; section_table = optional + optional_size in
    if length value < section_table + section_count * 40 then
      Some [observe ''pe'' ''analysis_limited'' ''info''
        ''PE metadata extends beyond the bounded inspection window'' []]
    else
    Option.bind (certificate_present value declared_size optional optional_size) (\<lambda>certificate.
    Option.bind (pe_sections value section_table [0..<section_count] ([], [])) (\<lambda>(wx, high).
      Some (pe_observations machine section_count timestamp characteristics certificate wx high)))))))))"

definition inspect_pe :: "string \<Rightarrow> nat \<Rightarrow> dict list" where
  "inspect_pe value declared_size =
    (if length value < 64 \<or> take 2 value \<noteq> ''MZ'' then []
     else case pe_report value declared_size of
         None \<Rightarrow> [observe ''pe'' ''malformed_pe'' ''medium'' ''Malformed PE metadata'' []]
       | Some obs \<Rightarrow> obs)"

section \<open>Scripts\<close>

text \<open>
  The patterns are alternatives of plain words, searched without regard to case; \<^verbatim>\<open>\b\<close> is a
  change between a word character and another or the end.
\<close>

definition is_word :: "char \<Rightarrow> bool" where
  "is_word c = (is_digit c \<or> 65 \<le> ord c \<and> ord c \<le> 90 \<or> 97 \<le> ord c \<and> ord c \<le> 122 \<or> c = CHR ''_'')"

definition word_ends :: "string \<Rightarrow> bool" where
  "word_ends rest = (case rest of [] \<Rightarrow> True | c # _ \<Rightarrow> \<not> is_word c)"

definition any_word :: "string list \<Rightarrow> string \<Rightarrow> bool" where
  "any_word ws text = list_ex (\<lambda>w. infixb w text) ws"

text \<open>A word followed by a boundary, and one with boundaries on both sides; the word ends in a
  word character.\<close>

fun word_then_end :: "string \<Rightarrow> string \<Rightarrow> bool" where
  "word_then_end w [] = False"
| "word_then_end w (c # cs) =
     (prefix w (c # cs) \<and> word_ends (drop (length w) (c # cs)) \<or> word_then_end w cs)"

fun isolated_word :: "bool \<Rightarrow> string \<Rightarrow> string \<Rightarrow> bool" where
  "isolated_word after_word w [] = False"
| "isolated_word after_word w (c # cs) =
     (\<not> after_word \<and> prefix w (c # cs) \<and> word_ends (drop (length w) (c # cs))
      \<or> isolated_word (is_word c) w cs)"

definition download_pattern :: "string \<Rightarrow> bool" where
  "download_pattern text = any_word [''downloadstring'', ''downloadfile'', ''invoke-webrequest'',
     ''start-bitstransfer'', ''urlmon'', ''http://'', ''https://''] text"

definition execute_pattern :: "string \<Rightarrow> bool" where
  "execute_pattern text =
    (any_word [''invoke-expression'', ''start-process'', ''wscript.shell'', ''shell.application'',
       ''rundll32'', ''regsvr32''] text
     \<or> isolated_word False ''iex'' text)"

definition encoded_pattern :: "string \<Rightarrow> bool" where
  "encoded_pattern text =
    (word_then_end ''-enc'' text \<or> word_then_end ''-encodedcommand'' text \<or> infixb ''frombase64string'' text)"

definition injection_words :: "string list" where
  "injection_words = [''virtualallocex'', ''virtualalloc'', ''writeprocessmemory'', ''createremotethread'',
     ''ntunmapviewofsection'']"

text \<open>\<^verbatim>\<open>finditer\<close>: the matches from left to right, none overlapping another.\<close>

fun injection_matches :: "nat \<Rightarrow> string \<Rightarrow> string list" where
  "injection_matches skip [] = []"
| "injection_matches (Suc skip) (c # cs) = injection_matches skip cs"
| "injection_matches 0 (c # cs) =
     (case find (\<lambda>w. prefix w (c # cs)) injection_words of
        Some w \<Rightarrow> w # injection_matches (length w - 1) cs
      | None \<Rightarrow> injection_matches 0 cs)"

definition script_markers :: "string list" where
  "script_markers = [''powershell'', ''param('', ''#!/bin/'', ''function '', ''createobject('']"

definition inspect_script :: "string \<Rightarrow> dict list" where
  "inspect_script value =
    (let sample = take (1024 * 1024) value in
     if infixb [CHR 0x00] (take 4096 sample) \<and> \<not> prefix [CHR 0xFF, CHR 0xFE] sample
        \<and> \<not> prefix [CHR 0xFE, CHR 0xFF] sample then []
     else let lowered = lower sample in
     if \<not> any_word script_markers lowered then []
     else let hits = remdups (injection_matches 0 lowered) in
       (if download_pattern lowered \<and> execute_pattern lowered then
          [observe ''script'' ''download_execute_chain'' ''high''
             ''Script combines network retrieval with an execution primitive'' []] else [])
       @ (if encoded_pattern lowered \<and> (infixb ''powershell'' lowered \<or> infixb ''frombase64string'' lowered) then
          [observe ''script'' ''encoded_execution'' ''medium''
             ''Script contains encoded-command or Base64 execution indicators'' []] else [])
       @ (if 2 \<le> length hits then
          [observe ''script'' ''process_injection_primitives'' ''high''
             ''Script references multiple process-injection primitives''
             [(''primitive_count'', JInt (int (length hits)))]] else []))"

section \<open>Archives\<close>

record zip_entry =
  ze_filename :: string
  ze_file_size :: nat
  ze_compress_size :: nat
  ze_flag_bits :: nat

definition second_is_colon :: "string \<Rightarrow> bool" where
  "second_is_colon s = (s \<noteq> [] \<and> prefix '':'' (dropWhile is_cont (tl s)))"

definition entry_traversal :: "zip_entry \<Rightarrow> bool" where
  "entry_traversal e =
    (let normalized = replace1 (CHR 0x5C) (CHR ''/'') (ze_filename e);
         parts = filter (\<lambda>p. p \<noteq> [] \<and> p \<noteq> ''.'') (split_on (CHR ''/'') normalized)
     in prefix ''/'' normalized \<or> prefix [CHR 0x5C] normalized
        \<or> (2 \<le> py_len normalized \<and> second_is_colon normalized) \<or> ''..'' \<in> set parts)"

definition entry_nested :: "zip_entry \<Rightarrow> bool" where
  "entry_nested e =
    (let name = lower (replace1 (CHR 0x5C) (CHR ''/'') (ze_filename e))
     in list_ex (ends_with name) [''.zip'', ''.jar'', ''.docx'', ''.xlsx'', ''.pptx''])"

text \<open>\<^verbatim>\<open>entry.file_size / max(1, entry.compress_size) > 1000\<close>: 1000 is a double with an even last
  bit, so the rounded quotient exceeds it when the quotient exceeds it by more than half a unit
  in the last place, \<open>2 ^ -44\<close>.\<close>

definition ratio_exceeds :: "nat \<Rightarrow> nat \<Rightarrow> bool" where
  "ratio_exceeds full compressed = (max 1 compressed * (1000 * 2 ^ 44 + 1) < full * 2 ^ 44)"

definition entry_extreme_ratio :: "zip_entry \<Rightarrow> bool" where
  "entry_extreme_ratio e =
    (10 * 1024 * 1024 \<le> ze_file_size e \<and> ratio_exceeds (ze_file_size e) (ze_compress_size e))"

definition count_if :: "('a \<Rightarrow> bool) \<Rightarrow> 'a list \<Rightarrow> nat" where
  "count_if p xs = length (filter p xs)"

definition zip_observations :: "zip_entry list \<Rightarrow> dict list" where
  "zip_observations entries =
    (let total_uncompressed = sum_list (map ze_file_size entries);
         total_compressed = sum_list (map ze_compress_size entries);
         encrypted = count_if (\<lambda>e. bit_set 0 (ze_flag_bits e)) entries;
         traversal = count_if entry_traversal entries;
         nested = count_if entry_nested entries;
         extreme_entry = count_if (\<lambda>e. 1024 * 1024 * 1024 < ze_file_size e) entries;
         extreme_ratio = count_if entry_extreme_ratio entries
     in [observe ''archive'' ''metadata'' ''info'' ''ZIP central-directory metadata inspected without extraction''
          [(''entries'', JInt (int (length entries))), (''total_compressed'', JInt (int total_compressed)),
           (''total_uncompressed'', JInt (int total_uncompressed)), (''encrypted_entries'', JInt (int encrypted)),
           (''nested_archives'', JInt (int nested))]]
        @ (if traversal \<noteq> 0 then [observe ''archive'' ''path_traversal'' ''high''
              ''Archive contains absolute or parent-traversal paths'' [(''affected_entries'', JInt (int traversal))]]
           else [])
        @ (if 4096 < length entries \<or> 4 * 1024 * 1024 * 1024 < total_uncompressed
              \<or> extreme_entry \<noteq> 0 \<or> extreme_ratio \<noteq> 0 then
             [observe ''archive'' ''expansion_risk'' ''high''
              ''Archive metadata exceeds bounded extraction-safety thresholds''
              [(''entries'', JInt (int (length entries))), (''extreme_entries'', JInt (int extreme_entry)),
               (''extreme_ratios'', JInt (int extreme_ratio)), (''total_uncompressed'', JInt (int total_uncompressed))]]
           else [])
        @ (if encrypted \<noteq> 0 then [observe ''archive'' ''encrypted_entries'' ''low''
              ''Archive contains encrypted entries that were not content-inspected''
              [(''encrypted_entries'', JInt (int encrypted))]]
           else []))"

type_synonym zip_reader = "string \<Rightarrow> string + zip_entry list"

definition inspect_zip :: "zip_reader \<Rightarrow> string \<Rightarrow> nat \<Rightarrow> dict list" where
  "inspect_zip zf value declared_size =
    (if \<not> (prefix [CHR ''P'', CHR ''K'', CHR 0x03, CHR 0x04] value
            \<or> prefix [CHR ''P'', CHR ''K'', CHR 0x05, CHR 0x06] value
            \<or> prefix [CHR ''P'', CHR ''K'', CHR 0x07, CHR 0x08] value) then []
     else if max_inspection_bytes < declared_size then
       [observe ''archive'' ''analysis_limited'' ''info''
          ''ZIP exceeds the bounded in-memory metadata inspection limit''
          [(''declared_size'', JInt (int declared_size)), (''inspection_limit'', JInt (int max_inspection_bytes))]]
     else case zf value of
         Inl error_name \<Rightarrow> [observe ''archive'' ''malformed_archive'' ''medium''
             ''ZIP metadata could not be parsed safely'' [(''error'', JStr error_name)]]
       | Inr entries \<Rightarrow> zip_observations entries)"

definition inspect_content :: "zip_reader \<Rightarrow> string \<Rightarrow> nat \<Rightarrow> dict list" where
  "inspect_content zf value declared_size =
    take max_observations (inspect_pe value declared_size @ inspect_script value @ inspect_zip zf value declared_size)"

end
