(* ===== verification/Stream_Match.thy ===== *)
theory Stream_Match
  imports Prelude
begin

text \<open>
  Literal rules over a stream of chunks, as \<^verbatim>\<open>_scan_file\<close> of \<^verbatim>\<open>src/zsec_shield/scanner.py\<close> and
  \<^verbatim>\<open>_scan_stream\<close> of \<^verbatim>\<open>src/zsec_shield/scan_worker.py\<close> both search for them: every chunk is
  searched together with a tail of the bytes before it that is one byte shorter than the longest
  literal.  The result is the same as searching the whole content at once.
\<close>

type_synonym literals = "(string \<times> string) list"

definition maximum_literal :: "literals \<Rightarrow> nat" where
  "maximum_literal rules = py_max (map (length \<circ> snd) rules) 0"

fun match_window :: "literals \<Rightarrow> string \<Rightarrow> string list \<Rightarrow> string list" where
  "match_window [] window ms = ms"
| "match_window ((i, lit) # rules) window ms =
     match_window rules window (if i \<notin> set ms \<and> infixb lit window then ms @ [i] else ms)"

text \<open>\<^verbatim>\<open>window[-(n):]\<close> for a positive \<open>n\<close>.\<close>

definition last_n :: "nat \<Rightarrow> 'a list \<Rightarrow> 'a list" where
  "last_n n xs = drop (length xs - n) xs"

definition match_chunk :: "literals \<Rightarrow> string \<Rightarrow> string \<times> string list \<Rightarrow> string \<times> string list" where
  "match_chunk rules chunk st =
    (let window = fst st @ chunk; m = maximum_literal rules
     in (if 1 < m then last_n (m - 1) window else fst st, match_window rules window (snd st)))"

lemma set_match_window:
  "set (match_window rules window ms) = set ms \<union> {i. \<exists>lit. (i, lit) \<in> set rules \<and> infixb lit window}"
  by (induction rules window ms rule: match_window.induct) auto

lemma distinct_match_window: "distinct ms \<Longrightarrow> distinct (match_window rules window ms)"
  by (induction rules window ms rule: match_window.induct) auto

lemma last_n_last_n: "last_n n (last_n n xs @ ys) = last_n n (xs @ ys)"
proof (cases "length xs \<le> n")
  case False
  have "drop (length xs - n) xs @ ys = drop (length xs - n) (xs @ ys)" by simp
  moreover have "length xs + length ys - (length xs - n) - n + (length xs - n) = length xs + length ys - n"
    using False by simp
  ultimately show ?thesis by (simp only: last_n_def length_drop length_append drop_drop)
qed (simp add: last_n_def)

lemma last_n_0: "last_n 0 xs = []"
  by (simp add: last_n_def)

lemma literal_le_maximum: "(i, lit) \<in> set rules \<Longrightarrow> length lit \<le> maximum_literal rules"
  unfolding maximum_literal_def by (rule py_max_ge) (force simp: image_iff)

definition found :: "literals \<Rightarrow> string \<Rightarrow> string set" where
  "found rules content = {i. \<exists>lit. (i, lit) \<in> set rules \<and> infixb lit content}"

definition stream_inv :: "literals \<Rightarrow> string \<Rightarrow> string \<times> string list \<Rightarrow> bool" where
  "stream_inv rules content st =
    (fst st = last_n (maximum_literal rules - 1) content \<and> distinct (snd st) \<and> set (snd st) = found rules content)"

lemma match_chunk_inv:
  assumes "stream_inv rules content st" and ne: "\<forall>(i, lit) \<in> set rules. lit \<noteq> []"
  shows "stream_inv rules (content @ chunk) (match_chunk rules chunk st)"
proof -
  let ?n = "maximum_literal rules - 1"
  from assms(1) have t: "fst st = last_n ?n content" and d: "distinct (snd st)"
    and f: "set (snd st) = found rules content"
    by (simp_all add: stream_inv_def)
  have "found rules (content @ chunk)
      = found rules content \<union> {i. \<exists>lit. (i, lit) \<in> set rules \<and> infixb lit (last_n ?n content @ chunk)}"
  proof -
    have "infixb lit (content @ chunk) \<longleftrightarrow> infixb lit content \<or> infixb lit (last_n ?n content @ chunk)"
      if "(i, lit) \<in> set rules" for i lit
    proof
      assume a: "infixb lit (content @ chunk)"
      have "length lit \<le> Suc ?n" using literal_le_maximum [OF that] by simp
      from infixb_split [OF a this] show "infixb lit content \<or> infixb lit (last_n ?n content @ chunk)"
        by (simp add: last_n_def)
    next
      assume "infixb lit content \<or> infixb lit (last_n ?n content @ chunk)"
      then show "infixb lit (content @ chunk)"
        by (auto simp: last_n_def intro: infixb_append1 infixb_drop)
    qed
    then show ?thesis by (auto simp: found_def)
  qed
  then show ?thesis
    using t d f by (simp add: stream_inv_def match_chunk_def Let_def set_match_window distinct_match_window last_n_last_n last_n_0)
qed

text \<open>Any way to cut the content into chunks finds exactly the rules whose literal occurs in it.\<close>

lemma match_chunks:
  assumes "\<forall>(i, lit) \<in> set rules. lit \<noteq> []" and "stream_inv rules content st"
  shows "stream_inv rules (content @ concat chunks) (fold (match_chunk rules) chunks st)"
  using assms(2)
proof (induction chunks arbitrary: content st)
  case (Cons c cs)
  from Cons.IH [OF match_chunk_inv [OF Cons.prems assms(1), of c]] show ?case by simp
qed simp

lemma stream_inv_start: "\<forall>(i, lit) \<in> set rules. lit \<noteq> [] \<Longrightarrow> stream_inv rules [] ([], [])"
  by (auto simp: stream_inv_def last_n_def found_def)

lemma stream_found:
  assumes "\<forall>(i, lit) \<in> set rules. lit \<noteq> []"
  shows "set (snd (fold (match_chunk rules) chunks ([], []))) = found rules (concat chunks)"
  using match_chunks [OF assms stream_inv_start [OF assms], of chunks] by (simp add: stream_inv_def)

end
