(* ===== verification/Scan_Worker.thy ===== *)
theory Scan_Worker
  imports Content Stream_Match Models Base64 Util
begin

text \<open>
  \<^verbatim>\<open>src/zsec_shield/scan_worker.py\<close>: the worker process that sees the bytes of a file but not its
  path, and the broker that streams the bytes to it and checks what it answers.  A connection is
  the list of frames received on it; a frame longer than the caller's limit and an empty list
  raise as \<^verbatim>\<open>recv_bytes\<close> does.  What the other process answers is an argument, so the broker is
  modelled against an arbitrary worker.  Not modelled: the resource limits, the signal mask and
  the starting of the process itself.
\<close>

section \<open>Frames\<close>

definition max_protocol_bytes :: nat where "max_protocol_bytes = 1024 * 1024"

definition worker_protocol :: string where "worker_protocol = ''zsec.scan-worker.v1''"

text \<open>\<^verbatim>\<open>json.dumps\<close> with its default \<^verbatim>\<open>ensure_ascii=True\<close>: the text with every character outside
  the printable ASCII range, which can only occur inside a string, as an escape.\<close>

definition low6 :: "char \<Rightarrow> nat" where
  "low6 c = ord c mod 64"

definition u_escape :: "nat \<Rightarrow> string" where
  "u_escape n =
    (if n < 65536 then [CHR 0x5C, CHR ''u''] @ hex4 n
     else [CHR 0x5C, CHR ''u''] @ hex4 (0xD800 + (n - 65536) div 1024)
        @ [CHR 0x5C, CHR ''u''] @ hex4 (0xDC00 + (n - 65536) mod 1024))"

fun ascii_escape :: "string \<Rightarrow> string" where
  "ascii_escape [] = []"
| "ascii_escape (c # cs) =
    (if ord c < 127 then c # ascii_escape cs
     else if ord c = 127 then u_escape 127 @ ascii_escape cs
     else case cs of
         c1 # r1 \<Rightarrow>
           (if ord c < 224 then u_escape (ord c mod 32 * 64 + low6 c1) @ ascii_escape r1
            else case r1 of
                c2 # r2 \<Rightarrow>
                  (if ord c < 240 then u_escape ((ord c mod 16 * 64 + low6 c1) * 64 + low6 c2) @ ascii_escape r2
                   else case r2 of
                       c3 # r3 \<Rightarrow> u_escape (((ord c mod 8 * 64 + low6 c1) * 64 + low6 c2) * 64 + low6 c3)
                                    @ ascii_escape r3
                     | [] \<Rightarrow> [])
              | [] \<Rightarrow> [])
       | [] \<Rightarrow> [])"

definition encode_frame :: "dict \<Rightarrow> string res" where
  "encode_frame v =
    (let raw = ascii_escape (dump Compact 0 (JObj v)) in
     if max_protocol_bytes < length raw then Inl (ScanWorkerError ''content worker protocol frame exceeded 1 MiB'')
     else Inr raw)"

fun jerr_worker :: "jerr \<Rightarrow> exn" where
  "jerr_worker (JDup k) = ScanWorkerError ''content worker JSON contains a duplicate key''"
| "jerr_worker _ = ScanWorkerError ''content worker returned malformed JSON''"

definition decode_frame :: "string \<Rightarrow> dict res" where
  "decode_frame raw =
    (case decode_utf8 raw of None \<Rightarrow> Inl (ScanWorkerError ''content worker returned malformed JSON'')
     | Some body \<Rightarrow> (case json_loads True body of
         Inl e \<Rightarrow> Inl (jerr_worker e)
       | Inr v \<Rightarrow> if is_obj v then Inr (obj_of v)
                  else Inl (ScanWorkerError ''content worker frame must be a JSON object'')))"

definition require_fields :: "dict \<Rightarrow> string list \<Rightarrow> unit res" where
  "require_fields v required =
    (if keys_of v \<noteq> set required then
       Inl (ScanWorkerError ''content worker frame has missing or unknown fields'')
     else Inr ())"

text \<open>One frame read as a message: \<open>None\<close> is a channel that is closed or, with a deadline, silent.\<close>

definition receive :: "string option \<Rightarrow> dict res" where
  "receive frame =
    (case frame of None \<Rightarrow> Inl (ScanWorkerError ''content worker closed its protocol channel'')
     | Some raw \<Rightarrow>
       if max_protocol_bytes < length raw then
         Inl (ScanWorkerError ''content worker closed its protocol channel'')
       else decode_frame raw)"

definition rules_payload :: "rule list \<Rightarrow> json list" where
  "rules_payload rules =
    map (\<lambda>r. JObj (mk_dict [(''id'', JStr (rule_id r)), (''kind'', JStr ''literal''),
        (''value'', JStr (b64encode (case r_literal r of None \<Rightarrow> [] | Some l \<Rightarrow> l)))]))
      (filter (\<lambda>r. r_kind r = Literal_Rule) rules)"

section \<open>The worker\<close>

definition worker_rule :: "json \<Rightarrow> literals \<Rightarrow> literals res" where
  "worker_rule raw acc =
    (if \<not> is_obj raw then Inl (ScanWorkerError ''worker rule configuration is invalid'')
     else let r = obj_of raw in
     rbind (require_fields r [''id'', ''kind'', ''value'']) (\<lambda>_.
       if dget r ''kind'' \<noteq> JStr ''literal'' then Inr acc
       else if \<not> is_str (dget r ''id'') \<or> \<not> is_str (dget r ''value'') then
         Inl (ScanWorkerError ''worker literal configuration is invalid'')
       else case b64decode_strict (str_of (dget r ''value'')) of
           None \<Rightarrow> Inl (ScanWorkerError ''worker literal is not valid base64'')
         | Some d \<Rightarrow> if d = [] then Inl (ScanWorkerError ''worker literal may not be empty'')
                     else Inr (acc @ [(str_of (dget r ''id''), d)])))"

definition worker_configuration :: "dict \<Rightarrow> (int \<times> int \<times> literals) res" where
  "worker_configuration c =
    rbind (require_fields c [''protocol'', ''chunk_bytes'', ''max_file_bytes'', ''rules'']) (\<lambda>_.
      if dget c ''protocol'' \<noteq> JStr worker_protocol then
        Inl (ScanWorkerError ''worker configuration protocol mismatch'')
      else if \<not> is_pyint (dget c ''chunk_bytes'') \<or> \<not> is_pyint (dget c ''max_file_bytes'')
              \<or> \<not> is_list (dget c ''rules'') then
        Inl (ScanWorkerError ''worker configuration is invalid'')
      else rbind (rfold worker_rule (list_of (dget c ''rules'')) []) (\<lambda>lits.
        Inr (int_of (dget c ''chunk_bytes''), int_of (dget c ''max_file_bytes''), lits)))"

record stream_state =
  ss_data :: string
  ss_match :: "string \<times> string list"
  ss_inspection :: string

definition stream0 :: stream_state where
  "stream0 = \<lparr>ss_data = [], ss_match = ([], []), ss_inspection = []\<rparr>"

definition add_inspection :: "string \<Rightarrow> string \<Rightarrow> string" where
  "add_inspection inspection chunk =
    (if length inspection < max_inspection_bytes
     then inspection @ take (max_inspection_bytes - length inspection) chunk else inspection)"

text \<open>The loop of \<open>_scan_stream\<close>; \<open>ss_data\<close> is what has been given to the digest.\<close>

fun stream_frames ::
    "literals \<Rightarrow> int \<Rightarrow> int \<Rightarrow> int \<Rightarrow> string list \<Rightarrow> stream_state \<Rightarrow> stream_state res \<times> string list" where
  "stream_frames lits expected chunk_bytes max_bytes frames st =
    (if \<not> int (length (ss_data st)) < expected then (Inr st, frames)
     else if chunk_bytes < 0 then (Inl (ValueError ''negative maxlength''), frames)
     else case frames of
         [] \<Rightarrow> (Inl (ScanWorkerError ''content stream ended before its declared length''), [])
       | chunk # rest \<Rightarrow>
         if chunk_bytes < int (length chunk) then
           (Inl (ScanWorkerError ''content stream ended before its declared length''), rest)
         else if chunk = [] then
           (Inl (ScanWorkerError ''content stream frame is empty or oversized''), rest)
         else let data = ss_data st @ chunk in
         if expected < int (length data) \<or> max_bytes < int (length data) then
           (Inl (ScanWorkerError ''file grew beyond the content worker size policy''), rest)
         else stream_frames lits expected chunk_bytes max_bytes rest
           \<lparr>ss_data = data, ss_match = match_chunk lits chunk (ss_match st),
            ss_inspection = add_inspection (ss_inspection st) chunk\<rparr>)"

declare stream_frames.simps [simp del]

definition stream_response :: "zip_reader \<Rightarrow> int \<Rightarrow> stream_state \<Rightarrow> dict" where
  "stream_response zf expected st = mk_dict
    [(''ok'', JBool True), (''sha256'', JStr (hexdigest (ss_data st))),
     (''bytes_read'', JInt (int (length (ss_data st)))),
     (''literal_rule_ids'', JList (map JStr (sort (snd (ss_match st))))),
     (''observations'', JList (map JObj (inspect_content zf (ss_inspection st) (nat expected))))]"

definition scan_stream ::
    "zip_reader \<Rightarrow> dict \<Rightarrow> literals \<Rightarrow> int \<Rightarrow> int \<Rightarrow> string list \<Rightarrow> dict res \<times> string list" where
  "scan_stream zf request lits chunk_bytes max_bytes frames =
    (let expected = int_of (dget request ''size'') in
     if \<not> is_pyint (dget request ''size'') then
       (Inl (ScanWorkerError ''worker request has invalid file metadata''), frames)
     else if max_bytes < expected then
       (Inl (ScanWorkerError ''file exceeds the content worker size policy''), frames)
     else case stream_frames lits expected chunk_bytes max_bytes frames stream0 of
         (Inl e, rest) \<Rightarrow> (Inl e, rest)
       | (Inr st, rest) \<Rightarrow> (Inr (stream_response zf expected st), rest))"

definition update_dict :: "dict \<Rightarrow> dict \<Rightarrow> dict" where
  "update_dict d e = foldl (\<lambda>acc (k, v). dput k v acc) d e"

definition valid_request_id :: "json \<Rightarrow> bool" where
  "valid_request_id v = (is_str v \<and> length (str_of v) = 32 \<and> list_all is_hex_lower (str_of v))"

lemma stream_frames_rest:
  "length (snd (stream_frames lits expected chunk_bytes max_bytes frames st)) \<le> length frames"
proof (induction frames arbitrary: st)
  case (Cons f fs)
  then show ?case by (subst stream_frames.simps) (auto simp: Let_def intro: le_SucI)
qed (subst stream_frames.simps, simp)

lemma scan_stream_rest:
  "scan_stream zf request lits chunk_bytes max_bytes frames = (r, rest) \<Longrightarrow> length rest \<le> length frames"
  using stream_frames_rest [of lits _ chunk_bytes max_bytes frames stream0]
  by (auto simp: scan_stream_def Let_def split: if_splits prod.splits sum.splits) (metis snd_conv)+

text \<open>The request loop: the frames it sends, in order.  It ends with the process.\<close>

function worker_loop :: "zip_reader \<Rightarrow> literals \<Rightarrow> int \<Rightarrow> int \<Rightarrow> string list \<Rightarrow> string list" where
  "worker_loop zf lits chunk_bytes max_bytes frames =
    (case frames of [] \<Rightarrow> []
     | raw # rest \<Rightarrow>
       (case receive (Some raw) of Inl e \<Rightarrow> []
        | Inr request \<Rightarrow>
          if dget request ''operation'' = JStr ''shutdown'' then []
          else if keys_of request \<noteq> {''protocol'', ''operation'', ''request_id'', ''size''} then []
          else if dget request ''operation'' \<noteq> JStr ''scan''
                  \<or> dget request ''protocol'' \<noteq> JStr worker_protocol then []
          else if \<not> valid_request_id (dget request ''request_id'') then []
          else (case scan_stream zf request lits chunk_bytes max_bytes rest of (result, later) \<Rightarrow>
            let reply = (\<lambda>body. encode_frame (update_dict (mk_dict
                  [(''protocol'', JStr worker_protocol), (''request_id'', dget request ''request_id'')]) body))
            in case result of
                Inl (ValueError e) \<Rightarrow> []
              | Inl e \<Rightarrow> (case reply (mk_dict [(''ok'', JBool False), (''error'', JStr (py_take 500 (exn_text e)))]) of
                    Inl _ \<Rightarrow> [] | Inr out \<Rightarrow> out # worker_loop zf lits chunk_bytes max_bytes later)
              | Inr body \<Rightarrow> (case reply body of
                    Inl _ \<Rightarrow> [] | Inr out \<Rightarrow> out # worker_loop zf lits chunk_bytes max_bytes later))))"
  by pat_completeness auto
termination
  by (relation "measure (\<lambda>(zf, lits, c, m, frames). length frames)")
     (auto simp: less_Suc_eq_le dest: sym [THEN scan_stream_rest])

declare worker_loop.simps [simp del]

section \<open>The broker\<close>

record worker_scan =
  ws_sha256 :: string
  ws_bytes_read :: int
  ws_literal_rule_ids :: "string list"
  ws_observations :: "dict list"

definition schema_error :: "'a res" where
  "schema_error = Inl (ScanWorkerError ''content worker response schema was invalid'')"

definition evidence_item_ok :: "string \<times> json \<Rightarrow> bool" where
  "evidence_item_ok kv =
    (1 \<le> py_len (fst kv) \<and> py_len (fst kv) \<le> 80 \<and> (is_str (snd kv) \<or> is_pyint (snd kv))
     \<and> (\<not> is_str (snd kv) \<or> py_len (str_of (snd kv)) \<le> 500))"

definition severities :: "string list" where
  "severities = [''info'', ''low'', ''medium'', ''high'', ''critical'']"

definition observation_fields_error :: "'a res" where
  "observation_fields_error = Inl (ScanWorkerError ''content worker observation fields were invalid'')"

definition validate_observation :: "json \<Rightarrow> dict res" where
  "validate_observation v =
    (let d = obj_of v in
     if \<not> is_obj v \<or> keys_of d \<noteq> {''provider'', ''category'', ''severity'', ''summary'', ''evidence'',
          ''quarantine_eligible''} then
       Inl (ScanWorkerError ''content worker observation schema was invalid'')
     else let provider = dget d ''provider''; category = dget d ''category''; severity = dget d ''severity'';
              summary = dget d ''summary''; evidence = dget d ''evidence'' in
     if \<not> is_str provider \<or> \<not> (1 \<le> py_len (str_of provider) \<and> py_len (str_of provider) \<le> 40)
        \<or> \<not> is_str category \<or> \<not> (1 \<le> py_len (str_of category) \<and> py_len (str_of category) \<le> 80) then
       observation_fields_error
     else if is_list severity \<or> is_obj severity then Inl (OtherError ''unhashable type'')
     else if severity \<notin> JStr ` set severities
        \<or> \<not> is_str summary \<or> \<not> (1 \<le> py_len (str_of summary) \<and> py_len (str_of summary) \<le> 300)
        \<or> \<not> is_obj evidence \<or> 16 < length (obj_of evidence)
        \<or> dget d ''quarantine_eligible'' \<noteq> JBool False then observation_fields_error
     else if \<not> list_all evidence_item_ok (obj_of evidence) then
       Inl (ScanWorkerError ''content worker observation evidence was invalid'')
     else Inr d)"

definition validate_response :: "rule list \<Rightarrow> dict \<Rightarrow> nat \<Rightarrow> string \<Rightarrow> worker_scan res" where
  "validate_response rules response expected_size request_id =
    (if dget response ''protocol'' \<noteq> JStr worker_protocol then
       Inl (ScanWorkerError ''content worker response protocol mismatch'')
     else if dget response ''request_id'' \<noteq> JStr request_id then
       Inl (ScanWorkerError ''content worker response correlation mismatch'')
     else if dget response ''ok'' \<noteq> JBool True then
       rbind (require_fields response [''protocol'', ''request_id'', ''ok'', ''error'']) (\<lambda>_.
         let message = dget response ''error'' in
         Inl (ScanWorkerError (if is_str message then py_take 500 (str_of message) else ''content worker failed'')))
     else let digest = dget response ''sha256''; bytes_read = dget response ''bytes_read'';
              identifiers = dget response ''literal_rule_ids''; obs = dget response ''observations'' in
     rbind (require_fields response [''protocol'', ''request_id'', ''ok'', ''sha256'', ''bytes_read'',
         ''literal_rule_ids'', ''observations'']) (\<lambda>_.
     if \<not> is_str digest \<or> length (str_of digest) \<noteq> 64 \<or> \<not> list_all is_hex_lower (str_of digest)
        \<or> \<not> is_pyint bytes_read \<or> int_of bytes_read \<noteq> int expected_size
        \<or> \<not> is_list identifiers \<or> \<not> list_all is_str (list_of identifiers)
        \<or> \<not> is_list obs \<or> 32 < length (list_of obs) then schema_error
     else let returned = map str_of (list_of identifiers);
              allowed = set (map rule_id (filter (\<lambda>r. r_kind r = Literal_Rule) rules)) in
     if \<not> distinct returned \<or> \<not> set returned \<subseteq> allowed then
       Inl (ScanWorkerError ''content worker returned an unknown or duplicate rule ID'')
     else rbind (rmap validate_observation (list_of obs)) (\<lambda>validated.
       Inr \<lparr>ws_sha256 = str_of digest, ws_bytes_read = int_of bytes_read,
            ws_literal_rule_ids = returned, ws_observations = validated\<rparr>)))"

definition scan_request :: "string \<Rightarrow> nat \<Rightarrow> dict" where
  "scan_request request_id opened_size = mk_dict
    [(''protocol'', JStr worker_protocol), (''operation'', JStr ''scan''),
     (''request_id'', JStr request_id), (''size'', JInt (int opened_size))]"

text \<open>
  What the broker reads from the descriptor is a list of chunks, each not empty, up to the end of
  the file; they are sent as they are.  \<open>sent\<close> is what has been sent and given to the digest.
  A send or a read that fails with \<^verbatim>\<open>OSError\<close> ends as a silent channel does, with another message.
\<close>

fun broker_stream :: "nat \<Rightarrow> nat \<Rightarrow> string list \<Rightarrow> string \<Rightarrow> string res" where
  "broker_stream opened_size max_bytes [] sent = Inr sent"
| "broker_stream opened_size max_bytes (chunk # rest) sent =
    (let data = sent @ chunk in
     if opened_size < length data \<or> max_bytes < length data then
       Inl (ScanWorkerError ''file changed while broker streamed it'')
     else broker_stream opened_size max_bytes rest data)"

text \<open>The size and time of modification of an open file.\<close>

type_synonym fstat = "nat \<times> int"

definition broker_inspect ::
    "rule list \<Rightarrow> nat \<Rightarrow> fstat \<Rightarrow> string list \<Rightarrow> fstat \<Rightarrow> string \<Rightarrow> string option \<Rightarrow> worker_scan res" where
  "broker_inspect rules max_bytes opened chunks after request_id reply =
    rbind (encode_frame (scan_request request_id (fst opened))) (\<lambda>_.
    rbind (broker_stream (fst opened) max_bytes chunks []) (\<lambda>sent.
    if after \<noteq> opened \<or> length sent \<noteq> fst opened then
      Inl (ScanWorkerError ''file changed while broker streamed it'')
    else
    rbind (receive reply) (\<lambda>response.
    rbind (validate_response rules response (fst opened) request_id) (\<lambda>result.
    if ws_sha256 result \<noteq> hexdigest sent then
      Inl (ScanWorkerError ''broker and worker content digests disagreed'')
    else Inr result))))"

section \<open>The life of a worker process\<close>

text \<open>
  The state of \<^verbatim>\<open>BoundedScanWorker\<close>: the process, by its identifier, and the requests it has
  answered.  The environment of a start is the identifier of the new process and its two first
  answers; that of a request is whether the process is alive and what \<open>broker_inspect\<close> gives.
\<close>

record broker =
  bk_process :: "nat option"
  bk_requests :: nat

fun is_worker_error :: "exn \<Rightarrow> bool" where
  "is_worker_error (ScanWorkerError _) = True"
| "is_worker_error _ = False"

definition broker0 :: broker where
  "broker0 = \<lparr>bk_process = None, bk_requests = 0\<rparr>"

definition broker_close :: "broker \<Rightarrow> broker" where
  "broker_close b = b\<lparr>bk_process := None, bk_requests := 0\<rparr>"

definition broker_start :: "nat \<Rightarrow> string option \<Rightarrow> string option \<Rightarrow> unit res \<Rightarrow> broker \<Rightarrow> unit res \<times> broker" where
  "broker_start pid hello acknowledgement configuration b =
    (let started = (broker_close b)\<lparr>bk_process := Some pid\<rparr> in
     case rbind (receive hello) (\<lambda>h.
          rbind (require_fields h [''protocol'', ''pid'', ''ready'']) (\<lambda>_.
            if dget h ''protocol'' \<noteq> JStr worker_protocol \<or> dget h ''ready'' \<noteq> JBool True
               \<or> \<not> py_eq (dget h ''pid'') (JInt (int pid)) then
              Inl (ScanWorkerError ''content worker hello was invalid'')
            else rbind configuration (\<lambda>_.
              rbind (receive acknowledgement) (\<lambda>a.
                if \<not> py_eq (JObj a) (JObj (mk_dict [(''protocol'', JStr worker_protocol), (''configured'', JBool True)])) then
                  Inl (ScanWorkerError ''content worker rejected its configuration'')
                else Inr ())))) of
       Inl e \<Rightarrow> (Inl e, if is_worker_error e then broker_close started else started)
     | Inr _ \<Rightarrow> (Inr (), started\<lparr>bk_requests := 0\<rparr>))"

definition ensure_started ::
    "nat \<Rightarrow> bool \<Rightarrow> nat \<Rightarrow> string option \<Rightarrow> string option \<Rightarrow> unit res \<Rightarrow> broker \<Rightarrow> unit res \<times> broker" where
  "ensure_started max_requests alive pid hello acknowledgement configuration b =
    (if bk_process b = None \<or> \<not> alive \<or> max_requests \<le> bk_requests b then
       broker_start pid hello acknowledgement configuration b
     else (Inr (), b))"

text \<open>A request: the count goes up once the answer has been received; a failure closes the worker,
  but for the \<^verbatim>\<open>TypeError\<close> of a severity that is a list or an object.\<close>

definition broker_request :: "worker_scan res \<Rightarrow> broker \<Rightarrow> worker_scan res \<times> broker" where
  "broker_request outcome b =
    (case outcome of Inl e \<Rightarrow>
         (Inl e, if is_worker_error e then broker_close b else b\<lparr>bk_requests := Suc (bk_requests b)\<rparr>)
     | Inr r \<Rightarrow> (Inr r, b\<lparr>bk_requests := Suc (bk_requests b)\<rparr>))"

end
