(* ===== verification/Scanner.thy ===== *)
theory Scanner
  imports "HOL-Library.Product_Lexorder" Ospath Scan_Worker Pytime
begin

text \<open>
  \<^verbatim>\<open>src/zsec_shield/scanner.py\<close>: the walk over a tree that follows no link, and the scan of each
  file.  The operating system is the record \<open>os\<close>: what \<^verbatim>\<open>lstat\<close>, \<^verbatim>\<open>scandir\<close>, \<^verbatim>\<open>open\<close>, \<^verbatim>\<open>fstat\<close>
  and \<^verbatim>\<open>read\<close> answer, on a POSIX system; the two \<^verbatim>\<open>lstat\<close> calls on a directory and the metadata of
  an opened file are separate answers, so a tree that changes meanwhile is covered.  The walk is a
  generator in the code; here it is the list of what it does, in order, with fuel for its loop.
\<close>

section \<open>Files and configuration\<close>

text \<open>\<open>md_time\<close> is what \<^verbatim>\<open>datetime.fromtimestamp\<close> makes of the time of modification.\<close>

record meta =
  md_kind :: fkind
  md_reparse :: bool
  md_dev :: nat
  md_ino :: nat
  md_size :: nat
  md_mtime_ns :: int
  md_ctime_ns :: int
  md_attributes :: nat
  md_time :: "nat res"

text \<open>An open file: its metadata, the chunks its reads give until the end or a failure, and its
  metadata after that.\<close>

record os_file =
  of_opened :: "meta res"
  of_chunks :: "string list"
  of_failure :: "exn option"
  of_after :: "meta res"

record os =
  os_lstat :: "path \<Rightarrow> meta res"
  os_lstat_again :: "path \<Rightarrow> meta res"
  os_scandir :: "path \<Rightarrow> nat \<Rightarrow> (bool \<times> exn) + string list"
  os_open :: "path \<Rightarrow> os_file res"
  os_cwd :: path
  os_expand :: "path \<Rightarrow> path"
  os_casefold :: "string \<Rightarrow> string"

text \<open>The timeout is in microseconds.\<close>

record scanner_config =
  sc_max_file_bytes :: nat
  sc_chunk_bytes :: nat
  sc_cross_filesystems :: bool
  sc_excluded_paths :: "path list"
  sc_worker_isolation :: bool
  sc_worker_timeout :: nat
  sc_worker_max_requests :: nat

definition absolute :: "os \<Rightarrow> path \<Rightarrow> path" where
  "absolute os p = abspath (os_cwd os) (os_expand os p)"

definition path_key :: "os \<Rightarrow> path \<Rightarrow> string" where
  "path_key os p = normpath (absolute os p)"

definition same_opened_file :: "meta \<Rightarrow> meta \<Rightarrow> bool" where
  "same_opened_file before opened =
    (\<not> (md_dev before \<noteq> 0 \<and> md_dev opened \<noteq> 0 \<and> md_dev before \<noteq> md_dev opened)
     \<and> md_size before = md_size opened
     \<and> \<not> (md_ino before \<noteq> 0 \<and> md_ino opened \<noteq> 0 \<and> md_ino before \<noteq> md_ino opened))"

text \<open>The sorted entries of a directory; a failure that Windows calls transient (the flag) is
  tried again up to three times.\<close>

fun directory_entries :: "(string \<Rightarrow> string) \<Rightarrow> (nat \<Rightarrow> (bool \<times> exn) + string list) \<Rightarrow> nat list \<Rightarrow> string list res" where
  "directory_entries fold_case answer [] = Inl (OtherError ''unreachable directory retry state'')"
| "directory_entries fold_case answer (a # rest) =
    (case answer a of
       Inr names \<Rightarrow> Inr (sort_key (\<lambda>n. (fold_case n, n)) names)
     | Inl (transient, e) \<Rightarrow> if \<not> transient \<or> rest = [] then Inl e else directory_entries fold_case answer rest)"

definition sorted_directory_entries :: "os \<Rightarrow> path \<Rightarrow> string list res" where
  "sorted_directory_entries os d = directory_entries (os_casefold os) (os_scandir os d) [0, 1, 2, 3]"

section \<open>The scanner\<close>

record scanner =
  sn_rules :: "rule list"
  sn_config :: scanner_config
  sn_excluded :: "string list"

definition literal_rules :: "scanner \<Rightarrow> rule list" where
  "literal_rules s = filter (\<lambda>r. r_kind r = Literal_Rule) (sn_rules s)"

definition digest_rules :: "scanner \<Rightarrow> rule list" where
  "digest_rules s = filter (\<lambda>r. r_kind r = Sha256_Rule) (sn_rules s)"

definition check_rule :: "rule \<Rightarrow> unit \<Rightarrow> unit res" where
  "check_rule r u =
    (if r_kind r = Sha256_Rule \<and> r_digest r = None then
       Inl (ScanConfigurationError (''SHA-256 rule has no digest: '' @ rule_id r))
     else if r_kind r = Literal_Rule \<and> (r_literal r = None \<or> r_literal r = Some []) then
       Inl (ScanConfigurationError (''literal rule has no pattern: '' @ rule_id r))
     else Inr ())"

definition new_scanner :: "os \<Rightarrow> rule list \<Rightarrow> scanner_config \<Rightarrow> scanner res" where
  "new_scanner os rules cfg =
    (let ordered = sort_key rule_id rules in
     if \<not> (1 \<le> sc_max_file_bytes cfg \<and> sc_max_file_bytes cfg \<le> 16 * 1024 * 1024 * 1024) then
       Inl (ScanConfigurationError ''max_file_bytes must be between 1 and 16 GiB'')
     else if \<not> (4096 \<le> sc_chunk_bytes cfg \<and> sc_chunk_bytes cfg \<le> 16 * 1024 * 1024) then
       Inl (ScanConfigurationError ''chunk_bytes must be between 4096 and 16 MiB'')
     else if \<not> (usec \<le> sc_worker_timeout cfg \<and> sc_worker_timeout cfg \<le> 600 * usec) then
       Inl (ScanConfigurationError ''worker_timeout_seconds must be between 1 and 600'')
     else if \<not> (1 \<le> sc_worker_max_requests cfg \<and> sc_worker_max_requests cfg \<le> 100000) then
       Inl (ScanConfigurationError ''worker_max_requests must be between 1 and 100000'')
     else if \<not> distinct (map rule_id ordered) then
       Inl (ScanConfigurationError ''rule IDs must be unique'')
     else rbind (rfold check_rule ordered ()) (\<lambda>_.
       Inr \<lparr>sn_rules = ordered, sn_config = cfg, sn_excluded = map (path_key os) (sc_excluded_paths cfg)\<rparr>))"

definition is_excluded :: "os \<Rightarrow> scanner \<Rightarrow> path \<Rightarrow> bool" where
  "is_excluded os s p = list_ex (under (path_key os p)) (sn_excluded s)"

section \<open>The walk\<close>

datatype skip = Skip_Excluded | Skip_Symlink | Skip_Special | Skip_Filesystem

datatype walk_event = Found path meta | Problem path string exn | Skipped skip

definition is_link :: "meta \<Rightarrow> bool" where
  "is_link m = (md_kind m = Lnk \<or> md_reparse m)"

text \<open>One entry of a directory: what the walk does with it, and the directory to descend into.\<close>

definition walk_entry :: "os \<Rightarrow> scanner \<Rightarrow> nat \<Rightarrow> path \<Rightarrow> walk_event list \<times> path list" where
  "walk_entry os s root_dev p =
    (if is_excluded os s p then ([Skipped Skip_Excluded], [])
     else case os_lstat os p of
         Inl e \<Rightarrow> ([Problem p ''entry_unreadable'' e], [])
       | Inr m \<Rightarrow>
         if is_link m then ([Skipped Skip_Symlink], [])
         else if md_kind m = Dir then
           (if \<not> sc_cross_filesystems (sn_config s) \<and> root_dev \<noteq> 0 \<and> md_dev m \<noteq> 0 \<and> md_dev m \<noteq> root_dev
            then ([Skipped Skip_Filesystem], []) else ([], [p]))
         else if md_kind m = Reg then ([Found p m], [])
         else ([Skipped Skip_Special], []))"

definition walk_entries :: "os \<Rightarrow> scanner \<Rightarrow> nat \<Rightarrow> path \<Rightarrow> string list \<Rightarrow> walk_event list \<times> path list" where
  "walk_entries os s root_dev d names =
    (let rs = map (\<lambda>n. walk_entry os s root_dev (entry_path d n)) names
     in (concat (map fst rs), concat (map snd rs)))"

text \<open>The stack has its top at the head; the children of a directory are pushed so that the
  first is visited first.\<close>

fun walk :: "os \<Rightarrow> scanner \<Rightarrow> nat \<Rightarrow> nat \<Rightarrow> path list \<Rightarrow> (nat \<times> nat) list \<Rightarrow> walk_event list option" where
  "walk os s root_dev fuel [] visited = Some []"
| "walk os s root_dev 0 (d # stack) visited = None"
| "walk os s root_dev (Suc fuel) (d # stack) visited =
    (case os_lstat_again os d of
       Inl e \<Rightarrow> map_option ((#) (Problem d ''directory_unreadable'' e)) (walk os s root_dev fuel stack visited)
     | Inr m \<Rightarrow>
       let identity = (md_dev m, md_ino m) in
       if md_ino m \<noteq> 0 \<and> identity \<in> set visited then
         map_option ((#) (Skipped Skip_Symlink)) (walk os s root_dev fuel stack visited)
       else (case sorted_directory_entries os d of
           Inl e \<Rightarrow> map_option ((#) (Problem d ''directory_unreadable'' e))
                     (walk os s root_dev fuel stack (identity # visited))
         | Inr names \<Rightarrow> (case walk_entries os s root_dev d names of (events, children) \<Rightarrow>
             map_option ((@) events) (walk os s root_dev fuel (children @ stack) (identity # visited)))))"

definition iter_regular_files :: "os \<Rightarrow> scanner \<Rightarrow> nat \<Rightarrow> path \<Rightarrow> walk_event list option" where
  "iter_regular_files os s fuel root =
    (if is_excluded os s root then Some [Skipped Skip_Excluded]
     else case os_lstat os root of
         Inl e \<Rightarrow> Some [Problem root ''root_unreadable'' e]
       | Inr m \<Rightarrow>
         if is_link m then Some [Skipped Skip_Symlink]
         else if md_kind m = Reg then Some [Found root m]
         else if md_kind m \<noteq> Dir then Some [Skipped Skip_Special]
         else walk os s (md_dev m) fuel [root] [])"

section \<open>The scan of one file\<close>

record scan_state =
  sx_stats :: scan_stats
  sx_issues :: "scan_issue list"
  sx_findings :: "file_finding list"
  sx_observations :: "observation list"

definition add_issue :: "os \<Rightarrow> path \<Rightarrow> string \<Rightarrow> string \<Rightarrow> scan_state \<Rightarrow> scan_state" where
  "add_issue os p code message x =
    x\<lparr>sx_issues := sx_issues x @ [\<lparr>si_path = absolute os p, si_code = code, si_message = one_line message\<rparr>]\<rparr>"

definition add_skip :: "skip \<Rightarrow> scan_state \<Rightarrow> scan_state" where
  "add_skip k x = x\<lparr>sx_stats := (case k of
      Skip_Excluded \<Rightarrow> (sx_stats x)\<lparr>st_skipped_excluded := Suc (st_skipped_excluded (sx_stats x))\<rparr>
    | Skip_Symlink \<Rightarrow> (sx_stats x)\<lparr>st_skipped_symlinks := Suc (st_skipped_symlinks (sx_stats x))\<rparr>
    | Skip_Special \<Rightarrow> (sx_stats x)\<lparr>st_skipped_special := Suc (st_skipped_special (sx_stats x))\<rparr>
    | Skip_Filesystem \<Rightarrow> (sx_stats x)\<lparr>st_skipped_filesystems := Suc (st_skipped_filesystems (sx_stats x))\<rparr>)\<rparr>"

definition add_too_large :: "scan_state \<Rightarrow> scan_state" where
  "add_too_large x = x\<lparr>sx_stats := (sx_stats x)\<lparr>st_skipped_too_large := Suc (st_skipped_too_large (sx_stats x))\<rparr>\<rparr>"

definition add_hashed :: "nat \<Rightarrow> scan_state \<Rightarrow> scan_state" where
  "add_hashed n x = x\<lparr>sx_stats := (sx_stats x)\<lparr>st_files_hashed := Suc (st_files_hashed (sx_stats x)),
     st_bytes_hashed := st_bytes_hashed (sx_stats x) + n\<rparr>\<rparr>"

definition rule_literals :: "scanner \<Rightarrow> literals" where
  "rule_literals s = map (\<lambda>r. (rule_id r, case r_literal r of None \<Rightarrow> [] | Some l \<Rightarrow> l)) (literal_rules s)"

text \<open>The reading loop without a worker: \<open>None\<close> when the file turns out too large.\<close>

fun hash_chunks :: "literals \<Rightarrow> nat \<Rightarrow> string list \<Rightarrow> string \<Rightarrow> string \<times> string list \<Rightarrow> (string \<times> string list) option" where
  "hash_chunks lits max_bytes [] data st = Some (data, snd st)"
| "hash_chunks lits max_bytes (c # cs) data st =
    (if max_bytes < length (data @ c) then None
     else hash_chunks lits max_bytes cs (data @ c) (match_chunk lits c st))"

definition worker_observation :: "path \<Rightarrow> dict \<Rightarrow> observation" where
  "worker_observation p d = \<lparr>ob_path = p, ob_provider = str_of (dget d ''provider''),
     ob_category = str_of (dget d ''category''), ob_severity = the (severity_of (dget d ''severity'')),
     ob_summary = str_of (dget d ''summary''), ob_evidence = obj_of (dget d ''evidence''),
     ob_quarantine_eligible = False\<rparr>"

definition review_observations :: "path \<Rightarrow> dict list \<Rightarrow> observation list" where
  "review_observations p ds = map (worker_observation p) (filter (\<lambda>d. dget d ''severity'' \<noteq> JStr ''info'') ds)"

definition has_pe_metadata :: "dict list \<Rightarrow> bool" where
  "has_pe_metadata ds =
    list_ex (\<lambda>d. dget d ''provider'' = JStr ''pe'' \<and> dget d ''category'' = JStr ''metadata'') ds"

text \<open>What the content gave: the digest, the bytes read, the literal rules found and the
  observations; or the issue that ended the scan; or a file too large.\<close>

datatype content_result = Content string nat "string list" "observation list" | Content_Issue string string | Content_Too_Large

definition read_content :: "scanner \<Rightarrow> os_file \<Rightarrow> meta \<Rightarrow> content_result" where
  "read_content s f opened =
    (case hash_chunks (rule_literals s) (sc_max_file_bytes (sn_config s)) (of_chunks f) [] ([], []) of
       None \<Rightarrow> Content_Too_Large
     | Some (data, ids) \<Rightarrow>
       (case of_failure f of Some e \<Rightarrow> Content_Issue ''file_read_failed'' (exn_text e)
        | None \<Rightarrow> (case of_after f of Inl e \<Rightarrow> Content_Issue ''file_read_failed'' (exn_text e)
          | Inr after \<Rightarrow>
            if md_size after \<noteq> md_size opened \<or> md_mtime_ns after \<noteq> md_mtime_ns opened
               \<or> length data \<noteq> md_size opened then
              Content_Issue ''file_changed_during_scan'' ''file changed while hashing''
            else Content (hexdigest data) (length data) ids [])))"

type_synonym inspector = "os_file \<Rightarrow> meta \<Rightarrow> worker_scan res"

type_synonym authenticode = "path \<Rightarrow> meta \<Rightarrow> dict option"

definition worker_content :: "os \<Rightarrow> inspector \<Rightarrow> authenticode \<Rightarrow> path \<Rightarrow> os_file \<Rightarrow> meta \<Rightarrow> content_result" where
  "worker_content os inspect trust p f opened =
    (case inspect f opened of
       Inl e \<Rightarrow> Content_Issue ''content_worker_failed'' (exn_text e)
     | Inr w \<Rightarrow> Content (ws_sha256 w) (nat (ws_bytes_read w)) (ws_literal_rule_ids w)
         (review_observations (absolute os p) (ws_observations w)
          @ (if has_pe_metadata (ws_observations w)
             then (case trust p opened of None \<Rightarrow> [] | Some t \<Rightarrow> review_observations (absolute os p) [t])
             else [])))"

definition matched_rules :: "scanner \<Rightarrow> string \<Rightarrow> string list \<Rightarrow> rule list" where
  "matched_rules s digest ids =
    sort_key rule_id (filter (\<lambda>r. rule_id r \<in> set ids) (literal_rules s)
      @ filter (\<lambda>r. r_digest r = Some digest) (digest_rules s))"

definition make_finding :: "os \<Rightarrow> path \<Rightarrow> meta \<Rightarrow> string \<Rightarrow> nat \<Rightarrow> rule list \<Rightarrow> file_finding res" where
  "make_finding os p opened digest bytes_read matched =
    rbind (md_time opened) (\<lambda>t.
      Inr \<lparr>ff_path = absolute os p, ff_sha256 = digest, ff_size = bytes_read, ff_modified_at = format_utc t,
           ff_severity = highest_severity (map r_severity matched), ff_matches = map from_rule matched\<rparr>)"

text \<open>An exception other than an \<^verbatim>\<open>OSError\<close> leaves the scan.\<close>

definition scan_file ::
    "os \<Rightarrow> scanner \<Rightarrow> inspector option \<Rightarrow> authenticode \<Rightarrow> path \<Rightarrow> meta \<Rightarrow> scan_state \<Rightarrow> (file_finding option \<times> scan_state) res" where
  "scan_file os s worker trust p before x =
    (case os_open os p of
       Inl e \<Rightarrow> Inr (None, add_issue os p ''file_open_failed'' (exn_text e) x)
     | Inr f \<Rightarrow> (case of_opened f of
         Inl e \<Rightarrow> Inr (None, add_issue os p ''file_read_failed'' (exn_text e) x)
       | Inr opened \<Rightarrow>
         if md_kind opened \<noteq> Reg \<or> \<not> same_opened_file before opened then
           Inr (None, add_issue os p ''file_changed_before_scan'' ''file identity changed'' x)
         else if sc_max_file_bytes (sn_config s) < md_size opened then Inr (None, add_too_large x)
         else (case (case worker of Some inspect \<Rightarrow> worker_content os inspect trust p f opened
                     | None \<Rightarrow> read_content s f opened) of
             Content_Issue code message \<Rightarrow> Inr (None, add_issue os p code message x)
           | Content_Too_Large \<Rightarrow> Inr (None, add_too_large x)
           | Content digest bytes_read ids obs \<Rightarrow>
             let matched = matched_rules s digest ids;
                 x' = add_hashed bytes_read (x\<lparr>sx_observations := sx_observations x @ obs\<rparr>)
             in if matched = [] then Inr (None, x')
                else (case make_finding os p opened digest bytes_read matched of
                    Inr fd \<Rightarrow> Inr (Some fd, x')
                  | Inl e \<Rightarrow> if is_os_error e then Inr (None, add_issue os p ''file_read_failed'' (exn_text e) x')
                            else Inl e))))"

section \<open>The scan of a list of roots\<close>

text \<open>The filter and the observer of the caller may keep a state of their own.\<close>

type_synonym 'c file_filter = "path \<Rightarrow> meta \<Rightarrow> 'c \<Rightarrow> bool res \<times> 'c"

type_synonym 'c file_observer = "path \<Rightarrow> meta \<Rightarrow> bool \<Rightarrow> 'c \<Rightarrow> unit res \<times> 'c"

record 'c callbacks =
  cb_filter :: "'c file_filter option"
  cb_observer :: "'c file_observer option"

definition visit_file ::
    "os \<Rightarrow> scanner \<Rightarrow> inspector option \<Rightarrow> authenticode \<Rightarrow> 'c callbacks \<Rightarrow> path \<Rightarrow> meta
     \<Rightarrow> scan_state \<Rightarrow> 'c \<Rightarrow> scan_state res \<times> 'c" where
  "visit_file os s worker trust cb p m x0 c0 =
    (case (case cb_filter cb of None \<Rightarrow> (Inr True, c0) | Some f \<Rightarrow> f p m c0) of
       (Inl e, c) \<Rightarrow> (Inr (add_issue os p ''file_filter_failed'' (exn_text e) x0), c)
     | (Inr False, c) \<Rightarrow> (Inr x0, c)
     | (Inr True, c) \<Rightarrow> (case scan_file os s worker trust p m x0 of
         Inl e \<Rightarrow> (Inl e, c)
       | Inr (finding, x) \<Rightarrow>
         let hashed = st_files_hashed (sx_stats x0) < st_files_hashed (sx_stats x) in
         case (case cb_observer cb of None \<Rightarrow> (Inr (), c) | Some f \<Rightarrow> f p m hashed c) of
           (r, c') \<Rightarrow>
             let x1 = (case r of Inl e \<Rightarrow> add_issue os p ''file_observer_failed'' (exn_text e) x | Inr _ \<Rightarrow> x);
                 x2 = (case finding of None \<Rightarrow> x1 | Some fd \<Rightarrow> x1\<lparr>sx_findings := sx_findings x1 @ [fd]\<rparr>)
             in (Inr x2, c')))"

text \<open>The events of all the walks, in order; with deduplication a path is visited once.\<close>

fun visit_events ::
    "os \<Rightarrow> scanner \<Rightarrow> inspector option \<Rightarrow> authenticode \<Rightarrow> 'c callbacks \<Rightarrow> string list option
     \<Rightarrow> walk_event list \<Rightarrow> scan_state \<Rightarrow> 'c \<Rightarrow> scan_state res \<times> 'c" where
  "visit_events os s worker trust cb seen [] x c = (Inr x, c)"
| "visit_events os s worker trust cb seen (Skipped k # es) x c =
    visit_events os s worker trust cb seen es (add_skip k x) c"
| "visit_events os s worker trust cb seen (Problem p code e # es) x c =
    visit_events os s worker trust cb seen es (add_issue os p code (exn_text e) x) c"
| "visit_events os s worker trust cb seen (Found p m # es) x c =
    (if seen \<noteq> None \<and> path_key os p \<in> set (the seen) then visit_events os s worker trust cb seen es x c
     else case visit_file os s worker trust cb p m x c of
         (Inl e, c') \<Rightarrow> (Inl e, c')
       | (Inr x', c') \<Rightarrow>
         visit_events os s worker trust cb (map_option ((#) (path_key os p)) seen) es x' c')"

definition sort_results :: "scan_state \<Rightarrow> scan_state" where
  "sort_results x = \<lparr>sx_stats = (sx_stats x)\<lparr>st_findings := length (sx_findings x),
       st_observations := length (sx_observations x), st_errors := length (sx_issues x)\<rparr>,
     sx_issues = sort_key (\<lambda>i. (si_path i, si_code i)) (sx_issues x),
     sx_findings = sort_key ff_path (sx_findings x),
     sx_observations = sort_key (\<lambda>b. (ob_path b, ob_provider b, ob_category b)) (sx_observations x)\<rparr>"

definition all_events :: "os \<Rightarrow> scanner \<Rightarrow> nat \<Rightarrow> path list \<Rightarrow> walk_event list option" where
  "all_events os s fuel roots =
    map_option concat (those (map (iter_regular_files os s fuel) roots))"

definition scan ::
    "os \<Rightarrow> scanner \<Rightarrow> inspector option \<Rightarrow> authenticode \<Rightarrow> 'c callbacks \<Rightarrow> bool \<Rightarrow> nat \<Rightarrow> nat \<Rightarrow> nat
     \<Rightarrow> path list \<Rightarrow> 'c \<Rightarrow> (scan_result res \<times> 'c) option" where
  "scan os s worker trust cb dedup fuel started completed roots c =
    (if roots = [] then Some (Inl (ScanConfigurationError ''at least one scan path is required''), c)
     else let absolute_roots = map (absolute os) roots;
              x0 = \<lparr>sx_stats = stats0\<lparr>st_roots_requested := length absolute_roots\<rparr>, sx_issues = [],
                    sx_findings = [], sx_observations = []\<rparr>
     in Option.bind (all_events os s fuel (sort_key (path_key os) absolute_roots)) (\<lambda>events.
       Some (case visit_events os s worker trust cb (if dedup then Some [] else None) events x0 c of
           (Inl e, c') \<Rightarrow> (Inl e, c')
         | (Inr x, c') \<Rightarrow>
           let y = sort_results x in
           (Inr \<lparr>sr_started_at = format_utc started, sr_completed_at = format_utc completed,
                 sr_roots = absolute_roots, sr_findings = sx_findings y, sr_observations = sx_observations y,
                 sr_issues = sx_issues y, sr_stats = sx_stats y\<rparr>, c'))))"

end
