(* ===== verification/Scanner_Walk.thy ===== *)
theory Scanner_Walk
  imports Scanner
begin

text \<open>
  The walk of the scanner: it visits only what it may, it visits everything it may, and it ends on
  every finite tree.
\<close>

section \<open>Soundness\<close>

text \<open>The directories the walk may enter: the root, and entries of such directories that are
  neither excluded nor links and, unless configured otherwise, are on the file system of the root.\<close>

definition enterable :: "os \<Rightarrow> scanner \<Rightarrow> nat \<Rightarrow> path \<Rightarrow> bool" where
  "enterable os s root_dev p =
    (\<not> is_excluded os s p \<and> (\<exists>m. os_lstat os p = Inr m \<and> \<not> is_link m \<and> md_kind m = Dir
       \<and> (sc_cross_filesystems (sn_config s) \<or> root_dev = 0 \<or> md_dev m = 0 \<or> md_dev m = root_dev)))"

definition entry_of :: "os \<Rightarrow> path \<Rightarrow> path \<Rightarrow> bool" where
  "entry_of os d p = (\<exists>names n. sorted_directory_entries os d = Inr names \<and> n \<in> set names \<and> p = entry_path d n)"

inductive walked :: "os \<Rightarrow> scanner \<Rightarrow> nat \<Rightarrow> path \<Rightarrow> path \<Rightarrow> bool" for os s root_dev base where
  base: "walked os s root_dev base base"
| enter: "walked os s root_dev base d \<Longrightarrow> entry_of os d p \<Longrightarrow> enterable os s root_dev p \<Longrightarrow> walked os s root_dev base p"

definition scannable :: "os \<Rightarrow> scanner \<Rightarrow> path \<Rightarrow> meta \<Rightarrow> bool" where
  "scannable os s p m = (\<not> is_excluded os s p \<and> os_lstat os p = Inr m \<and> \<not> is_link m \<and> md_kind m = Reg)"

lemma walk_entry_child: "q \<in> set (snd (walk_entry os s dv p)) \<longleftrightarrow> q = p \<and> enterable os s dv p"
  by (auto simp: walk_entry_def enterable_def split: sum.split)

lemma walk_entry_found: "Found q m \<in> set (fst (walk_entry os s dv p)) \<longleftrightarrow> q = p \<and> scannable os s p m"
  by (auto simp: walk_entry_def scannable_def split: sum.split)

lemma walk_entries_child:
  "q \<in> set (snd (walk_entries os s dv d names)) \<longleftrightarrow> (\<exists>n \<in> set names. q = entry_path d n \<and> enterable os s dv q)"
  by (auto simp: walk_entries_def Let_def walk_entry_child)

lemma walk_entries_found:
  "Found q m \<in> set (fst (walk_entries os s dv d names)) \<longleftrightarrow> (\<exists>n \<in> set names. q = entry_path d n \<and> scannable os s q m)"
  by (auto simp: walk_entries_def Let_def walk_entry_found)

lemma walk_sound:
  "walk os s dv fuel stack visited = Some es \<Longrightarrow> \<forall>d \<in> set stack. walked os s dv base d \<Longrightarrow> Found p m \<in> set es \<Longrightarrow>
   scannable os s p m \<and> (\<exists>d. walked os s dv base d \<and> entry_of os d p)"
proof (induction os s dv fuel stack visited arbitrary: es rule: walk.induct)
  case (3 os s dv fuel d stack visited)
  show ?case
  proof (cases "os_lstat_again os d")
    case (Inl e)
    with 3 show ?thesis by auto
  next
    case lm: (Inr lm)
    show ?thesis
    proof (cases "md_ino lm \<noteq> 0 \<and> (md_dev lm, md_ino lm) \<in> set visited")
      case True
      with 3 lm show ?thesis by auto
    next
      case False
      show ?thesis
      proof (cases "sorted_directory_entries os d")
        case (Inl e)
        with 3 lm False show ?thesis by auto
      next
        case names: (Inr names)
        obtain ev ch where w: "walk_entries os s dv d names = (ev, ch)" by force
        from "3.prems"(1) lm False names w obtain es' where
          r: "walk os s dv fuel (ch @ stack) ((md_dev lm, md_ino lm) # visited) = Some es'" and es: "es = ev @ es'"
          by (auto simp: Let_def)
        have wd: "walked os s dv base d" using "3.prems"(2) by simp
        have ch: "\<forall>q \<in> set ch. walked os s dv base q"
        proof
          fix q
          assume "q \<in> set ch"
          with walk_entries_child [of q os s dv d names] w names have "entry_of os d q" "enterable os s dv q"
            by (auto simp: entry_of_def)
          with wd show "walked os s dv base q" by (rule walked.enter)
        qed
        show ?thesis
        proof (cases "Found p m \<in> set ev")
          case True
          with walk_entries_found [of p m os s dv d names] w names wd show ?thesis
            by (auto simp: entry_of_def)
        next
          case ne: False
          show ?thesis
            by (rule "3.IH"(4) [OF lm refl False names w [symmetric] r])
               (use ch ne es "3.prems"(2,3) in auto)
        qed
      qed
    qed
  qed
qed auto

text \<open>
  C34: Every file a walk hands to the scan is a regular file and not a link by its own \<^verbatim>\<open>lstat\<close>, is
  not excluded, and is the root itself or an entry of a directory reached from the root through
  directories that are not links, not excluded and, unless allowed, on the root's file system.
\<close>

theorem walk_stays_inside:
  assumes "iter_regular_files os s fuel root = Some es" and "Found p m \<in> set es"
  shows "os_lstat os p = Inr m \<and> md_kind m = Reg \<and> \<not> md_reparse m \<and> \<not> is_excluded os s p
    \<and> (p = root \<or> (\<exists>r d. os_lstat os root = Inr r \<and> walked os s (md_dev r) root d \<and> entry_of os d p))"
proof (cases "is_excluded os s root")
  case True
  with assms show ?thesis by (auto simp: iter_regular_files_def)
next
  case ex: False
  show ?thesis
  proof (cases "os_lstat os root")
    case (Inl e)
    with assms ex show ?thesis by (auto simp: iter_regular_files_def)
  next
    case r: (Inr r)
    show ?thesis
    proof (cases "is_link r \<or> md_kind r \<noteq> Dir")
      case True
      with assms ex r show ?thesis by (auto simp: iter_regular_files_def is_link_def split: if_splits)
    next
      case False
      with assms(1) ex r have "walk os s (md_dev r) fuel [root] [] = Some es"
        by (auto simp: iter_regular_files_def is_link_def)
      from walk_sound [OF this _ assms(2), of root]
      show ?thesis using r by (auto simp: scannable_def is_link_def intro: walked.base)
    qed
  qed
qed

section \<open>Termination\<close>

text \<open>A tree is finite when its directories have positive weights, each more than the sum of the
  weights of the directories the walk enters from it.\<close>

definition finite_tree :: "os \<Rightarrow> scanner \<Rightarrow> nat \<Rightarrow> (path \<Rightarrow> nat) \<Rightarrow> bool" where
  "finite_tree os s dv wt =
    (\<forall>d. 0 < wt d \<and> (\<forall>names. sorted_directory_entries os d = Inr names \<longrightarrow>
        sum_list (map wt (snd (walk_entries os s dv d names))) < wt d))"

lemma walk_ends:
  assumes "finite_tree os s dv wt"
  shows "sum_list (map wt stack) \<le> fuel \<Longrightarrow> \<exists>es. walk os s dv fuel stack visited = Some es"
proof (induction fuel arbitrary: stack visited)
  case 0
  show ?case
  proof (cases stack)
    case (Cons d ds)
    have "0 < wt d" using assms by (simp add: finite_tree_def)
    with 0 Cons show ?thesis by simp
  qed simp
next
  case (Suc fuel)
  show ?case
  proof (cases stack)
    case (Cons d ds)
    have p: "0 < wt d" using assms by (simp add: finite_tree_def)
    have "sum_list (map wt ds) \<le> fuel" using Suc.prems Cons p by simp
    then have skip: "\<exists>es. walk os s dv fuel ds v = Some es" for v by (rule Suc.IH)
    have enter: "\<exists>es. walk os s dv fuel (ch @ ds) v = Some es"
      if "sorted_directory_entries os d = Inr names" "walk_entries os s dv d names = (ev, ch)" for names ev ch v
    proof -
      have "sum_list (map wt (snd (walk_entries os s dv d names))) < wt d"
        using assms that(1) by (simp add: finite_tree_def)
      then have "sum_list (map wt (ch @ ds)) \<le> fuel" using Suc.prems Cons that(2) by simp
      then show ?thesis by (rule Suc.IH)
    qed
    show ?thesis
      using skip enter unfolding Cons
      by (cases "os_lstat_again os d"; cases "sorted_directory_entries os d")
         (auto simp: Let_def split: prod.split)
  qed simp
qed

lemma walk_more_fuel: "walk os s dv fuel stack visited = Some es \<Longrightarrow> walk os s dv (fuel + k) stack visited = Some es"
proof (induction fuel arbitrary: stack visited es)
  case 0
  then show ?case by (cases stack) simp_all
next
  case (Suc fuel)
  show ?case
  proof (cases stack)
    case (Cons d ds)
    with Suc.prems show ?thesis
      by (auto simp: Let_def split: sum.splits if_splits prod.splits dest: Suc.IH)
  qed (use Suc.prems in simp)
qed

text \<open>
  On every finite tree the walk ends, and no amount of further fuel changes what it yields.
\<close>

theorem walk_terminates:
  assumes "os_lstat os root = Inr r" and "finite_tree os s (md_dev r) wt"
  shows "\<exists>es. \<forall>fuel \<ge> wt root. iter_regular_files os s fuel root = Some es"
proof -
  obtain es where "walk os s (md_dev r) (wt root) [root] [] = Some es"
    using walk_ends [OF assms(2), of "[root]" "wt root" "[]"] by auto
  then have "walk os s (md_dev r) fuel [root] [] = Some es" if "wt root \<le> fuel" for fuel
    using that walk_more_fuel [of os s "md_dev r" "wt root" "[root]" "[]" es "fuel - wt root"] by simp
  then show ?thesis using assms(1) by (auto simp: iter_regular_files_def)
qed

section \<open>Completeness\<close>

text \<open>The tree stays as it is, its directories can be read, and different directories have
  different identities.\<close>

definition readable_tree :: "os \<Rightarrow> scanner \<Rightarrow> nat \<Rightarrow> path \<Rightarrow> bool" where
  "readable_tree os s dv base =
    ((\<forall>d. walked os s dv base d \<longrightarrow> is_Inr (os_lstat_again os d) \<and> is_Inr (sorted_directory_entries os d))
     \<and> (\<forall>d d' m m'. walked os s dv base d \<longrightarrow> walked os s dv base d' \<longrightarrow> os_lstat_again os d = Inr m \<longrightarrow>
          os_lstat_again os d' = Inr m' \<longrightarrow> md_dev m = md_dev m' \<longrightarrow> md_ino m = md_ino m' \<longrightarrow> d = d'))"

definition next_dirs :: "os \<Rightarrow> scanner \<Rightarrow> nat \<Rightarrow> path \<Rightarrow> path set" where
  "next_dirs os s dv d = {p. entry_of os d p \<and> enterable os s dv p}"

definition files_of :: "os \<Rightarrow> scanner \<Rightarrow> path \<Rightarrow> walk_event set" where
  "files_of os s d = {Found p m | p m. entry_of os d p \<and> scannable os s p m}"

definition identity_of :: "os \<Rightarrow> path \<Rightarrow> nat \<times> nat" where
  "identity_of os d = (case os_lstat_again os d of Inr m \<Rightarrow> (md_dev m, md_ino m) | Inl _ \<Rightarrow> (0, 0))"

lemma walk_complete:
  assumes t: "readable_tree os s dv base"
  shows "walk os s dv fuel stack visited = Some es \<Longrightarrow> \<forall>d \<in> set stack \<union> V. walked os s dv base d \<Longrightarrow>
    set visited = identity_of os ` V \<Longrightarrow> (\<Union>d \<in> V. next_dirs os s dv d) \<subseteq> V \<union> set stack \<Longrightarrow>
    \<exists>V'. V \<union> set stack \<subseteq> V' \<and> (\<Union>d \<in> V'. next_dirs os s dv d) \<subseteq> V' \<and> (\<Union>d \<in> V' - V. files_of os s d) \<subseteq> set es"
proof (induction fuel arbitrary: stack visited es V)
  case 0
  then show ?case by (cases stack) auto
next
  case (Suc fuel)
  show ?case
  proof (cases stack)
    case Nil
    with Suc.prems show ?thesis by (intro exI [of _ V]) auto
  next
    case (Cons d ds)
    have wd: "walked os s dv base d" using Suc.prems(2) Cons by simp
    obtain m names where m: "os_lstat_again os d = Inr m" and names: "sorted_directory_entries os d = Inr names"
      using t wd by (auto simp: readable_tree_def is_Inr_iff)
    have idd: "identity_of os d = (md_dev m, md_ino m)" by (simp add: identity_of_def m)
    show ?thesis
    proof (cases "md_ino m \<noteq> 0 \<and> (md_dev m, md_ino m) \<in> set visited")
      case True
      then obtain v where v: "v \<in> V" "identity_of os v = (md_dev m, md_ino m)"
        using Suc.prems(3) by auto
      have wv: "walked os s dv base v" using Suc.prems(2) v(1) by simp
      obtain m' where "os_lstat_again os v = Inr m'" using t wv by (auto simp: readable_tree_def is_Inr_iff)
      with v(2) t wd wv m have "v = d" by (simp add: readable_tree_def identity_of_def)
      with v(1) have dV: "d \<in> V" by simp
      from True Suc.prems(1) Cons m obtain es' where r: "walk os s dv fuel ds visited = Some es'" and es0: "es = Skipped Skip_Symlink # es'"
        by (auto simp: Let_def)
      have nd: "(\<Union>d \<in> V. next_dirs os s dv d) \<subseteq> V \<union> set ds" using Suc.prems(4) Cons dV by auto
      have "\<forall>x \<in> set ds \<union> V. walked os s dv base x" using Suc.prems(2) Cons by auto
      from Suc.IH [OF r this Suc.prems(3) nd] obtain V' where
        "V \<union> set ds \<subseteq> V'" "(\<Union>d \<in> V'. next_dirs os s dv d) \<subseteq> V'" "(\<Union>d \<in> V' - V. files_of os s d) \<subseteq> set es'"
        by auto
      with es0 Cons dV show ?thesis by (intro exI [of _ V']) auto
    next
      case False
      obtain ev ch where w: "walk_entries os s dv d names = (ev, ch)" by force
      from False Suc.prems(1) Cons m names w obtain es' where
        r: "walk os s dv fuel (ch @ ds) ((md_dev m, md_ino m) # visited) = Some es'" and es: "es = ev @ es'"
        by (auto simp: Let_def)
      have ch: "set ch = next_dirs os s dv d"
        using walk_entries_child [of _ os s dv d names] w names by (auto simp: next_dirs_def entry_of_def)
      have fs: "files_of os s d \<subseteq> set ev"
        using walk_entries_found [of _ _ os s dv d names] w names by (auto simp: files_of_def entry_of_def)
      have wch: "\<forall>q \<in> set ch. walked os s dv base q"
        unfolding ch using wd by (auto simp: next_dirs_def intro: walked.enter)
      have "\<exists>V'. insert d V \<union> set (ch @ ds) \<subseteq> V' \<and> (\<Union>d \<in> V'. next_dirs os s dv d) \<subseteq> V'
          \<and> (\<Union>x \<in> V' - insert d V. files_of os s x) \<subseteq> set es'"
      proof (rule Suc.IH [OF r])
        show "\<forall>x \<in> set (ch @ ds) \<union> insert d V. walked os s dv base x" using Suc.prems(2) Cons wch wd by auto
        show "set ((md_dev m, md_ino m) # visited) = identity_of os ` insert d V" using Suc.prems(3) idd by auto
        show "(\<Union>x \<in> insert d V. next_dirs os s dv x) \<subseteq> insert d V \<union> set (ch @ ds)"
          using Suc.prems(4) Cons ch by auto
      qed
      then obtain V' where V: "insert d V \<union> set (ch @ ds) \<subseteq> V'" "(\<Union>d \<in> V'. next_dirs os s dv d) \<subseteq> V'"
        "(\<Union>x \<in> V' - insert d V. files_of os s x) \<subseteq> set es'" by blast
      have "(\<Union>x \<in> V' - V. files_of os s x) \<subseteq> files_of os s d \<union> (\<Union>x \<in> V' - insert d V. files_of os s x)"
        by auto
      also have "\<dots> \<subseteq> set es" using V(3) fs es by auto
      finally show ?thesis
        using Cons V(1,2) by (intro exI [of _ V']) auto
    qed
  qed
qed

text \<open>
  C35: On a tree that stays as it is, whose directories can be read and have distinct identities,
  the walk from a root directory yields every regular file that is not excluded and is an entry of
  a directory the walk may enter.
\<close>

theorem walk_finds_all:
  assumes "iter_regular_files os s fuel root = Some es" and "\<not> is_excluded os s root"
    and "os_lstat os root = Inr r" and "md_kind r = Dir" and "\<not> md_reparse r"
    and "readable_tree os s (md_dev r) root"
    and "walked os s (md_dev r) root d" and "entry_of os d p"
    and "\<not> is_excluded os s p" and "os_lstat os p = Inr m" and "md_kind m = Reg" and "\<not> md_reparse m"
  shows "Found p m \<in> set es"
proof -
  let ?dv = "md_dev r"
  have "walk os s ?dv fuel [root] [] = Some es"
    using assms(1-5) by (simp add: iter_regular_files_def is_link_def)
  from walk_complete [OF assms(6) this, of "{}"]
  have "\<exists>V. {} \<union> set [root] \<subseteq> V \<and> (\<Union>d \<in> V. next_dirs os s ?dv d) \<subseteq> V \<and> (\<Union>d \<in> V - {}. files_of os s d) \<subseteq> set es"
    by (simp add: walked.base)
  then obtain V where
    V: "root \<in> V" "(\<Union>d \<in> V. next_dirs os s ?dv d) \<subseteq> V" "(\<Union>d \<in> V. files_of os s d) \<subseteq> set es"
    by auto
  from assms(7) have "d \<in> V"
  proof induction
    case (enter d p)
    then have "p \<in> next_dirs os s ?dv d" by (simp add: next_dirs_def)
    with enter V(2) show ?case by auto
  qed (rule V(1))
  moreover have "Found p m \<in> files_of os s d"
    using assms(8-12) unfolding files_of_def scannable_def is_link_def by simp
  ultimately show ?thesis using V(3) by auto
qed

end
