(* ===== verification/Scan_Worker_Proofs.thy ===== *)
theory Scan_Worker_Proofs
  imports Scan_Worker
begin

text \<open>
  Correctness of the content worker and its broker: what the worker finds in a stream, that its
  answer to the broker is understood as what it found, what the broker accepts from an arbitrary
  worker, and the bound on the requests one process serves.
\<close>

section \<open>The stream\<close>

lemma add_inspection_take:
  "inspection = take max_inspection_bytes data \<Longrightarrow>
   add_inspection inspection chunk = take max_inspection_bytes (data @ chunk)"
  by (auto simp: add_inspection_def)

lemma stream_frames_step:
  assumes "int (length (ss_data st)) < n" and "0 \<le> chunk_bytes" and "int (length c) \<le> chunk_bytes" and "c \<noteq> []"
    and "int (length (ss_data st @ c)) \<le> n" and "int (length (ss_data st @ c)) \<le> max_bytes"
  shows "stream_frames lits n chunk_bytes max_bytes (c # cs) st = stream_frames lits n chunk_bytes max_bytes cs
     \<lparr>ss_data = ss_data st @ c, ss_match = match_chunk lits c (ss_match st),
      ss_inspection = add_inspection (ss_inspection st) c\<rparr>"
  using assms by (subst stream_frames.simps) (simp add: Let_def)

lemma stream_frames_all:
  assumes "\<forall>c \<in> set chunks. c \<noteq> [] \<and> int (length c) \<le> chunk_bytes" and "0 \<le> chunk_bytes"
    and "ss_inspection st = take max_inspection_bytes (ss_data st)"
    and "int (length (ss_data st @ concat chunks)) \<le> max_bytes"
  shows "stream_frames lits (int (length (ss_data st @ concat chunks))) chunk_bytes max_bytes chunks st
    = (Inr \<lparr>ss_data = ss_data st @ concat chunks, ss_match = fold (match_chunk lits) chunks (ss_match st),
            ss_inspection = take max_inspection_bytes (ss_data st @ concat chunks)\<rparr>, [])"
  using assms(1,3,4)
proof (induction chunks arbitrary: st)
  case Nil
  then show ?case by (simp add: stream_frames.simps)
next
  case (Cons c cs)
  define st' where "st' = \<lparr>ss_data = ss_data st @ c, ss_match = match_chunk lits c (ss_match st),
      ss_inspection = add_inspection (ss_inspection st) c\<rparr>"
  have e: "stream_frames lits (int (length (ss_data st @ concat (c # cs)))) chunk_bytes max_bytes (c # cs) st
      = stream_frames lits (int (length (ss_data st' @ concat cs))) chunk_bytes max_bytes cs st'"
    unfolding st'_def using Cons.prems assms(2) length_greater_0_conv [of c]
    by (subst stream_frames_step) (simp_all del: length_greater_0_conv)
  have "stream_frames lits (int (length (ss_data st' @ concat cs))) chunk_bytes max_bytes cs st'
    = (Inr \<lparr>ss_data = ss_data st' @ concat cs, ss_match = fold (match_chunk lits) cs (ss_match st'),
            ss_inspection = take max_inspection_bytes (ss_data st' @ concat cs)\<rparr>, [])"
    by (rule Cons.IH) (use Cons.prems in \<open>simp_all add: st'_def add_inspection_take\<close>)
  then show ?case unfolding e by (simp add: st'_def)
qed

definition literals_of :: "rule list \<Rightarrow> literals" where
  "literals_of rules =
    map (\<lambda>r. (rule_id r, case r_literal r of None \<Rightarrow> [] | Some l \<Rightarrow> l)) (filter (\<lambda>r. r_kind r = Literal_Rule) rules)"

definition good_rules :: "rule list \<Rightarrow> bool" where
  "good_rules rules = (distinct (map rule_id rules)
     \<and> (\<forall>r \<in> set rules. r_kind r = Literal_Rule \<longrightarrow> (\<exists>l. r_literal r = Some l \<and> l \<noteq> []))
     \<and> (\<forall>r \<in> set rules. r_kind r = Sha256_Rule \<longrightarrow> (\<exists>d. r_digest r = Some d)))"

lemma literals_nonempty: "good_rules rules \<Longrightarrow> \<forall>(i, lit) \<in> set (literals_of rules). lit \<noteq> []"
  by (auto simp: good_rules_def literals_of_def)

lemma found_ids: "found (literals_of rules) content \<subseteq> set (map rule_id (filter (\<lambda>r. r_kind r = Literal_Rule) rules))"
  by (auto simp: found_def literals_of_def)

lemma found_rules:
  assumes "good_rules rules"
  shows "found (literals_of rules) content = {rule_id r | r l. r \<in> set rules \<and> r_kind r = Literal_Rule
     \<and> r_literal r = Some l \<and> infixb l content}" (is "_ = ?R")
proof (rule set_eqI)
  fix i
  have "i \<in> found (literals_of rules) content \<longleftrightarrow> (\<exists>r \<in> set rules. r_kind r = Literal_Rule \<and> i = rule_id r
      \<and> infixb (case r_literal r of None \<Rightarrow> [] | Some l \<Rightarrow> l) content)"
    by (auto simp: found_def literals_of_def)
  also have "\<dots> \<longleftrightarrow> i \<in> ?R"
  proof -
    have "\<exists>l. r_literal r = Some l" if "r \<in> set rules" "r_kind r = Literal_Rule" for r
      using assms that by (auto simp: good_rules_def)
    then show ?thesis by fastforce
  qed
  finally show "i \<in> found (literals_of rules) content \<longleftrightarrow> i \<in> ?R" .
qed

definition matching_ids :: "rule list \<Rightarrow> string \<Rightarrow> string list" where
  "matching_ids rules content = sort (map fst (filter (\<lambda>(i, l). infixb l content) (literals_of rules)))"

lemma matching_ids:
  assumes "good_rules rules"
  shows "set (matching_ids rules content) = found (literals_of rules) content"
    and "distinct (matching_ids rules content)" and "sorted (matching_ids rules content)"
proof -
  have "map fst (literals_of rules) = map rule_id (filter (\<lambda>r. r_kind r = Literal_Rule) rules)"
    by (simp add: literals_of_def)
  moreover have "distinct (map rule_id (filter (\<lambda>r. r_kind r = Literal_Rule) rules))"
    using assms by (simp add: good_rules_def distinct_map_filter)
  ultimately show "distinct (matching_ids rules content)"
    unfolding matching_ids_def by (metis distinct_map_filter distinct_sort)
qed (force simp: matching_ids_def found_def)+

lemma scan_stream_ids:
  assumes "good_rules rules" and "\<forall>c \<in> set chunks. c \<noteq> [] \<and> length c \<le> chunk_bytes"
    and "length (concat chunks) \<le> max_bytes"
  shows "scan_stream zf (scan_request rid (length (concat chunks))) (literals_of rules)
        (int chunk_bytes) (int max_bytes) chunks
      = (Inr (mk_dict [(''ok'', JBool True), (''sha256'', JStr (hexdigest (concat chunks))),
           (''bytes_read'', JInt (int (length (concat chunks)))),
           (''literal_rule_ids'', JList (map JStr (matching_ids rules (concat chunks)))),
           (''observations'', JList (map JObj (inspect_content zf
               (take max_inspection_bytes (concat chunks)) (length (concat chunks)))))]), [])"
proof -
  let ?st = "fold (match_chunk (literals_of rules)) chunks ([], [])"
  have i: "stream_inv (literals_of rules) (concat chunks) ?st"
    using match_chunks [OF literals_nonempty [OF assms(1)] stream_inv_start [OF literals_nonempty [OF assms(1)]], of chunks]
    by simp
  have f: "stream_frames (literals_of rules) (int (length (concat chunks))) (int chunk_bytes) (int max_bytes) chunks stream0
    = (Inr \<lparr>ss_data = concat chunks, ss_match = ?st, ss_inspection = take max_inspection_bytes (concat chunks)\<rparr>, [])"
    using stream_frames_all [of chunks "int chunk_bytes" stream0 "int max_bytes" "literals_of rules"] assms(2,3)
    by (simp add: stream0_def)
  have z: "dget (scan_request rid n) ''size'' = JInt (int n)" for n
    by (simp add: scan_request_def dget_mk_dict)
  have m: "sort (snd ?st) = matching_ids rules (concat chunks)"
    using i matching_ids [OF assms(1), of "concat chunks"]
    by (intro sorted_distinct_set_unique) (simp_all add: stream_inv_def)
  have n: "\<not> int max_bytes < int (length (concat chunks))" using assms(3) by simp
  show ?thesis
    by (simp only: scan_stream_def Let_def z int_of.simps f is_pyint.simps not_True_eq_False if_False n
        prod.case sum.case stream_response_def stream_state.select_convs nat_int m)
qed

text \<open>
  The content worker reports exactly the literal rules whose pattern occurs in the content of
  the file, its size and its SHA-256, however the broker cuts the content into frames.
\<close>

theorem worker_scan_exact:
  assumes "good_rules rules" and "\<forall>c \<in> set chunks. c \<noteq> [] \<and> length c \<le> chunk_bytes"
    and "length (concat chunks) \<le> max_bytes"
  shows "\<exists>ids. scan_stream zf (scan_request rid (length (concat chunks))) (literals_of rules)
        (int chunk_bytes) (int max_bytes) chunks
      = (Inr (mk_dict [(''ok'', JBool True), (''sha256'', JStr (hexdigest (concat chunks))),
           (''bytes_read'', JInt (int (length (concat chunks)))), (''literal_rule_ids'', JList (map JStr ids)),
           (''observations'', JList (map JObj (inspect_content zf
               (take max_inspection_bytes (concat chunks)) (length (concat chunks)))))]), [])
    \<and> sorted ids \<and> distinct ids
    \<and> set ids = {rule_id r | r l. r \<in> set rules \<and> r_kind r = Literal_Rule \<and> r_literal r = Some l
                                 \<and> infixb l (concat chunks)}"
  using scan_stream_ids [OF assms] matching_ids [OF assms(1), of "concat chunks"] found_rules [OF assms(1), of "concat chunks"]
  by (intro exI [of _ "matching_ids rules (concat chunks)"] conjI) (simp_all only:)

section \<open>Frames are read back\<close>

definition plain :: "string \<Rightarrow> bool" where
  "plain s = list_all (\<lambda>c. ord c < 127) s"

lemma plain_simps [simp]: "plain []" "plain (s @ t) = (plain s \<and> plain t)" "plain (c # s) = (ord c < 127 \<and> plain s)"
  by (simp_all add: plain_def)

primrec plain_json :: "json \<Rightarrow> bool" where
  "plain_json JNull = True"
| "plain_json (JBool b) = True"
| "plain_json (JInt i) = True"
| "plain_json (JFloat t) = plain t"
| "plain_json (JStr s) = plain s"
| "plain_json (JList xs) = list_all id (map plain_json xs)"
| "plain_json (JObj d) = (list_all plain (map fst d) \<and> list_all snd (map (map_prod id plain_json) d))"

lemma lower_hex_plain: "list_all is_hex_lower s \<Longrightarrow> plain s"
  by (auto simp: plain_def list_all_iff is_hex_lower_def)

lemma plain_dec_nat: "plain (dec_nat n)"
  using dec_nat_digits [of n] by (auto simp: plain_def list_all_iff is_digit_def)

lemma plain_quote: "plain s \<Longrightarrow> plain (quote_str s)"
proof -
  have h: "plain (hex4 n)" for n
    using hex_digit_lower by (intro lower_hex_plain) (simp add: hex4_def)
  have e: "ord c < 127 \<Longrightarrow> plain (esc_char c)" for c
    unfolding esc_char_def by (simp add: h ord_def)
  have "plain s \<Longrightarrow> plain (concat (map esc_char s))" by (induction s) (simp_all add: e)
  then show "plain s \<Longrightarrow> plain (quote_str s)" by (simp add: quote_str_def ord_def)
qed

lemma plain_items: "list_all plain xs \<Longrightarrow> plain (dump_items Compact l xs)"
  by (induction Compact l xs rule: dump_items.induct) (simp_all add: newline_def ord_def)

lemma plain_dump: "plain_json v \<Longrightarrow> plain (dump Compact l v)"
proof (induction Compact l v rule: dump.induct)
  case (6 l xs)
  then show ?case by (auto simp: list_all_iff ord_def intro!: plain_items)
next
  case (7 l d)
  then have "list_all plain (map (\<lambda>(k, v). quote_str k @ colon Compact @ dump Compact (Suc l) v) d)" if "d \<noteq> []"
    using that by (fastforce simp: list_all_iff plain_quote colon_def ord_def)
  then show ?case by (auto simp: ord_def intro!: plain_items)
qed (auto simp: dec_int_def plain_dec_nat plain_quote ord_def)

lemma plain_mk_dict:
  assumes "\<forall>k \<in> fst ` set kvs. plain k" and "\<forall>v \<in> snd ` set kvs. plain_json v"
  shows "plain_json (JObj (mk_dict kvs))"
proof -
  have "\<forall>v \<in> snd ` set (mk_dict kvs). plain_json v" by (rule subset_ball [OF mk_dict_vals assms(2)])
  moreover have "\<forall>k \<in> fst ` set (mk_dict kvs). plain k"
    using assms(1) keys_of_mk_dict [of kvs] by (simp add: keys_of_def)
  ultimately show ?thesis by (auto simp: list_all_iff)
qed

lemma ascii_escape_plain: "plain s \<Longrightarrow> ascii_escape s = s"
  by (induction s) auto

lemma decode_encode:
  assumes "encode_frame v = Inr raw" and "wf_json (JObj v)" and "plain_json (JObj v)"
  shows "decode_frame raw = Inr v \<and> length raw \<le> max_protocol_bytes"
proof -
  note p = plain_dump [OF assms(3), of 0]
  have r: "raw = dump Compact 0 (JObj v)" "length raw \<le> max_protocol_bytes"
    using assms(1) p by (auto simp: encode_frame_def ascii_escape_plain Let_def simp del: dump.simps split: if_splits)
  have a: "is_ascii raw" using p r(1) by (auto simp: plain_def is_ascii_def list_all_iff simp del: dump.simps)
  have "json_loads True raw = Inr (JObj v)" unfolding r(1) by (rule json_loads_dump [OF assms(2)])
  then show ?thesis
    using a r(2) by (simp add: decode_frame_def decode_utf8_def utf8_ok_ascii)
qed

lemma receive_encode:
  "encode_frame v = Inr raw \<Longrightarrow> wf_json (JObj v) \<Longrightarrow> plain_json (JObj v) \<Longrightarrow> receive (Some raw) = Inr v"
  by (drule (2) decode_encode) (simp add: receive_def)

section \<open>Observations\<close>

lemma set_mk_dict: "set (mk_dict kvs) \<subseteq> set kvs"
proof (induction kvs rule: rev_induct)
  case (snoc x kvs)
  have "set (dput k v d) \<subseteq> insert (k, v) (set d)" for k v and d :: "(string \<times> 'a) list"
    by (induction k v d rule: dput.induct) auto
  with snoc show ?case by (cases x) (fastforce simp: mk_dict_snoc)
qed (simp add: mk_dict_def)

lemma length_mk_dict: "length (mk_dict kvs) \<le> length kvs"
proof (induction kvs rule: rev_induct)
  case (snoc x kvs)
  have "length (dput k v d) \<le> Suc (length d)" for k v and d :: "(string \<times> 'a) list"
    by (induction k v d rule: dput.induct) auto
  with snoc show ?case by (cases x) (simp add: mk_dict_snoc, meson le_trans not_less_eq_eq)
qed (simp add: mk_dict_def)

lemma observe_valid:
  assumes "1 \<le> py_len p \<and> py_len p \<le> 40" and "1 \<le> py_len c \<and> py_len c \<le> 80" and "sv \<in> set severities"
    and "1 \<le> py_len sm \<and> py_len sm \<le> 300" and "length ev \<le> 16" and "list_all evidence_item_ok ev"
  shows "validate_observation (JObj (observe p c sv sm ev)) = Inr (observe p c sv sm ev)"
proof -
  have f: "dget (observe p c sv sm ev) ''provider'' = JStr p" "dget (observe p c sv sm ev) ''category'' = JStr c"
    "dget (observe p c sv sm ev) ''severity'' = JStr sv" "dget (observe p c sv sm ev) ''summary'' = JStr sm"
    "dget (observe p c sv sm ev) ''evidence'' = JObj (mk_dict ev)"
    "dget (observe p c sv sm ev) ''quarantine_eligible'' = JBool False"
    "keys_of (observe p c sv sm ev) = {''provider'', ''category'', ''severity'', ''summary'', ''evidence'', ''quarantine_eligible''}"
    using assms(4) by (auto simp: observe_def dget_mk_dict keys_of_mk_dict py_take_id)
  have "length (mk_dict ev) \<le> 16" using length_mk_dict [of ev] assms(5) by simp
  moreover have "list_all evidence_item_ok (mk_dict ev)"
    using set_mk_dict [of ev] assms(6) by (auto simp: list_all_iff)
  ultimately show ?thesis
    using assms(1-4) by (simp add: validate_observation_def Let_def f)
qed

lemma evidence_str: "1 \<le> py_len k \<and> py_len k \<le> 80 \<Longrightarrow> py_len s \<le> 500 \<Longrightarrow> evidence_item_ok (k, JStr s)"
  and evidence_int: "1 \<le> py_len k \<and> py_len k \<le> 80 \<Longrightarrow> evidence_item_ok (k, JInt i)"
  and evidence_bool: "1 \<le> py_len k \<and> py_len k \<le> 80 \<Longrightarrow> evidence_item_ok (k, JBool b)"
  by (simp_all add: evidence_item_ok_def)

lemma py_len_append: "py_len (s @ t) = py_len s + py_len t"
  by (simp add: py_len_def)

lemma join_len:
  "\<forall>w \<in> set ws. py_len w \<le> k \<Longrightarrow> py_len (join_with '','' ws) \<le> length ws * (k + 1)"
proof (induction "'',''" ws rule: join_with.induct)
  case (3 x y ys)
  then show ?case by (simp add: py_len_append) (simp add: py_len_def is_cont_def)
qed (auto simp: py_len_def)

lemma section_name_len: "index < 96 \<Longrightarrow> py_len (section_name value offset index) \<le> 16"
proof -
  assume i: "index < 96"
  have "py_len (dec_nat index) \<le> 2"
    using py_len_le [of "dec_nat index"] length_dec_nat [of index 2] i by simp
  moreover have "py_len ''section-'' = 8" by code_simp
  ultimately show ?thesis
    using py_len_take [of 16] by (auto simp only: section_name_def Let_def py_len_append split: if_split)
qed

lemma pe_sections_names:
  "pe_sections value st ks acc = Some (wx, high) \<Longrightarrow> \<forall>i \<in> set ks. i < 96 \<Longrightarrow>
   \<forall>w \<in> set (fst acc) \<union> set (snd acc). py_len w \<le> 16 \<Longrightarrow> \<forall>w \<in> set wx \<union> set high. py_len w \<le> 16"
proof (induction ks arbitrary: acc)
  case (Cons i ks)
  from Cons.prems(1) obtain acc' where p: "pe_section value st i acc = Some acc'"
    and r: "pe_sections value st ks acc' = Some (wx, high)" by (auto simp: bind_eq_Some_conv)
  have "\<forall>w \<in> set (fst acc') \<union> set (snd acc'). py_len w \<le> 16"
    using p Cons.prems(2,3) section_name_len [of i "value" "st + i * 40"]
    by (auto simp: pe_section_def Let_def bind_eq_Some_conv split: if_splits)
  from Cons.IH [OF r _ this] Cons.prems(2) show ?case by simp
qed auto

definition ok_obs :: "dict \<Rightarrow> bool" where
  "ok_obs d = (validate_observation (JObj d) = Inr d)"

text \<open>The names and summaries are short ASCII texts.\<close>

definition short :: "nat \<Rightarrow> string \<Rightarrow> bool" where
  "short n s = (s \<noteq> [] \<and> length s \<le> n \<and> is_ascii s)"

lemma short_len: "short n s \<Longrightarrow> 1 \<le> py_len s \<and> py_len s \<le> n"
  by (simp add: short_def py_len_ascii Suc_le_eq)

lemma ok_observe:
  "short 40 p \<Longrightarrow> short 80 c \<Longrightarrow> short 300 sm \<Longrightarrow> sv \<in> set severities \<Longrightarrow> length ev \<le> 16 \<Longrightarrow>
   list_all evidence_item_ok ev \<Longrightarrow> ok_obs (observe p c sv sm ev)"
  unfolding ok_obs_def by (rule observe_valid) (simp_all add: short_len [simplified])

lemma evidence_ok:
  "list_all evidence_item_ok []"
  "short 80 k \<Longrightarrow> list_all evidence_item_ok ev \<Longrightarrow> list_all evidence_item_ok ((k, JInt i) # ev)"
  "short 80 k \<Longrightarrow> list_all evidence_item_ok ev \<Longrightarrow> list_all evidence_item_ok ((k, JBool b) # ev)"
  "short 80 k \<Longrightarrow> py_len s \<le> 500 \<Longrightarrow> list_all evidence_item_ok ev \<Longrightarrow> list_all evidence_item_ok ((k, JStr s) # ev)"
  by (auto simp: evidence_item_ok_def dest: short_len)

lemma ok_nil: "list_all ok_obs []" and ok_cons: "ok_obs d \<Longrightarrow> list_all ok_obs ds \<Longrightarrow> list_all ok_obs (d # ds)"
  and ok_append: "list_all ok_obs ds \<Longrightarrow> list_all ok_obs es \<Longrightarrow> list_all ok_obs (ds @ es)"
  and ok_if: "(b \<Longrightarrow> list_all ok_obs ds) \<Longrightarrow> (\<not> b \<Longrightarrow> list_all ok_obs es) \<Longrightarrow> list_all ok_obs (if b then ds else es)"
  by simp_all

lemmas ok_intros = ok_observe evidence_ok ok_nil ok_cons ok_append ok_if

lemmas literal_simps = short_def ord_def severities_def

lemma joined_names: "\<forall>w \<in> set ws. py_len w \<le> 16 \<Longrightarrow> py_len (join_with '','' (take 8 ws)) \<le> 500"
proof -
  assume "\<forall>w \<in> set ws. py_len w \<le> 16"
  then have "\<forall>w \<in> set (take 8 ws). py_len w \<le> 16" by (auto dest: in_set_takeD)
  from join_len [OF this] have "py_len (join_with '','' (take 8 ws)) \<le> length (take 8 ws) * 17" by simp
  also have "\<dots> \<le> 8 * 17" by (intro mult_le_mono) simp_all
  finally show ?thesis by simp
qed

lemma hex_text: "py_len (''0x'' @ hex4 n) \<le> 500"
  using py_len_le [of "''0x'' @ hex4 n"] by (simp add: hex4_def)

lemma pe_observations_ok:
  assumes "\<forall>w \<in> set wx \<union> set high. py_len w \<le> 16"
  shows "list_all ok_obs (pe_observations machine section_count timestamp characteristics certificate wx high)"
  unfolding pe_observations_def
  using assms by (intro ok_intros joined_names hex_text) (simp_all add: literal_simps)

lemma pe_report_ok: "pe_report value n = Some obs \<Longrightarrow> list_all ok_obs obs"
proof -
  define P where "P r = (\<forall>obs. r = Some obs \<longrightarrow> list_all ok_obs obs)" for r
  have bind: "P (Option.bind m f)" if "\<And>x. m = Some x \<Longrightarrow> P (f x)" for m :: "'b option" and f
    using that by (cases m) (simp_all add: P_def)
  have sel: "P (if c then x else y)" if "P x" "\<not> c \<Longrightarrow> P y" for c x y using that by simp
  have some: "P (Some ds)" if "list_all ok_obs ds" for ds using that by (simp add: P_def)
  have fin: "P (case wh of (wx, high) \<Rightarrow> Some (pe_observations m s t c cert wx high))"
    if "pe_sections v st [0..<k] ([], []) = Some wh" "\<not> (k < 1 \<or> 96 < k)" for wh m s t c cert v st k
  proof -
    obtain wx high where w: "wh = (wx, high)" by force
    have "\<forall>w \<in> set wx \<union> set high. py_len w \<le> 16"
      by (rule pe_sections_names [OF that(1) [unfolded w]]) (use that(2) in auto)
    then show ?thesis by (simp add: w P_def pe_observations_ok)
  qed
  have "P (pe_report value n)"
    unfolding pe_report_def Let_def
    apply (rule bind, rule sel, rule some)
     apply (intro ok_intros; simp add: literal_simps)
    apply ((rule bind)+, rule sel, rule some)
     apply (intro ok_intros; simp add: literal_simps)
    apply (rule sel, rule some)
     apply (intro ok_intros; simp add: literal_simps)
    apply (rule bind, rule bind, erule fin, assumption)
    done
  then show "pe_report value n = Some obs \<Longrightarrow> list_all ok_obs obs" by (simp add: P_def)
qed

lemma inspect_pe_ok: "list_all ok_obs (inspect_pe value n)"
proof -
  have m: "list_all ok_obs [observe ''pe'' ''malformed_pe'' ''medium'' ''Malformed PE metadata'' []]"
    by (intro ok_intros) (simp_all add: literal_simps)
  have "list_all ok_obs (case pe_report value n of
      None \<Rightarrow> [observe ''pe'' ''malformed_pe'' ''medium'' ''Malformed PE metadata'' []] | Some obs \<Rightarrow> obs)"
    by (cases "pe_report value n") (simp_all only: option.case m pe_report_ok)
  then show ?thesis unfolding inspect_pe_def by (intro ok_if ok_nil)
qed

lemma inspect_script_ok: "list_all ok_obs (inspect_script value)"
  unfolding inspect_script_def Let_def by (intro ok_intros) (simp_all add: literal_simps)

lemma zip_observations_ok: "list_all ok_obs (zip_observations entries)"
  unfolding zip_observations_def Let_def by (intro ok_intros) (simp_all add: literal_simps)

lemma inspect_zip_ok: "\<forall>v e. zf v = Inl e \<longrightarrow> py_len e \<le> 500 \<Longrightarrow> list_all ok_obs (inspect_zip zf value n)"
  unfolding inspect_zip_def
  by (cases "zf value") (auto simp only: sum.case intro!: ok_intros zip_observations_ok, simp_all add: literal_simps)

lemma inspect_content_ok:
  assumes "\<forall>v e. zf v = Inl e \<longrightarrow> py_len e \<le> 500"
  shows "list_all ok_obs (inspect_content zf value n)"
  using inspect_pe_ok [of "value" n] inspect_script_ok [of "value"] inspect_zip_ok [OF assms, of "value" n]
  by (auto simp: inspect_content_def list_all_iff dest: in_set_takeD)

section \<open>An honest worker is understood\<close>

definition honest_answer :: "zip_reader \<Rightarrow> string \<Rightarrow> string list \<Rightarrow> string \<Rightarrow> dict" where
  "honest_answer zf rid ids content = update_dict
     (mk_dict [(''protocol'', JStr worker_protocol), (''request_id'', JStr rid)])
     (mk_dict [(''ok'', JBool True), (''sha256'', JStr (hexdigest content)),
       (''bytes_read'', JInt (int (length content))), (''literal_rule_ids'', JList (map JStr ids)),
       (''observations'', JList (map JObj (inspect_content zf (take max_inspection_bytes content) (length content))))])"

lemma mk_dict_sorted_answer: "honest_answer zf rid ids content = mk_dict
    [(''protocol'', JStr worker_protocol), (''request_id'', JStr rid), (''ok'', JBool True),
     (''sha256'', JStr (hexdigest content)), (''bytes_read'', JInt (int (length content))),
     (''literal_rule_ids'', JList (map JStr ids)),
     (''observations'', JList (map JObj (inspect_content zf (take max_inspection_bytes content) (length content))))]"
  by (simp add: honest_answer_def update_dict_def mk_dict_def)

lemma scan_request_wf: "length (dec_nat n) \<le> 4300 \<Longrightarrow> wf_json (JObj (scan_request rid n))"
  unfolding scan_request_def by (intro wf_json_mk_dict) (simp add: dec_int_def)

lemma validate_honest:
  assumes "distinct ids" and "set ids \<subseteq> set (map rule_id (filter (\<lambda>r. r_kind r = Literal_Rule) rules))"
    and "\<forall>v e. zf v = Inl e \<longrightarrow> py_len e \<le> 500"
  shows "validate_response rules (honest_answer zf rid ids content) (length content) rid
    = Inr \<lparr>ws_sha256 = hexdigest content, ws_bytes_read = int (length content), ws_literal_rule_ids = ids,
           ws_observations = inspect_content zf (take max_inspection_bytes content) (length content)\<rparr>"
proof -
  let ?h = "honest_answer zf rid ids content" and ?o = "inspect_content zf (take max_inspection_bytes content) (length content)"
  have f: "dget ?h ''protocol'' = JStr worker_protocol" "dget ?h ''request_id'' = JStr rid" "dget ?h ''ok'' = JBool True"
    "dget ?h ''sha256'' = JStr (hexdigest content)" "dget ?h ''bytes_read'' = JInt (int (length content))"
    "dget ?h ''literal_rule_ids'' = JList (map JStr ids)" "dget ?h ''observations'' = JList (map JObj ?o)"
    "keys_of ?h = set [''protocol'', ''request_id'', ''ok'', ''sha256'', ''bytes_read'', ''literal_rule_ids'', ''observations'']"
    unfolding mk_dict_sorted_answer by (simp_all add: dget_mk_dict keys_of_mk_dict)
  have o: "rmap validate_observation (map JObj ?o) = Inr ?o"
    using inspect_content_ok [OF assms(3), of "take max_inspection_bytes content" "length content"]
    unfolding rmap_Inr_iff by (simp add: list_all2_conv_all_nth list_all_length ok_obs_def)
  have l: "\<not> 32 < length (map JObj ?o)" by (simp add: inspect_content_def max_observations_def)
  have h: "length (hexdigest content) = 64" "list_all is_hex_lower (hexdigest content)"
    using hexdigest_length hexdigest_lower by (auto simp: list_all_iff)
  have s: "map str_of (map JStr ids) = ids" "list_all is_str (map JStr ids)"
    by (simp_all add: map_idI list_all_iff)
  show ?thesis
    using assms(1,2) h
    by (simp only: validate_response_def require_fields_def Let_def f o l s is_str.simps is_pyint.simps is_list.simps
        str_of.simps int_of.simps list_of.simps rbind.simps simp_thms if_False if_True not_True_eq_False)
qed

lemma broker_stream_all:
  "length (sent @ concat chunks) \<le> n \<Longrightarrow> length (sent @ concat chunks) \<le> max_bytes \<Longrightarrow>
   broker_stream n max_bytes chunks sent = Inr (sent @ concat chunks)"
  by (induction n max_bytes chunks sent rule: broker_stream.induct) (auto simp: Let_def)

lemma scan_request_ok:
  assumes "valid_request_id (JStr rid)" and "n \<le> 16 * 1024 * 1024 * 1024"
  shows "wf_json (JObj (scan_request rid n))" and "plain_json (JObj (scan_request rid n))"
proof -
  have "length (dec_nat n) \<le> 11" by (rule length_dec_nat) (use assms(2) in simp_all)
  then show "wf_json (JObj (scan_request rid n))"
    unfolding scan_request_def by (intro wf_json_mk_dict) (simp add: dec_int_def)
  have "plain rid" using assms(1) by (simp add: valid_request_id_def lower_hex_plain)
  then show "plain_json (JObj (scan_request rid n))"
    unfolding scan_request_def worker_protocol_def by (intro plain_mk_dict) (simp_all add: ord_def)
qed

lemma honest_answer_ok:
  assumes "valid_request_id (JStr rid)" and "length content \<le> 16 * 1024 * 1024 * 1024" and "list_all plain ids"
    and "\<forall>d \<in> set (inspect_content zf (take max_inspection_bytes content) (length content)). wf_json (JObj d) \<and> plain_json (JObj d)"
  shows "wf_json (JObj (honest_answer zf rid ids content))" and "plain_json (JObj (honest_answer zf rid ids content))"
proof -
  have "length (dec_nat (length content)) \<le> 11" by (rule length_dec_nat) (use assms(2) in simp_all)
  then show "wf_json (JObj (honest_answer zf rid ids content))"
    unfolding mk_dict_sorted_answer using assms(4) by (intro wf_json_mk_dict) (auto simp: dec_int_def list_all_iff simp del: wf_json.simps(7))
  have "plain rid" "plain (hexdigest content)"
    using assms(1) hexdigest_lower [of content] by (auto simp: valid_request_id_def list_all_iff intro!: lower_hex_plain)
  then show "plain_json (JObj (honest_answer zf rid ids content))"
    unfolding mk_dict_sorted_answer worker_protocol_def
    using assms(3,4) by (intro plain_mk_dict) (auto simp: ord_def list_all_iff simp del: plain_json.simps(7))
qed

lemma worker_loop_honest:
  assumes "good_rules rules" and "\<forall>c \<in> set chunks. c \<noteq> [] \<and> length c \<le> chunk_bytes"
    and "length (concat chunks) \<le> max_bytes" and "max_bytes \<le> 16 * 1024 * 1024 * 1024"
    and "valid_request_id (JStr rid)"
    and "encode_frame (scan_request rid (length (concat chunks))) = Inr request"
  shows "worker_loop zf (literals_of rules) (int chunk_bytes) (int max_bytes) (request # chunks)
    = (case encode_frame (honest_answer zf rid (matching_ids rules (concat chunks)) (concat chunks)) of
         Inl _ \<Rightarrow> [] | Inr out \<Rightarrow> [out])"
proof -
  have n: "length (concat chunks) \<le> 16 * 1024 * 1024 * 1024" using assms(3,4) by simp
  note q = receive_encode [OF assms(6) scan_request_ok [OF assms(5) n]]
  have f: "dget (scan_request rid k) ''operation'' = JStr ''scan''" "dget (scan_request rid k) ''protocol'' = JStr worker_protocol"
    "dget (scan_request rid k) ''request_id'' = JStr rid"
    "keys_of (scan_request rid k) = {''protocol'', ''operation'', ''request_id'', ''size''}" for k
    by (simp_all add: scan_request_def dget_mk_dict keys_of_mk_dict)
  have e: "worker_loop zf (literals_of rules) (int chunk_bytes) (int max_bytes) [] = []"
    by (subst worker_loop.simps) simp
  show ?thesis
    unfolding worker_loop.simps [of zf "literals_of rules" "int chunk_bytes" "int max_bytes" "request # chunks"]
    by (simp add: q f assms(5) scan_stream_ids [OF assms(1,2,3)] honest_answer_def [symmetric] e split: sum.split)
qed

lemma broker_honest:
  assumes "good_rules rules" and "\<forall>r \<in> set rules. plain (rule_id r)"
    and "\<forall>c \<in> set chunks. c \<noteq> [] \<and> length c \<le> chunk_bytes"
    and "length (concat chunks) \<le> max_bytes" and "max_bytes \<le> 16 * 1024 * 1024 * 1024"
    and "\<forall>v e. zf v = Inl e \<longrightarrow> py_len e \<le> 500"
    and "\<forall>d \<in> set (inspect_content zf (take max_inspection_bytes (concat chunks)) (length (concat chunks))).
           wf_json (JObj d) \<and> plain_json (JObj d)"
    and "valid_request_id (JStr rid)"
    and "encode_frame (scan_request rid (length (concat chunks))) = Inr request"
    and "encode_frame (honest_answer zf rid (matching_ids rules (concat chunks)) (concat chunks)) = Inr answer"
  shows "broker_inspect rules max_bytes (length (concat chunks), t) chunks (length (concat chunks), t) rid (Some answer)
      = Inr \<lparr>ws_sha256 = hexdigest (concat chunks), ws_bytes_read = int (length (concat chunks)),
          ws_literal_rule_ids = matching_ids rules (concat chunks),
          ws_observations = inspect_content zf (take max_inspection_bytes (concat chunks)) (length (concat chunks))\<rparr>"
proof -
  let ?c = "concat chunks" and ?ids = "matching_ids rules (concat chunks)"
  have n: "length ?c \<le> 16 * 1024 * 1024 * 1024" using assms(4,5) by simp
  note m = matching_ids [OF assms(1), of ?c]
  have i: "set ?ids \<subseteq> set (map rule_id (filter (\<lambda>r. r_kind r = Literal_Rule) rules))"
    using m(1) found_ids by blast
  then have p: "list_all plain ?ids" using assms(2) by (auto simp: list_all_iff)
  have a: "receive (Some answer) = Inr (honest_answer zf rid ?ids ?c)"
    by (rule receive_encode [OF assms(10) honest_answer_ok [OF assms(8) n p assms(7)]])
  show ?thesis
    using broker_stream_all [of "[]" chunks "length ?c" max_bytes] assms(4)
    by (simp add: broker_inspect_def assms(9) a validate_honest [OF m(2) i assms(6)])
qed

text \<open>
  What an honest worker answers is accepted and understood by the broker: with the rules the
  scanner admits and identifiers and observations in plain ASCII, a file streamed in frames of
  the agreed size gives the broker the SHA-256 and the size of the content, exactly the literal
  rules that occur in it, and the observations of the content inspection.
\<close>

theorem honest_worker_understood:
  assumes "good_rules rules" and "\<forall>r \<in> set rules. plain (rule_id r)"
    and "\<forall>c \<in> set chunks. c \<noteq> [] \<and> length c \<le> chunk_bytes"
    and "length (concat chunks) \<le> max_bytes" and "max_bytes \<le> 16 * 1024 * 1024 * 1024"
    and "\<forall>v e. zf v = Inl e \<longrightarrow> py_len e \<le> 500"
    and "\<forall>d \<in> set (inspect_content zf (take max_inspection_bytes (concat chunks)) (length (concat chunks))).
           wf_json (JObj d) \<and> plain_json (JObj d)"
    and "valid_request_id (JStr rid)"
    and "encode_frame (scan_request rid (length (concat chunks))) = Inr request"
    and "worker_loop zf (literals_of rules) (int chunk_bytes) (int max_bytes) (request # chunks) = [answer]"
  shows "\<exists>ids. broker_inspect rules max_bytes (length (concat chunks), t) chunks (length (concat chunks), t) rid (Some answer)
      = Inr \<lparr>ws_sha256 = hexdigest (concat chunks), ws_bytes_read = int (length (concat chunks)), ws_literal_rule_ids = ids,
          ws_observations = inspect_content zf (take max_inspection_bytes (concat chunks)) (length (concat chunks))\<rparr>
    \<and> set ids = {rule_id r | r l. r \<in> set rules \<and> r_kind r = Literal_Rule \<and> r_literal r = Some l
                                 \<and> infixb l (concat chunks)}"
proof -
  have "encode_frame (honest_answer zf rid (matching_ids rules (concat chunks)) (concat chunks)) = Inr answer"
    using assms(10) unfolding worker_loop_honest [OF assms(1,3,4,5,8,9)] by (auto split: sum.splits)
  from broker_honest [OF assms(1-9) this] show ?thesis
    using matching_ids(1) [OF assms(1), of "concat chunks"] found_rules [OF assms(1), of "concat chunks"] by blast
qed

section \<open>An arbitrary worker\<close>

text \<open>
  C30: Whatever a worker process answers, a result the broker accepts has the SHA-256 of the bytes
  the broker itself read, all of an unchanged file; it names only literal rules of the scanner,
  each once, and at most 32 observations, none eligible for quarantine and each of a known severity.
\<close>

theorem hostile_worker_confined:
  assumes "broker_inspect rules max_bytes opened chunks after rid reply = Inr r"
  shows "ws_sha256 r = hexdigest (concat chunks) \<and> after = opened \<and> length (concat chunks) = fst opened
    \<and> ws_bytes_read r = int (fst opened) \<and> fst opened \<le> max_bytes
    \<and> distinct (ws_literal_rule_ids r)
    \<and> set (ws_literal_rule_ids r) \<subseteq> {rule_id x | x. x \<in> set rules \<and> r_kind x = Literal_Rule}
    \<and> length (ws_observations r) \<le> 32
    \<and> (\<forall>d \<in> set (ws_observations r). dget d ''quarantine_eligible'' = JBool False
         \<and> dget d ''severity'' \<in> JStr ` set severities)"
proof -
  from assms obtain sent response where s: "broker_stream (fst opened) max_bytes chunks [] = Inr sent"
    and u: "after = opened" "length sent = fst opened"
    and v: "validate_response rules response (fst opened) rid = Inr r" and d: "ws_sha256 r = hexdigest sent"
    by (auto simp: broker_inspect_def rbind_Inr_iff split: if_splits)
  have b: "broker_stream n m cs acc = Inr out \<Longrightarrow> out = acc @ concat cs \<and> (cs = [] \<or> length out \<le> m)" for n m cs acc out
    by (induction n m cs acc rule: broker_stream.induct) (auto simp: Let_def split: if_splits)
  note c = b [OF s, simplified]
  have o: "dget x ''quarantine_eligible'' = JBool False \<and> dget x ''severity'' \<in> JStr ` set severities"
    if "validate_observation y = Inr x" for x y
    using that by (auto simp: validate_observation_def Let_def observation_fields_error_def split: if_splits)
  from v obtain obs where f: "ws_bytes_read r = int (fst opened)" "distinct (ws_literal_rule_ids r)"
    "set (ws_literal_rule_ids r) \<subseteq> set (map rule_id (filter (\<lambda>r. r_kind r = Literal_Rule) rules))"
    "length obs \<le> 32" "rmap validate_observation obs = Inr (ws_observations r)"
    by (auto simp: validate_response_def Let_def rbind_Inr_iff schema_error_def not_less split: if_splits)
  have l: "length (ws_observations r) \<le> 32" using rmap_length [OF f(5)] f(4) by simp
  have q: "\<forall>d \<in> set (ws_observations r). dget d ''quarantine_eligible'' = JBool False
         \<and> dget d ''severity'' \<in> JStr ` set severities"
    using rmap_InrD [OF f(5)] o by blast
  have m: "fst opened \<le> max_bytes" using c u(2) by auto
  show ?thesis using d c u f(1-3) l q m by auto
qed

section \<open>The life of a process\<close>

text \<open>The events of a broker: a scan first makes sure of a process, then its outcome counts.\<close>

inductive broker_step :: "nat \<Rightarrow> broker \<Rightarrow> broker \<Rightarrow> bool" for max_requests where
  scan: "ensure_started max_requests alive pid hello ack cfg b = (Inr (), b1) \<Longrightarrow>
     broker_request outcome b1 = (r, b2) \<Longrightarrow> broker_step max_requests b b2"
| no_start: "ensure_started max_requests alive pid hello ack cfg b = (Inl e, b1) \<Longrightarrow> broker_step max_requests b b1"
| close: "broker_step max_requests b (broker_close b)"

inductive broker_reachable :: "nat \<Rightarrow> broker \<Rightarrow> bool" for max_requests where
  start: "broker_reachable max_requests broker0"
| step: "broker_reachable max_requests b \<Longrightarrow> broker_step max_requests b b' \<Longrightarrow> broker_reachable max_requests b'"

lemma broker_start_requests: "broker_start pid hello ack cfg b = (r, b') \<Longrightarrow> bk_requests b' = 0"
  by (auto simp: broker_start_def Let_def broker_close_def split: sum.splits if_splits)

lemma ensure_started_requests:
  "ensure_started n alive pid hello ack cfg b = (r, b') \<Longrightarrow> 1 \<le> n \<Longrightarrow> bk_requests b' < n"
  by (auto simp: ensure_started_def dest: broker_start_requests split: if_splits)

text \<open>
  In every reachable state of the broker the current process has served at most the
  configured number of requests, and without a process none is counted.
\<close>

theorem worker_requests_bounded:
  assumes "broker_reachable max_requests b" and "1 \<le> max_requests"
  shows "bk_requests b \<le> max_requests \<and> (bk_process b = None \<longrightarrow> bk_requests b = 0)"
  using assms(1)
proof induction
  case (step b b')
  from step.hyps(2) show ?case
  proof (cases rule: broker_step.cases)
    case (scan alive pid hello ack cfg b1 outcome r)
    then have "bk_requests b1 < max_requests" using ensure_started_requests assms(2) by blast
    moreover have "bk_process b1 \<noteq> None"
      using scan(1) by (auto simp: ensure_started_def broker_start_def Let_def broker_close_def split: if_splits sum.splits)
    ultimately show ?thesis
      using scan(2) by (auto simp: broker_request_def broker_close_def split: sum.splits if_splits)
  next
    case (no_start alive pid hello ack cfg e)
    then show ?thesis
      by (auto simp: ensure_started_def dest: broker_start_requests split: if_splits)
  qed (simp add: broker_close_def)
qed (simp add: broker0_def)

section \<open>An example\<close>

definition ex_rules :: "rule list" where
  "ex_rules = [\<lparr>rule_id = ''lab'', r_name = ''n'', r_kind = Literal_Rule, r_severity = Low, r_description = ''d'',
     r_source = ''s'', r_digest = None, r_literal = Some ''XY''\<rparr>]"

definition ex_chunks :: "string list" where
  "ex_chunks = [''aX'', ''Yb'']"

definition ex_rid :: string where
  "ex_rid = replicate 32 CHR ''0''"

definition ex_zip :: zip_reader where
  "ex_zip v = Inr []"

lemma ex_scan_facts: "good_rules ex_rules" "\<forall>r \<in> set ex_rules. plain (rule_id r)"
  "\<forall>c \<in> set ex_chunks. c \<noteq> [] \<and> length c \<le> 4096" "length (concat ex_chunks) \<le> 100" "(100::nat) \<le> 16 * 1024 * 1024 * 1024"
  "\<forall>v e. ex_zip v = Inl e \<longrightarrow> py_len e \<le> 500" "concat ex_chunks = ''aXYb''" "infixb ''XY'' (concat ex_chunks)"
  "valid_request_id (JStr ex_rid)"
  by (simp_all add: ex_rules_def good_rules_def ex_chunks_def ex_zip_def ord_def) code_simp

lemma ex_no_observations: "inspect_content ex_zip (take max_inspection_bytes (concat ex_chunks)) (length (concat ex_chunks)) = []"
proof -
  have "take max_inspection_bytes ''aXYb'' = ''aXYb''" by (simp add: max_inspection_bytes_def)
  moreover have "inspect_content ex_zip ''aXYb'' 4 = []"
  proof -
    have m: "\<not> any_word script_markers (lower ''aXYb'')" by code_simp
    have t: "take (1024 * 1024) ''aXYb'' = ''aXYb''" by simp
    have "inspect_script ''aXYb'' = []"
      using m by (simp only: inspect_script_def Let_def t simp_thms if_True if_cancel)
    then show ?thesis by (simp add: inspect_content_def inspect_pe_def inspect_zip_def)
  qed
  moreover have "length ''aXYb'' = 4" by simp
  ultimately show ?thesis by (simp only: ex_scan_facts(7))
qed

lemma ex_request: "encode_frame (scan_request ex_rid (length (concat ex_chunks))) = Inr (dump Compact 0 (JObj (scan_request ex_rid 4)))"
proof -
  have "length (dump Compact 0 (JObj (scan_request ex_rid 4))) \<le> 1000" by code_simp
  moreover have "plain (dump Compact 0 (JObj (scan_request ex_rid 4)))"
    by (rule plain_dump, rule scan_request_ok) (simp_all add: ex_scan_facts(9))
  moreover have l: "length (concat ex_chunks) = 4" by (simp add: ex_scan_facts(7))
  ultimately show ?thesis
    unfolding l by (simp only: encode_frame_def ascii_escape_plain max_protocol_bytes_def Let_def split: if_split) simp
qed

definition ex_answer :: string where
  "ex_answer = dump Compact 0 (JObj (honest_answer ex_zip ex_rid (matching_ids ex_rules (concat ex_chunks)) (concat ex_chunks)))"

lemma ex_answer: "encode_frame (honest_answer ex_zip ex_rid (matching_ids ex_rules (concat ex_chunks)) (concat ex_chunks)) = Inr ex_answer"
proof -
  let ?h = "hexdigest (concat ex_chunks)"
  have i: "matching_ids ex_rules (concat ex_chunks) = [''lab'']"
    unfolding ex_scan_facts(7) by code_simp
  have h: "length (quote_str ?h) \<le> 386"
    using quote_length [of ?h] by (simp add: hexdigest_length)
  have r: "honest_answer ex_zip ex_rid [''lab''] (concat ex_chunks) = [(''bytes_read'', JInt 4),
      (''literal_rule_ids'', JList [JStr ''lab'']), (''observations'', JList []), (''ok'', JBool True),
      (''protocol'', JStr worker_protocol), (''request_id'', JStr ex_rid), (''sha256'', JStr ?h)]"
    unfolding mk_dict_sorted_answer ex_no_observations by (simp add: mk_dict_def ex_scan_facts(7))
  have l: "length (quote_str worker_protocol) \<le> 150" "length (quote_str ex_rid) \<le> 200" "length (quote_str ''lab'') \<le> 20"
    "length (quote_str ''bytes_read'') \<le> 100" "length (quote_str ''literal_rule_ids'') \<le> 100" "length (quote_str ''observations'') \<le> 100"
    "length (quote_str ''ok'') \<le> 100" "length (quote_str ''protocol'') \<le> 100" "length (quote_str ''request_id'') \<le> 100"
    "length (quote_str ''sha256'') \<le> 100" "length (dec_int 4) \<le> 1"
    by code_simp+
  have s: "length (dump Compact 0 (JObj (honest_answer ex_zip ex_rid [''lab''] (concat ex_chunks)))) \<le> 2000"
    unfolding r using h l by (simp add: newline_def colon_def)
  have "plain (dump Compact 0 (JObj (honest_answer ex_zip ex_rid [''lab''] (concat ex_chunks))))"
    by (rule plain_dump, rule honest_answer_ok) (simp_all add: ex_scan_facts(9) ex_no_observations, simp_all add: ex_scan_facts(7) ord_def)
  then show ?thesis
    unfolding i ex_answer_def using s
    by (simp only: encode_frame_def ascii_escape_plain max_protocol_bytes_def Let_def split: if_split) simp
qed

lemma ex_worker: "worker_loop ex_zip (literals_of ex_rules) (int 4096) (int 100)
    (dump Compact 0 (JObj (scan_request ex_rid 4)) # ex_chunks) = [ex_answer]"
  using worker_loop_honest [OF ex_scan_facts(1,3,4,5,9) ex_request, of ex_zip] by (simp only: ex_answer sum.case)

lemma worker_scan_exact_witness:
  "\<exists>body. scan_stream ex_zip (scan_request ex_rid (length (concat ex_chunks))) (literals_of ex_rules) (int 4096) (int 100) ex_chunks
     = (Inr body, [])"
  using worker_scan_exact [OF ex_scan_facts(1,3,4), of ex_zip ex_rid] by blast

lemma honest_worker_understood_witness:
  "\<exists>ids. broker_inspect ex_rules 100 (length (concat ex_chunks), 5) ex_chunks (length (concat ex_chunks), 5) ex_rid (Some ex_answer)
      = Inr \<lparr>ws_sha256 = hexdigest (concat ex_chunks), ws_bytes_read = int (length (concat ex_chunks)), ws_literal_rule_ids = ids,
          ws_observations = inspect_content ex_zip (take max_inspection_bytes (concat ex_chunks)) (length (concat ex_chunks))\<rparr>
    \<and> set ids = {rule_id r | r l. r \<in> set ex_rules \<and> r_kind r = Literal_Rule \<and> r_literal r = Some l
                                 \<and> infixb l (concat ex_chunks)}"
  by (rule honest_worker_understood [OF ex_scan_facts(1-6) _ ex_scan_facts(9) ex_request ex_worker])
     (simp add: ex_no_observations)

lemma hostile_worker_confined_witness:
  "\<exists>r. broker_inspect ex_rules 100 (length (concat ex_chunks), 5) ex_chunks (length (concat ex_chunks), 5) ex_rid (Some ex_answer) = Inr r
     \<and> ws_sha256 r = hexdigest (concat ex_chunks)"
proof -
  have "\<exists>r. broker_inspect ex_rules 100 (length (concat ex_chunks), 5) ex_chunks (length (concat ex_chunks), 5) ex_rid (Some ex_answer) = Inr r"
    using broker_honest [OF ex_scan_facts(1-6) _ ex_scan_facts(9) ex_request ex_answer] by (simp add: ex_no_observations)
  then show ?thesis using hostile_worker_confined by blast
qed

lemma worker_requests_bounded_witness:
  "bk_requests (broker_close broker0) \<le> 2 \<and> bk_requests (broker_close broker0) = 0"
  using worker_requests_bounded [OF broker_reachable.step [OF broker_reachable.start broker_step.close], of 2]
  by (simp add: broker_close_def broker0_def)

end
