(* ===== verification/Scanner_Proofs.thy ===== *)
theory Scanner_Proofs
  imports Scanner_Walk Scan_Worker_Proofs
begin

text \<open>
  The scan of a file: the finding names exactly the rules that match the content, and the
  isolation of the content in a worker process does not change it.
\<close>

section \<open>The configured scanner\<close>

lemma rfold_check: "rfold check_rule rules () = Inr u \<longleftrightarrow> (\<forall>r \<in> set rules. check_rule r () = Inr ())"
  by (induction rules) (auto simp: rbind_Inr_iff)

lemma check_rule_ok: "check_rule r () = Inr () \<longleftrightarrow>
    (r_kind r = Sha256_Rule \<longrightarrow> (\<exists>d. r_digest r = Some d)) \<and> (r_kind r = Literal_Rule \<longrightarrow> (\<exists>l. r_literal r = Some l \<and> l \<noteq> []))"
  by (auto simp: check_rule_def)

lemma new_scanner_ok:
  assumes "new_scanner os rules cfg = Inr s"
  shows "good_rules (sn_rules s)" and "sn_rules s = sort_key rule_id rules" and "sn_config s = cfg"
    and "sc_max_file_bytes cfg \<le> 16 * 1024 * 1024 * 1024" and "1 \<le> sc_max_file_bytes cfg"
    and "4096 \<le> sc_chunk_bytes cfg" and "sc_chunk_bytes cfg \<le> 16 * 1024 * 1024"
  using assms rfold_check [of "sort_key rule_id rules"]
  by (auto simp: new_scanner_def Let_def rbind_Inr_iff good_rules_def check_rule_ok distinct_map split: if_splits)

text \<open>
  A scanner is created exactly when its limits are in range, its rule identifiers are unique
  and every rule has what its kind needs; it then holds the rules sorted by identifier.
\<close>

theorem new_scanner_accepts:
  "(\<exists>s. new_scanner os rules cfg = Inr s) \<longleftrightarrow>
     1 \<le> sc_max_file_bytes cfg \<and> sc_max_file_bytes cfg \<le> 2 ^ 34 \<and> 4096 \<le> sc_chunk_bytes cfg \<and> sc_chunk_bytes cfg \<le> 2 ^ 24
     \<and> usec \<le> sc_worker_timeout cfg \<and> sc_worker_timeout cfg \<le> 600 * usec
     \<and> 1 \<le> sc_worker_max_requests cfg \<and> sc_worker_max_requests cfg \<le> 100000 \<and> good_rules rules"
proof -
  have k: "r_kind r = Sha256_Rule \<or> r_kind r = Literal_Rule" for r by (cases "r_kind r") auto
  have "distinct (map rule_id (sort_key rule_id rules)) \<longleftrightarrow> distinct (map rule_id rules)"
    by (simp add: distinct_map)
  then show ?thesis
    by (auto simp: new_scanner_def Let_def rbind_Inr_iff rfold_check good_rules_def check_rule_ok not_le)
qed

section \<open>The content\<close>

lemma hash_chunks_all:
  "length (data @ concat cs) \<le> max_bytes \<Longrightarrow>
   hash_chunks lits max_bytes cs data st = Some (data @ concat cs, snd (fold (match_chunk lits) cs st))"
  by (induction lits max_bytes cs data st rule: hash_chunks.induct) simp_all

lemma rule_literals_of: "rule_literals s = literals_of (sn_rules s)"
  by (simp add: rule_literals_def literals_of_def literal_rules_def)

definition matches_content :: "string \<Rightarrow> rule \<Rightarrow> bool" where
  "matches_content content r =
    (case r_kind r of Literal_Rule \<Rightarrow> (\<exists>l. r_literal r = Some l \<and> infixb l content)
     | Sha256_Rule \<Rightarrow> r_digest r = Some (hexdigest content))"

lemma matches_content_iff:
  "matches_content content r \<longleftrightarrow> r_kind r = Literal_Rule \<and> (\<exists>l. r_literal r = Some l \<and> infixb l content)
     \<or> r_kind r = Sha256_Rule \<and> r_digest r = Some (hexdigest content)"
  by (cases "r_kind r") (simp_all add: matches_content_def)

lemma matched_rules_exact:
  assumes g: "good_rules (sn_rules s)" and ids: "set ids = found (literals_of (sn_rules s)) content"
    and sorted: "sorted (map rule_id (sn_rules s))"
  shows "matched_rules s (hexdigest content) ids = filter (matches_content content) (sn_rules s)"
proof -
  have d: "distinct (map rule_id (sn_rules s))" using g by (simp add: good_rules_def)
  have inj: "inj_on rule_id (set (sn_rules s))" using d by (simp add: distinct_map)
  have lit: "rule_id r \<in> set ids \<longleftrightarrow> (\<exists>l. r_literal r = Some l \<and> infixb l content)"
    if "r \<in> set (sn_rules s)" "r_kind r = Literal_Rule" for r
  proof -
    have "rule_id r \<in> set ids \<longleftrightarrow> (\<exists>r' l. rule_id r = rule_id r' \<and> r' \<in> set (sn_rules s) \<and> r_kind r' = Literal_Rule
        \<and> r_literal r' = Some l \<and> infixb l content)"
      unfolding ids found_rules [OF g] by simp
    then show ?thesis using that inj_onD [OF inj] by metis
  qed
  let ?A = "filter (\<lambda>r. rule_id r \<in> set ids) (literal_rules s)" and ?B = "filter (\<lambda>r. r_digest r = Some (hexdigest content)) (digest_rules s)"
  have s: "set (?A @ ?B) = set (filter (matches_content content) (sn_rules s))"
    using lit by (auto simp: literal_rules_def digest_rules_def matches_content_iff)
  have "distinct ?A" "distinct ?B" using d by (simp_all add: literal_rules_def digest_rules_def distinct_map)
  moreover have "set ?A \<inter> set ?B = {}" by (auto simp: literal_rules_def digest_rules_def)
  ultimately have "distinct (?A @ ?B)" by simp
  have sub: "set (?A @ ?B) \<subseteq> set (sn_rules s)" by (auto simp: literal_rules_def digest_rules_def)
  show ?thesis
    unfolding matched_rules_def
  proof (rule map_sorted_distinct_set_unique)
    show "inj_on rule_id (set (sort_key rule_id (?A @ ?B)) \<union> set (filter (matches_content content) (sn_rules s)))"
      by (rule inj_on_subset [OF inj]) (use sub in auto)
    show "distinct (map rule_id (sort_key rule_id (?A @ ?B)))"
      using \<open>distinct (?A @ ?B)\<close> inj_on_subset [OF inj sub] by (simp only: distinct_map distinct_sort set_sort)
    show "sorted (map rule_id (filter (matches_content content) (sn_rules s)))"
      using sorted by (rule sorted_filter)
    show "distinct (map rule_id (filter (matches_content content) (sn_rules s)))"
      using d by (rule distinct_map_filter)
    show "set (sort_key rule_id (?A @ ?B)) = set (filter (matches_content content) (sn_rules s))"
      using s by (simp only: set_sort)
  qed (rule sorted_sort_key)
qed

section \<open>The finding\<close>

text \<open>A file that can be opened and read and does not change meanwhile.\<close>

definition steady :: "os \<Rightarrow> path \<Rightarrow> meta \<Rightarrow> meta \<Rightarrow> os_file \<Rightarrow> nat \<Rightarrow> bool" where
  "steady os p before m f max_bytes =
    (os_open os p = Inr f \<and> of_opened f = Inr m \<and> of_after f = Inr m \<and> of_failure f = None
     \<and> md_kind m = Reg \<and> same_opened_file before m \<and> length (concat (of_chunks f)) = md_size m \<and> md_size m \<le> max_bytes)"

definition expected_finding :: "os \<Rightarrow> scanner \<Rightarrow> path \<Rightarrow> string \<Rightarrow> nat \<Rightarrow> file_finding option" where
  "expected_finding os s p content t =
    (let matched = filter (matches_content content) (sn_rules s) in
     if matched = [] then None
     else Some \<lparr>ff_path = absolute os p, ff_sha256 = hexdigest content, ff_size = length content,
        ff_modified_at = format_utc t, ff_severity = highest_severity (map r_severity matched),
        ff_matches = map from_rule matched\<rparr>)"

lemma scan_file_finding:
  assumes n: "new_scanner os rules cfg = Inr s" and st: "steady os p before m f (sc_max_file_bytes cfg)"
    and t: "md_time m = Inr t" and ids: "set ids = found (literals_of (sn_rules s)) (concat (of_chunks f))"
    and c: "(case worker of Some inspect \<Rightarrow> worker_content os inspect trust p f m | None \<Rightarrow> read_content s f m)
      = Content (hexdigest (concat (of_chunks f))) (length (concat (of_chunks f))) ids obs"
  shows "\<exists>x'. scan_file os s worker trust p before x = Inr (expected_finding os s p (concat (of_chunks f)) t, x')"
proof -
  note o = new_scanner_ok [OF n]
  have srt: "sorted (map rule_id (sn_rules s))" unfolding o(2) by (rule sorted_sort_key)
  note q = matched_rules_exact [OF o(1) ids srt]
  from st have s: "os_open os p = Inr f" "of_opened f = Inr m" "\<not> (md_kind m \<noteq> Reg \<or> \<not> same_opened_file before m)"
    "\<not> sc_max_file_bytes (sn_config s) < md_size m"
    by (auto simp: steady_def o(3))
  have mf: "make_finding os p m d k rs = Inr \<lparr>ff_path = absolute os p, ff_sha256 = d, ff_size = k, ff_modified_at = format_utc t,
           ff_severity = highest_severity (map r_severity rs), ff_matches = map from_rule rs\<rparr>" for d k rs
    by (simp add: make_finding_def t)
  show ?thesis
    unfolding scan_file_def s(1) sum.case s(2) if_not_P [OF s(3)] if_not_P [OF s(4)] c content_result.case Let_def q mf
      expected_finding_def
    by (rule exI [of _ "add_hashed (length (concat (of_chunks f))) (x\<lparr>sx_observations := sx_observations x @ obs\<rparr>)"]) simp
qed

lemma read_content_steady:
  assumes "steady os p before m f (sc_max_file_bytes (sn_config s))" and "good_rules (sn_rules s)"
  shows "\<exists>ids. read_content s f m = Content (hexdigest (concat (of_chunks f))) (length (concat (of_chunks f))) ids []
     \<and> set ids = found (literals_of (sn_rules s)) (concat (of_chunks f))"
proof -
  have h: "hash_chunks (rule_literals s) (sc_max_file_bytes (sn_config s)) (of_chunks f) [] ([], [])
    = Some (concat (of_chunks f), snd (fold (match_chunk (literals_of (sn_rules s))) (of_chunks f) ([], [])))"
    using hash_chunks_all [of "[]" "of_chunks f" "sc_max_file_bytes (sn_config s)" "rule_literals s" "([], [])"] assms(1)
    by (simp add: steady_def rule_literals_of)
  then show ?thesis
    using stream_found [OF literals_nonempty [OF assms(2)], of "of_chunks f"] assms(1)
    by (simp add: read_content_def steady_def)
qed

text \<open>
  C29: The scan of a file that does not change reports exactly the rules that match it: the literal
  rules whose pattern occurs anywhere in the content, whatever the chunks it is read in, and the
  digest rules with its SHA-256; nothing is reported when there are none.
\<close>

theorem scan_file_exact:
  assumes "new_scanner os rules cfg = Inr s" and "steady os p before m f (sc_max_file_bytes cfg)"
    and "md_time m = Inr t"
  shows "\<exists>x'. scan_file os s None trust p before x = Inr (expected_finding os s p (concat (of_chunks f)) t, x')"
proof -
  note o = new_scanner_ok [OF assms(1)]
  obtain ids where "read_content s f m = Content (hexdigest (concat (of_chunks f))) (length (concat (of_chunks f))) ids []"
    "set ids = found (literals_of (sn_rules s)) (concat (of_chunks f))"
    using read_content_steady [of os p before m f s] assms(2) o(1,3) by auto
  then show ?thesis by (intro scan_file_finding [OF assms]) simp_all
qed


section \<open>An example\<close>

text \<open>A directory \<^verbatim>\<open>/r\<close> with the file \<^verbatim>\<open>a\<close>, and the rule of the example of the worker.\<close>

definition ex_dir :: meta where
  "ex_dir = \<lparr>md_kind = Dir, md_reparse = False, md_dev = 1, md_ino = 1, md_size = 0, md_mtime_ns = 0, md_ctime_ns = 0, md_attributes = 0, md_time = Inr 0\<rparr>"

definition ex_file :: meta where
  "ex_file = \<lparr>md_kind = Reg, md_reparse = False, md_dev = 1, md_ino = 2, md_size = 4, md_mtime_ns = 7, md_ctime_ns = 7, md_attributes = 0, md_time = Inr 0\<rparr>"

definition ex_open :: os_file where
  "ex_open = \<lparr>of_opened = Inr ex_file, of_chunks = ex_chunks, of_failure = None, of_after = Inr ex_file\<rparr>"

definition ex_lstat :: "path \<Rightarrow> meta res" where
  "ex_lstat p = (if p = ''/r'' then Inr ex_dir else if p = ''/r/a'' then Inr ex_file else Inl (FileNotFoundError p))"

definition ex_os :: os where
  "ex_os = \<lparr>os_lstat = ex_lstat, os_lstat_again = ex_lstat,
     os_scandir = (\<lambda>d a. if d = ''/r'' then Inr [''a''] else Inl (False, FileNotFoundError d)),
     os_open = (\<lambda>p. if p = ''/r/a'' then Inr ex_open else Inl (FileNotFoundError p)), os_cwd = ''/'',
     os_expand = id, os_casefold = lower\<rparr>"

definition ex_config :: scanner_config where
  "ex_config = \<lparr>sc_max_file_bytes = 100, sc_chunk_bytes = 4096, sc_cross_filesystems = False, sc_excluded_paths = [],
     sc_worker_isolation = False, sc_worker_timeout = 45 * usec, sc_worker_max_requests = 512\<rparr>"

definition ex_scanner :: scanner where
  "ex_scanner = \<lparr>sn_rules = ex_rules, sn_config = ex_config, sn_excluded = []\<rparr>"

lemma ex_new_scanner: "new_scanner ex_os ex_rules ex_config = Inr ex_scanner"
  by (simp add: new_scanner_def ex_config_def ex_rules_def ex_scanner_def check_rule_def usec_def)

lemma ex_steady: "steady ex_os ''/r/a'' ex_file ex_file ex_open (sc_max_file_bytes ex_config)"
  using ex_scan_facts(7)
  by (simp add: steady_def ex_os_def ex_open_def ex_file_def same_opened_file_def ex_config_def)

lemma ex_entries: "sorted_directory_entries ex_os d = (if d = ''/r'' then Inr [''a''] else Inl (FileNotFoundError d))"
  by (simp add: sorted_directory_entries_def ex_os_def)

lemma ex_path: "entry_path ''/r'' ''a'' = ''/r/a''"
  by (simp add: entry_path_def join_path_def ends_with_def)

lemma ex_not_excluded: "\<not> is_excluded ex_os ex_scanner p"
  by (simp add: is_excluded_def ex_scanner_def)

lemma ex_walk_entry: "walk_entry ex_os ex_scanner 1 ''/r/a'' = ([Found ''/r/a'' ex_file], [])"
  by (simp add: walk_entry_def ex_not_excluded) (simp add: ex_os_def ex_lstat_def is_link_def ex_file_def)

lemma ex_iter: "iter_regular_files ex_os ex_scanner 1 ''/r'' = Some [Found ''/r/a'' ex_file]"
proof -
  have "os_lstat ex_os ''/r'' = Inr ex_dir" "os_lstat_again ex_os ''/r'' = Inr ex_dir"
    by (simp_all add: ex_os_def ex_lstat_def)
  then show ?thesis
    by (simp add: iter_regular_files_def ex_not_excluded ex_entries walk_entries_def ex_path ex_dir_def is_link_def
        ex_walk_entry [unfolded One_nat_def])
qed

lemma ex_finite: "finite_tree ex_os ex_scanner (md_dev ex_dir) (\<lambda>_. 1)"
  by (simp add: finite_tree_def ex_entries walk_entries_def ex_path ex_walk_entry [unfolded One_nat_def] ex_dir_def)

lemma ex_walked: "walked ex_os ex_scanner (md_dev ex_dir) ''/r'' d \<Longrightarrow> d = ''/r''"
proof (induction rule: walked.induct)
  case (enter d p)
  then have "p = ''/r/a''" by (simp add: entry_of_def ex_entries ex_path)
  with enter.hyps show ?case by (simp add: enterable_def ex_os_def ex_lstat_def ex_file_def)
qed simp

lemma ex_readable: "readable_tree ex_os ex_scanner (md_dev ex_dir) ''/r''"
  using ex_walked by (auto simp: readable_tree_def ex_entries) (simp add: ex_os_def ex_lstat_def)

lemma walk_stays_inside_witness: "os_lstat ex_os ''/r/a'' = Inr ex_file \<and> \<not> is_excluded ex_os ex_scanner ''/r/a''"
  using walk_stays_inside [OF ex_iter, of "''/r/a''" ex_file] by simp

lemma walk_terminates_witness: "\<exists>es. iter_regular_files ex_os ex_scanner 5 ''/r'' = Some es"
proof -
  have "os_lstat ex_os ''/r'' = Inr ex_dir" by (simp add: ex_os_def ex_lstat_def)
  from walk_terminates [OF this ex_finite]
  obtain es where "\<forall>fuel \<ge> 1. iter_regular_files ex_os ex_scanner fuel ''/r'' = Some es" by blast
  then show ?thesis by auto
qed

lemma walk_finds_all_witness: "Found ''/r/a'' ex_file \<in> set [Found ''/r/a'' ex_file]"
proof (rule walk_finds_all [OF ex_iter _ _ _ _ ex_readable walked.base])
  show "entry_of ex_os ''/r'' ''/r/a''" by (simp add: entry_of_def ex_entries ex_path)
qed (simp_all add: ex_not_excluded, simp_all add: ex_os_def ex_lstat_def ex_dir_def ex_file_def)

definition ex_state :: scan_state where
  "ex_state = \<lparr>sx_stats = stats0, sx_issues = [], sx_findings = [], sx_observations = []\<rparr>"

lemma scan_file_exact_witness:
  "\<exists>fd x'. scan_file ex_os ex_scanner None (\<lambda>_ _. None) ''/r/a'' ex_file ex_state = Inr (Some fd, x')
     \<and> map m_rule_id (ff_matches fd) = [''lab'']"
proof -
  have t: "md_time ex_file = Inr 0" by (simp add: ex_file_def)
  have "filter (matches_content (concat (of_chunks ex_open))) (sn_rules ex_scanner) = ex_rules"
    using ex_scan_facts(8) by (simp add: ex_open_def ex_scanner_def ex_rules_def matches_content_iff)
  then show ?thesis
    using scan_file_exact [OF ex_new_scanner ex_steady t, of "\<lambda>_ _. None" ex_state]
    by (auto simp: expected_finding_def ex_rules_def from_rule_def)
qed


end
