(* ===== verification/Ospath_Logic.thy ===== *)
theory Ospath_Logic
  imports Ospath
begin

text \<open>
  Facts about \<open>normpath\<close> and \<open>abspath\<close>: on a POSIX system a normalised absolute path is a fixed
  point of both, so a key computed from a stored path is the key it was stored under.
\<close>

definition plain_comp :: "string \<Rightarrow> bool" where
  "plain_comp c = (c \<noteq> [] \<and> c \<noteq> ''.'' \<and> c \<noteq> ''..'' \<and> CHR ''/'' \<notin> set c)"

lemma split_on_no_sep: "\<forall>c \<in> set (split_on x s). x \<notin> set c"
proof (induction s)
  case (Cons a s)
  then show ?case by (cases "split_on x s") auto
qed simp

lemma split_on_neq_Nil [simp]: "split_on x s \<noteq> []"
  by (cases s) (auto split: list.splits)

lemma norm_comps_plain:
  assumes "\<forall>c \<in> set acc. plain_comp c" and "\<forall>c \<in> set cs. CHR ''/'' \<notin> set c"
  shows "\<forall>c \<in> set (norm_comps True acc cs). plain_comp c"
  using assms
proof (induction cs arbitrary: acc)
  case (Cons c cs)
  from Cons.prems have cs: "\<forall>c \<in> set cs. CHR ''/'' \<notin> set c" and c: "CHR ''/'' \<notin> set c" by simp_all
  have tl: "\<forall>c \<in> set (tl acc). plain_comp c" using Cons.prems(1) by (cases acc) auto
  have hd: "\<not> (acc \<noteq> [] \<and> hd acc = ''..'')" using Cons.prems(1) by (cases acc) (auto simp: plain_comp_def)
  consider "c = [] \<or> c = ''.''" | "c = ''..''" | "plain_comp c" using c by (auto simp: plain_comp_def)
  then show ?case
  proof cases
    case 1
    then have "norm_comps True acc (c # cs) = norm_comps True acc cs" by simp
    with Cons.IH [OF Cons.prems(1) cs] show ?thesis by simp
  next
    case 2
    then have "norm_comps True acc (c # cs) = norm_comps True (tl acc) cs" using hd by auto
    with Cons.IH [OF tl cs] show ?thesis by simp
  next
    case 3
    then have "norm_comps True acc (c # cs) = norm_comps True (c # acc) cs" by (simp add: plain_comp_def)
    with Cons.IH [of "c # acc"] 3 Cons.prems(1) cs show ?thesis by simp
  qed
qed simp

lemma norm_comps_id:
  "\<forall>c \<in> set cs. plain_comp c \<Longrightarrow> norm_comps rooted acc cs = rev acc @ cs"
  by (induction cs arbitrary: acc) (auto simp: plain_comp_def)

lemma split_on_plain: "x \<notin> set c \<Longrightarrow> split_on x c = [c]"
  by (induction c) auto

lemma split_on_append: "x \<notin> set c \<Longrightarrow> split_on x (c @ x # s) = c # split_on x s"
  by (induction c) auto

lemma split_on_join:
  "cs \<noteq> [] \<Longrightarrow> \<forall>c \<in> set cs. x \<notin> set c \<Longrightarrow> split_on x (join_with [x] cs) = cs"
  by (induction "[x]" cs rule: join_with.induct) (simp_all add: split_on_plain split_on_append)

lemma norm_comps_skip: "norm_comps rooted acc ([] # cs) = norm_comps rooted acc cs"
  by simp

definition normal_path :: "path \<Rightarrow> bool" where
  "normal_path p = (\<exists>n cs. p = replicate n (CHR ''/'') @ join_with ''/'' cs \<and> (n = 1 \<or> n = 2)
     \<and> (\<forall>c \<in> set cs. plain_comp c))"

lemma normpath_normal: "prefix ''/'' p \<Longrightarrow> normal_path (normpath p)"
proof -
  assume p: "prefix ''/'' p"
  define cs where "cs = norm_comps True [] (split_on (CHR ''/'') p)"
  have "\<forall>c \<in> set cs. plain_comp c"
    unfolding cs_def by (rule norm_comps_plain) (use split_on_no_sep in auto)
  moreover have "normpath p = replicate (initial_slashes p) (CHR ''/'') @ join_with ''/'' cs"
    using p by (auto simp: normpath_def cs_def initial_slashes_def Let_def)
  moreover have "initial_slashes p = 1 \<or> initial_slashes p = 2"
    using p by (auto simp: initial_slashes_def)
  ultimately show "normal_path (normpath p)" unfolding normal_path_def by blast
qed

lemma join_plain_start:
  "\<forall>c \<in> set cs. plain_comp c \<Longrightarrow> cs \<noteq> [] \<Longrightarrow> \<exists>a s. join_with ''/'' cs = a # s \<and> a \<noteq> CHR ''/''"
proof (cases cs)
  case (Cons c ds)
  assume "\<forall>c \<in> set cs. plain_comp c"
  with Cons obtain a s where "c = a # s" "a \<noteq> CHR ''/''"
    by (cases c) (auto simp: plain_comp_def)
  with Cons show ?thesis by (cases ds) auto
qed simp

lemma normpath_of_normal: "normal_path p \<Longrightarrow> normpath p = p"
proof -
  assume "normal_path p"
  then obtain n cs where p: "p = replicate n (CHR ''/'') @ join_with ''/'' cs" and n: "n = 1 \<or> n = 2"
    and cs: "\<forall>c \<in> set cs. plain_comp c" unfolding normal_path_def by blast
  have start: "join_with ''/'' cs = [] \<or> hd (join_with ''/'' cs) \<noteq> CHR ''/''"
    using join_plain_start [OF cs] by (cases cs) auto
  have i: "initial_slashes p = n"
    using n start unfolding p initial_slashes_def
    by (cases "join_with ''/'' cs") (auto simp: numeral_2_eq_2)
  have sp: "norm_comps True [] (split_on (CHR ''/'') (join_with ''/'' cs)) = cs"
  proof (cases "cs = []")
    case False
    with cs have "split_on (CHR ''/'') (join_with ''/'' cs) = cs"
      by (intro split_on_join) (auto simp: plain_comp_def)
    then show ?thesis using norm_comps_id [OF cs, of True "[]"] by simp
  qed simp
  have "norm_comps True [] (split_on (CHR ''/'') p) = cs"
    using n sp unfolding p by (auto simp: numeral_2_eq_2)
  with i n have "normpath p = replicate n (CHR ''/'') @ join_with ''/'' cs"
    by (auto simp: normpath_def Let_def p)
  with p show ?thesis by simp
qed

lemma normal_path_slash: "normal_path p \<Longrightarrow> prefix ''/'' p"
  by (auto simp: normal_path_def numeral_2_eq_2)

lemma abspath_normal:
  assumes "prefix ''/'' cwd"
  shows "normal_path (abspath cwd p)"
  unfolding abspath_def by (rule normpath_normal) (use assms in \<open>auto simp: join_path_def prefix_def\<close>)

lemma abspath_of_normal: "normal_path p \<Longrightarrow> abspath cwd p = p"
  by (simp add: abspath_def normal_path_slash normpath_of_normal)

end
