(* ===== verification/Watch_Queue.thy ===== *)
theory Watch_Queue
  imports "HOL-Library.AList" Scanner Ospath_Logic
begin

text \<open>
  \<open>DebouncedPathQueue\<close> and \<open>WatchEventHandler\<close> of \<^verbatim>\<open>src/zsec_shield/watcher.py\<close>: events wait in
  a bounded raw queue and are coalesced by path until they are due.  Every method takes the lock,
  so a step here is one critical section; \<open>ingest\<close> is a loop of them.  Times are microseconds of
  the monotonic clock, read where the code reads it and passed as \<open>now\<close>.
\<close>

section \<open>State and operations\<close>

record queued_event =
  qe_path :: path
  qe_type :: string
  qe_dir :: bool
  qe_at :: nat

record pending_path =
  pp_path :: path
  pp_types :: "string list"
  pp_first :: nat
  pp_due :: nat

record event_queue =
  eq_excluded :: "string list"
  eq_debounce :: nat
  eq_coalesce :: nat
  eq_capacity :: nat
  eq_raw :: "queued_event list"
  eq_pending :: "(string \<times> pending_path) list"
  eq_overflowed :: bool
  eq_received :: nat
  eq_excluded_count :: nat
  eq_dropped :: nat
  eq_debounced :: nat
  eq_high_water :: nat

definition new_queue :: "os \<Rightarrow> path list \<Rightarrow> nat \<Rightarrow> nat \<Rightarrow> event_queue" where
  "new_queue os excluded debounce capacity =
    \<lparr>eq_excluded = map (path_key os) excluded, eq_debounce = debounce,
     eq_coalesce = max (2 * usec) debounce, eq_capacity = capacity, eq_raw = [], eq_pending = [],
     eq_overflowed = False, eq_received = 0, eq_excluded_count = 0, eq_dropped = 0, eq_debounced = 0,
     eq_high_water = 0\<rparr>"

definition settles :: "string \<Rightarrow> bool" where
  "settles t = (t \<in> set [''closed_after_write'', ''moved_to'', ''moved_from'', ''deleted''])"

text \<open>A further event of a pending path: it is due at once when the event closes a change,
  otherwise after a quiet period that the first event bounds.\<close>

definition note_event :: "event_queue \<Rightarrow> string \<Rightarrow> nat \<Rightarrow> pending_path \<Rightarrow> pending_path" where
  "note_event q t now p = p\<lparr>pp_types := List.insert t (pp_types p),
     pp_due := (if settles t then now else min (now + eq_debounce q) (pp_first p + eq_coalesce q))\<rparr>"

definition drop_event :: "event_queue \<Rightarrow> event_queue" where
  "drop_event q = q\<lparr>eq_dropped := Suc (eq_dropped q), eq_overflowed := True\<rparr>"

definition submit :: "os \<Rightarrow> nat \<Rightarrow> path \<Rightarrow> string \<Rightarrow> bool \<Rightarrow> event_queue \<Rightarrow> event_queue" where
  "submit os now p t is_dir q =
    (let key = path_key os p in
     if list_ex (under key) (eq_excluded q) then q\<lparr>eq_excluded_count := Suc (eq_excluded_count q)\<rparr>
     else let q = q\<lparr>eq_received := Suc (eq_received q)\<rparr> in
       case map_of (eq_pending q) key of
         Some pp \<Rightarrow> q\<lparr>eq_debounced := Suc (eq_debounced q),
                       eq_pending := AList.update key (note_event q t now pp) (eq_pending q)\<rparr>
       | None \<Rightarrow>
         if eq_capacity q \<le> length (eq_pending q) + length (eq_raw q) then drop_event q
         else if eq_capacity q \<le> length (eq_raw q) then drop_event q
         else q\<lparr>eq_raw := eq_raw q @
                [\<lparr>qe_path = absolute os p, qe_type = t, qe_dir = is_dir, qe_at = now\<rparr>]\<rparr>)"

text \<open>One round of \<open>ingest\<close>, for an event just taken from the raw queue.\<close>

definition ingest_event :: "os \<Rightarrow> queued_event \<Rightarrow> event_queue \<Rightarrow> event_queue" where
  "ingest_event os e q =
    (let key = path_key os (qe_path e) in
     case map_of (eq_pending q) key of
       None \<Rightarrow>
         if eq_capacity q \<le> length (eq_pending q) + length (eq_raw q) then drop_event q
         else let pp = \<lparr>pp_path = qe_path e, pp_types = [], pp_first = qe_at e, pp_due = 0\<rparr>;
                  pending = AList.update key (note_event q (qe_type e) (qe_at e) pp) (eq_pending q)
              in q\<lparr>eq_pending := pending, eq_high_water := max (eq_high_water q) (length pending)\<rparr>
     | Some pp \<Rightarrow> q\<lparr>eq_debounced := Suc (eq_debounced q),
                     eq_pending := AList.update key (note_event q (qe_type e) (qe_at e) pp) (eq_pending q)\<rparr>)"

definition ingest_round :: "os \<Rightarrow> event_queue \<Rightarrow> event_queue" where
  "ingest_round os q = (case eq_raw q of [] \<Rightarrow> q | e # rest \<Rightarrow> ingest_event os e (q\<lparr>eq_raw := rest\<rparr>))"

lemma raw_ingest_event [simp]: "eq_raw (ingest_event os e q) = eq_raw q"
  by (simp add: ingest_event_def drop_event_def Let_def split: option.split)

lemma raw_ingest_round [simp]: "eq_raw (ingest_round os q) = tl (eq_raw q)"
  by (simp add: ingest_round_def split: list.split)

function ingest :: "os \<Rightarrow> event_queue \<Rightarrow> event_queue" where
  "ingest os q = (if eq_raw q = [] then q else ingest os (ingest_round os q))"
  by pat_completeness auto
termination by (relation "measure (length \<circ> eq_raw \<circ> snd)") auto

declare ingest.simps [simp del]

definition due_keys :: "nat \<Rightarrow> nat option \<Rightarrow> event_queue \<Rightarrow> string list" where
  "due_keys now maximum q =
    (let keys = sort (map fst (filter (\<lambda>(k, p). pp_due p \<le> now) (eq_pending q)))
     in case maximum of None \<Rightarrow> keys | Some m \<Rightarrow> take m keys)"

text \<open>The critical section of \<open>due\<close> after the ingestion.\<close>

definition take_due :: "nat \<Rightarrow> nat option \<Rightarrow> event_queue \<Rightarrow> pending_path list \<times> event_queue" where
  "take_due now maximum q =
    (let keys = due_keys now maximum q
     in (map (\<lambda>k. the (map_of (eq_pending q) k)) keys,
         q\<lparr>eq_pending := filter (\<lambda>(k, _). k \<notin> set keys) (eq_pending q)\<rparr>))"

definition due :: "os \<Rightarrow> nat \<Rightarrow> nat option \<Rightarrow> event_queue \<Rightarrow> pending_path list res \<times> event_queue" where
  "due os now maximum q =
    (if maximum = Some 0 then (Inl (ValueError ''maximum must be positive''), q)
     else case take_due now maximum (ingest os q) of (ps, q') \<Rightarrow> (Inr ps, q'))"

definition clear_overflow :: "event_queue \<Rightarrow> nat \<times> event_queue" where
  "clear_overflow q = (eq_dropped q, q\<lparr>eq_dropped := 0, eq_overflowed := False\<rparr>)"

text \<open>Ages are in microseconds here; \<open>telemetry\<close> reports milliseconds.\<close>

definition oldest_pending_age :: "nat \<Rightarrow> event_queue \<Rightarrow> nat" where
  "oldest_pending_age now q =
    (if eq_pending q = [] then 0 else now - Min (pp_first ` snd ` set (eq_pending q)))"

definition telemetry :: "nat \<Rightarrow> event_queue \<Rightarrow> (string \<times> nat) list" where
  "telemetry now q =
    [(''events_received'', eq_received q), (''events_debounced'', eq_debounced q),
     (''events_excluded'', eq_excluded_count q), (''events_dropped'', eq_dropped q),
     (''pending_high_water'', eq_high_water q),
     (''oldest_pending_milliseconds'', oldest_pending_age now q div 1000),
     (''event_queue_capacity'', eq_capacity q), (''event_queue_raw_depth'', length (eq_raw q)),
     (''event_queue_pending_paths'', length (eq_pending q)),
     (''event_queue_total_depth'', length (eq_raw q) + length (eq_pending q))]"

section \<open>The handler of the observer\<close>

datatype fs_event =
    Created path bool
  | Modified path bool
  | Moved path path bool
  | Deleted path bool
  | Closed path bool

text \<open>What the handler submits for an event, in order.\<close>

fun submissions :: "fs_event \<Rightarrow> (path \<times> string \<times> bool) list" where
  "submissions (Created p d) = [(p, ''created'', d)]"
| "submissions (Modified p d) = (if d then [] else [(p, ''modified'', False)])"
| "submissions (Moved a b d) = [(a, ''moved_from'', d), (b, ''moved_to'', d)]"
| "submissions (Deleted p d) = [(p, ''deleted'', d)]"
| "submissions (Closed p d) = (if d then [] else [(p, ''closed_after_write'', False)])"

section \<open>The queue as a state machine\<close>

text \<open>
  The threads of the program interleave these critical sections: the observer submits, the
  ingestion thread and the main loop ingest, the main loop takes due paths and clears.  The
  reachable states are indexed by the time of the last reading of the clock, the number of
  events that \<open>clear_overflow\<close> has reported and the number of paths handed out.
\<close>

inductive reach_queue :: "os \<Rightarrow> path list \<Rightarrow> nat \<Rightarrow> nat \<Rightarrow> nat \<Rightarrow> nat \<Rightarrow> nat \<Rightarrow> event_queue \<Rightarrow> bool"
  for os excluded debounce capacity where
  start: "reach_queue os excluded debounce capacity t 0 0 (new_queue os excluded debounce capacity)"
| submits: "reach_queue os excluded debounce capacity t n m q \<Longrightarrow> t \<le> now
    \<Longrightarrow> reach_queue os excluded debounce capacity now n m (submit os now p ty d q)"
| ingests: "reach_queue os excluded debounce capacity t n m q
    \<Longrightarrow> reach_queue os excluded debounce capacity t n m (ingest_round os q)"
| takes: "reach_queue os excluded debounce capacity t n m q \<Longrightarrow> t \<le> now \<Longrightarrow> take_due now k q = (ps, q')
    \<Longrightarrow> reach_queue os excluded debounce capacity now n (m + length ps) q'"
| clears: "reach_queue os excluded debounce capacity t n m q \<Longrightarrow> clear_overflow q = (d, q')
    \<Longrightarrow> reach_queue os excluded debounce capacity t (n + d) m q'"

end
