(* ===== verification/Watch_Config.thy ===== *)
theory Watch_Config
  imports Watch_Queue Feed
begin

text \<open>
  The values of \<^verbatim>\<open>src/zsec_shield/watcher.py\<close>: the configuration of a watch, its normalised roots,
  the keys and fingerprints of the reconciliation snapshot, the counters and the summary.
  Durations are whole microseconds.
\<close>

section \<open>Configuration\<close>

record watch_config =
  wc_roots :: "path list"
  wc_state_dir :: path
  wc_backend :: string
  wc_debounce :: nat
  wc_poll :: nat
  wc_reconcile :: nat
  wc_full_rescan :: nat
  wc_cross_filesystems :: bool
  wc_quarantine :: bool
  wc_queue_size :: nat
  wc_heartbeat :: nat

definition check_watch_config :: "watch_config \<Rightarrow> unit res" where
  "check_watch_config c =
    (if wc_backend c \<notin> set [''auto'', ''native'', ''polling''] then
       Inl (WatchError ''watch backend must be auto, native, or polling'')
     else if \<not> (50000 \<le> wc_debounce c \<and> wc_debounce c \<le> 30 * usec) then
       Inl (WatchError ''debounce_seconds must be between 0.05 and 30'')
     else if \<not> (50000 \<le> wc_poll c \<and> wc_poll c \<le> 60 * usec) then
       Inl (WatchError ''poll_seconds must be between 0.05 and 60'')
     else if \<not> (100000 \<le> wc_reconcile c \<and> wc_reconcile c \<le> 24 * 60 * 60 * usec) then
       Inl (WatchError ''reconcile_seconds must be between 0.1 and 86400'')
     else if \<not> (wc_reconcile c \<le> wc_full_rescan c \<and> wc_full_rescan c \<le> 7 * 24 * 60 * 60 * usec) then
       Inl (WatchError ''full_rescan_seconds must be at least reconcile_seconds and at most 604800'')
     else if \<not> (16 \<le> wc_queue_size c \<and> wc_queue_size c \<le> 1000000) then
       Inl (WatchError ''event_queue_size must be between 16 and 1000000'')
     else if \<not> (100000 \<le> wc_heartbeat c \<and> wc_heartbeat c \<le> 3600 * usec) then
       Inl (WatchError ''heartbeat_seconds must be between 0.1 and 3600'')
     else if wc_roots c = [] then Inl (WatchError ''at least one watch directory is required'')
     else Inr ())"

section \<open>Roots\<close>

record watch_root =
  wr_path :: path
  wr_key :: string
  wr_device :: nat
  wr_inode :: nat

definition watch_root_of :: "os \<Rightarrow> string \<Rightarrow> path \<Rightarrow> watch_root res" where
  "watch_root_of os state_key requested =
    (let p = absolute os requested; key = path_key os p in
     if under key state_key then
       Inl (WatchError (''watch root is inside the excluded state directory: '' @ p))
     else case os_lstat os p of
         Inl e \<Rightarrow> if is_os_error e
                  then Inl (WatchError (''watch root is not accessible: '' @ p @ '': '' @ exn_text e)) else Inl e
       | Inr m \<Rightarrow>
         if is_link m then
           Inl (WatchError (''watch root must not be a symlink or reparse point: '' @ p))
         else if md_kind m \<noteq> Dir then
           Inl (WatchError (''watch root must be an existing directory: '' @ p))
         else Inr \<lparr>wr_path = p, wr_key = key, wr_device = md_dev m, wr_inode = md_ino m\<rparr>)"

definition add_root :: "watch_root \<Rightarrow> watch_root list \<Rightarrow> watch_root list" where
  "add_root c unique =
    (if list_ex (\<lambda>r. wr_key c = wr_key r \<or> under (wr_key c) (wr_key r)) unique then unique else unique @ [c])"

definition normalize_watch_roots :: "os \<Rightarrow> path list \<Rightarrow> path \<Rightarrow> watch_root list res" where
  "normalize_watch_roots os roots state_dir =
    rbind (rmap (watch_root_of os (path_key os state_dir)) roots) (\<lambda>candidates.
      let unique = fold add_root (sort_key (\<lambda>r. (py_len (wr_key r), wr_key r)) candidates) []
      in if unique = [] then Inl (WatchError ''no distinct watch directory remains after normalization'')
         else Inr unique)"

definition watch_scope_for :: "os \<Rightarrow> watch_root list \<Rightarrow> path \<Rightarrow> watch_root option" where
  "watch_scope_for os roots p = find (\<lambda>r. under (path_key os p) (wr_key r)) roots"

text \<open>The lock of a session; a \<open>FeedError\<close> of the body is caught as well.\<close>

definition watch_lock :: "path \<Rightarrow> 'a io \<Rightarrow> 'a io" where
  "watch_lock state_dir body =
    io_catch (update_lock (join_path (join_path state_dir ''status'') ''.watch.lock'') body) is_feed_error
      (\<lambda>_. io_raise (WatchError ''another foreground watch session is using this state directory''))"

section \<open>Keys and fingerprints of the snapshot\<close>

definition snapshot_path_key :: "os \<Rightarrow> path \<Rightarrow> string" where
  "snapshot_path_key os p = sha256 (path_key os p)"

text \<open>A little-endian integer of \<open>n\<close> bytes, as \<^verbatim>\<open>struct\<close> packs it.\<close>

fun pack_nat :: "nat \<Rightarrow> nat \<Rightarrow> string" where
  "pack_nat 0 v = []"
| "pack_nat (Suc n) v = char_of (v mod 256) # pack_nat n (v div 256)"

definition pack_unsigned :: "nat \<Rightarrow> nat \<Rightarrow> string res" where
  "pack_unsigned n v =
    (if v < 256 ^ n then Inr (pack_nat n v) else Inl (OtherError ''struct.error: argument out of range''))"

definition pack_signed :: "nat \<Rightarrow> int \<Rightarrow> string res" where
  "pack_signed n v =
    (if - (256 ^ n div 2) \<le> v \<and> v < 256 ^ n div 2 then Inr (pack_nat n (nat (v mod 256 ^ n)))
     else Inl (OtherError ''struct.error: argument out of range''))"

definition file_fingerprint :: "meta \<Rightarrow> string res" where
  "file_fingerprint m =
    rbind (pack_unsigned 8 (md_dev m)) (\<lambda>a.
    rbind (pack_unsigned 8 (md_ino m)) (\<lambda>b.
    rbind (pack_unsigned 8 (md_size m)) (\<lambda>c.
    rbind (pack_signed 8 (md_mtime_ns m)) (\<lambda>d.
    rbind (pack_signed 8 (md_ctime_ns m)) (\<lambda>e.
    rbind (pack_unsigned 4 (md_attributes m)) (\<lambda>f. Inr (a @ b @ c @ d @ e @ f)))))))"

section \<open>Vanished paths\<close>

text \<open>Only \<^verbatim>\<open>ENOENT\<close> and \<^verbatim>\<open>ENOTDIR\<close> prove that a path is gone.\<close>

definition path_is_confirmed_absent :: "os \<Rightarrow> path \<Rightarrow> bool" where
  "path_is_confirmed_absent os p =
    (case os_lstat os p of
       Inl (FileNotFoundError _) \<Rightarrow> True
     | Inl (OSError m) \<Rightarrow> starts_with m ''[Errno 20]''
     | _ \<Rightarrow> False)"

definition issue_reports_missing_path :: "(string \<Rightarrow> string) \<Rightarrow> scan_issue \<Rightarrow> bool" where
  "issue_reports_missing_path casefold i =
    list_ex (\<lambda>marker. infixb marker (casefold (si_message i)))
      [''no such file or directory'', ''[errno 2]'', ''[errno 20]'', ''winerror 2'', ''winerror 3'']"

section \<open>Counters and summary\<close>

record watch_stats =
  ws_events_received :: nat
  ws_events_debounced :: nat
  ws_events_excluded :: nat
  ws_events_outside_scope :: nat
  ws_events_cross_filesystem :: nat
  ws_events_superseded :: nat
  ws_events_dropped :: nat
  ws_scan_batches :: nat
  ws_files_hashed :: nat
  ws_bytes_hashed :: nat
  ws_findings :: nat
  ws_observations :: nat
  ws_issues :: nat
  ws_quarantine_completed :: nat
  ws_quarantine_partial :: nat
  ws_quarantine_failed :: nat
  ws_reconciliations :: nat
  ws_full_reconciliations :: nat
  ws_metadata_observed :: nat
  ws_metadata_unchanged :: nat
  ws_unresolved_files :: nat
  ws_pending_high_water :: nat
  ws_oldest_pending_ms :: nat
  ws_queue_capacity :: nat
  ws_queue_raw_depth :: nat
  ws_queue_pending :: nat
  ws_queue_total_depth :: nat

definition watch_stats0 :: watch_stats where
  "watch_stats0 = \<lparr>ws_events_received = 0, ws_events_debounced = 0, ws_events_excluded = 0,
     ws_events_outside_scope = 0, ws_events_cross_filesystem = 0, ws_events_superseded = 0,
     ws_events_dropped = 0, ws_scan_batches = 0, ws_files_hashed = 0, ws_bytes_hashed = 0,
     ws_findings = 0, ws_observations = 0, ws_issues = 0, ws_quarantine_completed = 0,
     ws_quarantine_partial = 0, ws_quarantine_failed = 0, ws_reconciliations = 0,
     ws_full_reconciliations = 0, ws_metadata_observed = 0, ws_metadata_unchanged = 0,
     ws_unresolved_files = 0, ws_pending_high_water = 0, ws_oldest_pending_ms = 0,
     ws_queue_capacity = 0, ws_queue_raw_depth = 0, ws_queue_pending = 0, ws_queue_total_depth = 0\<rparr>"

definition watch_stats_items :: "watch_stats \<Rightarrow> (string \<times> nat) list" where
  "watch_stats_items s =
    [(''events_received'', ws_events_received s), (''events_debounced'', ws_events_debounced s),
     (''events_excluded'', ws_events_excluded s), (''events_outside_scope'', ws_events_outside_scope s),
     (''events_cross_filesystem'', ws_events_cross_filesystem s),
     (''events_superseded'', ws_events_superseded s), (''events_dropped'', ws_events_dropped s),
     (''scan_batches'', ws_scan_batches s), (''files_hashed'', ws_files_hashed s),
     (''bytes_hashed'', ws_bytes_hashed s), (''findings'', ws_findings s),
     (''observations'', ws_observations s), (''issues'', ws_issues s),
     (''quarantine_completed'', ws_quarantine_completed s),
     (''quarantine_partial'', ws_quarantine_partial s), (''quarantine_failed'', ws_quarantine_failed s),
     (''reconciliations'', ws_reconciliations s), (''full_reconciliations'', ws_full_reconciliations s),
     (''metadata_files_observed'', ws_metadata_observed s),
     (''metadata_files_unchanged'', ws_metadata_unchanged s), (''unresolved_files'', ws_unresolved_files s),
     (''pending_high_water'', ws_pending_high_water s),
     (''oldest_pending_milliseconds'', ws_oldest_pending_ms s),
     (''event_queue_capacity'', ws_queue_capacity s), (''event_queue_raw_depth'', ws_queue_raw_depth s),
     (''event_queue_pending_paths'', ws_queue_pending s),
     (''event_queue_total_depth'', ws_queue_total_depth s)]"

definition count_dict :: "(string \<times> nat) list \<Rightarrow> dict" where
  "count_dict xs = mk_dict (map (map_prod id (JInt \<circ> int)) xs)"

definition watch_stats_to_dict :: "watch_stats \<Rightarrow> dict" where
  "watch_stats_to_dict s = count_dict (watch_stats_items s)"

definition watch_policy :: "bool \<Rightarrow> dict" where
  "watch_policy quarantine_requested = mk_dict
    [(''product'', JStr ''ZSEC Antivirus''), (''engine'', JStr ''ZSEC Shield''),
     (''mode'', JStr ''foreground-post-change-protection''), (''real_time_protection'', JBool False),
     (''pre_access_enforcement'', JBool False), (''background_service'', JBool False),
     (''kernel_or_os_access_mediation'', JBool False), (''primary_antivirus'', JBool False),
     (''existing_protection_must_remain_active'', JBool True),
     (''automatic_provider_changes'', JBool False),
     (''quarantine_requested'', JBool quarantine_requested),
     (''quarantine_requires_explicit_flag'', JBool True),
     (''no_match_meaning'', JStr ''no configured rule matches in completed scans only'')]"

record watch_summary =
  sm_started_at :: string
  sm_completed_at :: string
  sm_backend_requested :: string
  sm_backend_active :: string
  sm_fallback_reason :: "string option"
  sm_roots :: "string list"
  sm_interrupted :: bool
  sm_incomplete :: bool
  sm_stats :: watch_stats
  sm_health_issues :: "(string \<times> string) list"
  sm_quarantine_requested :: bool

definition outcome :: "watch_summary \<Rightarrow> string" where
  "outcome s =
    (if sm_interrupted s then ''interrupted''
     else if sm_incomplete s then ''incomplete''
     else if ws_findings (sm_stats s) \<noteq> 0 then ''configured_rule_matches_detected''
     else if ws_observations (sm_stats s) \<noteq> 0 then ''review_observations''
     else ''no_configured_rule_matches'')"

definition health_dict :: "string \<times> string \<Rightarrow> dict" where
  "health_dict i = mk_dict [(''code'', JStr (fst i)), (''message'', JStr (snd i))]"

definition watch_summary_to_dict :: "watch_summary \<Rightarrow> dict" where
  "watch_summary_to_dict s = mk_dict
    [(''schema'', JStr ''zsec.shield.watch-summary.v1''), (''started_at'', JStr (sm_started_at s)),
     (''completed_at'', JStr (sm_completed_at s)), (''outcome'', JStr (outcome s)),
     (''backend_requested'', JStr (sm_backend_requested s)), (''backend_active'', JStr (sm_backend_active s)),
     (''fallback_reason'', opt_str (sm_fallback_reason s)), (''roots'', JList (map JStr (sm_roots s))),
     (''interrupted'', JBool (sm_interrupted s)), (''operational_incomplete'', JBool (sm_incomplete s)),
     (''stats'', JObj (watch_stats_to_dict (sm_stats s))),
     (''health_issues'', JList (map (JObj \<circ> health_dict) (sm_health_issues s))),
     (''policy'', JObj (watch_policy (sm_quarantine_requested s)))]"

definition scan_outcome :: "scan_result \<Rightarrow> string" where
  "scan_outcome r =
    (if sr_issues r \<noteq> [] then ''incomplete''
     else if sr_findings r \<noteq> [] then ''configured_rule_matches_detected''
     else if sr_observations r \<noteq> [] then ''review_observations''
     else ''no_configured_rule_matches'')"

end
