(* ===== verification/Watcher.thy ===== *)
theory Watcher
  imports Watch_Config
begin

text \<open>
  \<open>ForegroundProtectionWatcher\<close> of \<^verbatim>\<open>src/zsec_shield/watcher.py\<close>: the state of a session and its
  handlers, with the scanner of the theory Scanner underneath.  Every reading of the clock, call
  of the operating system and record is a tick; the environment says what each tick answers and
  what the observer and the ingestion thread do to the queue meanwhile.  A handler returns its
  result, a value or the exception raised, with the state it leaves.
\<close>

section \<open>Environment and state\<close>

text \<open>\<open>en_start\<close> is the failure of \<open>_new_observer\<close> for a backend; \<open>en_quarantine\<close> is
  \<open>quarantine_finding\<close>; a time is what the clock shows at a tick.\<close>

datatype thread_op = Observed nat path string bool | Ingested

record watch_env =
  en_config :: watch_config
  en_roots :: "watch_root list"
  en_scanner :: scanner
  en_worker :: "nat \<Rightarrow> inspector option"
  en_trust :: authenticode
  en_fuel :: nat
  en_os :: "nat \<Rightarrow> os"
  en_clock :: "nat \<Rightarrow> nat"
  en_utc :: "nat \<Rightarrow> nat"
  en_threads :: "nat \<Rightarrow> thread_op list"
  en_failure :: "nat \<Rightarrow> string option"
  en_start :: "string \<Rightarrow> exn option"
  en_thread_starts :: bool
  en_thread_stops :: bool
  en_alive :: "nat \<Rightarrow> bool"
  en_health :: "nat \<Rightarrow> string option"
  en_interrupt :: "nat \<Rightarrow> bool"
  en_quarantine :: "nat \<Rightarrow> file_finding \<Rightarrow> dict res"
  en_session :: string

record watcher =
  wt_tick :: nat
  wt_queue :: event_queue
  wt_observer :: bool
  wt_backend :: string
  wt_fallback :: "string option"
  wt_stats :: watch_stats
  wt_health :: "(string \<times> string) list"
  wt_scan_keys :: "(string \<times> string \<times> string) list"
  wt_incomplete :: bool
  wt_historical :: bool
  wt_persistent :: bool
  wt_generation :: nat
  wt_snapshot :: "string \<Rightarrow> string option"
  wt_records :: "dict list"
  wt_ingest_failure :: "string option"

definition base_os :: "watch_env \<Rightarrow> os" where
  "base_os env = en_os env 0"

definition new_watcher :: "watch_env \<Rightarrow> watcher" where
  "new_watcher env = \<lparr>wt_tick = 0,
     wt_queue = new_queue (base_os env) [wc_state_dir (en_config env)] (wc_debounce (en_config env)) (wc_queue_size (en_config env)),
     wt_observer = False, wt_backend = ''not-started'', wt_fallback = None, wt_stats = watch_stats0,
     wt_health = [], wt_scan_keys = [], wt_incomplete = False, wt_historical = False, wt_persistent = False,
     wt_generation = 0, wt_snapshot = Map.empty, wt_records = [], wt_ingest_failure = None\<rparr>"

text \<open>What the other threads do during a tick; a stopped observer submits nothing.\<close>

fun thread_step :: "os \<Rightarrow> bool \<Rightarrow> thread_op \<Rightarrow> event_queue \<Rightarrow> event_queue" where
  "thread_step os observing (Observed now p t d) q = (if observing then submit os now p t d q else q)"
| "thread_step os observing Ingested q = ingest_round os q"

definition advance :: "watch_env \<Rightarrow> watcher \<Rightarrow> watcher" where
  "advance env st = st\<lparr>wt_tick := Suc (wt_tick st),
     wt_queue := fold (thread_step (base_os env) (wt_observer st)) (en_threads env (wt_tick st)) (wt_queue st),
     wt_ingest_failure := (case wt_ingest_failure st of None \<Rightarrow> en_failure env (wt_tick st) | Some m \<Rightarrow> Some m)\<rparr>"

definition read_clock :: "watch_env \<Rightarrow> watcher \<Rightarrow> nat \<times> watcher" where
  "read_clock env st = (en_clock env (wt_tick st), advance env st)"

section \<open>Records, health, counters\<close>

definition emit :: "watch_env \<Rightarrow> string \<Rightarrow> (string \<times> json) list \<Rightarrow> watcher \<Rightarrow> watcher" where
  "emit env event payload st = (advance env st)\<lparr>wt_records := wt_records st @
     [mk_dict ([(''schema'', JStr ''zsec.shield.watch-event.v1''), (''session_id'', JStr (en_session env)),
        (''sequence'', JInt (int (Suc (length (wt_records st))))),
        (''generated_at'', JStr (format_utc (en_utc env (wt_tick st)))), (''event'', JStr event)] @ payload)]\<rparr>"

definition count_issues :: "nat \<Rightarrow> watcher \<Rightarrow> watcher" where
  "count_issues n st = st\<lparr>wt_stats := (wt_stats st)\<lparr>ws_issues := ws_issues (wt_stats st) + n\<rparr>\<rparr>"

definition mark_incomplete :: "bool \<Rightarrow> watcher \<Rightarrow> watcher" where
  "mark_incomplete persistent st = st\<lparr>wt_incomplete := True, wt_historical := True,
     wt_persistent := wt_persistent st \<or> persistent\<rparr>"

definition health_issue :: "watch_env \<Rightarrow> string \<Rightarrow> string \<Rightarrow> watcher \<Rightarrow> watcher" where
  "health_issue env code message st =
    (let st = mark_incomplete (code \<notin> set [''watch_path_unreadable'', ''scan_scope_incomplete'']) st;
         st = st\<lparr>wt_generation := Suc (wt_generation st)\<rparr>;
         issue = (code, one_line message)
     in if issue \<in> set (wt_health st) then st
        else emit env ''health_issue'' [(''code'', JStr code), (''message'', JStr (one_line message))]
               (count_issues 1 (st\<lparr>wt_health := wt_health st @ [issue]\<rparr>)))"

definition with_telemetry :: "nat \<Rightarrow> event_queue \<Rightarrow> watch_stats \<Rightarrow> watch_stats" where
  "with_telemetry now q s = s\<lparr>ws_events_received := eq_received q, ws_events_debounced := eq_debounced q,
     ws_events_excluded := eq_excluded_count q, ws_events_dropped := ws_events_dropped s + eq_dropped q,
     ws_pending_high_water := max (ws_pending_high_water s) (eq_high_water q),
     ws_oldest_pending_ms := oldest_pending_age now q div 1000, ws_queue_capacity := eq_capacity q,
     ws_queue_raw_depth := length (eq_raw q), ws_queue_pending := length (eq_pending q),
     ws_queue_total_depth := length (eq_raw q) + length (eq_pending q)\<rparr>"

definition stats_snapshot :: "watch_env \<Rightarrow> watcher \<Rightarrow> (string \<times> nat) list \<times> watcher" where
  "stats_snapshot env st = (case read_clock env st of (now, st') \<Rightarrow>
     (watch_stats_items (with_telemetry now (wt_queue st) (wt_stats st)), st'))"

definition event_pipeline_is_healthy :: "watch_env \<Rightarrow> watcher \<Rightarrow> bool \<times> watcher" where
  "event_pipeline_is_healthy env st =
    (case wt_ingest_failure st of
       Some m \<Rightarrow> (False, health_issue env ''watch_event_ingest_stopped'' (''event ingestion stopped unexpectedly: '' @ m) st)
     | None \<Rightarrow>
       if eq_overflowed (wt_queue st) then
         (case clear_overflow (wt_queue st) of (dropped, q) \<Rightarrow>
           (False, health_issue env ''watch_event_queue_overflow''
             (''lost '' @ dec_nat dropped @ '' queued filesystem event(s); coverage is unknown'')
             (st\<lparr>wt_queue := q,
                 wt_stats := (wt_stats st)\<lparr>ws_events_dropped := ws_events_dropped (wt_stats st) + dropped\<rparr>\<rparr>)))
       else (True, st))"

definition snapshot_pop :: "watch_env \<Rightarrow> path \<Rightarrow> watcher \<Rightarrow> watcher" where
  "snapshot_pop env p st = st\<lparr>wt_snapshot := (wt_snapshot st)(snapshot_path_key (base_os env) p := None)\<rparr>"

section \<open>Backends\<close>

definition start_observer :: "watch_env \<Rightarrow> watcher \<Rightarrow> unit res \<times> watcher" where
  "start_observer env st =
    (let requested = wc_backend (en_config env) in
     if requested = ''polling'' then
       (case en_start env ''polling'' of
          Some e \<Rightarrow> (Inl (WatchError (''polling watch backend failed to start: '' @ exn_text e)), st)
        | None \<Rightarrow> (Inr (), st\<lparr>wt_observer := True, wt_backend := ''polling''\<rparr>))
     else case en_start env ''native'' of
         None \<Rightarrow> (Inr (), st\<lparr>wt_observer := True, wt_backend := ''native''\<rparr>)
       | Some e \<Rightarrow>
         if requested = ''native'' then
           (Inl (WatchError (''native watch backend failed to start: '' @ exn_text e)), st)
         else let reason = ''native backend unavailable: '' @ exn_name e @ '': '' @ exn_text e;
                  st = st\<lparr>wt_fallback := Some reason\<rparr>
              in case en_start env ''polling'' of
                  Some e' \<Rightarrow> (Inl (WatchError (''native backend failed and polling fallback failed to start: '' @ exn_text e')), st)
                | None \<Rightarrow> (Inr (), emit env ''backend_fallback'' [(''reason'', JStr reason)]
                            (st\<lparr>wt_observer := True, wt_backend := ''polling''\<rparr>)))"

definition backend_is_healthy :: "watch_env \<Rightarrow> watcher \<Rightarrow> bool \<times> watcher" where
  "backend_is_healthy env st =
    (if wt_observer st \<and> en_alive env (wt_tick st) then (True, advance env st)
     else (False, health_issue env ''watch_backend_stopped''
             (wt_backend st @ '' watch backend stopped unexpectedly; coverage is unknown'') (advance env st)))"

definition root_problem :: "os \<Rightarrow> watch_root \<Rightarrow> (string \<times> string) option" where
  "root_problem os r = (case os_lstat os (wr_path r) of
       Inl e \<Rightarrow> Some (''watch_root_unavailable'', ''watch root failed: '' @ wr_path r @ '': '' @ exn_text e)
     | Inr m \<Rightarrow>
       if md_kind m \<noteq> Dir \<or> is_link m then
         Some (''watch_root_identity_changed'',
               ''watch root is no longer the original regular directory: '' @ wr_path r)
       else if (wr_device r \<noteq> 0 \<and> md_dev m \<noteq> 0 \<and> wr_device r \<noteq> md_dev m)
            \<or> (wr_inode r \<noteq> 0 \<and> md_ino m \<noteq> 0 \<and> wr_inode r \<noteq> md_ino m) then
         Some (''watch_root_identity_changed'', ''watch root device/inode changed: '' @ wr_path r)
       else None)"

fun roots_are_healthy :: "watch_env \<Rightarrow> watch_root list \<Rightarrow> watcher \<Rightarrow> bool \<times> watcher" where
  "roots_are_healthy env [] st = (True, st)"
| "roots_are_healthy env (r # rs) st =
    (case root_problem (en_os env (wt_tick st)) r of
       Some (code, message) \<Rightarrow> (False, health_issue env code message (advance env st))
     | None \<Rightarrow> roots_are_healthy env rs (advance env st))"

section \<open>Scans\<close>

definition vanished_codes :: "string list" where
  "vanished_codes = [''directory_unreadable'', ''entry_unreadable'', ''file_open_failed'', ''file_read_failed'']"

definition vanished :: "os \<Rightarrow> bool \<Rightarrow> scan_issue \<Rightarrow> bool" where
  "vanished os allow_root i =
    ((si_code i \<in> set vanished_codes \<or> (allow_root \<and> si_code i = ''root_unreadable''))
     \<and> issue_reports_missing_path (os_casefold os) i \<and> path_is_confirmed_absent os (si_path i))"

definition max_samples :: nat where "max_samples = 8"

definition superseded :: "watch_env \<Rightarrow> string list \<Rightarrow> scan_issue list \<Rightarrow> watcher \<Rightarrow> watcher" where
  "superseded env triggers gone st =
    (let st = fold (\<lambda>i. snapshot_pop env (si_path i)) gone st;
         st = st\<lparr>wt_stats := (wt_stats st)\<lparr>ws_events_superseded := ws_events_superseded (wt_stats st) + length gone\<rparr>\<rparr>;
         samples = map si_path (take max_samples gone)
     in if length gone = 1 then
          emit env ''event_superseded'' [(''path'', JStr (hd samples)), (''triggers'', JList (map JStr triggers)),
            (''reason'', JStr ''path_vanished_during_scan'')] st
        else if 1 < length gone then
          emit env ''events_superseded'' [(''count'', JInt (int (length gone))),
            (''sample_paths'', JList (map JStr samples)),
            (''sample_paths_omitted'', JInt (int (length gone - length samples))),
            (''triggers'', JList (map JStr triggers)), (''reason'', JStr ''paths_vanished_during_scan'')] st
        else st)"

definition issue_key :: "scan_issue \<Rightarrow> string \<times> string \<times> string" where
  "issue_key i = (si_path i, si_code i, si_message i)"

text \<open>The issues of a scan: only new ones are counted, but any of them marks the session.\<close>

definition note_scan_issues :: "watch_env \<Rightarrow> scan_issue list \<Rightarrow> watcher \<Rightarrow> watcher" where
  "note_scan_issues env issues st =
    (let fresh = filter (\<lambda>k. k \<notin> set (wt_scan_keys st)) (remdups (map issue_key issues));
         st = count_issues (length fresh) (st\<lparr>wt_scan_keys := wt_scan_keys st @ fresh\<rparr>)
     in if issues = [] then st
        else fold (\<lambda>i. snapshot_pop env (si_path i)) issues
               ((mark_incomplete False st)\<lparr>wt_generation := Suc (wt_generation st)\<rparr>))"

definition coverage_gaps :: "scan_stats \<Rightarrow> (string \<times> nat) list" where
  "coverage_gaps s = filter (\<lambda>(_, n). n \<noteq> 0)
     [(''special_files'', st_skipped_special s), (''files_above_size_limit'', st_skipped_too_large s)]"

definition gap_text :: "(string \<times> nat) list \<Rightarrow> string" where
  "gap_text gaps = join_with '', '' (map (\<lambda>(k, n). k @ ''='' @ dec_nat n) gaps)"

definition quarantine_one :: "watch_env \<Rightarrow> file_finding \<Rightarrow> watcher \<Rightarrow> dict res \<times> watcher" where
  "quarantine_one env fd st =
    (let answer = en_quarantine env (wt_tick st) fd; st = advance env st; s = wt_stats st in
     case answer of
       Inr r \<Rightarrow> (Inr (mk_dict [(''id'', dget r ''id''), (''state'', dget r ''state''),
                   (''original_path'', dget r ''original_path''), (''sha256'', dget r ''sha256'')]),
                 st\<lparr>wt_stats := s\<lparr>ws_quarantine_completed := Suc (ws_quarantine_completed s)\<rparr>\<rparr>)
     | Inl (QuarantinePartialError m entry_id) \<Rightarrow>
         (Inr (mk_dict [(''id'', JStr entry_id), (''state'', JStr ''copy_only''), (''error'', JStr m)]),
          mark_incomplete True (count_issues 1 (st\<lparr>wt_stats := s\<lparr>ws_quarantine_partial := Suc (ws_quarantine_partial s)\<rparr>\<rparr>)))
     | Inl e \<Rightarrow>
         if is_zsec_error e then
           (Inr (mk_dict [(''id'', JNull), (''state'', JStr ''failed''), (''path'', JStr (ff_path fd)),
              (''error'', JStr (exn_text e))]),
            mark_incomplete True (count_issues 1 (st\<lparr>wt_stats := s\<lparr>ws_quarantine_failed := Suc (ws_quarantine_failed s)\<rparr>\<rparr>)))
         else (Inl e, st))"

fun quarantine_each :: "watch_env \<Rightarrow> file_finding list \<Rightarrow> watcher \<Rightarrow> dict list res \<times> watcher" where
  "quarantine_each env [] st = (Inr [], st)"
| "quarantine_each env (fd # fds) st = (case quarantine_one env fd st of
     (Inl e, st') \<Rightarrow> (Inl e, st')
   | (Inr r, st') \<Rightarrow> (case quarantine_each env fds st' of
       (Inl e, st'') \<Rightarrow> (Inl e, st'') | (Inr rs, st'') \<Rightarrow> (Inr (r # rs), st'')))"

definition quarantine_findings :: "watch_env \<Rightarrow> file_finding list \<Rightarrow> watcher \<Rightarrow> dict list res \<times> watcher" where
  "quarantine_findings env fds st =
    (if wc_quarantine (en_config env) then quarantine_each env fds st else (Inr [], st))"

definition retain_issues :: "scan_issue list \<Rightarrow> scan_result \<Rightarrow> scan_result" where
  "retain_issues retained r =
    (if length retained \<noteq> length (sr_issues r) then
       r\<lparr>sr_issues := retained, sr_stats := (sr_stats r)\<lparr>st_errors := length retained\<rparr>\<rparr> else r)"

definition add_batch :: "scan_result \<Rightarrow> watcher \<Rightarrow> watcher" where
  "add_batch r st = (let s = wt_stats st in st\<lparr>wt_stats := s\<lparr>ws_scan_batches := Suc (ws_scan_batches s),
     ws_files_hashed := ws_files_hashed s + st_files_hashed (sr_stats r),
     ws_bytes_hashed := ws_bytes_hashed s + st_bytes_hashed (sr_stats r),
     ws_findings := ws_findings s + length (sr_findings r),
     ws_observations := ws_observations s + length (sr_observations r)\<rparr>\<rparr>)"

text \<open>What \<open>_scan_paths\<close> does with the result of the scanner.\<close>

definition absorb_result ::
    "watch_env \<Rightarrow> string list \<Rightarrow> string \<Rightarrow> string option \<Rightarrow> bool \<Rightarrow> scan_result \<Rightarrow> watcher \<Rightarrow> scan_result res \<times> watcher" where
  "absorb_result env triggers event no_hash allow_root r0 st =
    (let os = en_os env (wt_tick st);
         retained = filter (\<lambda>i. \<not> vanished os allow_root i) (sr_issues r0);
         st = superseded env triggers (filter (vanished os allow_root) (sr_issues r0)) (advance env st);
         r = retain_issues retained r0;
         st = note_scan_issues env (sr_issues r) (add_batch r st);
         gaps = coverage_gaps (sr_stats r);
         st = (if gaps = [] then st else health_issue env ''scan_scope_incomplete''
                 (''one or more observed paths were not inspected: '' @ gap_text gaps) st)
     in case quarantine_findings env (sr_findings r) st of
         (Inl e, st) \<Rightarrow> (Inl e, st)
       | (Inr records, st) \<Rightarrow>
         let result = (if gaps \<noteq> [] \<or> sr_issues r \<noteq> [] then ''incomplete''
                       else case no_hash of
                           Some o' \<Rightarrow> if st_files_hashed (sr_stats r) = 0 then o' else scan_outcome r
                         | None \<Rightarrow> scan_outcome r)
         in (Inr r, emit env event [(''triggers'', JList (map JStr triggers)), (''outcome'', JStr result),
               (''scan'', JObj (scan_result_to_dict r)), (''quarantine'', JList (map JObj records))] st))"

text \<open>A file that was inspected without success leaves the snapshot.\<close>

definition record_inspection ::
    "watch_env \<Rightarrow> (watcher \<times> 'c) file_observer option \<Rightarrow> (watcher \<times> 'c) file_observer" where
  "record_inspection env obs p m hashed sc =
    (let sc = (if hashed then sc else (snapshot_pop env p (fst sc), snd sc))
     in case obs of None \<Rightarrow> (Inr (), sc) | Some f \<Rightarrow> f p m hashed sc)"

definition scan_paths ::
    "watch_env \<Rightarrow> (watcher \<times> 'c) file_filter option \<Rightarrow> (watcher \<times> 'c) file_observer option \<Rightarrow> path list
     \<Rightarrow> string list \<Rightarrow> string \<Rightarrow> string option \<Rightarrow> bool \<Rightarrow> watcher \<times> 'c \<Rightarrow> scan_result res \<times> (watcher \<times> 'c)" where
  "scan_paths env flt obs paths triggers event no_hash allow_root sc =
    (let k = wt_tick (fst sc) in
     case scan (en_os env k) (en_scanner env) (en_worker env k) (en_trust env)
            \<lparr>cb_filter = flt, cb_observer = Some (record_inspection env obs)\<rparr> False (en_fuel env)
            (en_utc env k) (en_utc env (Suc k)) paths (advance env (fst sc), snd sc) of
       None \<Rightarrow> (Inl (OtherError ''the fuel of the walk is too small''), sc)
     | Some (Inl e, sc') \<Rightarrow> (Inl e, sc')
     | Some (Inr r, (st, c)) \<Rightarrow> (case absorb_result env triggers event no_hash allow_root r st of
         (a, st') \<Rightarrow> (a, (st', c))))"

definition scan_pending :: "watch_env \<Rightarrow> pending_path \<Rightarrow> watcher \<Rightarrow> unit res \<times> watcher" where
  "scan_pending env p st =
    (let s = wt_stats st in
     case watch_scope_for (base_os env) (en_roots env) (pp_path p) of
       None \<Rightarrow> (Inr (), st\<lparr>wt_stats := s\<lparr>ws_events_outside_scope := Suc (ws_events_outside_scope s)\<rparr>\<rparr>)
     | Some scope \<Rightarrow> (case os_lstat (en_os env (wt_tick st)) (pp_path p) of
         Inl e \<Rightarrow> (case e of
             FileNotFoundError _ \<Rightarrow>
               (Inr (), emit env ''event_superseded'' [(''path'', JStr (pp_path p)),
                   (''triggers'', JList (map JStr (sort (pp_types p)))), (''reason'', JStr ''path_vanished_before_scan'')]
                 (snapshot_pop env (pp_path p) (advance env
                   (st\<lparr>wt_stats := s\<lparr>ws_events_superseded := Suc (ws_events_superseded s)\<rparr>\<rparr>))))
           | _ \<Rightarrow> if is_os_error e then
               (Inr (), health_issue env ''watch_path_unreadable'' (''cannot inspect '' @ pp_path p @ '': '' @ exn_text e)
                  (snapshot_pop env (pp_path p) (advance env st)))
             else (Inl e, advance env st))
       | Inr m \<Rightarrow>
         if \<not> wc_cross_filesystems (en_config env) \<and> wr_device scope \<noteq> 0 \<and> md_dev m \<noteq> 0 \<and> md_dev m \<noteq> wr_device scope then
           (Inr (), health_issue env ''watch_cross_filesystem_skipped''
              (''event crossed the configured filesystem boundary: '' @ pp_path p)
              (advance env (st\<lparr>wt_stats := s\<lparr>ws_events_cross_filesystem := Suc (ws_events_cross_filesystem s)\<rparr>\<rparr>)))
         else case scan_paths env None None [pp_path p] (sort (pp_types p)) ''scan_completed'' None True (advance env st, ()) of
             (a, (st', _)) \<Rightarrow> (map_sum id (\<lambda>_. ()) a, st')))"

fun scan_all_pending :: "watch_env \<Rightarrow> pending_path list \<Rightarrow> watcher \<Rightarrow> unit res \<times> watcher" where
  "scan_all_pending env [] st = (Inr (), st)"
| "scan_all_pending env (p # ps) st = (case scan_pending env p st of
     (Inl e, st') \<Rightarrow> (Inl e, st') | (Inr _, st') \<Rightarrow> scan_all_pending env ps st')"

definition take_pending :: "watch_env \<Rightarrow> nat option \<Rightarrow> watcher \<Rightarrow> pending_path list \<times> watcher" where
  "take_pending env maximum st = (case read_clock env st of (now, st') \<Rightarrow>
     case take_due now maximum (ingest (base_os env) (wt_queue st')) of (ps, q) \<Rightarrow> (ps, st'\<lparr>wt_queue := q\<rparr>))"

section \<open>Reconciliation\<close>

text \<open>The local variables of \<open>_reconcile\<close> that its callbacks share.  \<open>previous\<close> of the code is the
  snapshot of the session itself.\<close>

record reconciliation =
  rc_current :: "string \<Rightarrow> string option"
  rc_unresolved :: "string list"
  rc_observed :: nat
  rc_unchanged :: nat
  rc_hashed :: nat
  rc_bytes :: nat
  rc_unresolved_count :: nat
  rc_started :: nat
  rc_next_heartbeat :: nat
  rc_next_drain :: nat

type_synonym rstate = "watcher \<times> reconciliation"

definition root_list :: "watch_env \<Rightarrow> json" where
  "root_list env = JList (map (JStr \<circ> wr_path) (en_roots env))"

definition emit_progress_heartbeat :: "watch_env \<Rightarrow> string \<Rightarrow> rstate \<Rightarrow> rstate" where
  "emit_progress_heartbeat env trigger sc = (case sc of (st, rc) \<Rightarrow>
    case read_clock env st of (now, st) \<Rightarrow>
      if now < rc_next_heartbeat rc then (st, rc)
      else case stats_snapshot env st of (items, st) \<Rightarrow>
        (emit env ''health_heartbeat''
          [(''backend_active'', JStr (wt_backend st)), (''roots'', root_list env),
           (''operational_incomplete'', JBool (wt_incomplete st \<or> eq_overflowed (wt_queue st) \<or> wt_ingest_failure st \<noteq> None)),
           (''reconciliation_phase'', JStr trigger),
           (''stats'', JObj (count_dict (items @
             [(''reconciliation_files_observed'', rc_observed rc),
              (''reconciliation_files_unchanged'', rc_unchanged rc),
              (''reconciliation_files_hashed'', rc_hashed rc),
              (''reconciliation_bytes_hashed'', rc_bytes rc),
              (''reconciliation_unresolved_files'', rc_unresolved_count rc),
              (''reconciliation_elapsed_milliseconds'', (now - rc_started rc) div 1000)]))),
           (''policy'', JObj (watch_policy (wc_quarantine (en_config env))))] st,
         rc\<lparr>rc_next_heartbeat := now + wc_heartbeat (en_config env)\<rparr>))"

definition drain_priority_events :: "watch_env \<Rightarrow> string \<Rightarrow> rstate \<Rightarrow> unit res \<times> rstate" where
  "drain_priority_events env current_key sc = (case sc of (st, rc) \<Rightarrow>
    case read_clock env st of (now, st) \<Rightarrow>
      if now < rc_next_drain rc then (Inr (), (st, rc))
      else case take_pending env (Some 32) st of (ps, st) \<Rightarrow>
        case scan_all_pending env (filter (\<lambda>p. snapshot_path_key (base_os env) (pp_path p) \<noteq> current_key) ps) st of
          (r, st) \<Rightarrow> (r, (st, rc\<lparr>rc_next_drain := now + min 100000 (wc_debounce (en_config env))\<rparr>)))"

text \<open>The filter of the scan: a file that is new or whose metadata changed is read.\<close>

definition changed_since_last ::
    "watch_env \<Rightarrow> string \<Rightarrow> bool \<Rightarrow> bool \<Rightarrow> path \<Rightarrow> meta \<Rightarrow> rstate \<Rightarrow> bool res \<times> rstate" where
  "changed_since_last env trigger full metadata_only p m sc = (case sc of (st, rc) \<Rightarrow>
    let key = snapshot_path_key (base_os env) p; rc = rc\<lparr>rc_observed := Suc (rc_observed rc)\<rparr> in
    case file_fingerprint m of
      Inl e \<Rightarrow>
        if metadata_only then (Inl e, (st, rc))
        else (case drain_priority_events env key (emit_progress_heartbeat env trigger (st, rc)) of
            (r, sc) \<Rightarrow> (map_sum id (\<lambda>_. True) r, sc))
    | Inr fp \<Rightarrow>
        let before = wt_snapshot st key; st = st\<lparr>wt_snapshot := (wt_snapshot st)(key := None)\<rparr> in
        if metadata_only then
          (case drain_priority_events env key
              (emit_progress_heartbeat env trigger (st, rc\<lparr>rc_current := (rc_current rc)(key \<mapsto> fp)\<rparr>)) of
            (r, sc) \<Rightarrow> (map_sum id (\<lambda>_. False) r, sc))
        else let changed = (full \<or> before \<noteq> Some fp);
                 rc = (if changed then rc else rc\<lparr>rc_unchanged := Suc (rc_unchanged rc),
                        rc_current := (rc_current rc)(key \<mapsto> fp)\<rparr>)
             in (Inr changed, emit_progress_heartbeat env trigger (st, rc)))"

definition record_successful_hash ::
    "watch_env \<Rightarrow> string \<Rightarrow> path \<Rightarrow> meta \<Rightarrow> bool \<Rightarrow> rstate \<Rightarrow> unit res \<times> rstate" where
  "record_successful_hash env trigger p m hashed sc = (case sc of (st, rc) \<Rightarrow>
    let key = snapshot_path_key (base_os env) p in
    if hashed then
      (let rc = rc\<lparr>rc_hashed := Suc (rc_hashed rc), rc_bytes := rc_bytes rc + md_size m\<rparr> in
       case file_fingerprint m of
         Inl e \<Rightarrow> (Inl e, (st, rc))
       | Inr fp \<Rightarrow> drain_priority_events env key
           (emit_progress_heartbeat env trigger (st, rc\<lparr>rc_current := (rc_current rc)(key \<mapsto> fp)\<rparr>)))
    else drain_priority_events env key (emit_progress_heartbeat env trigger
      (st, rc\<lparr>rc_unresolved_count := Suc (rc_unresolved_count rc), rc_unresolved := List.insert key (rc_unresolved rc)\<rparr>)))"

definition count_reconciliation :: "bool \<Rightarrow> watcher \<Rightarrow> watcher" where
  "count_reconciliation full st = (let s = wt_stats st in st\<lparr>wt_stats := s\<lparr>
     ws_reconciliations := Suc (ws_reconciliations s),
     ws_full_reconciliations := ws_full_reconciliations s + (if full then 1 else 0)\<rparr>\<rparr>)"

text \<open>The end of \<open>_reconcile\<close>: the new snapshot, the counters, and the recovery of a session whose
  gaps this run has closed.\<close>

definition finish_reconciliation ::
    "watch_env \<Rightarrow> bool \<Rightarrow> nat \<Rightarrow> scan_result \<Rightarrow> rstate \<Rightarrow> watcher" where
  "finish_reconciliation env metadata_only generation r sc = (case sc of (st, rc) \<Rightarrow>
    let s = wt_stats st;
        st = st\<lparr>wt_snapshot := rc_current rc, wt_stats := s\<lparr>
          ws_metadata_observed := ws_metadata_observed s + rc_observed rc,
          ws_metadata_unchanged := ws_metadata_unchanged s + rc_unchanged rc,
          ws_unresolved_files := length (rc_unresolved rc)\<rparr>\<rparr>
    in if \<not> metadata_only \<and> sr_issues r = [] \<and> st_skipped_special (sr_stats r) = 0
          \<and> st_skipped_too_large (sr_stats r) = 0 \<and> rc_unresolved rc = [] \<and> \<not> eq_overflowed (wt_queue st)
          \<and> wt_ingest_failure st = None \<and> \<not> wt_persistent st \<and> wt_generation st = generation \<and> wt_incomplete st
       then case stats_snapshot env (st\<lparr>wt_incomplete := False\<rparr>) of (items, st) \<Rightarrow>
         emit env ''health_heartbeat''
          [(''backend_active'', JStr (wt_backend st)), (''roots'', root_list env),
           (''operational_incomplete'', JBool False), (''inventory_complete'', JBool True),
           (''stats'', JObj (count_dict items)),
           (''policy'', JObj (watch_policy (wc_quarantine (en_config env))))] st
       else st)"

definition reconcile :: "watch_env \<Rightarrow> string \<Rightarrow> bool \<Rightarrow> bool \<Rightarrow> watcher \<Rightarrow> unit res \<times> watcher" where
  "reconcile env trigger full metadata_only st =
    (if metadata_only \<and> full then
       (Inl (WatchError ''a metadata-only inventory cannot be a full-content rescan''), st)
     else case read_clock env (count_reconciliation full st) of (started, st) \<Rightarrow>
       let generation = wt_generation st in
       case read_clock env st of (t1, st) \<Rightarrow> case read_clock env st of (t2, st) \<Rightarrow>
       let rc = \<lparr>rc_current = Map.empty, rc_unresolved = [], rc_observed = 0, rc_unchanged = 0, rc_hashed = 0,
             rc_bytes = 0, rc_unresolved_count = 0, rc_started = started,
             rc_next_heartbeat = t1 + wc_heartbeat (en_config env), rc_next_drain = t2\<rparr>
       in case scan_paths env (Some (changed_since_last env trigger full metadata_only))
                (if metadata_only then None else Some (record_successful_hash env trigger))
                (map wr_path (en_roots env)) [trigger]
                (if metadata_only then ''metadata_inventory_completed''
                 else if full then ''scan_completed'' else ''reconciliation_completed'')
                (if metadata_only then Some ''metadata_inventory_complete''
                 else if full then None else Some ''no_metadata_changes'') False (st, rc) of
            (Inl e, (st, _)) \<Rightarrow> (Inl e, st)
          | (Inr r, sc) \<Rightarrow> (Inr (), finish_reconciliation env metadata_only generation r sc))"

section \<open>The session\<close>

record deadlines =
  dl_reconcile :: nat
  dl_full_rescan :: nat
  dl_health :: nat
  dl_heartbeat :: nat
  dl_started :: nat

datatype loop_result = Leave | Interrupted | Raised exn | Again deadlines

definition check_trust :: "watch_env \<Rightarrow> nat \<Rightarrow> deadlines \<Rightarrow> watcher \<Rightarrow> deadlines option \<times> watcher" where
  "check_trust env now dl st =
    (if now < dl_health dl then (Some dl, st)
     else case en_health env (wt_tick st) of
         Some m \<Rightarrow> (None, health_issue env ''watch_trust_state_changed'' m (advance env st))
       | None \<Rightarrow> (Some (dl\<lparr>dl_health := now + min (5 * usec) (wc_reconcile (en_config env))\<rparr>), advance env st))"

definition heartbeat :: "watch_env \<Rightarrow> nat \<Rightarrow> deadlines \<Rightarrow> watcher \<Rightarrow> deadlines \<times> watcher" where
  "heartbeat env now dl st =
    (if now < dl_heartbeat dl then (dl, st)
     else case stats_snapshot env st of (items, st) \<Rightarrow>
       (dl\<lparr>dl_heartbeat := now + wc_heartbeat (en_config env)\<rparr>,
        emit env ''health_heartbeat''
         [(''backend_active'', JStr (wt_backend st)), (''roots'', root_list env),
          (''operational_incomplete'', JBool (wt_incomplete st)), (''stats'', JObj (count_dict items)),
          (''policy'', JObj (watch_policy (wc_quarantine (en_config env))))] st))"

definition periodic :: "watch_env \<Rightarrow> nat \<Rightarrow> deadlines \<Rightarrow> watcher \<Rightarrow> loop_result \<times> watcher" where
  "periodic env now dl st =
    (if dl_full_rescan dl \<le> now then
       (case reconcile env ''periodic_full_rescan'' True False st of
          (Inl e, st) \<Rightarrow> (Raised e, st)
        | (Inr _, st) \<Rightarrow> (Again (dl\<lparr>dl_full_rescan := now + wc_full_rescan (en_config env),
                            dl_reconcile := now + wc_reconcile (en_config env)\<rparr>), st))
     else if dl_reconcile dl \<le> now then
       (case reconcile env ''periodic_reconciliation'' False False st of
          (Inl e, st) \<Rightarrow> (Raised e, st)
        | (Inr _, st) \<Rightarrow> (Again (dl\<lparr>dl_reconcile := now + wc_reconcile (en_config env)\<rparr>), st))
     else (Again dl, st))"

text \<open>One turn of the loop of \<open>run\<close>; \<open>advance\<close> at the end is the sleep.\<close>

definition monitor_step :: "watch_env \<Rightarrow> nat option \<Rightarrow> deadlines \<Rightarrow> watcher \<Rightarrow> loop_result \<times> watcher" where
  "monitor_step env duration dl st =
    (case event_pipeline_is_healthy env st of
       (False, st) \<Rightarrow> (Leave, st)
     | (True, st) \<Rightarrow> (case read_clock env st of (now, st) \<Rightarrow>
       if duration \<noteq> None \<and> the duration \<le> now - dl_started dl then (Leave, st)
       else case backend_is_healthy env st of
         (False, st) \<Rightarrow> (Leave, st)
       | (True, st) \<Rightarrow> (case roots_are_healthy env (en_roots env) st of
           (False, st) \<Rightarrow> (Leave, st)
         | (True, st) \<Rightarrow> (case check_trust env now dl st of
             (None, st) \<Rightarrow> (Leave, st)
           | (Some dl, st) \<Rightarrow> (case take_pending env None st of
               (ps, st) \<Rightarrow> (case scan_all_pending env ps st of
                 (Inl e, st) \<Rightarrow> (Raised e, st)
               | (Inr _, st) \<Rightarrow> (case read_clock env st of (now, st) \<Rightarrow>
                   case heartbeat env now dl st of (dl, st) \<Rightarrow>
                   case periodic env now dl st of (r, st) \<Rightarrow> (r, advance env st))))))))"

fun monitor :: "watch_env \<Rightarrow> nat option \<Rightarrow> nat \<Rightarrow> deadlines \<Rightarrow> watcher \<Rightarrow> (loop_result \<times> watcher) option" where
  "monitor env duration 0 dl st = None"
| "monitor env duration (Suc n) dl st =
    (if en_interrupt env (wt_tick st) then Some (Interrupted, st)
     else case monitor_step env duration dl st of
         (Again dl', st') \<Rightarrow> monitor env duration n dl' st'
       | (r, st') \<Rightarrow> Some (r, st'))"

text \<open>The \<^verbatim>\<open>finally\<close> block of \<open>run\<close>.\<close>

definition close_session :: "watch_env \<Rightarrow> bool \<Rightarrow> watcher \<Rightarrow> watcher" where
  "close_session env ingest_started st =
    (let st = advance env (st\<lparr>wt_observer := False\<rparr>);
         st = (if ingest_started \<and> \<not> en_thread_stops env then
                 health_issue env ''watch_event_ingest_stopped''
                   ''event ingestion worker did not stop within its bounded deadline'' st else st);
         st = st\<lparr>wt_queue := ingest (base_os env) (wt_queue st)\<rparr>;
         st = snd (event_pipeline_is_healthy env st)
     in case read_clock env st of (now, st') \<Rightarrow>
       let q = wt_queue st; depth = length (eq_raw q) + length (eq_pending q);
           st' = (if depth = 0 then st' else health_issue env ''watch_event_backlog_unprocessed''
                   (''observer stopped with '' @ dec_nat depth @ '' queued path(s) not scanned; coverage is unknown'') st')
       in st'\<lparr>wt_stats := with_telemetry now q (wt_stats st')\<rparr>)"

definition summary_of :: "watch_env \<Rightarrow> string \<Rightarrow> bool \<Rightarrow> watcher \<Rightarrow> watch_summary" where
  "summary_of env started_at interrupted st =
    \<lparr>sm_started_at = started_at, sm_completed_at = format_utc (en_utc env (wt_tick st)),
     sm_backend_requested = wc_backend (en_config env), sm_backend_active = wt_backend st,
     sm_fallback_reason = wt_fallback st, sm_roots = map wr_path (en_roots env), sm_interrupted = interrupted,
     sm_incomplete = (wt_incomplete st \<or> wt_historical st), sm_stats = wt_stats st,
     sm_health_issues = wt_health st, sm_quarantine_requested = wc_quarantine (en_config env)\<rparr>"

text \<open>From the start of the ingestion thread to the end of the loop.\<close>

definition supervise :: "watch_env \<Rightarrow> nat option \<Rightarrow> nat \<Rightarrow> nat \<times> nat \<Rightarrow> watcher \<Rightarrow> (loop_result \<times> watcher) option" where
  "supervise env duration fuel health_heartbeat st =
    (if \<not> en_thread_starts env then Some (Raised (WatchError ''event ingestion worker failed to start''), st)
     else case reconcile env ''initial_metadata_inventory'' False True st of
         (Inl e, st) \<Rightarrow> Some (Raised e, st)
       | (Inr _, st) \<Rightarrow> (case read_clock env st of (t, st) \<Rightarrow>
           monitor env duration fuel \<lparr>dl_reconcile = t + wc_reconcile (en_config env),
             dl_full_rescan = t + wc_full_rescan (en_config env), dl_health = fst health_heartbeat,
             dl_heartbeat = snd health_heartbeat, dl_started = t\<rparr> st))"

definition run :: "watch_env \<Rightarrow> nat option \<Rightarrow> nat \<Rightarrow> watcher \<Rightarrow> (watch_summary res \<times> watcher) option" where
  "run env duration fuel st =
    (if duration \<noteq> None \<and> \<not> (100000 \<le> the duration \<and> the duration \<le> 7 * 24 * 60 * 60 * usec) then
       Some (Inl (WatchError ''duration_seconds must be between 0.1 and 604800''), st)
     else let started_at = format_utc (en_utc env (wt_tick st)) in
       case start_observer env (advance env st) of
         (Inl e, st) \<Rightarrow> Some (Inl e, st)
       | (Inr _, st) \<Rightarrow>
         let st = emit env ''session_started'' [(''backend_requested'', JStr (wc_backend (en_config env))),
               (''backend_active'', JStr (wt_backend st)), (''fallback_reason'', opt_str (wt_fallback st)),
               (''roots'', root_list env), (''policy'', JObj (watch_policy (wc_quarantine (en_config env))))] st
         in case read_clock env st of (t1, st) \<Rightarrow> case read_clock env st of (t2, st) \<Rightarrow>
           case supervise env duration fuel
               (t1 + min (5 * usec) (wc_reconcile (en_config env)), t2 + wc_heartbeat (en_config env)) st of
             None \<Rightarrow> None
           | Some (r, st) \<Rightarrow>
             let st = close_session env (en_thread_starts env) st in
             (case r of
               Raised e \<Rightarrow> Some (Inl e, st)
             | _ \<Rightarrow> let s = summary_of env started_at (r = Interrupted) st
                    in Some (Inr s, emit env ''session_completed'' [(''summary'', JObj (watch_summary_to_dict s))] st)))"

end
