(* ===== verification/Watcher_Logic.thy ===== *)
theory Watcher_Logic
  imports Watcher
begin

text \<open>
  One invariant of a session and its preservation by every handler of the watcher, the callbacks
  the scanner runs included.
\<close>

named_theorems keeps \<open>handlers preserve the invariant\<close>

section \<open>Callbacks of a scan\<close>

definition callback_keeps :: "('c \<Rightarrow> bool) \<Rightarrow> 'c callbacks \<Rightarrow> bool" where
  "callback_keeps P cb =
    ((\<forall>f p m c. cb_filter cb = Some f \<longrightarrow> P c \<longrightarrow> P (snd (f p m c)))
     \<and> (\<forall>f p m h c. cb_observer cb = Some f \<longrightarrow> P c \<longrightarrow> P (snd (f p m h c))))"

lemma visit_file_keeps:
  assumes "callback_keeps P cb" and "P c"
  shows "P (snd (visit_file os s worker trust cb p m x c))"
proof -
  define fr where "fr = (case cb_filter cb of None \<Rightarrow> (Inr True, c) | Some f \<Rightarrow> f p m c)"
  have fr: "P (snd fr)" using assms unfolding fr_def callback_keeps_def by (cases "cb_filter cb") auto
  have ob: "P (snd (case cb_observer cb of None \<Rightarrow> (Inr (), c') | Some f \<Rightarrow> f p m h c'))" if "P c'" for h c'
    using assms that unfolding callback_keeps_def by (cases "cb_observer cb") auto
  show ?thesis
    unfolding visit_file_def fr_def [symmetric]
    using fr ob by (auto simp: Let_def split: prod.split sum.split bool.split) (metis snd_conv)+
qed

lemma visit_events_keeps:
  assumes "callback_keeps P cb" and "P c"
  shows "P (snd (visit_events os s worker trust cb seen es x c))"
  using assms(2)
proof (induction es arbitrary: seen x c)
  case (Cons e es)
  show ?case
  proof (cases e)
    case (Found p m)
    have "P (snd (visit_file os s worker trust cb p m x c))"
      by (rule visit_file_keeps [OF assms(1) Cons.prems])
    with Cons show ?thesis by (auto simp: Found split: prod.split sum.split)
  qed (simp_all add: Cons)
qed simp

lemma scan_keeps:
  assumes "callback_keeps P cb" and "P c"
    and "scan os s worker trust cb dedup fuel t1 t2 roots c = Some (r, c')"
  shows "P c'"
  using assms visit_events_keeps [OF assms(1,2)]
  by (auto simp: scan_def Let_def split: if_splits prod.splits sum.splits bind_splits) (metis snd_conv)+

section \<open>The invariant of a session\<close>

text \<open>
  While the session has not been marked incomplete, nothing was recorded as lost, failed or
  unhealthy; the records are numbered from one.  \<open>t\<close> bounds the tick from below.
\<close>

definition numbered :: "dict list \<Rightarrow> bool" where
  "numbered rs = (\<forall>i < length rs. dget (rs ! i) ''sequence'' = JInt (int (Suc i)))"

definition unblemished :: "watcher \<Rightarrow> bool" where
  "unblemished st = (wt_health st = [] \<and> wt_scan_keys st = [] \<and> ws_issues (wt_stats st) = 0
     \<and> ws_events_dropped (wt_stats st) = 0 \<and> ws_quarantine_partial (wt_stats st) = 0
     \<and> ws_quarantine_failed (wt_stats st) = 0)"

definition session_ok :: "nat \<Rightarrow> watcher \<Rightarrow> bool" where
  "session_ok t st = (t \<le> wt_tick st \<and> (wt_incomplete st \<longrightarrow> wt_historical st)
     \<and> (wt_historical st \<or> unblemished st)
     \<and> eq_overflowed (wt_queue st) = (0 < eq_dropped (wt_queue st)) \<and> numbered (wt_records st))"

definition flag_ok :: "event_queue \<Rightarrow> bool" where
  "flag_ok q = (eq_overflowed q = (0 < eq_dropped q))"

lemma flag_submit: "flag_ok q \<Longrightarrow> flag_ok (submit os now p t d q)"
  by (simp add: flag_ok_def submit_def Let_def drop_event_def split: option.split)

lemma flag_ingest_round: "flag_ok q \<Longrightarrow> flag_ok (ingest_round os q)"
  by (simp add: flag_ok_def ingest_round_def ingest_event_def Let_def drop_event_def split: option.split list.split)

lemma flag_ingest: "flag_ok q \<Longrightarrow> flag_ok (ingest os q)"
proof (induction os q rule: ingest.induct)
  case (1 os q)
  then show ?case by (simp add: ingest.simps [of os q] flag_ingest_round)
qed

lemma flag_take: "flag_ok q \<Longrightarrow> flag_ok (snd (take_due now m q))"
  by (simp add: flag_ok_def take_due_def Let_def)

lemma flag_threads: "flag_ok q \<Longrightarrow> flag_ok (fold (thread_step os b) ops q)"
proof (induction ops arbitrary: q)
  case (Cons op ops)
  have "flag_ok (thread_step os b op q)"
    using Cons.prems by (cases op) (simp_all add: flag_submit flag_ingest_round)
  with Cons.IH show ?case by simp
qed simp

lemma session_ok_flag: "session_ok t st = (t \<le> wt_tick st \<and> (wt_incomplete st \<longrightarrow> wt_historical st)
     \<and> (wt_historical st \<or> unblemished st) \<and> flag_ok (wt_queue st) \<and> numbered (wt_records st))"
  by (simp add: session_ok_def flag_ok_def)

lemma session_ok_earlier: "session_ok t st \<Longrightarrow> s \<le> t \<Longrightarrow> session_ok s st"
  by (auto simp: session_ok_def)

lemma advance_keeps [keeps]: "session_ok t st \<Longrightarrow> session_ok (Suc t) (advance env st)"
  by (simp add: session_ok_flag advance_def unblemished_def flag_threads)

lemma advance_keeps' [keeps]: "session_ok t st \<Longrightarrow> session_ok t (advance env st)"
  by (simp add: session_ok_flag advance_def unblemished_def flag_threads)

lemma numbered_snoc: "numbered rs \<Longrightarrow> dget r ''sequence'' = JInt (int (Suc (length rs))) \<Longrightarrow> numbered (rs @ [r])"
  by (auto simp: numbered_def nth_append less_Suc_eq)

lemma emit_keeps [keeps]:
  assumes "session_ok t st" and "''sequence'' \<notin> fst ` set payload"
  shows "session_ok t (emit env event payload st)"
proof -
  have "map_of (rev payload) ''sequence'' = None" using assms(2) by (simp add: map_of_eq_None_iff)
  then have "numbered (wt_records (emit env event payload st))"
    using assms(1) by (simp add: emit_def session_ok_def advance_def numbered_snoc dget_def map_of_mk_dict map_add_def)
  with advance_keeps' [OF assms(1)] show ?thesis
    by (simp add: emit_def session_ok_flag unblemished_def)
qed

lemma mark_keeps [keeps]: "session_ok t st \<Longrightarrow> session_ok t (mark_incomplete b st)"
  by (simp add: mark_incomplete_def session_ok_flag)

lemma health_issue_marks:
  assumes "session_ok t (mark_incomplete b st)"
  shows "session_ok t (health_issue env code message st)"
proof -
  define st1 where "st1 = (mark_incomplete (code \<notin> set [''watch_path_unreadable'', ''scan_scope_incomplete'']) st)
     \<lparr>wt_generation := Suc (wt_generation st)\<rparr>"
  have "session_ok t st1" and "wt_historical st1"
    using assms by (simp_all add: st1_def mark_incomplete_def session_ok_flag)
  then have "session_ok t (count_issues 1 (st1\<lparr>wt_health := hs\<rparr>))" for hs
    by (simp add: count_issues_def session_ok_flag)
  with \<open>session_ok t st1\<close> show ?thesis
    by (auto simp: health_issue_def Let_def st1_def mark_incomplete_def intro!: emit_keeps)
qed

lemma health_issue_keeps [keeps]: "session_ok t st \<Longrightarrow> session_ok t (health_issue env code message st)"
  by (rule health_issue_marks [OF mark_keeps])

lemma clock_keeps [keeps]: "session_ok t st \<Longrightarrow> read_clock env st = (now, st') \<Longrightarrow> session_ok t st'"
  by (auto simp: read_clock_def advance_keeps')

lemma clock_keeps_Suc: "session_ok t st \<Longrightarrow> read_clock env st = (now, st') \<Longrightarrow> session_ok (Suc t) st'"
  by (auto simp: read_clock_def advance_keeps)

lemma snapshot_keeps [keeps]: "session_ok t st \<Longrightarrow> stats_snapshot env st = (items, st') \<Longrightarrow> session_ok t st'"
  by (auto simp: stats_snapshot_def split: prod.splits intro: clock_keeps)

text \<open>Updates of fields the invariant does not speak of.\<close>

lemma update_keeps [simp]:
  "session_ok t (st\<lparr>wt_snapshot := m\<rparr>) = session_ok t st"
  "session_ok t (st\<lparr>wt_generation := n\<rparr>) = session_ok t st"
  "session_ok t (st\<lparr>wt_observer := b\<rparr>) = session_ok t st"
  "session_ok t (st\<lparr>wt_backend := x\<rparr>) = session_ok t st"
  "session_ok t (st\<lparr>wt_fallback := y\<rparr>) = session_ok t st"
  by (simp_all add: session_ok_def unblemished_def)

lemma stats_keeps:
  "session_ok t st \<Longrightarrow> ws_issues s = ws_issues (wt_stats st) \<Longrightarrow> ws_events_dropped s = ws_events_dropped (wt_stats st)
   \<Longrightarrow> ws_quarantine_partial s = ws_quarantine_partial (wt_stats st)
   \<Longrightarrow> ws_quarantine_failed s = ws_quarantine_failed (wt_stats st) \<Longrightarrow> session_ok t (st\<lparr>wt_stats := s\<rparr>)"
  by (simp add: session_ok_def unblemished_def)

lemma pop_keeps [keeps]: "session_ok t st \<Longrightarrow> session_ok t (snapshot_pop env p st)"
  by (simp add: snapshot_pop_def)

lemma pops_keep [keeps]: "session_ok t st \<Longrightarrow> session_ok t (fold (\<lambda>i. snapshot_pop env (f i)) xs st)"
  by (induction xs arbitrary: st) (simp_all add: pop_keeps)

lemma pipeline_keeps [keeps]:
  assumes "session_ok t st" and "event_pipeline_is_healthy env st = (b, st')"
  shows "session_ok t st'"
proof (cases "wt_ingest_failure st = None \<and> eq_overflowed (wt_queue st)")
  case True
  have "session_ok t (mark_incomplete True (st\<lparr>wt_queue := snd (clear_overflow (wt_queue st)),
      wt_stats := (wt_stats st)\<lparr>ws_events_dropped := n\<rparr>\<rparr>))" for n
    using assms(1) by (simp add: session_ok_def mark_incomplete_def clear_overflow_def)
  from health_issue_marks [OF this] assms(2) True show ?thesis
    by (auto simp: event_pipeline_is_healthy_def clear_overflow_def)
next
  case False
  with assms show ?thesis
    by (auto simp: event_pipeline_is_healthy_def health_issue_keeps split: option.splits if_splits)
qed

lemma start_keeps [keeps]: "session_ok t st \<Longrightarrow> start_observer env st = (r, st') \<Longrightarrow> session_ok t st'"
  by (auto simp: start_observer_def Let_def emit_keeps split: if_splits option.splits)

lemma backend_keeps [keeps]: "session_ok t st \<Longrightarrow> backend_is_healthy env st = (b, st') \<Longrightarrow> session_ok t st'"
  by (auto simp: backend_is_healthy_def health_issue_keeps advance_keeps' split: if_splits)

lemma roots_keep [keeps]: "session_ok t st \<Longrightarrow> roots_are_healthy env rs st = (b, st') \<Longrightarrow> session_ok t st'"
proof (induction rs arbitrary: st)
  case (Cons r rs)
  from Cons.prems advance_keeps' [OF Cons.prems(1), of env] Cons.IH [of "advance env st"] show ?case
    by (auto simp: health_issue_keeps split: option.splits)
qed simp

lemma superseded_keeps [keeps]: "session_ok t st \<Longrightarrow> session_ok t (superseded env triggers gone st)"
proof -
  assume "session_ok t st"
  then have "session_ok t ((fold (\<lambda>i. snapshot_pop env (si_path i)) gone st)\<lparr>wt_stats := (wt_stats (fold (\<lambda>i. snapshot_pop env (si_path i)) gone st))
      \<lparr>ws_events_superseded := n\<rparr>\<rparr>)" for n
    by (intro stats_keeps pops_keep) simp_all
  then show ?thesis by (simp add: superseded_def Let_def emit_keeps)
qed

lemma note_scan_issues_keeps [keeps]: "session_ok t st \<Longrightarrow> session_ok t (note_scan_issues env issues st)"
proof -
  assume ok: "session_ok t st"
  then have "session_ok t ((mark_incomplete False (count_issues n (st\<lparr>wt_scan_keys := ks\<rparr>)))\<lparr>wt_generation := g\<rparr>)" for n ks g
    by (simp add: session_ok_def mark_incomplete_def count_issues_def)
  note marked = pops_keep [OF this]
  have "session_ok t (count_issues 0 st)" using ok by (simp add: count_issues_def session_ok_def unblemished_def)
  then show ?thesis
    by (cases "issues = []") (simp_all add: note_scan_issues_def Let_def marked)
qed

lemma add_batch_keeps [keeps]: "session_ok t st \<Longrightarrow> session_ok t (add_batch r st)"
  by (simp add: add_batch_def Let_def stats_keeps)

lemma count_reconciliation_keeps [keeps]: "session_ok t st \<Longrightarrow> session_ok t (count_reconciliation full st)"
  by (simp add: count_reconciliation_def Let_def stats_keeps)

lemma marked_keeps: "session_ok t st \<Longrightarrow> session_ok t (mark_incomplete b (count_issues n (st\<lparr>wt_stats := s\<rparr>)))"
  by (simp add: session_ok_def mark_incomplete_def count_issues_def)

lemma quarantine_one_keeps: "session_ok t st \<Longrightarrow> quarantine_one env fd st = (r, st') \<Longrightarrow> session_ok t st'"
  by (auto simp: quarantine_one_def Let_def marked_keeps advance_keeps' intro: stats_keeps
      split: sum.splits exn.splits if_splits)

lemma quarantine_each_keeps: "session_ok t st \<Longrightarrow> quarantine_each env fds st = (r, st') \<Longrightarrow> session_ok t st'"
  by (induction fds arbitrary: st r st') (auto split: sum.splits prod.splits dest: quarantine_one_keeps)

lemma quarantine_keeps [keeps]: "session_ok t st \<Longrightarrow> quarantine_findings env fds st = (r, st') \<Longrightarrow> session_ok t st'"
  by (auto simp: quarantine_findings_def quarantine_each_keeps split: if_splits)

lemma absorb_keeps [keeps]:
  "session_ok t st \<Longrightarrow> absorb_result env triggers event no_hash allow_root r0 st = (r, st') \<Longrightarrow> session_ok t st'"
proof -
  assume ok: "session_ok t st" and eq: "absorb_result env triggers event no_hash allow_root r0 st = (r, st')"
  define os where "os = en_os env (wt_tick st)"
  define r1 where "r1 = retain_issues (filter (\<lambda>i. \<not> vanished os allow_root i) (sr_issues r0)) r0"
  define st1 where "st1 = note_scan_issues env (sr_issues r1) (add_batch r1
     (superseded env triggers (filter (vanished os allow_root) (sr_issues r0)) (advance env st)))"
  define st2 where "st2 = (if coverage_gaps (sr_stats r1) = [] then st1 else health_issue env ''scan_scope_incomplete''
     (''one or more observed paths were not inspected: '' @ gap_text (coverage_gaps (sr_stats r1))) st1)"
  have "session_ok t st1"
    unfolding st1_def by (intro note_scan_issues_keeps add_batch_keeps superseded_keeps advance_keeps' ok)
  then have ok2: "session_ok t st2" by (simp add: st2_def health_issue_keeps)
  obtain q st3 where q: "quarantine_findings env (sr_findings r1) st2 = (q, st3)" by fastforce
  with quarantine_keeps [OF ok2] have "session_ok t st3" by blast
  then show ?thesis
    using eq q unfolding absorb_result_def Let_def os_def [symmetric] r1_def [symmetric] st1_def [symmetric] st2_def [symmetric]
    by (auto intro!: emit_keeps split: sum.splits)
qed

definition observer_keeps :: "nat \<Rightarrow> (watcher \<times> 'c) file_observer option \<Rightarrow> bool" where
  "observer_keeps t obs = (\<forall>f p m h sc. obs = Some f \<longrightarrow> session_ok t (fst sc) \<longrightarrow> session_ok t (fst (snd (f p m h sc))))"

definition filter_keeps :: "nat \<Rightarrow> (watcher \<times> 'c) file_filter option \<Rightarrow> bool" where
  "filter_keeps t flt = (\<forall>f p m sc. flt = Some f \<longrightarrow> session_ok t (fst sc) \<longrightarrow> session_ok t (fst (snd (f p m sc))))"

lemma record_inspection_keeps:
  "observer_keeps t obs \<Longrightarrow> session_ok t (fst sc) \<Longrightarrow> session_ok t (fst (snd (record_inspection env obs p m h sc)))"
  unfolding observer_keeps_def record_inspection_def Let_def
  by (cases obs; cases h; cases sc) (simp_all add: pop_keeps split_paired_all)

lemma scan_paths_keeps:
  assumes "filter_keeps t flt" and "observer_keeps t obs" and "session_ok t (fst sc)"
    and "scan_paths env flt obs paths triggers event no_hash allow_root sc = (r, sc')"
  shows "session_ok t (fst sc')"
proof -
  let ?cb = "\<lparr>cb_filter = flt, cb_observer = Some (record_inspection env obs)\<rparr>"
  have cb: "callback_keeps (\<lambda>c. session_ok t (fst c)) ?cb"
    using assms(1) record_inspection_keeps [OF assms(2)] unfolding callback_keeps_def filter_keeps_def by simp
  have "session_ok t (fst (advance env (fst sc), snd sc))" using advance_keeps' [OF assms(3)] by simp
  note scanned = scan_keeps [OF cb this]
  define k where "k = wt_tick (fst sc)"
  obtain answer where answer: "scan (en_os env k) (en_scanner env) (en_worker env k) (en_trust env) ?cb False (en_fuel env)
     (en_utc env k) (en_utc env (Suc k)) paths (advance env (fst sc), snd sc) = answer" by blast
  have eq: "(case answer of None \<Rightarrow> (Inl (OtherError ''the fuel of the walk is too small''), sc)
     | Some (Inl e, sc') \<Rightarrow> (Inl e, sc')
     | Some (Inr r, (st, c)) \<Rightarrow> (case absorb_result env triggers event no_hash allow_root r st of
         (a, st') \<Rightarrow> (a, (st', c)))) = (r, sc')"
    using assms(4) answer by (simp add: scan_paths_def Let_def k_def)
  show ?thesis
  proof (cases answer)
    case (Some a)
    obtain x st c where a: "a = (x, (st, c))" by (metis prod.exhaust)
    from scanned [OF answer [unfolded Some a]] have ok: "session_ok t st" by simp
    show ?thesis
    proof (cases x)
      case (Inr r1)
      obtain b st' where "absorb_result env triggers event no_hash allow_root r1 st = (b, st')" by fastforce
      with absorb_keeps [OF ok] eq show ?thesis by (auto simp: Some a Inr)
    qed (use eq ok in \<open>auto simp: Some a\<close>)
  qed (use eq assms(3) in auto)
qed

lemma scan_paths_keeps_pair:
  assumes "filter_keeps t flt" and "observer_keeps t obs" and "session_ok t st"
    and "scan_paths env flt obs paths triggers event no_hash allow_root (st, c) = (r, (st', c'))"
  shows "session_ok t st'"
  using scan_paths_keeps [OF assms(1,2) _ assms(4)] assms(3) by simp

lemma no_callbacks_keep: "filter_keeps t None" "observer_keeps t None"
  by (simp_all add: filter_keeps_def observer_keeps_def)

lemma scan_pending_keeps [keeps]:
  assumes ok: "session_ok t st" and "scan_pending env p st = (r, st')"
  shows "session_ok t st'"
proof -
  have stats: "session_ok t (st\<lparr>wt_stats := (wt_stats st)\<lparr>ws_events_outside_scope := n\<rparr>\<rparr>)"
    "session_ok t (st\<lparr>wt_stats := (wt_stats st)\<lparr>ws_events_superseded := n\<rparr>\<rparr>)"
    "session_ok t (st\<lparr>wt_stats := (wt_stats st)\<lparr>ws_events_cross_filesystem := n\<rparr>\<rparr>)" for n
    by (rule stats_keeps [OF ok]; simp)+
  note scanned = scan_paths_keeps_pair [OF no_callbacks_keep advance_keeps' [OF ok]]
  note rules = emit_keeps pop_keeps advance_keeps' health_issue_keeps stats ok
  show ?thesis
    using assms(2) unfolding scan_pending_def Let_def
    by (auto split: option.splits sum.splits exn.splits if_splits prod.splits intro!: rules dest: scanned)
qed

lemma scan_all_pending_keeps [keeps]:
  "session_ok t st \<Longrightarrow> scan_all_pending env ps st = (r, st') \<Longrightarrow> session_ok t st'"
  by (induction ps arbitrary: st) (auto split: sum.splits prod.splits dest: scan_pending_keeps)

lemma take_pending_keeps [keeps]:
  assumes "session_ok t st" and "take_pending env maximum st = (ps, st')"
  shows "session_ok t st'"
proof -
  have ok: "session_ok t (advance env st)" by (rule advance_keeps' [OF assms(1)])
  have "flag_ok (snd (take_due now maximum (ingest os (wt_queue (advance env st)))))" for now os
    using ok by (intro flag_take flag_ingest) (simp add: session_ok_flag)
  with ok assms(2) show ?thesis
    by (auto simp: take_pending_def read_clock_def session_ok_flag unblemished_def split: prod.splits) (metis snd_conv)+
qed

section \<open>Reconciliation and the loop\<close>

lemma progress_keeps: "session_ok t (fst sc) \<Longrightarrow> session_ok t (fst (emit_progress_heartbeat env trigger sc))"
  by (auto simp: emit_progress_heartbeat_def split: prod.splits intro!: emit_keeps
      dest: clock_keeps snapshot_keeps)

lemma drain_keeps: "session_ok t (fst sc) \<Longrightarrow> session_ok t (fst (snd (drain_priority_events env key sc)))"
proof -
  assume ok: "session_ok t (fst sc)"
  obtain st rc where sc: "sc = (st, rc)" by fastforce
  obtain now st1 where c: "read_clock env st = (now, st1)" by fastforce
  obtain ps st2 where p: "take_pending env (Some 32) st1 = (ps, st2)" by fastforce
  obtain r st3 where s: "scan_all_pending env (filter (\<lambda>p. snapshot_path_key (base_os env) (pp_path p) \<noteq> key) ps) st2 = (r, st3)"
    by fastforce
  from ok have 1: "session_ok t st1" using clock_keeps [OF _ c] by (simp add: sc)
  have "session_ok t st3" by (rule scan_all_pending_keeps [OF take_pending_keeps [OF 1 p] s])
  with 1 show ?thesis by (simp add: drain_priority_events_def sc c p s)
qed

lemma drain_progress_keeps:
  "drain_priority_events env key (emit_progress_heartbeat env trigger (st, rc)) = (r, (st', rc')) \<Longrightarrow> session_ok t st
   \<Longrightarrow> session_ok t st'"
  using drain_keeps [OF progress_keeps, of t "(st, rc)" env key env trigger] by simp

lemma changed_keeps: "filter_keeps t (Some (changed_since_last env trigger full metadata_only))"
proof -
  have "session_ok t (fst (snd (changed_since_last env trigger full metadata_only p m sc)))"
    if "session_ok t (fst sc)" for p m sc
    using that
    by (cases sc) (auto simp: changed_since_last_def Let_def split: prod.split sum.split
        intro!: progress_keeps dest: drain_progress_keeps)
  then show ?thesis by (simp add: filter_keeps_def)
qed

lemma hash_keeps: "observer_keeps t (Some (record_successful_hash env trigger))"
proof -
  have "session_ok t (fst (snd (record_successful_hash env trigger p m h sc)))"
    if "session_ok t (fst sc)" for p m h sc
    using that by (cases sc) (auto simp: record_successful_hash_def Let_def progress_keeps drain_keeps split: sum.splits)
  then show ?thesis by (simp add: observer_keeps_def)
qed

lemma finish_keeps: "session_ok t (fst sc) \<Longrightarrow> session_ok t (finish_reconciliation env metadata_only g r sc)"
proof -
  assume ok: "session_ok t (fst sc)"
  obtain st rc where sc: "sc = (st, rc)" by fastforce
  define st1 where "st1 = st\<lparr>wt_snapshot := rc_current rc, wt_stats := (wt_stats st)\<lparr>
          ws_metadata_observed := ws_metadata_observed (wt_stats st) + rc_observed rc,
          ws_metadata_unchanged := ws_metadata_unchanged (wt_stats st) + rc_unchanged rc,
          ws_unresolved_files := length (rc_unresolved rc)\<rparr>\<rparr>"
  have ok1: "session_ok t st1" unfolding st1_def using ok by (intro stats_keeps) (simp_all add: sc)
  then have ok2: "session_ok t (st1\<lparr>wt_incomplete := False\<rparr>)" by (simp add: session_ok_def unblemished_def)
  obtain items st2 where s: "stats_snapshot env (st1\<lparr>wt_incomplete := False\<rparr>) = (items, st2)" by fastforce
  from snapshot_keeps [OF ok2 s] ok1 show ?thesis
    unfolding finish_reconciliation_def sc prod.case Let_def st1_def [symmetric] s
    by (auto intro!: emit_keeps)
qed

lemma reconcile_keeps [keeps]:
  assumes "session_ok t st" and "reconcile env trigger full metadata_only st = (r, st')"
  shows "session_ok t st'"
proof (cases "metadata_only \<and> full")
  case False
  obtain t0 s0 where c0: "read_clock env (count_reconciliation full st) = (t0, s0)" by fastforce
  obtain t1 s1 where c1: "read_clock env s0 = (t1, s1)" by fastforce
  obtain t2 s2 where c2: "read_clock env s1 = (t2, s2)" by fastforce
  have ok: "session_ok t s2"
    by (rule clock_keeps [OF clock_keeps [OF clock_keeps [OF count_reconciliation_keeps [OF assms(1)] c0] c1] c2])
  have obs: "observer_keeps t (if metadata_only then None else Some (record_successful_hash env trigger))"
    by (simp add: no_callbacks_keep hash_keeps)
  note scanned = scan_paths_keeps_pair [OF changed_keeps obs ok]
  show ?thesis
    using assms(2) False scanned
    by (auto simp: reconcile_def c0 c1 c2 Let_def split: prod.splits sum.splits intro!: finish_keeps)
qed (use assms in \<open>simp add: reconcile_def\<close>)

lemma check_trust_keeps [keeps]: "session_ok t st \<Longrightarrow> check_trust env now dl st = (r, st') \<Longrightarrow> session_ok t st'"
  by (auto simp: check_trust_def health_issue_keeps advance_keeps' split: if_splits option.splits)

lemma heartbeat_keeps [keeps]: "session_ok t st \<Longrightarrow> heartbeat env now dl st = (r, st') \<Longrightarrow> session_ok t st'"
  by (auto simp: heartbeat_def split: if_splits prod.splits intro!: emit_keeps dest: snapshot_keeps)

lemma periodic_keeps [keeps]: "session_ok t st \<Longrightarrow> periodic env now dl st = (r, st') \<Longrightarrow> session_ok t st'"
  by (auto simp: periodic_def split: if_splits prod.splits sum.splits dest: reconcile_keeps)

text \<open>A turn of the loop that goes on takes at least one tick and keeps the start of the session.\<close>

lemma monitor_step_keeps:
  assumes "session_ok t st" and "monitor_step env duration dl st = (r, st')"
  shows "session_ok t st' \<and> (\<forall>dl'. r = Again dl' \<longrightarrow> session_ok (Suc t) st' \<and> dl_started dl' = dl_started dl)"
proof -
  obtain b1 s1 where 1: "event_pipeline_is_healthy env st = (b1, s1)" by fastforce
  obtain now s2 where 2: "read_clock env s1 = (now, s2)" by fastforce
  obtain b3 s3 where 3: "backend_is_healthy env s2 = (b3, s3)" by fastforce
  obtain b4 s4 where 4: "roots_are_healthy env (en_roots env) s3 = (b4, s4)" by fastforce
  obtain b5 s5 where 5: "check_trust env now dl s4 = (b5, s5)" by fastforce
  obtain ps s6 where 6: "take_pending env None s5 = (ps, s6)" by fastforce
  obtain b7 s7 where 7: "scan_all_pending env ps s6 = (b7, s7)" by fastforce
  obtain now' s8 where 8: "read_clock env s7 = (now', s8)" by fastforce
  obtain dl9 s9 where 9: "heartbeat env now' (the b5) s8 = (dl9, s9)" by fastforce
  obtain r10 s10 where 10: "periodic env now' dl9 s9 = (r10, s10)" by fastforce
  have o1: "session_ok t s1" by (rule pipeline_keeps [OF assms(1) 1])
  have o2: "session_ok (Suc t) s2" by (rule clock_keeps_Suc [OF o1 2])
  have o3: "session_ok (Suc t) s3" by (rule backend_keeps [OF o2 3])
  have o4: "session_ok (Suc t) s4" by (rule roots_keep [OF o3 4])
  have o5: "session_ok (Suc t) s5" by (rule check_trust_keeps [OF o4 5])
  have o7: "session_ok (Suc t) s7" by (rule scan_all_pending_keeps [OF take_pending_keeps [OF o5 6] 7])
  have o9: "session_ok (Suc t) s9" by (rule heartbeat_keeps [OF clock_keeps [OF o7 8] 9])
  have o10: "session_ok (Suc t) (advance env s10)" by (rule advance_keeps' [OF periodic_keeps [OF o9 10]])
  have d5: "dl_started dl5 = dl_started dl" if "b5 = Some dl5" for dl5
    using 5 that by (auto simp: check_trust_def split: if_splits option.splits)
  have d9: "dl_started dl9 = dl_started (the b5)"
    using 9 by (auto simp: heartbeat_def split: if_splits prod.splits)
  have d10: "dl_started dl' = dl_started dl9" if "r10 = Again dl'" for dl'
    using 10 that by (auto simp: periodic_def split: if_splits prod.splits sum.splits)
  have later: "session_ok t s" if "session_ok (Suc t) s" for s
    by (rule session_ok_earlier [OF that]) simp
  note later_simps = o1 later [OF o2] later [OF o3] later [OF o4] later [OF o5] later [OF o7] later [OF o10] o10
  show ?thesis
  proof (cases b5)
    case None
    with assms(2) later_simps show ?thesis
      by (auto simp: monitor_step_def 1 2 3 4 5 split: bool.splits if_splits)
  next
    case (Some d)
    note 9 = 9 [unfolded Some option.sel]
    from assms(2) d5 [OF Some] d9 [unfolded Some option.sel] d10 later_simps show ?thesis
      by (auto simp: monitor_step_def 1 2 3 4 5 6 7 8 9 10 Some split: bool.splits if_splits sum.splits)
  qed
qed

lemma monitor_keeps:
  "session_ok t st \<Longrightarrow> monitor env duration fuel dl st = Some (r, st') \<Longrightarrow> session_ok t st'"
proof (induction fuel arbitrary: dl st)
  case (Suc fuel)
  obtain a s where s: "monitor_step env duration dl st = (a, s)" by fastforce
  from monitor_step_keeps [OF Suc.prems(1) s] Suc show ?case
    by (cases a) (auto simp: s split: if_splits)
qed simp

text \<open>After the clean-up the counters of the queue are in the statistics.\<close>

lemma flag_clear: "flag_ok (snd (clear_overflow q))"
  by (simp add: flag_ok_def clear_overflow_def)

lemma pipeline_healthy:
  "event_pipeline_is_healthy env st = (True, st') \<Longrightarrow> st' = st \<and> \<not> eq_overflowed (wt_queue st)"
  by (auto simp: event_pipeline_is_healthy_def split: option.splits if_splits prod.splits)

lemma health_issue_historical [simp]: "wt_historical (health_issue env code message st)"
  by (simp add: health_issue_def mark_incomplete_def count_issues_def emit_def advance_def Let_def)

lemma pipeline_unhealthy:
  "event_pipeline_is_healthy env st = (False, st') \<Longrightarrow> wt_historical st'"
  by (auto simp: event_pipeline_is_healthy_def split: option.splits if_splits prod.splits)

lemma close_session_ok:
  assumes "session_ok t st" and "close_session env started st = st'"
  shows "(wt_historical st' \<or> (unblemished st' \<and> ws_queue_total_depth (wt_stats st') = 0))
    \<and> (wt_incomplete st' \<longrightarrow> wt_historical st') \<and> numbered (wt_records st')"
proof -
  define s1 where "s1 = advance env (st\<lparr>wt_observer := False\<rparr>)"
  define s2 where "s2 = (if started \<and> \<not> en_thread_stops env then
      health_issue env ''watch_event_ingest_stopped''
        ''event ingestion worker did not stop within its bounded deadline'' s1 else s1)"
  define s3 where "s3 = s2\<lparr>wt_queue := ingest (base_os env) (wt_queue s2)\<rparr>"
  obtain b s4 where 4: "event_pipeline_is_healthy env s3 = (b, s4)" by fastforce
  obtain now s5 where 5: "read_clock env s4 = (now, s5)" by fastforce
  define q where "q = wt_queue s4"
  define depth where "depth = length (eq_raw q) + length (eq_pending q)"
  define s6 where "s6 = (if depth = 0 then s5 else health_issue env ''watch_event_backlog_unprocessed''
      (''observer stopped with '' @ dec_nat depth @ '' queued path(s) not scanned; coverage is unknown'') s5)"
  have st': "st' = s6\<lparr>wt_stats := with_telemetry now q (wt_stats s6)\<rparr>"
    using assms(2) unfolding close_session_def Let_def s1_def [symmetric] s2_def [symmetric] s3_def [symmetric] 4
      snd_conv 5 prod.case q_def [symmetric] depth_def [symmetric] s6_def [symmetric] by simp
  have "session_ok t s2" using assms(1) by (simp add: s1_def s2_def health_issue_keeps advance_keeps')
  then have "session_ok t s3" by (simp add: s3_def session_ok_flag unblemished_def flag_ingest)
  from pipeline_keeps [OF this 4] have o4: "session_ok t s4" .
  have o6: "session_ok t s6" using clock_keeps [OF o4 5] by (simp add: s6_def health_issue_keeps)
  show ?thesis
  proof (cases "wt_historical s6")
    case True
    with o6 show ?thesis by (simp add: st' session_ok_def)
  next
    case False
    then have d: "depth = 0" and s6: "s6 = s5" by (auto simp: s6_def split: if_splits)
    have h: "wt_historical s4 = wt_historical s6" using 5 by (auto simp: s6 read_clock_def advance_def)
    with False pipeline_unhealthy 4 have b: b by (cases b) auto
    with 4 have s43: "s4 = s3" and no: "\<not> eq_overflowed (wt_queue s3)" by (auto dest: pipeline_healthy)
    have "eq_dropped q = 0" using no o4 by (simp add: q_def s43 session_ok_def)
    moreover have "unblemished s6" and "\<not> wt_incomplete s6" and "numbered (wt_records s6)"
      using o6 False by (auto simp: session_ok_def)
    ultimately show ?thesis using d by (simp add: st' unblemished_def with_telemetry_def depth_def)
  qed
qed

lemma new_watcher_ok: "session_ok 0 (new_watcher env)"
  by (simp add: session_ok_def new_watcher_def new_queue_def unblemished_def numbered_def watch_stats0_def)

lemma supervise_keeps:
  assumes "session_ok t st" and "supervise env duration fuel dls st = Some (r, st')"
  shows "session_ok t st'"
proof -
  obtain a s1 where 1: "reconcile env ''initial_metadata_inventory'' False True st = (a, s1)" by fastforce
  obtain now s2 where 2: "read_clock env s1 = (now, s2)" by fastforce
  have o1: "session_ok t s1" by (rule reconcile_keeps [OF assms(1) 1])
  with assms monitor_keeps [OF clock_keeps [OF o1 2]] show ?thesis
    by (auto simp: supervise_def 1 2 split: if_splits sum.splits)
qed

end
