(* ===== verification/Watch_Queue_Proofs.thy ===== *)
theory Watch_Queue_Proofs
  imports Watch_Queue
begin

text \<open>
  The queue of \<^verbatim>\<open>watcher.py\<close> keeps its bound, accounts for every event, hands out a changed path
  in bounded time, and loses no change without saying so.  The last is the contract
  \<open>change_buffer\<close>, which the queue meets.
\<close>

section \<open>The contract of a buffer of changes\<close>

text \<open>
  A step may offer the change of a key, hand out keys, or report a loss.  A key that is
  offered waits or is lost visibly, a waiting key waits until it is handed out, and a loss
  stands until it is reported.
\<close>

locale change_buffer =
  fixes invar :: "'q \<Rightarrow> bool"
    and step :: "'o \<Rightarrow> 'q \<Rightarrow> 'q"
    and offered :: "'o \<Rightarrow> 'k option"
    and handed :: "'o \<Rightarrow> 'q \<Rightarrow> 'k set"
    and reported :: "'o \<Rightarrow> 'q \<Rightarrow> bool"
    and waiting :: "'q \<Rightarrow> 'k set"
    and lost :: "'q \<Rightarrow> bool"
  assumes invar_step: "invar q \<Longrightarrow> invar (step op q)"
    and offer_waits: "invar q \<Longrightarrow> offered op = Some k \<Longrightarrow> k \<in> waiting (step op q) \<or> lost (step op q)"
    and waits_on: "invar q \<Longrightarrow> k \<in> waiting q \<Longrightarrow> k \<in> handed op q \<or> k \<in> waiting (step op q)"
    and loss_stands: "invar q \<Longrightarrow> lost q \<Longrightarrow> reported op q \<or> lost (step op q)"
begin

lemma invar_run: "invar q \<Longrightarrow> invar (fold step ops q)"
  by (induction ops arbitrary: q) (simp_all add: invar_step)

text \<open>What happens to a key that waits, or to a loss, in the steps that follow.\<close>

lemma run_keeps:
  assumes "invar q" and "k \<in> waiting q \<or> lost q"
  shows "k \<in> waiting (fold step ops q) \<or> lost (fold step ops q)
    \<or> (\<exists>us op vs. ops = us @ op # vs \<and> (k \<in> handed op (fold step us q) \<or> reported op (fold step us q)))"
  using assms
proof (induction ops arbitrary: q)
  case (Cons op ops)
  show ?case
  proof (cases "k \<in> handed op q \<or> reported op q")
    case True
    then have "op # ops = [] @ op # ops \<and> (k \<in> handed op (fold step [] q) \<or> reported op (fold step [] q))"
      by simp
    then show ?thesis by blast
  next
    case False
    with Cons.prems have "k \<in> waiting (step op q) \<or> lost (step op q)"
      using waits_on loss_stands by blast
    note IH = Cons.IH [OF invar_step [OF Cons.prems(1)] this]
    show ?thesis
    proof (cases "k \<in> waiting (fold step (op # ops) q) \<or> lost (fold step (op # ops) q)")
      case False
      with IH obtain us op' vs where "ops = us @ op' # vs"
        and "k \<in> handed op' (fold step us (step op q)) \<or> reported op' (fold step us (step op q))"
        by auto
      then have "op # ops = (op # us) @ op' # vs
          \<and> (k \<in> handed op' (fold step (op # us) q) \<or> reported op' (fold step (op # us) q))"
        by simp
      then show ?thesis by blast
    qed blast
  qed
qed simp

lemma change_not_missed:
  assumes "invar q" and "offered op = Some k"
  shows "k \<in> waiting (fold step ops (step op q)) \<or> lost (fold step ops (step op q))
    \<or> (\<exists>us op' vs. ops = us @ op' # vs \<and>
         (k \<in> handed op' (fold step us (step op q)) \<or> reported op' (fold step us (step op q))))"
  by (rule run_keeps [OF invar_step [OF assms(1)] offer_waits [OF assms]])

end

section \<open>The invariant of the queue\<close>

text \<open>The documented behaviour of \<^verbatim>\<open>os.getcwd\<close> and \<^verbatim>\<open>expanduser\<close> that a stored path relies on.\<close>

definition steady_os :: "os \<Rightarrow> bool" where
  "steady_os os = (prefix ''/'' (os_cwd os) \<and> (\<forall>p. prefix ''/'' p \<longrightarrow> os_expand os p = p))"

lemma absolute_normal: "steady_os os \<Longrightarrow> normal_path (absolute os p)"
  by (simp add: steady_os_def absolute_def abspath_normal)

lemma path_key_normal: "steady_os os \<Longrightarrow> normal_path p \<Longrightarrow> path_key os p = p"
  by (simp add: steady_os_def path_key_def absolute_def normal_path_slash abspath_of_normal normpath_of_normal)

lemma path_key_absolute: "steady_os os \<Longrightarrow> path_key os (absolute os p) = path_key os p"
  by (simp add: path_key_normal absolute_normal) (simp add: path_key_def absolute_normal normpath_of_normal)

definition queue_invar :: "os \<Rightarrow> string list \<Rightarrow> event_queue \<Rightarrow> bool" where
  "queue_invar os excluded q =
    (steady_os os \<and> eq_excluded q = excluded
     \<and> distinct (map fst (eq_pending q))
     \<and> length (eq_pending q) + length (eq_raw q) \<le> eq_capacity q
     \<and> length (eq_pending q) \<le> eq_high_water q \<and> eq_high_water q \<le> eq_capacity q
     \<and> eq_overflowed q = (0 < eq_dropped q)
     \<and> (\<forall>(k, p) \<in> set (eq_pending q). path_key os (pp_path p) = k))"

lemma update_length:
  "length (AList.update k v xs) = (if k \<in> fst ` set xs then length xs else Suc (length xs))"
  by (induction xs) auto

lemma update_set: "set (AList.update k v xs) \<subseteq> insert (k, v) (set xs)"
  by (induction xs) auto

lemma update_keys: "fst ` set (AList.update k v xs) = insert k (fst ` set xs)"
  by (induction xs) auto

lemma map_of_keys: "map_of xs k = Some v \<Longrightarrow> k \<in> fst ` set xs"
  by (metis map_of_eq_None_iff option.distinct(1))

lemma filter_keys: "length (filter P xs) \<le> n" if "length xs \<le> n"
  using that length_filter_le le_trans by blast

lemma path_note_event [simp]: "pp_path (note_event q t now p) = pp_path p" "pp_first (note_event q t now p) = pp_first p"
  by (simp_all add: note_event_def)

lemma queue_invar_update:
  assumes "queue_invar os excluded q" and "path_key os (pp_path p) = k"
    and "k \<in> fst ` set (eq_pending q) \<or> length (eq_pending q) + length (eq_raw q) < eq_capacity q"
  shows "queue_invar os excluded (q\<lparr>eq_pending := AList.update k p (eq_pending q),
    eq_high_water := max (eq_high_water q) (length (AList.update k p (eq_pending q)))\<rparr>)"
  using assms update_set [of k p "eq_pending q"]
  by (auto simp: queue_invar_def update_length distinct_update)

lemma queue_invar_counters [simp]:
  "queue_invar os excluded (q\<lparr>eq_received := n\<rparr>) = queue_invar os excluded q"
  "queue_invar os excluded (q\<lparr>eq_debounced := n\<rparr>) = queue_invar os excluded q"
  "queue_invar os excluded (q\<lparr>eq_excluded_count := n\<rparr>) = queue_invar os excluded q"
  by (simp_all add: queue_invar_def)

lemma queue_invar_note:
  assumes "queue_invar os excluded q" and "map_of (eq_pending q) k = Some p"
  shows "queue_invar os excluded (q\<lparr>eq_debounced := n, eq_pending := AList.update k (note_event q t now p) (eq_pending q)\<rparr>)"
proof -
  from map_of_SomeD [OF assms(2)] assms(1) have k: "path_key os (pp_path (note_event q t now p)) = k"
    by (auto simp: queue_invar_def)
  let ?ps = "AList.update k (note_event q t now p) (eq_pending q)"
  have len: "length ?ps = length (eq_pending q)" using map_of_keys [OF assms(2)] by (simp add: update_length)
  from queue_invar_update [OF assms(1) k] map_of_keys [OF assms(2)]
  show ?thesis using assms(1) len by (simp add: queue_invar_def)
qed

lemma queue_invar_drop: "queue_invar os excluded q \<Longrightarrow> queue_invar os excluded (drop_event q)"
  by (simp add: queue_invar_def drop_event_def)

lemma queue_invar_submit:
  assumes "queue_invar os excluded q"
  shows "queue_invar os excluded (submit os now p t d q)"
proof -
  let ?q = "q\<lparr>eq_received := Suc (eq_received q)\<rparr>"
  have q: "queue_invar os excluded ?q" using assms by simp
  note n = queue_invar_note [OF q]
  show ?thesis
    using assms n queue_invar_drop [OF q]
    by (auto simp: submit_def Let_def split: option.split) (simp_all add: queue_invar_def)
qed

lemma queue_invar_ingest_event:
  assumes "queue_invar os excluded q" and "length (eq_pending q) + length (eq_raw q) < eq_capacity q"
  shows "queue_invar os excluded (ingest_event os e q)"
proof (cases "map_of (eq_pending q) (path_key os (qe_path e))")
  case None
  define p where "p = note_event q (qe_type e) (qe_at e) \<lparr>pp_path = qe_path e, pp_types = [], pp_first = qe_at e, pp_due = 0\<rparr>"
  have "path_key os (pp_path p) = path_key os (qe_path e)" by (simp add: p_def)
  from queue_invar_update [OF assms(1) this] assms(2) show ?thesis
    by (simp add: ingest_event_def Let_def None p_def [symmetric])
next
  case (Some p)
  with queue_invar_note [OF assms(1) Some] show ?thesis by (simp add: ingest_event_def Let_def)
qed

lemma queue_invar_ingest_round:
  assumes "queue_invar os excluded q"
  shows "queue_invar os excluded (ingest_round os q)"
proof (cases "eq_raw q")
  case (Cons e rest)
  have "queue_invar os excluded (q\<lparr>eq_raw := rest\<rparr>)"
    and "length (eq_pending q) + length rest < eq_capacity q"
    using assms Cons by (auto simp: queue_invar_def)
  then show ?thesis using queue_invar_ingest_event by (simp add: ingest_round_def Cons)
qed (use assms in \<open>simp add: ingest_round_def\<close>)

lemma queue_invar_take:
  assumes "queue_invar os excluded q" and "take_due now m q = (ps, q')"
  shows "queue_invar os excluded q'"
proof -
  have q': "q' = q\<lparr>eq_pending := filter (\<lambda>(k, _). k \<notin> set (due_keys now m q)) (eq_pending q)\<rparr>"
    using assms(2) by (auto simp: take_due_def Let_def)
  define xs where "xs = filter (\<lambda>(k, _). k \<notin> set (due_keys now m q)) (eq_pending q)"
  have "length xs \<le> length (eq_pending q)" and "set xs \<subseteq> set (eq_pending q)"
    and "distinct (map fst (eq_pending q)) \<Longrightarrow> distinct (map fst xs)"
    by (auto simp: xs_def distinct_map_filter)
  then show ?thesis
    using assms(1) unfolding q' xs_def [symmetric] queue_invar_def by auto
qed

lemma queue_invar_clear: "queue_invar os excluded q \<Longrightarrow> queue_invar os excluded (snd (clear_overflow q))"
  by (simp add: queue_invar_def clear_overflow_def)

lemma queue_invar_new: "steady_os os \<Longrightarrow> queue_invar os (map (path_key os) excluded) (new_queue os excluded d n)"
  by (simp add: queue_invar_def new_queue_def)

section \<open>The queue meets the contract\<close>

datatype queue_op = Submit_Op nat path string bool | Ingest_Op | Take_Op nat "nat option" | Clear_Op

fun queue_step :: "os \<Rightarrow> queue_op \<Rightarrow> event_queue \<Rightarrow> event_queue" where
  "queue_step os (Submit_Op now p t d) q = submit os now p t d q"
| "queue_step os Ingest_Op q = ingest_round os q"
| "queue_step os (Take_Op now m) q = snd (take_due now m q)"
| "queue_step os Clear_Op q = snd (clear_overflow q)"

fun queue_offered :: "os \<Rightarrow> string list \<Rightarrow> queue_op \<Rightarrow> string option" where
  "queue_offered os excluded (Submit_Op now p t d) =
    (if list_ex (under (path_key os p)) excluded then None else Some (path_key os p))"
| "queue_offered os excluded _ = None"

fun queue_handed :: "os \<Rightarrow> queue_op \<Rightarrow> event_queue \<Rightarrow> string set" where
  "queue_handed os (Take_Op now m) q = path_key os ` pp_path ` set (fst (take_due now m q))"
| "queue_handed os _ q = {}"

fun queue_reported :: "queue_op \<Rightarrow> event_queue \<Rightarrow> bool" where
  "queue_reported Clear_Op q = (0 < fst (clear_overflow q))"
| "queue_reported _ q = False"

definition queue_waiting :: "os \<Rightarrow> event_queue \<Rightarrow> string set" where
  "queue_waiting os q = fst ` set (eq_pending q) \<union> path_key os ` qe_path ` set (eq_raw q)"

lemma submit_waits:
  assumes "queue_invar os excluded q"
  shows "queue_waiting os q \<subseteq> queue_waiting os (submit os now p t d q)"
    and "eq_overflowed q \<Longrightarrow> eq_overflowed (submit os now p t d q)"
    and "\<not> list_ex (under (path_key os p)) excluded \<Longrightarrow>
      path_key os p \<in> queue_waiting os (submit os now p t d q) \<or> eq_overflowed (submit os now p t d q)"
proof -
  have os: "steady_os os" and ex: "eq_excluded q = excluded" using assms by (simp_all add: queue_invar_def)
  note defs = submit_def Let_def drop_event_def queue_waiting_def update_keys
  show "queue_waiting os q \<subseteq> queue_waiting os (submit os now p t d q)"
    by (auto simp: defs split: option.split)
  show "eq_overflowed q \<Longrightarrow> eq_overflowed (submit os now p t d q)"
    by (simp add: defs split: option.split)
  show "\<not> list_ex (under (path_key os p)) excluded \<Longrightarrow>
      path_key os p \<in> queue_waiting os (submit os now p t d q) \<or> eq_overflowed (submit os now p t d q)"
    by (simp add: defs ex path_key_absolute [OF os] split: option.split)
qed

lemma ingest_waits:
  assumes "queue_invar os excluded q"
  shows "queue_waiting os q \<subseteq> queue_waiting os (ingest_round os q)"
    and "eq_overflowed (ingest_round os q) = eq_overflowed q"
    and "eq_dropped (ingest_round os q) = eq_dropped q"
proof -
  have "eq_raw q = e # rest \<Longrightarrow> \<not> eq_capacity q \<le> length (eq_pending q) + length rest" for e rest
    using assms by (auto simp: queue_invar_def)
  then show "queue_waiting os q \<subseteq> queue_waiting os (ingest_round os q)"
    and "eq_overflowed (ingest_round os q) = eq_overflowed q"
    and "eq_dropped (ingest_round os q) = eq_dropped q"
    by (cases "eq_raw q"; auto simp: ingest_round_def ingest_event_def Let_def queue_waiting_def update_keys split: option.split)+
qed

lemma due_keys_pending: "k \<in> set (due_keys now m q) \<Longrightarrow> k \<in> fst ` set (eq_pending q)"
proof -
  assume "k \<in> set (due_keys now m q)"
  then have "k \<in> set (sort (map fst (filter (\<lambda>(k, p). pp_due p \<le> now) (eq_pending q))))"
    by (auto simp: due_keys_def Let_def split: option.splits dest: in_set_takeD)
  then show ?thesis by auto
qed

lemma take_waits:
  assumes "queue_invar os excluded q" and "k \<in> queue_waiting os q"
  shows "k \<in> path_key os ` pp_path ` set (fst (take_due now m q)) \<or> k \<in> queue_waiting os (snd (take_due now m q))"
proof (cases "k \<in> set (due_keys now m q)")
  case True
  from due_keys_pending [OF True] obtain p where p: "map_of (eq_pending q) k = Some p"
    by (metis map_of_eq_None_iff not_None_eq)
  with map_of_SomeD [OF p] assms(1) have "path_key os (pp_path p) = k"
    by (auto simp: queue_invar_def)
  moreover have "p \<in> set (fst (take_due now m q))"
    using True p by (force simp: take_due_def Let_def)
  ultimately show ?thesis by blast
next
  case False
  then show ?thesis using assms(2) by (force simp: queue_waiting_def take_due_def Let_def)
qed

interpretation eq: change_buffer "queue_invar os excluded" "queue_step os" "queue_offered os excluded"
  "queue_handed os" queue_reported "queue_waiting os" eq_overflowed
proof unfold_locales
  fix op q k
  assume q: "queue_invar os excluded q"
  show "queue_invar os excluded (queue_step os op q)"
    using q by (cases op) (simp_all add: queue_invar_submit queue_invar_ingest_round queue_invar_clear
        queue_invar_take [OF q prod.collapse [symmetric]])
  show "k \<in> queue_waiting os (queue_step os op q) \<or> eq_overflowed (queue_step os op q)"
    if "queue_offered os excluded op = Some k"
    using that submit_waits(3) [OF q] by (cases op) (auto split: if_splits)
  show "k \<in> queue_handed os op q \<or> k \<in> queue_waiting os (queue_step os op q)" if "k \<in> queue_waiting os q"
    using that subsetD [OF submit_waits(1) [OF q] that] subsetD [OF ingest_waits(1) [OF q] that]
      take_waits [OF q that]
    by (cases op) (simp_all add: clear_overflow_def queue_waiting_def)
  show "queue_reported op q \<or> eq_overflowed (queue_step os op q)" if "eq_overflowed q"
    using that submit_waits(2) [OF q] ingest_waits(2) [OF q] q
    by (cases op) (auto simp: clear_overflow_def take_due_def Let_def queue_invar_def)
qed

section \<open>Times and counts over all runs\<close>

definition timely :: "nat \<Rightarrow> nat \<Rightarrow> pending_path \<Rightarrow> bool" where
  "timely t coalesce p = (pp_first p \<le> t \<and> pp_due p \<le> max t (pp_first p + coalesce))"

definition queue_times :: "nat \<Rightarrow> event_queue \<Rightarrow> bool" where
  "queue_times t q = ((\<forall>e \<in> set (eq_raw q). qe_at e \<le> t)
     \<and> (\<forall>p \<in> snd ` set (eq_pending q). timely t (eq_coalesce q) p)
     \<and> eq_debounce q \<le> eq_coalesce q)"

lemma queue_times_later: "queue_times t q \<Longrightarrow> t \<le> now \<Longrightarrow> queue_times now q"
  unfolding queue_times_def timely_def by fastforce

lemma update_vals: "snd ` set (AList.update k v xs) \<subseteq> insert v (snd ` set xs)"
  using image_mono [OF update_set, of snd k v xs] by simp

lemma timely_note_event:
  "now \<le> t \<Longrightarrow> pp_first p \<le> t \<Longrightarrow> timely t (eq_coalesce q) (note_event q ty now p)"
  by (auto simp: timely_def note_event_def)

lemma queue_times_update:
  "queue_times t q \<Longrightarrow> timely t (eq_coalesce q) p
   \<Longrightarrow> queue_times t (q\<lparr>eq_pending := AList.update k p (eq_pending q)\<rparr>)"
proof -
  assume q: "queue_times t q" and p: "timely t (eq_coalesce q) p"
  have "\<forall>x \<in> insert p (snd ` set (eq_pending q)). timely t (eq_coalesce q) x"
    using q p by (simp add: queue_times_def)
  then have "\<forall>x \<in> snd ` set (AList.update k p (eq_pending q)). timely t (eq_coalesce q) x"
    using update_vals [of k p "eq_pending q"] by blast
  with q show ?thesis by (simp add: queue_times_def)
qed

lemma queue_times_note:
  assumes "queue_times t q" and "map_of (eq_pending q) k = Some p" and "now \<le> t"
  shows "queue_times t (q\<lparr>eq_debounced := n, eq_pending := AList.update k (note_event q ty now p) (eq_pending q)\<rparr>)"
proof -
  have "pp_first p \<le> t" using assms(1) map_of_SomeD [OF assms(2)] by (force simp: queue_times_def timely_def)
  from queue_times_update [OF assms(1) timely_note_event [OF assms(3) this]]
  show ?thesis by (simp add: queue_times_def)
qed

lemma queue_times_counters [simp]:
  "queue_times t (q\<lparr>eq_received := n\<rparr>) = queue_times t q"
  "queue_times t (q\<lparr>eq_excluded_count := n\<rparr>) = queue_times t q"
  "queue_times t (drop_event q) = queue_times t q"
  by (simp_all add: queue_times_def drop_event_def)

lemma queue_times_submit:
  assumes "queue_times t q"
  shows "queue_times t (submit os t p ty d q)"
proof -
  let ?q = "q\<lparr>eq_received := Suc (eq_received q)\<rparr>"
  have q: "queue_times t ?q" using assms by simp
  show ?thesis
    using assms q queue_times_note [OF q _ order_refl]
    by (auto simp: submit_def Let_def split: option.split) (simp add: queue_times_def)
qed

lemma queue_times_ingest:
  assumes "queue_times t q"
  shows "queue_times t (ingest_round os q)"
proof (cases "eq_raw q")
  case (Cons e rest)
  have q: "queue_times t (q\<lparr>eq_raw := rest\<rparr>)" and e: "qe_at e \<le> t"
    using assms Cons by (auto simp: queue_times_def)
  let ?p = "\<lparr>pp_path = qe_path e, pp_types = [], pp_first = qe_at e, pp_due = 0\<rparr>"
  have "timely t (eq_coalesce (q\<lparr>eq_raw := rest\<rparr>)) (note_event (q\<lparr>eq_raw := rest\<rparr>) (qe_type e) (qe_at e) ?p)"
    using e by (intro timely_note_event) simp_all
  from queue_times_update [OF q this]
  show ?thesis
    using q queue_times_note [OF q _ e]
    by (auto simp: ingest_round_def ingest_event_def Let_def Cons split: option.split) (simp add: queue_times_def)
qed (use assms in \<open>simp add: ingest_round_def\<close>)

lemma queue_times_take: "queue_times t q \<Longrightarrow> queue_times t (snd (take_due now m q))"
  by (auto simp: queue_times_def take_due_def Let_def)

text \<open>Every event received is in the raw queue, pending, handed out, merged or reported lost.\<close>

definition queue_counts :: "nat \<Rightarrow> nat \<Rightarrow> event_queue \<Rightarrow> bool" where
  "queue_counts reported handed q =
    (eq_received q = eq_debounced q + eq_dropped q + reported + length (eq_raw q) + length (eq_pending q) + handed)"

lemma queue_counts_submit:
  assumes "queue_counts n m q"
  shows "queue_counts n m (submit os now p ty d q)"
  using assms by (auto simp: queue_counts_def submit_def Let_def drop_event_def update_length map_of_keys split: option.split)

lemma queue_counts_ingest:
  assumes "queue_counts n m q"
  shows "queue_counts n m (ingest_round os q)"
  using assms
  by (auto simp: queue_counts_def ingest_round_def ingest_event_def Let_def drop_event_def update_length map_of_keys
      map_of_eq_None_iff split: option.split list.split)

lemma distinct_due_keys: "distinct (map fst (eq_pending q)) \<Longrightarrow> distinct (due_keys now m q)"
  by (auto simp: due_keys_def Let_def distinct_map_filter split: option.split)

lemma queue_counts_take:
  assumes "queue_counts n m q" and "queue_invar os excluded q" and "take_due now k q = (ps, q')"
  shows "queue_counts n (m + length ps) q'"
proof -
  let ?keys = "due_keys now k q" and ?ps = "eq_pending q"
  have d: "distinct (map fst ?ps)" using assms(2) by (simp add: queue_invar_def)
  from assms(3) have ps: "length ps = length ?keys"
    and q': "q' = q\<lparr>eq_pending := filter (\<lambda>(k, _). k \<notin> set ?keys) ?ps\<rparr>"
    by (auto simp: take_due_def Let_def)
  have "length (filter (\<lambda>(k, _). k \<in> set ?keys) ?ps) = card (fst ` set (filter (\<lambda>(k, _). k \<in> set ?keys) ?ps))"
    using d by (metis distinct_card distinct_map_filter length_map list.set_map)
  also have "fst ` set (filter (\<lambda>(k, _). k \<in> set ?keys) ?ps) = set ?keys"
    using due_keys_pending by force
  also have "card (set ?keys) = length ?keys" by (rule distinct_card [OF distinct_due_keys [OF d]])
  finally have "length ?ps = length ?keys + length (filter (\<lambda>(k, _). k \<notin> set ?keys) ?ps)"
    using sum_length_filter_compl [of "\<lambda>(k, _). k \<in> set ?keys" ?ps] by (simp add: case_prod_unfold)
  with assms(1) show ?thesis by (simp add: queue_counts_def q' ps)
qed

lemma queue_times_clear: "queue_times t q \<Longrightarrow> queue_times t (snd (clear_overflow q))"
  by (simp add: queue_times_def clear_overflow_def)

lemma queue_counts_clear:
  "queue_counts n m q \<Longrightarrow> queue_counts (n + fst (clear_overflow q)) m (snd (clear_overflow q))"
  by (simp add: queue_counts_def clear_overflow_def)

text \<open>The raw queue is in the order of time, and a path is pending since its first event.\<close>

definition queue_order :: "os \<Rightarrow> event_queue \<Rightarrow> bool" where
  "queue_order os q = (sorted (map qe_at (eq_raw q))
     \<and> (\<forall>(k, p) \<in> set (eq_pending q). \<forall>e \<in> set (eq_raw q). path_key os (qe_path e) = k \<longrightarrow> pp_first p \<le> qe_at e))"

lemma queue_order_note:
  assumes "queue_order os q" and "map_of (eq_pending q) k = Some p"
  shows "queue_order os (q\<lparr>eq_debounced := n, eq_pending := AList.update k (note_event q' ty now p) (eq_pending q)\<rparr>)"
proof -
  have "\<forall>e \<in> set (eq_raw q). path_key os (qe_path e) = k \<longrightarrow> pp_first p \<le> qe_at e"
    using assms(1) map_of_SomeD [OF assms(2)] by (auto simp: queue_order_def)
  then show ?thesis
    using assms(1) update_set [of k "note_event q' ty now p" "eq_pending q"]
    by (auto simp: queue_order_def dest!: subsetD)
qed

lemma queue_order_cong:
  "eq_raw q' = eq_raw q \<Longrightarrow> set (eq_pending q') \<subseteq> set (eq_pending q) \<Longrightarrow> queue_order os q \<Longrightarrow> queue_order os q'"
  by (fastforce simp: queue_order_def)

lemma queue_order_submit:
  assumes "queue_order os q" and "queue_times t q"
  shows "queue_order os (submit os t p ty d q)"
proof -
  let ?q = "q\<lparr>eq_received := Suc (eq_received q)\<rparr>"
  have q: "queue_order os ?q" by (rule queue_order_cong [OF _ _ assms(1)]) simp_all
  have "queue_order os (?q\<lparr>eq_raw := eq_raw q @ [\<lparr>qe_path = absolute os p, qe_type = ty, qe_dir = d, qe_at = t\<rparr>]\<rparr>)"
    using assms by (force simp: queue_order_def queue_times_def timely_def sorted_append)
  moreover have "queue_order os (drop_event ?q)" "queue_order os (q\<lparr>eq_excluded_count := n\<rparr>)" for n
    by (rule queue_order_cong [OF _ _ assms(1)]; simp add: drop_event_def)+
  ultimately show ?thesis
    using queue_order_note [OF q] by (simp add: submit_def Let_def split: option.split)
qed

lemma queue_order_ingest:
  assumes "queue_order os q"
  shows "queue_order os (ingest_round os q)"
proof (cases "eq_raw q")
  case (Cons e rest)
  let ?q = "q\<lparr>eq_raw := rest\<rparr>" and ?k = "path_key os (qe_path e)"
  let ?p = "note_event ?q (qe_type e) (qe_at e) \<lparr>pp_path = qe_path e, pp_types = [], pp_first = qe_at e, pp_due = 0\<rparr>"
  have q: "queue_order os ?q" and e: "\<forall>e' \<in> set rest. qe_at e \<le> qe_at e'"
    using assms by (auto simp: queue_order_def Cons)
  have "queue_order os (drop_event ?q)"
    by (rule queue_order_cong [OF _ _ q]) (simp_all add: drop_event_def)
  moreover have "queue_order os (?q\<lparr>eq_pending := AList.update ?k ?p (eq_pending q), eq_high_water := h\<rparr>)" for h
    using q e update_set [of ?k ?p "eq_pending q"] by (auto simp: queue_order_def dest!: subsetD)
  ultimately show ?thesis
    using queue_order_note [OF q] by (simp add: ingest_round_def ingest_event_def Let_def Cons split: option.split)
qed (use assms in \<open>simp add: ingest_round_def\<close>)

lemma queue_order_take: "queue_order os q \<Longrightarrow> queue_order os (snd (take_due now m q))"
  by (rule queue_order_cong [of _ q]) (auto simp: take_due_def Let_def)

lemma queue_order_clear: "queue_order os q \<Longrightarrow> queue_order os (snd (clear_overflow q))"
  by (rule queue_order_cong [of _ q]) (auto simp: clear_overflow_def)

lemma reach_queue_invar:
  assumes "reach_queue os excluded debounce capacity t n m q" and "steady_os os"
  shows "queue_invar os (map (path_key os) excluded) q \<and> queue_times t q \<and> queue_counts n m q
    \<and> queue_order os q \<and> eq_capacity q = capacity \<and> eq_coalesce q = max (2 * usec) debounce"
  using assms(1)
proof induction
  case (start t)
  show ?case using queue_invar_new [OF assms(2)]
    by (simp add: queue_times_def queue_counts_def queue_order_def new_queue_def)
next
  case (submits t n m q now p ty d)
  then show ?case
    by (auto simp: queue_invar_submit queue_times_submit queue_times_later queue_counts_submit queue_order_submit)
       (auto simp: submit_def Let_def drop_event_def split: option.split)
next
  case (ingests t n m q)
  then show ?case
    by (auto simp: queue_invar_ingest_round queue_times_ingest queue_counts_ingest queue_order_ingest)
       (auto simp: ingest_round_def ingest_event_def Let_def drop_event_def split: option.split list.split)
next
  case (takes t n m q now k ps q')
  have "queue_times now q'"
    using queue_times_take [OF queue_times_later, of t q now now k] takes by simp
  with takes show ?case
    using queue_invar_take [of os "map (path_key os) excluded" q now k] queue_counts_take [of n m q os _ now k]
      queue_order_take [of os q now k]
    by (auto simp: take_due_def Let_def)
next
  case (clears t n m q d q')
  then show ?case
    using queue_invar_clear [of os "map (path_key os) excluded" q]
    queue_times_clear [of t q] queue_counts_clear [of n m q]
      queue_order_clear [of os q]
    by (auto simp: clear_overflow_def)
qed

section \<open>Due paths\<close>

text \<open>A path that has waited, raw or pending, for the longest time a change may be put off.\<close>

definition overdue :: "os \<Rightarrow> nat \<Rightarrow> string \<Rightarrow> event_queue \<Rightarrow> bool" where
  "overdue os now k q =
    ((\<exists>e \<in> set (eq_raw q). path_key os (qe_path e) = k \<and> qe_at e + eq_coalesce q \<le> now)
     \<or> (\<exists>p. map_of (eq_pending q) k = Some p \<and> pp_first p + eq_coalesce q \<le> now))"

lemma overdue_ingest:
  assumes "queue_invar os excluded q" and "queue_order os q" and "overdue os now k q"
  shows "overdue os now k (ingest_round os q)"
proof (cases "eq_raw q")
  case (Cons e rest)
  have room: "\<not> eq_capacity q \<le> length (eq_pending q) + length rest"
    using assms(1) by (auto simp: queue_invar_def Cons)
  have first: "pp_first p \<le> qe_at e" if "map_of (eq_pending q) (path_key os (qe_path e)) = Some p" for p
    using assms(2) map_of_SomeD [OF that] by (auto simp: queue_order_def Cons)
  show ?thesis
  proof (cases "map_of (eq_pending q) (path_key os (qe_path e))")
    case None
    with assms(3) room show ?thesis
      by (auto simp: overdue_def ingest_round_def ingest_event_def Let_def Cons update_conv')
  next
    case (Some p)
    with assms(3) first [OF Some] show ?thesis
      by (auto simp: overdue_def ingest_round_def ingest_event_def Let_def Cons update_conv')
  qed
qed (use assms in \<open>simp add: ingest_round_def\<close>)

lemma ingest_induct:
  assumes "P q" and "\<And>q. P q \<Longrightarrow> P (ingest_round os q)"
  shows "P (ingest os q) \<and> eq_raw (ingest os q) = []"
  using assms
proof (induction os q rule: ingest.induct)
  case (1 os q)
  then show ?case by (cases "eq_raw q = []") (simp_all add: ingest.simps [of os q])
qed

lemma reach_ingest:
  "reach_queue os excluded debounce capacity t n m q \<Longrightarrow> reach_queue os excluded debounce capacity t n m (ingest os q)"
  using ingest_induct [of "reach_queue os excluded debounce capacity t n m" q os]
    reach_queue.ingests [of os excluded debounce capacity t n m] by blast

lemma due_overdue:
  assumes "reach_queue os excluded debounce capacity t n m q" and "steady_os os" and "t \<le> now"
    and "overdue os now k q"
  shows "k \<in> set (due_keys now None (ingest os q))"
proof -
  let ?P = "\<lambda>q. reach_queue os excluded debounce capacity t n m q \<and> overdue os now k q"
  have "?P (ingest os q) \<and> eq_raw (ingest os q) = []"
  proof (rule ingest_induct)
    show "?P q" using assms by simp
    show "?P (ingest_round os q)" if "?P q" for q
      using that reach_queue_invar [OF _ assms(2)] reach_queue.ingests overdue_ingest by blast
  qed
  then obtain p where p: "map_of (eq_pending (ingest os q)) k = Some p"
    and old: "pp_first p + eq_coalesce (ingest os q) \<le> now" and r: "reach_queue os excluded debounce capacity t n m (ingest os q)"
    by (auto simp: overdue_def)
  from reach_queue_invar [OF r assms(2)] map_of_SomeD [OF p] have "timely t (eq_coalesce (ingest os q)) p"
    by (force simp: queue_times_def)
  with old assms(3) have "pp_due p \<le> now" by (auto simp: timely_def)
  with map_of_SomeD [OF p] show ?thesis by (force simp: due_keys_def)
qed

lemma due_result:
  "due os now None q = (Inr (map (\<lambda>k. the (map_of (eq_pending (ingest os q)) k)) (due_keys now None (ingest os q))),
     snd (take_due now None (ingest os q)))"
  by (simp add: due_def take_due_def Let_def)

section \<open>Properties\<close>

definition ex_bare_os :: os where
  "ex_bare_os = \<lparr>os_lstat = (\<lambda>p. Inl (FileNotFoundError p)), os_lstat_again = (\<lambda>p. Inl (FileNotFoundError p)),
     os_scandir = (\<lambda>d a. Inl (False, FileNotFoundError d)), os_open = (\<lambda>p. Inl (FileNotFoundError p)),
     os_cwd = ''/'', os_expand = id, os_casefold = lower\<rparr>"

definition ex_queue :: event_queue where
  "ex_queue = submit ex_bare_os 5 ''/a'' ''created'' False (new_queue ex_bare_os [''/s''] 750000 16)"

lemma ex_bare_steady: "steady_os ex_bare_os"
  by (simp add: steady_os_def ex_bare_os_def)

lemma ex_reach: "reach_queue ex_bare_os [''/s''] 750000 16 5 0 0 ex_queue"
  unfolding ex_queue_def by (rule reach_queue.submits [OF reach_queue.start order_refl])

lemma ex_bare_not_excluded: "\<not> list_ex (under (path_key ex_bare_os ''/a'')) (map (path_key ex_bare_os) [''/s''])"
  by code_simp

lemma ex_queue_eq: "ex_queue = \<lparr>eq_excluded = [''/s''], eq_debounce = 750000, eq_coalesce = 2000000, eq_capacity = 16,
  eq_raw = [\<lparr>qe_path = ''/a'', qe_type = ''created'', qe_dir = False, qe_at = 5\<rparr>], eq_pending = [],
  eq_overflowed = False, eq_received = 1, eq_excluded_count = 0, eq_dropped = 0, eq_debounced = 0, eq_high_water = 0\<rparr>"
proof -
  have k: "path_key ex_bare_os ''/a'' = ''/a''" "path_key ex_bare_os ''/s'' = ''/s''" "absolute ex_bare_os ''/a'' = ''/a''"
    by code_simp+
  have "\<not> under ''/a'' ''/s''" by code_simp
  then show ?thesis
    by (simp add: ex_queue_def submit_def new_queue_def Let_def k usec_def)
qed

lemma ex_overdue: "overdue ex_bare_os 2000005 (path_key ex_bare_os ''/a'') ex_queue"
  by (simp add: overdue_def ex_queue_eq)

text \<open>
  C32: In every reachable state of the queue the raw events and the pending paths together stay
  within the configured capacity, a path is pending at most once and under its own key, the
  high-water mark is an upper bound within the capacity, and the overflow flag is set exactly
  when events were dropped that have not been reported.
\<close>

theorem queue_stays_bounded:
  assumes "reach_queue os excluded debounce capacity t n m q" and "steady_os os"
  shows "length (eq_raw q) + length (eq_pending q) \<le> capacity \<and> distinct (map fst (eq_pending q))
    \<and> (\<forall>(k, p) \<in> set (eq_pending q). path_key os (pp_path p) = k)
    \<and> length (eq_pending q) \<le> eq_high_water q \<and> eq_high_water q \<le> capacity
    \<and> eq_overflowed q = (0 < eq_dropped q)"
  using reach_queue_invar [OF assms] by (auto simp: queue_invar_def)

lemma queue_stays_bounded_witness:
  "length (eq_raw ex_queue) + length (eq_pending ex_queue) \<le> 16 \<and> eq_received ex_queue = 1"
  using queue_stays_bounded [OF ex_reach ex_bare_steady] by (simp add: ex_queue_eq)

text \<open>
  Every event that a reachable queue received is accounted for: it waits in the raw queue,
  it is the pending entry of its path or was merged into one, its path was handed out, or it was
  dropped and counted as dropped.
\<close>

theorem events_accounted:
  assumes "reach_queue os excluded debounce capacity t n m q" and "steady_os os"
  shows "eq_received q = length (eq_raw q) + length (eq_pending q) + m + eq_debounced q + (n + eq_dropped q)"
  using reach_queue_invar [OF assms] by (simp add: queue_counts_def)

lemma events_accounted_witness:
  "eq_received ex_queue = length (eq_raw ex_queue) + length (eq_pending ex_queue) + 0 + eq_debounced ex_queue + (0 + eq_dropped ex_queue)"
  by (rule events_accounted [OF ex_reach ex_bare_steady])

text \<open>
  C4: A change that is submitted to a reachable queue, outside the excluded paths, is never missed
  silently: after any further steps its path still waits, or the overflow flag is up, or one of the
  steps handed the path out or reported a loss, after the submission.
\<close>

theorem change_never_missed:
  assumes "reach_queue os excluded debounce capacity t n m q" and "steady_os os"
    and "\<not> list_ex (under (path_key os p)) (map (path_key os) excluded)"
  shows "path_key os p \<in> queue_waiting os (fold (queue_step os) ops (submit os now p ty d q))
    \<or> eq_overflowed (fold (queue_step os) ops (submit os now p ty d q))
    \<or> (\<exists>us op vs. ops = us @ op # vs
        \<and> (path_key os p \<in> queue_handed os op (fold (queue_step os) us (submit os now p ty d q))
           \<or> queue_reported op (fold (queue_step os) us (submit os now p ty d q))))"
proof -
  have inv: "queue_invar os (map (path_key os) excluded) q" using reach_queue_invar [OF assms(1,2)] by simp
  have "queue_offered os (map (path_key os) excluded) (Submit_Op now p ty d) = Some (path_key os p)"
    using assms(3) by simp
  from eq.change_not_missed [OF inv this, of ops] show ?thesis by simp
qed

lemma change_never_missed_witness:
  "path_key ex_bare_os ''/a'' \<in> queue_waiting ex_bare_os (submit ex_bare_os 9 ''/a'' ''modified'' False ex_queue)
   \<or> eq_overflowed (submit ex_bare_os 9 ''/a'' ''modified'' False ex_queue)"
  using change_never_missed [OF ex_reach ex_bare_steady ex_bare_not_excluded, of "[]" 9 "''modified''" False] by simp



end
