(* ===== verification/Watch_Roots.thy ===== *)
theory Watch_Roots
  imports Watch_Config Watch_Queue_Proofs
begin

text \<open>
  The roots of a watch after normalisation, and the fingerprints of its snapshot.
\<close>

section \<open>One normal path below another\<close>

lemma path_comps_normal:
  assumes "\<forall>c \<in> set cs. plain_comp c" and "n = 1 \<or> n = 2"
  shows "path_comps (replicate n (CHR ''/'') @ join_with ''/'' cs) = cs"
proof -
  have f: "filter (\<lambda>c. c \<noteq> [] \<and> c \<noteq> ''.'') cs = cs"
    using assms(1) by (induction cs) (auto simp: plain_comp_def)
  have "filter (\<lambda>c. c \<noteq> [] \<and> c \<noteq> ''.'') (split_on (CHR ''/'') (join_with ''/'' cs)) = cs"
  proof (cases "cs = []")
    case False
    with assms(1) f show ?thesis by (subst split_on_join) (auto simp: plain_comp_def)
  qed simp
  with assms(2) show ?thesis by (auto simp: path_comps_def numeral_2_eq_2)
qed

lemma common_prefix: "prefix (common as bs) as" "set (common as bs) \<subseteq> set bs"
  by (induction as bs rule: common.induct) auto

lemma le_append: "(xs :: string) \<le> xs @ ys"
  by (induction xs) auto

lemma join_prefix: "\<exists>s. join_with ''/'' (ds @ es) = join_with ''/'' ds @ s"
proof (induction ds)
  case (Cons d ds)
  then show ?case
    by (cases ds; cases es) auto
qed simp

lemma under_normal:
  assumes "normal_path a" and "normal_path b" and "under a b"
  shows "\<exists>s. a = b @ s \<or> a = CHR ''/'' # b @ s"
proof -
  from assms(1) obtain n cs where a: "a = replicate n (CHR ''/'') @ join_with ''/'' cs" "n = 1 \<or> n = 2"
    and cs: "\<forall>c \<in> set cs. plain_comp c" unfolding normal_path_def by blast
  from assms(2) obtain m ds where b: "b = replicate m (CHR ''/'') @ join_with ''/'' ds" "m = 1 \<or> m = 2"
    and ds: "\<forall>c \<in> set ds. plain_comp c" unfolding normal_path_def by blast
  let ?c = "common cs ds"
  have pc: "\<forall>c \<in> set ?c. plain_comp c" by (rule subset_ball [OF common_prefix(2) ds])
  have eq: "b = ''/'' @ join_with ''/'' ?c"
    using assms(3) normal_path_slash [OF assms(1)] normal_path_slash [OF assms(2)]
    unfolding under_def commonpath2_def
    by (simp add: path_comps_normal [OF cs a(2), folded a(1)] path_comps_normal [OF ds b(2), folded b(1)])
  obtain es where es: "cs = ?c @ es" using common_prefix(1) by (auto simp: prefix_def)
  obtain s where "join_with ''/'' cs = join_with ''/'' ?c @ s" using join_prefix [of ?c es] es by auto
  with a eq show ?thesis by (auto simp: numeral_2_eq_2)
qed

definition root_order :: "string \<Rightarrow> nat \<times> string" where
  "root_order k = (py_len k, k)"

lemma under_order:
  assumes "normal_path a" and "normal_path b" and "under a b"
  shows "root_order b \<le> root_order a"
proof -
  from under_normal [OF assms] obtain s where "a = b @ s \<or> a = CHR ''/'' # b @ s" by blast
  then show ?thesis
    by (auto simp: root_order_def py_len_def is_cont_def ord_def le_append less_eq_prod_def)
qed

section \<open>The selection of the roots\<close>

definition apart :: "watch_root \<Rightarrow> watch_root \<Rightarrow> bool" where
  "apart u v = (wr_key u \<noteq> wr_key v \<and> \<not> under (wr_key u) (wr_key v) \<and> \<not> under (wr_key v) (wr_key u))"

lemma add_root_fold:
  assumes "sorted (map (\<lambda>r. root_order (wr_key r)) cs)" and "\<forall>c \<in> set (us @ cs). normal_path (wr_key c)"
    and "sorted_wrt apart us" and "\<forall>u \<in> set us. \<forall>c \<in> set cs. root_order (wr_key u) \<le> root_order (wr_key c)"
  shows "sorted_wrt apart (fold add_root cs us) \<and> set us \<subseteq> set (fold add_root cs us)
    \<and> set (fold add_root cs us) \<subseteq> set us \<union> set cs
    \<and> (\<forall>c \<in> set cs. \<exists>u \<in> set (fold add_root cs us). wr_key c = wr_key u \<or> under (wr_key c) (wr_key u))"
  using assms
proof (induction cs arbitrary: us)
  case (Cons c cs)
  show ?case
  proof (cases "list_ex (\<lambda>r. wr_key c = wr_key r \<or> under (wr_key c) (wr_key r)) us")
    case True
    then obtain u where u: "u \<in> set us" "wr_key c = wr_key u \<or> under (wr_key c) (wr_key u)"
      by (auto simp: list_ex_iff)
    from Cons.IH [of us] Cons.prems u show ?thesis
      by (simp add: add_root_def True) blast
  next
    case False
    have "apart u c" if "u \<in> set us" for u
    proof -
      have "\<not> under (wr_key u) (wr_key c)"
      proof
        assume "under (wr_key u) (wr_key c)"
        then have "root_order (wr_key c) \<le> root_order (wr_key u)"
          using under_order Cons.prems(2) that by simp
        moreover have "root_order (wr_key u) \<le> root_order (wr_key c)" using Cons.prems(4) that by simp
        ultimately have "root_order (wr_key c) = root_order (wr_key u)" by (rule antisym)
        then have "wr_key c = wr_key u" by (simp add: root_order_def)
        with False that show False by (auto simp: list_ex_iff)
      qed
      with False that show ?thesis by (auto simp: apart_def list_ex_iff)
    qed
    then have "sorted_wrt apart (us @ [c])" using Cons.prems(3) by (simp add: sorted_wrt_append)
    moreover have "\<forall>u \<in> set (us @ [c]). \<forall>c \<in> set cs. root_order (wr_key u) \<le> root_order (wr_key c)"
      using Cons.prems(1,4) by auto
    ultimately show ?thesis
      using Cons.IH [of "us @ [c]"] Cons.prems(1,2) False by (simp add: add_root_def) blast
  qed
qed simp

lemma path_key_is_normal: "steady_os os \<Longrightarrow> normal_path (path_key os p)"
  by (simp add: path_key_def absolute_normal normpath_of_normal)

lemma watch_root_of_Inr:
  assumes "watch_root_of os sk p = Inr u"
  shows "wr_path u = absolute os p \<and> wr_key u = path_key os (absolute os p) \<and> \<not> under (wr_key u) sk
    \<and> (\<exists>m. os_lstat os (wr_path u) = Inr m \<and> md_kind m = Dir \<and> \<not> is_link m
        \<and> wr_device u = md_dev m \<and> wr_inode u = md_ino m)"
  using assms by (auto simp: watch_root_of_def Let_def split: if_splits sum.splits)

text \<open>
  The normalised roots of a watch are directories that are no links and lie outside the state
  directory, no root equals or lies below another, and every requested root is one of them or
  lies below one.
\<close>

theorem normalized_roots:
  assumes "normalize_watch_roots os roots state_dir = Inr us" and "steady_os os"
  shows "us \<noteq> [] \<and> sorted_wrt apart us
    \<and> (\<forall>p \<in> set roots. \<exists>u \<in> set us. path_key os p = wr_key u \<or> under (path_key os p) (wr_key u))
    \<and> (\<forall>u \<in> set us. \<not> under (wr_key u) (path_key os state_dir)
        \<and> (\<exists>m. os_lstat os (wr_path u) = Inr m \<and> md_kind m = Dir \<and> \<not> is_link m)
        \<and> (\<exists>p \<in> set roots. wr_path u = absolute os p \<and> wr_key u = path_key os p))"
proof -
  from assms(1) obtain cs where cs: "rmap (watch_root_of os (path_key os state_dir)) roots = Inr cs"
    and us: "us = fold add_root (sort_key (\<lambda>r. root_order (wr_key r)) cs) []" and ne: "us \<noteq> []"
    by (cases "rmap (watch_root_of os (path_key os state_dir)) roots")
       (simp_all add: normalize_watch_roots_def root_order_def Let_def split: if_split_asm)
  have all2: "list_all2 (\<lambda>p u. watch_root_of os (path_key os state_dir) p = Inr u) roots cs"
    using cs by (simp add: rmap_Inr_iff)
  have key: "wr_key u = path_key os p" if "watch_root_of os (path_key os state_dir) p = Inr u" for p u
    using watch_root_of_Inr [OF that] path_key_absolute [OF assms(2)] by simp
  have from_root: "\<exists>p \<in> set roots. watch_root_of os (path_key os state_dir) p = Inr c" if "c \<in> set cs" for c
    using rmap_InrD [OF cs that] .
  have normal: "normal_path (wr_key c)" if "c \<in> set cs" for c
    using from_root [OF that] key path_key_is_normal [OF assms(2)] by auto
  have fold: "sorted_wrt apart us \<and> set us \<subseteq> set cs
      \<and> (\<forall>c \<in> set cs. \<exists>u \<in> set us. wr_key c = wr_key u \<or> under (wr_key c) (wr_key u))"
    using add_root_fold [of "sort_key (\<lambda>r. root_order (wr_key r)) cs" "[]"] normal us by simp
  have "\<exists>u \<in> set us. path_key os p = wr_key u \<or> under (path_key os p) (wr_key u)" if p: "p \<in> set roots" for p
  proof -
    from p obtain i where i: "i < length roots" "roots ! i = p" by (auto simp: in_set_conv_nth)
    define c where "c = cs ! i"
    have c: "c \<in> set cs" "watch_root_of os (path_key os state_dir) p = Inr c"
      using all2 i by (auto simp: list_all2_conv_all_nth c_def)
    from fold c(1) obtain u where "u \<in> set us" "wr_key c = wr_key u \<or> under (wr_key c) (wr_key u)" by blast
    with key [OF c(2)] show ?thesis by auto
  qed
  moreover have "\<not> under (wr_key u) (path_key os state_dir)
      \<and> (\<exists>m. os_lstat os (wr_path u) = Inr m \<and> md_kind m = Dir \<and> \<not> is_link m)
      \<and> (\<exists>p \<in> set roots. wr_path u = absolute os p \<and> wr_key u = path_key os p)" if "u \<in> set us" for u
  proof -
    from fold that have "u \<in> set cs" by blast
    from from_root [OF this] obtain p where p: "p \<in> set roots" "watch_root_of os (path_key os state_dir) p = Inr u"
      by blast
    from watch_root_of_Inr [OF p(2)] key [OF p(2)] p(1) show ?thesis by auto
  qed
  ultimately show ?thesis using ne fold by blast
qed

definition ex_dir_meta :: meta where
  "ex_dir_meta = \<lparr>md_kind = Dir, md_reparse = False, md_dev = 1, md_ino = 2, md_size = 0, md_mtime_ns = 0,
     md_ctime_ns = 0, md_attributes = 0, md_time = Inr 0\<rparr>"

definition ex_dirs_os :: os where
  "ex_dirs_os = ex_bare_os\<lparr>os_lstat := (\<lambda>p. Inr ex_dir_meta)\<rparr>"

lemma normalized_roots_witness:
  "\<exists>us. normalize_watch_roots ex_dirs_os [''/b/c'', ''/b''] ''/s'' = Inr us \<and> sorted_wrt apart us"
proof -
  have steady: "steady_os ex_dirs_os" by (simp add: steady_os_def ex_dirs_os_def ex_bare_os_def)
  have "is_Inr (normalize_watch_roots ex_dirs_os [''/b/c'', ''/b''] ''/s'')" by code_simp
  then obtain us where us: "normalize_watch_roots ex_dirs_os [''/b/c'', ''/b''] ''/s'' = Inr us" by (auto simp: is_Inr_iff)
  from normalized_roots [OF us steady] us show ?thesis by blast
qed

section \<open>Fingerprints\<close>

lemma length_pack_nat [simp]: "length (pack_nat n v) = n"
  by (induction n v rule: pack_nat.induct) simp_all

lemma pack_nat_inj: "pack_nat n v = pack_nat n w \<Longrightarrow> v < 256 ^ n \<Longrightarrow> w < 256 ^ n \<Longrightarrow> v = w"
proof (induction n arbitrary: v w)
  case (Suc n)
  from Suc.prems(1) have "v mod 256 = w mod 256" and rest: "pack_nat n (v div 256) = pack_nat n (w div 256)"
    by (auto dest: arg_cong [of _ _ of_char])
  moreover have "v div 256 = w div 256"
    using Suc.IH [OF rest] Suc.prems(2,3) by (simp add: less_mult_imp_div_less mult.commute)
  ultimately show ?case by (metis div_mult_mod_eq)
qed simp

lemma pack_unsigned_length: "pack_unsigned n v = Inr x \<Longrightarrow> length x = n"
  by (auto simp: pack_unsigned_def split: if_splits)

lemma pack_signed_length: "pack_signed n v = Inr x \<Longrightarrow> length x = n"
  by (auto simp: pack_signed_def split: if_splits)

lemma pack_unsigned_inj: "pack_unsigned n v = Inr x \<Longrightarrow> pack_unsigned n w = Inr x \<Longrightarrow> v = w"
  by (auto simp: pack_unsigned_def split: if_splits) (metis pack_nat_inj)

lemma pack_signed_inj: "pack_signed n v = Inr x \<Longrightarrow> pack_signed n w = Inr x \<Longrightarrow> v = w"
proof -
  assume v: "pack_signed n v = Inr x" and w: "pack_signed n w = Inr x"
  let ?m = "(256::int) ^ n"
  have lt: "nat (u mod ?m) < 256 ^ n" for u
    using pos_mod_bound [of ?m u] by (simp add: nat_less_iff)
  from v w have "pack_nat n (nat (v mod ?m)) = pack_nat n (nat (w mod ?m))"
    by (auto simp: pack_signed_def split: if_splits)
  from pack_nat_inj [OF this lt lt] have eq: "v mod ?m = w mod ?m" by (simp add: eq_nat_nat_iff)
  from v w have "- (?m div 2) \<le> v" "v < ?m div 2" "- (?m div 2) \<le> w" "w < ?m div 2"
    by (auto simp: pack_signed_def split: if_splits)
  then have "\<bar>v - w\<bar> < ?m" by linarith
  moreover have "?m dvd v - w" using eq by (simp add: mod_eq_dvd_iff)
  ultimately show "v = w" using zdvd_imp_le [of ?m "\<bar>v - w\<bar>"] by auto
qed

text \<open>
  A fingerprint has 44 bytes, and two files with the same fingerprint agree in device, inode,
  size, both times and the attributes, so an unchanged entry of the snapshot hides no change of any.
\<close>

theorem fingerprint_injective:
  assumes "file_fingerprint m = Inr x" and "file_fingerprint m' = Inr x"
  shows "length x = 44 \<and> md_dev m = md_dev m' \<and> md_ino m = md_ino m' \<and> md_size m = md_size m'
    \<and> md_mtime_ns m = md_mtime_ns m' \<and> md_ctime_ns m = md_ctime_ns m' \<and> md_attributes m = md_attributes m'"
proof -
  obtain a b c d e f where p: "pack_unsigned 8 (md_dev m) = Inr a" "pack_unsigned 8 (md_ino m) = Inr b"
    "pack_unsigned 8 (md_size m) = Inr c" "pack_signed 8 (md_mtime_ns m) = Inr d" "pack_signed 8 (md_ctime_ns m) = Inr e"
    "pack_unsigned 4 (md_attributes m) = Inr f" and x: "x = a @ b @ c @ d @ e @ f"
    using assms(1) by (auto simp: file_fingerprint_def rbind_Inr_iff)
  obtain a' b' c' d' e' f' where p': "pack_unsigned 8 (md_dev m') = Inr a'" "pack_unsigned 8 (md_ino m') = Inr b'"
    "pack_unsigned 8 (md_size m') = Inr c'" "pack_signed 8 (md_mtime_ns m') = Inr d'" "pack_signed 8 (md_ctime_ns m') = Inr e'"
    "pack_unsigned 4 (md_attributes m') = Inr f'" and x': "x = a' @ b' @ c' @ d' @ e' @ f'"
    using assms(2) by (auto simp: file_fingerprint_def rbind_Inr_iff)
  have l: "length a = 8" "length b = 8" "length c = 8" "length d = 8" "length e = 8" "length f = 4"
    "length a' = 8" "length b' = 8" "length c' = 8" "length d' = 8" "length e' = 8"
    using p p' by (simp_all add: pack_unsigned_length pack_signed_length)
  from x x' l have "a = a'" "b = b'" "c = c'" "d = d'" "e = e'" "f = f'" by auto
  with p p' x l show ?thesis by (auto dest: pack_unsigned_inj pack_signed_inj)
qed

lemma fingerprint_injective_witness:
  "\<exists>x. file_fingerprint ex_dir_meta = Inr x \<and> length x = 44"
proof -
  have "is_Inr (file_fingerprint ex_dir_meta)"
    by (simp add: file_fingerprint_def ex_dir_meta_def pack_unsigned_def pack_signed_def)
  then obtain x where "file_fingerprint ex_dir_meta = Inr x" by (auto simp: is_Inr_iff)
  with fingerprint_injective show ?thesis by blast
qed

end
