(* ===== verification/Watcher_Proofs.thy ===== *)
theory Watcher_Proofs
  imports Watcher_Logic Watch_Roots
begin

text \<open>
  What a whole session promises: its summary hides no known gap, its records are numbered without
  a hole, and a session of finite duration ends.
\<close>

section \<open>A session that ends without an exception\<close>

text \<open>The steps of \<open>run\<close> up to the clean-up.\<close>

lemma run_parts:
  assumes "run env duration fuel (new_watcher env) = Some (r, st)"
  shows "numbered (wt_records st) \<and> (\<forall>s. r = Inr s \<longrightarrow> (\<exists>st1. s = summary_of env (format_utc (en_utc env 0)) (sm_interrupted s) st1
     \<and> (wt_historical st1 \<or> (unblemished st1 \<and> ws_queue_total_depth (wt_stats st1) = 0))))"
proof (cases "duration \<noteq> None \<and> \<not> (100000 \<le> the duration \<and> the duration \<le> 7 * 24 * 60 * 60 * usec)")
  case True
  with assms show ?thesis using new_watcher_ok by (auto simp: run_def session_ok_def)
next
  case False
  obtain a s1 where 1: "start_observer env (advance env (new_watcher env)) = (a, s1)" by fastforce
  have o1: "session_ok 0 s1" by (rule start_keeps [OF advance_keeps' [OF new_watcher_ok] 1])
  have t0: "wt_tick (new_watcher env) = 0" by (simp add: new_watcher_def)
  show ?thesis
  proof (cases a)
    case (Inl e)
    with assms False 1 o1 show ?thesis by (auto simp: run_def session_ok_def Let_def)
  next
    case (Inr u)
    define s2 where "s2 = emit env ''session_started'' [(''backend_requested'', JStr (wc_backend (en_config env))),
               (''backend_active'', JStr (wt_backend s1)), (''fallback_reason'', opt_str (wt_fallback s1)),
               (''roots'', root_list env), (''policy'', JObj (watch_policy (wc_quarantine (en_config env))))] s1"
    have o2: "session_ok 0 s2" unfolding s2_def by (rule emit_keeps [OF o1]) simp
    obtain t3 s3 where 3: "read_clock env s2 = (t3, s3)" by fastforce
    obtain t4 s4 where 4: "read_clock env s3 = (t4, s4)" by fastforce
    have o4: "session_ok 0 s4" by (rule clock_keeps [OF clock_keeps [OF o2 3] 4])
    let ?dls = "(t3 + min (5 * usec) (wc_reconcile (en_config env)), t4 + wc_heartbeat (en_config env))"
    from assms False 1 Inr 3 4 obtain l s5 where 5: "supervise env duration fuel ?dls s4 = Some (l, s5)"
      by (auto simp: run_def Let_def s2_def [symmetric] split: option.splits)
    have o5: "session_ok 0 s5" by (rule supervise_keeps [OF o4 5])
    define s6 where "s6 = close_session env (en_thread_starts env) s5"
    note c6 = close_session_ok [OF o5 s6_def [symmetric]]
    define sm where "sm = summary_of env (format_utc (en_utc env 0)) (l = Interrupted) s6"
    have fin: "(r, st) = (case l of Raised e \<Rightarrow> (Inl e, s6)
        | _ \<Rightarrow> (Inr sm, emit env ''session_completed'' [(''summary'', JObj (watch_summary_to_dict sm))] s6))"
      using assms False 1 Inr 3 4 5
      by (cases l) (auto simp: run_def Let_def t0 s2_def [symmetric] s6_def [symmetric] sm_def)
    have numbered: "numbered (wt_records (emit env ''session_completed'' [(''summary'', x)] s6))" for x
      using c6 by (simp add: emit_def advance_def numbered_snoc dget_def map_of_mk_dict)
    have "sm = summary_of env (format_utc (en_utc env 0)) (sm_interrupted sm) s6"
      by (simp add: sm_def summary_of_def)
    with fin c6 numbered show ?thesis by (auto split: loop_result.splits)
  qed
qed

section \<open>An example session\<close>

definition ex_watch_config :: watch_config where
  "ex_watch_config = \<lparr>wc_roots = [''/b''], wc_state_dir = ''/s'', wc_backend = ''auto'', wc_debounce = 750000,
     wc_poll = 1000000, wc_reconcile = 60000000, wc_full_rescan = 86400000000, wc_cross_filesystems = False,
     wc_quarantine = False, wc_queue_size = 16, wc_heartbeat = 30000000\<rparr>"

definition ex_watch_scanner :: scanner where
  "ex_watch_scanner = \<lparr>sn_rules = [], sn_config = \<lparr>sc_max_file_bytes = 100, sc_chunk_bytes = 4096,
     sc_cross_filesystems = False, sc_excluded_paths = [], sc_worker_isolation = False,
     sc_worker_timeout = 45 * usec, sc_worker_max_requests = 512\<rparr>, sn_excluded = []\<rparr>"

definition ex_env :: watch_env where
  "ex_env = \<lparr>en_config = ex_watch_config, en_roots = [\<lparr>wr_path = ''/b'', wr_key = ''/b'', wr_device = 1, wr_inode = 2\<rparr>],
     en_scanner = ex_watch_scanner, en_worker = (\<lambda>_. None), en_trust = (\<lambda>_ _. None), en_fuel = Suc (Suc 0),
     en_os = (\<lambda>_. ex_dirs_os\<lparr>os_lstat_again := (\<lambda>p. Inr ex_dir_meta), os_scandir := (\<lambda>d a. Inr [])\<rparr>),
     en_clock = (\<lambda>k. k * 1000000), en_utc = (\<lambda>_. 0), en_threads = (\<lambda>_. []), en_failure = (\<lambda>_. None),
     en_start = (\<lambda>_. None), en_thread_starts = True, en_thread_stops = True, en_alive = (\<lambda>_. True),
     en_health = (\<lambda>_. None), en_interrupt = (\<lambda>_. False), en_quarantine = (\<lambda>_ _. Inl (OtherError [])),
     en_session = ''s''\<rparr>"

definition ex_quiet :: "watcher \<Rightarrow> bool" where
  "ex_quiet st = (\<not> wt_historical st \<and> \<not> wt_incomplete st \<and> wt_ingest_failure st = None
     \<and> eq_raw (wt_queue st) = [] \<and> eq_pending (wt_queue st) = [] \<and> \<not> eq_overflowed (wt_queue st))"

lemma ex_advance: "advance ex_env st = st\<lparr>wt_tick := Suc (wt_tick st)\<rparr>"
  by (cases "wt_ingest_failure st") (simp_all add: advance_def ex_env_def)

lemma ex_quiet_simps [simp]:
  "ex_quiet (st\<lparr>wt_tick := n\<rparr>) = ex_quiet st" "ex_quiet (st\<lparr>wt_records := r\<rparr>) = ex_quiet st"
  "ex_quiet (st\<lparr>wt_stats := s\<rparr>) = ex_quiet st" "ex_quiet (st\<lparr>wt_snapshot := m\<rparr>) = ex_quiet st"
  "ex_quiet (st\<lparr>wt_observer := b\<rparr>) = ex_quiet st" "ex_quiet (st\<lparr>wt_backend := x\<rparr>) = ex_quiet st"
  "ex_quiet (st\<lparr>wt_scan_keys := ks\<rparr>) = ex_quiet st"
  by (simp_all add: ex_quiet_def)

lemma ex_quiet_emit [simp]: "ex_quiet (emit ex_env e p st) = ex_quiet st"
  by (simp add: emit_def ex_advance)

lemma ex_clock: "read_clock ex_env st = (wt_tick st * 1000000, st\<lparr>wt_tick := Suc (wt_tick st)\<rparr>)"
  by (simp add: read_clock_def ex_advance) (simp add: ex_env_def)

definition ex_empty_os :: os where
  "ex_empty_os = ex_dirs_os\<lparr>os_lstat_again := (\<lambda>p. Inr ex_dir_meta), os_scandir := (\<lambda>d a. Inr [])\<rparr>"

lemma ex_walk: "iter_regular_files ex_empty_os ex_watch_scanner (Suc (Suc 0)) ''/b'' = Some []"
proof -
  have "\<not> is_excluded ex_empty_os ex_watch_scanner ''/b''"
    by (simp add: is_excluded_def ex_watch_scanner_def)
  moreover have "os_lstat ex_empty_os p = Inr ex_dir_meta" "os_lstat_again ex_empty_os p = Inr ex_dir_meta"
    "sorted_directory_entries ex_empty_os d = Inr []" for p d
    by (simp_all add: ex_empty_os_def ex_dirs_os_def sorted_directory_entries_def)
  ultimately show ?thesis
    by (simp add: iter_regular_files_def is_link_def ex_dir_meta_def walk_entries_def)
qed

lemma ex_scan:
  "\<exists>r. scan (en_os ex_env k) (en_scanner ex_env) (en_worker ex_env k) (en_trust ex_env) cb False (en_fuel ex_env) u v [''/b''] c
     = Some (Inr r, c) \<and> sr_issues r = [] \<and> sr_findings r = [] \<and> coverage_gaps (sr_stats r) = []"
proof -
  have "absolute ex_empty_os ''/b'' = ''/b''" by code_simp
  then have "all_events ex_empty_os ex_watch_scanner (Suc (Suc 0)) (sort_key (path_key ex_empty_os) (map (absolute ex_empty_os) [''/b''])) = Some []"
    by (simp add: all_events_def ex_walk)
  moreover have "en_os ex_env k = ex_empty_os" "en_scanner ex_env = ex_watch_scanner" "en_fuel ex_env = Suc (Suc 0)"
    by (simp_all add: ex_env_def ex_empty_os_def)
  ultimately show ?thesis
    by (simp add: scan_def Let_def sort_results_def stats0_def coverage_gaps_def)
qed

lemma ex_reconcile:
  assumes "ex_quiet st"
  shows "\<exists>st'. reconcile ex_env trigger False True st = (Inr (), st') \<and> ex_quiet st' \<and> wt_tick st < wt_tick st'"
proof -
  have q: "wc_quarantine (en_config ex_env) = False" and roots: "map wr_path (en_roots ex_env) = [''/b'']"
    by (simp_all add: ex_env_def ex_watch_config_def)
  define s0 where "s0 = (count_reconciliation False st)\<lparr>wt_tick := wt_tick st + 3\<rparr>"
  have s0: "ex_quiet s0" "wt_tick s0 = wt_tick st + 3"
    using assms by (simp_all add: s0_def count_reconciliation_def Let_def)
  define k where "k = wt_tick s0"
  define flt where "flt = changed_since_last ex_env trigger False True"
  define s1 where "s1 = s0\<lparr>wt_tick := Suc k\<rparr>"
  have absorb: "\<exists>s'. absorb_result ex_env ts ev nh False r s = (Inr r, s') \<and> ex_quiet s' \<and> wt_tick s < wt_tick s'"
    if "sr_issues r = []" "sr_findings r = []" "coverage_gaps (sr_stats r) = []" "ex_quiet s" for r s ts ev nh
    using that by (simp add: absorb_result_def Let_def superseded_def retain_issues_def add_batch_def note_scan_issues_def
        count_issues_def quarantine_findings_def q ex_advance emit_def)
  have scan: "\<exists>r s'. scan_paths ex_env (Some flt) None [''/b''] ts ev nh False (s0, rc) = (Inr r, (s', rc))
      \<and> ex_quiet s' \<and> wt_tick s0 < wt_tick s'" for ts ev nh rc
  proof -
    obtain r where r: "scan (en_os ex_env k) (en_scanner ex_env) (en_worker ex_env k) (en_trust ex_env)
        \<lparr>cb_filter = Some flt, cb_observer = Some (record_inspection ex_env None)\<rparr> False (en_fuel ex_env)
        (en_utc ex_env k) (en_utc ex_env (Suc k)) [''/b''] (s1, rc) = Some (Inr r, (s1, rc))"
      and "sr_issues r = []" "sr_findings r = []" "coverage_gaps (sr_stats r) = []"
      using ex_scan [of k "\<lparr>cb_filter = Some flt, cb_observer = Some (record_inspection ex_env None)\<rparr>"
        "en_utc ex_env k" "en_utc ex_env (Suc k)" "(s1, rc)"] by (elim exE conjE) (rule that)
    moreover have "ex_quiet s1" using s0 by (simp add: s1_def)
    ultimately obtain s' where "absorb_result ex_env ts ev nh False r s1 = (Inr r, s')" "ex_quiet s'" "wt_tick s1 < wt_tick s'"
      using absorb by blast
    moreover have adv: "advance ex_env s0 = s1" "wt_tick s0 = k" "wt_tick s1 = Suc k"
      by (simp_all add: ex_advance s1_def k_def)
    ultimately have "scan_paths ex_env (Some flt) None [''/b''] ts ev nh False (s0, rc) = (Inr r, (s', rc))
        \<and> ex_quiet s' \<and> k < wt_tick s'"
      using r by (simp add: scan_paths_def Let_def)
    then show ?thesis using adv(2) by blast
  qed
  have c: "read_clock ex_env (count_reconciliation False st) = (wt_tick st * 1000000, (count_reconciliation False st)\<lparr>wt_tick := wt_tick st + 1\<rparr>)"
    by (simp add: ex_clock count_reconciliation_def Let_def)
  define rc where "rc = \<lparr>rc_current = Map.empty, rc_unresolved = [], rc_observed = 0, rc_unchanged = 0, rc_hashed = 0,
      rc_bytes = 0, rc_unresolved_count = 0, rc_started = wt_tick st * 1000000,
      rc_next_heartbeat = Suc (wt_tick st) * 1000000 + wc_heartbeat (en_config ex_env),
      rc_next_drain = Suc (Suc (wt_tick st)) * 1000000\<rparr>"
  obtain r s' where sp: "scan_paths ex_env (Some flt) None [''/b''] [trigger] ''metadata_inventory_completed''
      (Some ''metadata_inventory_complete'') False (s0, rc) = (Inr r, (s', rc))" and s': "ex_quiet s'" "wt_tick s0 < wt_tick s'"
    using scan by blast
  have "reconcile ex_env trigger False True st = (Inr (), finish_reconciliation ex_env True (wt_generation st) r (s', rc))"
    using sp unfolding reconcile_def c
    by (simp add: ex_clock roots flt_def Let_def s0_def rc_def numeral_3_eq_3 count_reconciliation_def)
  moreover have "ex_quiet (finish_reconciliation ex_env True g r (s', rc))"
    "wt_tick (finish_reconciliation ex_env True g r (s', rc)) = wt_tick s'" for g
    using s' by (simp_all add: finish_reconciliation_def Let_def)
  ultimately show ?thesis using s' s0 by auto
qed

lemma ex_run: "\<exists>s st. run ex_env (Some 100000) (Suc 0) (new_watcher ex_env) = Some (Inr s, st)
    \<and> outcome s \<noteq> ''interrupted'' \<and> outcome s \<noteq> ''incomplete'' \<and> 0 < length (wt_records st)"
proof -
  have cfg: "wc_backend (en_config ex_env) = ''auto''" "en_start ex_env b = None" "en_thread_starts ex_env"
    "en_thread_stops ex_env" "\<not> en_interrupt ex_env k" for b k
    by (simp_all add: ex_env_def ex_watch_config_def)
  have q0: "ex_quiet (new_watcher ex_env)"
    by (simp add: ex_quiet_def new_watcher_def new_queue_def)
  define s1 where "s1 = (advance ex_env (new_watcher ex_env))\<lparr>wt_observer := True, wt_backend := ''native''\<rparr>"
  have q1: "ex_quiet s1" using q0 by (simp add: s1_def ex_advance)
  have start: "start_observer ex_env (advance ex_env (new_watcher ex_env)) = (Inr (), s1)"
    by (simp add: start_observer_def cfg s1_def)
  define s2 where "s2 = emit ex_env ''session_started'' [(''backend_requested'', JStr ''auto''),
               (''backend_active'', JStr (wt_backend s1)), (''fallback_reason'', opt_str (wt_fallback s1)),
               (''roots'', root_list ex_env), (''policy'', JObj (watch_policy (wc_quarantine (en_config ex_env))))] s1"
  define s4 where "s4 = s2\<lparr>wt_tick := Suc (Suc (wt_tick s2))\<rparr>"
  have q4: "ex_quiet s4" using q1 by (simp add: s4_def s2_def)
  obtain s5 where s5: "reconcile ex_env ''initial_metadata_inventory'' False True s4 = (Inr (), s5)" and q5: "ex_quiet s5"
    using ex_reconcile [OF q4] by blast
  define s6 where "s6 = s5\<lparr>wt_tick := Suc (wt_tick s5)\<rparr>"
  define s7 where "s7 = s6\<lparr>wt_tick := Suc (wt_tick s6)\<rparr>"
  have q6: "ex_quiet s6" and q7: "ex_quiet s7" using q5 by (simp_all add: s6_def s7_def)
  have healthy: "event_pipeline_is_healthy ex_env s = (True, s)" if "ex_quiet s" for s
    using that by (simp add: event_pipeline_is_healthy_def ex_quiet_def)
  have leave: "monitor ex_env (Some 100000) (Suc 0) dl s6 = Some (Leave, s7)" if "dl_started dl = wt_tick s5 * 1000000" for dl
    using that by (simp add: cfg monitor_step_def healthy [OF q6] ex_clock s7_def [symmetric]) (simp add: s6_def)
  have sup: "supervise ex_env (Some 100000) (Suc 0) dls s4 = Some (Leave, s7)" for dls
    by (simp add: supervise_def cfg s5 ex_clock s6_def [symmetric] leave del: monitor.simps)
  define s8 where "s8 = close_session ex_env True s7"
  have "\<not> wt_historical s8 \<and> \<not> wt_incomplete s8"
  proof -
    let ?s = "advance ex_env (s7\<lparr>wt_observer := False\<rparr>)"
    have q: "ex_quiet ?s" using q7 by (simp add: ex_advance)
    then have i: "ingest (base_os ex_env) (wt_queue ?s) = wt_queue ?s"
      by (simp add: ex_quiet_def ingest.simps)
    have "?s\<lparr>wt_queue := wt_queue ?s\<rparr> = ?s" by simp
    with q i show ?thesis
      unfolding s8_def close_session_def
      by (simp add: cfg healthy ex_clock Let_def) (simp add: ex_quiet_def)
  qed
  then have "outcome (summary_of ex_env t False s8) \<noteq> ''interrupted'' \<and> outcome (summary_of ex_env t False s8) \<noteq> ''incomplete''" for t
    by (simp add: outcome_def summary_of_def)
  moreover have "\<exists>t x. run ex_env (Some 100000) (Suc 0) (new_watcher ex_env) =
     Some (Inr (summary_of ex_env t False s8), emit ex_env ''session_completed'' [(''summary'', x)] s8)"
    by (simp add: run_def usec_def start ex_clock s2_def [symmetric] Let_def s4_def [symmetric] sup cfg s8_def [symmetric])
      blast
  ultimately show ?thesis by (fastforce simp: emit_def)
qed



text \<open>
  However a session ends, its records are numbered 1, 2, 3 and so on without a hole.
\<close>

theorem records_numbered:
  assumes "run env duration fuel (new_watcher env) = Some (r, st)" and "i < length (wt_records st)"
  shows "dget (wt_records st ! i) ''sequence'' = JInt (int (Suc i))"
  using run_parts [OF assms(1)] assms(2) by (simp add: numbered_def)

lemma records_numbered_witness:
  "\<exists>s st. run ex_env (Some 100000) (Suc 0) (new_watcher ex_env) = Some (Inr s, st)
    \<and> dget (wt_records st ! 0) ''sequence'' = JInt 1"
proof -
  obtain s st where r: "run ex_env (Some 100000) (Suc 0) (new_watcher ex_env) = Some (Inr s, st)"
    and l: "0 < length (wt_records st)" using ex_run by blast
  from records_numbered [OF r l] r show ?thesis by auto
qed

section \<open>Termination\<close>

lemma monitor_ends:
  assumes "session_ok t st" and "\<forall>k\<ge>n. d + dl_started dl \<le> en_clock env k"
  shows "\<exists>fuel. monitor env (Some d) fuel dl st \<noteq> None"
  using assms
proof (induction "n - t" arbitrary: t st dl rule: less_induct)
  case less
  obtain r st' where s: "monitor_step env (Some d) dl st = (r, st')" by fastforce
  note kept = monitor_step_keeps [OF less.prems(1) s]
  show ?case
  proof (cases "en_interrupt env (wt_tick st) \<or> (\<forall>dl'. r \<noteq> Again dl')")
    case True
    then have "monitor env (Some d) 1 dl st \<noteq> None"
      using s by (cases r) (auto simp: One_nat_def)
    then show ?thesis by blast
  next
    case False
    then obtain dl' where r: "r = Again dl'" by blast
    with kept have ok: "session_ok (Suc t) st'" and dl': "dl_started dl' = dl_started dl" by auto
    have "t < n"
    proof (rule ccontr)
      assume "\<not> t < n"
      obtain b s1 where 1: "event_pipeline_is_healthy env st = (b, s1)" by fastforce
      have "b" using s r by (cases b) (auto simp: monitor_step_def 1)
      with 1 have s1: "s1 = st" by (auto dest: pipeline_healthy)
      have "n \<le> wt_tick st" using less.prems(1) \<open>\<not> t < n\<close> by (simp add: session_ok_def)
      with less.prems(2) have "d + dl_started dl \<le> en_clock env (wt_tick st)" by blast
      then have "d \<le> en_clock env (wt_tick st) - dl_started dl" by linarith
      with s r \<open>b\<close> show False by (simp add: monitor_step_def 1 s1 read_clock_def)
    qed
    then have "n - Suc t < n - t" by simp
    have clock: "\<forall>k\<ge>n. d + dl_started dl' \<le> en_clock env k" using less.prems(2) dl' by simp
    obtain fuel where f: "monitor env (Some d) fuel dl' st' \<noteq> None"
      using less.hyps [OF \<open>n - Suc t < n - t\<close> ok clock] by blast
    have "monitor env (Some d) (Suc fuel) dl st \<noteq> None" using False f by (simp add: s r)
    then show ?thesis by blast
  qed
qed

text \<open>
  C33: A session with a finite duration ends: on a clock that passes every bound for good some
  number of turns of the loop is enough.
\<close>

theorem finite_session_ends:
  assumes "\<forall>b. \<exists>n. \<forall>k\<ge>n. b \<le> en_clock env k"
  shows "\<exists>fuel. run env (Some d) fuel (new_watcher env) \<noteq> None"
proof -
  have sup: "\<exists>fuel. supervise env (Some d) fuel dls st \<noteq> None" if ok: "session_ok 0 st" for dls st
  proof -
    obtain a s1 where 1: "reconcile env ''initial_metadata_inventory'' False True st = (a, s1)" by fastforce
    obtain now s2 where 2: "read_clock env s1 = (now, s2)" by fastforce
    let ?dl = "\<lparr>dl_reconcile = now + wc_reconcile (en_config env),
             dl_full_rescan = now + wc_full_rescan (en_config env), dl_health = fst dls,
             dl_heartbeat = snd dls, dl_started = now\<rparr>"
    have o2: "session_ok 0 s2" by (rule clock_keeps [OF reconcile_keeps [OF ok 1] 2])
    from assms obtain n where "\<forall>k\<ge>n. d + dl_started ?dl \<le> en_clock env k" by blast
    from monitor_ends [OF o2 this] obtain fuel where "monitor env (Some d) fuel ?dl s2 \<noteq> None" by blast
    then have "supervise env (Some d) fuel dls st \<noteq> None"
      by (auto simp: supervise_def 1 2 split: sum.splits)
    then show ?thesis by blast
  qed
  obtain a s1 where 1: "start_observer env (advance env (new_watcher env)) = (a, s1)" by fastforce
  have o1: "session_ok 0 s1" by (rule start_keeps [OF advance_keeps' [OF new_watcher_ok] 1])
  define s2 where "s2 = emit env ''session_started'' [(''backend_requested'', JStr (wc_backend (en_config env))),
               (''backend_active'', JStr (wt_backend s1)), (''fallback_reason'', opt_str (wt_fallback s1)),
               (''roots'', root_list env), (''policy'', JObj (watch_policy (wc_quarantine (en_config env))))] s1"
  have o2: "session_ok 0 s2" unfolding s2_def by (rule emit_keeps [OF o1]) simp
  obtain t3 s3 where 3: "read_clock env s2 = (t3, s3)" by fastforce
  obtain t4 s4 where 4: "read_clock env s3 = (t4, s4)" by fastforce
  have o4: "session_ok 0 s4" by (rule clock_keeps [OF clock_keeps [OF o2 3] 4])
  from sup [OF o4, of "(t3 + min (5 * usec) (wc_reconcile (en_config env)), t4 + wc_heartbeat (en_config env))"]
  obtain fuel where f: "supervise env (Some d) fuel
      (t3 + min (5 * usec) (wc_reconcile (en_config env)), t4 + wc_heartbeat (en_config env)) s4 \<noteq> None" by blast
  have "run env (Some d) fuel (new_watcher env) \<noteq> None"
    using f by (cases a) (auto simp: run_def Let_def 1 s2_def [symmetric] 3 4 split: loop_result.splits)
  then show ?thesis by blast
qed

lemma finite_session_ends_witness: "\<exists>fuel. run ex_env (Some 100000) fuel (new_watcher ex_env) \<noteq> None"
proof (rule finite_session_ends, rule allI)
  fix b :: nat
  have "b \<le> en_clock ex_env k" if "b \<le> k" for k using that by (simp add: ex_env_def)
  then show "\<exists>n. \<forall>k\<ge>n. b \<le> en_clock ex_env k" by blast
qed

end
