(* ===== verification/Status_Store.thy ===== *)
theory Status_Store
  imports Atomic_Write
begin

text \<open>
  \<^verbatim>\<open>src/zsec_shield/status_store.py\<close>: the summary of the last scan, written atomically and read
  back with every field checked.
\<close>

section \<open>Writing and reading\<close>

definition last_scan_path :: "path \<Rightarrow> path" where
  "last_scan_path state_dir = join_path (join_path state_dir ''status'') ''last-scan.json''"

definition last_scan_record :: "string \<Rightarrow> int \<Rightarrow> int \<Rightarrow> int \<Rightarrow> int \<Rightarrow> int \<Rightarrow> string \<Rightarrow> dict" where
  "last_scan_record completed_at findings issues files_hashed bytes_hashed observations outcome = mk_dict
    [(''schema'', JStr ''zsec.shield.last-scan.v3''), (''completed_at'', JStr completed_at),
     (''findings'', JInt findings), (''issues'', JInt issues), (''files_hashed'', JInt files_hashed),
     (''bytes_hashed'', JInt bytes_hashed), (''observations'', JInt observations), (''outcome'', JStr outcome)]"

definition save_last_scan :: "path \<Rightarrow> string \<Rightarrow> int \<Rightarrow> int \<Rightarrow> int \<Rightarrow> int \<Rightarrow> int \<Rightarrow> string \<Rightarrow> unit io" where
  "save_last_scan state_dir completed_at findings issues files_hashed bytes_hashed observations outcome =
    atomic_write_json (last_scan_path state_dir)
      (JObj (last_scan_record completed_at findings issues files_hashed bytes_hashed observations outcome)) 384"

definition keys_are :: "dict \<Rightarrow> string list \<Rightarrow> bool" where
  "keys_are d ks = (keys_of d = set ks)"

definition last_scan_fields :: "nat \<Rightarrow> string list" where
  "last_scan_fields v = [''schema'', ''completed_at'', ''findings'', ''issues'', ''outcome'']
     @ (if 2 \<le> v then [''files_hashed'', ''bytes_hashed''] else []) @ (if v = 3 then [''observations''] else [])"

text \<open>The version of a record, from its schema.\<close>

definition last_scan_version :: "json \<Rightarrow> nat option" where
  "last_scan_version s =
    (if s = JStr ''zsec.shield.last-scan.v1'' then Some 1
     else if s = JStr ''zsec.shield.last-scan.v2'' then Some 2
     else if s = JStr ''zsec.shield.last-scan.v3'' then Some 3 else None)"

definition valid_counter :: "json \<Rightarrow> bool" where
  "valid_counter v = (is_int_nb v \<and> 0 \<le> int_of v)"

definition last_scan_outcomes :: "string list" where
  "last_scan_outcomes = [''no_configured_rule_matches'', ''configured_rule_matches_detected'',
     ''review_observations'', ''incomplete'']"

text \<open>The three consistency checks, on the counters of a record of version \<open>v\<close>.\<close>

definition outcome_problem :: "nat \<Rightarrow> string \<Rightarrow> int \<Rightarrow> int \<Rightarrow> int \<Rightarrow> string option" where
  "outcome_problem v outcome findings issues observations =
    (if outcome = ''no_configured_rule_matches'' \<and> (findings \<noteq> 0 \<or> issues \<noteq> 0 \<or> (v = 3 \<and> observations \<noteq> 0)) then
       Some ''last-scan summary clean outcome is inconsistent''
     else if outcome = ''configured_rule_matches_detected'' \<and> (findings = 0 \<or> issues \<noteq> 0) then
       Some ''last-scan summary finding outcome is inconsistent''
     else if outcome = ''review_observations'' \<and> (v \<noteq> 3 \<or> findings \<noteq> 0 \<or> issues \<noteq> 0 \<or> observations = 0) then
       Some ''last-scan summary observation outcome is inconsistent''
     else None)"

text \<open>An older record gets the fields it lacks.\<close>

definition upgrade_last_scan :: "nat \<Rightarrow> dict \<Rightarrow> dict" where
  "upgrade_last_scan v d =
    (if v = 1 then dput ''observations'' (JInt 0) (dput ''bytes_hashed'' JNull (dput ''files_hashed'' JNull d))
     else if v = 2 then dput ''observations'' (JInt 0) d else d)"

definition check_last_scan :: "json \<Rightarrow> string + dict" where
  "check_last_scan value =
    (if \<not> is_obj value then Inl ''last-scan summary is not an object''
     else let d = obj_of value in
     case last_scan_version (dget d ''schema'') of
       None \<Rightarrow> Inl ''last-scan summary schema is invalid''
     | Some v \<Rightarrow>
       if \<not> keys_are d (last_scan_fields v) then Inl ''last-scan summary fields are invalid''
       else if \<not> list_all (\<lambda>k. valid_counter (dget d k))
                 (filter (\<lambda>k. k \<notin> set [''schema'', ''completed_at'', ''outcome'']) (last_scan_fields v)) then
         Inl ''last-scan summary counters are invalid''
       else if \<not> is_str (dget d ''completed_at'') \<or> str_of (dget d ''completed_at'') = [] then
         Inl ''last-scan summary text fields are invalid''
       else if \<not> is_str (dget d ''outcome'') \<or> str_of (dget d ''outcome'') \<notin> set last_scan_outcomes then
         Inl ''last-scan summary outcome is invalid''
       else case outcome_problem v (str_of (dget d ''outcome'')) (int_of (dget d ''findings''))
                   (int_of (dget d ''issues'')) (int_of (dget d ''observations'')) of
           Some problem \<Rightarrow> Inl problem
         | None \<Rightarrow> Inr (upgrade_last_scan v d))"

definition parse_last_scan :: "string \<Rightarrow> string + dict" where
  "parse_last_scan raw = (case strict_json_loads raw of
     Inl e \<Rightarrow> Inl (''cannot read last-scan summary: '' @ exn_text e) | Inr v \<Rightarrow> check_last_scan v)"

text \<open>The result is the record, or a message why there is none, or neither when there is no file.\<close>

definition load_last_scan :: "path \<Rightarrow> (dict option \<times> string option) io" where
  "load_last_scan state_dir =
    (let p = last_scan_path state_dir in
     io_bind (path_exists p) (\<lambda>there.
     if \<not> there then io_ret (None, None)
     else io_catch
       (io_bind (stat_size p) (\<lambda>n.
          if 32 * 1024 < n then io_ret (None, Some ''last-scan summary is unexpectedly large'')
          else io_bind (sys_read_bytes p) (\<lambda>raw.
            case parse_last_scan raw of Inl m \<Rightarrow> io_ret (None, Some m) | Inr d \<Rightarrow> io_ret (Some d, None))))
       is_os_error (\<lambda>e. io_ret (None, Some (''cannot read last-scan summary: '' @ exn_text e)))))"

section \<open>Properties\<close>

definition consistent_outcome :: "string \<Rightarrow> int \<Rightarrow> int \<Rightarrow> int \<Rightarrow> bool" where
  "consistent_outcome outcome findings issues observations =
    (outcome \<in> set last_scan_outcomes \<and> outcome_problem 3 outcome findings issues observations = None)"

lemma last_scan_record_fields:
  fixes c f i h b n r
  defines "d \<equiv> last_scan_record c f i h b n r"
  shows "dget d ''schema'' = JStr ''zsec.shield.last-scan.v3''" "dget d ''completed_at'' = JStr c"
    "dget d ''findings'' = JInt f" "dget d ''issues'' = JInt i" "dget d ''files_hashed'' = JInt h"
    "dget d ''bytes_hashed'' = JInt b" "dget d ''observations'' = JInt n" "dget d ''outcome'' = JStr r"
  unfolding d_def last_scan_record_def by (simp_all add: dget_mk_dict)

lemma last_scan_record_keys: "keys_are (last_scan_record c f i h b n r) (last_scan_fields 3)"
proof -
  have perm: "{s, c, f, i, h, b, n, r} = {s, c, f, i, r, h, b, n}" for s c f i h b n r :: string by blast
  show ?thesis
    unfolding keys_are_def last_scan_record_def keys_of_mk_dict last_scan_fields_def
    by (simp only: list.set image_insert image_empty fst_conv append.simps if_True numeral_le_iff eval_nat_numeral order_refl refl)
       (simp, rule perm)
qed

lemma check_last_scan_record:
  assumes "consistent_outcome r f i n" and "0 \<le> f" "0 \<le> i" "0 \<le> h" "0 \<le> b" "0 \<le> n" and "c \<noteq> []"
  shows "check_last_scan (JObj (last_scan_record c f i h b n r)) = Inr (last_scan_record c f i h b n r)"
proof -
  have counters: "list_all (\<lambda>k. valid_counter (dget (last_scan_record c f i h b n r) k))
      (filter (\<lambda>k. k \<notin> set [''schema'', ''completed_at'', ''outcome'']) (last_scan_fields 3))"
    using assms(2-6) by (simp add: last_scan_fields_def last_scan_record_fields valid_counter_def)
  show ?thesis
    using assms(1,7) counters last_scan_record_keys [of c f i h b n r]
    by (simp add: check_last_scan_def last_scan_version_def last_scan_record_fields
        consistent_outcome_def upgrade_last_scan_def Let_def del: set_simps)
qed

lemma parse_last_scan_record:
  assumes "consistent_outcome r f i n" and "0 \<le> f" "0 \<le> i" "0 \<le> h" "0 \<le> b" "0 \<le> n" and "c \<noteq> []"
    and "list_all (\<lambda>k. wf_json (JInt k)) [f, i, h, b, n]"
    and "indented_json_bytes (JObj (last_scan_record c f i h b n r)) = Inr raw"
  shows "parse_last_scan raw = Inr (last_scan_record c f i h b n r)"
proof -
  have "wf_json (JObj (last_scan_record c f i h b n r))"
    unfolding last_scan_record_def by (rule wf_json_mk_dict) (use assms(8) in simp)
  from strict_indented [OF this assms(9)] check_last_scan_record [OF assms(1-7)]
  show ?thesis by (simp add: parse_last_scan_def)
qed

lemma load_last_scan_file:
  assumes "quiet w" and "file_at w (last_scan_path dir) raw" and "length raw \<le> 32 * 1024"
  shows "fst (load_last_scan dir w) =
    (case parse_last_scan raw of Inl m \<Rightarrow> Inr (None, Some m) | Inr d \<Rightarrow> Inr (Some d, None))"
  using assms quiet_reads [of "tick w" _ raw] quiet_reads [of "tick (tick w)" _ raw] quiet_reads [of w _ raw]
  by (cases "parse_last_scan raw")
     (simp_all add: load_last_scan_def Let_def io_bind_def io_catch_def io_ret_def)

text \<open>
  C39: What a scan saves is what the next reader gets: on a file system where no call fails the
  record of a scan with consistent counters and outcome is written and read back unchanged.
\<close>

theorem last_scan_survives:
  assumes "quiet w" and "fs_ok (w_fs w)" and "fresh_ok w" and "writable (w_fs w) (last_scan_path dir)"
    and "\<forall>q \<in> set (last_scan_path dir # ancestors (parent_of (last_scan_path dir))). fresh_name w q"
    and "consistent_outcome r f i n" and "0 \<le> f" "0 \<le> i" "0 \<le> h" "0 \<le> b" "0 \<le> n" and "c \<noteq> []"
    and "list_all (\<lambda>k. wf_json (JInt k)) [f, i, h, b, n]"
    and "indented_json_bytes (JObj (last_scan_record c f i h b n r)) = Inr raw" and "length raw \<le> 32 * 1024"
  shows "\<exists>w'. save_last_scan dir c f i h b n r w = (Inr (), w')
    \<and> fst (load_last_scan dir w') = Inr (Some (last_scan_record c f i h b n r), None)"
proof -
  let ?p = "last_scan_path dir"
  have len: "length (parent_of ?p) < length ?p" using assms(4) by (simp add: writable_def)
  obtain g k where e: "atomic_write_bytes ?p raw 384 w = (Inr (), w\<lparr>w_fs := g, w_tick := k\<rparr>)"
    using atomic_write_returns [OF assms(1,2,4,3,5)] by blast
  let ?w = "w\<lparr>w_fs := g, w_tick := k\<rparr>"
  have q: "quiet ?w" using assms(1) by (simp add: quiet_def)
  have "published raw g ?p"
    using tripleD [OF triple_atomic_write [OF len, of "w_fs w"] quiet_calm [OF assms(1)] _ e] assms(2) by simp
  then have at: "file_at ?w ?p raw" by (auto simp: published_def file_at_def)
  from load_last_scan_file [OF q at assms(15)] parse_last_scan_record [OF assms(6-14)]
  have "fst (load_last_scan dir ?w) = Inr (Some (last_scan_record c f i h b n r), None)" by simp
  moreover have "save_last_scan dir c f i h b n r w = (Inr (), ?w)"
    using e assms(14) by (simp add: save_last_scan_def atomic_write_json_def io_bind_def io_lift_def)
  ultimately show ?thesis by blast
qed

lemma last_scan_survives_witness:
  "\<exists>w'. save_last_scan ''/d'' ''t'' 0 0 3 9 0 ''no_configured_rule_matches'' empty_world = (Inr (), w')
    \<and> fst (load_last_scan ''/d'' w') = Inr (Some (last_scan_record ''t'' 0 0 3 9 0 ''no_configured_rule_matches''), None)"
proof -
  let ?v = "JObj (last_scan_record ''t'' 0 0 3 9 0 ''no_configured_rule_matches'')"
  have p: "last_scan_path ''/d'' = ''/d/status/last-scan.json''" by (simp add: last_scan_path_def join_path_def)
  have a: "parent_of ''/d/status/last-scan.json'' = ''/d/status''"
    "set (ancestors ''/d/status'') \<subseteq> {''/d/status'', ''/d'', ''/'', []}" by code_simp+
  have w: "writable (w_fs empty_world) (last_scan_path ''/d'')"
    by (simp add: p writable_def a view_def empty_world_def)
  have "fresh_name empty_world q" if "q \<in> {''/d/status/last-scan.json'', ''/d/status'', ''/d'', ''/'', []}" for q
    using that by (auto simp: fresh_name_def empty_world_def suffix_def Cons_eq_append_conv)
  with a(2) have fr: "\<forall>q \<in> set (last_scan_path ''/d'' # ancestors (parent_of (last_scan_path ''/d''))). fresh_name empty_world q"
    by (auto simp: p a(1))
  have "ascii_json ?v" unfolding last_scan_record_def
    by (rule ascii_mk_dict) (simp_all add: ord_def)
  from indented_ascii [OF this] have raw: "indented_json_bytes ?v = Inr (dump Indented 0 ?v @ [CHR 0x0A])" .
  have "length (dump Indented 0 ?v @ [CHR 0x0A]) \<le> 1000" by code_simp
  then have l: "length (dump Indented 0 ?v @ [CHR 0x0A]) \<le> 32 * 1024" by simp
  have "consistent_outcome ''no_configured_rule_matches'' 0 0 0" by code_simp
  moreover have "list_all (\<lambda>k. wf_json (JInt k)) [0, 0, 3, 9, 0]" by code_simp
  ultimately show ?thesis using last_scan_survives [OF empty_world_ok w fr _ _ _ _ _ _ _ _ raw l] by simp
qed

lemma load_last_scan_Inr:
  assumes "load_last_scan dir w = (Inr (Some d, m), w')"
  shows "m = None \<and> (\<exists>raw. parse_last_scan raw = Inr d)"
  using assms unfolding load_last_scan_def Let_def
  by (auto simp: io_inv split: if_splits) (auto simp: io_inv split: sum.splits)

lemma valid_counter_0: "valid_counter v \<Longrightarrow> int_of v = 0 \<Longrightarrow> v = JInt 0"
  by (cases v) (auto simp: valid_counter_def)

lemma upgrade_fields:
  assumes "wf_dict d" and "k \<notin> set [''observations'', ''bytes_hashed'', ''files_hashed'']"
  shows "dget (upgrade_last_scan v d) k = dget d k"
  using assms by (auto simp: upgrade_last_scan_def dget_def map_of_dput wf_dput)

lemma upgrade_observations:
  assumes "wf_dict d" and "v = 1 \<or> v = 2"
  shows "dget (upgrade_last_scan v d) ''observations'' = JInt 0"
  using assms by (auto simp: upgrade_last_scan_def dget_def map_of_dput wf_dput)

text \<open>
  A record that the reader accepts, whatever the file holds and whatever fails, says "no
  configured rule matches" only with no finding, no issue and no observation, and "matches
  detected" only with a finding and no issue.
\<close>

theorem loaded_outcome_consistent:
  assumes "load_last_scan dir w = (Inr (Some d, m), w')"
  shows "(dget d ''outcome'' = JStr ''no_configured_rule_matches'' \<longrightarrow>
      dget d ''findings'' = JInt 0 \<and> dget d ''issues'' = JInt 0 \<and> dget d ''observations'' = JInt 0)
    \<and> (dget d ''outcome'' = JStr ''configured_rule_matches_detected'' \<longrightarrow>
      0 < int_of (dget d ''findings'') \<and> dget d ''issues'' = JInt 0) \<and> m = None"
proof -
  from load_last_scan_Inr [OF assms] obtain raw where m: "m = None" and raw: "parse_last_scan raw = Inr d" by blast
  then obtain x where x: "strict_json_loads raw = Inr x" and c: "check_last_scan x = Inr d"
    by (auto simp: parse_last_scan_def split: sum.splits)
  obtain e where e: "x = JObj e" using c by (cases x) (simp_all add: check_last_scan_def)
  have wf: "wf_dict e" using strict_json_loads_parsed [OF x] by (simp add: e)
  obtain v where v: "last_scan_version (dget e ''schema'') = Some v"
    using c by (auto simp: e check_last_scan_def Let_def split: option.splits)
  then have v3: "v = 1 \<or> v = 2 \<or> v = 3" by (auto simp: last_scan_version_def split: if_splits)
  from c v have d: "d = upgrade_last_scan v e"
    and counters: "list_all (\<lambda>k. valid_counter (dget e k))
        (filter (\<lambda>k. k \<notin> set [''schema'', ''completed_at'', ''outcome'']) (last_scan_fields v))"
    and p: "outcome_problem v (str_of (dget e ''outcome'')) (int_of (dget e ''findings''))
                   (int_of (dget e ''issues'')) (int_of (dget e ''observations'')) = None"
    by (auto simp: e check_last_scan_def Let_def split: if_splits option.splits)
  have fi: "valid_counter (dget e ''findings'')" "valid_counter (dget e ''issues'')"
    using counters by (simp_all add: last_scan_fields_def)
  have o3: "v = 3 \<Longrightarrow> valid_counter (dget e ''observations'')"
    using counters by (simp add: last_scan_fields_def)
  have same: "dget d k = dget e k" if "k \<in> set [''outcome'', ''findings'', ''issues'']" for k
    unfolding d by (rule upgrade_fields [OF wf]) (use that in auto)
  have obs: "dget d ''observations'' = JInt 0" if z: "v \<noteq> 3 \<or> int_of (dget e ''observations'') = 0"
  proof (cases "v = 3")
    case True
    then show ?thesis using z valid_counter_0 [OF o3] by (simp add: d upgrade_last_scan_def)
  next
    case False
    then show ?thesis using v3 unfolding d by (intro upgrade_observations [OF wf]) simp
  qed
  show ?thesis
    using p fi m v3 obs
    by (auto simp: same outcome_problem_def valid_counter_0 valid_counter_def split: if_splits)
qed

text \<open>A file system whose only file is the summary of a scan that found nothing.\<close>

definition ex_scan_bytes :: string where
  "ex_scan_bytes = ''{\"schema\":\"zsec.shield.last-scan.v3\",\"completed_at\":\"t\",\"findings\":0,\"issues\":0,\"files_hashed\":3,\"bytes_hashed\":9,\"observations\":0,\"outcome\":\"no_configured_rule_matches\"}''"

definition ex_scan_world :: world where
  "ex_scan_world = empty_world\<lparr>w_fs := new_inode (w_fs empty_world) ''/d/status/last-scan.json''
     \<lparr>i_kind = Reg, i_dev = 0, i_mtime = 0, i_mode = 384, i_data = ex_scan_bytes\<rparr>\<rparr>"

lemma ex_scan_parses:
  "case parse_last_scan ex_scan_bytes of Inl _ \<Rightarrow> False | Inr d \<Rightarrow> dget d ''outcome'' = JStr ''no_configured_rule_matches''"
  by code_simp

lemma loaded_outcome_consistent_witness:
  "\<exists>d. fst (load_last_scan ''/d'' ex_scan_world) = Inr (Some d, None)
    \<and> dget d ''outcome'' = JStr ''no_configured_rule_matches'' \<and> dget d ''observations'' = JInt 0"
proof -
  obtain d where d: "parse_last_scan ex_scan_bytes = Inr d" "dget d ''outcome'' = JStr ''no_configured_rule_matches''"
    using ex_scan_parses by (auto split: sum.splits)
  have p: "last_scan_path ''/d'' = ''/d/status/last-scan.json''" by (simp add: last_scan_path_def join_path_def)
  have "quiet ex_scan_world" using empty_world_ok(1) by (simp add: ex_scan_world_def quiet_def)
  moreover have "file_at ex_scan_world (last_scan_path ''/d'') ex_scan_bytes"
    by (simp add: p file_at_def ex_scan_world_def view_new_inode [OF empty_world_ok(2)])
  moreover have "length ex_scan_bytes \<le> 32 * 1024" by (simp add: ex_scan_bytes_def)
  ultimately have "fst (load_last_scan ''/d'' ex_scan_world) = Inr (Some d, None)"
    using load_last_scan_file d(1) by simp
  moreover then obtain w' where "load_last_scan ''/d'' ex_scan_world = (Inr (Some d, None), w')" by (metis prod.collapse)
  ultimately show ?thesis using loaded_outcome_consistent d(2) by blast
qed

end
