(* ===== verification/Crypto_Vault.thy ===== *)
theory Crypto_Vault
  imports Feed
begin

text \<open>
  \<^verbatim>\<open>src/zsec_shield/crypto_vault.py\<close> on a POSIX system: the device root key, the key envelope of
  a quarantined object and the authentication of its metadata.  The primitives of the
  \<^verbatim>\<open>cryptography\<close> package are the record \<open>crypto\<close>, an argument of the definitions.  AES-GCM is
  given by its two parts: \<open>gcm_ctr key nonce\<close>, the counter mode stream that both encrypts and
  decrypts, and \<open>gcm_tag key nonce aad ciphertext\<close>.  HMAC is the function of the theory
  \<open>Sha256\<close>.  What \<^verbatim>\<open>os.urandom\<close> returns is an argument.
\<close>

section \<open>Primitives\<close>

record crypto =
  hkdf :: "string \<Rightarrow> string option \<Rightarrow> string \<Rightarrow> string"
  gcm_ctr :: "string \<Rightarrow> string \<Rightarrow> string \<Rightarrow> string"
  gcm_tag :: "string \<Rightarrow> string \<Rightarrow> string \<Rightarrow> string \<Rightarrow> string"

text \<open>\<^verbatim>\<open>AESGCM(key).encrypt\<close> appends the tag; \<^verbatim>\<open>decrypt\<close> gives \<open>None\<close> for \<^verbatim>\<open>InvalidTag\<close>.\<close>

definition aesgcm_encrypt :: "crypto \<Rightarrow> string \<Rightarrow> string \<Rightarrow> string \<Rightarrow> string \<Rightarrow> string" where
  "aesgcm_encrypt cr key nonce data aad =
    (let c = gcm_ctr cr key nonce data in c @ gcm_tag cr key nonce aad c)"

definition aesgcm_decrypt :: "crypto \<Rightarrow> string \<Rightarrow> string \<Rightarrow> string \<Rightarrow> string \<Rightarrow> string option" where
  "aesgcm_decrypt cr key nonce data aad =
    (let c = take (length data - 16) data; t = drop (length data - 16) data in
     if length data < 16 \<or> t \<noteq> gcm_tag cr key nonce aad c then None else Some (gcm_ctr cr key nonce c))"

text \<open>What the documentation of HKDF and AES-GCM promises: lengths, and a stream cipher.\<close>

definition crypto_laws :: "crypto \<Rightarrow> bool" where
  "crypto_laws cr =
    ((\<forall>r s i. length (hkdf cr r s i) = 32)
     \<and> (\<forall>k n m. length (gcm_ctr cr k n m) = length m)
     \<and> (\<forall>k n m. gcm_ctr cr k n (gcm_ctr cr k n m) = m)
     \<and> (\<forall>k n m j. gcm_ctr cr k n (take j m) = take j (gcm_ctr cr k n m))
     \<and> (\<forall>k n a c. length (gcm_tag cr k n a c) = 16))"

section \<open>The device root\<close>

record device_root =
  dr_key :: string
  dr_protection :: string

record vault_envelope =
  ve_salt :: string
  ve_wrap_nonce :: string
  ve_wrapped_key :: string
  ve_content_nonce :: string

definition wrap_info :: string where
  "wrap_info = ''ZERO-SECURITY/ZSV2/KEY-WRAP/V1'' @ [CHR 0x00]"

definition mac_info :: string where
  "mac_info = ''ZERO-SECURITY/ZSV2/METADATA-MAC/V1'' @ [CHR 0x00]"

definition decode_variable :: "json \<Rightarrow> string \<Rightarrow> string res" where
  "decode_variable v label =
    (if \<not> is_str v then Inl (QuarantineError (label @ '' must be base64 text''))
     else case b64decode_strict (str_of v) of
         None \<Rightarrow> Inl (QuarantineError (label @ '' is invalid base64''))
       | Some d \<Rightarrow> Inr d)"

definition decode_exact :: "json \<Rightarrow> nat \<Rightarrow> string \<Rightarrow> string res" where
  "decode_exact v expected_length label =
    rbind (decode_variable v label) (\<lambda>d.
      if length d \<noteq> expected_length then Inl (QuarantineError (label @ '' length is invalid'')) else Inr d)"

definition envelope_fixed :: "(string \<times> string) list" where
  "envelope_fixed =
    [(''format'', ''ZSV2''), (''profile'', ''zero-security-quarantine-aes256gcm-v1''),
     (''cipher'', ''AES-256-GCM''), (''key_derivation'', ''HKDF-SHA-256'')]"

definition envelope_to_dict :: "vault_envelope \<Rightarrow> string \<Rightarrow> dict" where
  "envelope_to_dict e protection = mk_dict
    (map (map_prod id JStr) (envelope_fixed @
      [(''device_key_protection'', protection), (''salt'', b64encode (ve_salt e)),
       (''wrap_nonce'', b64encode (ve_wrap_nonce e)), (''wrapped_key'', b64encode (ve_wrapped_key e)),
       (''content_nonce'', b64encode (ve_content_nonce e))]))"

definition envelope_required :: "string list" where
  "envelope_required = map fst envelope_fixed @
    [''device_key_protection'', ''salt'', ''wrap_nonce'', ''wrapped_key'', ''content_nonce'']"

definition check_envelope_field :: "dict \<Rightarrow> string \<times> string \<Rightarrow> unit \<Rightarrow> unit res" where
  "check_envelope_field d fe u =
    (if dget d (fst fe) \<noteq> JStr (snd fe) then
       Inl (QuarantineError (''unsupported vault envelope field: '' @ fst fe))
     else Inr ())"

definition envelope_from_dict :: "json \<Rightarrow> vault_envelope res" where
  "envelope_from_dict v =
    (if \<not> is_obj v then Inl (QuarantineError ''vault envelope must be an object'')
     else let d = obj_of v in
     if keys_of d \<noteq> set envelope_required then Inl (QuarantineError ''vault envelope fields are invalid'')
     else rbind (rfold (check_envelope_field d) envelope_fixed ()) (\<lambda>_.
       rbind (in_set (dget d ''device_key_protection'')
                [''windows-dpapi-current-user'', ''filesystem-0600-preview'']) (\<lambda>ok.
       if \<not> ok then Inl (QuarantineError ''unsupported device-key protection'')
       else
       rbind (decode_exact (dget d ''salt'') 32 ''vault salt'') (\<lambda>salt.
       rbind (decode_exact (dget d ''wrap_nonce'') 12 ''key-wrap nonce'') (\<lambda>wrap_nonce.
       rbind (decode_exact (dget d ''wrapped_key'') (32 + 16) ''wrapped key'') (\<lambda>wrapped_key.
       rbind (decode_exact (dget d ''content_nonce'') 12 ''content nonce'') (\<lambda>content_nonce.
       Inr \<lparr>ve_salt = salt, ve_wrap_nonce = wrap_nonce, ve_wrapped_key = wrapped_key,
            ve_content_nonce = content_nonce\<rparr>)))))))"

definition device_key_path :: "path \<Rightarrow> path" where
  "device_key_path state_dir = join_path (join_path (join_path state_dir ''vault'') ''keys'') ''device-root.json''"

definition device_record :: "string \<Rightarrow> dict" where
  "device_record protected_key = mk_dict
    [(''schema'', JStr ''zero.security.device-root.v1''), (''protection'', JStr ''filesystem-0600-preview''),
     (''protected_key'', JStr (b64encode protected_key))]"

text \<open>The checks on the record that was read, on a system that is not Windows.\<close>

definition parse_device_root :: "json \<Rightarrow> device_root res" where
  "parse_device_root v =
    (let d = obj_of v in
     if \<not> is_obj v \<or> keys_of d \<noteq> set [''schema'', ''protection'', ''protected_key''] then
       Inl (QuarantineError ''device root key record is invalid'')
     else if dget d ''schema'' \<noteq> JStr ''zero.security.device-root.v1'' then
       Inl (QuarantineError ''unsupported device root key schema'')
     else if \<not> is_str (dget d ''protection'') then
       Inl (QuarantineError ''device root protection must be text'')
     else rbind (decode_variable (dget d ''protected_key'') ''protected device root'') (\<lambda>protected_key.
       let stored = str_of (dget d ''protection'') in
       if stored = ''windows-dpapi-current-user'' then
         Inl (QuarantineError ''Windows DPAPI device root cannot be opened on this platform'')
       else if stored \<noteq> ''filesystem-0600-preview'' then
         Inl (QuarantineError ''unsupported device root protection'')
       else if length protected_key \<noteq> 32 then
         Inl (QuarantineError ''device root key length is invalid'')
       else Inr \<lparr>dr_key = protected_key, dr_protection = stored\<rparr>))"

definition create_device_root :: "path \<Rightarrow> string \<Rightarrow> unit io" where
  "create_device_root state_dir urandom =
    io_then (sys_mkdirs (parent_of (device_key_path state_dir)))
    (io_then (io_suppress (sys_chmod (parent_of (device_key_path state_dir)) 448))
             (atomic_write_json (device_key_path state_dir) (JObj (device_record urandom)) 384))"

definition read_device_root :: "path \<Rightarrow> device_root io" where
  "read_device_root state_dir =
    io_bind (io_catch (io_bind (sys_read_bytes (device_key_path state_dir)) (\<lambda>raw. io_lift (strict_json_loads raw)))
       feed_or_os (\<lambda>e. io_raise (QuarantineError (''cannot read device root key: '' @ exn_text e))))
    (\<lambda>v. io_lift (parse_device_root v))"

definition load_device_root :: "path \<Rightarrow> bool \<Rightarrow> string \<Rightarrow> device_root io" where
  "load_device_root state_dir create urandom =
    (let key_path = device_key_path state_dir in
     io_bind (path_exists key_path) (\<lambda>there.
     io_if (\<not> there \<and> \<not> create) (QuarantineError ''device root key is unavailable'')
     (io_then (if there then io_ret () else create_device_root state_dir urandom)
              (read_device_root state_dir))))"

section \<open>Envelopes and metadata\<close>

record envelope_random =
  er_content_key :: string
  er_salt :: string
  er_wrap_nonce :: string
  er_content_nonce :: string

definition create_envelope ::
    "crypto \<Rightarrow> device_root \<Rightarrow> string \<Rightarrow> string \<Rightarrow> envelope_random \<Rightarrow> vault_envelope \<times> string" where
  "create_envelope cr device entry_id aad r =
    (let wrap_key = hkdf cr (dr_key device) (Some (er_salt r)) (wrap_info @ entry_id);
         wrapped_key = aesgcm_encrypt cr wrap_key (er_wrap_nonce r) (er_content_key r) aad
     in (\<lparr>ve_salt = er_salt r, ve_wrap_nonce = er_wrap_nonce r, ve_wrapped_key = wrapped_key,
          ve_content_nonce = er_content_nonce r\<rparr>, er_content_key r))"

definition unwrap_content_key ::
    "crypto \<Rightarrow> device_root \<Rightarrow> string \<Rightarrow> vault_envelope \<Rightarrow> string \<Rightarrow> string res" where
  "unwrap_content_key cr device entry_id e aad =
    (let wrap_key = hkdf cr (dr_key device) (Some (ve_salt e)) (wrap_info @ entry_id) in
     case aesgcm_decrypt cr wrap_key (ve_wrap_nonce e) (ve_wrapped_key e) aad of
       None \<Rightarrow> Inl (QuarantineError ''vault content-key authentication failed'')
     | Some key \<Rightarrow>
       if length key \<noteq> 32 then Inl (QuarantineError ''unwrapped content key length is invalid'') else Inr key)"

definition metadata_mac :: "crypto \<Rightarrow> device_root \<Rightarrow> string \<Rightarrow> string" where
  "metadata_mac cr device message = hex_of (hmac_sha256 (hkdf cr (dr_key device) None mac_info) message)"

definition sign_metadata :: "crypto \<Rightarrow> device_root \<Rightarrow> dict \<Rightarrow> dict res" where
  "sign_metadata cr device metadata =
    (let unsigned = ddel ''metadata_mac'' metadata in
     rbind (canonical_json_bytes (JObj unsigned)) (\<lambda>b.
     Inr (dput ''metadata_mac'' (JStr (metadata_mac cr device b)) unsigned)))"

text \<open>\<^verbatim>\<open>hmac.compare_digest\<close> raises for a text that is not ASCII.\<close>

definition verify_metadata :: "crypto \<Rightarrow> device_root \<Rightarrow> dict \<Rightarrow> unit res" where
  "verify_metadata cr device metadata =
    (let supplied = dget metadata ''metadata_mac'' in
     if \<not> is_str supplied \<or> py_len (str_of supplied) \<noteq> 64 then
       Inl (QuarantineError ''vault metadata MAC is invalid'')
     else rbind (sign_metadata cr device metadata) (\<lambda>signed.
       if \<not> is_ascii (str_of supplied) then
         Inl (OtherError ''comparing strings with non-ASCII characters is not supported'')
       else if supplied \<noteq> dget signed ''metadata_mac'' then
         Inl (QuarantineError ''vault metadata authentication failed'')
       else Inr ()))"

end
