(* ===== verification/Crypto_Vault_Proofs.thy ===== *)
theory Crypto_Vault_Proofs
  imports Crypto_Vault Zba
begin

text \<open>
  The envelope brings back the content key, a signature over the metadata verifies, and it binds
  every field.
\<close>

section \<open>The envelope\<close>

lemma crypto_lawsD:
  assumes "crypto_laws cr"
  shows "length (hkdf cr r s i) = 32" and "length (gcm_ctr cr k n m) = length m"
    and "gcm_ctr cr k n (gcm_ctr cr k n m) = m" and "gcm_ctr cr k n (take j m) = take j (gcm_ctr cr k n m)"
    and "length (gcm_tag cr k n a c) = 16"
  using assms by (simp_all add: crypto_laws_def)

lemma aesgcm_round:
  assumes "crypto_laws cr"
  shows "aesgcm_decrypt cr k n (aesgcm_encrypt cr k n m a) a = Some m"
    and "length (aesgcm_encrypt cr k n m a) = length m + 16"
  using crypto_lawsD [OF assms] by (simp_all add: aesgcm_decrypt_def aesgcm_encrypt_def Let_def)

lemma decode_variable_b64: "decode_variable (JStr (b64encode d)) l = Inr d"
  by (simp add: decode_variable_def b64decode_encode)

definition envelope_ok :: "vault_envelope \<Rightarrow> bool" where
  "envelope_ok e = (length (ve_salt e) = 32 \<and> length (ve_wrap_nonce e) = 12
     \<and> length (ve_wrapped_key e) = 48 \<and> length (ve_content_nonce e) = 12)"

definition random_ok :: "envelope_random \<Rightarrow> bool" where
  "random_ok r = (length (er_content_key r) = 32 \<and> length (er_salt r) = 32
     \<and> length (er_wrap_nonce r) = 12 \<and> length (er_content_nonce r) = 12)"

lemma envelope_get:
  fixes e p
  defines "d \<equiv> envelope_to_dict e p"
  shows "dget d ''format'' = JStr ''ZSV2''"
    and "dget d ''profile'' = JStr ''zero-security-quarantine-aes256gcm-v1''"
    and "dget d ''cipher'' = JStr ''AES-256-GCM''" and "dget d ''key_derivation'' = JStr ''HKDF-SHA-256''"
    and "dget d ''device_key_protection'' = JStr p" and "dget d ''salt'' = JStr (b64encode (ve_salt e))"
    and "dget d ''wrap_nonce'' = JStr (b64encode (ve_wrap_nonce e))"
    and "dget d ''wrapped_key'' = JStr (b64encode (ve_wrapped_key e))"
    and "dget d ''content_nonce'' = JStr (b64encode (ve_content_nonce e))"
  unfolding d_def envelope_to_dict_def envelope_fixed_def by (simp_all add: dget_mk_dict)

lemma envelope_keys: "keys_of (envelope_to_dict e p) = set envelope_required"
  by (simp add: envelope_to_dict_def envelope_required_def envelope_fixed_def keys_of_mk_dict)

lemma envelope_reads:
  assumes "envelope_ok e" and "p \<in> set [''windows-dpapi-current-user'', ''filesystem-0600-preview'']"
  shows "envelope_from_dict (JObj (envelope_to_dict e p)) = Inr e"
proof -
  let ?d = "envelope_to_dict e p"
  have f: "rfold (check_envelope_field ?d) envelope_fixed () = Inr ()"
    by (simp add: envelope_fixed_def check_envelope_field_def envelope_get)
  have "JStr p \<in> JStr ` set [''windows-dpapi-current-user'', ''filesystem-0600-preview'']"
    using assms(2) by blast
  then have "in_set (JStr p) [''windows-dpapi-current-user'', ''filesystem-0600-preview''] = Inr True"
    by (simp only: in_set_def unhashable_def) simp
  then show ?thesis
    using assms(1) f envelope_keys [of e p]
    by (simp add: envelope_from_dict_def Let_def envelope_get decode_exact_def decode_variable_b64 envelope_ok_def
        del: set_simps)
qed

lemma created_envelope:
  assumes "crypto_laws cr" and "random_ok r" and "create_envelope cr dev eid aad r = (e, key)"
  shows "envelope_ok e" and "unwrap_content_key cr dev eid e aad = Inr key"
    and "key = er_content_key r" and "ve_content_nonce e = er_content_nonce r"
  using assms(2,3) aesgcm_round [OF assms(1)]
  by (auto simp: create_envelope_def unwrap_content_key_def Let_def envelope_ok_def random_ok_def)

text \<open>
  The envelope that is created for an entry, written to the metadata and read back, opens to
  the content key that encrypted the content.
\<close>

theorem envelope_opens:
  assumes "crypto_laws cr" and "random_ok r" and "create_envelope cr dev eid aad r = (e, key)"
    and "dr_protection dev = ''filesystem-0600-preview''"
  shows "\<exists>e'. envelope_from_dict (JObj (envelope_to_dict e (dr_protection dev))) = Inr e'
    \<and> unwrap_content_key cr dev eid e' aad = Inr key \<and> ve_content_nonce e' = er_content_nonce r"
  using envelope_reads [OF created_envelope(1) [OF assms(1-3)]] created_envelope [OF assms(1-3)] assms(4)
  by simp

text \<open>An instance of the primitives: a cipher that complements every byte.\<close>

definition flip :: "string \<Rightarrow> string" where
  "flip = map (\<lambda>c. char_of (255 - (of_char c :: nat)))"

definition toy :: crypto where
  "toy = \<lparr>hkdf = (\<lambda>_ _ _. replicate 32 (CHR ''k'')), gcm_ctr = (\<lambda>_ _. flip),
     gcm_tag = (\<lambda>_ _ _ _. replicate 16 (CHR ''t''))\<rparr>"

lemma flip_flip: "flip (flip m) = m"
proof -
  have "(of_char c :: nat) \<le> 255" for c :: char using ord_less [of c] unfolding ord_def by linarith
  then show ?thesis by (simp add: flip_def o_def map_idI)
qed

lemma toy_laws: "crypto_laws toy"
  by (simp add: crypto_laws_def toy_def flip_flip) (simp add: flip_def take_map)

definition ex_device :: device_root where
  "ex_device = \<lparr>dr_key = replicate 32 (CHR ''d''), dr_protection = ''filesystem-0600-preview''\<rparr>"

definition ex_random :: envelope_random where
  "ex_random = \<lparr>er_content_key = replicate 32 (CHR ''c''), er_salt = replicate 32 (CHR ''s''),
     er_wrap_nonce = replicate 12 (CHR ''n''), er_content_nonce = replicate 12 (CHR ''o'')\<rparr>"

lemma ex_random_ok: "random_ok ex_random"
  by (simp add: random_ok_def ex_random_def)

lemma envelope_opens_witness:
  "\<exists>e'. envelope_from_dict (JObj (envelope_to_dict (fst (create_envelope toy ex_device ''id'' ''aad'' ex_random))
        ''filesystem-0600-preview'')) = Inr e'
    \<and> unwrap_content_key toy ex_device ''id'' e' ''aad'' = Inr (replicate 32 (CHR ''c''))
    \<and> ve_content_nonce e' = replicate 12 (CHR ''o'')"
proof -
  have "create_envelope toy ex_device ''id'' ''aad'' ex_random
    = (fst (create_envelope toy ex_device ''id'' ''aad'' ex_random), er_content_key ex_random)"
    by (simp add: create_envelope_def Let_def)
  from envelope_opens [OF toy_laws ex_random_ok this] show ?thesis by (simp add: ex_device_def ex_random_def)
qed

section \<open>The authentication of the metadata\<close>

lemma sign_metadata_Inr:
  "sign_metadata cr dev m = Inr s \<longleftrightarrow> (\<exists>b. canonical_json_bytes (JObj (ddel ''metadata_mac'' m)) = Inr b
     \<and> s = dput ''metadata_mac'' (JStr (metadata_mac cr dev b)) (ddel ''metadata_mac'' m))"
  by (auto simp: sign_metadata_def Let_def rbind_Inr_iff)

lemma metadata_mac_text: "py_len (metadata_mac cr dev b) = 64" "is_ascii (metadata_mac cr dev b)"
proof -
  have l: "list_all is_hex_lower (metadata_mac cr dev b)"
    using hex_of_lower by (auto simp: metadata_mac_def list_all_iff)
  then show a: "is_ascii (metadata_mac cr dev b)"
    by (auto simp: is_ascii_def list_all_iff is_hex_lower_def)
  have "length (metadata_mac cr dev b) = 64"
    using sha256_length by (simp add: metadata_mac_def hmac_sha256_def)
  with a show "py_len (metadata_mac cr dev b) = 64" by (simp add: py_len_ascii)
qed

lemma verify_metadata_Inr:
  assumes "wf_dict m"
  shows "verify_metadata cr dev m = Inr u \<longleftrightarrow> (\<exists>b. canonical_json_bytes (JObj (ddel ''metadata_mac'' m)) = Inr b
     \<and> dget m ''metadata_mac'' = JStr (metadata_mac cr dev b))"
proof -
  have g: "dget (dput ''metadata_mac'' (JStr t) (ddel ''metadata_mac'' m)) ''metadata_mac'' = JStr t" for t
    by (simp add: dget_dput [OF wf_ddel [OF assms]])
  show ?thesis
  proof (cases "canonical_json_bytes (JObj (ddel ''metadata_mac'' m))")
    case (Inr b)
    have s: "sign_metadata cr dev m = Inr (dput ''metadata_mac'' (JStr (metadata_mac cr dev b)) (ddel ''metadata_mac'' m))"
      by (simp add: sign_metadata_def Inr)
    show ?thesis
      using metadata_mac_text [of cr dev b]
      by (cases "dget m ''metadata_mac''") (auto simp: verify_metadata_def Let_def s g Inr)
  next
    case (Inl e)
    then have "\<exists>x. verify_metadata cr dev m = Inl x" by (simp add: verify_metadata_def sign_metadata_def Let_def)
    with Inl show ?thesis by auto
  qed
qed

lemma signed_verifies:
  assumes "wf_dict m" and "sign_metadata cr dev m = Inr s"
  shows "verify_metadata cr dev s = Inr ()"
proof -
  let ?u = "ddel ''metadata_mac'' m"
  have u: "wf_dict ?u" "''metadata_mac'' \<notin> keys_of ?u"
    using assms(1) by (simp add: wf_ddel) (auto simp: keys_of_def ddel_def)
  from assms(2) obtain b where b: "canonical_json_bytes (JObj ?u) = Inr b"
    "s = dput ''metadata_mac'' (JStr (metadata_mac cr dev b)) ?u" by (auto simp: sign_metadata_Inr)
  have "ddel ''metadata_mac'' s = ?u" by (simp only: b(2) ddel_dput [OF u])
  moreover have "wf_dict s" by (simp add: b(2) wf_dput u)
  ultimately show ?thesis using b u by (auto simp: verify_metadata_Inr dget_dput)
qed

lemma equal_macs_collide:
  assumes "verify_metadata cr dev r = Inr ()" and "wf_json (JObj r)"
    and "verify_metadata cr dev s = Inr ()" and "wf_json (JObj s)"
    and "dget r ''metadata_mac'' = dget s ''metadata_mac''" and "r \<noteq> s"
  shows "\<exists>k x y. x \<noteq> y \<and> hmac_sha256 k x = hmac_sha256 k y"
proof -
  let ?d = "ddel ''metadata_mac''" and ?k = "hkdf cr (dr_key dev) None mac_info"
  have wf: "wf_dict r" "wf_dict s" using assms(2,4) by simp_all
  obtain b where b: "canonical_json_bytes (JObj (?d r)) = Inr b" "dget r ''metadata_mac'' = JStr (metadata_mac cr dev b)"
    using assms(1) by (auto simp: verify_metadata_Inr [OF wf(1)])
  obtain c where c: "canonical_json_bytes (JObj (?d s)) = Inr c" "dget s ''metadata_mac'' = JStr (metadata_mac cr dev c)"
    using assms(3) by (auto simp: verify_metadata_Inr [OF wf(2)])
  have "b \<noteq> c"
  proof
    assume "b = c"
    have wfd: "wf_json (JObj (?d x))" if "wf_json (JObj x)" for x
      using that wf_ddel by (auto simp: ddel_def)
    have "strict_json_loads b = Inr (JObj (?d r))" "strict_json_loads c = Inr (JObj (?d s))"
      using strict_canonical [OF wfd [OF assms(2)] b(1)] strict_canonical [OF wfd [OF assms(4)] c(1)] .
    with \<open>b = c\<close> have e: "?d r = ?d s" by simp
    have "map_of x k = (if k = ''metadata_mac'' then Some (dget x k) else map_of (?d x) k)"
      if "dget x ''metadata_mac'' = JStr t" for x t k
      using that by (auto simp: map_of_ddel dget_def split: option.splits)
    from this [OF b(2)] this [OF c(2)] e assms(5) have "map_of r k = map_of s k" for k by simp
    then have "r = s" using wf by (intro wf_dict_eqI ext)
    with assms(6) show False by simp
  qed
  moreover have "hmac_sha256 ?k b = hmac_sha256 ?k c"
    using b(2) c(2) assms(5) by (simp add: metadata_mac_def) (metis from_hex_hex_of option.inject)
  ultimately show ?thesis by blast
qed

text \<open>
  Two different metadata records that the device accepts carry different authentication codes,
  or they exhibit a collision of HMAC-SHA-256: the code covers every field of the record.
\<close>

theorem metadata_mac_binds:
  assumes "verify_metadata cr dev r = Inr ()" and "wf_json (JObj r)"
    and "verify_metadata cr dev s = Inr ()" and "wf_json (JObj s)" and "r \<noteq> s"
  shows "dget r ''metadata_mac'' \<noteq> dget s ''metadata_mac'' \<or> (\<exists>k x y. x \<noteq> y \<and> hmac_sha256 k x = hmac_sha256 k y)"
  using equal_macs_collide [OF assms(1-4)] assms(5) by blast

lemma signed_wf:
  assumes "wf_json (JObj m)" and "sign_metadata cr dev m = Inr s"
  shows "wf_json (JObj s)"
proof -
  let ?u = "ddel ''metadata_mac'' m"
  from assms(2) obtain b where s: "s = dput ''metadata_mac'' (JStr (metadata_mac cr dev b)) ?u"
    by (auto simp: sign_metadata_Inr)
  have "\<forall>v \<in> snd ` set ?u. wf_json v" using assms(1) by (force simp: ddel_def)
  then have "\<forall>v \<in> snd ` set s. wf_json v"
    using dput_vals [of "''metadata_mac''" "JStr (metadata_mac cr dev b)" ?u] unfolding s [symmetric] by fastforce
  moreover have "wf_dict s" using assms(1) by (simp add: s wf_dput wf_ddel)
  ultimately show ?thesis by force
qed

lemma metadata_mac_binds_witness:
  "\<exists>r s. dget r ''state'' = JStr ''quarantined'' \<and> dget s ''state'' = JStr ''restored''
     \<and> \<not> (dget r ''metadata_mac'' = dget s ''metadata_mac'' \<and> (\<forall>k. inj (hmac_sha256 k)))"
proof -
  let ?r = "mk_dict [(''state'', JStr ''quarantined'')]" and ?s = "mk_dict [(''state'', JStr ''restored'')]"
  have w: "wf_json (JObj ?r)" "wf_json (JObj ?s)" by (simp_all add: wf_json_mk_dict del: wf_json_JObj)
  have dr: "ddel ''metadata_mac'' ?r = ?r" "ddel ''metadata_mac'' ?s = ?s" by code_simp+
  have "ascii_json (JObj ?r)" "ascii_json (JObj ?s)" by code_simp+
  from canonical_ascii [OF this(1)] canonical_ascii [OF this(2)]
  obtain b c where b: "canonical_json_bytes (JObj ?r) = Inr b" "canonical_json_bytes (JObj ?s) = Inr c" by blast
  then obtain r s where rs: "sign_metadata toy ex_device ?r = Inr r" "sign_metadata toy ex_device ?s = Inr s"
    by (simp add: sign_metadata_def dr)
  have g: "dget r ''state'' = JStr ''quarantined''" "dget s ''state'' = JStr ''restored''"
    using rs by (auto simp: sign_metadata_Inr dr dget_dput dget_mk_dict)
  then have "r \<noteq> s" by auto
  from metadata_mac_binds [OF signed_verifies [OF _ rs(1)] signed_wf [OF w(1) rs(1)]
      signed_verifies [OF _ rs(2)] signed_wf [OF w(2) rs(2)] this]
  have "\<not> (dget r ''metadata_mac'' = dget s ''metadata_mac'' \<and> (\<forall>k. inj (hmac_sha256 k)))"
    by (auto simp: inj_def)
  with g show ?thesis by blast
qed

end
