(* ===== verification/Vault_World.thy ===== *)
theory Vault_World
  imports World_Logic
begin

text \<open>
  The further system calls of \<^verbatim>\<open>quarantine.py\<close>: a temporary directory, the renaming and the removal
  of a directory tree, hard links, modification times and reads through symbolic links.  A call
  that fails does nothing; in particular \<^verbatim>\<open>shutil.rmtree\<close> is one call here.
\<close>

definition below :: "path \<Rightarrow> path \<Rightarrow> bool" where
  "below d p = (p = d \<or> prefix (d @ ''/'') p)"

definition empty_dir :: "fs \<Rightarrow> path \<Rightarrow> bool" where
  "empty_dir f d = (\<forall>p. prefix (d @ ''/'') p \<longrightarrow> f_names f p = None)"

definition make_dir :: "path \<Rightarrow> fs \<Rightarrow> unit res \<times> fs" where
  "make_dir p f =
    (if f_names f p \<noteq> None then (Inl (FileExistsError p), f)
     else if \<not> dir_exists f (parent_of p) then (Inl (FileNotFoundError p), f)
     else (Inr (), new_inode f p dir_inode))"

definition sys_mkdtemp :: "path \<Rightarrow> string \<Rightarrow> path io" where
  "sys_mkdtemp d pre w =
    (let p = join_path d (pre @ w_fresh w (w_tick w))
     in io_bind (sys (make_dir p)) (\<lambda>_. io_ret p) w)"

text \<open>The names below \<open>a\<close> move to \<open>b\<close>, which takes the place of whatever was there.\<close>

definition move_tree :: "path \<Rightarrow> path \<Rightarrow> (path \<Rightarrow> nat option) \<Rightarrow> path \<Rightarrow> nat option" where
  "move_tree a b m p =
    (if below b p then m (a @ drop (length b) p) else if below a p then None else m p)"

text \<open>\<^verbatim>\<open>os.rename\<close> of a directory: the new name may be free or an empty directory.\<close>

definition sys_rename_dir :: "path \<Rightarrow> path \<Rightarrow> unit io" where
  "sys_rename_dir a b = sys (\<lambda>f. case f_names f a of None \<Rightarrow> (Inl (FileNotFoundError a), f)
     | Some i \<Rightarrow>
       if i_kind (f_inodes f i) \<noteq> Dir \<or> below a b then (Inl (OSError ''invalid argument''), f)
       else if \<not> dir_exists f (parent_of b) then (Inl (FileNotFoundError b), f)
       else if (case f_names f b of None \<Rightarrow> True
               | Some j \<Rightarrow> i_kind (f_inodes f j) = Dir \<and> empty_dir f b) then
         (Inr (), f\<lparr>f_names := move_tree a b (f_names f)\<rparr>)
       else (Inl (OSError ''directory not empty''), f))"

definition sys_rmtree :: "path \<Rightarrow> unit io" where
  "sys_rmtree d = sys (\<lambda>f. case f_names f d of None \<Rightarrow> (Inl (FileNotFoundError d), f)
     | Some i \<Rightarrow>
       if i_kind (f_inodes f i) \<noteq> Dir then (Inl (OSError ''not a directory''), f)
       else (Inr (), f\<lparr>f_names := \<lambda>p. if below d p then None else f_names f p\<rparr>))"

text \<open>\<^verbatim>\<open>os.link(a, b, follow_symlinks=False)\<close>: a second name, never an overwritten one.\<close>

definition sys_link :: "path \<Rightarrow> path \<Rightarrow> unit io" where
  "sys_link a b = sys (\<lambda>f. case f_names f a of None \<Rightarrow> (Inl (FileNotFoundError a), f)
     | Some i \<Rightarrow>
       if f_names f b \<noteq> None then (Inl (FileExistsError b), f)
       else if \<not> dir_exists f (parent_of b) then (Inl (FileNotFoundError b), f)
       else if i_kind (f_inodes f i) = Dir then (Inl (OSError ''operation not permitted''), f)
       else (Inr (), f\<lparr>f_names := (f_names f)(b \<mapsto> i)\<rparr>))"

text \<open>\<^verbatim>\<open>os.utime\<close> with nanoseconds: the seconds have to fit in 64 bits.\<close>

definition sys_utime :: "path \<Rightarrow> int \<Rightarrow> unit io" where
  "sys_utime p ns =
    (if \<not> (- (2 ^ 63) \<le> ns div 1000000000 \<and> ns div 1000000000 < 2 ^ 63) then
       io_raise (OtherError ''timestamp out of range for platform time_t'')
     else sys (\<lambda>f. case resolve max_links f p of Inl e \<Rightarrow> (Inl e, f)
       | Inr i \<Rightarrow> (Inr (), f\<lparr>f_inodes := (f_inodes f)(i := (f_inodes f i)\<lparr>i_mtime := ns\<rparr>)\<rparr>)))"

text \<open>\<^verbatim>\<open>path.open("rb")\<close> follows symbolic links; \<^verbatim>\<open>path.is_symlink()\<close>; \<^verbatim>\<open>path.lstat()\<close> of a directory,
  where the root directory is the empty path.\<close>

definition sys_open_rb :: "path \<Rightarrow> nat io" where
  "sys_open_rb p = sys (\<lambda>f. (rbind (resolve max_links f p) (\<lambda>i.
      if i_kind (f_inodes f i) = Dir then Inl (OSError ''is a directory'') else Inr i), f))"

definition path_is_symlink :: "path \<Rightarrow> bool io" where
  "path_is_symlink p = io_catch (io_bind (sys_lstat p) (\<lambda>(_, d). io_ret (i_kind d = Lnk)))
     (\<lambda>e. case e of FileNotFoundError _ \<Rightarrow> True | _ \<Rightarrow> False) (\<lambda>_. io_ret False)"

definition sys_lstat_dir :: "path \<Rightarrow> bool io" where
  "sys_lstat_dir p = (if p = [] then io_bind sys_nop (\<lambda>_. io_ret True)
     else io_bind (sys_lstat p) (\<lambda>(_, d). io_ret (i_kind d = Dir)))"

section \<open>A stream from one open file into another\<close>

text \<open>
  The loops that read a file in chunks and write something for every chunk.  \<open>g\<close> maps the bytes
  read so far to the bytes written so far and never takes back what was written; with \<open>dst\<close>
  absent nothing is written.  The fuel bounds the number of reads.
\<close>

fun pump :: "(string \<Rightarrow> string) \<Rightarrow> nat \<Rightarrow> nat \<Rightarrow> nat option \<Rightarrow> string \<Rightarrow> string io" where
  "pump g 0 src dst got = io_raise (OtherError ''the file does not end'')"
| "pump g (Suc n) src dst got =
    io_bind (sys_read src (length got) 1048576) (\<lambda>chunk.
      if chunk = [] then io_ret got
      else io_then (case dst of None \<Rightarrow> io_ret () | Some i \<Rightarrow> sys_write i (drop (length (g got)) (g (got @ chunk))))
                   (pump g n src dst (got @ chunk)))"

end
