(* ===== verification/Quarantine.thy ===== *)
theory Quarantine
  imports Vault_World Crypto_Vault Zba Stream_Match Paths
begin

text \<open>
  \<^verbatim>\<open>src/zsec_shield/quarantine.py\<close> on a POSIX system.  The arguments of the operations include
  what the code draws or measures while it runs: the entry identifier of \<^verbatim>\<open>uuid.uuid4\<close>, the bytes
  of \<^verbatim>\<open>os.urandom\<close>, the formatted times, and a bound on the reads of one file.  Paths are in the
  normal form of \<^verbatim>\<open>pathlib\<close>.
\<close>

section \<open>The source file\<close>

record snapshot =
  sn_device :: nat
  sn_inode :: nat
  sn_size :: nat
  sn_modified_ns :: int
  sn_mode :: nat

definition take_snapshot :: "nat \<times> inode \<Rightarrow> snapshot" where
  "take_snapshot m = \<lparr>sn_device = i_dev (snd m), sn_inode = fst m, sn_size = length (i_data (snd m)),
     sn_modified_ns = i_mtime (snd m), sn_mode = i_mode (snd m)\<rparr>"

definition same_snapshot :: "snapshot \<Rightarrow> snapshot \<Rightarrow> bool" where
  "same_snapshot l r =
    (sn_device l = sn_device r \<and> (sn_inode l = 0 \<or> sn_inode r = 0 \<or> sn_inode l = sn_inode r)
     \<and> sn_size l = sn_size r \<and> sn_modified_ns l = sn_modified_ns r)"

definition inspect_regular_source :: "path \<Rightarrow> snapshot io" where
  "inspect_regular_source source =
    io_bind (io_catch (sys_lstat source) is_os_error
       (\<lambda>e. io_raise (QuarantineError (''cannot inspect source file: '' @ exn_text e)))) (\<lambda>m.
    io_if (i_kind (snd m) \<noteq> Reg) (QuarantineError ''quarantine source must be a regular, non-link file'')
    (io_ret (take_snapshot m)))"

text \<open>The result is the digest of the plaintext and the tag of the ciphertext.\<close>

definition encrypt_regular_source ::
    "crypto \<Rightarrow> nat \<Rightarrow> path \<Rightarrow> path \<Rightarrow> snapshot \<Rightarrow> string \<Rightarrow> string \<Rightarrow> string \<Rightarrow> (string \<times> string) io" where
  "encrypt_regular_source cr fuel source destination expected key nonce aad =
    io_bind (io_catch (sys_open_read source) is_os_error
       (\<lambda>e. io_raise (QuarantineError (''cannot open source file: '' @ exn_text e)))) (\<lambda>descriptor.
    io_bind (io_catch
      (io_bind (sys_fstat descriptor) (\<lambda>opened.
       io_if (i_kind (snd opened) \<noteq> Reg \<or> \<not> same_snapshot expected (take_snapshot opened))
         (QuarantineError ''source file identity changed before quarantine encryption'')
       (io_bind (sys_create destination) (\<lambda>target.
        io_bind (pump (gcm_ctr cr key nonce) fuel descriptor (Some target) []) (\<lambda>plain.
        io_then (sys_write target [])
        (io_then (sys_fsync target)
        (io_bind (sys_fstat descriptor) (\<lambda>after.
         io_bind (if same_snapshot (take_snapshot opened) (take_snapshot after) then stat_size destination
                  else io_raise (QuarantineError ''source file changed during quarantine encryption'')) (\<lambda>stored.
         io_if (stored \<noteq> sn_size (take_snapshot opened))
           (QuarantineError ''source file changed during quarantine encryption'')
           (io_ret plain))))))))))
      (\<lambda>_. True)
      (\<lambda>e. io_then (io_suppress (sys_unlink destination)) (io_raise e))) (\<lambda>plain.
    io_then (io_suppress (sys_chmod destination 384))
    (io_ret (hexdigest plain, gcm_tag cr key nonce aad (gcm_ctr cr key nonce plain)))))"

section \<open>Quarantining a finding\<close>

definition aad_fields :: "string list" where
  "aad_fields = [''schema'', ''id'', ''original_path'', ''sha256'', ''size'', ''original_mode'',
     ''original_modified_ns'', ''created_at'', ''matches'', ''zba'']"

definition aad_projection :: "dict \<Rightarrow> dict" where
  "aad_projection metadata = mk_dict (map (\<lambda>k. (k, dget metadata k)) aad_fields)"

record quarantine_input =
  qi_fuel :: nat
  qi_entry_id :: string
  qi_created_at :: string
  qi_quarantined_at :: string
  qi_device_key :: string
  qi_random :: envelope_random

definition copy_ready_metadata ::
    "string \<Rightarrow> string \<Rightarrow> file_finding \<Rightarrow> snapshot \<Rightarrow> dict res" where
  "copy_ready_metadata entry_id created_at finding snap =
    rbind (create_quarantine_record entry_id (ff_sha256 finding) created_at) (\<lambda>zba.
    Inr (mk_dict
      [(''schema'', JStr ''zero.security.quarantine.v2''), (''id'', JStr entry_id), (''state'', JStr ''copy_ready''),
       (''original_path'', JStr (ff_path finding)), (''sha256'', JStr (ff_sha256 finding)),
       (''size'', JInt (int (sn_size snap))), (''original_mode'', JInt (int (sn_mode snap))),
       (''original_modified_ns'', JInt (sn_modified_ns snap)), (''created_at'', JStr created_at),
       (''quarantined_at'', JNull), (''restore_history'', JList []),
       (''matches'', JList (map (JObj \<circ> match_to_dict) (ff_matches finding))), (''zba'', JObj zba)]))"

definition write_v2_metadata :: "crypto \<Rightarrow> path \<Rightarrow> dict \<Rightarrow> path \<Rightarrow> dict io" where
  "write_v2_metadata cr p metadata state_dir =
    io_bind (load_device_root state_dir False []) (\<lambda>device.
    io_bind (io_lift (sign_metadata cr device metadata)) (\<lambda>signed.
    io_then (atomic_write_json p (JObj signed) 384) (io_ret signed)))"

text \<open>The content, the signed metadata and the renaming that publishes the entry.\<close>

definition store_copy ::
    "crypto \<Rightarrow> nat \<Rightarrow> device_root \<Rightarrow> file_finding \<Rightarrow> snapshot \<Rightarrow> path \<Rightarrow> path \<Rightarrow> dict \<Rightarrow> string
       \<Rightarrow> vault_envelope \<Rightarrow> string \<Rightarrow> dict io" where
  "store_copy cr fuel device finding snap temporary final metadata aad envelope content_key =
    io_catch
      (io_then (io_suppress (sys_chmod temporary 448))
      (io_bind (encrypt_regular_source cr fuel (ff_path finding) (join_path temporary ''content.zsv2'') snap
          content_key (ve_content_nonce envelope) aad) (\<lambda>(digest, content_tag).
       io_if (digest \<noteq> ff_sha256 finding) (QuarantineError ''source no longer matches the verified scan finding'')
       (io_bind (io_lift (sign_metadata cr device
          (dput ''content_tag'' (JStr (b64encode content_tag))
            (dput ''vault'' (JObj (envelope_to_dict envelope (dr_protection device))) metadata)))) (\<lambda>signed.
        io_then (atomic_write_json (join_path temporary ''metadata.json'') (JObj signed) 384)
        (io_then (sys_rename_dir temporary final) (io_ret signed)))))))
      (\<lambda>_. True)
      (\<lambda>e. io_then (io_suppress (sys_rmtree temporary)) (io_raise e))"

fun is_partial_error :: "exn \<Rightarrow> bool" where
  "is_partial_error (QuarantinePartialError _ _) = True"
| "is_partial_error _ = False"

text \<open>The removal of the original, after the recovery copy was published.\<close>

definition remove_source :: "crypto \<Rightarrow> path \<Rightarrow> path \<Rightarrow> snapshot \<Rightarrow> string \<Rightarrow> path \<Rightarrow> dict \<Rightarrow> unit io" where
  "remove_source cr state_dir source snap entry_id final metadata =
    io_catch
      (io_bind (sys_lstat source) (\<lambda>m.
       io_if (\<not> same_snapshot snap (take_snapshot m))
         (QuarantinePartialError ''authenticated recovery copy created, but source changed before removal'' entry_id)
       (sys_unlink source)))
      (\<lambda>e. is_partial_error e \<or> is_os_error e)
      (\<lambda>e. io_then (write_v2_metadata cr (join_path final ''metadata.json'')
                      (dput ''state'' (JStr ''copy_only'') metadata) state_dir)
         (io_raise (if is_partial_error e then e
            else QuarantinePartialError
              (''authenticated recovery copy created, but original could not be removed: '' @ exn_text e) entry_id)))"

definition quarantine_finding :: "crypto \<Rightarrow> quarantine_input \<Rightarrow> file_finding \<Rightarrow> path \<Rightarrow> dict io" where
  "quarantine_finding cr inp finding state_dir =
    (let source = ff_path finding; entries = quarantine_entries_dir state_dir; entry_id = qi_entry_id inp;
         final = join_path entries entry_id in
     io_if (\<not> starts_with source ''/'') (QuarantineError ''quarantine requires an absolute source path'')
     (io_bind (inspect_regular_source source) (\<lambda>snap.
      io_if (sn_size snap \<noteq> ff_size finding) (QuarantineError ''source no longer matches the verified scan finding'')
      (io_then (sys_mkdirs entries)
      (io_then (io_suppress (sys_chmod entries 448))
      (io_bind (sys_mkdtemp entries (''.'' @ entry_id @ ''.'')) (\<lambda>temporary.
       io_bind (load_device_root state_dir True (qi_device_key inp)) (\<lambda>device.
       io_bind (io_lift (copy_ready_metadata entry_id (qi_created_at inp) finding snap)) (\<lambda>metadata.
       io_bind (io_lift (canonical_json_bytes (JObj (aad_projection metadata)))) (\<lambda>aad.
       let (envelope, content_key) = create_envelope cr device entry_id aad (qi_random inp) in
       io_bind (store_copy cr (qi_fuel inp) device finding snap temporary final metadata aad envelope content_key) (\<lambda>signed.
       io_then (remove_source cr state_dir source snap entry_id final signed)
         (write_v2_metadata cr (join_path final ''metadata.json'')
           (dput ''quarantined_at'' (JStr (qi_quarantined_at inp)) (dput ''state'' (JStr ''quarantined'') signed))
           state_dir))))))))))))"

end
