(* ===== verification/Pytext.thy ===== *)
theory Pytext
  imports Pystr
begin

text \<open>
  Further operations on texts: white space, \<^verbatim>\<open>split\<close>, \<^verbatim>\<open>partition\<close> and \<^verbatim>\<open>int\<close>.  Digits and letters
  outside ASCII are no digits and have no other case here.
\<close>

section \<open>\<^verbatim>\<open>int(text, base)\<close>\<close>

definition is_py_space :: "char \<Rightarrow> bool" where
  "is_py_space c = (9 \<le> ord c \<and> ord c \<le> 13 \<or> 28 \<le> ord c \<and> ord c \<le> 32)"

definition strip_chars :: "(char \<Rightarrow> bool) \<Rightarrow> string \<Rightarrow> string" where
  "strip_chars p s = rev (dropWhile p (rev (dropWhile p s)))"

definition digits_value :: "nat \<Rightarrow> string \<Rightarrow> nat option" where
  "digits_value base s =
    (let groups = split_on (CHR ''_'') s in
     if list_ex (\<lambda>g. g = []) groups
        \<or> list_ex (\<lambda>c. case hex_val c of None \<Rightarrow> True | Some v \<Rightarrow> base \<le> v) (concat groups)
        \<or> (base = 10 \<and> 4300 < length (concat groups)) then None
     else Some (foldl (\<lambda>n c. n * base + the (hex_val c)) 0 (concat groups)))"

definition int_of_text :: "nat \<Rightarrow> string \<Rightarrow> int option" where
  "int_of_text base s =
    (let t = strip_chars is_py_space s;
         neg = prefix ''-'' t;
         u = (if neg \<or> prefix ''+'' t then tl t else t);
         v = (if base = 16 \<and> (prefix ''0x'' u \<or> prefix ''0X'' u) then
                (if prefix ''_'' (drop 2 u) then drop 3 u else drop 2 u) else u)
     in map_option (\<lambda>n. if neg then - int n else int n) (digits_value base v))"

section \<open>White space and words\<close>

text \<open>The number of bytes of the white space character at the head of a text, or 0.\<close>

definition space_length :: "string \<Rightarrow> nat" where
  "space_length s =
    (case map ord s of
       [] \<Rightarrow> 0
     | a # r \<Rightarrow>
       if is_py_space (hd s) then 1
       else if a = 194 then (if r \<noteq> [] \<and> hd r \<in> {133, 160} then 2 else 0)
       else if (a = 225 \<and> take 2 r = [154, 128]) \<or> (a = 226 \<and> take 2 r = [129, 159]) \<or> (a = 227 \<and> take 2 r = [128, 128]) then 3
       else if a = 226 \<and> 2 \<le> length r \<and> r ! 0 = 128 \<and> (128 \<le> r ! 1 \<and> r ! 1 \<le> 138 \<or> r ! 1 \<in> {168, 169, 175}) then 3
       else 0)"

fun take_word :: "string \<Rightarrow> string \<times> string" where
  "take_word [] = ([], [])"
| "take_word (c # cs) = (if 0 < space_length (c # cs) then ([], c # cs)
     else let (w, r) = take_word cs in (c # w, r))"

lemma take_word_rest: "length (snd (take_word s)) \<le> length s"
  by (induction s) (auto split: prod.splits)

text \<open>\<^verbatim>\<open>s.split()\<close>.\<close>

function py_words :: "string \<Rightarrow> string list" where
  "py_words s =
    (if s = [] then []
     else if 0 < space_length s then py_words (drop (space_length s) s)
     else fst (take_word s) # py_words (snd (take_word s)))"
  by pat_completeness auto
termination
proof (relation "measure length", simp, simp, goal_cases)
  case (1 s)
  then show ?case using take_word_rest [of "tl s"] by (cases s) (auto split: prod.splits)
qed

declare py_words.simps [simp del]

section \<open>Cutting texts\<close>

text \<open>\<^verbatim>\<open>s.partition(c)\<close> without the separator, and whether it was found.\<close>

definition cut :: "char \<Rightarrow> string \<Rightarrow> string \<times> bool \<times> string" where
  "cut c s = (takeWhile (\<lambda>x. x \<noteq> c) s, c \<in> set s, drop 1 (dropWhile (\<lambda>x. x \<noteq> c) s))"

text \<open>\<^verbatim>\<open>s.rpartition(c)\<close>: the part before and the part after the last occurrence.\<close>

definition rcut :: "char \<Rightarrow> string \<Rightarrow> string \<times> bool \<times> string" where
  "rcut c s =
    (if c \<in> set s then (rev (drop 1 (dropWhile (\<lambda>x. x \<noteq> c) (rev s))), True, rev (takeWhile (\<lambda>x. x \<noteq> c) (rev s)))
     else ([], False, s))"

definition is_letter :: "char \<Rightarrow> bool" where
  "is_letter c = (65 \<le> ord c \<and> ord c \<le> 90 \<or> 97 \<le> ord c \<and> ord c \<le> 122)"

lemma cut_fst: "c \<notin> set (fst (cut c s))"
  by (auto simp: cut_def dest: set_takeWhileD)

lemma cut_none: "c \<notin> set s \<Longrightarrow> cut c s = (s, False, [])"
proof -
  assume "c \<notin> set s"
  then have "\<forall>x \<in> set s. x \<noteq> c" by auto
  then have e: "takeWhile (\<lambda>x. x \<noteq> c) s = s" "dropWhile (\<lambda>x. x \<noteq> c) s = []" by simp_all
  from \<open>c \<notin> set s\<close> show ?thesis unfolding cut_def e by simp
qed

lemma rcut_none: "c \<notin> set s \<Longrightarrow> rcut c s = ([], False, s)"
  by (simp add: rcut_def)

end
