(* ===== verification/Quarantine_Restore.thy ===== *)
theory Quarantine_Restore
  imports Quarantine Pytext
begin

text \<open>
  The second half of \<^verbatim>\<open>src/zsec_shield/quarantine.py\<close>: the checks on an entry, the listing of the
  quarantine and the restoration, for both formats of an entry.
\<close>

section \<open>\<^verbatim>\<open>uuid.UUID\<close>\<close>

text \<open>\<open>s.replace(x, "")\<close> for a text \<open>x\<close> that is not empty.\<close>

function remove_all :: "string \<Rightarrow> string \<Rightarrow> string" where
  "remove_all x s = (if s = [] then [] else if x \<noteq> [] \<and> prefix x s then remove_all x (drop (length x) s)
     else hd s # remove_all x (tl s))"
  by pat_completeness auto
termination by (relation "measure (\<lambda>(x, s). length s)") auto

declare remove_all.simps [simp del]

definition uuid_of_text :: "string \<Rightarrow> nat option" where
  "uuid_of_text s =
    (let t = remove_all ''-'' (strip_chars (\<lambda>c. c = CHR ''{'' \<or> c = CHR ''}'')
           (remove_all ''uuid:'' (remove_all ''urn:'' s))) in
     if py_len t \<noteq> 32 then None
     else case int_of_text 16 t of None \<Rightarrow> None
       | Some i \<Rightarrow> if 0 \<le> i \<and> i < 2 ^ 128 then Some (nat i) else None)"

definition uuid_str :: "nat \<Rightarrow> string" where
  "uuid_str n =
    (let h = map (\<lambda>i. hex_digit (n div 16 ^ (31 - i) mod 16)) [0..<32]
     in take 8 h @ ''-'' @ take 4 (drop 8 h) @ ''-'' @ take 4 (drop 12 h) @ ''-'' @ take 4 (drop 16 h)
        @ ''-'' @ drop 20 h)"

definition validate_entry_id :: "string \<Rightarrow> string res" where
  "validate_entry_id entry_id =
    (case uuid_of_text entry_id of
       None \<Rightarrow> Inl (QuarantineError ''quarantine entry ID must be a UUID'')
     | Some n \<Rightarrow>
       if uuid_str n \<noteq> lower entry_id then
         Inl (QuarantineError ''quarantine entry ID must use canonical UUID form'')
       else Inr (uuid_str n))"

section \<open>Reading an entry\<close>

definition valid_sha256 :: "string \<Rightarrow> bool" where
  "valid_sha256 v = (py_len v = 64 \<and> v = lower v \<and> from_hex v \<noteq> None)"

definition decode_content_tag :: "json \<Rightarrow> string res" where
  "decode_content_tag v =
    (if \<not> is_str v then Inl (QuarantineError ''vault content tag must be base64 text'')
     else case b64decode_strict (str_of v) of
         None \<Rightarrow> Inl (QuarantineError ''vault content tag is invalid base64'')
       | Some tag \<Rightarrow>
         if length tag \<noteq> 16 then Inl (QuarantineError ''vault content tag length is invalid'') else Inr tag)"

definition common_fields :: "string list" where
  "common_fields = [''schema'', ''id'', ''state'', ''original_path'', ''sha256'', ''size'', ''original_mode'',
     ''original_modified_ns'', ''created_at'', ''quarantined_at'', ''restore_history'', ''matches'']"

definition is_v2 :: "dict \<Rightarrow> bool" where
  "is_v2 d = (dget d ''schema'' = JStr ''zero.security.quarantine.v2'')"

definition sealed_fields :: "string list" where
  "sealed_fields = [''zba'', ''vault'', ''content_tag'', ''metadata_mac'']"

definition entry_fields :: "dict \<Rightarrow> string list" where
  "entry_fields d = common_fields @ (if is_v2 d then sealed_fields else [])"

definition entry_states :: "string list" where
  "entry_states = [''copy_ready'', ''copy_only'', ''quarantined'', ''restored'']"

text \<open>A Boolean is an integer in Python.\<close>

definition is_py_int :: "json \<Rightarrow> bool" where
  "is_py_int v = (case v of JInt _ \<Rightarrow> True | JBool _ \<Rightarrow> True | _ \<Rightarrow> False)"

definition check_common :: "json \<Rightarrow> string \<Rightarrow> dict res" where
  "check_common v name =
    (let d = obj_of v in
     if \<not> is_obj v then Inl (QuarantineError ''quarantine metadata must be an object'')
     else if dget d ''schema'' \<noteq> JStr ''zsec.shield.quarantine.v1'' \<and> \<not> is_v2 d then
       Inl (QuarantineError ''unsupported quarantine metadata schema'')
     else if keys_of d \<noteq> set (entry_fields d) \<or> dget d ''id'' \<noteq> JStr name then
       Inl (QuarantineError ''quarantine metadata fields or identity are invalid'')
     else if \<not> is_str (dget d ''sha256'') \<or> \<not> valid_sha256 (str_of (dget d ''sha256'')) then
       Inl (QuarantineError ''quarantine metadata digest is invalid'')
     else if \<not> is_py_int (dget d ''size'') \<or> (case dget d ''size'' of JInt n \<Rightarrow> n < 0 | _ \<Rightarrow> False) then
       Inl (QuarantineError ''quarantine metadata size is invalid'')
     else rbind (in_set (dget d ''state'') entry_states) (\<lambda>ok.
       if \<not> ok then Inl (QuarantineError ''quarantine state is invalid'')
       else if \<not> is_list (dget d ''restore_history'') \<or> \<not> is_list (dget d ''matches'') then
         Inl (QuarantineError ''quarantine metadata lists are invalid'')
       else Inr d))"

definition check_sealed :: "crypto \<Rightarrow> device_root \<Rightarrow> dict \<Rightarrow> string \<Rightarrow> unit res" where
  "check_sealed cr device d name =
    rbind (verify_metadata cr device d) (\<lambda>_.
    rbind (envelope_from_dict (dget d ''vault'')) (\<lambda>_.
    if dget (obj_of (dget d ''vault'')) ''device_key_protection'' \<noteq> JStr (dr_protection device) then
      Inl (QuarantineError ''vault device-key protection record is inconsistent'')
    else
    rbind (decode_content_tag (dget d ''content_tag'')) (\<lambda>_.
    rbind (validate_quarantine_record (dget d ''zba'') name (str_of (dget d ''sha256''))) (\<lambda>_.
    rbind (canonical_json_bytes (JObj (aad_projection d))) (\<lambda>_. Inr ())))))"

definition read_metadata_file :: "path \<Rightarrow> json io" where
  "read_metadata_file p =
    io_catch
      (io_bind (stat_size p) (\<lambda>n.
       io_if (256 * 1024 < n) (QuarantineError ''quarantine metadata is unexpectedly large'')
       (io_bind (sys_read_bytes p) (\<lambda>raw. io_lift (strict_json_loads raw)))))
      feed_or_os
      (\<lambda>e. io_raise (QuarantineError ((if is_feed_error e then ''invalid quarantine metadata: ''
              else ''cannot read quarantine metadata: '') @ exn_text e)))"

definition read_metadata :: "crypto \<Rightarrow> path \<Rightarrow> string \<Rightarrow> path \<Rightarrow> dict io" where
  "read_metadata cr entry name state_dir =
    io_bind (read_metadata_file (join_path entry ''metadata.json'')) (\<lambda>v.
    io_bind (io_lift (check_common v name)) (\<lambda>d.
    if is_v2 d then
      io_bind (load_device_root state_dir False []) (\<lambda>device.
      io_bind (io_lift (check_sealed cr device d name)) (\<lambda>_. io_ret d))
    else io_ret d))"

section \<open>The listing\<close>

definition entry_summary :: "dict \<Rightarrow> dict" where
  "entry_summary d = mk_dict
    (map (\<lambda>k. (k, dget d k)) [''id'', ''state'', ''original_path'', ''sha256'', ''size'', ''created_at'',
       ''quarantined_at'', ''matches'']
     @ [(''restore_count'', JInt (int (length (list_of (dget d ''restore_history''))))),
        (''encrypted'', JBool (is_v2 d))])"

fun list_candidates :: "crypto \<Rightarrow> path \<Rightarrow> path \<Rightarrow> string list \<Rightarrow> (dict list \<times> (string \<times> string) list) io" where
  "list_candidates cr entries_dir state_dir [] = io_ret ([], [])"
| "list_candidates cr entries_dir state_dir (name # names) =
    (if starts_with name ''.'' then list_candidates cr entries_dir state_dir names
     else io_bind
       (io_catch
         (io_bind (io_lift (validate_entry_id name)) (\<lambda>_.
          io_bind (read_metadata cr (join_path entries_dir name) name state_dir) (\<lambda>d.
          io_ret ([entry_summary d], []))))
         is_quarantine_error (\<lambda>e. io_ret ([], [(name, exn_text e)])))
       (\<lambda>(rs, es). io_bind (list_candidates cr entries_dir state_dir names) (\<lambda>(rs', es').
          io_ret (rs @ rs', es @ es'))))"

text \<open>\<open>listing\<close> is what \<^verbatim>\<open>iterdir\<close> gives: the names in the directory, or its exception.\<close>

definition list_entries :: "crypto \<Rightarrow> string list res \<Rightarrow> path \<Rightarrow> (dict list \<times> (string \<times> string) list) io" where
  "list_entries cr listing state_dir =
    io_bind (path_exists (quarantine_entries_dir state_dir)) (\<lambda>there.
    if \<not> there then io_ret ([], [])
    else io_bind (io_catch (io_lift listing) is_os_error
           (\<lambda>e. io_raise (QuarantineError (''cannot list quarantine: '' @ exn_text e)))) (\<lambda>names.
      list_candidates cr (quarantine_entries_dir state_dir) state_dir (sort names)))"

section \<open>The content\<close>

definition validate_regular_content :: "path \<Rightarrow> (nat \<times> inode) io" where
  "validate_regular_content p =
    io_bind (io_catch (sys_lstat p) is_os_error
       (\<lambda>e. io_raise (QuarantineError (''cannot inspect quarantine content: '' @ exn_text e)))) (\<lambda>m.
    io_if (i_kind (snd m) \<noteq> Reg) (QuarantineError ''quarantine content is not a regular, non-link file'')
    (io_ret m))"

definition hash_regular_file :: "nat \<Rightarrow> path \<Rightarrow> (string \<times> nat) io" where
  "hash_regular_file fuel p =
    io_bind (validate_regular_content p) (\<lambda>_.
    io_catch
      (io_bind (sys_open_rb p) (\<lambda>i. io_bind (pump id fuel i None []) (\<lambda>b. io_ret (hexdigest b, length b))))
      is_os_error (\<lambda>e. io_raise (QuarantineError (''cannot verify quarantine content: '' @ exn_text e))))"

definition copy_legacy_content :: "nat \<Rightarrow> path \<Rightarrow> nat \<Rightarrow> (string \<times> nat) io" where
  "copy_legacy_content fuel content output =
    io_bind (hash_regular_file fuel content) (\<lambda>(expected_digest, expected_size).
    io_bind (io_catch
      (io_bind (sys_open_rb content) (\<lambda>i. pump id fuel i (Some output) []))
      is_os_error (\<lambda>e. io_raise (QuarantineError (''cannot restore legacy quarantine content: '' @ exn_text e)))) (\<lambda>b.
    io_if (hexdigest b \<noteq> expected_digest \<or> length b \<noteq> expected_size)
      (QuarantineError ''legacy restore copy verification failed'')
      (io_ret (expected_digest, expected_size))))"

definition decrypt_content :: "crypto \<Rightarrow> nat \<Rightarrow> path \<Rightarrow> nat \<Rightarrow> dict \<Rightarrow> path \<Rightarrow> (string \<times> nat) io" where
  "decrypt_content cr fuel content output metadata state_dir =
    io_bind (validate_regular_content content) (\<lambda>m.
    io_if (\<not> py_eq (dget metadata ''size'') (JInt (int (length (i_data (snd m))))))
      (QuarantineError ''encrypted quarantine content size is invalid'')
    (io_bind (load_device_root state_dir False []) (\<lambda>device.
     io_bind (io_lift (envelope_from_dict (dget metadata ''vault''))) (\<lambda>envelope.
     io_bind (io_lift (canonical_json_bytes (JObj (aad_projection metadata)))) (\<lambda>aad.
     io_bind (io_lift (unwrap_content_key cr device (str_of (dget metadata ''id'')) envelope aad)) (\<lambda>key.
     io_bind (io_lift (decode_content_tag (dget metadata ''content_tag''))) (\<lambda>tag.
     let decrypt = gcm_ctr cr key (ve_content_nonce envelope) in
     io_catch
       (io_bind (sys_open_rb content) (\<lambda>source.
        io_bind (pump decrypt fuel source (Some output) []) (\<lambda>ciphertext.
        io_if (tag \<noteq> gcm_tag cr key (ve_content_nonce envelope) aad ciphertext)
          (QuarantineError ''encrypted quarantine content authentication failed'')
        (io_then (sys_write output [])
          (io_ret (hexdigest (decrypt ciphertext), length (decrypt ciphertext)))))))
       is_os_error
       (\<lambda>e. io_raise (QuarantineError (''cannot decrypt quarantine content: '' @ exn_text e))))))))))"

section \<open>Restoring\<close>

text \<open>\<open>int(value)\<close>; \<open>whole\<close> is the integer part of a binary floating point number, given by its text.\<close>

definition int_value :: "(string \<Rightarrow> int res) \<Rightarrow> json \<Rightarrow> int res" where
  "int_value whole v =
    (case v of JInt i \<Rightarrow> Inr i | JBool b \<Rightarrow> Inr (if b then 1 else 0) | JFloat t \<Rightarrow> whole t
     | JStr s \<Rightarrow> (case int_of_text 10 s of None \<Rightarrow> Inl (ValueError ''invalid literal for int()'') | Some i \<Rightarrow> Inr i)
     | _ \<Rightarrow> Inl (OtherError ''int() argument must be a string, a bytes-like object or a real number''))"

record restore_input =
  ri_fuel :: nat
  ri_restored_at :: string
  ri_absolute :: "string \<Rightarrow> path"
  ri_whole :: "string \<Rightarrow> int res"

definition restore_target :: "restore_input \<Rightarrow> dict \<Rightarrow> path option \<Rightarrow> path res" where
  "restore_target inp metadata destination =
    (case destination of Some p \<Rightarrow> Inr (ri_absolute inp p)
     | None \<Rightarrow>
       if is_str (dget metadata ''original_path'') then Inr (ri_absolute inp (str_of (dget metadata ''original_path'')))
       else Inl (OtherError ''expected str, bytes or os.PathLike object''))"

definition check_target :: "path \<Rightarrow> unit io" where
  "check_target target =
    io_bind (path_exists target) (\<lambda>there.
    io_bind (if there then io_ret True else path_is_symlink target) (\<lambda>taken.
    io_if taken (QuarantineError (''restore destination already exists: '' @ target))
    (io_bind (io_catch (sys_lstat_dir (parent_of target)) is_os_error
        (\<lambda>e. io_raise (QuarantineError (''restore parent is unavailable: '' @ exn_text e)))) (\<lambda>dir.
     io_if (\<not> dir) (QuarantineError ''restore parent must be an existing, non-reparse directory'')
     (io_ret ())))))"

definition publish_restored :: "restore_input \<Rightarrow> dict \<Rightarrow> path \<Rightarrow> path \<Rightarrow> unit io" where
  "publish_restored inp metadata temporary target =
    io_bind (io_lift (int_value (ri_whole inp) (dget metadata ''original_mode''))) (\<lambda>mode.
    io_then (io_suppress (sys_chmod temporary (nat (mode mod 512))))
    (io_then (io_catch (sys_link temporary target) is_os_error
        (\<lambda>e. io_raise (QuarantineError (case e of
            FileExistsError _ \<Rightarrow> ''restore destination appeared during restore: '' @ target
          | _ \<Rightarrow> ''filesystem does not support the required no-overwrite restore operation''))))
    (io_then (sys_unlink temporary)
    (io_bind (io_lift (int_value (ri_whole inp) (dget metadata ''original_modified_ns''))) (\<lambda>ns.
     io_suppress (sys_utime target ns))))))"

definition restore_content ::
    "crypto \<Rightarrow> restore_input \<Rightarrow> path \<Rightarrow> dict \<Rightarrow> path \<Rightarrow> path \<Rightarrow> (string \<times> nat) io" where
  "restore_content cr inp entry metadata state_dir target =
    io_bind (sys_mkstemp (parent_of target) ''.zero-security-restore.'') (\<lambda>(output, temporary).
    io_catch
      (io_bind (if is_v2 metadata then
          decrypt_content cr (ri_fuel inp) (join_path entry ''content.zsv2'') output metadata state_dir
        else copy_legacy_content (ri_fuel inp) (join_path entry ''content.bin'') output) (\<lambda>(digest, n).
       io_then (sys_fsync output)
       (io_if (JStr digest \<noteq> dget metadata ''sha256'' \<or> \<not> py_eq (dget metadata ''size'') (JInt (int n)))
         (QuarantineError ''quarantine content failed its SHA-256 or size check'')
       (io_then (publish_restored inp metadata temporary target) (io_ret (digest, n))))))
      (\<lambda>_. True)
      (\<lambda>e. io_then (io_suppress (sys_unlink temporary)) (io_raise e)))"

definition restored_metadata :: "string \<Rightarrow> path \<Rightarrow> dict \<Rightarrow> dict" where
  "restored_metadata restored_at target metadata =
    (let entry = JObj (mk_dict [(''restored_at'', JStr restored_at), (''destination'', JStr target)]);
         history = list_of (dget metadata ''restore_history'') @ [entry]
     in dput ''restore_history'' (JList (last_n 100 history)) (dput ''state'' (JStr ''restored'') metadata))"

definition restore_entry ::
    "crypto \<Rightarrow> restore_input \<Rightarrow> string \<Rightarrow> path \<Rightarrow> path option \<Rightarrow> dict io" where
  "restore_entry cr inp entry_id state_dir destination =
    io_bind (io_lift (validate_entry_id entry_id)) (\<lambda>normalized.
    let entry = join_path (quarantine_entries_dir state_dir) normalized in
    io_bind (read_metadata cr entry normalized state_dir) (\<lambda>metadata.
    io_bind (io_lift (restore_target inp metadata destination)) (\<lambda>target.
    io_then (check_target target)
    (io_bind (restore_content cr inp entry metadata state_dir target) (\<lambda>(digest, n).
     let updated = restored_metadata (ri_restored_at inp) target metadata in
     io_then (if is_v2 metadata then
         io_bind (write_v2_metadata cr (join_path entry ''metadata.json'') updated state_dir) (\<lambda>_. io_ret ())
       else atomic_write_json (join_path entry ''metadata.json'') (JObj updated) 384)
     (io_ret (mk_dict [(''id'', JStr normalized), (''state'', JStr ''restored''), (''destination'', JStr target),
        (''sha256'', JStr digest), (''size'', JInt (int n)), (''recovery_copy_retained'', JBool True),
        (''encrypted'', JBool (is_v2 metadata))])))))))"

end
