(* ===== verification/Vault_Entry.thy ===== *)
theory Vault_Entry
  imports Quarantine_Restore Crypto_Vault_Proofs
begin

text \<open>
  What makes an entry of the quarantine good, as a predicate on its metadata and its content: the
  checks of \<open>read_metadata\<close> accept the record and the content opens to the original bytes.  The
  metadata that \<open>quarantine_finding\<close> writes is good, and stays good when its state changes.
\<close>

section \<open>The checks\<close>

lemma check_common_Inr:
  "check_common v name = Inr d \<longleftrightarrow> v = JObj d
    \<and> (dget d ''schema'' = JStr ''zsec.shield.quarantine.v1'' \<or> is_v2 d)
    \<and> keys_of d = set (entry_fields d)
    \<and> dget d ''id'' = JStr name
    \<and> (\<exists>h. dget d ''sha256'' = JStr h \<and> valid_sha256 h)
    \<and> is_py_int (dget d ''size'') \<and> (\<forall>n. dget d ''size'' = JInt n \<longrightarrow> 0 \<le> n)
    \<and> dget d ''state'' \<in> JStr ` set entry_states
    \<and> is_list (dget d ''restore_history'') \<and> is_list (dget d ''matches'')"
  (is "_ = ?R")
proof -
  have st: "in_set x entry_states = Inr True \<longleftrightarrow> x \<in> JStr ` set entry_states" for x
    by (cases x) (auto simp: in_set_def unhashable_def)
  have str: "is_str x \<and> valid_sha256 (str_of x) \<longleftrightarrow> (\<exists>h. x = JStr h \<and> valid_sha256 h)" for x by (cases x) auto
  have neg: "(case x of JInt n \<Rightarrow> n < 0 | _ \<Rightarrow> False) \<longleftrightarrow> \<not> (\<forall>n. x = JInt n \<longrightarrow> 0 \<le> n)" for x
    by (cases x) auto
  have obj: "is_obj v \<Longrightarrow> v = JObj (obj_of v)" by (cases v) auto
  show ?thesis
  proof (cases "is_obj v")
    case True
    then obtain e where v: "v = JObj e" using obj by blast
    show ?thesis
      unfolding v check_common_def Let_def neg rbind_Inr_iff if_Inr_iff is_obj.simps obj_of.simps
      using st [of "dget e ''state''"] str [of "dget e ''sha256''"] by auto
  qed (auto simp: check_common_def)
qed

lemma check_sealed_Inr:
  "check_sealed cr dev d name = Inr u \<longleftrightarrow> verify_metadata cr dev d = Inr ()
    \<and> (\<exists>e. envelope_from_dict (dget d ''vault'') = Inr e)
    \<and> dget (obj_of (dget d ''vault'')) ''device_key_protection'' = JStr (dr_protection dev)
    \<and> (\<exists>t. decode_content_tag (dget d ''content_tag'') = Inr t)
    \<and> (\<exists>z. validate_quarantine_record (dget d ''zba'') name (str_of (dget d ''sha256'')) = Inr z)
    \<and> (\<exists>b. canonical_json_bytes (JObj (aad_projection d)) = Inr b)"
  by (auto simp: check_sealed_def rbind_Inr_iff if_Inr_iff)

definition open_sealed :: "crypto \<Rightarrow> device_root \<Rightarrow> dict \<Rightarrow> string \<Rightarrow> string res" where
  "open_sealed cr dev m c =
    rbind (envelope_from_dict (dget m ''vault'')) (\<lambda>e.
    rbind (canonical_json_bytes (JObj (aad_projection m))) (\<lambda>aad.
    rbind (unwrap_content_key cr dev (str_of (dget m ''id'')) e aad) (\<lambda>key.
    rbind (decode_content_tag (dget m ''content_tag'')) (\<lambda>tag.
    if tag \<noteq> gcm_tag cr key (ve_content_nonce e) aad c then
      Inl (QuarantineError ''encrypted quarantine content authentication failed'')
    else Inr (gcm_ctr cr key (ve_content_nonce e) c)))))"

definition good_entry :: "crypto \<Rightarrow> device_root \<Rightarrow> string \<Rightarrow> dict \<Rightarrow> string \<Rightarrow> string \<Rightarrow> bool" where
  "good_entry cr dev eid m c b =
    (wf_json (JObj m) \<and> is_v2 m \<and> check_common (JObj m) eid = Inr m \<and> check_sealed cr dev m eid = Inr ()
     \<and> open_sealed cr dev m c = Inr b \<and> dget m ''sha256'' = JStr (hexdigest b)
     \<and> dget m ''size'' = JInt (int (length b)))"

section \<open>A record that changes its state\<close>

definition free_fields :: "string list" where
  "free_fields = [''state'', ''quarantined_at'', ''restore_history'', ''metadata_mac'']"

definition same_sealed :: "dict \<Rightarrow> dict \<Rightarrow> bool" where
  "same_sealed m m' = (\<forall>k. k \<notin> set free_fields \<longrightarrow> dget m' k = dget m k)"

lemma same_sealed_get:
  assumes "same_sealed m m'"
  shows "dget m' ''schema'' = dget m ''schema''" "dget m' ''id'' = dget m ''id''"
    "dget m' ''sha256'' = dget m ''sha256''" "dget m' ''size'' = dget m ''size''"
    "dget m' ''matches'' = dget m ''matches''" "dget m' ''zba'' = dget m ''zba''"
    "dget m' ''vault'' = dget m ''vault''" "dget m' ''content_tag'' = dget m ''content_tag''"
  using assms by (simp_all add: same_sealed_def free_fields_def)

lemma aad_same: "same_sealed m m' \<Longrightarrow> aad_projection m' = aad_projection m"
  by (simp add: same_sealed_def aad_projection_def aad_fields_def free_fields_def)

lemma entry_states_mem:
  "JStr ''copy_ready'' \<in> JStr ` set entry_states" "JStr ''copy_only'' \<in> JStr ` set entry_states"
  "JStr ''quarantined'' \<in> JStr ` set entry_states" "JStr ''restored'' \<in> JStr ` set entry_states"
  by (simp_all add: entry_states_def)

lemma common_fields_mem:
  "''state'' \<in> set common_fields" "''quarantined_at'' \<in> set common_fields" "''restore_history'' \<in> set common_fields"
  by (simp_all add: common_fields_def)

lemma good_entry_resealed:
  assumes "good_entry cr dev eid m c b" and "same_sealed m m'" and "keys_of m' = keys_of m"
    and "wf_json (JObj m')" and "verify_metadata cr dev m' = Inr ()"
    and "dget m' ''state'' \<in> JStr ` set entry_states"
    and "is_list (dget m' ''restore_history'')"
  shows "good_entry cr dev eid m' c b"
proof -
  note s = same_sealed_get [OF assms(2)]
  have v2: "is_v2 m' = is_v2 m" by (simp only: is_v2_def s)
  have f: "entry_fields m' = entry_fields m" by (simp only: entry_fields_def v2)
  have c: "check_common (JObj m) eid = Inr m" "check_sealed cr dev m eid = Inr ()"
    using assms(1) by (simp_all only: good_entry_def)
  have "check_common (JObj m') eid = Inr m'"
    using c(1) assms(3,6,7) unfolding check_common_Inr s v2 f by simp
  moreover have "check_sealed cr dev m' eid = Inr ()"
    using c(2) assms(5) unfolding check_sealed_Inr s aad_same [OF assms(2)] by simp
  moreover have "open_sealed cr dev m' c = open_sealed cr dev m c"
    unfolding open_sealed_def s aad_same [OF assms(2)] ..
  ultimately show ?thesis using assms(1,4) unfolding good_entry_def s v2 by simp
qed

lemma keys_dput_dict: "keys_of (dput k v d) = insert k (keys_of d)"
  using keys_dput [of k v d] by (simp add: keys_of_def)

lemma keys_ddel: "keys_of (ddel k d) = keys_of d - {k}"
  by (auto simp: keys_of_def ddel_def)

lemma wf_json_dput: "wf_json (JObj d) \<Longrightarrow> wf_json v \<Longrightarrow> wf_json (JObj (dput k v d))"
proof -
  assume "wf_json (JObj d)" "wf_json v"
  moreover from this have "\<forall>x \<in> snd ` set (dput k v d). wf_json x" using dput_vals [of k v d] by fastforce
  ultimately show ?thesis by (force simp: wf_dput)
qed

lemma dget_signed:
  assumes "wf_dict m" and "sign_metadata cr dev m = Inr s" and "k \<noteq> ''metadata_mac''"
  shows "dget s k = dget m k"
  using assms by (auto simp: sign_metadata_Inr dget_dput wf_ddel dget_ddel)

lemma keys_signed:
  assumes "sign_metadata cr dev m = Inr s"
  shows "keys_of s = insert ''metadata_mac'' (keys_of m)"
  using assms by (auto simp: sign_metadata_Inr keys_dput_dict keys_ddel)

text \<open>The next record: some of the free fields are set, and the record is signed again.\<close>

lemma good_entry_next:
  assumes g: "good_entry cr dev eid m c b" and s: "sign_metadata cr dev m1 = Inr m'"
    and w: "wf_json (JObj m1)" and k: "keys_of m1 = keys_of m"
    and e: "\<forall>k. k \<notin> set free_fields \<longrightarrow> dget m1 k = dget m k"
    and st: "dget m1 ''state'' \<in> JStr ` set entry_states"
    and h: "is_list (dget m1 ''restore_history'')"
  shows "good_entry cr dev eid m' c b"
proof (rule good_entry_resealed [OF g])
  have w1: "wf_dict m1" using w by simp
  note d = dget_signed [OF w1 s]
  have "k \<notin> set free_fields \<Longrightarrow> k \<noteq> ''metadata_mac''" for k by (auto simp: free_fields_def)
  with e show "same_sealed m m'" by (simp add: same_sealed_def d)
  have "''metadata_mac'' \<in> keys_of m"
    using g by (simp add: good_entry_def check_common_Inr entry_fields_def sealed_fields_def)
  then show "keys_of m' = keys_of m" using keys_signed [OF s] k by auto
  show "wf_json (JObj m')" by (rule signed_wf [OF w s])
  show "verify_metadata cr dev m' = Inr ()" by (rule signed_verifies [OF w1 s])
qed (use st h dget_signed [OF _ s] w in simp_all)

lemma good_entry_fields:
  assumes "good_entry cr dev eid m c b"
  shows "wf_json (JObj m)" and "wf_dict m" and "is_v2 m" and "is_list (dget m ''restore_history'')"
    and "keys_of m = set (common_fields @ sealed_fields)"
  using assms by (simp_all add: good_entry_def check_common_Inr entry_fields_def)

lemma good_entry_state:
  assumes "good_entry cr dev eid m c b" and "sign_metadata cr dev (dput ''state'' (JStr st) m) = Inr m'"
    and "JStr st \<in> JStr ` set entry_states"
  shows "good_entry cr dev eid m' c b"
proof (rule good_entry_next [OF assms(1,2)])
  note f = good_entry_fields [OF assms(1)]
  show "wf_json (JObj (dput ''state'' (JStr st) m))" by (rule wf_json_dput [OF f(1)]) simp
  show "keys_of (dput ''state'' (JStr st) m) = keys_of m"
    using f(5) common_fields_mem by (auto simp: keys_dput_dict)
qed (use good_entry_fields [OF assms(1)] assms(3) in \<open>auto simp: dget_dput free_fields_def\<close>)

lemma good_entry_quarantined:
  assumes "good_entry cr dev eid m c b"
    and "sign_metadata cr dev (dput ''quarantined_at'' (JStr t) (dput ''state'' (JStr ''quarantined'') m)) = Inr m'"
  shows "good_entry cr dev eid m' c b"
proof (rule good_entry_next [OF assms])
  note f = good_entry_fields [OF assms(1)]
  let ?m = "dput ''quarantined_at'' (JStr t) (dput ''state'' (JStr ''quarantined'') m)"
  show "wf_json (JObj ?m)" by (intro wf_json_dput f(1)) simp_all
  show "keys_of ?m = keys_of m" using f(5) common_fields_mem by (auto simp: keys_dput_dict)
qed (use good_entry_fields [OF assms(1)] in \<open>auto simp: dget_dput wf_dput free_fields_def intro: entry_states_mem\<close>)

section \<open>The first record of an entry\<close>

lemma copy_ready_get:
  assumes "copy_ready_metadata eid t fnd snap = Inr m"
  obtains z where "create_quarantine_record eid (ff_sha256 fnd) t = Inr z" and "wf_dict m"
    and "dget m ''schema'' = JStr ''zero.security.quarantine.v2''" and "dget m ''id'' = JStr eid"
    and "dget m ''state'' = JStr ''copy_ready''" and "dget m ''sha256'' = JStr (ff_sha256 fnd)"
    and "dget m ''size'' = JInt (int (sn_size snap))" and "dget m ''restore_history'' = JList []"
    and "is_list (dget m ''matches'')" and "dget m ''zba'' = JObj z"
    and "keys_of m = set (common_fields @ [''zba''])"
  using assms
  by (auto simp: copy_ready_metadata_def rbind_Inr_iff dget_mk_dict keys_of_mk_dict common_fields_def)

lemma match_wf: "wf_json (JObj (match_to_dict x))"
  unfolding match_to_dict_def by (rule wf_json_mk_dict) simp

lemma copy_ready_wf:
  assumes "copy_ready_metadata eid t fnd snap = Inr m"
    and "list_all (\<lambda>i. wf_json (JInt i)) [int (sn_size snap), int (sn_mode snap), sn_modified_ns snap]"
  shows "wf_json (JObj m)"
proof -
  from assms(1) obtain z where z: "create_quarantine_record eid (ff_sha256 fnd) t = Inr z"
    by (auto simp: copy_ready_metadata_def rbind_Inr_iff)
  have "wf_json (JObj z)" by (rule create_wf [OF z])
  moreover have "wf_json (JList (map (JObj \<circ> match_to_dict) (ff_matches fnd)))"
    using match_wf by (simp del: wf_json_JObj)
  moreover have "wf_json (JList [])" by simp
  ultimately show ?thesis
    using assms z unfolding copy_ready_metadata_def
    by (auto simp del: wf_json_JObj wf_json_JList wf_json.simps(6,7) intro!: wf_json_mk_dict)
qed

lemma valid_sha256_hexdigest: "valid_sha256 (hexdigest b)"
  using is_sha256_hexdigest [of b] by (auto simp: valid_sha256_def is_sha256_def)

lemma aad_fields_sealed: "k \<in> set aad_fields \<Longrightarrow> k \<noteq> ''vault'' \<and> k \<noteq> ''content_tag'' \<and> k \<noteq> ''metadata_mac''"
  by (auto simp: aad_fields_def)

lemma first_entry_good:
  assumes cr: "crypto_laws cr" and r: "random_ok r" and dev: "dr_protection dev = ''filesystem-0600-preview''"
    and m0: "copy_ready_metadata eid t fnd snap = Inr m0" and t: "ends_with t ''Z''"
    and ints: "list_all (\<lambda>i. wf_json (JInt i)) [int (sn_size snap), int (sn_mode snap), sn_modified_ns snap]"
    and aad: "canonical_json_bytes (JObj (aad_projection m0)) = Inr aad"
    and e: "create_envelope cr dev eid aad r = (e, key)"
    and b: "hexdigest b = ff_sha256 fnd" "length b = sn_size snap"
    and c: "c = gcm_ctr cr key (ve_content_nonce e) b" and tag: "tag = gcm_tag cr key (ve_content_nonce e) aad c"
    and s: "sign_metadata cr dev (dput ''content_tag'' (JStr (b64encode tag))
        (dput ''vault'' (JObj (envelope_to_dict e (dr_protection dev))) m0)) = Inr m"
  shows "good_entry cr dev eid m c b"
proof -
  let ?v = "JObj (envelope_to_dict e (dr_protection dev))"
  let ?m1 = "dput ''content_tag'' (JStr (b64encode tag)) (dput ''vault'' ?v m0)"
  obtain z where z: "create_quarantine_record eid (ff_sha256 fnd) t = Inr z" and w0: "wf_dict m0"
    and g0: "dget m0 ''schema'' = JStr ''zero.security.quarantine.v2''" "dget m0 ''id'' = JStr eid"
      "dget m0 ''state'' = JStr ''copy_ready''" "dget m0 ''sha256'' = JStr (ff_sha256 fnd)"
      "dget m0 ''size'' = JInt (int (sn_size snap))" "dget m0 ''restore_history'' = JList []"
      "is_list (dget m0 ''matches'')" "dget m0 ''zba'' = JObj z"
    and k0: "keys_of m0 = set (common_fields @ [''zba''])"
    by (rule copy_ready_get [OF m0])
  have wv: "wf_json ?v" unfolding envelope_to_dict_def by (rule wf_json_mk_dict) auto
  have w1: "wf_json (JObj ?m1)" by (intro wf_json_dput copy_ready_wf [OF m0 ints] wv) simp
  then have w1': "wf_dict ?m1" by simp
  have g: "dget m k = dget m0 k" if "k \<noteq> ''metadata_mac''" "k \<noteq> ''vault''" "k \<noteq> ''content_tag''" for k
    using dget_signed [OF w1' s that(1)] that w0 by (simp add: dget_dput wf_dput)
  have gv: "dget m ''vault'' = ?v" and gt: "dget m ''content_tag'' = JStr (b64encode tag)"
    using dget_signed [OF w1' s] w0 by (simp_all add: dget_dput wf_dput)
  have aad': "aad_projection m = aad_projection m0"
    unfolding aad_projection_def using aad_fields_sealed g by (intro arg_cong [where f = mk_dict] map_cong refl) simp
  have v2: "is_v2 m" by (simp add: is_v2_def g g0)
  have keys: "keys_of m = set (entry_fields m)"
    unfolding keys_signed [OF s] keys_dput_dict k0 by (auto simp: entry_fields_def v2 sealed_fields_def)
  note env = created_envelope [OF cr r e]
  have er: "envelope_from_dict ?v = Inr e" by (rule envelope_reads [OF env(1)]) (simp add: dev)
  have "length tag = 16" by (simp add: tag crypto_lawsD [OF cr])
  then have dt: "decode_content_tag (JStr (b64encode tag)) = Inr tag"
    by (simp add: decode_content_tag_def b64decode_encode)
  have zv: "validate_quarantine_record (JObj z) eid (ff_sha256 fnd) = Inr z" by (rule create_validates [OF z t])
  have "check_common (JObj m) eid = Inr m"
    using keys v2 valid_sha256_hexdigest [of b] b(1) entry_states_mem
    by (simp add: check_common_Inr g g0 is_py_int_def)
  moreover have "check_sealed cr dev m eid = Inr ()"
    using er dt zv aad signed_verifies [OF w1' s]
    by (simp add: check_sealed_Inr gv gt g g0 aad' envelope_get)
  moreover have "open_sealed cr dev m c = Inr b"
    by (simp add: open_sealed_def gv gt er aad' aad g g0 env(2) dt) (simp add: tag c crypto_lawsD [OF cr])
  ultimately show ?thesis
    using signed_wf [OF w1 s] v2 by (simp add: good_entry_def g g0 b)
qed

end
