(* ===== verification/Vault_Logic.thy ===== *)
theory Vault_Logic
  imports Vault_World
begin

text \<open>
  What the system calls keep of a set of regular files with known content, and the ownership of a
  file that was just created.  The rules are the frame and the effect of each call.
\<close>

section \<open>Known files\<close>

lemma triple_conj:
  assumes "triple P m Q R" and "triple P' m Q' R'"
  shows "triple (\<lambda>f. P f \<and> P' f) m (\<lambda>x f. Q x f \<and> Q' x f) (\<lambda>e f. R e f \<and> R' e f)"
proof (rule tripleI)
  fix w r w'
  assume w: "calm w" "P (w_fs w) \<and> P' (w_fs w)" and e: "m w = (r, w')"
  then show "calm w' \<and> post (\<lambda>x f. Q x f \<and> Q' x f) (\<lambda>e f. R e f \<and> R' e f) r (w_fs w')"
    using tripleX [OF assms(1) w(1) _ e] tripleX [OF assms(2) w(1) _ e] by (cases r) auto
qed

lemma triple_suppress_same: "triple P m (\<lambda>_. P) (\<lambda>_. P) \<Longrightarrow> triple P (io_suppress m) (\<lambda>_. P) (\<lambda>_. P)"
  unfolding io_suppress_def by (rule triple_catch) (auto intro: triple_ret)

lemma triple_lift_bind:
  assumes "\<And>e f. P f \<Longrightarrow> R e f" and "\<And>x. m = Inr x \<Longrightarrow> triple P (k x) Q R"
  shows "triple P (io_bind (io_lift m) k) Q R"
  by (rule triple_bind [where Q = "\<lambda>x f. P f \<and> m = Inr x", OF triple_lift triple_assume]) (use assms in auto)


lemma published_iff: "published b f p \<longleftrightarrow>
    (\<exists>i. f_names f p = Some i \<and> i_kind (f_inodes f i) = Reg \<and> i_data (f_inodes f i) = b)"
  by (auto simp: published_def view_def)

definition keeps :: "(path \<times> string) list \<Rightarrow> fs \<Rightarrow> bool" where
  "keeps F f = (fs_ok f \<and> (\<forall>(p, b) \<in> set F. published b f p))"

definition stable :: "(path \<times> string) list \<Rightarrow> 'a io \<Rightarrow> bool" where
  "stable F m = triple (keeps F) m (\<lambda>_. keeps F) (\<lambda>_. keeps F)"

lemma keepsD: "keeps F f \<Longrightarrow> (p, b) \<in> set F \<Longrightarrow> published b f p" "keeps F f \<Longrightarrow> fs_ok f"
  by (auto simp: keeps_def)

lemma keeps_Cons [simp]: "keeps ((p, b) # F) f \<longleftrightarrow> published b f p \<and> keeps F f"
  by (auto simp: keeps_def)

lemma keeps_append [simp]: "keeps (F @ G) f \<longleftrightarrow> keeps F f \<and> keeps G f"
  by (auto simp: keeps_def)

lemma keeps_mono: "keeps F f \<Longrightarrow> set G \<subseteq> set F \<Longrightarrow> keeps G f"
  by (auto simp: keeps_def)

lemma stableD: "stable F m \<Longrightarrow> triple (keeps F) m (\<lambda>_. keeps F) (\<lambda>_. keeps F)"
  by (simp add: stable_def)

lemma stable_looks: "looks m \<Longrightarrow> stable F m"
  by (simp add: stable_def looks_def)

lemma stable_bind: "stable F m \<Longrightarrow> (\<And>x. stable F (k x)) \<Longrightarrow> stable F (io_bind m k)"
  unfolding stable_def by (rule triple_bind)

lemma stable_then: "stable F m \<Longrightarrow> stable F k \<Longrightarrow> stable F (io_then m k)"
  unfolding io_then_def by (rule stable_bind)

lemma stable_if: "stable F k \<Longrightarrow> stable F (io_if b e k)"
  by (cases b) (simp_all add: stable_looks looks_raise)

lemma stable_catch: "stable F m \<Longrightarrow> (\<And>e. stable F (h e)) \<Longrightarrow> stable F (io_catch m p h)"
  unfolding stable_def by (rule triple_catch) auto

lemma stable_suppress: "stable F m \<Longrightarrow> stable F (io_suppress m)"
  unfolding io_suppress_def by (rule stable_catch) (auto intro: stable_looks looks_ret)

lemma stable_step:
  assumes "\<And>f r f'. keeps F f \<Longrightarrow> act f = (r, f') \<Longrightarrow> keeps F f'"
  shows "stable F (sys act)"
  unfolding stable_def
proof (rule triple_sys)
  fix f r f'
  assume "keeps F f" "act f = (r, f')"
  with assms have "keeps F f'" by blast
  then show "post (\<lambda>_. keeps F) (\<lambda>_. keeps F) r f'" by (cases r) auto
qed

lemma keeps_views:
  assumes "keeps F f" and "fs_ok g"
    and "\<forall>p d. p \<in> fst ` set F \<longrightarrow> view f p = Some d \<longrightarrow> view g p = Some d"
  shows "keeps F g"
proof -
  have "published b g p" if "(p, b) \<in> set F" for p b
  proof -
    from assms(1) that obtain d where "view f p = Some d" "i_kind d = Reg" "i_data d = b"
      by (fastforce simp: keeps_def published_def)
    moreover from that have "p \<in> fst ` set F" by force
    ultimately show ?thesis using assms(3) unfolding published_def by blast
  qed
  with assms(2) show ?thesis by (auto simp: keeps_def)
qed

lemma keeps_new: "keeps F f \<Longrightarrow> f_names f q = None \<Longrightarrow> keeps F (new_inode f q d)"
  by (rule keeps_views, assumption) (auto simp: keeps_def fs_ok_new_inode view_new_inode view_names [symmetric])

lemma triple_fail:
  assumes "triple P m Q (\<lambda>_. keeps F)" and "\<And>e f. keeps F f \<Longrightarrow> R e f"
  shows "triple P m Q R"
  by (rule triple_conseq [OF assms(1)]) (use assms(2) in auto)

text \<open>An inode keeps its kind and its data.\<close>

lemma keeps_touch:
  assumes "keeps F f" and "i_kind d = i_kind (f_inodes f i)" and "i_data d = i_data (f_inodes f i)"
  shows "keeps F (f\<lparr>f_inodes := (f_inodes f)(i := d)\<rparr>)"
proof -
  have "published b (f\<lparr>f_inodes := (f_inodes f)(i := d)\<rparr>) p" if "published b f p" for p b
    using that assms(2,3) by (auto simp: published_iff)
  with assms(1) show ?thesis by (auto simp: keeps_def fs_ok_def)
qed

lemma stable_mkdirs: "stable F (sys_mkdirs d)"
  unfolding stable_def
proof (rule triple_fs_exact)
  fix f0
  assume k: "keeps F f0"
  show "triple (\<lambda>f. f = f0) (sys_mkdirs d) (\<lambda>_. keeps F) (\<lambda>_. keeps F)"
  proof (rule triple_conseq [OF triple_mkdirs [of f0 d]])
    fix f
    assume f: "fs_ok f \<and> (\<forall>q. view f q = view f0 q \<or> view f0 q = None \<and> length q \<le> length d)"
    from f have "\<forall>p d. p \<in> fst ` set F \<longrightarrow> view f0 p = Some d \<longrightarrow> view f p = Some d"
      by (metis option.distinct(1))
    with f show "keeps F f" by (intro keeps_views [OF k]) auto
  qed (use k in \<open>auto simp: keeps_def\<close>)
qed

lemma stable_chmod: "stable F (sys_chmod p m)"
  unfolding sys_chmod_def by (rule stable_step) (auto split: sum.splits intro!: keeps_touch)

lemma stable_utime: "stable F (sys_utime p t)"
proof (cases "- (2 ^ 63) \<le> t div 1000000000 \<and> t div 1000000000 < 2 ^ 63")
  case True
  then show ?thesis
    by (simp only: sys_utime_def simp_thms if_False)
       (rule stable_step, auto split: sum.splits intro!: keeps_touch)
next
  case False
  then show ?thesis by (simp only: sys_utime_def if_True simp_thms) (rule stable_looks, rule looks_raise)
qed

lemma keeps_names:
  assumes "keeps F f" and "\<forall>p i. p \<in> fst ` set F \<longrightarrow> f_names f p = Some i \<longrightarrow> m p = Some i"
    and "\<forall>p i. m p = Some i \<longrightarrow> (\<exists>q. f_names f q = Some i)"
  shows "keeps F (f\<lparr>f_names := m\<rparr>)"
proof (rule keeps_views [OF assms(1)])
  show "fs_ok (f\<lparr>f_names := m\<rparr>)" using keepsD(2) [OF assms(1)] assms(3) by (auto simp: fs_ok_def) metis
qed (use assms(2) in \<open>auto simp: view_def\<close>)

lemma keeps_remove: "keeps F f \<Longrightarrow> p \<notin> fst ` set F \<Longrightarrow> keeps F (f\<lparr>f_names := (f_names f)(p := None)\<rparr>)"
  by (erule keeps_names) (auto split: if_splits)

lemma stable_unlink: "p \<notin> fst ` set F \<Longrightarrow> stable F (sys_unlink p)"
  unfolding sys_unlink_def by (rule stable_step) (auto split: option.splits if_splits intro!: keeps_remove)

lemma stable_rmtree:
  assumes "\<forall>p \<in> fst ` set F. \<not> below d p"
  shows "stable F (sys_rmtree d)"
proof -
  have "keeps F f \<Longrightarrow> keeps F (f\<lparr>f_names := \<lambda>p. if below d p then None else f_names f p\<rparr>)" for f
    using assms by (elim keeps_names) (auto split: if_splits)
  then show ?thesis
    unfolding sys_rmtree_def by (intro stable_step) (auto split: option.splits if_splits)
qed

lemma stable_atomic_write:
  assumes "p \<notin> fst ` set F" and "p \<noteq> []"
  shows "triple (keeps F) (atomic_write_bytes p data mode) (\<lambda>_. keeps ((p, data) # F)) (\<lambda>_. keeps F)"
proof (rule triple_fs_exact)
  fix f0
  assume k: "keeps F f0"
  have g: "keeps F f" if "fs_ok f" "grown f0 f p" for f
    by (rule keeps_views [OF k that(1)]) (use that(2) assms(1) in \<open>auto simp: grown_def\<close>)
  show "triple (\<lambda>f. f = f0) (atomic_write_bytes p data mode) (\<lambda>_. keeps ((p, data) # F)) (\<lambda>_. keeps F)"
    by (rule triple_conseq [OF triple_atomic_write [OF parent_len [OF assms(2)], of f0]])
       (use k g in \<open>auto simp: settled_def keepsD\<close>)
qed

lemma triple_atomic_json:
  assumes "p \<notin> fst ` set F" and "p \<noteq> []"
  shows "triple (keeps F) (atomic_write_json p v mode)
     (\<lambda>_ f. \<exists>b. indented_json_bytes v = Inr b \<and> keeps ((p, b) # F) f) (\<lambda>_. keeps F)"
  unfolding atomic_write_json_def
proof (rule triple_bind [where Q = "\<lambda>b f. keeps F f \<and> indented_json_bytes v = Inr b"])
  fix b
  show "triple (\<lambda>f. keeps F f \<and> indented_json_bytes v = Inr b) (atomic_write_bytes p b mode)
     (\<lambda>_ f. \<exists>b. indented_json_bytes v = Inr b \<and> keeps ((p, b) # F) f) (\<lambda>_. keeps F)"
    by (rule tripleI) (use tripleX [OF stable_atomic_write [OF assms, of b mode]] in \<open>fastforce elim: post_mono\<close>)
qed (auto intro: triple_lift)

lemma keeps_at: "keeps ((p, b) # F) f \<Longrightarrow> keeps F f"
  by simp

text \<open>A file of the list that is replaced has the old or the new content at every moment.\<close>

lemma replace_atomic_json:
  assumes "p \<notin> fst ` set F" and "p \<noteq> []"
  shows "triple (keeps ((p, a) # F)) (atomic_write_json p v mode)
     (\<lambda>_ f. \<exists>b. indented_json_bytes v = Inr b \<and> keeps ((p, b) # F) f)
     (\<lambda>_ f. keeps ((p, a) # F) f \<or> (\<exists>b. indented_json_bytes v = Inr b \<and> keeps ((p, b) # F) f))"
  (is "triple ?P _ ?Q ?R")
  unfolding atomic_write_json_def
proof (rule triple_bind [where Q = "\<lambda>b f. ?P f \<and> indented_json_bytes v = Inr b"])
  fix b
  show "triple (\<lambda>f. ?P f \<and> indented_json_bytes v = Inr b) (atomic_write_bytes p b mode) ?Q ?R"
  proof (rule triple_fs_exact)
    fix f0
    assume k: "?P f0 \<and> indented_json_bytes v = Inr b"
    have g: "keeps F f" if "fs_ok f" "grown f0 f p" for f
      by (rule keeps_views [of F f0, OF _ that(1)]) (use that(2) assms(1) k in \<open>auto simp: grown_def\<close>)
    show "triple (\<lambda>f. f = f0) (atomic_write_bytes p b mode) ?Q ?R"
      by (rule triple_conseq [OF triple_atomic_write [OF parent_len [OF assms(2)], of f0]])
         (use k g in \<open>auto simp: settled_def keepsD published_def\<close>)
  qed
qed (auto intro: triple_lift)

section \<open>A new file\<close>

definition owns :: "path \<Rightarrow> nat \<Rightarrow> string \<Rightarrow> fs \<Rightarrow> bool" where
  "owns p i b f = (f_names f p = Some i \<and> (\<forall>q. q \<noteq> p \<longrightarrow> f_names f q \<noteq> Some i)
     \<and> i_kind (f_inodes f i) = Reg \<and> i_data (f_inodes f i) = b)"

lemma owns_published: "owns p i b f \<Longrightarrow> published b f p"
  by (simp add: owns_def published_def view_def)

lemma owns_new: "fs_ok f \<Longrightarrow> owns p (f_next f) (i_data d) (new_inode f p d) \<longleftrightarrow> i_kind d = Reg"
  by (auto simp: owns_def new_inode_def fs_ok_def)

lemma create_excl_cases:
  assumes "create_excl p f = (r, f')"
  shows "(\<exists>e. r = Inl e) \<and> f' = f
    \<or> r = Inr (f_next f) \<and> f_names f p = None \<and> f' = new_inode f p (file_inode [])"
  using assms by (auto simp: create_excl_def split: if_splits)

lemma keeps_unused: "keeps F f \<Longrightarrow> f_names f p = None \<Longrightarrow> p \<notin> fst ` set F"
  by (auto simp: keeps_def published_def view_def)

lemma triple_create:
  "triple (keeps F) (sys_create p) (\<lambda>i f. keeps F f \<and> owns p i [] f \<and> p \<notin> fst ` set F) (\<lambda>_. keeps F)"
  unfolding sys_create_def
proof (rule triple_sys)
  fix f r f'
  assume k: "keeps F f" and c: "create_excl p f = (r, f')"
  from create_excl_cases [OF c] show "post (\<lambda>i f. keeps F f \<and> owns p i [] f \<and> p \<notin> fst ` set F) (\<lambda>_. keeps F) r f'"
    using k keeps_new keeps_unused owns_new [of f p "file_inode []"] keepsD(2) [OF k]
    by (auto simp: file_inode_def)
qed

lemma triple_temp_file:
  "triple (keeps F) (sys_mkstemp d pre)
     (\<lambda>(i, p) f. keeps F f \<and> owns p i [] f \<and> p \<notin> fst ` set F \<and> (\<exists>s. p = join_path d (pre @ s))) (\<lambda>_. keeps F)"
proof (rule triple_mkstemp)
  fix f s
  assume k: "keeps F f" and n: "f_names f (join_path d (pre @ s)) = None"
  show "(case (f_next f, join_path d (pre @ s)) of (i, p) \<Rightarrow> \<lambda>f. keeps F f \<and> owns p i [] f \<and> p \<notin> fst ` set F
     \<and> (\<exists>s. p = join_path d (pre @ s))) (new_inode f (join_path d (pre @ s)) (file_inode []))"
    using keeps_new [OF k n] keeps_unused [OF k n] owns_new [of f _ "file_inode []"] keepsD(2) [OF k]
    by (auto simp: file_inode_def)
qed

lemma triple_mkdtemp:
  "triple (keeps F) (sys_mkdtemp d pre)
     (\<lambda>p f. keeps F f \<and> (\<exists>s. p = join_path d (pre @ s))) (\<lambda>_. keeps F)"
proof (rule tripleI)
  fix w r w'
  assume w: "calm w" "keeps F (w_fs w)" and e: "sys_mkdtemp d pre w = (r, w')"
  define p where "p = join_path d (pre @ w_fresh w (w_tick w))"
  have "stable F (sys (make_dir p))"
    by (rule stable_step) (auto simp: make_dir_def intro!: keeps_new split: if_splits)
  then have "triple (keeps F) (io_bind (sys (make_dir p)) (\<lambda>_. io_ret p))
      (\<lambda>p f. keeps F f \<and> (\<exists>s. p = join_path d (pre @ s))) (\<lambda>_. keeps F)"
    by (intro triple_bind [OF stableD] triple_ret) (auto simp: p_def)
  moreover have "io_bind (sys (make_dir p)) (\<lambda>_. io_ret p) w = (r, w')"
    using e by (simp add: sys_mkdtemp_def p_def Let_def)
  ultimately show "calm w' \<and> post (\<lambda>p f. keeps F f \<and> (\<exists>s. p = join_path d (pre @ s))) (\<lambda>_. keeps F) r (w_fs w')"
    using w by (blast dest: tripleX)
qed

text \<open>Writing to an owned file changes nothing else.\<close>

lemma append_owned:
  assumes "keeps F f" and "owns p i b f" and "p \<notin> fst ` set F"
  shows "keeps F (append_data i x f)" and "owns p i (b @ x) (append_data i x f)"
proof -
  have "view (append_data i x f) q = view f q" if "q \<noteq> p" for q
    using assms(2) that view_update_other [of p f i q] by (simp add: owns_def append_data_def)
  moreover have "fs_ok (append_data i x f)" using keepsD(2) [OF assms(1)] by (simp add: fs_ok_def append_data_def)
  ultimately show "keeps F (append_data i x f)"
    by (intro keeps_views [OF assms(1)]) (use assms(3) in \<open>auto, metis fst_conv image_eqI\<close>)
  show "owns p i (b @ x) (append_data i x f)" using assms(2) by (simp add: owns_def append_data_def)
qed

lemma triple_write_owned:
  assumes "p \<notin> fst ` set F"
  shows "triple (\<lambda>f. keeps F f \<and> owns p i b f) (sys_write i x)
     (\<lambda>_ f. keeps F f \<and> owns p i (b @ x) f) (\<lambda>_ f. keeps F f \<and> (\<exists>c. owns p i c f))"
  by (rule triple_write) (use append_owned [OF _ _ assms] in blast)+

text \<open>
  Pumping an open regular file, which nobody else writes, into an owned file: at the end the
  whole file was read and all its image was written.
\<close>

definition opened :: "nat \<Rightarrow> string \<Rightarrow> fs \<Rightarrow> bool" where
  "opened s b f = (i_kind (f_inodes f s) = Reg \<and> i_data (f_inodes f s) = b)"

definition extends :: "(string \<Rightarrow> string) \<Rightarrow> bool" where
  "extends g = (g [] = [] \<and> (\<forall>x y. \<exists>z. g (x @ y) = g x @ z))"

lemma extends_drop: "extends g \<Longrightarrow> g x @ drop (length (g x)) (g (x @ y)) = g (x @ y)"
  unfolding extends_def by (metis append_eq_conv_conj)

lemma triple_pump:
  assumes "p \<notin> fst ` set F" and "extends g" and "s \<noteq> i"
  shows "triple (\<lambda>f. keeps F f \<and> owns p i (g got) f \<and> opened s b f \<and> prefix got b) (pump g n s (Some i) got)
     (\<lambda>x f. keeps F f \<and> owns p i (g b) f \<and> opened s b f \<and> x = b) (\<lambda>_ f. keeps F f \<and> (\<exists>c. owns p i c f))"
proof (induction n arbitrary: got)
  case 0
  show ?case by (auto intro: triple_raise)
next
  case (Suc n)
  let ?P = "\<lambda>f. keeps F f \<and> owns p i (g got) f \<and> opened s b f \<and> prefix got b"
  let ?R = "\<lambda>_ f. keeps F f \<and> (\<exists>c. owns p i c f)"
  show ?case
    unfolding pump.simps
  proof (rule triple_bind [where Q = "\<lambda>chunk f. ?P f \<and> chunk = take 1048576 (drop (length got) b)"], goal_cases)
    case 1
    show ?case unfolding sys_read_def by (rule triple_look) (auto simp: opened_def)
  next
    case (2 chunk)
    show ?case
    proof (cases "chunk = []")
      case True
      then show ?thesis by (auto intro!: triple_ret simp: prefix_def)
    next
      case False
      have "triple (\<lambda>f. ?P f \<and> chunk = take 1048576 (drop (length got) b))
          (io_then (sys_write i (drop (length (g got)) (g (got @ chunk)))) (pump g n s (Some i) (got @ chunk)))
          (\<lambda>x f. keeps F f \<and> owns p i (g b) f \<and> opened s b f \<and> x = b) ?R"
      proof (rule triple_then)
        show "triple (\<lambda>f. ?P f \<and> chunk = take 1048576 (drop (length got) b))
           (sys_write i (drop (length (g got)) (g (got @ chunk))))
           (\<lambda>_ f. keeps F f \<and> owns p i (g (got @ chunk)) f \<and> opened s b f \<and> prefix (got @ chunk) b) ?R"
        proof (rule triple_write)
          fix f
          assume f: "?P f \<and> chunk = take 1048576 (drop (length got) b)"
          note a = append_owned [of F f p i "g got" "drop (length (g got)) (g (got @ chunk))", OF _ _ assms(1)]
          have "prefix (got @ chunk) b"
            using f by (metis append_eq_conv_conj prefix_def same_prefix_prefix take_is_prefix)
          with f a assms(2,3) show "keeps F (append_data i (drop (length (g got)) (g (got @ chunk))) f)
             \<and> owns p i (g (got @ chunk)) (append_data i (drop (length (g got)) (g (got @ chunk))) f)
             \<and> opened s b (append_data i (drop (length (g got)) (g (got @ chunk))) f) \<and> prefix (got @ chunk) b"
            by (simp add: extends_drop) (simp add: opened_def append_data_def)
        next
          fix f e k
          assume "?P f \<and> chunk = take 1048576 (drop (length got) b)"
          then show "?R e (append_data i (take k (drop (length (g got)) (g (got @ chunk)))) f)"
            using append_owned [of F f p i _, OF _ _ assms(1)] by blast
        qed
      qed (rule Suc.IH)
      with False show ?thesis by simp
    qed
  qed
qed

lemma stable_pump_None: "stable F (pump g n s None got)"
proof (induction n arbitrary: got)
  case (Suc n)
  then show ?case
    by (auto intro!: stable_bind stable_then stable_looks [OF looks_read] stable_looks [OF looks_ret])
qed (simp add: stable_looks looks_raise)

text \<open>Renaming a directory moves the files in it.\<close>

definition inside :: "path \<Rightarrow> (string \<times> string) list \<Rightarrow> (path \<times> string) list" where
  "inside d G = map (map_prod (join_path d) id) G"

lemma below_join: "below d (join_path d n)" by (simp add: below_def join_path_def)

lemma triple_rename:
  assumes "\<forall>p \<in> fst ` set F. \<not> below a p \<and> \<not> below b p" and "\<not> below b a"
  shows "triple (keeps (inside a G @ F)) (sys_rename_dir a b) (\<lambda>_. keeps (inside b G @ F)) (\<lambda>_. keeps (inside a G @ F))"
  unfolding sys_rename_dir_def
proof (rule triple_sys)
  fix f :: fs and r f'
  let ?g = "f\<lparr>f_names := move_tree a b (f_names f)\<rparr>"
  assume k: "keeps (inside a G @ F) f" and e: "(case f_names f a of None \<Rightarrow> (Inl (FileNotFoundError a), f)
     | Some i \<Rightarrow>
       if i_kind (f_inodes f i) \<noteq> Dir \<or> below a b then (Inl (OSError ''invalid argument''), f)
       else if \<not> dir_exists f (parent_of b) then (Inl (FileNotFoundError b), f)
       else if (case f_names f b of None \<Rightarrow> True
               | Some j \<Rightarrow> i_kind (f_inodes f j) = Dir \<and> empty_dir f b) then (Inr (), ?g)
       else (Inl (OSError ''directory not empty''), f)) = (r, f')"
  then have "r = Inr () \<and> f' = ?g \<or> (\<exists>x. r = Inl x) \<and> f' = f" by (auto split: option.splits if_splits)
  moreover have "keeps F ?g"
    by (rule keeps_names [of F]) (use k assms(1) in \<open>auto simp: move_tree_def split: if_splits\<close>)
  moreover have "published x ?g (join_path b n)" if "(n, x) \<in> set G" for n x
  proof -
    from k that have "published x f (join_path a n)" by (force simp: keeps_def inside_def)
    then show ?thesis by (simp add: published_iff move_tree_def below_join) (simp add: join_path_def)
  qed
  ultimately show "post (\<lambda>_. keeps (inside b G @ F)) (\<lambda>_. keeps (inside a G @ F)) r f'"
    using k by (auto simp: keeps_def inside_def)
qed

text \<open>A second name for an owned file.\<close>

lemma triple_link:
  assumes "a \<notin> fst ` set F"
  shows "triple (\<lambda>f. keeps F f \<and> owns a i x f) (sys_link a t)
     (\<lambda>_ f. keeps ((t, x) # F) f \<and> published x f a \<and> t \<noteq> a) (\<lambda>_ f. keeps F f \<and> owns a i x f)"
  unfolding sys_link_def
proof (rule triple_sys)
  fix f :: fs and r f'
  assume k: "keeps F f \<and> owns a i x f" and e: "(case f_names f a of None \<Rightarrow> (Inl (FileNotFoundError a), f)
     | Some i \<Rightarrow>
       if f_names f t \<noteq> None then (Inl (FileExistsError t), f)
       else if \<not> dir_exists f (parent_of t) then (Inl (FileNotFoundError t), f)
       else if i_kind (f_inodes f i) = Dir then (Inl (OSError ''operation not permitted''), f)
       else (Inr (), f\<lparr>f_names := (f_names f)(t \<mapsto> i)\<rparr>)) = (r, f')"
  let ?g = "f\<lparr>f_names := (f_names f)(t \<mapsto> i)\<rparr>"
  from k e have c: "r = Inr () \<and> f_names f t = None \<and> f' = ?g \<or> (\<exists>y. r = Inl y) \<and> f' = f"
    by (auto simp: owns_def split: if_splits)
  have "keeps F ?g" if "f_names f t = None"
    by (rule keeps_names) (use k that keeps_unused [of F f t] in \<open>auto simp: owns_def\<close>)
  with c k show "post (\<lambda>_ f. keeps ((t, x) # F) f \<and> published x f a \<and> t \<noteq> a) (\<lambda>_ f. keeps F f \<and> owns a i x f) r f'"
    by (auto simp: published_iff owns_def)
qed auto

end
