(* ===== verification/Quarantine_Steps.thy ===== *)
theory Quarantine_Steps
  imports Vault_Entry Vault_Logic
begin

text \<open>
  The steps of \<open>quarantine_finding\<close> and of the later changes of an entry: what each of them keeps and
  adds, whatever call fails.
\<close>

section \<open>The device root\<close>

definition root_free :: "path \<Rightarrow> (path \<times> string) list \<Rightarrow> fs \<Rightarrow> bool" where
  "root_free D F f = (keeps F f \<and> (view f (device_key_path D) = None \<or> (\<exists>raw. published raw f (device_key_path D))))"

definition root_file :: "path \<Rightarrow> device_root \<Rightarrow> string \<Rightarrow> bool" where
  "root_file D dev raw = (\<exists>v. strict_json_loads raw = Inr v \<and> parse_device_root v = Inr dev)"

lemma root_free_keeps: "root_free D F f \<Longrightarrow> keeps F f"
  by (simp add: root_free_def)

lemma parse_protection: "parse_device_root v = Inr dev \<Longrightarrow> dr_protection dev = ''filesystem-0600-preview''"
  unfolding parse_device_root_def Let_def if_Inr_iff rbind_Inr_iff
  by (elim conjE exE) (metis device_root.select_convs(2) sum.inject(2))

lemma read_published:
  "triple (keeps ((p, b) # F)) (sys_read_bytes p) (\<lambda>x f. keeps ((p, b) # F) f \<and> x = b) (\<lambda>_. keeps ((p, b) # F))"
  unfolding sys_read_bytes_def
proof (rule triple_look)
  fix f x
  assume k: "keeps ((p, b) # F) f"
    and r: "rbind (resolve max_links f p) (\<lambda>i. if i_kind (f_inodes f i) = Dir then Inl (OSError ''is a directory'')
      else Inr (i_data (f_inodes f i))) = Inr x"
  from k obtain d where d: "view f p = Some d" "i_kind d = Reg" "i_data d = b" by (auto simp: published_def)
  then obtain i where "resolve max_links f p = Inr i" "f_inodes f i = d" using resolve_nonlink [of f p d] by auto
  with r d k show "keeps ((p, b) # F) f \<and> x = b" by simp
qed

lemma read_root:
  fixes D :: path
  defines "p \<equiv> device_key_path D"
  shows "triple (keeps ((p, raw) # F)) (read_device_root D)
     (\<lambda>dev f. keeps ((p, raw) # F) f \<and> root_file D dev raw) (\<lambda>_. keeps ((p, raw) # F))"
  unfolding read_device_root_def p_def [symmetric]
proof (rule triple_bind [where Q = "\<lambda>v f. keeps ((p, raw) # F) f \<and> strict_json_loads raw = Inr v"])
  show "triple (keeps ((p, raw) # F)) (io_catch (io_bind (sys_read_bytes p) (\<lambda>raw. io_lift (strict_json_loads raw)))
         feed_or_os (\<lambda>e. io_raise (QuarantineError (''cannot read device root key: '' @ exn_text e))))
      (\<lambda>v f. keeps ((p, raw) # F) f \<and> strict_json_loads raw = Inr v) (\<lambda>_. keeps ((p, raw) # F))"
    by (rule triple_catch [where R' = "\<lambda>_. keeps ((p, raw) # F)", OF triple_bind [OF read_published]])
       (auto intro: triple_lift triple_raise)
qed (auto intro: triple_lift simp: root_file_def)

lemma path_exists_kept:
  "triple (keeps ((p, b) # F)) (path_exists p) (\<lambda>x f. keeps ((p, b) # F) f \<and> x) (\<lambda>_. keeps ((p, b) # F))"
proof (rule tripleI)
  fix w r w'
  assume w: "calm w" "keeps ((p, b) # F) (w_fs w)" and e: "path_exists p w = (r, w')"
  from w(2) obtain d where d: "has p d (w_fs w)" "i_kind d = Reg" by (auto simp: published_def has_def keeps_def)
  have "i_kind d \<noteq> Lnk" using d(2) by simp
  from tripleX [OF has_exists [OF this] w(1) d(1) e] tripleX [OF stableD [OF stable_looks [OF looks_exists]] w e]
  show "calm w' \<and> post (\<lambda>x f. keeps ((p, b) # F) f \<and> x) (\<lambda>_. keeps ((p, b) # F)) r (w_fs w')"
    by (cases r) auto
qed

lemma io_then_ret: "io_then (io_ret x) k = k"
  by (rule ext) simp

text \<open>When the key file is known, the root is the one it holds.\<close>

lemma load_known_root:
  fixes D :: path
  defines "p \<equiv> device_key_path D"
  shows "triple (keeps ((p, raw) # F)) (load_device_root D create rnd)
     (\<lambda>dev f. keeps ((p, raw) # F) f \<and> root_file D dev raw) (\<lambda>_. keeps ((p, raw) # F))"
  unfolding load_device_root_def Let_def p_def [symmetric]
proof (rule triple_bind [OF path_exists_kept])
  fix there
  let ?m = "io_if (\<not> there \<and> \<not> create) (QuarantineError ''device root key is unavailable'')
     (io_then (if there then io_ret () else create_device_root D rnd) (read_device_root D))"
  have "?m = read_device_root D" if there using that by (simp add: io_then_ret)
  then show "triple (\<lambda>f. keeps ((p, raw) # F) f \<and> there) ?m
     (\<lambda>dev f. keeps ((p, raw) # F) f \<and> root_file D dev raw) (\<lambda>_. keeps ((p, raw) # F))"
    using read_root [of D raw F, folded p_def] by (intro triple_assume) (simp del: keeps_Cons)
qed

text \<open>Otherwise it is created, and the file that was written is the one that is read.\<close>

lemma create_root:
  fixes D :: path
  defines "p \<equiv> device_key_path D"
  assumes "p \<notin> fst ` set F"
  shows "triple (keeps F) (create_device_root D rnd) (\<lambda>_ f. \<exists>raw. keeps ((p, raw) # F) f) (\<lambda>_. keeps F)"
  unfolding create_device_root_def p_def [symmetric]
proof (rule triple_then [OF stableD [OF stable_mkdirs]])
  have "p \<noteq> []" by (simp add: p_def device_key_path_def join_path_def)
  have w: "triple (keeps F) (atomic_write_json p v m) (\<lambda>_ f. \<exists>raw. keeps ((p, raw) # F) f) (\<lambda>_. keeps F)" for v m
    by (rule triple_conseq [OF triple_atomic_json [OF assms(2) \<open>p \<noteq> []\<close>]]) auto
  show "triple (keeps F) (io_then (io_suppress (sys_chmod (parent_of p) 448))
     (atomic_write_json p (JObj (device_record rnd)) 384)) (\<lambda>_ f. \<exists>raw. keeps ((p, raw) # F) f) (\<lambda>_. keeps F)"
    by (rule triple_then [OF stableD [OF stable_suppress [OF stable_chmod]] w])
qed

lemma load_any_root:
  fixes D :: path
  defines "p \<equiv> device_key_path D"
  assumes "p \<notin> fst ` set F"
  shows "triple (root_free D F) (load_device_root D create rnd)
     (\<lambda>dev f. \<exists>raw. keeps ((p, raw) # F) f \<and> root_file D dev raw) (\<lambda>_. keeps F)"
proof (rule triple_fs_exact)
  fix f0
  assume f0: "root_free D F f0"
  let ?Q = "\<lambda>dev f. \<exists>raw. keeps ((p, raw) # F) f \<and> root_file D dev raw"
  show "triple (\<lambda>f. f = f0) (load_device_root D create rnd) ?Q (\<lambda>_. keeps F)"
  proof (cases "view f0 p = None")
    case False
    with f0 obtain raw where "keeps ((p, raw) # F) f0" by (auto simp: root_free_def p_def)
    then show ?thesis
      by (intro triple_conseq [OF load_known_root [of D raw F create rnd, folded p_def]]) auto
  next
    case True
    have k: "keeps F f0" by (rule root_free_keeps [OF f0])
    have rest: "triple (keeps F) (io_then (create_device_root D rnd) (read_device_root D)) ?Q (\<lambda>_. keeps F)"
      by (rule triple_then [OF create_root [of D F rnd, folded p_def, OF assms(2)]], rule triple_ex)
         (rule triple_conseq [OF read_root [of D _ F, folded p_def]], auto)
    show ?thesis
      unfolding load_device_root_def Let_def p_def [symmetric]
    proof (rule triple_bind [where Q = "\<lambda>there f. keeps F f \<and> \<not> there"])
      show "triple (\<lambda>f. f = f0) (path_exists p) (\<lambda>there f. keeps F f \<and> \<not> there) (\<lambda>_. keeps F)"
        by (rule triple_conseq [OF absent_exists [of f0 p]]) (use True k in auto)
    next
      fix there
      show "triple (\<lambda>f. keeps F f \<and> \<not> there)
        (io_if (\<not> there \<and> \<not> create) (QuarantineError ''device root key is unavailable'')
          (io_then (if there then io_ret () else create_device_root D rnd) (read_device_root D))) ?Q (\<lambda>_. keeps F)"
        by (rule triple_assume) (use rest in \<open>auto intro!: triple_if\<close>)
    qed
  qed
qed

section \<open>The encrypted copy\<close>

lemma ctr_extends: "crypto_laws cr \<Longrightarrow> extends (gcm_ctr cr k n)"
proof -
  assume cr: "crypto_laws cr"
  have "take (length (gcm_ctr cr k n x)) (gcm_ctr cr k n (x @ y)) = gcm_ctr cr k n x" for x y
    using crypto_lawsD(4) [OF cr, of k n "length x" "x @ y"] crypto_lawsD(2) [OF cr] by simp
  then have "\<exists>z. gcm_ctr cr k n (x @ y) = gcm_ctr cr k n x @ z" for x y by (metis append_take_drop_id)
  then show ?thesis using crypto_lawsD(2) [OF cr, of k n "[]"] by (simp add: extends_def)
qed

lemma open_kept:
  assumes "(src, b) \<in> set F"
  shows "triple (keeps F) (sys_open_read src) (\<lambda>s f. keeps F f \<and> opened s b f \<and> s < f_next f) (\<lambda>_. keeps F)"
  unfolding sys_open_read_def
proof (rule triple_look)
  fix f x
  assume k: "keeps F f" and e: "(case f_names f src of None \<Rightarrow> Inl (FileNotFoundError src)
     | Some i \<Rightarrow> if i_kind (f_inodes f i) = Lnk then Inl (OSError ''is a symbolic link'') else Inr i) = Inr x"
  from keepsD(1) [OF k assms] obtain i where "f_names f src = Some i" "opened i b f"
    by (auto simp: published_iff opened_def)
  with e keepsD(2) [OF k] k show "keeps F f \<and> opened x b f \<and> x < f_next f"
    by (auto simp: opened_def fs_ok_def)
qed

lemma create_beside:
  "triple (\<lambda>f. keeps F f \<and> opened s b f \<and> s < f_next f) (sys_create p)
     (\<lambda>i f. (keeps F f \<and> owns p i [] f \<and> opened s b f) \<and> s \<noteq> i \<and> p \<notin> fst ` set F) (\<lambda>_. keeps F)"
  unfolding sys_create_def
proof (rule triple_sys)
  fix f r f'
  assume k: "keeps F f \<and> opened s b f \<and> s < f_next f" and c: "create_excl p f = (r, f')"
  from create_excl_cases [OF c]
  show "post (\<lambda>i f. (keeps F f \<and> owns p i [] f \<and> opened s b f) \<and> s \<noteq> i \<and> p \<notin> fst ` set F) (\<lambda>_. keeps F) r f'"
    using k keeps_new keeps_unused owns_new [of f p "file_inode []"] keepsD(2)
    by (auto simp: file_inode_def) (simp add: opened_def new_inode_def)
qed simp

lemma triple_encrypt_body:
  fixes cr key nonce
  defines "g \<equiv> gcm_ctr cr key nonce"
  assumes "crypto_laws cr"
  shows "triple (\<lambda>f. keeps F f \<and> opened s b f \<and> s < f_next f)
      (io_bind (sys_create dest) (\<lambda>target.
        io_bind (pump g fuel s (Some target) []) (\<lambda>plain.
        io_then (sys_write target [])
        (io_then (sys_fsync target)
        (io_bind (sys_fstat s) (\<lambda>after.
         io_bind (if same_snapshot before (take_snapshot after) then stat_size dest
                  else io_raise (QuarantineError ''source file changed during quarantine encryption'')) (\<lambda>stored.
         io_if (stored \<noteq> sn_size before)
           (QuarantineError ''source file changed during quarantine encryption'')
           (io_ret plain))))))))
      (\<lambda>plain f. keeps ((dest, g b) # F) f \<and> plain = b) (\<lambda>_. keeps F)"
proof (rule triple_bind [OF create_beside triple_assume], elim conjE)
  fix i
  assume i: "s \<noteq> i" "dest \<notin> fst ` set F"
  let ?O = "\<lambda>f. keeps F f \<and> owns dest i (g b) f"
  have e: "extends g" unfolding g_def by (rule ctr_extends [OF assms(2)])
  then have g0: "g [] = []" by (simp add: extends_def)
  have r: "?O f \<Longrightarrow> keeps ((dest, g b) # F) f" for f by (auto intro: owns_published)
  show "triple (\<lambda>f. keeps F f \<and> owns dest i [] f \<and> opened s b f)
      (io_bind (pump g fuel s (Some i) []) (\<lambda>plain. io_then (sys_write i []) (io_then (sys_fsync i)
        (io_bind (sys_fstat s) (\<lambda>after.
         io_bind (if same_snapshot before (take_snapshot after) then stat_size dest
                  else io_raise (QuarantineError ''source file changed during quarantine encryption'')) (\<lambda>stored.
         io_if (stored \<noteq> sn_size before)
           (QuarantineError ''source file changed during quarantine encryption'') (io_ret plain)))))))
      (\<lambda>plain f. keeps ((dest, g b) # F) f \<and> plain = b) (\<lambda>_. keeps F)"
  proof (rule triple_bind [where Q = "\<lambda>x f. ?O f \<and> x = b"])
    show "triple (\<lambda>f. keeps F f \<and> owns dest i [] f \<and> opened s b f) (pump g fuel s (Some i) [])
       (\<lambda>x f. ?O f \<and> x = b) (\<lambda>_. keeps F)"
      by (rule triple_conseq [OF triple_pump [OF i(2) e i(1), where got = "[]" and b = b]]) (auto simp: g0)
  next
    fix x :: string
    have l': "triple ?O m (\<lambda>_. ?O) (\<lambda>_. keeps F)" if "looks m" for m :: "nat io"
      by (rule triple_conseq [OF looksD [OF that, of ?O]]) auto
    have "triple ?O (io_then (sys_write i []) (io_then (sys_fsync i)
        (io_bind (sys_fstat s) (\<lambda>after.
         io_bind (if same_snapshot before (take_snapshot after) then stat_size dest
                  else io_raise (QuarantineError ''source file changed during quarantine encryption'')) (\<lambda>stored.
         io_if (stored \<noteq> sn_size before)
           (QuarantineError ''source file changed during quarantine encryption'') (io_ret x))))))
       (\<lambda>plain f. keeps ((dest, g b) # F) f \<and> plain = x) (\<lambda>_. keeps F)"
    proof (rule triple_then)
      show "triple ?O (sys_write i []) (\<lambda>_. ?O) (\<lambda>_. keeps F)"
        by (rule triple_conseq [OF triple_write_owned [OF i(2), where b = "g b" and i = i and x = "[]"]]) auto
    next
      show "triple ?O (io_then (sys_fsync i) (io_bind (sys_fstat s) (\<lambda>after.
         io_bind (if same_snapshot before (take_snapshot after) then stat_size dest
                  else io_raise (QuarantineError ''source file changed during quarantine encryption'')) (\<lambda>stored.
         io_if (stored \<noteq> sn_size before)
           (QuarantineError ''source file changed during quarantine encryption'') (io_ret x)))))
       (\<lambda>plain f. keeps ((dest, g b) # F) f \<and> plain = x) (\<lambda>_. keeps F)"
        unfolding sys_fsync_def
        apply (rule triple_then [where Q = ?O])
         apply (rule triple_nop; simp)
        apply (rule triple_bind [where Q = "\<lambda>_. ?O"])
         apply (rule triple_conseq [OF looksD [OF looks_fstat, of ?O]], assumption, assumption, simp)
        apply (rule triple_bind [where Q = "\<lambda>_. ?O", OF l'])
         apply (auto intro: looks_stat_size looks_raise) [1]
        apply (rule triple_if, simp)
        apply (rule triple_ret, use r in auto)
        done
    qed
    then show "triple (\<lambda>f. ?O f \<and> x = b) (io_then (sys_write i []) (io_then (sys_fsync i)
        (io_bind (sys_fstat s) (\<lambda>after.
         io_bind (if same_snapshot before (take_snapshot after) then stat_size dest
                  else io_raise (QuarantineError ''source file changed during quarantine encryption'')) (\<lambda>stored.
         io_if (stored \<noteq> sn_size before)
           (QuarantineError ''source file changed during quarantine encryption'') (io_ret x))))))
       (\<lambda>plain f. keeps ((dest, g b) # F) f \<and> plain = b) (\<lambda>_. keeps F)"
      by (intro triple_assume) (simp del: keeps_Cons)
  qed
qed

lemma triple_encrypt:
  fixes cr key nonce
  defines "g \<equiv> gcm_ctr cr key nonce"
  assumes cr: "crypto_laws cr" and src: "(src, b) \<in> set F" and dest: "dest \<notin> fst ` set F"
  shows "triple (keeps F) (encrypt_regular_source cr fuel src dest snap key nonce aad)
      (\<lambda>x f. keeps ((dest, g b) # F) f \<and> x = (hexdigest b, gcm_tag cr key nonce aad (g b))) (\<lambda>_. keeps F)"
  unfolding encrypt_regular_source_def g_def [symmetric]
proof (rule triple_bind [where Q = "\<lambda>s f. keeps F f \<and> opened s b f \<and> s < f_next f"], goal_cases)
  case 1
  show ?case
    by (rule triple_catch [where R' = "\<lambda>_. keeps F", OF open_kept [OF src]]) (auto intro: triple_raise)
next
  case (2 s)
  let ?O = "\<lambda>f. keeps F f \<and> opened s b f \<and> s < f_next f"
  show ?case
  proof (rule triple_bind [where Q = "\<lambda>x f. keeps ((dest, g b) # F) f \<and> x = b"], goal_cases)
    case 1
    show ?case
    proof (rule triple_catch [where R' = "\<lambda>_. keeps F"], goal_cases)
      case 1
      show ?case
      proof (rule triple_bind [where Q = "\<lambda>_. ?O"], goal_cases)
        case 1
        show ?case by (rule triple_conseq [OF looksD [OF looks_fstat, of ?O]]) auto
      next
        case (2 m)
        show ?case
          by (rule triple_if, simp, unfold g_def, rule triple_encrypt_body [OF cr])
      qed
    next
      case (2 e)
      show ?case
        by (rule triple_then [OF stableD [OF stable_suppress [OF stable_unlink [OF dest]]]]) (rule triple_raise)
    qed simp
  next
    case (2 x)
    have "triple (keeps ((dest, g b) # F)) (io_then (io_suppress (sys_chmod dest 384))
        (io_ret (hexdigest b, gcm_tag cr key nonce aad (g b))))
       (\<lambda>x f. keeps ((dest, g b) # F) f \<and> x = (hexdigest b, gcm_tag cr key nonce aad (g b))) (\<lambda>_. keeps F)"
      by (rule triple_then [where Q = "keeps ((dest, g b) # F)"],
          rule triple_conseq [OF stableD [OF stable_suppress [OF stable_chmod [of "(dest, g b) # F"]]]]) (auto intro: triple_ret)
    then show ?case by (intro triple_assume) (simp del: keeps_Cons)
  qed
qed

section \<open>The entry\<close>

text \<open>The names the operations use in the directory of the entries.\<close>

definition outside :: "path \<Rightarrow> (path \<times> string) list \<Rightarrow> bool" where
  "outside d F = (\<forall>p \<in> fst ` set F. \<not> below d p)"

lemma below_trans: "below a b \<Longrightarrow> below b c \<Longrightarrow> below a c"
  by (auto simp: below_def prefix_def)

lemma outside_below: "outside d F \<Longrightarrow> below d e \<Longrightarrow> outside e F"
  by (auto simp: outside_def dest: below_trans)

lemma outside_notin: "outside d F \<Longrightarrow> below d p \<Longrightarrow> p \<notin> fst ` set F"
  by (auto simp: outside_def)

lemma join_not_nil: "join_path d n \<noteq> []"
  by (simp add: join_path_def)

definition entry_files :: "string \<Rightarrow> string \<Rightarrow> (string \<times> string) list" where
  "entry_files c m = [(''metadata.json'', m), (''content.zsv2'', c)]"

lemma triple_store_copy:
  fixes cr key e b
  defines "c \<equiv> gcm_ctr cr key (ve_content_nonce e) b"
  defines "m1 \<equiv> \<lambda>dev m aad. dput ''content_tag'' (JStr (b64encode (gcm_tag cr key (ve_content_nonce e) aad c)))
        (dput ''vault'' (JObj (envelope_to_dict e (dr_protection dev))) m)"
  assumes cr: "crypto_laws cr" and src: "(ff_path fnd, b) \<in> set F"
    and out: "outside tmp F" "outside final F" and nb: "\<not> below final tmp"
  shows "triple (keeps F) (store_copy cr fuel dev fnd snap tmp final m aad e key)
      (\<lambda>s f. \<exists>raw. keeps (inside final (entry_files c raw) @ F) f \<and> indented_json_bytes (JObj s) = Inr raw
         \<and> hexdigest b = ff_sha256 fnd \<and> sign_metadata cr dev (m1 dev m aad) = Inr s) (\<lambda>_. keeps F)"
  unfolding store_copy_def
proof (rule triple_catch [where R' = "\<lambda>_. keeps F"], goal_cases)
  case 1
  let ?c = "join_path tmp ''content.zsv2''" and ?m = "join_path tmp ''metadata.json''"
  have n: "?c \<notin> fst ` set F" "?m \<notin> fst ` set ((?c, c) # F)"
    using outside_notin [OF out(1) below_join] by (auto simp: join_path_def)
  show ?case
  proof (rule triple_then [OF stableD [OF stable_suppress [OF stable_chmod]]],
      rule triple_bind [OF triple_encrypt [OF cr src n(1), folded c_def]], clarify, goal_cases)
    case (1 digest tag)
    let ?P = "\<lambda>f. keeps ((?c, c) # F) f \<and> (digest, tag) = (hexdigest b, gcm_tag cr key (ve_content_nonce e) aad c)"
    let ?Q = "\<lambda>s f. (keeps ((?c, c) # F) f \<and> hexdigest b = ff_sha256 fnd) \<and> sign_metadata cr dev (m1 dev m aad) = Inr s"
    show ?case
    proof (rule triple_if, simp, rule triple_bind [where Q = ?Q], goal_cases)
      case 1
      then show ?case by (auto intro!: triple_lift simp: m1_def c_def)
    next
      case (2 s)
      let ?R = "\<lambda>_ f. \<exists>raw. (keeps ((?m, raw) # (?c, c) # F) f \<and> indented_json_bytes (JObj s) = Inr raw)
        \<and> hexdigest b = ff_sha256 fnd \<and> sign_metadata cr dev (m1 dev m aad) = Inr s"
      show ?case
      proof (rule triple_then [where Q = "?R ()"], goal_cases)
        case 1
        show ?case
          by (intro triple_assume, rule triple_conseq [OF triple_atomic_json [OF n(2) join_not_nil]])
             (auto simp del: keeps_Cons, auto)
      next
        case 2
        have r: "triple (keeps (inside tmp (entry_files c raw) @ F)) (sys_rename_dir tmp final)
           (\<lambda>_. keeps (inside final (entry_files c raw) @ F)) (\<lambda>_. keeps (inside tmp (entry_files c raw) @ F))" for raw
          by (rule triple_rename [OF _ nb]) (use out in \<open>auto simp: outside_def\<close>)
        have i: "inside d (entry_files c raw) @ F = (join_path d ''metadata.json'', raw) # (join_path d ''content.zsv2'', c) # F"
          for d raw by (simp add: inside_def entry_files_def)
        show ?case
        proof (intro triple_ex triple_assume, goal_cases)
          case (1 raw)
          then show ?case
            by (intro triple_then [OF triple_conseq [OF r [of raw]]] triple_ret) (auto simp: i)
        qed
      qed
    qed
  qed
next
  case (2 e)
  show ?case
    by (rule triple_then [OF stableD [OF stable_suppress [OF stable_rmtree]]]) (use out in \<open>auto simp: outside_def intro: triple_raise\<close>)
qed simp

lemma root_file_unique: "root_file D dev raw \<Longrightarrow> root_file D dev' raw \<Longrightarrow> dev' = dev"
  by (auto simp: root_file_def)

text \<open>The record of a published entry is replaced by the next one, or stays.\<close>

lemma triple_write_v2:
  fixes D :: path and cr m
  defines "k \<equiv> device_key_path D"
  assumes root: "root_file D dev kraw" and n: "p \<notin> fst ` set ((k, kraw) # F)" "p \<noteq> []"
  defines "K \<equiv> \<lambda>raw. keeps ((p, raw) # (k, kraw) # F)"
  defines "new \<equiv> \<lambda>s raw. sign_metadata cr dev m = Inr s \<and> indented_json_bytes (JObj s) = Inr raw"
  shows "triple (K old) (write_v2_metadata cr p m D)
    (\<lambda>s f. \<exists>raw. K raw f \<and> new s raw) (\<lambda>_ f. K old f \<or> (\<exists>s raw. K raw f \<and> new s raw))"
  unfolding write_v2_metadata_def
proof (rule triple_bind [where Q = "\<lambda>d f. K old f \<and> d = dev"], goal_cases)
  case 1
  show ?case
    by (rule triple_conseq [OF load_known_root [of D kraw "(p, old) # F"]])
       (use root_file_unique [OF root] in \<open>auto simp: K_def k_def\<close>)
next
  case (2 d)
  show ?case
  proof (rule triple_bind [where Q = "\<lambda>s f. K old f \<and> d = dev \<and> sign_metadata cr dev m = Inr s"], goal_cases)
    case 1
    show ?case by (rule triple_lift) auto
  next
    case (2 s)
    have "triple (K old) (atomic_write_json p (JObj s) 384)
       (\<lambda>_ f. \<exists>raw. K raw f \<and> indented_json_bytes (JObj s) = Inr raw)
       (\<lambda>_ f. K old f \<or> (\<exists>raw. K raw f \<and> indented_json_bytes (JObj s) = Inr raw))"
      unfolding K_def by (rule triple_conseq [OF replace_atomic_json [OF n]]) auto
    then have "sign_metadata cr dev m = Inr s \<Longrightarrow> triple (K old) (io_then (atomic_write_json p (JObj s) 384) (io_ret s))
       (\<lambda>s f. \<exists>raw. K raw f \<and> new s raw) (\<lambda>_ f. K old f \<or> (\<exists>s raw. K raw f \<and> new s raw))"
      by (intro triple_then [where Q = "\<lambda>f. \<exists>raw. K raw f \<and> indented_json_bytes (JObj s) = Inr raw"] triple_ret)
         (auto elim!: triple_conseq simp: new_def)
    then show ?case unfolding conj_assoc [symmetric] by (intro triple_assume)
  qed
qed

section \<open>A published entry\<close>

definition entry_path_of :: "path \<Rightarrow> string \<Rightarrow> path" where
  "entry_path_of D eid = join_path (quarantine_entries_dir D) eid"

text \<open>The entry with the record \<open>m\<close>, beside further known files.\<close>

definition holds_entry ::
    "crypto \<Rightarrow> path \<Rightarrow> string \<Rightarrow> device_root \<Rightarrow> string \<Rightarrow> string \<Rightarrow> dict \<Rightarrow> (path \<times> string) list \<Rightarrow> fs \<Rightarrow> bool" where
  "holds_entry cr D eid dev kraw b m F f =
    (\<exists>mraw c. keeps ((join_path (entry_path_of D eid) ''metadata.json'', mraw)
                    # (device_key_path D, kraw) # (join_path (entry_path_of D eid) ''content.zsv2'', c) # F) f
       \<and> strict_json_loads mraw = Inr (JObj m) \<and> good_entry cr dev eid m c b \<and> root_file D dev kraw)"

text \<open>Whoever reads the files of the entry now gets the original bytes back.\<close>

definition recoverable :: "crypto \<Rightarrow> path \<Rightarrow> string \<Rightarrow> string \<Rightarrow> fs \<Rightarrow> bool" where
  "recoverable cr D eid b f = (\<exists>dev kraw m. holds_entry cr D eid dev kraw b m [] f)"

lemma holds_move:
  assumes "holds_entry cr D eid dev kraw b m F f"
    and "\<And>x y z. keeps ((join_path (entry_path_of D eid) ''metadata.json'', x) # (device_key_path D, y)
       # (join_path (entry_path_of D eid) ''content.zsv2'', z) # F) f
     \<Longrightarrow> keeps ((join_path (entry_path_of D eid) ''metadata.json'', x) # (device_key_path D, y)
       # (join_path (entry_path_of D eid) ''content.zsv2'', z) # G) g"
  shows "holds_entry cr D eid dev kraw b m G g"
  using assms(1) unfolding holds_entry_def by (elim exE conjE) (blast intro: assms(2))

lemma holds_recoverable: "holds_entry cr D eid dev kraw b m F f \<Longrightarrow> recoverable cr D eid b f"
  unfolding recoverable_def by (intro exI, erule holds_move) (auto simp: keeps_def)

lemma holds_known: "holds_entry cr D eid dev kraw b m F f \<Longrightarrow> (p, x) \<in> set F \<Longrightarrow> published x f p"
  by (auto simp: holds_entry_def keeps_def)

lemma entry_dirs:
  "below (quarantine_entries_dir D) (join_path (entry_path_of D eid) n)"
  "\<not> below (quarantine_entries_dir D) (device_key_path D)"
  by (auto simp: below_def entry_path_of_def quarantine_entries_dir_def device_key_path_def join_path_def)

lemma entry_file_names:
  "join_path (entry_path_of D eid) ''metadata.json'' \<noteq> join_path (entry_path_of D eid) ''content.zsv2''"
  "join_path (entry_path_of D eid) n \<noteq> device_key_path D"
  using entry_dirs(1) [of D eid n] entry_dirs(2) [of D] by (auto simp: join_path_def)

lemma triple_next_record:
  assumes out: "join_path (entry_path_of D eid) ''metadata.json'' \<notin> fst ` set F"
    and good: "\<And>c s. good_entry cr dev eid m c b \<Longrightarrow> sign_metadata cr dev m1 = Inr s \<Longrightarrow> good_entry cr dev eid s c b"
  shows "triple (holds_entry cr D eid dev kraw b m F)
     (write_v2_metadata cr (join_path (entry_path_of D eid) ''metadata.json'') m1 D)
     (\<lambda>s. holds_entry cr D eid dev kraw b s F) (\<lambda>_ f. \<exists>s. holds_entry cr D eid dev kraw b s F f)"
proof (rule triple_fs_exact)
  fix f0
  let ?p = "join_path (entry_path_of D eid) ''metadata.json''"
  assume f0: "holds_entry cr D eid dev kraw b m F f0"
  then obtain mraw c where k: "keeps ((?p, mraw) # (device_key_path D, kraw)
      # (join_path (entry_path_of D eid) ''content.zsv2'', c) # F) f0"
    and r: "strict_json_loads mraw = Inr (JObj m)" "good_entry cr dev eid m c b" "root_file D dev kraw"
    by (auto simp: holds_entry_def)
  let ?F = "(join_path (entry_path_of D eid) ''content.zsv2'', c) # F"
  have n: "?p \<notin> fst ` set ((device_key_path D, kraw) # ?F)"
    using out entry_file_names by auto
  have new: "holds_entry cr D eid dev kraw b s F f"
    if "keeps ((?p, raw) # (device_key_path D, kraw) # ?F) f" "sign_metadata cr dev m1 = Inr s"
      "indented_json_bytes (JObj s) = Inr raw" for s raw f
  proof -
    have g: "good_entry cr dev eid s c b" by (rule good [OF r(2) that(2)])
    have "strict_json_loads raw = Inr (JObj s)" by (rule strict_indented [OF good_entry_fields(1) [OF g] that(3)])
    with that(1) g r(3) show ?thesis unfolding holds_entry_def by blast
  qed
  show "triple (\<lambda>f. f = f0) (write_v2_metadata cr ?p m1 D)
     (\<lambda>s. holds_entry cr D eid dev kraw b s F) (\<lambda>_ f. \<exists>s. holds_entry cr D eid dev kraw b s F f)"
  proof (rule triple_conseq [OF triple_write_v2 [OF r(3) n join_not_nil, where old = mraw and cr = cr and m = m1]])
    fix f
    show "f = f0 \<Longrightarrow> keeps ((?p, mraw) # (device_key_path D, kraw) # ?F) f" using k by simp
  next
    fix s f
    assume "\<exists>raw. keeps ((?p, raw) # (device_key_path D, kraw) # ?F) f \<and>
      sign_metadata cr dev m1 = Inr s \<and> indented_json_bytes (JObj s) = Inr raw"
    then show "holds_entry cr D eid dev kraw b s F f" using new by blast
  next
    fix e f
    assume "keeps ((?p, mraw) # (device_key_path D, kraw) # ?F) f \<or>
      (\<exists>s raw. keeps ((?p, raw) # (device_key_path D, kraw) # ?F) f \<and>
        sign_metadata cr dev m1 = Inr s \<and> indented_json_bytes (JObj s) = Inr raw)"
    then show "\<exists>s. holds_entry cr D eid dev kraw b s F f"
      using new r unfolding holds_entry_def by blast
  qed
qed

lemma stable_view_look: "looks m \<Longrightarrow> triple P m (\<lambda>_. P) (\<lambda>_. P)"
  by (rule looksD)

lemma triple_remove_source:
  fixes D :: path
  assumes out: "\<not> below (quarantine_entries_dir D) src" and ek: "src \<noteq> device_key_path D"
  shows "triple (holds_entry cr D eid dev kraw b m [(src, b)])
     (remove_source cr D src snap eid (entry_path_of D eid) m)
     (\<lambda>_. holds_entry cr D eid dev kraw b m []) (\<lambda>_ f. \<exists>s. holds_entry cr D eid dev kraw b s [(src, b)] f)"
  unfolding remove_source_def
proof (rule triple_catch [where R' = "\<lambda>_. holds_entry cr D eid dev kraw b m [(src, b)]"], goal_cases)
  case 1
  let ?H = "holds_entry cr D eid dev kraw b m [(src, b)]"
  have u: "triple ?H (sys_unlink src) (\<lambda>_. holds_entry cr D eid dev kraw b m []) (\<lambda>_. ?H)"
    unfolding sys_unlink_def
  proof (rule triple_sys)
    fix f r f'
    assume h: "?H f" and e: "(case f_names f src of None \<Rightarrow> (Inl (FileNotFoundError src), f)
       | Some i \<Rightarrow> if i_kind (f_inodes f i) = Dir then (Inl (OSError ''is a directory''), f)
                  else (Inr (), f\<lparr>f_names := (f_names f)(src := None)\<rparr>)) = (r, f')"
    have "src \<noteq> join_path (entry_path_of D eid) n" for n using out entry_dirs(1) [of D eid n] by metis
    then have "holds_entry cr D eid dev kraw b m [] (f\<lparr>f_names := (f_names f)(src := None)\<rparr>)"
      by (intro holds_move [OF h] keeps_remove) (use ek in auto)
    with h e show "post (\<lambda>_. holds_entry cr D eid dev kraw b m []) (\<lambda>_. ?H) r f'"
      by (auto split: option.splits if_splits)
  qed simp
  show ?case
  proof (rule triple_bind [OF looksD [OF looks_lstat]])
    show "triple ?H (io_if (\<not> same_snapshot snap (take_snapshot x))
       (QuarantinePartialError ''authenticated recovery copy created, but source changed before removal'' eid)
       (sys_unlink src)) (\<lambda>_. holds_entry cr D eid dev kraw b m []) (\<lambda>_. ?H)" for x
      by (rule triple_if, simp, rule u)
  qed
next
  case (2 e)
  have "join_path (entry_path_of D eid) ''metadata.json'' \<notin> fst ` set [(src, b)]"
    using out entry_dirs(1) [of D eid] by auto
  from triple_next_record [OF this good_entry_state [OF _ _ entry_states_mem(2)]]
  show ?case
    by (rule triple_then [where Q = "\<lambda>f. \<exists>s. holds_entry cr D eid dev kraw b s [(src, b)] f", OF triple_conseq])
       (auto intro: triple_raise)
next
  case (3 e f)
  then show ?case by blast
qed

end
