(* ===== verification/Quarantine_Proofs.thy ===== *)
theory Quarantine_Proofs
  imports Quarantine_Steps Atomic_Write
begin

text \<open>
  The guarantee of \<open>quarantine_finding\<close>: whatever call fails, the original file is still there, or
  the entry holds a good recovery copy of it.
\<close>

section \<open>The whole run\<close>

lemma root_free_step:
  assumes "\<And>F. stable F m"
    and "triple (\<lambda>f. fs_ok f \<and> view f (device_key_path D) = None) m
        (\<lambda>_ f. view f (device_key_path D) = None) (\<lambda>_ f. view f (device_key_path D) = None)"
  shows "triple (root_free D F) m (\<lambda>_. root_free D F) (\<lambda>_. root_free D F)"
proof (rule triple_fs_exact)
  fix f0
  let ?k = "device_key_path D"
  assume f0: "root_free D F f0"
  show "triple (\<lambda>f. f = f0) m (\<lambda>_. root_free D F) (\<lambda>_. root_free D F)"
  proof (cases "view f0 ?k = None")
    case True
    show ?thesis
      by (rule triple_conseq [OF triple_conj [OF stableD [OF assms(1)] assms(2)]])
         (use True f0 in \<open>auto simp: root_free_def keeps_def\<close>)
  next
    case False
    with f0 obtain raw where "keeps ((?k, raw) # F) f0" by (auto simp: root_free_def)
    then show ?thesis
      by (intro triple_conseq [OF stableD [OF assms(1) [of "(?k, raw) # F"]]]) (auto simp: root_free_def)
  qed
qed

lemma root_free_mkdirs: "triple (root_free D F) (sys_mkdirs (quarantine_entries_dir D)) (\<lambda>_. root_free D F) (\<lambda>_. root_free D F)"
proof (rule root_free_step [OF stable_mkdirs], rule triple_fs_exact)
  fix f0
  let ?d = "quarantine_entries_dir D" and ?k = "device_key_path D"
  assume f0: "fs_ok f0 \<and> view f0 ?k = None"
  have "\<not> length ?k \<le> length ?d"
    by (simp add: device_key_path_def quarantine_entries_dir_def join_path_def)
  then show "triple (\<lambda>f. f = f0) (sys_mkdirs ?d) (\<lambda>_ f. view f ?k = None) (\<lambda>_ f. view f ?k = None)"
    by (intro triple_conseq [OF triple_mkdirs [of f0 ?d]]) (use f0 in auto, metis)
qed

lemma root_free_chmod: "triple (root_free D F) (sys_chmod p m) (\<lambda>_. root_free D F) (\<lambda>_. root_free D F)"
proof (rule root_free_step [OF stable_chmod])
  show "triple (\<lambda>f. fs_ok f \<and> view f (device_key_path D) = None) (sys_chmod p m)
        (\<lambda>_ f. view f (device_key_path D) = None) (\<lambda>_ f. view f (device_key_path D) = None)"
    unfolding sys_chmod_def by (rule triple_sys) (auto simp: view_names split: sum.splits)
qed

lemma root_free_mkdtemp:
  "triple (root_free D F) (sys_mkdtemp (quarantine_entries_dir D) pre)
     (\<lambda>p f. root_free D F f \<and> (\<exists>s. p = join_path (quarantine_entries_dir D) (pre @ s))) (\<lambda>_. root_free D F)"
proof -
  let ?d = "quarantine_entries_dir D" and ?k = "device_key_path D"
  have st: "stable F (sys_mkdtemp ?d pre)" for F
    unfolding stable_def by (rule triple_conseq [OF triple_mkdtemp]) auto
  have "triple (root_free D F) (sys_mkdtemp ?d pre) (\<lambda>_. root_free D F) (\<lambda>_. root_free D F)"
  proof (rule root_free_step [OF st], rule tripleI)
    fix w r w'
    assume w: "calm w" "fs_ok (w_fs w) \<and> view (w_fs w) ?k = None" and e: "sys_mkdtemp ?d pre w = (r, w')"
    define p where "p = join_path ?d (pre @ w_fresh w (w_tick w))"
    have "?k \<noteq> p" using entry_dirs(2) [of D] by (auto simp: p_def below_join)
    then have "triple (\<lambda>f. view f ?k = None) (io_bind (sys (make_dir p)) (\<lambda>_. io_ret p))
        (\<lambda>_ f. view f ?k = None) (\<lambda>_ f. view f ?k = None)"
      by (intro triple_bind [where Q = "\<lambda>_ f. view f ?k = None"] triple_sys triple_ret)
         (auto simp: make_dir_def view_names new_inode_def split: if_splits)
    moreover have "io_bind (sys (make_dir p)) (\<lambda>_. io_ret p) w = (r, w')"
      using e by (simp add: sys_mkdtemp_def p_def Let_def)
    ultimately show "calm w' \<and> post (\<lambda>_ f. view f ?k = None) (\<lambda>_ f. view f ?k = None) r (w_fs w')"
      using w by (blast dest: tripleX)
  qed
  from triple_conj [OF this triple_mkdtemp [of F ?d pre]] show ?thesis
    by (rule triple_conseq) (auto simp: root_free_def)
qed

lemma dot_not_hex: "\<not> is_hex_lower (CHR ''.'')"
  by (simp add: is_hex_lower_def ord_def)

lemma uuid_head: "validate_entry_id s = Inr eid \<Longrightarrow> eid \<noteq> [] \<and> hd eid \<noteq> CHR ''.''"
proof -
  assume "validate_entry_id s = Inr eid"
  then obtain n where n: "eid = uuid_str n"
    by (auto simp: validate_entry_id_def split: option.splits if_splits)
  have "is_hex_lower (hex_digit (n div 16 ^ 31 mod 16))" by (rule hex_digit_lower) simp
  moreover have "uuid_str n = hex_digit (n div 16 ^ 31 mod 16) # tl (uuid_str n)"
    by (simp add: uuid_str_def Let_def upt_conv_Cons)
  ultimately show ?thesis unfolding n by (metis list.distinct(1) list.sel(1) dot_not_hex)
qed

lemma root_free_err:
  assumes "triple (root_free D F) m Q (\<lambda>_. root_free D F)" and "\<And>e f. keeps F f \<Longrightarrow> R e f"
  shows "triple (root_free D F) m Q R"
  by (rule triple_conseq [OF assms(1)]) (use assms(2) in \<open>auto simp: root_free_def\<close>)

lemma triple_inspect:
  assumes "view f0 src = Some d" and "i_kind d = Reg"
  shows "triple (\<lambda>f. f = f0) (inspect_regular_source src)
     (\<lambda>snap f. f = f0 \<and> sn_size snap = length (i_data d) \<and> sn_mode snap = i_mode d \<and> sn_modified_ns snap = i_mtime d)
     (\<lambda>_ f. f = f0)"
  unfolding inspect_regular_source_def
proof (rule triple_bind [where Q = "\<lambda>m f. f = f0 \<and> snd m = d"], goal_cases)
  case 1
  have "triple (\<lambda>f. f = f0) (sys_lstat src) (\<lambda>m f. f = f0 \<and> snd m = d) (\<lambda>_ f. f = f0)"
    unfolding sys_lstat_def by (rule triple_look) (use assms in \<open>auto simp: view_def\<close>)
  then show ?case by (rule triple_catch [where R' = "\<lambda>_ f. f = f0"]) (auto intro: triple_raise)
next
  case (2 m)
  show ?case by (intro triple_assume triple_if triple_ret) (simp_all add: take_snapshot_def)
qed

lemma triple_quarantine:
  fixes D :: path
  defines "k \<equiv> device_key_path D" and "E \<equiv> quarantine_entries_dir D"
  assumes cr: "crypto_laws cr" and rnd: "random_ok (qi_random inp)" and eid: "validate_entry_id s = Inr (qi_entry_id inp)"
    and t: "ends_with (qi_created_at inp) ''Z''"
    and d: "view f0 (ff_path fnd) = Some d" "i_kind d = Reg"
    and ints: "list_all (\<lambda>i. wf_json (JInt i)) [int (length (i_data d)), int (i_mode d), i_mtime d]"
    and out: "\<not> below E (ff_path fnd)" and ek: "ff_path fnd \<noteq> k"
    and key: "view f0 k = None \<or> (\<exists>raw. published raw f0 k)" and ok: "fs_ok f0"
  shows "triple (\<lambda>f. f = f0) (quarantine_finding cr inp fnd D)
    (\<lambda>_. recoverable cr D (qi_entry_id inp) (i_data d))
    (\<lambda>_ f. published (i_data d) f (ff_path fnd) \<or> recoverable cr D (qi_entry_id inp) (i_data d) f)"
    (is "triple _ _ ?Q ?R")
proof -
  let ?src = "ff_path fnd" and ?id = "qi_entry_id inp" and ?b = "i_data d"
  let ?S = "[(?src, ?b)]"
  have start: "root_free D ?S f0"
    using key ok d by (auto simp: root_free_def keeps_def published_def k_def)
  have err: "keeps ?S f \<Longrightarrow> ?R e f" for f e by simp
  have tmp: "\<not> below (join_path E ?id) (join_path E ((''.'' @ ?id @ ''.'') @ x))" for x
    using uuid_head [OF eid] by (cases ?id) (auto simp: below_def join_path_def)
  have oE: "outside E ((k, raw) # ?S)" for raw
    using out entry_dirs(2) [of D] by (auto simp: outside_def k_def E_def)
  have oD: "outside (join_path E x) ((k, raw) # ?S)" for x raw
    by (rule outside_below [OF oE below_join])
  have store: "triple (keeps ((k, raw) # ?S))
     (let (envelope, content_key) = create_envelope cr dev ?id aad (qi_random inp) in
       io_bind (store_copy cr (qi_fuel inp) dev fnd snap tmp (join_path E ?id) m0 aad envelope content_key) (\<lambda>signed.
       io_then (remove_source cr D ?src snap ?id (join_path E ?id) signed)
         (write_v2_metadata cr (join_path (join_path E ?id) ''metadata.json'')
           (dput ''quarantined_at'' (JStr (qi_quarantined_at inp)) (dput ''state'' (JStr ''quarantined'') signed)) D))) ?Q ?R"
    if dev: "root_file D dev raw" and m0: "copy_ready_metadata ?id (qi_created_at inp) fnd snap = Inr m0"
      and aad: "canonical_json_bytes (JObj (aad_projection m0)) = Inr aad"
      and snap: "sn_size snap = length ?b" "sn_mode snap = i_mode d" "sn_modified_ns snap = i_mtime d"
      and tm: "tmp = join_path E ((''.'' @ ?id @ ''.'') @ x)" for dev raw m0 aad snap tmp x
  proof -
    obtain e ck where e: "create_envelope cr dev ?id aad (qi_random inp) = (e, ck)" by force
    have p: "dr_protection dev = ''filesystem-0600-preview''"
      using dev parse_protection by (auto simp: root_file_def)
    let ?H = "\<lambda>m. holds_entry cr D ?id dev raw ?b m"
    have H: "join_path E ?id = entry_path_of D ?id" by (simp add: E_def entry_path_of_def)
    have sto: "triple (keeps ((k, raw) # ?S)) (store_copy cr (qi_fuel inp) dev fnd snap tmp (join_path E ?id) m0 aad e ck)
       (\<lambda>m. ?H m ?S) ?R"
    proof (rule triple_conseq [OF triple_store_copy [OF cr _ _ oD, where b = ?b]])
      show "(?src, ?b) \<in> set ((k, raw) # ?S)" by simp
      show "outside tmp ((k, raw) # ?S)" unfolding tm by (rule oD)
      show "\<not> below (join_path E ?id) tmp" unfolding tm by (rule tmp)
    next
      fix m f
      let ?c = "gcm_ctr cr ck (ve_content_nonce e) ?b"
      let ?m1 = "dput ''content_tag'' (JStr (b64encode (gcm_tag cr ck (ve_content_nonce e) aad ?c)))
         (dput ''vault'' (JObj (envelope_to_dict e (dr_protection dev))) m0)"
      assume "\<exists>x. keeps (inside (join_path E ?id) (entry_files ?c x) @ (k, raw) # ?S) f
        \<and> indented_json_bytes (JObj m) = Inr x \<and> hexdigest ?b = ff_sha256 fnd \<and> sign_metadata cr dev ?m1 = Inr m"
      then obtain x where x: "keeps (inside (join_path E ?id) (entry_files ?c x) @ (k, raw) # ?S) f"
        "indented_json_bytes (JObj m) = Inr x" "hexdigest ?b = ff_sha256 fnd" "sign_metadata cr dev ?m1 = Inr m" by blast
      have g: "good_entry cr dev ?id m ?c ?b"
        by (rule first_entry_good [OF cr rnd p m0 t _ aad e x(3) _ refl refl x(4)]) (use ints snap in simp_all)
      have "strict_json_loads x = Inr (JObj m)" by (rule strict_indented [OF good_entry_fields(1) [OF g] x(2)])
      moreover have "keeps ((join_path (entry_path_of D ?id) ''metadata.json'', x) # (device_key_path D, raw)
         # (join_path (entry_path_of D ?id) ''content.zsv2'', ?c) # ?S) f"
        using x(1) by (auto simp: inside_def entry_files_def H k_def)
      ultimately show "?H m ?S f" using g dev unfolding holds_entry_def by blast
    qed auto
    have kept: "?H m ?S f \<Longrightarrow> ?R e f" for m f e by (auto dest: holds_known)
    have rem: "triple (?H m ?S) (remove_source cr D ?src snap ?id (join_path E ?id) m) (\<lambda>_. ?H m []) ?R" for m
      unfolding H by (rule triple_conseq [OF triple_remove_source])
        (use out ek kept in \<open>auto simp: E_def k_def\<close>)
    have fin: "triple (?H m []) (write_v2_metadata cr (join_path (join_path E ?id) ''metadata.json'')
           (dput ''quarantined_at'' (JStr (qi_quarantined_at inp)) (dput ''state'' (JStr ''quarantined'') m)) D) ?Q ?R" for m
      unfolding H
      by (rule triple_conseq [OF triple_next_record [where D = D and F = "[]"]])
         (auto intro: good_entry_quarantined holds_recoverable)
    show ?thesis
      unfolding e by (simp only: Let_def prod.case)
        (intro triple_bind [OF sto] triple_then [OF rem] fin)
  qed
  show ?thesis
    unfolding quarantine_finding_def Let_def E_def [symmetric]
  proof (rule triple_if, use start err in \<open>simp add: root_free_def\<close>, rule triple_bind [where Q = "\<lambda>snap f. f = f0 \<and> sn_size snap = length ?b \<and> sn_mode snap = i_mode d \<and> sn_modified_ns snap = i_mtime d"],
      rule triple_conseq [OF triple_inspect [OF d]], simp, simp, use start err in \<open>simp add: root_free_def\<close>)
    fix snap :: snapshot
    let ?ok = "sn_size snap = length ?b \<and> sn_mode snap = i_mode d \<and> sn_modified_ns snap = i_mtime d"
    let ?rest = "io_if (sn_size snap \<noteq> ff_size fnd) (QuarantineError ''source no longer matches the verified scan finding'')
      (io_then (sys_mkdirs E)
      (io_then (io_suppress (sys_chmod E 448))
      (io_bind (sys_mkdtemp E (''.'' @ ?id @ ''.'')) (\<lambda>temporary.
       io_bind (load_device_root D True (qi_device_key inp)) (\<lambda>device.
       io_bind (io_lift (copy_ready_metadata ?id (qi_created_at inp) fnd snap)) (\<lambda>metadata.
       io_bind (io_lift (canonical_json_bytes (JObj (aad_projection metadata)))) (\<lambda>aad.
       case create_envelope cr device ?id aad (qi_random inp) of (envelope, content_key) \<Rightarrow>
       io_bind (store_copy cr (qi_fuel inp) device fnd snap temporary (join_path E ?id) metadata aad envelope content_key) (\<lambda>signed.
       io_then (remove_source cr D ?src snap ?id (join_path E ?id) signed)
         (write_v2_metadata cr (join_path (join_path E ?id) ''metadata.json'')
           (dput ''quarantined_at'' (JStr (qi_quarantined_at inp)) (dput ''state'' (JStr ''quarantined'') signed)) D)))))))))"
    have "triple (root_free D ?S) ?rest ?Q ?R" if snap: ?ok
    proof (rule triple_if, use err in \<open>simp add: root_free_def\<close>,
        rule triple_then [OF root_free_err [OF root_free_mkdirs [of D, folded E_def] err]], assumption,
        rule triple_then [OF root_free_err [OF triple_suppress_same [OF root_free_chmod] err]], assumption,
        rule triple_bind [OF root_free_err [OF root_free_mkdtemp [of D, folded E_def] err]], assumption, rule triple_assume, elim exE)
      fix tmp x
      assume tm: "tmp = join_path E ((''.'' @ ?id @ ''.'') @ x)"
      show "triple (root_free D ?S)
        (io_bind (load_device_root D True (qi_device_key inp)) (\<lambda>device.
         io_bind (io_lift (copy_ready_metadata ?id (qi_created_at inp) fnd snap)) (\<lambda>metadata.
         io_bind (io_lift (canonical_json_bytes (JObj (aad_projection metadata)))) (\<lambda>aad.
         case create_envelope cr device ?id aad (qi_random inp) of (envelope, content_key) \<Rightarrow>
         io_bind (store_copy cr (qi_fuel inp) device fnd snap tmp (join_path E ?id) metadata aad envelope content_key) (\<lambda>signed.
         io_then (remove_source cr D ?src snap ?id (join_path E ?id) signed)
           (write_v2_metadata cr (join_path (join_path E ?id) ''metadata.json'')
             (dput ''quarantined_at'' (JStr (qi_quarantined_at inp)) (dput ''state'' (JStr ''quarantined'') signed)) D)))))) ?Q ?R"
        apply (rule triple_bind [OF triple_fail [OF load_any_root [of D] err]])
          apply (use ek in \<open>simp add: k_def\<close>)
         apply assumption
        apply (fold k_def, rule triple_ex, rule triple_assume)
        subgoal premises dev for dev raw
          apply (rule triple_lift_bind, simp add: err)
          apply (rule triple_lift_bind, simp add: err)
          apply (rule store [OF dev _ _ _ _ _ tm, unfolded Let_def])
          using snap by auto
        done
    qed
    then show "triple (\<lambda>f. f = f0 \<and> ?ok) ?rest ?Q ?R"
      by (intro triple_assume) (auto intro: triple_pre start)
  qed
qed


definition ex_entry_id :: string where
  "ex_entry_id = ''00000000-0000-0000-0000-000000000000''"

lemma ex_entry_id: "validate_entry_id ex_entry_id = Inr ex_entry_id"
proof -
  define t where "t = remove_all ''-'' (strip_chars (\<lambda>c. c = CHR ''{'' \<or> c = CHR ''}'')
           (remove_all ''uuid:'' (remove_all ''urn:'' ex_entry_id)))"
  have t: "t = replicate 32 (CHR ''0'')" unfolding t_def by code_simp
  have "int_of_text 16 (replicate 32 (CHR ''0'')) = Some 0" by code_simp
  moreover have "py_len (replicate 32 (CHR ''0'')) = 32" by code_simp
  ultimately have "uuid_of_text ex_entry_id = Some 0"
    by (simp add: uuid_of_text_def t_def [symmetric] t)
  moreover have "uuid_str 0 = ex_entry_id"
  proof -
    have "hex_digit 0 = CHR ''0''" by code_simp
    then have "uuid_str 0 = (let h = replicate 32 (CHR ''0'') in take 8 h @ ''-'' @ take 4 (drop 8 h) @ ''-''
       @ take 4 (drop 12 h) @ ''-'' @ take 4 (drop 16 h) @ ''-'' @ drop 20 h)"
      by (simp add: uuid_str_def map_replicate_const)
    also have "\<dots> = ex_entry_id" by code_simp
    finally show ?thesis .
  qed
  moreover have "lower ex_entry_id = ex_entry_id" by code_simp
  ultimately show ?thesis by (simp add: validate_entry_id_def)
qed

definition ex_vault_world :: world where
  "ex_vault_world = empty_world\<lparr>w_fs := new_inode (w_fs empty_world) ''/s/x'' (file_inode ''hello'')\<rparr>"

definition ex_finding :: file_finding where
  "ex_finding = \<lparr>ff_path = ''/s/x'', ff_sha256 = hexdigest ''hello'', ff_size = 5, ff_modified_at = ''m'',
     ff_severity = Low, ff_matches = []\<rparr>"

definition ex_input :: quarantine_input where
  "ex_input = \<lparr>qi_fuel = 3, qi_entry_id = ex_entry_id, qi_created_at = ''2024-01-01T00:00:00Z'',
     qi_quarantined_at = ''2024-01-01T00:00:00Z'', qi_device_key = replicate 32 (CHR ''d''), qi_random = ex_random\<rparr>"


end
