(* ===== verification/Restore_Proofs.thy ===== *)
theory Restore_Proofs
  imports Quarantine_Proofs
begin

text \<open>
  The guarantees of \<open>restore_entry\<close>: it changes no existing file but the record of the entry,
  and what it restores from a good entry is the original content.
\<close>

section \<open>Reading calls\<close>

lemma looks_open_rb: "looks (sys_open_rb p)"
  unfolding sys_open_rb_def by (rule looks_sys)

lemma looks_then: "looks m \<Longrightarrow> looks k \<Longrightarrow> looks (io_then m k)"
  unfolding io_then_def by (rule looks_bind)

lemma looks_nop: "looks sys_nop"
  unfolding sys_nop_def by (rule looks_sys)

lemma looks_prod: "(\<And>a b. looks (f a b)) \<Longrightarrow> looks (case x of (a, b) \<Rightarrow> f a b)"
  by (cases x) simp

lemma looks_symlink: "looks (path_is_symlink p)"
  unfolding path_is_symlink_def by (auto intro!: looks_catch looks_bind looks_lstat looks_ret looks_prod)

lemma looks_lstat_dir: "looks (sys_lstat_dir p)"
  unfolding sys_lstat_dir_def
  by (cases "p = []") (auto intro!: looks_bind looks_lstat looks_ret looks_prod looks_nop)

lemma looks_read_root: "looks (read_device_root D)"
  unfolding read_device_root_def by (intro looks_bind looks_catch looks_read_bytes looks_lift looks_raise)

lemma looks_load_root: "looks (load_device_root D False rnd)"
  unfolding load_device_root_def Let_def
proof (rule looks_bind [OF looks_exists])
  fix there
  show "looks (io_if (\<not> there \<and> \<not> False) (QuarantineError ''device root key is unavailable'')
     (io_then (if there then io_ret () else create_device_root D rnd) (read_device_root D)))"
    by (cases there) (simp_all add: looks_raise looks_then looks_ret looks_read_root)
qed

lemma looks_read_metadata: "looks (read_metadata cr entry name D)"
  unfolding read_metadata_def read_metadata_file_def
  by (auto intro!: looks_bind looks_catch looks_stat_size looks_if looks_read_bytes looks_lift looks_raise
      looks_load_root looks_ret)

lemma looks_regular_content: "looks (validate_regular_content p)"
  unfolding validate_regular_content_def by (intro looks_bind looks_catch looks_lstat looks_raise looks_if looks_ret)

lemma looks_check_target: "looks (check_target t)"
  unfolding check_target_def
  by (auto intro!: looks_bind looks_exists looks_ret looks_symlink looks_if looks_catch looks_lstat_dir looks_raise)

section \<open>Writing to the temporary file\<close>

text \<open>A computation that only writes to an owned file.\<close>

definition writes :: "path \<Rightarrow> nat \<Rightarrow> 'a io \<Rightarrow> bool" where
  "writes p i m = (\<forall>F. p \<notin> fst ` set F \<longrightarrow>
     triple (\<lambda>f. keeps F f \<and> (\<exists>c. owns p i c f)) m (\<lambda>_ f. keeps F f \<and> (\<exists>c. owns p i c f))
       (\<lambda>_ f. keeps F f \<and> (\<exists>c. owns p i c f)))"

lemma writesD: "writes p i m \<Longrightarrow> p \<notin> fst ` set F \<Longrightarrow>
    triple (\<lambda>f. keeps F f \<and> (\<exists>c. owns p i c f)) m (\<lambda>_ f. keeps F f \<and> (\<exists>c. owns p i c f))
       (\<lambda>_ f. keeps F f \<and> (\<exists>c. owns p i c f))"
  by (simp add: writes_def)

lemma writes_looks: "looks m \<Longrightarrow> writes p i m"
  by (simp add: writes_def looks_def)

lemma writes_bind: "writes p i m \<Longrightarrow> (\<And>x. writes p i (k x)) \<Longrightarrow> writes p i (io_bind m k)"
  unfolding writes_def by (blast intro: triple_bind)

lemma writes_then: "writes p i m \<Longrightarrow> writes p i k \<Longrightarrow> writes p i (io_then m k)"
  unfolding io_then_def by (rule writes_bind)

lemma writes_if: "writes p i m \<Longrightarrow> writes p i (io_if b e m)"
  by (cases b) (simp_all add: writes_looks looks_raise)

lemma writes_catch: "writes p i m \<Longrightarrow> (\<And>e. writes p i (h e)) \<Longrightarrow> writes p i (io_catch m q h)"
  unfolding writes_def by (blast intro: triple_catch)

lemma writes_prod: "(\<And>a b. writes p i (f a b)) \<Longrightarrow> writes p i (case x of (a, b) \<Rightarrow> f a b)"
  by (cases x) simp

lemma writes_write: "writes p i (sys_write i d)"
  unfolding writes_def
proof (intro allI impI)
  fix F :: "(path \<times> string) list"
  assume "p \<notin> fst ` set F"
  then have "triple (\<lambda>f. \<exists>c. keeps F f \<and> owns p i c f) (sys_write i d) (\<lambda>_ f. keeps F f \<and> (\<exists>c. owns p i c f))
     (\<lambda>_ f. keeps F f \<and> (\<exists>c. owns p i c f))"
    by (intro triple_ex triple_conseq [OF triple_write_owned]) auto
  then show "triple (\<lambda>f. keeps F f \<and> (\<exists>c. owns p i c f)) (sys_write i d) (\<lambda>_ f. keeps F f \<and> (\<exists>c. owns p i c f))
     (\<lambda>_ f. keeps F f \<and> (\<exists>c. owns p i c f))" by simp
qed

lemma writes_pump: "writes p i (pump g n s (Some i) got)"
proof (induction n arbitrary: got)
  case (Suc n)
  then show ?case
    by (auto intro!: writes_bind writes_then writes_write writes_looks [OF looks_read] writes_looks [OF looks_ret])
qed (simp add: writes_looks looks_raise)

lemma looks_pump_None: "looks (pump g n s None got)"
  by (induction n arbitrary: got) (auto intro!: looks_bind looks_read looks_then looks_ret looks_raise)

lemma looks_hash: "looks (hash_regular_file n p)"
  unfolding hash_regular_file_def
  by (intro looks_bind looks_regular_content looks_catch looks_open_rb looks_pump_None looks_ret looks_raise)

lemma writes_decrypt: "writes p i (decrypt_content cr n content i m D)"
  unfolding decrypt_content_def Let_def
  by (intro writes_bind writes_looks [OF looks_regular_content] writes_if writes_looks [OF looks_load_root]
      writes_looks [OF looks_lift] writes_catch writes_looks [OF looks_open_rb] writes_pump writes_then writes_write
      writes_looks [OF looks_ret] writes_looks [OF looks_raise])

lemma writes_legacy: "writes p i (copy_legacy_content n content i)"
  unfolding copy_legacy_content_def
  by (intro writes_bind writes_looks [OF looks_hash] writes_prod writes_catch writes_looks [OF looks_open_rb]
      writes_pump writes_if writes_looks [OF looks_ret] writes_looks [OF looks_raise])

section \<open>Publishing the restored file\<close>

lemma chmod_owned:
  "triple (\<lambda>f. keeps F f \<and> owns p i c f) (sys_chmod q m) (\<lambda>_ f. keeps F f \<and> owns p i c f) (\<lambda>_ f. keeps F f \<and> owns p i c f)"
proof (rule triple_conj [OF stableD [OF stable_chmod]])
  show "triple (owns p i c) (sys_chmod q m) (\<lambda>_. owns p i c) (\<lambda>_. owns p i c)"
    unfolding sys_chmod_def by (rule triple_sys) (auto simp: owns_def split: sum.splits)
qed

text \<open>Whatever the temporary file holds is what the target holds afterwards.\<close>

lemma triple_publish:
  assumes tmp: "tmp \<notin> fst ` set F"
  shows "triple (\<lambda>f. keeps F f \<and> owns tmp i c f) (publish_restored inp m tmp t)
     (\<lambda>_. keeps ((t, c) # F)) (\<lambda>_. keeps F)"
  unfolding publish_restored_def
proof (rule triple_lift_bind, simp,
    rule triple_then [where Q = "\<lambda>f. keeps F f \<and> owns tmp i c f"], goal_cases)
  case (1 mode)
  show ?case
    by (rule triple_conseq [OF triple_suppress_same [OF chmod_owned]]) auto
next
  case (2 mode)
  show ?case
  proof (rule triple_then [where Q = "\<lambda>f. keeps ((t, c) # F) f \<and> t \<noteq> tmp"], goal_cases)
    case 1
    show ?case
    proof (rule triple_catch [where R' = "\<lambda>_. keeps F"])
      show "triple (\<lambda>f. keeps F f \<and> owns tmp i c f) (sys_link tmp t)
         (\<lambda>_ f. keeps ((t, c) # F) f \<and> t \<noteq> tmp) (\<lambda>_. keeps F)"
        by (rule triple_conseq [OF triple_link [OF tmp, where t = t]]) (auto simp del: keeps_Cons)
    qed (simp_all add: triple_raise)
  next
    case 2
    have u: "t \<noteq> tmp \<Longrightarrow> triple (keeps ((t, c) # F)) (sys_unlink tmp) (\<lambda>_. keeps ((t, c) # F)) (\<lambda>_. keeps F)"
      by (rule triple_conseq [OF stableD [OF stable_unlink [of tmp "(t, c) # F"]]]) (use tmp in auto)
    show ?case
    proof (rule triple_assume, rule triple_then [OF u], assumption, rule triple_lift_bind, goal_cases)
      case (2 x)
      show ?case
        by (rule triple_conseq [OF stableD [OF stable_suppress [OF stable_utime [of "(t, c) # F"]]]]) auto
    qed auto
  qed
qed

lemma triple_restore_content:
  assumes body: "\<And>i tmp. tmp \<notin> fst ` set F \<Longrightarrow> triple (\<lambda>f. keeps F f \<and> owns tmp i [] f)
      (if is_v2 m then decrypt_content cr (ri_fuel inp) (join_path entry ''content.zsv2'') i m D
        else copy_legacy_content (ri_fuel inp) (join_path entry ''content.bin'') i)
      (\<lambda>x f. \<exists>c. (keeps F f \<and> owns tmp i c f) \<and> V x c) (\<lambda>_. keeps F)"
  shows "triple (keeps F) (restore_content cr inp entry m D t)
     (\<lambda>x f. \<exists>c. keeps ((t, c) # F) f \<and> V x c) (\<lambda>_. keeps F)"
  unfolding restore_content_def
proof (rule triple_bind [OF triple_temp_file], clarify, goal_cases)
  case (1 i tmp)
  have "triple (\<lambda>f. keeps F f \<and> owns tmp i [] f)
     (io_catch (io_bind (if is_v2 m then decrypt_content cr (ri_fuel inp) (join_path entry ''content.zsv2'') i m D
        else copy_legacy_content (ri_fuel inp) (join_path entry ''content.bin'') i) (\<lambda>(digest, n).
       io_then (sys_fsync i)
       (io_if (JStr digest \<noteq> dget m ''sha256'' \<or> \<not> py_eq (dget m ''size'') (JInt (int n)))
         (QuarantineError ''quarantine content failed its SHA-256 or size check'')
       (io_then (publish_restored inp m tmp t) (io_ret (digest, n))))))
      (\<lambda>_. True)
      (\<lambda>e. io_then (io_suppress (sys_unlink tmp)) (io_raise e)))
     (\<lambda>x f. \<exists>c. keeps ((t, c) # F) f \<and> V x c) (\<lambda>_. keeps F)" (is "triple _ ?m ?Q _")
    if tmp: "tmp \<notin> fst ` set F"
  proof (rule triple_catch [where R' = "\<lambda>_. keeps F"], goal_cases)
    case 1
    show ?case
    proof (rule triple_bind [OF body [OF tmp]], clarify, rule triple_ex, rule triple_assume, goal_cases)
      case (1 digest n c)
      show ?case
      proof (rule triple_then [where Q = "\<lambda>f. keeps F f \<and> owns tmp i c f"], goal_cases)
        case 1
        show ?case unfolding sys_fsync_def by (rule triple_nop) auto
      next
        case 2
        show ?case
          by (rule triple_if, simp, rule triple_then [OF triple_publish [OF tmp]], rule triple_ret)
             (use 1 in auto)
      qed
    qed
  next
    case (2 e)
    show ?case by (rule triple_then [OF stableD [OF stable_suppress [OF stable_unlink [OF tmp]]]]) (rule triple_raise)
  qed simp
  then have "triple (\<lambda>f. (keeps F f \<and> owns tmp i [] f) \<and> tmp \<notin> fst ` set F) ?m ?Q (\<lambda>_. keeps F)"
    by (rule triple_assume)
  then show ?case by (rule triple_pre) blast
qed

section \<open>The whole run\<close>

definition entry_record :: "path \<Rightarrow> string \<Rightarrow> path" where
  "entry_record D eid = join_path (entry_path_of D eid) ''metadata.json''"

lemma stable_write_v2:
  assumes "p \<notin> fst ` set F" and "p \<noteq> []"
  shows "triple (keeps F) (write_v2_metadata cr p m D) (\<lambda>_. keeps F) (\<lambda>_. keeps F)"
  unfolding write_v2_metadata_def
  by (rule triple_bind [OF looksD [OF looks_load_root, of "keeps F"]], rule triple_lift_bind, simp,
      rule triple_then [where Q = "keeps F"], rule triple_conseq [OF triple_atomic_json [OF assms]])
     (auto intro: triple_ret)

lemma body_stable:
  assumes "tmp \<notin> fst ` set F"
  shows "triple (\<lambda>f. keeps F f \<and> owns tmp i [] f)
      (if is_v2 m then decrypt_content cr n (join_path entry ''content.zsv2'') i m D
        else copy_legacy_content n (join_path entry ''content.bin'') i)
      (\<lambda>x f. \<exists>c. (keeps F f \<and> owns tmp i c f) \<and> True) (\<lambda>_. keeps F)"
proof -
  have "writes tmp i (if is_v2 m then decrypt_content cr n (join_path entry ''content.zsv2'') i m D
        else copy_legacy_content n (join_path entry ''content.bin'') i)"
    by (simp add: writes_decrypt writes_legacy)
  from writesD [OF this assms] show ?thesis by (rule triple_conseq) auto
qed

lemma triple_restore:
  assumes "\<And>eid. validate_entry_id s = Inr eid \<Longrightarrow> entry_record D eid \<notin> fst ` set F"
  shows "triple (keeps F) (restore_entry cr inp s D dest) (\<lambda>_. keeps F) (\<lambda>_. keeps F)"
  unfolding restore_entry_def Let_def entry_path_of_def [symmetric] entry_record_def [symmetric]
proof (rule triple_lift_bind, assumption, rule triple_bind [OF looksD [OF looks_read_metadata, of "keeps F"]],
    rule triple_lift_bind, assumption, rule triple_then [OF looksD [OF looks_check_target, of "keeps F"]], goal_cases)
  case (1 eid m t)
  have n: "entry_record D eid \<notin> fst ` set F" "entry_record D eid \<noteq> []"
    by (rule assms [OF 1(1)], simp add: entry_record_def join_path_def)
  show ?case
  proof (rule triple_bind [where Q = "\<lambda>_. keeps F"], rule triple_conseq [OF triple_restore_content [OF body_stable]], goal_cases)
    case (5 x)
    have a: "triple (keeps F) (atomic_write_json (entry_record D eid) v 384) (\<lambda>_. keeps F) (\<lambda>_. keeps F)" for v
      by (rule triple_conseq [OF triple_atomic_json [OF n]]) auto
    have b: "triple (keeps F) (io_bind (write_v2_metadata cr (entry_record D eid) v D) (\<lambda>_. io_ret ())) (\<lambda>_. keeps F) (\<lambda>_. keeps F)" for v
      by (rule triple_bind [OF stable_write_v2 [OF n]]) (rule triple_ret)
    show ?case
      by (cases x) (auto simp: Let_def intro!: triple_then [where Q = "keeps F"] triple_ret a b)
  qed auto
qed

text \<open>
  C37: Restoring an entry never changes a file that exists: whatever call fails and whatever the
  entry holds, every regular file keeps its content, the record of the entry itself apart.
\<close>

theorem restore_never_overwrites:
  assumes "calm w" and "fs_ok (w_fs w)" and "published b (w_fs w) q"
    and "validate_entry_id s = Inr eid" and "q \<noteq> entry_record D eid"
    and "restore_entry cr inp s D dest w = (r, w')"
  shows "published b (w_fs w') q"
proof -
  have "triple (keeps [(q, b)]) (restore_entry cr inp s D dest) (\<lambda>_. keeps [(q, b)]) (\<lambda>_. keeps [(q, b)])"
    by (rule triple_restore) (use assms(4,5) in auto)
  from tripleX [OF this assms(1) _ assms(6)] have "keeps [(q, b)] (w_fs w')"
    using assms(2,3) by (cases r) (auto simp: keeps_def)
  then show ?thesis by (simp add: keeps_def)
qed

section \<open>A good entry\<close>

lemma keeps_known: "(p, b) \<in> set F \<Longrightarrow> keeps ((p, b) # F) = keeps F"
  by (rule ext) (auto simp: keeps_def)

lemma open_other:
  assumes "(p, c) \<in> set F" and "tmp \<notin> fst ` set F"
  shows "triple (\<lambda>f. keeps F f \<and> owns tmp i x f) (sys_open_rb p)
     (\<lambda>s f. (keeps F f \<and> owns tmp i x f \<and> opened s c f) \<and> s \<noteq> i) (\<lambda>_ f. keeps F f \<and> (\<exists>c. owns tmp i c f))"
  unfolding sys_open_rb_def
proof (rule triple_look)
  fix f s
  assume k: "keeps F f \<and> owns tmp i x f"
    and e: "rbind (resolve max_links f p) (\<lambda>i. if i_kind (f_inodes f i) = Dir then Inl (OSError ''is a directory'')
      else Inr i) = Inr s"
  from k have "published c f p" by (blast intro: keepsD(1) [OF _ assms(1)])
  then obtain j where j: "f_names f p = Some j" "opened j c f"
    by (auto simp: opened_def published_iff)
  have "resolve max_links f p = Inr j"
    using resolve_nonlink [of f p "f_inodes f j"] j by (auto simp: view_def opened_def inj_def)
  with e have "s = j" by (simp add: rbind_Inr_iff if_Inr_iff)
  moreover have "p \<noteq> tmp" using assms by force
  ultimately show "(keeps F f \<and> owns tmp i x f \<and> opened s c f) \<and> s \<noteq> i" using k j by (auto simp: owns_def)
qed blast

lemma triple_decrypt:
  fixes D :: path
  defines "k \<equiv> device_key_path D"
  assumes cr: "crypto_laws cr" and dev: "root_file D dev kraw" and g: "good_entry cr dev eid m c b"
    and F: "(k, kraw) \<in> set F" "(content, c) \<in> set F" and tmp: "tmp \<notin> fst ` set F"
  shows "triple (\<lambda>f. keeps F f \<and> owns tmp i [] f) (decrypt_content cr n content i m D)
     (\<lambda>x f. \<exists>d. (keeps F f \<and> owns tmp i d f) \<and> d = b) (\<lambda>_. keeps F)"
proof -
  let ?O = "\<lambda>f. keeps F f \<and> owns tmp i [] f"
  have load: "triple ?O (load_device_root D False []) (\<lambda>d f. ?O f \<and> d = dev) (\<lambda>_. keeps F)"
    by (rule triple_conseq [OF triple_conj [OF load_known_root [of D kraw F False "[]", folded k_def]
          looksD [OF looks_load_root, of "owns tmp i []" D "[]"]]])
       (use keeps_known [OF F(1)] root_file_unique [OF dev] in \<open>auto simp del: keeps_Cons\<close>)
  have op: "open_sealed cr dev m c = Inr b" using g by (simp add: good_entry_def)
  have body: "triple ?O (io_catch
       (io_bind (sys_open_rb content) (\<lambda>source.
        io_bind (pump (gcm_ctr cr key nonce) n source (Some i) []) (\<lambda>ciphertext.
        io_if (tag \<noteq> gcm_tag cr key nonce aad ciphertext)
          (QuarantineError ''encrypted quarantine content authentication failed'')
        (io_then (sys_write i []) (io_ret (hexdigest (gcm_ctr cr key nonce ciphertext), length (gcm_ctr cr key nonce ciphertext)))))))
       is_os_error (\<lambda>e. io_raise (QuarantineError (''cannot decrypt quarantine content: '' @ exn_text e))))
     (\<lambda>x f. \<exists>d. (keeps F f \<and> owns tmp i d f) \<and> d = b) (\<lambda>_. keeps F)"
    if b: "gcm_ctr cr key nonce c = b" for key nonce tag aad
  proof (rule triple_catch [where R' = "\<lambda>_ f. keeps F f \<and> (\<exists>c. owns tmp i c f)"],
      rule triple_bind [OF open_other [OF F(2) tmp]], rule triple_assume, goal_cases)
    case (1 s)
    have e: "extends (gcm_ctr cr key nonce)" by (rule ctr_extends [OF cr])
    then have e0: "gcm_ctr cr key nonce [] = []" by (simp add: extends_def)
    show ?case
    proof (rule triple_bind [OF triple_pre [OF triple_pump [OF tmp e 1, where got = "[]" and b = c]]], simp add: e0, goal_cases)
      case (1 x)
      have w: "triple (\<lambda>f. keeps F f \<and> owns tmp i b f) (sys_write i []) (\<lambda>_ f. keeps F f \<and> owns tmp i b f)
          (\<lambda>_ f. keeps F f \<and> (\<exists>c. owns tmp i c f))"
        using triple_write_owned [OF tmp, of i b "[]"] by simp
      show ?case
        by (rule triple_if, blast, rule triple_then [OF triple_pre [OF w]], use b in blast, rule triple_ret) blast
    qed
  qed (auto intro: triple_raise)
  show ?thesis
    unfolding decrypt_content_def Let_def
  proof (rule triple_bind [OF triple_conseq [OF looksD [OF looks_regular_content, of ?O]]], assumption, assumption, simp,
      rule triple_if, simp, rule triple_bind [OF load], rule triple_assume, goal_cases)
    case (1 x d)
    show ?case
    proof (rule triple_lift_bind, simp, rule triple_lift_bind, simp, rule triple_lift_bind, simp,
        rule triple_lift_bind, simp, goal_cases)
      case (1 e aad key tag)
      with op have "gcm_ctr cr key (ve_content_nonce e) c = b"
        by (simp add: open_sealed_def \<open>d = dev\<close> if_Inr_iff)
      then show ?case by (rule body)
    qed
  qed
qed

lemma triple_read_good:
  assumes m: "strict_json_loads mraw = Inr (JObj m)" and g: "good_entry cr dev eid m c b"
    and F: "(join_path entry ''metadata.json'', mraw) \<in> set F"
  shows "triple (keeps F) (read_metadata cr entry eid D) (\<lambda>x f. keeps F f \<and> x = m) (\<lambda>_. keeps F)"
proof -
  have rf: "triple (keeps F) (read_metadata_file (join_path entry ''metadata.json''))
      (\<lambda>v f. keeps F f \<and> v = JObj m) (\<lambda>_. keeps F)"
    unfolding read_metadata_file_def
  proof (rule triple_catch [where R' = "\<lambda>_. keeps F"], rule triple_bind [OF looksD [OF looks_stat_size, of "keeps F"]],
      rule triple_if, simp, goal_cases)
    case (1 n)
    have "triple (keeps F) (sys_read_bytes (join_path entry ''metadata.json'')) (\<lambda>x f. keeps F f \<and> x = mraw) (\<lambda>_. keeps F)"
      using read_published [of "join_path entry ''metadata.json''" mraw F] by (simp only: keeps_known [OF F])
    then show ?case by (rule triple_bind) (intro triple_assume triple_lift, use m in auto)
  qed (auto intro: triple_raise)
  have c: "check_common (JObj m) eid = Inr m" "is_v2 m" using g by (simp_all add: good_entry_def)
  show ?thesis
    unfolding read_metadata_def
  proof (rule triple_bind [OF rf], rule triple_assume, rule triple_lift_bind, simp, goal_cases)
    case (1 v d)
    then have d: "d = m" using c(1) by simp
    show ?case unfolding d
      by (simp only: c(2) if_True) (rule triple_bind [OF looksD [OF looks_load_root, of "keeps F"]],
          rule triple_lift_bind, simp, rule triple_ret, simp)
  qed
qed

lemma target_known:
  assumes "(t, b) \<in> set F"
  shows "triple (keeps F) (check_target t) (\<lambda>_ _. False) (\<lambda>_. keeps F)"
  unfolding check_target_def
proof (rule triple_bind [OF path_exists_kept [of t b F, unfolded keeps_known [OF assms]]], rule triple_assume,
    rule triple_bind [where Q = "\<lambda>taken f. keeps F f \<and> taken"], goal_cases)
  case (2 there taken)
  then show ?case by (intro triple_assume triple_if) auto
qed (auto intro: triple_ret)

lemma last_n_wf: "list_all wf_json xs \<Longrightarrow> list_all wf_json (last_n n xs)"
  by (auto simp: last_n_def list_all_iff dest: in_set_dropD)

lemma restored_good:
  assumes g: "good_entry cr dev eid m c b" and s: "sign_metadata cr dev (restored_metadata at t m) = Inr m'"
  shows "good_entry cr dev eid m' c b"
proof (rule good_entry_next [OF g s])
  note f = good_entry_fields [OF g]
  have "wf_json (dget m ''restore_history'')"
    using f(1) by (auto simp: dget_def split: option.splits dest!: map_of_SomeD)
  then have h: "list_all wf_json (list_of (dget m ''restore_history''))"
    by (cases "dget m ''restore_history''") (auto simp: list_all_iff)
  have "wf_json (JObj (mk_dict [(''restored_at'', JStr at), (''destination'', JStr t)]))"
    by (rule wf_json_mk_dict) simp
  with h have "list_all wf_json (last_n 100 (list_of (dget m ''restore_history'')
      @ [JObj (mk_dict [(''restored_at'', JStr at), (''destination'', JStr t)])]))"
    by (intro last_n_wf) simp
  then show "wf_json (JObj (restored_metadata at t m))"
    unfolding restored_metadata_def Let_def by (intro wf_json_dput f(1)) (simp_all add: list_all_iff)
  show "keys_of (restored_metadata at t m) = keys_of m"
    using f(5) common_fields_mem by (auto simp: restored_metadata_def Let_def keys_dput_dict)
qed (use good_entry_fields [OF g] in
  \<open>auto simp: restored_metadata_def Let_def dget_dput wf_dput free_fields_def intro: entry_states_mem\<close>)

lemma holds_fewer: "holds_entry cr D eid dev kraw b m F f \<Longrightarrow> holds_entry cr D eid dev kraw b m [] f"
  by (erule holds_move) (auto simp: keeps_def)

text \<open>A restore from a good entry: the entry stays good, and the target gets the original bytes.\<close>

lemma triple_restore_good:
  assumes cr: "crypto_laws cr" and eid: "validate_entry_id s = Inr eid"
  shows "triple (holds_entry cr D eid dev kraw b m []) (restore_entry cr inp s D (Some p))
    (\<lambda>_ f. \<exists>s. holds_entry cr D eid dev kraw b s [(ri_absolute inp p, b)] f)
    (\<lambda>_ f. \<exists>s. holds_entry cr D eid dev kraw b s [] f)"
proof (rule triple_fs_exact)
  fix f0
  let ?t = "ri_absolute inp p" and ?E = "entry_path_of D eid"
  assume f0: "holds_entry cr D eid dev kraw b m [] f0"
  then obtain mraw c where k0: "keeps [(join_path ?E ''metadata.json'', mraw), (device_key_path D, kraw),
      (join_path ?E ''content.zsv2'', c)] f0"
    and r: "strict_json_loads mraw = Inr (JObj m)" "good_entry cr dev eid m c b" "root_file D dev kraw"
    by (auto simp: holds_entry_def)
  define F where "F = [(join_path ?E ''metadata.json'', mraw), (device_key_path D, kraw), (join_path ?E ''content.zsv2'', c)]"
  let ?H = "\<lambda>m. holds_entry cr D eid dev kraw b m"
  have H: "keeps (G @ F) f \<Longrightarrow> ?H m G f" for f G
    using r unfolding holds_entry_def F_def by (intro exI [of _ mraw] exI [of _ c]) auto
  have v2: "is_v2 m" using r(2) by (simp add: good_entry_def)
  show "triple (\<lambda>f. f = f0) (restore_entry cr inp s D (Some p)) (\<lambda>_ f. \<exists>s. ?H s [(?t, b)] f) (\<lambda>_ f. \<exists>s. ?H s [] f)"
  proof (rule triple_conseq [where P = "keeps F" and R = "\<lambda>_ f. \<exists>s. ?H s [] f"])
    have fail: "keeps F f \<Longrightarrow> \<exists>s. ?H s [] f" for f using H [of "[]"] by auto
    show "triple (keeps F) (restore_entry cr inp s D (Some p)) (\<lambda>_ f. \<exists>s. ?H s [(?t, b)] f) (\<lambda>_ f. \<exists>s. ?H s [] f)"
      unfolding restore_entry_def Let_def entry_path_of_def [symmetric] eid
    proof (rule triple_lift_bind, rule fail, assumption, simp only: sum.inject, hypsubst,
        rule triple_bind [OF triple_fail [OF triple_read_good [OF r(1,2), of _ F] fail]], simp add: F_def,
        assumption, rule triple_assume, hypsubst, rule triple_lift_bind, erule fail, goal_cases)
      case (1 eid' m' t)
      then have t: "t = ?t" by (simp add: restore_target_def)
      show ?case
      proof (cases "?t \<in> fst ` set F")
        case True
        then obtain x where "(?t, x) \<in> set F" by auto
        show ?thesis unfolding t
          by (rule triple_then [OF triple_fail [OF target_known [OF \<open>(?t, x) \<in> set F\<close>] fail]], assumption)
             (simp add: triple_def)
      next
        case False
        have n: "join_path ?E ''metadata.json'' \<notin> fst ` set [(?t, b)]" using False by (auto simp: F_def)
        have mem: "(device_key_path D, kraw) \<in> set F" "(join_path ?E ''content.zsv2'', c) \<in> set F" by (simp_all add: F_def)
        have body: "triple (\<lambda>f. keeps F f \<and> owns tmp i [] f)
            (if is_v2 m then decrypt_content cr (ri_fuel inp) (join_path ?E ''content.zsv2'') i m D
              else copy_legacy_content (ri_fuel inp) (join_path ?E ''content.bin'') i)
            (\<lambda>x f. \<exists>d. (keeps F f \<and> owns tmp i d f) \<and> d = b) (\<lambda>_. keeps F)" if "tmp \<notin> fst ` set F" for i tmp
          by (simp only: v2 if_True) (rule triple_decrypt [OF cr r(3,2) mem that])
        have next_: "triple (?H m [(?t, b)])
            (io_bind (write_v2_metadata cr (join_path ?E ''metadata.json'') (restored_metadata (ri_restored_at inp) ?t m) D) (\<lambda>_. io_ret ()))
            (\<lambda>_ f. \<exists>s. ?H s [(?t, b)] f) (\<lambda>_ f. \<exists>s. ?H s [] f)"
          by (rule triple_bind [OF triple_conseq [OF triple_next_record [OF n restored_good]]], assumption, assumption, assumption,
              erule exI, use holds_fewer in blast, rule triple_ret) blast
        show ?thesis unfolding t
        proof (rule triple_then [OF triple_fail [OF looksD [OF looks_check_target, of "keeps F"] fail]], assumption,
            rule triple_bind [where Q = "\<lambda>x. ?H m [(?t, b)]"], rule triple_conseq [OF triple_restore_content [OF body]], goal_cases)
          case (5 x)
          show ?case
            by (cases x) (simp only: prod.case v2 if_True, rule triple_then [OF next_], rule triple_ret)
        qed (use H [of "[(?t, b)]"] fail in auto)
      qed
    qed
  qed (use k0 F_def in auto)
qed


section \<open>A good entry exists\<close>

lemma ascii_zba:
  assumes "is_ascii e" "is_ascii p" "is_ascii t"
  shows "\<exists>z. create_quarantine_record e p t = Inr z \<and> ascii_json (JObj z)"
proof -
  let ?r = "mk_dict (zba_fixed e p @ [(''event_time'', JStr t)])"
  have a: "is_ascii zero_commitment" "is_ascii zba_spec" by code_simp+
  then have r: "ascii_json (JObj ?r)"
    using assms a by (intro ascii_mk_dict) (auto simp: zba_fixed_def is_ascii_def ord_def)
  from create_ok [of e p t] canonical_ascii [OF ascii_ddel [OF r]]
  obtain z where z: "create_quarantine_record e p t = Inr z" by auto
  then obtain c where "z = dput ''commitment'' (JStr c) ?r" "commitment ?r = Inr c"
    unfolding create_quarantine_record_def Let_def rbind_Inr_iff by blast
  moreover from this have "is_ascii c" by (auto simp: commitment_def Let_def rbind_Inr_iff hexdigest_ascii split: if_splits)
  moreover have "is_ascii ''commitment''" by code_simp
  ultimately show ?thesis using z r by (auto simp del: ascii_json.simps(7) intro: ascii_dput)
qed

lemma dget_ascii: "ascii_json (JObj d) \<Longrightarrow> ascii_json (dget d k)"
  by (induction d) (auto simp: dget_def)

lemma aad_fields_ascii: "k \<in> set aad_fields \<Longrightarrow> is_ascii k"
proof -
  have "list_all is_ascii aad_fields" by code_simp
  then show "k \<in> set aad_fields \<Longrightarrow> is_ascii k" by (simp add: list_all_iff)
qed

definition ready_fields :: "string \<Rightarrow> string \<Rightarrow> string \<Rightarrow> string \<Rightarrow> snapshot \<Rightarrow> dict \<Rightarrow> (string \<times> json) list" where
  "ready_fields e t h p snap z =
      [(''schema'', JStr ''zero.security.quarantine.v2''), (''id'', JStr e), (''state'', JStr ''copy_ready''),
       (''original_path'', JStr p), (''sha256'', JStr h),
       (''size'', JInt (int (sn_size snap))), (''original_mode'', JInt (int (sn_mode snap))),
       (''original_modified_ns'', JInt (sn_modified_ns snap)), (''created_at'', JStr t),
       (''quarantined_at'', JNull), (''restore_history'', JList []), (''matches'', JList []), (''zba'', JObj z)]"

lemma ready_ascii:
  assumes "is_ascii e" "is_ascii t" "is_ascii h" "is_ascii p" "ascii_json (JObj z)"
  shows "ascii_json (JObj (mk_dict (ready_fields e t h p snap z)))"
proof (rule ascii_mk_dict)
  have "list_all is_ascii (map fst (ready_fields [] [] [] [] snap []))" unfolding ready_fields_def by code_simp
  then show "\<forall>k \<in> fst ` set (ready_fields e t h p snap z). is_ascii k" by (simp add: ready_fields_def)
  have "is_ascii ''zero.security.quarantine.v2''" "is_ascii ''copy_ready''" by code_simp+
  with assms show "\<forall>v \<in> snd ` set (ready_fields e t h p snap z). ascii_json v"
    unfolding ready_fields_def by (simp del: ascii_json.simps(7))
qed

lemma ex_good_entry:
  "\<exists>m c mraw. good_entry toy ex_device ex_entry_id m c ''hello'' \<and> indented_json_bytes (JObj m) = Inr mraw"
proof -
  let ?t = "''2024-01-01T00:00:00Z''" and ?snap = "take_snapshot (0, file_inode ''hello'')"
  have a: "is_ascii ex_entry_id" "is_ascii ?t" "is_ascii ''/s/x''" "ends_with ?t ''Z''" by code_simp+
  obtain z where z: "create_quarantine_record ex_entry_id (hexdigest ''hello'') ?t = Inr z" "ascii_json (JObj z)"
    using ascii_zba [OF a(1) hexdigest_ascii a(2)] by blast
  then obtain m0 where m0: "copy_ready_metadata ex_entry_id ?t ex_finding ?snap = Inr m0"
    by (simp add: copy_ready_metadata_def ex_finding_def)
  have f: "ff_sha256 ex_finding = hexdigest ''hello''" "ff_matches ex_finding = []" "ff_path ex_finding = ''/s/x''"
    by (simp_all add: ex_finding_def)
  have m0a: "ascii_json (JObj m0)"
  proof -
    have "m0 = mk_dict (ready_fields ex_entry_id ?t (hexdigest ''hello'') ''/s/x'' ?snap z)"
      using m0 z(1) unfolding copy_ready_metadata_def ready_fields_def f by simp
    with ready_ascii [OF a(1,2) hexdigest_ascii a(3) z(2)] show ?thesis by (simp only:)
  qed
  let ?aad = "dump Compact 0 (JObj (aad_projection m0))"
  have "wf_dict m0" and g0: "\<forall>k \<in> set aad_fields. ascii_json (dget m0 k)"
    using copy_ready_get [OF m0] dget_ascii [OF m0a] by blast+
  then have aad: "canonical_json_bytes (JObj (aad_projection m0)) = Inr ?aad"
    by (intro canonical_ascii) (auto simp: aad_projection_def aad_fields_ascii simp del: ascii_json.simps(7) intro!: ascii_mk_dict)
  obtain e key where e: "create_envelope toy ex_device ex_entry_id ?aad ex_random = (e, key)" by force
  define c where "c = gcm_ctr toy key (ve_content_nonce e) ''hello''"
  define tag where "tag = gcm_tag toy key (ve_content_nonce e) ?aad c"
  let ?m1 = "dput ''content_tag'' (JStr (b64encode tag)) (dput ''vault'' (JObj (envelope_to_dict e (dr_protection ex_device))) m0)"
  have ea: "ascii_json (JObj (envelope_to_dict e (dr_protection ex_device)))"
    unfolding envelope_to_dict_def ex_device_def
    by (intro ascii_mk_dict) (auto simp: envelope_fixed_def b64encode_ascii [unfolded is_ascii_def ord_def] is_ascii_def ord_def)
  have n: "is_ascii ''content_tag''" "is_ascii ''vault''" "is_ascii ''metadata_mac''" by code_simp+
  have m1: "ascii_json (JObj ?m1)"
    by (intro ascii_dput m0a n ea) (simp add: b64encode_ascii)
  from canonical_ascii [OF ascii_ddel [OF m1, of "''metadata_mac''"]]
  obtain m where s: "sign_metadata toy ex_device ?m1 = Inr m" by (simp only: sign_metadata_def Let_def rbind.simps)
  then obtain h where "m = dput ''metadata_mac'' (JStr h) (ddel ''metadata_mac'' ?m1)" "is_ascii h"
    by (auto simp: sign_metadata_Inr metadata_mac_def hex_of_ascii)
  then have "ascii_json (JObj m)" using ascii_ddel [OF m1] n by (simp del: ascii_json.simps(7) add: ascii_dput)
  moreover have "good_entry toy ex_device ex_entry_id m c ''hello''"
    by (rule first_entry_good [OF toy_laws ex_random_ok _ m0 a(4) _ aad e _ _ c_def tag_def s])
       (simp_all add: ex_device_def f, code_simp+)
  ultimately show ?thesis using indented_ascii by blast
qed

lemma ex_root_file: "\<exists>kraw. root_file D ex_device kraw"
proof -
  have a: "ascii_json (JObj (device_record (replicate 32 (CHR ''d''))))" by code_simp
  have w: "wf_json (JObj (device_record (replicate 32 (CHR ''d''))))"
    unfolding device_record_def by (rule wf_json_mk_dict) auto
  have "parse_device_root (JObj (device_record (replicate 32 (CHR ''d'')))) = Inr ex_device" by code_simp
  then show ?thesis
    using strict_indented [OF w indented_ascii [OF a]] by (auto simp: root_file_def)
qed

lemma add_file: "keeps F f \<Longrightarrow> f_names f p = None \<Longrightarrow> keeps ((p, b) # F) (new_inode f p (file_inode b))"
  using keeps_new [of F f p "file_inode b"] view_new_inode [of f p "file_inode b"]
  by (auto simp: published_def file_inode_def keeps_def)

lemma ex_recoverable_world: "\<exists>w. calm w \<and> recoverable toy ''/d'' ex_entry_id ''hello'' (w_fs w)"
proof -
  obtain m c mraw where g: "good_entry toy ex_device ex_entry_id m c ''hello''" "indented_json_bytes (JObj m) = Inr mraw"
    using ex_good_entry by blast
  obtain kraw where k: "root_file ''/d'' ex_device kraw" using ex_root_file by blast
  let ?E = "entry_path_of ''/d'' ex_entry_id"
  let ?m = "join_path ?E ''metadata.json''" and ?c = "join_path ?E ''content.zsv2''"
  let ?n = "\<lambda>f p b. new_inode f p (file_inode b)"
  define f1 where "f1 = ?n (w_fs empty_world) ?c c"
  define f2 where "f2 = ?n f1 (device_key_path ''/d'') kraw"
  define f3 where "f3 = ?n f2 ?m mraw"
  have n: "f_names (w_fs empty_world) p = None" for p by (simp add: empty_world_def)
  have k0: "keeps [] (w_fs empty_world)" using empty_world_ok(2) by (simp add: keeps_def)
  note k1 = add_file [OF k0 n, of ?c c, folded f1_def]
  have "f_names f1 (device_key_path ''/d'') = None"
    using entry_file_names(2) [symmetric] n by (simp add: f1_def new_inode_def)
  note k2 = add_file [OF k1 this, of kraw, folded f2_def]
  have "f_names f2 ?m = None"
    using entry_file_names n by (simp add: f2_def f1_def new_inode_def)
  note k3 = add_file [OF k2 this, of mraw, folded f3_def]
  have "strict_json_loads mraw = Inr (JObj m)" by (rule strict_indented [OF good_entry_fields(1) [OF g(1)] g(2)])
  with k3 g(1) k have "recoverable toy ''/d'' ex_entry_id ''hello'' f3"
    unfolding recoverable_def holds_entry_def by blast
  moreover have "calm (empty_world\<lparr>w_fs := f3\<rparr>)" using quiet_calm [OF empty_world_ok(1)] by simp
  ultimately show ?thesis by (intro exI [of _ "empty_world\<lparr>w_fs := f3\<rparr>"]) simp
qed

definition ex_restore :: restore_input where
  "ex_restore = \<lparr>ri_fuel = 3, ri_restored_at = ''2024-01-01T00:00:00Z'', ri_absolute = id, ri_whole = (\<lambda>_. Inr 0)\<rparr>"


lemma restore_never_overwrites_witness:
  "published ''hello'' (w_fs (snd (restore_entry toy ex_restore ex_entry_id ''/d'' (Some ''/s/x'') ex_vault_world))) ''/s/x''"
proof -
  have c: "calm ex_vault_world" using quiet_calm [OF empty_world_ok(1)] by (simp add: ex_vault_world_def)
  have "keeps [(''/s/x'', ''hello'')] (w_fs ex_vault_world)"
    using add_file [of "[]" "w_fs empty_world" "''/s/x''" "''hello''"] empty_world_ok(2)
    by (simp add: ex_vault_world_def keeps_def) (simp add: empty_world_def)
  moreover have "''/s/x'' \<noteq> entry_record ''/d'' ex_entry_id"
    using entry_dirs(1) [of "''/d''" ex_entry_id "''metadata.json''"]
    by (auto simp: entry_record_def below_def quarantine_entries_dir_def join_path_def)
  ultimately show ?thesis
    using restore_never_overwrites [OF c _ _ ex_entry_id _ prod.collapse [symmetric]] by (auto simp: keeps_def)
qed

end
