(* ===== verification/Urls.thy ===== *)
theory Urls
  imports Pytext
begin

text \<open>
  \<^verbatim>\<open>urllib.parse.urlsplit\<close> of CPython 3.11, as far as the program uses it: the five parts of a
  URL, the host, the user name and the password.  The comparison of a host name that is not ASCII
  with its NFKC form needs the Unicode tables; it is the parameter \<open>nfkc\<close>, which says that the
  normal form of a text contains none of the characters \<^verbatim>\<open>/?#@:\<close> unless the text is already
  normal.
\<close>

section \<open>Literal addresses in brackets\<close>

definition ipv4_octet :: "string \<Rightarrow> bool" where
  "ipv4_octet s = (s \<noteq> [] \<and> list_all is_digit s \<and> length s \<le> 3 \<and> (s = ''0'' \<or> hd s \<noteq> CHR ''0'') \<and> nat_of_dec s \<le> 255)"

definition ipv4_text :: "string \<Rightarrow> bool" where
  "ipv4_text s = (length (split_on (CHR ''.'') s) = 4 \<and> list_all ipv4_octet (split_on (CHR ''.'') s))"

definition is_hex_any :: "char \<Rightarrow> bool" where
  "is_hex_any c = (is_digit c \<or> 65 \<le> ord c \<and> ord c \<le> 70 \<or> 97 \<le> ord c \<and> ord c \<le> 102)"

definition hextet :: "string \<Rightarrow> bool" where
  "hextet s = (s \<noteq> [] \<and> length s \<le> 4 \<and> list_all is_hex_any s)"

text \<open>The groups between the colons, an IPv4 address at the end standing for two of them.\<close>

definition ipv6_groups :: "string \<Rightarrow> string list option" where
  "ipv6_groups s =
    (let parts = split_on (CHR '':'') s in
     if length parts < 3 then None
     else if CHR ''.'' \<in> set (last parts) then
       (if ipv4_text (last parts) then Some (butlast parts @ [''0'', ''0'']) else None)
     else Some parts)"

definition ipv6_skips :: "string list \<Rightarrow> nat list" where
  "ipv6_skips parts = filter (\<lambda>i. parts ! i = []) [1..<length parts - 1]"

definition ipv6_parts :: "string list \<Rightarrow> bool" where
  "ipv6_parts parts =
    (length parts \<le> 9 \<and>
     (case ipv6_skips parts of
        [] \<Rightarrow> length parts = 8 \<and> list_all hextet parts
      | [i] \<Rightarrow>
          let front = take i parts; back = drop (Suc i) parts;
              hi = (if hd front = [] then tl front else front);
              lo = (if last back = [] then butlast back else back)
          in (hd front = [] \<longrightarrow> hi = []) \<and> (last back = [] \<longrightarrow> lo = [])
             \<and> length hi + length lo < 8 \<and> list_all hextet hi \<and> list_all hextet lo
      | _ \<Rightarrow> False))"

definition ipv6_text :: "string \<Rightarrow> bool" where
  "ipv6_text s =
    (let (address, scoped, zone) = cut (CHR ''%'') s in
     CHR ''/'' \<notin> set s \<and> (scoped \<longrightarrow> zone \<noteq> [] \<and> CHR ''%'' \<notin> set zone)
     \<and> (case ipv6_groups address of None \<Rightarrow> False | Some parts \<Rightarrow> ipv6_parts parts))"

definition bracketed_host :: "string \<Rightarrow> bool" where
  "bracketed_host h =
    (if prefix ''v'' h then
       (let (digits, dot, rest) = cut (CHR ''.'') (tl h) in dot \<and> digits \<noteq> [] \<and> list_all is_hex_any digits \<and> rest \<noteq> []
          \<and> CHR 0x0A \<notin> set rest)
     else ipv6_text h)"

section \<open>The parts of a URL\<close>

record url_parts =
  u_scheme :: string
  u_netloc :: string
  u_path :: string
  u_query :: string
  u_fragment :: string

definition scheme_char :: "char \<Rightarrow> bool" where
  "scheme_char c = (is_letter c \<or> is_digit c \<or> c \<in> set ''+-.'')"

definition split_scheme :: "string \<Rightarrow> string \<times> string" where
  "split_scheme url =
    (let (head, found, rest) = cut (CHR '':'') url in
     if found \<and> head \<noteq> [] \<and> is_letter (hd head) \<and> list_all scheme_char head then (lower head, rest) else ([], url))"

definition bad_netloc :: "(string \<Rightarrow> bool) \<Rightarrow> string \<Rightarrow> bool" where
  "bad_netloc nfkc netloc =
    ((CHR ''['' \<in> set netloc) \<noteq> (CHR '']'' \<in> set netloc)
     \<or> (CHR ''['' \<in> set netloc \<and> \<not> bracketed_host (fst (cut (CHR '']'') (snd (snd (cut (CHR ''['') netloc))))))
     \<or> (\<not> is_ascii netloc \<and> \<not> nfkc (filter (\<lambda>c. c \<notin> set ''@:#?'') netloc)))"

definition urlsplit :: "(string \<Rightarrow> bool) \<Rightarrow> string \<Rightarrow> url_parts res" where
  "urlsplit nfkc raw_url =
    (let url = filter (\<lambda>c. ord c \<notin> {9, 10, 13}) (dropWhile (\<lambda>c. ord c \<le> 32) raw_url);
         (scheme, rest) = split_scheme url;
         (netloc, rest) = (if prefix ''//'' rest then
              (takeWhile (\<lambda>c. c \<notin> set ''/?#'') (drop 2 rest), dropWhile (\<lambda>c. c \<notin> set ''/?#'') (drop 2 rest))
            else ([], rest));
         (rest, _, fragment) = cut (CHR ''#'') rest;
         (path, _, query) = cut (CHR ''?'') rest
     in if bad_netloc nfkc netloc then Inl (ValueError ''Invalid URL'')
        else Inr \<lparr>u_scheme = scheme, u_netloc = netloc, u_path = path, u_query = query, u_fragment = fragment\<rparr>)"

text \<open>\<^verbatim>\<open>hostname\<close>, \<^verbatim>\<open>username\<close> and \<^verbatim>\<open>password\<close>; an absent part is the empty text.\<close>

definition u_userinfo :: "url_parts \<Rightarrow> string \<times> string" where
  "u_userinfo u =
    (let (userinfo, _, _) = rcut (CHR ''@'') (u_netloc u); (username, _, password) = cut (CHR '':'') userinfo
     in (username, password))"

definition u_hostname :: "url_parts \<Rightarrow> string" where
  "u_hostname u =
    (let (_, _, hostinfo) = rcut (CHR ''@'') (u_netloc u);
         (_, open_bracket, bracketed) = cut (CHR ''['') hostinfo;
         host = (if open_bracket then fst (cut (CHR '']'') bracketed) else fst (cut (CHR '':'') hostinfo));
         (name, percent, zone) = cut (CHR ''%'') host
     in lower name @ (if percent then CHR ''%'' # zone else []))"

definition credential_free :: "url_parts \<Rightarrow> bool" where
  "credential_free u = (u_hostname u \<noteq> [] \<and> u_userinfo u = ([], []))"

text \<open>\<^verbatim>\<open>urlunsplit\<close> for a URL with a scheme and a network location, without query and fragment.\<close>

definition url_base :: "url_parts \<Rightarrow> string" where
  "url_base u = u_scheme u @ ''://'' @ lower (u_netloc u)
     @ (if u_path u \<noteq> [] \<and> hd (u_path u) \<noteq> CHR ''/'' then CHR ''/'' # u_path u else u_path u)"

section \<open>What a clean URL excludes\<close>

text \<open>A URL with an accepted host has a network location and no password before it.\<close>

lemma credential_free_netloc:
  assumes "credential_free u"
  shows "u_netloc u \<noteq> []"
  using assms by (auto simp: credential_free_def u_hostname_def rcut_none cut_none lower_def)

lemma urlsplit_https_netloc:
  assumes "urlsplit nfkc s = Inr u" and "credential_free u"
  shows "\<not> bad_netloc nfkc (u_netloc u)"
  using assms by (auto simp: urlsplit_def Let_def split: if_splits prod.splits)

end
