(* ===== verification/Transport.thy ===== *)
theory Transport
  imports Feed Urls Vault_World
begin

text \<open>
  The transports of \<^verbatim>\<open>src/zsec_shield/feed.py\<close>: the download over HTTPS and the reading of a local
  file.  The network is given by what happens on it: the absolute URLs to which the servers redirect,
  in order, and the end of the exchange, which is an exception of the HTTP client or a final response
  with the URL it came from, its \<^verbatim>\<open>Content-Length\<close> and its body.
\<close>

section \<open>The download\<close>

definition max_intelligence_bytes :: nat where "max_intelligence_bytes = 8 * 1024 * 1024"

datatype ending = Broken exn | Response string "string option" string

record exchange =
  x_redirects :: "string list"
  x_ending :: ending

definition redirect_limit :: nat where "redirect_limit = 3"

definition clean_https :: "url_parts \<Rightarrow> bool" where
  "clean_https u = (u_scheme u = ''https'' \<and> credential_free u)"

definition redirect_request :: "(string \<Rightarrow> bool) \<Rightarrow> string \<Rightarrow> nat \<Rightarrow> nat res" where
  "redirect_request nfkc target count =
    (if redirect_limit < Suc count then Inl (FeedError ''feed download exceeded the redirect limit'')
     else rbind (urlsplit nfkc target) (\<lambda>u.
       if \<not> clean_https u then Inl (FeedError ''feed redirects must remain credential-free HTTPS URLs'')
       else Inr (Suc count)))"

definition check_length :: "string option \<Rightarrow> nat \<Rightarrow> unit res" where
  "check_length header maximum =
    (case header of None \<Rightarrow> Inr ()
     | Some h \<Rightarrow>
       if h = [] then Inr ()
       else case int_of_text 10 h of
           None \<Rightarrow> Inl (FeedError ''remote feed has an invalid Content-Length'')
         | Some n \<Rightarrow> if int maximum < n then Inl (FeedError ''remote feed exceeds the size limit'') else Inr ())"

definition read_response :: "(string \<Rightarrow> bool) \<Rightarrow> ending \<Rightarrow> nat \<Rightarrow> string res" where
  "read_response nfkc e maximum =
    (case e of
       Broken x \<Rightarrow> (if is_os_error x then Inl (FeedError (''feed download failed: '' @ exn_text x)) else Inl x)
     | Response final header body \<Rightarrow>
       rbind (urlsplit nfkc final) (\<lambda>u.
       if u_scheme u \<noteq> ''https'' then Inl (FeedError ''feed download did not finish on HTTPS'')
       else rbind (check_length header maximum) (\<lambda>_. Inr (take (maximum + 1) body))))"

definition download_https_feed :: "(string \<Rightarrow> bool) \<Rightarrow> exchange \<Rightarrow> string \<Rightarrow> nat \<Rightarrow> string res" where
  "download_https_feed nfkc x url maximum =
    (if maximum \<notin> {max_feed_bytes, max_intelligence_bytes} then
       Inl (FeedError ''feed transport requires a supported fixed size limit'')
     else
     rbind (urlsplit nfkc url) (\<lambda>u.
     if \<not> clean_https u \<or> u_fragment u \<noteq> [] then
       Inl (FeedError ''remote feeds require a credential-free HTTPS URL without a fragment'')
     else
     rbind (rfold (redirect_request nfkc) (x_redirects x) 0) (\<lambda>_.
     rbind (read_response nfkc (x_ending x) maximum) (\<lambda>raw.
     if maximum < length raw then Inl (FeedError ''remote feed exceeds the size limit'')
     else Inr raw))))"

definition download_feed :: "(string \<Rightarrow> bool) \<Rightarrow> exchange \<Rightarrow> string \<Rightarrow> string res" where
  "download_feed nfkc x url = download_https_feed nfkc x url max_feed_bytes"

definition download_intelligence_feed :: "(string \<Rightarrow> bool) \<Rightarrow> exchange \<Rightarrow> string \<Rightarrow> string res" where
  "download_intelligence_feed nfkc x url = download_https_feed nfkc x url max_intelligence_bytes"

section \<open>A local file\<close>

text \<open>
  The loop that reads until the end of the file or until one byte more than the limit was read;
  every call reads at least one byte, so \<open>max_feed_bytes + 2\<close> calls are enough.
\<close>

fun read_chunks :: "nat \<Rightarrow> nat \<Rightarrow> string \<Rightarrow> string io" where
  "read_chunks 0 descriptor raw = io_ret raw"
| "read_chunks (Suc n) descriptor raw =
    (if max_feed_bytes < length raw then io_ret raw
     else io_bind (sys_read descriptor (length raw) (min 65536 (max_feed_bytes + 1 - length raw))) (\<lambda>chunk.
       if chunk = [] then io_ret raw else read_chunks n descriptor (raw @ chunk)))"

definition read_local_feed :: "path \<Rightarrow> string io" where
  "read_local_feed p =
    io_bind (io_catch
      (io_bind (sys_lstat p) (\<lambda>(_, m).
       io_if (i_kind m = Lnk \<or> i_kind m \<noteq> Reg) (FeedError ''local feed must be a regular, non-symlink file'')
       (io_if (max_feed_bytes < length (i_data m)) (FeedError ''local feed exceeds the size limit'')
       (io_bind (sys_open_read p) (\<lambda>descriptor.
        io_bind (sys_fstat descriptor) (\<lambda>(_, opened).
        io_if (i_kind opened \<noteq> Reg) (FeedError ''local feed changed type while opening'')
        (read_chunks (max_feed_bytes + 2) descriptor [])))))))
      is_os_error (\<lambda>e. io_raise (FeedError (''cannot read local feed: '' @ p @ '': '' @ exn_text e))))
    (\<lambda>raw. io_if (max_feed_bytes < length raw) (FeedError ''local feed exceeds the size limit'') (io_ret raw))"

section \<open>What was downloaded\<close>

lemma redirects_clean:
  assumes "rfold (redirect_request nfkc) xs n = Inr m"
  shows "n + length xs = m \<and> (xs \<noteq> [] \<longrightarrow> m \<le> redirect_limit)
    \<and> (\<forall>t \<in> set xs. \<exists>u. urlsplit nfkc t = Inr u \<and> clean_https u)"
  using assms
proof (induction xs arbitrary: n)
  case (Cons t ts)
  then obtain k where k: "redirect_request nfkc t n = Inr k" "rfold (redirect_request nfkc) ts k = Inr m"
    by (auto simp: rbind_Inr_iff)
  from k(1) have "k = Suc n" "k \<le> redirect_limit" "\<exists>u. urlsplit nfkc t = Inr u \<and> clean_https u"
    by (auto simp: redirect_request_def rbind_Inr_iff split: if_splits)
  with Cons.IH [OF k(2)] show ?case by (cases ts) (use k in auto)
qed simp

lemma read_response_Inr:
  "read_response nfkc e maximum = Inr raw \<longleftrightarrow> (\<exists>final header body u. e = Response final header body
     \<and> urlsplit nfkc final = Inr u \<and> u_scheme u = ''https'' \<and> check_length header maximum = Inr ()
     \<and> raw = take (maximum + 1) body)"
  by (auto simp: read_response_def rbind_Inr_iff split: ending.splits if_splits)

text \<open>
  C40: A download that is accepted is no larger than the limit, started from and was redirected at most three
  times to HTTPS URLs without credentials, and finished on HTTPS.
\<close>

theorem download_confined:
  assumes "download_https_feed nfkc x url maximum = Inr raw"
  shows "length raw \<le> maximum \<and> maximum \<le> max_intelligence_bytes \<and> length (x_redirects x) \<le> redirect_limit
    \<and> (\<forall>t. t = url \<or> t \<in> set (x_redirects x) \<longrightarrow> (\<exists>u. urlsplit nfkc t = Inr u \<and> clean_https u))
    \<and> (\<exists>final header body u. x_ending x = Response final header body \<and> urlsplit nfkc final = Inr u
         \<and> u_scheme u = ''https'' \<and> raw = body)"
proof -
  from assms obtain u m where u: "urlsplit nfkc url = Inr u" "clean_https u"
    and r: "rfold (redirect_request nfkc) (x_redirects x) 0 = Inr m"
    and e: "read_response nfkc (x_ending x) maximum = Inr raw" and l: "length raw \<le> maximum"
    and x: "maximum \<in> {max_feed_bytes, max_intelligence_bytes}"
    unfolding download_https_feed_def by (auto simp: rbind_Inr_iff split: if_splits)
  have x: "maximum \<le> max_intelligence_bytes" using x by (auto simp: max_feed_bytes_def max_intelligence_bytes_def)
  note c = redirects_clean [OF r]
  from e obtain final header body v where v: "x_ending x = Response final header body" "urlsplit nfkc final = Inr v"
    "u_scheme v = ''https''" "raw = take (maximum + 1) body" by (auto simp: read_response_Inr)
  from v(4) l have "raw = body" by (auto simp: min_def split: if_splits)
  with u c l x v show ?thesis by (cases "x_redirects x") auto
qed

lemma download_confined_witness:
  "\<exists>raw. download_https_feed (\<lambda>_. True) \<lparr>x_redirects = [''https://b/x''], x_ending = Response ''https://b/x'' None ''data''\<rparr>
     ''https://a'' max_feed_bytes = Inr raw \<and> length raw \<le> max_feed_bytes"
proof -
  let ?x = "\<lparr>x_redirects = [''https://b/x''], x_ending = Response ''https://b/x'' None ''data''\<rparr>"
  have c: "case urlsplit (\<lambda>_. True) t of Inl _ \<Rightarrow> False | Inr u \<Rightarrow> clean_https u \<and> u_fragment u = []"
    if "t \<in> {''https://a'', ''https://b/x''}" for t
  proof -
    have "list_all (\<lambda>t. case urlsplit (\<lambda>_. True) t of Inl _ \<Rightarrow> False | Inr u \<Rightarrow> clean_https u \<and> u_fragment u = [])
        [''https://a'', ''https://b/x'']" by code_simp
    with that show ?thesis by auto
  qed
  have "download_https_feed (\<lambda>_. True) ?x ''https://a'' max_feed_bytes = Inr ''data''"
    using c [of "''https://a''"] c [of "''https://b/x''"]
    by (auto simp: download_https_feed_def redirect_request_def redirect_limit_def read_response_def check_length_def clean_https_def
        max_feed_bytes_def split: sum.splits)
  then show ?thesis using download_confined by blast
qed

end
