(* ===== verification/Update_Status.thy ===== *)
theory Update_Status
  imports Transport Paths
begin

text \<open>
  What the two automatic checks of \<^verbatim>\<open>src/zsec_shield/automatic_updates.py\<close> share: the times, the
  signature of an envelope, the scheduling and the text of an error.  A run is given the current time,
  the numbers it draws, and \<open>zone\<close>, which turns a local time of the computer into UTC.
\<close>

section \<open>Times\<close>

text \<open>
  \<open>_parse_time\<close>: a text ending in Z, read with an offset of zero.  \<^verbatim>\<open>fromisoformat\<close> takes the sign of
  the offset as the separator when the text is only a date; the result is then a local time.
\<close>

definition update_time :: "(nat \<Rightarrow> nat res) \<Rightarrow> json \<Rightarrow> string \<Rightarrow> nat res" where
  "update_time zone v field =
    (let bad = Inl (FeedError (''automatic update status '' @ field @ '' is invalid'')) in
     if \<not> is_str v \<or> \<not> ends_with (str_of v) ''Z'' then bad
     else case from_iso (butlast (str_of v) @ ''+00:00'') of
         None \<Rightarrow> bad
       | Some (Naive t) \<Rightarrow> zone t
       | Some (Aware local offset) \<Rightarrow>
           if 0 \<le> int local - offset \<and> int local - offset < int max_time then Inr (to_utc local offset)
           else Inl (OtherError ''date value out of range''))"

definition optional_update_time :: "(nat \<Rightarrow> nat res) \<Rightarrow> dict \<Rightarrow> string \<Rightarrow> unit res" where
  "optional_update_time zone d field =
    (if dget d field = JNull then Inr () else rbind (update_time zone (dget d field) field) (\<lambda>_. Inr ()))"

definition shift_time :: "nat \<Rightarrow> int \<Rightarrow> nat res" where
  "shift_time now seconds =
    (let t = int now + seconds * 1000000 in
     if 0 \<le> t \<and> t < int max_time then Inr (nat t) else Inl (OtherError ''date value out of range''))"

text \<open>The jitter is between minus two and two hours, the delay of a retry at most two hours.\<close>

record update_input =
  ui_now :: nat
  ui_jitter :: int
  ui_retry :: nat
  ui_force :: bool
  ui_zone :: "nat \<Rightarrow> nat res"

definition max_jitter :: int where "max_jitter = 7200"

definition drawn :: "update_input \<Rightarrow> bool" where
  "drawn i = (ui_now i < max_time \<and> - max_jitter \<le> ui_jitter i \<and> ui_jitter i \<le> max_jitter \<and> int (ui_retry i) \<le> max_jitter)"

definition next_check :: "update_input \<Rightarrow> nat res" where
  "next_check i = shift_time (ui_now i) (86400 + ui_jitter i)"

definition next_failed_check :: "update_input \<Rightarrow> nat res" where
  "next_failed_check i = shift_time (ui_now i) (3600 + int (ui_retry i))"

section \<open>Envelopes\<close>

definition status_limit :: nat where "status_limit = 64 * 1024"

definition envelope_keys :: "string list" where
  "envelope_keys = [''schema'', ''algorithm'', ''key_id'', ''payload'', ''signature'']"

definition decode_update_signature :: "json \<Rightarrow> string res" where
  "decode_update_signature v =
    (let bad = Inl (FeedError ''intelligence signature is invalid'') in
     if \<not> is_str v \<or> 256 < py_len (str_of v) then bad
     else case b64decode_strict (str_of v) of
         None \<Rightarrow> bad
       | Some d \<Rightarrow> if length d \<noteq> 64 \<or> b64encode d \<noteq> str_of v then bad else Inr d)"

text \<open>The key that the envelope names; \<^verbatim>\<open>dict.get\<close> raises for a list or a dictionary.\<close>

definition update_key :: "string \<Rightarrow> keyring \<Rightarrow> json \<Rightarrow> nat \<Rightarrow> trusted_key res" where
  "update_key label keyring key_id now =
    (if unhashable key_id then Inl (OtherError ''unhashable type'')
     else case (if is_str key_id then map_of keyring (str_of key_id) else None) of
         None \<Rightarrow> Inl (FeedError (label @ '' signing key is not active and trusted''))
       | Some k \<Rightarrow>
         if tk_status k \<noteq> ''active'' then Inl (FeedError (label @ '' signing key is not active and trusted''))
         else if (case tk_not_before k of None \<Rightarrow> False | Some t \<Rightarrow> now < t) then
           Inl (FeedError (label @ '' signing key is not valid yet''))
         else if (case tk_not_after k of None \<Rightarrow> False | Some t \<Rightarrow> t \<le> now) then
           Inl (FeedError (label @ '' signing key has expired''))
         else Inr k)"

text \<open>A text that cannot be encoded is a \<^verbatim>\<open>ValueError\<close>, like a signature that does not verify.\<close>

definition update_signed ::
    "(string \<Rightarrow> string \<Rightarrow> string \<Rightarrow> bool) \<Rightarrow> string \<Rightarrow> trusted_key \<Rightarrow> json \<Rightarrow> json \<Rightarrow> unit res" where
  "update_signed vf label trusted signature payload =
    rbind (decode_update_signature signature) (\<lambda>s.
      case canonical_json_bytes payload of
        Inl _ \<Rightarrow> Inl (FeedError (label @ '' signature verification failed''))
      | Inr b \<Rightarrow>
        if vf (tk_public_key trusted) s (b @ [CHR 0x0A]) then Inr ()
        else Inl (FeedError (label @ '' signature verification failed'')))"

section \<open>Fields of a status\<close>

definition optional_sequence :: "string \<Rightarrow> json \<Rightarrow> int option res" where
  "optional_sequence message v =
    (if v = JNull then Inr None
     else if \<not> is_int_nb v \<or> int_of v < 1 then Inl (FeedError message)
     else Inr (Some (int_of v)))"

definition status_source :: "string \<Rightarrow> json \<Rightarrow> string res" where
  "status_source message v =
    (if \<not> is_str v \<or> \<not> starts_with (str_of v) ''https://'' \<or> 2048 < py_len (str_of v) then Inl (FeedError message)
     else Inr (str_of v))"

definition status_error :: "string \<Rightarrow> json \<Rightarrow> string option res" where
  "status_error message v =
    (if v = JNull then Inr None
     else if \<not> is_str v \<or> \<not> (1 \<le> py_len (str_of v) \<and> py_len (str_of v) \<le> 500) then Inl (FeedError message)
     else Inr (Some (str_of v)))"

definition opt_text :: "json \<Rightarrow> string option" where
  "opt_text v = (case v of JStr s \<Rightarrow> Some s | _ \<Rightarrow> None)"

definition opt_int :: "int option \<Rightarrow> json" where
  "opt_int v = (case v of None \<Rightarrow> JNull | Some n \<Rightarrow> JInt n)"

text \<open>The model does not tell apart all subclasses of \<^verbatim>\<open>OSError\<close>.\<close>

definition failure_text :: "exn \<Rightarrow> string" where
  "failure_text e = one_line (exn_name e @ '': '' @ exn_text e)"

text \<open>A bounded regular status file.\<close>

definition read_status_file :: "path \<Rightarrow> string \<Rightarrow> json io" where
  "read_status_file p message =
    io_bind (path_is_file p) (\<lambda>regular.
    io_bind (if regular then io_bind (stat_size p) (\<lambda>n. io_ret (status_limit < n)) else io_ret True) (\<lambda>bad.
    io_if bad (FeedError message)
    (io_bind (sys_read_bytes p) (\<lambda>raw. io_lift (strict_json_loads raw)))))"

end
