(* ===== verification/App_Update.thy ===== *)
theory App_Update
  imports Update_Status
begin

text \<open>
  The application update check of \<^verbatim>\<open>src/zsec_shield/automatic_updates.py\<close>: the verification of a
  signed release notice, its rollback state, the status file and the check itself.
\<close>

section \<open>Versions\<close>

text \<open>\<^verbatim>\<open>int\<close> refuses more than 4300 digits with a \<^verbatim>\<open>ValueError\<close>.\<close>

definition parse_release_version :: "json \<Rightarrow> nat list res" where
  "parse_release_version v =
    (let parts = split_on (CHR ''.'') (str_of v) in
     if \<not> is_str v \<or> length parts < 2 \<or> 4 < length parts \<or> list_ex (\<lambda>p. p = [] \<or> \<not> list_all is_digit p) parts then
       Inl (FeedError ''application release version is invalid'')
     else if list_ex (\<lambda>p. 4300 < length p) parts then Inl (ValueError ''Exceeds the limit for integer string conversion'')
     else if list_ex (\<lambda>p. 65535 < nat_of_dec p) parts then Inl (FeedError ''application release version is invalid'')
     else Inr (map nat_of_dec parts @ replicate (4 - length parts) 0))"

text \<open>The comparison of tuples.\<close>

fun version_less :: "nat list \<Rightarrow> nat list \<Rightarrow> bool" where
  "version_less (x # xs) (y # ys) = (x < y \<or> x = y \<and> version_less xs ys)"
| "version_less [] (y # ys) = True"
| "version_less _ [] = False"

section \<open>The envelope\<close>

definition check_update_window :: "(nat \<Rightarrow> nat res) \<Rightarrow> dict \<Rightarrow> nat \<Rightarrow> unit res" where
  "check_update_window zone payload now =
    rbind (update_time zone (dget payload ''generated_at'') ''generated_at'') (\<lambda>generated.
    rbind (update_time zone (dget payload ''expires_at'') ''expires_at'') (\<lambda>expires.
    if generated > now + minutes 5 \<or> expires \<le> now then
      Inl (FeedError ''application update validity window is invalid'')
    else if expires \<le> generated \<or> expires - generated > days 14 then
      Inl (FeedError ''application update validity exceeds policy'')
    else Inr ()))"

definition artifact_keys :: "string list" where
  "artifact_keys = [''architecture'', ''authenticode'', ''filename'', ''operating_system'', ''sha256'', ''size'', ''url'']"

definition check_artifact :: "json \<Rightarrow> unit \<Rightarrow> unit res" where
  "check_artifact v u =
    (let a = obj_of v in
     if \<not> is_obj v then Inl (FeedError ''application release artifact is invalid'')
     else if keys_of a \<noteq> set artifact_keys then Inl (FeedError ''application release artifact fields are invalid'')
     else if \<not> is_str (dget a ''sha256'') \<or> py_len (str_of (dget a ''sha256'')) \<noteq> 64
         \<or> from_hex (str_of (dget a ''sha256'')) = None then
       Inl (FeedError ''application release artifact digest is invalid'')
     else if \<not> is_str (dget a ''url'') \<or> \<not> starts_with (str_of (dget a ''url'')) ''https://'' then
       Inl (FeedError ''application release artifact URL is invalid'')
     else Inr ())"

definition release_keys :: "string list" where
  "release_keys = [''schema'', ''version'', ''channel'', ''minimum_supported_version'', ''release_notes_url'',
     ''source_revision'', ''notification_only'', ''auto_install_allowed'', ''artifacts'']"

definition notify_only :: "dict \<Rightarrow> bool" where
  "notify_only d = (dget d ''notification_only'' = JBool True \<and> dget d ''auto_install_allowed'' = JBool False)"

definition check_release :: "json \<Rightarrow> unit res" where
  "check_release v =
    (let r = obj_of v in
     if \<not> is_obj v \<or> keys_of r \<noteq> set release_keys then Inl (FeedError ''application release fields are invalid'')
     else if dget r ''schema'' \<noteq> JStr ''zsec.application-release-source.v1'' \<or> \<not> notify_only r then
       Inl (FeedError ''application release is not notification-only'')
     else if \<not> is_str (dget r ''version'')
         \<or> \<not> (1 \<le> py_len (str_of (dget r ''version'')) \<and> py_len (str_of (dget r ''version'')) \<le> 32) then
       Inl (FeedError ''application release version is invalid'')
     else rbind (parse_release_version (dget r ''version'')) (\<lambda>_.
     if \<not> is_list (dget r ''artifacts'') \<or> list_of (dget r ''artifacts'') = [] then
       Inl (FeedError ''application release artifacts are invalid'')
     else rfold check_artifact (list_of (dget r ''artifacts'')) ()))"

definition app_payload_keys :: "string list" where
  "app_payload_keys = [''schema'', ''sequence'', ''generated_at'', ''expires_at'', ''channel'', ''notification_only'',
     ''auto_install_allowed'', ''release'']"

definition check_app_payload :: "(nat \<Rightarrow> nat res) \<Rightarrow> dict \<Rightarrow> nat \<Rightarrow> unit res" where
  "check_app_payload zone payload now =
    (if keys_of payload \<noteq> set app_payload_keys
        \<or> dget payload ''schema'' \<noteq> JStr ''zsec.application-update.payload.v1'' then
       Inl (FeedError ''application update payload fields or schema are invalid'')
     else if dget payload ''channel'' \<noteq> JStr ''stable'' \<or> \<not> notify_only payload then
       Inl (FeedError ''application update payload violates notification-only policy'')
     else rbind (check_update_window zone payload now) (\<lambda>_.
     if \<not> is_int_nb (dget payload ''sequence'') \<or> int_of (dget payload ''sequence'') < 1 then
       Inl (FeedError ''application update sequence is invalid'')
     else check_release (dget payload ''release'')))"

definition app_notice :: "dict \<Rightarrow> string \<Rightarrow> dict" where
  "app_notice payload raw =
    (let r = obj_of (dget payload ''release'') in mk_dict
     [(''schema'', JStr ''zsec.shield.application-update-notification.v1''), (''sequence'', dget payload ''sequence''),
      (''version'', dget r ''version''), (''release_notes_url'', dget r ''release_notes_url''),
      (''artifacts'', dget r ''artifacts''), (''expires_at'', dget payload ''expires_at''),
      (''automatic_install'', JBool False),
      (''policy'', JStr ''notification only; no content is downloaded or executed''),
      (''manifest_sha256'', JStr (hexdigest raw))])"

definition parse_app_envelope :: "string \<Rightarrow> dict res" where
  "parse_app_envelope raw =
    (if status_limit < length raw then Inl (FeedError ''application update envelope is too large'')
     else rbind (strict_json_loads raw) (\<lambda>v.
     if \<not> is_obj v \<or> keys_of (obj_of v) \<noteq> set envelope_keys then
       Inl (FeedError ''application update envelope fields are invalid'')
     else if dget (obj_of v) ''schema'' \<noteq> JStr ''zsec.signed-envelope.v1'' \<or> dget (obj_of v) ''algorithm'' \<noteq> JStr ''ed25519'' then
       Inl (FeedError ''application update envelope identity is invalid'')
     else Inr (obj_of v)))"

definition check_app_envelope ::
    "(string \<Rightarrow> string \<Rightarrow> string \<Rightarrow> bool) \<Rightarrow> (nat \<Rightarrow> nat res) \<Rightarrow> string \<Rightarrow> dict \<Rightarrow> keyring \<Rightarrow> nat \<Rightarrow> dict res" where
  "check_app_envelope vf zone raw envelope keyring now =
    rbind (update_key ''application update'' keyring (dget envelope ''key_id'') now) (\<lambda>trusted.
    let payload = dget envelope ''payload'' in
    if \<not> is_obj payload then Inl (FeedError ''application update payload is invalid'')
    else rbind (update_signed vf ''application update'' trusted (dget envelope ''signature'') payload) (\<lambda>_.
    rbind (check_app_payload zone (obj_of payload) now) (\<lambda>_.
    Inr (app_notice (obj_of payload) raw))))"

definition verify_application_update_envelope ::
    "(string \<Rightarrow> string \<Rightarrow> string \<Rightarrow> bool) \<Rightarrow> (nat \<Rightarrow> nat res) \<Rightarrow> string \<Rightarrow> path \<Rightarrow> nat \<Rightarrow> dict io" where
  "verify_application_update_envelope vf zone raw keyring_path now =
    io_bind (io_lift (parse_app_envelope raw)) (\<lambda>envelope.
    io_bind (load_keyring keyring_path) (\<lambda>keyring.
    io_lift (check_app_envelope vf zone raw envelope keyring now)))"

section \<open>The status\<close>

record app_status =
  as_state :: string
  as_installed :: string
  as_available :: "string option"
  as_sequence :: "int option"
  as_checked :: "string option"
  as_success :: "string option"
  as_next :: string
  as_source :: string
  as_automatic :: bool
  as_error :: "string option"

definition app_status_schema :: string where
  "app_status_schema = ''zsec.shield.application-update-status.v1''"

definition app_status_to_dict :: "app_status \<Rightarrow> dict" where
  "app_status_to_dict s = mk_dict
    [(''schema'', JStr app_status_schema), (''state'', JStr (as_state s)), (''installed_version'', JStr (as_installed s)),
     (''available_version'', opt_str (as_available s)), (''sequence'', opt_int (as_sequence s)),
     (''last_checked_at'', opt_str (as_checked s)), (''last_success_at'', opt_str (as_success s)),
     (''next_check_at'', JStr (as_next s)), (''source'', JStr (as_source s)),
     (''automatic_install'', JBool (as_automatic s)), (''error'', opt_str (as_error s))]"

definition app_status_keys :: "string list" where
  "app_status_keys = [''schema'', ''state'', ''installed_version'', ''available_version'', ''sequence'', ''last_checked_at'',
     ''last_success_at'', ''next_check_at'', ''source'', ''automatic_install'', ''error'']"

definition optional_version :: "json \<Rightarrow> unit res" where
  "optional_version v = (if v = JNull then Inr () else rbind (parse_release_version v) (\<lambda>_. Inr ()))"

definition validate_app_status :: "(nat \<Rightarrow> nat res) \<Rightarrow> json \<Rightarrow> app_status res" where
  "validate_app_status zone v =
    (let d = obj_of v in
     if \<not> is_obj v \<or> keys_of d \<noteq> set app_status_keys then Inl (FeedError ''application update status fields are invalid'')
     else if dget d ''schema'' \<noteq> JStr app_status_schema then Inl (FeedError ''application update status schema is invalid'')
     else
     rbind (in_set (dget d ''state'') [''never_checked'', ''current'', ''available'', ''error'']) (\<lambda>ok.
     if \<not> ok then Inl (FeedError ''application update status state is invalid'')
     else
     rbind (parse_release_version (dget d ''installed_version'')) (\<lambda>_.
     rbind (optional_version (dget d ''available_version'')) (\<lambda>_.
     rbind (optional_sequence ''application update status sequence is invalid'' (dget d ''sequence'')) (\<lambda>sequence.
     rbind (optional_update_time zone d ''last_checked_at'') (\<lambda>_.
     rbind (optional_update_time zone d ''last_success_at'') (\<lambda>_.
     rbind (update_time zone (dget d ''next_check_at'') ''next_check_at'') (\<lambda>_.
     rbind (status_source ''application update status source is invalid'' (dget d ''source'')) (\<lambda>source.
     if dget d ''automatic_install'' \<noteq> JBool False then
       Inl (FeedError ''application update status automatic-install policy is invalid'')
     else
     rbind (status_error ''application update status error is invalid'' (dget d ''error'')) (\<lambda>error.
     Inr \<lparr>as_state = str_of (dget d ''state''), as_installed = str_of (dget d ''installed_version''),
       as_available = opt_text (dget d ''available_version''), as_sequence = sequence,
       as_checked = opt_text (dget d ''last_checked_at''), as_success = opt_text (dget d ''last_success_at''),
       as_next = str_of (dget d ''next_check_at''), as_source = source, as_automatic = False, as_error = error\<rparr>))))))))))"

definition blank_app_status :: "string \<Rightarrow> string \<Rightarrow> string \<Rightarrow> nat \<Rightarrow> string option \<Rightarrow> app_status" where
  "blank_app_status state installed source now error =
    \<lparr>as_state = state, as_installed = installed, as_available = None, as_sequence = None, as_checked = None,
     as_success = None, as_next = format_utc now, as_source = source, as_automatic = False, as_error = error\<rparr>"

definition read_app_status :: "(nat \<Rightarrow> nat res) \<Rightarrow> path \<Rightarrow> string \<Rightarrow> string \<Rightarrow> nat \<Rightarrow> app_status io" where
  "read_app_status zone p installed source now =
    io_catch
      (io_bind (read_status_file p ''application update status is not a bounded regular file'') (\<lambda>v.
       io_lift (validate_app_status zone v)))
      feed_or_os
      (\<lambda>e. io_ret (blank_app_status ''error'' installed source now (Some (py_take 500 (exn_text e)))))"

definition load_application_update_status ::
    "(nat \<Rightarrow> nat res) \<Rightarrow> path \<Rightarrow> string \<Rightarrow> string \<Rightarrow> nat \<Rightarrow> app_status io" where
  "load_application_update_status zone state_dir installed source now =
    io_bind (io_lift (parse_release_version (JStr installed))) (\<lambda>_.
    let p = application_update_status_path state_dir in
    io_bind (path_exists p) (\<lambda>there.
    if \<not> there then io_ret (blank_app_status ''never_checked'' installed source now None)
    else io_bind (read_app_status zone p installed source now) (\<lambda>status.
      io_ret (if as_source status \<noteq> source \<or> as_installed status \<noteq> installed then
          status\<lparr>as_state := ''never_checked'', as_installed := installed, as_next := format_utc now,
            as_source := source, as_automatic := False, as_error := None\<rparr>
        else status))))"

section \<open>The rollback state\<close>

definition app_state_keys :: "string list" where
  "app_state_keys = [''schema'', ''max_sequence'', ''manifest_sha256'', ''release_version'', ''checked_at'']"

definition check_app_state :: "(nat \<Rightarrow> nat res) \<Rightarrow> json \<Rightarrow> dict res" where
  "check_app_state zone v =
    (let d = obj_of v in
     if \<not> is_obj v \<or> keys_of d \<noteq> set app_state_keys then
       Inl (FeedError ''application update rollback state fields are invalid'')
     else if dget d ''schema'' \<noteq> JStr ''zsec.shield.application-update-client-state.v1'' then
       Inl (FeedError ''application update rollback state schema is invalid'')
     else if \<not> is_int_nb (dget d ''max_sequence'') \<or> int_of (dget d ''max_sequence'') < 1 then
       Inl (FeedError ''application update rollback sequence is invalid'')
     else if \<not> is_str (dget d ''manifest_sha256'') \<or> py_len (str_of (dget d ''manifest_sha256'')) \<noteq> 64
         \<or> from_hex (str_of (dget d ''manifest_sha256'')) = None then
       Inl (FeedError ''application update rollback digest is invalid'')
     else rbind (parse_release_version (dget d ''release_version'')) (\<lambda>_.
       rbind (update_time zone (dget d ''checked_at'') ''checked_at'') (\<lambda>_. Inr d)))"

definition load_app_state :: "(nat \<Rightarrow> nat res) \<Rightarrow> path \<Rightarrow> dict option io" where
  "load_app_state zone p =
    io_bind (path_exists p) (\<lambda>there.
    if \<not> there then io_ret None
    else io_bind (read_status_file p ''application update rollback state is not a bounded regular file'') (\<lambda>v.
      io_bind (io_lift (check_app_state zone v)) (\<lambda>d. io_ret (Some d))))"

definition app_rollback_check :: "dict option \<Rightarrow> dict \<Rightarrow> unit res" where
  "app_rollback_check state notice =
    (case state of None \<Rightarrow> Inr ()
     | Some d \<Rightarrow>
       if int_of (dget notice ''sequence'') < int_of (dget d ''max_sequence'') then
         Inl (FeedError ''application update rollback sequence was rejected'')
       else if dget notice ''sequence'' = dget d ''max_sequence''
           \<and> dget notice ''manifest_sha256'' \<noteq> dget d ''manifest_sha256'' then
         Inl (FeedError ''application update sequence reuse with changed content was rejected'')
       else Inr ())"

definition app_state_record :: "dict \<Rightarrow> string \<Rightarrow> dict" where
  "app_state_record notice checked_at = mk_dict
    [(''schema'', JStr ''zsec.shield.application-update-client-state.v1''), (''max_sequence'', dget notice ''sequence''),
     (''manifest_sha256'', dget notice ''manifest_sha256''), (''release_version'', dget notice ''version''),
     (''checked_at'', JStr checked_at)]"

definition app_lock_path :: "path \<Rightarrow> path" where
  "app_lock_path d = join_path (join_path d ''application-update'') ''.update.lock''"

definition record_notice :: "(nat \<Rightarrow> nat res) \<Rightarrow> path \<Rightarrow> dict \<Rightarrow> string \<Rightarrow> unit io" where
  "record_notice zone state_dir notice checked_at =
    io_bind (load_app_state zone (application_update_state_path state_dir)) (\<lambda>state.
    io_bind (io_lift (app_rollback_check state notice)) (\<lambda>_.
    io_then (atomic_write_json (application_update_notice_path state_dir) (JObj notice) 384)
    (atomic_write_json (application_update_state_path state_dir) (JObj (app_state_record notice checked_at)) 384)))"

section \<open>The check\<close>

definition new_app_status ::
    "(string \<Rightarrow> string \<Rightarrow> string \<Rightarrow> bool) \<Rightarrow> update_input \<Rightarrow> string res \<Rightarrow> path \<Rightarrow> path \<Rightarrow> string \<Rightarrow> string \<Rightarrow> string \<Rightarrow> app_status io" where
  "new_app_status vf i download state_dir keyring_path installed source next =
    (let checked_at = format_utc (ui_now i) in
     io_bind (io_lift download) (\<lambda>raw.
     io_bind (verify_application_update_envelope vf (ui_zone i) raw keyring_path (ui_now i)) (\<lambda>notice.
     io_then (update_lock (app_lock_path state_dir) (record_notice (ui_zone i) state_dir notice checked_at))
     (io_bind (io_lift (parse_release_version (dget notice ''version''))) (\<lambda>latest.
      io_bind (io_lift (parse_release_version (JStr installed))) (\<lambda>current.
      let available = version_less current latest in
      io_ret \<lparr>as_state = (if available then ''available'' else ''current''), as_installed = installed,
        as_available = (if available then Some (str_of (dget notice ''version'')) else None),
        as_sequence = Some (int_of (dget notice ''sequence'')), as_checked = Some checked_at,
        as_success = Some checked_at, as_next = next, as_source = source, as_automatic = False,
        as_error = None\<rparr>))))))"

definition failed_app_status :: "update_input \<Rightarrow> app_status \<Rightarrow> string \<Rightarrow> string \<Rightarrow> exn \<Rightarrow> app_status res" where
  "failed_app_status i previous installed source e =
    rbind (next_failed_check i) (\<lambda>next.
    Inr \<lparr>as_state = ''error'', as_installed = installed, as_available = as_available previous,
      as_sequence = as_sequence previous, as_checked = Some (format_utc (ui_now i)), as_success = as_success previous,
      as_next = format_utc next, as_source = source, as_automatic = False, as_error = Some (failure_text e)\<rparr>)"

text \<open>\<open>x\<close> is what happens on the network, and \<open>nfkc\<close> the Unicode tables of \<open>urlsplit\<close>.\<close>

definition run_automatic_application_update_check ::
    "(string \<Rightarrow> string \<Rightarrow> string \<Rightarrow> bool) \<Rightarrow> (string \<Rightarrow> bool) \<Rightarrow> exchange \<Rightarrow> update_input \<Rightarrow> path \<Rightarrow> path \<Rightarrow> string \<Rightarrow> string
       \<Rightarrow> app_status io" where
  "run_automatic_application_update_check vf nfkc x i state_dir keyring_path installed source =
    io_bind (load_application_update_status (ui_zone i) state_dir installed source (ui_now i)) (\<lambda>previous.
    io_bind (if ui_force i then io_ret True
             else io_bind (io_lift (update_time (ui_zone i) (JStr (as_next previous)) ''next_check_at''))
               (\<lambda>t. io_ret (t \<le> ui_now i))) (\<lambda>due.
    if \<not> due then io_ret previous
    else
    io_bind (io_lift (next_check i)) (\<lambda>next.
    io_bind (io_catch
        (new_app_status vf i (download_feed nfkc x source) state_dir keyring_path installed source (format_utc next))
        feed_or_os (\<lambda>e. io_lift (failed_app_status i previous installed source e))) (\<lambda>status.
    io_then (atomic_write_json (application_update_status_path state_dir) (JObj (app_status_to_dict status)) 384)
      (io_ret status)))))"

end
