(* ===== verification/Update_Logic.thy ===== *)
theory Update_Logic
  imports Update_Status Rollback Vault_Logic Feed_Proofs Zba
begin

text \<open>
  What the proofs about the two automatic checks share: what an accepted signature means, the reading
  of a status file, the times the program writes itself, and the update lock.
\<close>

section \<open>Signatures\<close>

definition valid_at :: "trusted_key \<Rightarrow> nat \<Rightarrow> bool" where
  "valid_at k now = (tk_status k = ''active'' \<and> (\<forall>t. tk_not_before k = Some t \<longrightarrow> t \<le> now)
     \<and> (\<forall>t. tk_not_after k = Some t \<longrightarrow> now < t))"

lemma update_key_Inr:
  "update_key label ring v now = Inr k \<longleftrightarrow> (\<exists>id. v = JStr id \<and> map_of ring id = Some k \<and> valid_at k now)"
  by (cases v) (auto simp: update_key_def unhashable_def valid_at_def not_less split: option.splits if_splits)

lemma decode_update_signature_Inr:
  "decode_update_signature v = Inr s \<Longrightarrow> length s = 64 \<and> v = JStr (b64encode s)"
  by (cases v) (auto simp: decode_update_signature_def Let_def split: option.splits if_splits)

text \<open>The document \<open>payload\<close> carries the signature of the key.\<close>

definition signed_by :: "(string \<Rightarrow> string \<Rightarrow> string \<Rightarrow> bool) \<Rightarrow> trusted_key \<Rightarrow> json \<Rightarrow> json \<Rightarrow> bool" where
  "signed_by vf k signature payload =
    (\<exists>s b. signature = JStr (b64encode s) \<and> length s = 64 \<and> canonical_json_bytes payload = Inr b
       \<and> vf (tk_public_key k) s (b @ [CHR 0x0A]))"

lemma update_signed_Inr: "update_signed vf label k signature payload = Inr () \<Longrightarrow> signed_by vf k signature payload"
  by (cases "canonical_json_bytes payload")
     (auto simp: update_signed_def rbind_Inr_iff signed_by_def dest!: decode_update_signature_Inr split: if_splits)

section \<open>Records and times\<close>

lemma read_status_file_has:
  assumes "i_kind d = Reg" and "strict_json_loads (i_data d) = Inr v"
  shows "triple (has p d) (read_status_file p msg) (\<lambda>x f. has p d f \<and> x = v) (\<lambda>_. has p d)"
  unfolding read_status_file_def
proof (rule triple_bind [OF looksD [OF looks_is_file, of "has p d"]], goal_cases)
  case (1 regular)
  show ?case
  proof (rule triple_bind [where Q = "\<lambda>_. has p d"], goal_cases)
    case 1
    show ?case
      by (cases regular) (auto intro!: looksD [OF looks_bind [OF looks_stat_size looks_ret], of "has p d"] triple_ret)
  next
    case (2 bad)
    show ?case
      by (rule triple_if, simp, rule triple_bind [OF triple_read_bytes_Reg [OF assms(1)]], rule triple_assume,
          rule triple_lift) (use assms(2) in auto)
  qed
qed

lemma update_time_format:
  assumes "t < max_time"
  shows "update_time zone (JStr (format_utc t)) f = Inr (t - t mod usec)"
  using from_iso_utc_text [OF assms] assms
  by (simp add: update_time_def format_utc_text ends_with_def to_utc_def)

lemma parsed_dget: "parsed (JObj d) \<Longrightarrow> parsed (dget d k)"
  by (induction d) (auto simp: dget_def wf_dict_def)

section \<open>The update lock\<close>

lemma stable_open_append: "stable F (sys_open_append p)"
  unfolding sys_open_append_def
proof (rule stable_step)
  fix f r f'
  assume k: "keeps F f" and a: "(case resolve max_links f p of
       Inr i \<Rightarrow> (if i_kind (f_inodes f i) = Dir then Inl (OSError ''is a directory'') else Inr (), f)
     | Inl _ \<Rightarrow> (case create_excl p f of (Inl e, f') \<Rightarrow> (Inl e, f') | (Inr _, f') \<Rightarrow> (Inr (), f'))) = (r, f')"
  from a have "f' = f \<or> (\<exists>x. create_excl p f = (x, f'))" by (auto split: sum.splits prod.splits)
  with k show "keeps F f'" by (metis create_excl_cases keeps_new)
qed

lemma stable_update_lock:
  assumes "stable F body"
  shows "stable F (update_lock p body)"
  unfolding update_lock_def
proof (intro stable_then stable_mkdirs stable_open_append stable_looks [OF looks_catch [OF looks_flock looks_raise]])
  show "stable F (io_finally body (unlock p))"
    using stableD [OF assms] unfolding stable_def by (rule triple_finally) (rule triple_unlock)+
qed

lemma stable_atomic_json: "p \<notin> fst ` set F \<Longrightarrow> p \<noteq> [] \<Longrightarrow> stable F (atomic_write_json p v mode)"
  unfolding stable_def by (rule triple_conseq [OF triple_atomic_json]) auto

lemma looks_read_status: "looks (read_status_file p msg)"
  unfolding read_status_file_def
  by (auto intro!: looks_bind looks_is_file looks_stat_size looks_ret looks_if looks_read_bytes looks_lift)

lemma looks_load_ring: "looks (load_keyring p)"
  unfolding load_keyring_def by (auto intro!: looks_intros looks_stat_size)

end
