(* ===== verification/App_Update_Proofs.thy ===== *)
theory App_Update_Proofs
  imports App_Update Update_Logic Atomic_Write
begin

text \<open>
  The guarantees of the application update check: a notice is accepted only under the signature of
  an active trusted key and only for notification, the recorded sequence never decreases, no other
  file changes, and the status that is written is one the reader accepts.
\<close>

section \<open>What is accepted\<close>

lemma check_release_Inr:
  "check_release v = Inr u \<Longrightarrow> \<exists>r version. v = JObj r \<and> notify_only r \<and> parse_release_version (dget r ''version'') = Inr version"
  by (cases v) (auto simp: check_release_def Let_def rbind_Inr_iff split: if_splits)

lemma check_app_payload_Inr:
  assumes "check_app_payload zone payload now = Inr u"
  shows "notify_only payload \<and> (\<exists>n. dget payload ''sequence'' = JInt n \<and> 1 \<le> n)
    \<and> check_update_window zone payload now = Inr () \<and> check_release (dget payload ''release'') = Inr ()"
proof -
  define n where "n = dget payload ''sequence''"
  have "notify_only payload" "check_update_window zone payload now = Inr ()" "is_int_nb n \<and> \<not> int_of n < 1"
    "check_release (dget payload ''release'') = Inr ()"
    using assms unfolding check_app_payload_def rbind_Inr_iff if_Inr_iff n_def [symmetric] by auto
  then show ?thesis by (cases n) (simp_all add: n_def)
qed

lemma app_notice_get:
  "dget (app_notice payload raw) ''sequence'' = dget payload ''sequence''"
  "dget (app_notice payload raw) ''manifest_sha256'' = JStr (hexdigest raw)"
  "dget (app_notice payload raw) ''automatic_install'' = JBool False"
  "dget (app_notice payload raw) ''version'' = dget (obj_of (dget payload ''release'')) ''version''"
  by (simp_all add: app_notice_def Let_def dget_mk_dict)

text \<open>
  C6: A release notice is accepted only when its payload carries the signature of a trusted key that is
  active and within its validity, the payload and the release say that they are for notification
  only, and the sequence is positive; the notice that is stored never allows an installation.
\<close>

theorem app_notice_authentic:
  assumes "check_app_envelope vf zone raw envelope ring now = Inr notice"
  shows "\<exists>id k payload release n. dget envelope ''key_id'' = JStr id \<and> map_of ring id = Some k \<and> valid_at k now
    \<and> dget envelope ''payload'' = JObj payload \<and> signed_by vf k (dget envelope ''signature'') (JObj payload)
    \<and> notify_only payload \<and> dget payload ''release'' = JObj release \<and> notify_only release
    \<and> dget notice ''sequence'' = JInt n \<and> 1 \<le> n \<and> dget notice ''automatic_install'' = JBool False
    \<and> dget notice ''manifest_sha256'' = JStr (hexdigest raw)"
proof -
  define v where "v = dget envelope ''payload''"
  from assms obtain k where k: "update_key ''application update'' ring (dget envelope ''key_id'') now = Inr k"
    and o: "is_obj v" and s: "update_signed vf ''application update'' k (dget envelope ''signature'') v = Inr ()"
    and c: "check_app_payload zone (obj_of v) now = Inr ()" and n: "notice = app_notice (obj_of v) raw"
    unfolding check_app_envelope_def Let_def v_def [symmetric] by (auto simp: rbind_Inr_iff if_Inr_iff)
  obtain payload where v: "v = JObj payload" using o by (cases v) auto
  note p = v [unfolded v_def] s [unfolded v] c [unfolded v obj_of.simps] and n = n [unfolded v obj_of.simps]
  note a = check_app_payload_Inr [OF p(3)]
  from a obtain r where "dget payload ''release'' = JObj r" "notify_only r" by (auto dest!: check_release_Inr)
  with k p a n show ?thesis
    by (auto simp: update_key_Inr app_notice_get dest: update_signed_Inr)
qed

section \<open>The recorded sequence\<close>

definition parse_app_state :: "(nat \<Rightarrow> nat res) \<Rightarrow> string \<Rightarrow> dict res" where
  "parse_app_state zone raw = rbind (strict_json_loads raw) (check_app_state zone)"

lemma load_app_state_has:
  assumes "i_kind d = Reg" and "parse_app_state zone (i_data d) = Inr st"
  shows "triple (has p d) (load_app_state zone p) (\<lambda>x f. has p d f \<and> x = Some st) (\<lambda>_. has p d)"
  unfolding load_app_state_def
proof (rule triple_bind [OF has_exists triple_assume], simp add: assms(1), goal_cases)
  case (1 there)
  from assms(2) obtain v where v: "strict_json_loads (i_data d) = Inr v" "check_app_state zone v = Inr st"
    by (auto simp: parse_app_state_def rbind_Inr_iff)
  have "triple (has p d) (io_bind (read_status_file p ''application update rollback state is not a bounded regular file'')
      (\<lambda>v. io_bind (io_lift (check_app_state zone v)) (\<lambda>d. io_ret (Some d))))
     (\<lambda>x f. has p d f \<and> x = Some st) (\<lambda>_. has p d)"
    by (rule triple_bind [OF read_status_file_has [OF assms(1) v(1)] triple_assume], rule triple_lift_bind)
       (auto intro: triple_ret simp: v(2))
  then show ?case using 1 by simp
qed

interpretation app_record: rollback_record "parse_app_state zone" "load_app_state zone" for zone
  by unfold_locales (rule load_app_state_has)

lemma app_record_get:
  "dget (app_state_record notice t) ''schema'' = JStr ''zsec.shield.application-update-client-state.v1''"
  "dget (app_state_record notice t) ''max_sequence'' = dget notice ''sequence''"
  "dget (app_state_record notice t) ''manifest_sha256'' = dget notice ''manifest_sha256''"
  "dget (app_state_record notice t) ''release_version'' = dget notice ''version''"
  "dget (app_state_record notice t) ''checked_at'' = JStr t"
  "keys_of (app_state_record notice t) = set app_state_keys"
  by (simp_all add: app_state_record_def dget_mk_dict keys_of_mk_dict app_state_keys_def)

lemma app_record_parses:
  assumes e: "parse_app_envelope raw = Inr envelope" and c: "check_app_envelope vf zone raw envelope ring t = Inr notice"
    and now: "now < max_time" and b: "indented_json_bytes (JObj (app_state_record notice (format_utc now))) = Inr b"
  shows "parse_app_state zone b = Inr (app_state_record notice (format_utc now))"
proof -
  define v where "v = dget envelope ''payload''"
  from c have o: "is_obj v" and p: "check_app_payload zone (obj_of v) t = Inr ()" and n: "notice = app_notice (obj_of v) raw"
    unfolding check_app_envelope_def Let_def v_def [symmetric] by (auto simp: rbind_Inr_iff if_Inr_iff)
  obtain payload where v: "v = JObj payload" using o by (cases v) auto
  note a = check_app_payload_Inr [OF p [unfolded v obj_of.simps]]
  from a obtain r x where r: "dget payload ''release'' = JObj r" "parse_release_version (dget r ''version'') = Inr x"
    by (auto dest!: check_release_Inr)
  then obtain version where s: "dget r ''version'' = JStr version"
    by (cases "dget r ''version''") (auto simp: parse_release_version_def Let_def)
  have "parsed (JObj envelope)"
  proof -
    from e obtain u where u: "strict_json_loads raw = Inr u" "is_obj u" "envelope = obj_of u"
      unfolding parse_app_envelope_def rbind_Inr_iff if_Inr_iff by blast
    show ?thesis using strict_json_loads_parsed [OF u(1)] u(2,3) by (cases u) auto
  qed
  then have "parsed (dget payload ''sequence'')" by (metis parsed_dget v v_def)
  then have w: "wf_json (dget payload ''sequence'')" using a by (auto simp: wf_json_iff)
  have g: "dget notice ''sequence'' = dget payload ''sequence''" "dget notice ''manifest_sha256'' = JStr (hexdigest raw)"
    "dget notice ''version'' = JStr version"
    by (simp_all add: n v app_notice_get r(1) s)
  have "wf_json (JObj (app_state_record notice (format_utc now)))"
    unfolding app_state_record_def g by (rule wf_json_mk_dict) (use w in auto)
  then have "strict_json_loads b = Inr (JObj (app_state_record notice (format_utc now)))"
    using b by (rule strict_indented)
  moreover have "py_len (hexdigest raw) = 64 \<and> from_hex (hexdigest raw) \<noteq> None"
    using is_sha256_hexdigest [of raw] by (simp add: is_sha256_def)
  ultimately show ?thesis
    using a r(2) by (auto simp: parse_app_state_def check_app_state_def app_record_get g s update_time_format [OF now])
qed

lemma app_check_le: "app_rollback_check (Some st) notice = Inr u \<Longrightarrow> int_of (dget st ''max_sequence'') \<le> int_of (dget notice ''sequence'')"
  by (auto simp: app_rollback_check_def split: if_splits)

lemma app_paths:
  "application_update_notice_path D \<noteq> []" "application_update_state_path D \<noteq> []" "application_update_status_path D \<noteq> []"
  "application_update_state_path D \<noteq> application_update_notice_path D"
  "application_update_state_path D \<noteq> application_update_status_path D"
  by (simp_all add: application_update_notice_path_def application_update_state_path_def application_update_status_path_def
      join_path_def)

lemma app_record_notice:
  fixes D :: path
  defines "sp \<equiv> application_update_state_path D"
  assumes e: "parse_app_envelope raw = Inr envelope" "check_app_envelope vf zone raw envelope ring t = Inr notice"
    and now: "now < max_time"
    and d: "i_kind d = Reg" "parse_app_state zone (i_data d) = Inr st" "n \<le> int_of (dget st ''max_sequence'')"
  shows "triple (has sp d) (record_notice zone D notice (format_utc now)) (\<lambda>_. record_floor (parse_app_state zone) sp n)
     (\<lambda>_. record_floor (parse_app_state zone) sp n)"
  unfolding record_notice_def sp_def [symmetric]
proof (rule app_record.read_checked [OF d], goal_cases)
  case (1 x)
  let ?fl = "record_floor (parse_app_state zone) sp n"
  have fl: "has sp d f \<Longrightarrow> ?fl f" for f by (rule floor_has [where parse = "parse_app_state zone", OF _ d])
  have w: "triple (has sp d) (atomic_write_json sp (JObj (app_state_record notice (format_utc now))) 384) (\<lambda>_. ?fl) (\<lambda>_. ?fl)"
    using app_check_le [OF 1] d(3) app_record_parses [OF e now]
    by (intro write_record [where parse = "parse_app_state zone", OF d])
       (auto simp: sp_def parent_len app_paths app_record_get)
  have k: "triple (has sp d) (atomic_write_json (application_update_notice_path D) (JObj notice) 384) (\<lambda>_. has sp d) (\<lambda>_. ?fl)"
    unfolding atomic_write_json_def
    by (rule triple_bind [OF looksD [OF looks_lift, of "has sp d"], THEN triple_conseq],
        rule triple_conseq [OF atomic_write_keeps]) (auto simp: sp_def app_paths parent_len intro: fl [unfolded sp_def])
  show ?case by (rule triple_then [OF k w])
qed

lemma verify_app:
  "triple P (verify_application_update_envelope vf zone raw kp now)
     (\<lambda>notice f. P f \<and> (\<exists>envelope ring. parse_app_envelope raw = Inr envelope
        \<and> check_app_envelope vf zone raw envelope ring now = Inr notice)) (\<lambda>_. P)"
  unfolding verify_application_update_envelope_def
  by (rule triple_lift_bind, assumption, rule triple_bind [OF looksD [OF looks_load_ring, of P]], rule triple_lift) auto

lemma looks_app_load: "looks (load_application_update_status zone D installed source now)"
  unfolding load_application_update_status_def read_app_status_def Let_def
  by (auto intro!: looks_bind looks_lift looks_exists looks_ret looks_catch looks_read_status)

lemma app_steps:
  fixes I :: "fs \<Rightarrow> bool"
  assumes rec: "\<And>raw envelope ring notice. parse_app_envelope raw = Inr envelope \<Longrightarrow>
      check_app_envelope vf (ui_zone i) raw envelope ring (ui_now i) = Inr notice \<Longrightarrow>
      triple I (update_lock (app_lock_path D) (record_notice (ui_zone i) D notice (format_utc (ui_now i)))) (\<lambda>_. I) (\<lambda>_. I)"
    and status: "\<And>v. triple I (atomic_write_json (application_update_status_path D) v 384) (\<lambda>_. I) (\<lambda>_. I)"
  shows "triple I (run_automatic_application_update_check vf nfkc x i D kp installed source) (\<lambda>_. I) (\<lambda>_. I)"
proof -
  have new: "triple I (new_app_status vf i download D kp installed source nx) (\<lambda>_. I) (\<lambda>_. I)" for download nx
    unfolding new_app_status_def Let_def
  proof (rule triple_lift_bind, assumption, rule triple_bind [OF verify_app], rule triple_assume, elim exE conjE, goal_cases)
    case (1 raw notice envelope ring)
    show ?case
      by (rule triple_then [OF rec [OF 1(2,3)]], rule looksD, intro looks_bind looks_lift looks_ret)
  qed
  show ?thesis
    unfolding run_automatic_application_update_check_def
  proof (rule triple_bind [OF looksD [OF looks_app_load, of I]], rule triple_bind [where Q = "\<lambda>_. I"], goal_cases)
    case (1 previous)
    show ?case by (rule looksD) (auto intro!: looks_bind looks_lift looks_ret)
  next
    case (2 previous due)
    show ?case
    proof (cases due)
      case True
      have "triple I (io_catch (new_app_status vf i (download_feed nfkc x source) D kp installed source (format_utc t))
          feed_or_os (\<lambda>e. io_lift (failed_app_status i previous installed source e))) (\<lambda>_. I) (\<lambda>_. I)" for t
        by (rule triple_catch [OF new]) (auto intro: looksD looks_lift)
      with True show ?thesis
        by (auto intro!: triple_bind [where Q = "\<lambda>_. I"] looksD [OF looks_lift] triple_then [OF status] triple_ret)
    qed (auto intro: triple_ret)
  qed
qed

text \<open>
  C7: However a check for an application update ends, whatever the network delivers and whichever
  system call fails: if the rollback state can be read, it can be read afterwards and the sequence
  recorded in it has not decreased.
\<close>

theorem app_update_never_rolls_back:
  assumes "calm w" and "ui_now i < max_time"
    and "record_floor (parse_app_state (ui_zone i)) (application_update_state_path D) n (w_fs w)"
    and "run_automatic_application_update_check vf nfkc x i D kp installed source w = (r, w')"
  shows "record_floor (parse_app_state (ui_zone i)) (application_update_state_path D) n (w_fs w')"
proof -
  let ?p = "application_update_state_path D" and ?parse = "parse_app_state (ui_zone i)"
  let ?I = "record_floor ?parse ?p n"
  have "triple ?I (run_automatic_application_update_check vf nfkc x i D kp installed source) (\<lambda>_. ?I) (\<lambda>_. ?I)"
  proof (rule app_steps)
    fix raw envelope ring notice
    assume e: "parse_app_envelope raw = Inr envelope"
      "check_app_envelope vf (ui_zone i) raw envelope ring (ui_now i) = Inr notice"
    show "triple ?I (update_lock (app_lock_path D) (record_notice (ui_zone i) D notice (format_utc (ui_now i)))) (\<lambda>_. ?I) (\<lambda>_. ?I)"
      by (rule floor_guarded, rule triple_update_lock [OF app_record_notice [OF e assms(2)]])
         (auto intro: floor_has [where parse = ?parse])
  next
    show "triple ?I (atomic_write_json (application_update_status_path D) v 384) (\<lambda>_. ?I) (\<lambda>_. ?I)" for v
      by (rule floor_other) (simp_all add: app_paths parent_len)
  qed
  from tripleX [OF this assms(1,3,4)] show ?thesis by (cases r) simp_all
qed

definition app_files :: "path \<Rightarrow> path set" where
  "app_files D = {application_update_notice_path D, application_update_state_path D, application_update_status_path D}"

text \<open>
  C8: A check for an application update changes no regular file but its notice, its rollback state and
  its status: nothing it learns from the network reaches any other file, and nothing is installed.
\<close>

theorem app_update_only_notifies:
  assumes "calm w" and "fs_ok (w_fs w)" and "published b (w_fs w) q" and "q \<notin> app_files D"
    and "run_automatic_application_update_check vf nfkc x i D kp installed source w = (r, w')"
  shows "published b (w_fs w') q"
proof -
  let ?F = "[(q, b)]"
  have n: "p \<notin> fst ` set ?F" if "p \<in> app_files D" for p using that assms(4) by auto
  have s: "stable ?F (atomic_write_json p v m)" if "p \<in> app_files D" for p v m
    by (rule stable_atomic_json [OF n [OF that]]) (use that app_paths [of D] in \<open>auto simp: app_files_def\<close>)
  have l: "looks (load_app_state zone p)" for zone p
    unfolding load_app_state_def by (auto intro!: looks_bind looks_exists looks_ret looks_read_status looks_lift)
  have "triple (keeps ?F) (run_automatic_application_update_check vf nfkc x i D kp installed source)
      (\<lambda>_. keeps ?F) (\<lambda>_. keeps ?F)"
    by (rule app_steps; rule stableD)
       (auto simp: record_notice_def intro!: stable_update_lock stable_bind stable_then s stable_looks [OF l] stable_looks [OF looks_lift],
        auto simp: app_files_def)
  from tripleX [OF this assms(1) _ assms(5)] have "keeps ?F (w_fs w')"
    using assms(2,3) by (cases r) (auto simp: keeps_def)
  then show ?thesis by (simp add: keeps_def)
qed

section \<open>The status that is written\<close>

lemma app_status_get:
  "dget (app_status_to_dict s) ''schema'' = JStr app_status_schema"
  "dget (app_status_to_dict s) ''state'' = JStr (as_state s)"
  "dget (app_status_to_dict s) ''installed_version'' = JStr (as_installed s)"
  "dget (app_status_to_dict s) ''available_version'' = opt_str (as_available s)"
  "dget (app_status_to_dict s) ''sequence'' = opt_int (as_sequence s)"
  "dget (app_status_to_dict s) ''last_checked_at'' = opt_str (as_checked s)"
  "dget (app_status_to_dict s) ''last_success_at'' = opt_str (as_success s)"
  "dget (app_status_to_dict s) ''next_check_at'' = JStr (as_next s)"
  "dget (app_status_to_dict s) ''source'' = JStr (as_source s)"
  "dget (app_status_to_dict s) ''automatic_install'' = JBool (as_automatic s)"
  "dget (app_status_to_dict s) ''error'' = opt_str (as_error s)"
  "keys_of (app_status_to_dict s) = set app_status_keys"
  by (simp_all add: app_status_to_dict_def dget_mk_dict keys_of_mk_dict app_status_keys_def)

text \<open>The types of the fields of a status, as the reader wants them.\<close>

definition app_states :: "string list" where
  "app_states = [''never_checked'', ''current'', ''available'', ''error'']"

definition opt_all :: "('a \<Rightarrow> bool) \<Rightarrow> 'a option \<Rightarrow> bool" where
  "opt_all P x = (case x of None \<Rightarrow> True | Some a \<Rightarrow> P a)"

definition readable_time :: "(nat \<Rightarrow> nat res) \<Rightarrow> string \<Rightarrow> bool" where
  "readable_time zone s = is_Inr (update_time zone (JStr s) [])"

definition typed_app_status :: "(nat \<Rightarrow> nat res) \<Rightarrow> app_status \<Rightarrow> bool" where
  "typed_app_status zone s =
    (as_state s \<in> set app_states \<and> is_Inr (parse_release_version (JStr (as_installed s)))
     \<and> opt_all (\<lambda>v. is_Inr (parse_release_version (JStr v))) (as_available s) \<and> opt_all (\<lambda>n. 1 \<le> n) (as_sequence s)
     \<and> opt_all (readable_time zone) (as_checked s) \<and> opt_all (readable_time zone) (as_success s)
     \<and> readable_time zone (as_next s) \<and> starts_with (as_source s) ''https://'' \<and> py_len (as_source s) \<le> 2048
     \<and> \<not> as_automatic s \<and> opt_all (\<lambda>e. 1 \<le> py_len e \<and> py_len e \<le> 500) (as_error s))"

lemma time_field: "readable_time zone s \<longleftrightarrow> (\<exists>t. update_time zone (JStr s) f = Inr t)"
  by (auto simp: readable_time_def is_Inr_iff update_time_def Let_def split: option.splits iso_dt.splits)

lemma optional_time_field: "dget d f = opt_str x \<Longrightarrow> opt_all (readable_time zone) x \<Longrightarrow> optional_update_time zone d f = Inr ()"
  using time_field [of zone _ f] by (cases x) (auto simp: optional_update_time_def opt_str_def opt_all_def)

lemma typed_validates:
  assumes "typed_app_status zone s"
  shows "validate_app_status zone (JObj (app_status_to_dict s)) = Inr s"
proof -
  note t = assms [unfolded typed_app_status_def]
  have states: "in_set (JStr (as_state s)) [''never_checked'', ''current'', ''available'', ''error''] = Inr True"
    using t unfolding app_states_def [symmetric] by (auto simp: in_set_def unhashable_def)
  obtain v where v: "parse_release_version (JStr (as_installed s)) = Inr v" using t by (auto simp: is_Inr_iff)
  have av: "optional_version (opt_str (as_available s)) = Inr ()"
    using t by (cases "as_available s") (auto simp: optional_version_def opt_str_def opt_all_def is_Inr_iff)
  have sq: "optional_sequence m (opt_int (as_sequence s)) = Inr (as_sequence s)" for m
    using t by (cases "as_sequence s") (auto simp: optional_sequence_def opt_int_def opt_all_def)
  have tm: "optional_update_time zone (app_status_to_dict s) ''last_checked_at'' = Inr ()"
    "optional_update_time zone (app_status_to_dict s) ''last_success_at'' = Inr ()"
    using t by (auto intro: optional_time_field [OF app_status_get(6)] optional_time_field [OF app_status_get(7)])
  obtain nx where nx: "update_time zone (JStr (as_next s)) ''next_check_at'' = Inr nx"
    using t time_field by blast
  have src: "status_source m (JStr (as_source s)) = Inr (as_source s)" for m
    using t by (simp add: status_source_def)
  have er: "status_error m (opt_str (as_error s)) = Inr (as_error s)" for m
    using t by (cases "as_error s") (auto simp: status_error_def opt_str_def opt_all_def)
  have o: "opt_text (opt_str x) = x" for x by (cases x) (simp_all add: opt_text_def opt_str_def)
  show ?thesis
    unfolding validate_app_status_def Let_def obj_of.simps app_status_get states v av sq tm nx src er o
    using t by (cases s) simp
qed

lemma opt_text_all: "(\<And>s. v = JStr s \<Longrightarrow> P s) \<Longrightarrow> opt_all P (opt_text v)"
  by (cases v) (auto simp: opt_text_def opt_all_def)

lemma optional_version_all:
  "optional_version v = Inr u \<Longrightarrow> opt_all (\<lambda>s. \<exists>x. parse_release_version (JStr s) = Inr x) (opt_text v)"
  by (rule opt_text_all) (auto simp: optional_version_def rbind_Inr_iff)

lemma optional_time_all: "optional_update_time zone d f = Inr u \<Longrightarrow> opt_all (readable_time zone) (opt_text (dget d f))"
  by (rule opt_text_all) (auto simp: optional_update_time_def rbind_Inr_iff time_field [of _ _ f])

lemma optional_sequence_all: "optional_sequence m v = Inr x \<Longrightarrow> opt_all (\<lambda>n. 1 \<le> n) x"
  by (auto simp: optional_sequence_def opt_all_def split: if_splits)

lemma status_error_all: "status_error m v = Inr x \<Longrightarrow> opt_all (\<lambda>e. 1 \<le> py_len e \<and> py_len e \<le> 500) x"
  by (auto simp: status_error_def opt_all_def split: if_splits)

lemma parse_version_str: "parse_release_version v = Inr x \<Longrightarrow> \<exists>s. v = JStr s"
  by (cases v) (auto simp: parse_release_version_def Let_def)

lemma update_time_str: "update_time zone v f = Inr t \<Longrightarrow> \<exists>s. v = JStr s"
  by (cases v) (auto simp: update_time_def Let_def)

lemma validated_typed:
  assumes "validate_app_status zone v = Inr s"
  shows "typed_app_status zone s"
proof -
  define d where "d = obj_of v"
  define g where "g = dget d"
  define inst where "inst = g ''installed_version''"
  define nx where "nx = g ''next_check_at''"
  define st where "st = g ''state''"
  from assms obtain ver av sq t source e where st: "in_set st app_states = Inr True"
    and ver: "parse_release_version inst = Inr ver" and av: "optional_version (g ''available_version'') = Inr av"
    and sq: "optional_sequence ''application update status sequence is invalid'' (g ''sequence'') = Inr sq"
    and tm: "optional_update_time zone d ''last_checked_at'' = Inr ()" "optional_update_time zone d ''last_success_at'' = Inr ()"
    and t: "update_time zone nx ''next_check_at'' = Inr t"
    and source: "status_source ''application update status source is invalid'' (g ''source'') = Inr source"
    and e: "status_error ''application update status error is invalid'' (g ''error'') = Inr e"
    and s: "s = \<lparr>as_state = str_of st, as_installed = str_of inst,
       as_available = opt_text (g ''available_version''), as_sequence = sq, as_checked = opt_text (g ''last_checked_at''),
       as_success = opt_text (g ''last_success_at''), as_next = str_of nx, as_source = source, as_automatic = False, as_error = e\<rparr>"
    unfolding validate_app_status_def Let_def d_def [symmetric] g_def [symmetric] inst_def [symmetric] nx_def [symmetric]
      st_def [symmetric] app_states_def [symmetric] rbind_Inr_iff if_Inr_iff by auto
  have "\<exists>x. st = JStr x \<and> x \<in> set app_states" using st by (auto simp: in_set_Inr)
  moreover have "\<exists>x. inst = JStr x" by (rule parse_version_str [OF ver])
  moreover have "\<exists>x. nx = JStr x" by (rule update_time_str [OF t])
  moreover have "starts_with source ''https://'' \<and> py_len source \<le> 2048"
    using source by (auto simp: status_source_def split: if_splits)
  ultimately show ?thesis
    using optional_version_all [OF av] optional_sequence_all [OF sq] optional_time_all [OF tm(1)] optional_time_all [OF tm(2)]
      ver t status_error_all [OF e]
    by (auto simp: typed_app_status_def s is_Inr_iff g_def time_field [of _ _ "''next_check_at''"])
qed

lemma readable_format: "t < max_time \<Longrightarrow> readable_time zone (format_utc t)"
  by (simp add: readable_time_def update_time_format)

lemma shift_in_range: "shift_time now k = Inr t \<Longrightarrow> t < max_time"
  by (auto simp: shift_time_def Let_def split: if_splits)

lemma failure_text_len: "1 \<le> py_len (failure_text e) \<and> py_len (failure_text e) \<le> 500"
proof -
  obtain c n where n: "exn_name e = c # n" "\<not> is_cont c" "c \<noteq> CHR 0x0A" "c \<noteq> CHR 0x0D" by (cases e) (auto simp: is_cont_def ord_def)
  have "1 \<le> py_len (py_take 500 (c # x))" for x using n(2) by (simp add: py_len_def numeral_eq_Suc)
  then show ?thesis using n one_line_length [of "exn_name e @ '': '' @ exn_text e"]
    by (simp add: failure_text_def one_line_def replace1_def)
qed

text \<open>What the check starts from: a typed status, but for the text of an error of a status that is due.\<close>

lemma loaded_typed:
  assumes "load_application_update_status zone D installed source now w = (Inr s, w')"
    and "now < max_time" and "starts_with source ''https://'' \<and> py_len source \<le> 2048"
  shows "typed_app_status zone (s\<lparr>as_error := None\<rparr>) \<and> (typed_app_status zone s \<or> as_next s = format_utc now)"
proof -
  from assms(1) have v: "is_Inr (parse_release_version (JStr installed))"
    unfolding load_application_update_status_def by (auto simp: io_inv io_lift_def is_Inr_iff)
  have blank: "typed_app_status zone ((blank_app_status state installed source now e)\<lparr>as_error := None\<rparr>)"
    if "state \<in> set app_states" for state e
    using that v assms(2,3) by (simp add: typed_app_status_def blank_app_status_def opt_all_def readable_format)
  have n: "as_next (blank_app_status state installed source now e) = format_utc now" for state e
    by (simp add: blank_app_status_def)
  have e: "''error'' \<in> set app_states" "''never_checked'' \<in> set app_states" by (simp_all add: app_states_def)
  have none: "typed_app_status zone x \<Longrightarrow> typed_app_status zone (x\<lparr>as_error := None\<rparr>)" for x
    by (simp add: typed_app_status_def opt_all_def)
  have read: "typed_app_status zone (x\<lparr>as_error := None\<rparr>) \<and> (typed_app_status zone x \<or> as_next x = format_utc now)"
    if "read_app_status zone p installed source now w1 = (Inr x, w2)" for p x w1 w2
    using that unfolding read_app_status_def
    by (auto simp: io_inv io_lift_def io_ret_def n intro: none validated_typed blank [OF e(1)])
  show ?thesis
  proof (cases "s = blank_app_status ''never_checked'' installed source now None")
    case True
    then show ?thesis using blank [OF e(2)] n by simp
  next
    case False
    with assms(1) obtain x p w1 w2 where x: "read_app_status zone p installed source now w1 = (Inr x, w2)"
      and s: "s = x \<or> s = x\<lparr>as_state := ''never_checked'', as_installed := installed, as_next := format_utc now,
            as_source := source, as_automatic := False, as_error := None\<rparr>"
      unfolding load_application_update_status_def Let_def
      by (auto simp: io_inv io_ret_def split: if_splits)
    from read [OF x] have t: "typed_app_status zone (x\<lparr>as_error := None\<rparr>)" by blast
    from s show ?thesis
    proof
      assume "s = x\<lparr>as_state := ''never_checked'', as_installed := installed, as_next := format_utc now,
            as_source := source, as_automatic := False, as_error := None\<rparr>"
      with t v e(2) assms(2,3) show ?thesis by (simp add: typed_app_status_def readable_format)
    qed (use read [OF x] in simp)
  qed
qed

lemma failed_typed:
  assumes "failed_app_status i previous installed source e = Inr s" and "typed_app_status (ui_zone i) (previous\<lparr>as_error := None\<rparr>)"
    and "is_Inr (parse_release_version (JStr installed))" and "ui_now i < max_time"
    and "starts_with source ''https://'' \<and> py_len source \<le> 2048"
  shows "typed_app_status (ui_zone i) s"
  using assms failure_text_len [of e]
  by (auto simp: failed_app_status_def rbind_Inr_iff next_failed_check_def typed_app_status_def app_states_def opt_all_def readable_format
      dest!: shift_in_range)

lemma new_typed:
  assumes "new_app_status vf i download D kp installed source next w = (Inr s, w')"
    and "readable_time (ui_zone i) next" and "ui_now i < max_time" and "starts_with source ''https://'' \<and> py_len source \<le> 2048"
  shows "typed_app_status (ui_zone i) s"
proof -
  define nv where "nv notice = dget notice ''version''" for notice
  from assms(1) obtain raw w1 w2 notice v c where
    n: "verify_application_update_envelope vf (ui_zone i) raw kp (ui_now i) w1 = (Inr notice, w2)"
    and v: "parse_release_version (nv notice) = Inr v" and c: "parse_release_version (JStr installed) = Inr c"
    and s: "s = \<lparr>as_state = (if version_less c v then ''available'' else ''current''), as_installed = installed,
        as_available = (if version_less c v then Some (str_of (nv notice)) else None),
        as_sequence = Some (int_of (dget notice ''sequence'')), as_checked = Some (format_utc (ui_now i)),
        as_success = Some (format_utc (ui_now i)), as_next = next, as_source = source, as_automatic = False, as_error = None\<rparr>"
    unfolding new_app_status_def Let_def nv_def [symmetric] by (auto simp: io_inv io_lift_def io_ret_def)
  from n obtain envelope ring where "check_app_envelope vf (ui_zone i) raw envelope ring (ui_now i) = Inr notice"
    unfolding verify_application_update_envelope_def by (auto simp: io_inv io_lift_def)
  then obtain payload where p: "check_app_payload (ui_zone i) payload (ui_now i) = Inr ()" "notice = app_notice payload raw"
    unfolding check_app_envelope_def Let_def by (auto simp: rbind_Inr_iff if_Inr_iff)
  have q: "\<exists>k. dget notice ''sequence'' = JInt k \<and> 1 \<le> k"
    using check_app_payload_Inr [OF p(1)] by (auto simp: p(2) app_notice_get)
  obtain x where "nv notice = JStr x" using parse_version_str [OF v] by blast
  with q v c assms(2-4) show ?thesis
    unfolding s by (auto simp: typed_app_status_def app_states_def opt_all_def is_Inr_iff readable_format)
qed


section \<open>Examples\<close>

definition ex_artifact :: dict where
  "ex_artifact = mk_dict [(''architecture'', JStr ''x64''), (''authenticode'', JNull), (''filename'', JStr ''f''),
     (''operating_system'', JStr ''windows''), (''sha256'', JStr (replicate 64 CHR ''a'')), (''size'', JInt 1),
     (''url'', JStr ''https://u'')]"

definition ex_release :: dict where
  "ex_release = mk_dict [(''schema'', JStr ''zsec.application-release-source.v1''), (''version'', JStr ''1.2''),
     (''channel'', JStr ''stable''), (''minimum_supported_version'', JStr ''1.0''), (''release_notes_url'', JStr ''https://n''),
     (''source_revision'', JStr ''r''), (''notification_only'', JBool True), (''auto_install_allowed'', JBool False),
     (''artifacts'', JList [JObj ex_artifact])]"

definition ex_app_payload :: dict where
  "ex_app_payload = mk_dict [(''schema'', JStr ''zsec.application-update.payload.v1''), (''sequence'', JInt 3),
     (''generated_at'', JStr (format_utc 0)), (''expires_at'', JStr (format_utc (days 7))),
     (''channel'', JStr ''stable''), (''notification_only'', JBool True), (''auto_install_allowed'', JBool False),
     (''release'', JObj ex_release)]"

definition ex_app_envelope :: dict where
  "ex_app_envelope = mk_dict [(''schema'', JStr ''zsec.signed-envelope.v1''), (''algorithm'', JStr ''ed25519''),
     (''key_id'', JStr ''k01''), (''payload'', JObj ex_app_payload), (''signature'', JStr (b64encode (replicate 64 CHR ''s'')))]"

lemma ex_digest: "py_len (replicate 64 CHR ''a'') = 64" "\<exists>x. from_hex (replicate 64 CHR ''a'') = Some x"
proof -
  have "from_hex (replicate 64 CHR ''a'') \<noteq> None" by code_simp
  then show "\<exists>x. from_hex (replicate 64 CHR ''a'') = Some x" by simp
qed code_simp

lemma ex_ascii_digest: "is_ascii (replicate 64 CHR ''a'')"
  by code_simp

lemma ex_version: "\<exists>v. parse_release_version (JStr ''1.2'') = Inr v"
  by (simp add: parse_release_version_def Let_def is_digit_def digit_val_def ord_def nat_of_dec_def)

lemma ex_artifact_ok: "check_artifact (JObj ex_artifact) u = Inr ()"
proof -
  have k: "keys_of ex_artifact = set artifact_keys" by (simp add: ex_artifact_def artifact_keys_def keys_of_mk_dict)
  have g: "dget ex_artifact ''sha256'' = JStr (replicate 64 CHR ''a'')" "dget ex_artifact ''url'' = JStr ''https://u''"
    by (simp_all add: ex_artifact_def dget_mk_dict)
  have u: "starts_with ''https://u'' ''https://''" by code_simp
  show ?thesis using ex_digest unfolding check_artifact_def Let_def obj_of.simps k g by (auto simp: u)
qed

lemma ex_release_ok: "check_release (JObj ex_release) = Inr ()"
proof -
  have k: "keys_of ex_release = set release_keys" by (simp add: ex_release_def release_keys_def keys_of_mk_dict)
  have g: "dget ex_release ''schema'' = JStr ''zsec.application-release-source.v1''" "dget ex_release ''version'' = JStr ''1.2''"
    "dget ex_release ''artifacts'' = JList [JObj ex_artifact]" "notify_only ex_release"
    by (simp_all add: ex_release_def dget_mk_dict notify_only_def)
  have l: "py_len ''1.2'' = 3" by code_simp
  show ?thesis using ex_version g(4) unfolding check_release_def Let_def obj_of.simps k g(1-3) by (auto simp: l ex_artifact_ok)
qed

lemma ex_app_payload_ok: "check_app_payload zone ex_app_payload 0 = Inr ()"
proof -
  have k: "keys_of ex_app_payload = set app_payload_keys" by (simp add: ex_app_payload_def app_payload_keys_def keys_of_mk_dict)
  have g: "dget ex_app_payload ''schema'' = JStr ''zsec.application-update.payload.v1''" "dget ex_app_payload ''sequence'' = JInt 3"
    "dget ex_app_payload ''generated_at'' = JStr (format_utc 0)" "dget ex_app_payload ''expires_at'' = JStr (format_utc (days 7))"
    "dget ex_app_payload ''channel'' = JStr ''stable''" "dget ex_app_payload ''release'' = JObj ex_release" "notify_only ex_app_payload"
    by (simp_all add: ex_app_payload_def dget_mk_dict notify_only_def)
  have t: "0 < max_time" "days 7 < max_time" "days 7 mod usec = 0" "\<not> days 14 < days 7" "0 < days 7"
    by (simp_all add: days_def usec_def usec_day_def max_time_def max_day_def)
  have w: "check_update_window zone ex_app_payload 0 = Inr ()"
    unfolding check_update_window_def g by (simp add: update_time_format [OF t(1)] update_time_format [OF t(2)] t)
  show ?thesis using g(7) unfolding check_app_payload_def k g(1-6) w by (simp add: ex_release_ok)
qed

lemma ex_app_accepted:
  "check_app_envelope (\<lambda>_ _ _. True) Inr ''x'' ex_app_envelope ex_ring 0 = Inr (app_notice ex_app_payload ''x'')"
proof -
  define k where "k = the (map_of ex_ring ''k01'')"
  have p: "dget ex_app_envelope ''payload'' = JObj ex_app_payload"
    and s: "dget ex_app_envelope ''signature'' = JStr (b64encode (replicate 64 CHR ''s''))"
    by (simp_all add: ex_app_envelope_def dget_mk_dict)
  have "update_key ''application update'' ex_ring (dget ex_app_envelope ''key_id'') 0 = Inr k"
    unfolding update_key_Inr by (simp add: k_def ex_app_envelope_def dget_mk_dict ex_ring_def valid_at_def)
  moreover have "decode_update_signature (JStr (b64encode (replicate 64 CHR ''s''))) = Inr (replicate 64 CHR ''s'')"
    by code_simp
  moreover have "ascii_json (JObj ex_app_payload)"
  proof -
    have a: "ascii_json (JObj ex_artifact)"
      unfolding ex_artifact_def by (rule ascii_mk_dict) (simp_all add: ex_ascii_digest ord_def)
    have "ascii_json (JObj ex_release)"
      unfolding ex_release_def by (rule ascii_mk_dict) (simp_all add: a [unfolded ascii_json.simps] ord_def)
    then show ?thesis
      unfolding ex_app_payload_def
      by (intro ascii_mk_dict) (simp_all add: format_utc_ascii days_def usec_def max_time_def max_day_def usec_day_def ord_def)
  qed
  moreover have "check_app_payload Inr ex_app_payload 0 = Inr ()" by (rule ex_app_payload_ok)
  ultimately show ?thesis
    by (simp add: check_app_envelope_def p s update_signed_def canonical_ascii)
qed

lemma app_notice_authentic_witness:
  "\<exists>id k payload release n. dget ex_app_envelope ''key_id'' = JStr id \<and> map_of ex_ring id = Some k \<and> valid_at k 0
    \<and> dget ex_app_envelope ''payload'' = JObj payload
    \<and> signed_by (\<lambda>_ _ _. True) k (dget ex_app_envelope ''signature'') (JObj payload)
    \<and> notify_only payload \<and> dget payload ''release'' = JObj release \<and> notify_only release
    \<and> dget (app_notice ex_app_payload ''x'') ''sequence'' = JInt n \<and> 1 \<le> n
    \<and> dget (app_notice ex_app_payload ''x'') ''automatic_install'' = JBool False
    \<and> dget (app_notice ex_app_payload ''x'') ''manifest_sha256'' = JStr (hexdigest ''x'')"
  by (rule app_notice_authentic [OF ex_app_accepted])

definition ex_app_record :: dict where
  "ex_app_record = mk_dict
    [(''schema'', JStr ''zsec.shield.application-update-client-state.v1''), (''max_sequence'', JInt 3),
     (''manifest_sha256'', JStr (replicate 64 CHR ''a'')), (''release_version'', JStr ''1.2''),
     (''checked_at'', JStr (format_utc 0))]"

definition ex_app_text :: string where
  "ex_app_text = dump Indented 0 (JObj ex_app_record) @ [CHR 0x0A]"

lemma ex_app_parses: "parse_app_state Inr ex_app_text = Inr ex_app_record"
proof -
  let ?r = "JObj ex_app_record"
  have k: "keys_of ex_app_record = set app_state_keys" by (simp add: ex_app_record_def app_state_keys_def keys_of_mk_dict)
  have g: "dget ex_app_record ''schema'' = JStr ''zsec.shield.application-update-client-state.v1''"
    "dget ex_app_record ''max_sequence'' = JInt 3" "dget ex_app_record ''manifest_sha256'' = JStr (replicate 64 CHR ''a'')"
    "dget ex_app_record ''release_version'' = JStr ''1.2''" "dget ex_app_record ''checked_at'' = JStr (format_utc 0)"
    by (simp_all add: ex_app_record_def dget_mk_dict)
  have z: "0 < max_time" by (simp add: max_time_def max_day_def usec_day_def)
  have "length (dec_nat 3) = 1" by code_simp
  then have d3: "length (dec_nat 3) \<le> 4300" by simp
  have a: "ascii_json ?r" unfolding ex_app_record_def
    by (rule ascii_mk_dict) (simp_all add: format_utc_ascii z ex_ascii_digest ord_def)
  have "wf_json ?r" unfolding ex_app_record_def by (rule wf_json_mk_dict) (simp_all add: d3)
  from strict_indented [OF this indented_ascii [OF a]] have "strict_json_loads ex_app_text = Inr ?r"
    by (simp only: ex_app_text_def)
  moreover have "check_app_state Inr ?r = Inr ex_app_record"
    using ex_version ex_digest unfolding check_app_state_def Let_def obj_of.simps k g by (auto simp: update_time_format [OF z])
  ultimately show ?thesis by (simp add: parse_app_state_def)
qed

definition ex_app_input :: update_input where
  "ex_app_input = \<lparr>ui_now = 0, ui_jitter = 0, ui_retry = 0, ui_force = True, ui_zone = Inr\<rparr>"

definition ex_exchange :: exchange where
  "ex_exchange = \<lparr>x_redirects = [], x_ending = Broken (OSError ''down'')\<rparr>"

definition ex_app_world :: world where
  "ex_app_world = empty_world\<lparr>w_fs := \<lparr>f_names = (\<lambda>_. None)(application_update_state_path ''/d'' \<mapsto> 0),
       f_inodes = (\<lambda>_. file_inode ex_app_text), f_next = 1\<rparr>\<rparr>"

abbreviation ex_app_run where
  "ex_app_run \<equiv> run_automatic_application_update_check (\<lambda>_ _ _. True) (\<lambda>_. True) ex_exchange ex_app_input ''/d'' ''/k'' ''1.0''
     ''https://s''"

lemma app_update_never_rolls_back_witness:
  "record_floor (parse_app_state Inr) (application_update_state_path ''/d'') 3 (w_fs (snd (ex_app_run ex_app_world)))"
proof -
  have z: "ui_zone ex_app_input = Inr" by (simp add: ex_app_input_def)
  have "record_floor (parse_app_state Inr) (application_update_state_path ''/d'') 3 (w_fs ex_app_world)"
    by (rule floor_published [where parse = "parse_app_state Inr", OF _ _ ex_app_parses])
       (simp_all add: fs_ok_def ex_app_world_def published_def view_def file_inode_def ex_app_record_def dget_mk_dict)
  moreover have "calm ex_app_world" by (simp add: calm_def ex_app_world_def empty_world_def)
  moreover have "ui_now ex_app_input < max_time" by (simp add: ex_app_input_def max_time_def max_day_def usec_day_def)
  ultimately show ?thesis
    using app_update_never_rolls_back [where i = ex_app_input, OF _ _ _ surjective_pairing, unfolded z] by blast
qed

lemma app_update_only_notifies_witness:
  "published ''f'' (w_fs (snd (ex_app_run (empty_world\<lparr>w_fs := \<lparr>f_names = (\<lambda>_. None)(''/x'' \<mapsto> 0),
       f_inodes = (\<lambda>_. file_inode ''f''), f_next = 1\<rparr>\<rparr>)))) ''/x''"
  by (rule app_update_only_notifies [OF _ _ _ _ surjective_pairing])
     (simp_all add: calm_def empty_world_def fs_ok_def published_def view_def file_inode_def app_files_def
      application_update_notice_path_def application_update_state_path_def application_update_status_path_def join_path_def)


end
