(* ===== verification/Intelligence.thy ===== *)
theory Intelligence
  imports Feed Urls
begin

text \<open>
  The desktop advisory catalog of \<^verbatim>\<open>src/zsec_shield/intelligence.py\<close>: the texts, times and URLs it
  accepts, the records of the catalog and \<^verbatim>\<open>validate_catalog\<close>.  A catalog is data only; its contributions
  and advisories are bound by SHA-256 over canonical JSON.
\<close>

section \<open>Texts, times and URLs\<close>

text \<open>
  What the code takes from the Python library: the Unicode tables of \<^verbatim>\<open>urlsplit\<close>, the moment that
  \<^verbatim>\<open>email.utils\<close> or \<^verbatim>\<open>strptime\<close> read from a text that \<^verbatim>\<open>fromisoformat\<close> refuses, and the whole number
  a float literal is equal to.
\<close>

record catalog_env =
  ce_nfkc :: "string \<Rightarrow> bool"
  ce_other_time :: "string \<Rightarrow> nat res option"
  ce_whole :: "string \<Rightarrow> int option"

definition normal_text :: "string \<Rightarrow> string" where
  "normal_text s = join_with '' '' (py_words (replace1 (CHR 0x00) (CHR '' '') s))"

definition intel_text :: "json \<Rightarrow> string \<Rightarrow> nat \<Rightarrow> nat \<Rightarrow> string res" where
  "intel_text v field minimum maximum =
    (let t = normal_text (str_of v) in
     if \<not> is_str v then Inl (IntelligenceError (field @ '' must be a string''))
     else if \<not> (minimum \<le> py_len t \<and> py_len t \<le> maximum) then
       Inl (IntelligenceError (field @ '' must contain '' @ dec_nat minimum @ ''..'' @ dec_nat maximum @ '' normalized characters''))
     else if list_ex (\<lambda>c. ord c < 32) t then Inl (IntelligenceError (field @ '' contains a control character''))
     else Inr t)"

definition date_only :: "string \<Rightarrow> bool" where
  "date_only t =
    (let parts = split_on (CHR ''-'') t in map length parts = [4, 2, 2] \<and> list_all (list_all is_digit) parts)"

definition utc_moment :: "iso_dt \<Rightarrow> nat res" where
  "utc_moment m =
    (case m of Naive t \<Rightarrow> Inr t
     | Aware local offset \<Rightarrow>
       if 0 \<le> int local - offset \<and> int local - offset < int max_time then Inr (to_utc local offset)
       else Inl (OtherError ''date value out of range''))"

definition intel_parse_time :: "catalog_env \<Rightarrow> json \<Rightarrow> string \<Rightarrow> nat res" where
  "intel_parse_time env v field =
    rbind (intel_text v field 8 80) (\<lambda>t.
    case from_iso (if \<not> date_only t \<and> ends_with t ''Z'' then butlast t @ ''+00:00'' else t) of
      Some m \<Rightarrow> utc_moment m
    | None \<Rightarrow>
      (case ce_other_time env t of Some r \<Rightarrow> r
       | None \<Rightarrow> Inl (IntelligenceError (field @ '' is not a supported timestamp''))))"

definition intel_time :: "catalog_env \<Rightarrow> json \<Rightarrow> string \<Rightarrow> string res" where
  "intel_time env v field = rbind (intel_parse_time env v field) (\<lambda>t. Inr (format_utc t))"

definition intel_https_url :: "catalog_env \<Rightarrow> json \<Rightarrow> string \<Rightarrow> string res" where
  "intel_https_url env v field =
    rbind (intel_text v field 12 1000) (\<lambda>t.
    rbind (urlsplit (ce_nfkc env) t) (\<lambda>u.
    if u_scheme u \<noteq> ''https'' \<or> \<not> credential_free u \<or> u_fragment u \<noteq> [] then
      Inl (IntelligenceError (field @ '' must be a credential-free HTTPS URL''))
    else Inr t))"

definition cisa_kev_url :: string where
  "cisa_kev_url = ''https://www.cisa.gov/sites/default/files/feeds/known_exploited_vulnerabilities.json''"

definition msrc_updates_url :: string where
  "msrc_updates_url = ''https://api.msrc.microsoft.com/cvrf/v3.0/updates''"

definition msrc_cvrf_prefix :: string where
  "msrc_cvrf_prefix = ''https://api.msrc.microsoft.com/cvrf/v3.0/cvrf/''"

definition ubuntu_usn_url :: string where "ubuntu_usn_url = ''https://ubuntu.com/security/notices/rss.xml''"

definition apple_security_url :: string where "apple_security_url = ''https://support.apple.com/en-us/100100''"

definition upper_letter :: "char \<Rightarrow> bool" where "upper_letter c = (65 \<le> ord c \<and> ord c \<le> 90)"

definition lower_letter :: "char \<Rightarrow> bool" where "lower_letter c = (97 \<le> ord c \<and> ord c \<le> 122)"

definition msrc_document_pattern :: "string \<Rightarrow> bool" where
  "msrc_document_pattern s =
    (length s = 8 \<and> list_all is_digit (take 4 s) \<and> s ! 4 = CHR ''-'' \<and> upper_letter (s ! 5) \<and> list_all lower_letter (drop 6 s))"

definition cve_pattern :: "string \<Rightarrow> bool" where
  "cve_pattern s =
    (prefix ''CVE-'' s \<and> 13 \<le> length s \<and> list_all is_digit (take 4 (drop 4 s)) \<and> s ! 8 = CHR ''-'' \<and> list_all is_digit (drop 9 s))"

text \<open>The host names are ASCII, so lower case of other letters cannot produce one of them.\<close>

definition source_url_allowed :: "catalog_env \<Rightarrow> string \<Rightarrow> string \<Rightarrow> bool" where
  "source_url_allowed env source_id url =
    (case urlsplit (ce_nfkc env) url of
       Inl _ \<Rightarrow> False
     | Inr u \<Rightarrow>
       if u_scheme u \<noteq> ''https'' \<or> \<not> credential_free u \<or> u_fragment u \<noteq> [] \<or> u_query u \<noteq> [] then False
       else let n = url_base u in
         if source_id = ''cisa-kev'' then n = cisa_kev_url
         else if source_id = ''ubuntu-usn'' then n = ubuntu_usn_url
         else if source_id = ''apple-security'' then n = apple_security_url
         else if source_id = ''microsoft-msrc'' then
           n = msrc_updates_url \<or> (prefix msrc_cvrf_prefix n \<and> msrc_document_pattern (drop (length msrc_cvrf_prefix) n))
         else False)"

section \<open>Lists without repetition\<close>

text \<open>
  \<^verbatim>\<open>xs == sorted(set(xs))\<close>.  A list or object among the elements is unhashable, and elements that are
  not all texts, all numbers or all null cannot be sorted.  A list with a float counts as unsorted; the
  code refuses it in any case.
\<close>

definition is_number :: "json \<Rightarrow> bool" where
  "is_number v = (is_pyint v \<or> (case v of JFloat _ \<Rightarrow> True | _ \<Rightarrow> False))"

definition canonical_order :: "json list \<Rightarrow> bool res" where
  "canonical_order xs =
    (if list_ex unhashable xs then Inl (OtherError ''unhashable type'')
     else if list_all is_str xs then Inr (sorted_wrt (<) (map str_of xs))
     else if list_all is_number xs then Inr (list_all is_pyint xs \<and> sorted_wrt (<) (map int_of xs))
     else if list_all (\<lambda>x. x = JNull) xs then Inr (length xs \<le> 1)
     else Inl (OtherError ''not supported between instances''))"

definition intel_reject :: "bool \<Rightarrow> string \<Rightarrow> unit res" where
  "intel_reject b message = (if b then Inl (IntelligenceError message) else Inr ())"

definition intel_digest :: "json \<Rightarrow> bool" where
  "intel_digest v = (is_str v \<and> length (str_of v) = 64 \<and> list_all is_hex_lower (str_of v))"

section \<open>Sources\<close>

definition source_ids :: "string list" where
  "source_ids = [''cisa-kev'', ''microsoft-msrc'', ''ubuntu-usn'', ''apple-security'']"

definition source_keys :: "string list" where
  "source_keys = [''source_id'', ''authority'', ''url'', ''version'', ''body_sha256'', ''contribution_sha256'', ''semantic_sha256'',
     ''advisory_count'', ''parser'']"

record catalog_source =
  cs_id :: string
  cs_version :: string
  cs_fields :: dict

definition check_source :: "catalog_env \<Rightarrow> nat \<times> json \<Rightarrow> catalog_source list \<Rightarrow> catalog_source list res" where
  "check_source env = (\<lambda>(i, v) seen.
    (let d = obj_of v; at = ''catalog source '' @ dec_nat i in
     if \<not> is_obj v then Inl (IntelligenceError (at @ '' must be an object''))
     else
     rbind (exact_keys IntelligenceError d source_keys at) (\<lambda>_.
     rbind (intel_text (dget d ''source_id'') (''source '' @ dec_nat i @ '' id'') 3 64) (\<lambda>source_id.
     rbind (intel_reject (source_id \<notin> set source_ids \<or> source_id \<in> set (map cs_id seen))
       (''catalog source ID is unsupported/duplicate: '' @ source_id)) (\<lambda>_.
     let name = ''source '' @ source_id in
     rbind (intel_text (dget d ''authority'') (name @ '' authority'') 3 200) (\<lambda>_.
     rbind (intel_https_url env (dget d ''url'') (name @ '' URL'')) (\<lambda>url.
     rbind (intel_reject (\<not> source_url_allowed env source_id url) (''catalog source URL is not allowlisted: '' @ source_id)) (\<lambda>_.
     rbind (intel_time env (dget d ''version'') (name @ '' version'')) (\<lambda>version.
     rbind (rfold (\<lambda>f _. intel_reject (\<not> intel_digest (dget d f)) (name @ '' '' @ f @ '' is invalid''))
       [''body_sha256'', ''contribution_sha256'', ''semantic_sha256''] ()) (\<lambda>_.
     rbind (intel_reject (\<not> is_int_nb (dget d ''advisory_count'') \<or> int_of (dget d ''advisory_count'') < 0)
       (name @ '' advisory_count is invalid'')) (\<lambda>_.
     rbind (intel_text (dget d ''parser'') (name @ '' parser'') 3 80) (\<lambda>_.
     Inr (seen @ [\<lparr>cs_id = source_id, cs_version = version, cs_fields = d\<rparr>])))))))))))))"

definition source_of :: "catalog_source list \<Rightarrow> string \<Rightarrow> catalog_source option" where
  "source_of sources k = List.find (\<lambda>s. cs_id s = k) sources"

section \<open>Advisories\<close>

definition advisory_keys :: "string list" where
  "advisory_keys = [''id'', ''source_id'', ''source_url'', ''record_url'', ''title'', ''summary'', ''published_at'', ''modified_at'',
     ''platforms'', ''cve_ids'', ''severity'', ''exploited'', ''ransomware'', ''action'', ''products'', ''provenance'', ''zba'']"

definition catalog_platforms :: "string list" where
  "catalog_platforms = [''windows'', ''macos'', ''linux'', ''browser'', ''cross-platform'']"

definition catalog_severities :: "string list" where
  "catalog_severities = [''critical'', ''high'', ''medium'', ''low'', ''info'', ''unknown'']"

definition zba_intelligence_spec :: string where "zba_intelligence_spec = ''zsec.zba.intelligence.v1''"

definition intelligence_domain :: string where "intelligence_domain = ''ZSEC/ZBA/DESKTOP-INTELLIGENCE/V1'' @ [CHR 0x00]"

text \<open>The commitment of an advisory, over all fields but \<open>zba\<close>.\<close>

definition advisory_commitment :: "dict \<Rightarrow> string res" where
  "advisory_commitment a = rbind (canonical_json_bytes (JObj (ddel ''zba'' a))) (\<lambda>b. Inr (hexdigest (intelligence_domain @ b)))"

definition check_times :: "catalog_env \<Rightarrow> dict \<Rightarrow> string \<Rightarrow> unit res" where
  "check_times env a name =
    rbind (intel_parse_time env (dget a ''published_at'') (name @ '' published_at'')) (\<lambda>published.
    rbind (intel_parse_time env (dget a ''modified_at'') (name @ '' modified_at'')) (\<lambda>modified.
    intel_reject (modified < published) (name @ '' modified_at predates published_at'')))"

definition check_platforms :: "json \<Rightarrow> string \<Rightarrow> unit res" where
  "check_platforms v name =
    (let xs = list_of v; bad = Inl (IntelligenceError (name @ '' platforms are invalid'')) in
     if \<not> is_list v \<or> xs = [] then bad
     else rbind (canonical_order xs) (\<lambda>ok. if \<not> ok \<or> \<not> set xs \<subseteq> JStr ` set catalog_platforms then bad else Inr ()))"

definition check_cves :: "json \<Rightarrow> string \<Rightarrow> unit res" where
  "check_cves v name =
    (let xs = list_of v; bad = Inl (IntelligenceError (name @ '' CVE list is invalid'')) in
     if \<not> is_list v \<or> 256 < length xs then bad
     else rbind (canonical_order xs) (\<lambda>ok.
       if \<not> ok \<or> list_ex (\<lambda>x. \<not> is_str x \<or> \<not> cve_pattern (str_of x)) xs then bad else Inr ()))"

definition check_products :: "json \<Rightarrow> string \<Rightarrow> unit res" where
  "check_products v name =
    (let xs = list_of v; bad = Inl (IntelligenceError (name @ '' products are invalid'')) in
     if \<not> is_list v \<or> xs = [] \<or> 32 < length xs then bad
     else rbind (canonical_order xs) (\<lambda>ok.
       if \<not> ok then bad
       else rfold (\<lambda>x _. rbind (intel_text x (name @ '' product'') 1 300) (\<lambda>_. Inr ())) xs ()))"

definition check_provenance :: "json \<Rightarrow> catalog_source \<Rightarrow> string \<Rightarrow> unit res" where
  "check_provenance v source name =
    (let p = obj_of v in
     if \<not> is_obj v then Inl (IntelligenceError (name @ '' provenance is invalid''))
     else
     rbind (exact_keys IntelligenceError p [''source_body_sha256'', ''source_record_id'', ''parser''] (name @ '' provenance'')) (\<lambda>_.
     rbind (intel_reject (\<not> intel_digest (dget p ''source_body_sha256'')
         \<or> dget p ''source_body_sha256'' \<noteq> dget (cs_fields source) ''body_sha256'') (name @ '' provenance digest is invalid'')) (\<lambda>_.
     rbind (intel_text (dget p ''source_record_id'') (name @ '' record id'') 1 160) (\<lambda>_.
     rbind (intel_text (dget p ''parser'') (name @ '' parser'') 3 80) (\<lambda>_. Inr ())))))"

definition check_zba_record :: "dict \<Rightarrow> string \<Rightarrow> unit res" where
  "check_zba_record a name =
    (let v = dget a ''zba''; z = obj_of v in
     if \<not> is_obj v then Inl (IntelligenceError (name @ '' ZBA record is invalid''))
     else
     rbind (exact_keys IntelligenceError z [''spec'', ''phase'', ''evidence'', ''commitment''] (name @ '' ZBA'')) (\<lambda>_.
     rbind (intel_reject (dget z ''spec'' \<noteq> JStr zba_intelligence_spec \<or> dget z ''phase'' \<noteq> JStr ''observed''
         \<or> dget z ''evidence'' \<noteq> JStr ''authoritative-advisory'' \<or> \<not> intel_digest (dget z ''commitment''))
       (name @ '' ZBA fields are invalid'')) (\<lambda>_.
     rbind (advisory_commitment a) (\<lambda>expected.
     intel_reject (dget z ''commitment'' \<noteq> JStr expected) (name @ '' ZBA commitment mismatch'')))))"

definition check_advisory_fields :: "catalog_env \<Rightarrow> dict \<Rightarrow> catalog_source \<Rightarrow> string \<Rightarrow> unit res" where
  "check_advisory_fields env a source name =
    rbind (intel_reject (dget a ''source_url'' \<noteq> dget (cs_fields source) ''url'') (name @ '' source URL mismatch'')) (\<lambda>_.
    rbind (intel_https_url env (dget a ''record_url'') (name @ '' record URL'')) (\<lambda>_.
    rbind (intel_text (dget a ''title'') (name @ '' title'') 1 300) (\<lambda>_.
    rbind (intel_text (dget a ''summary'') (name @ '' summary'') 1 700) (\<lambda>_.
    rbind (check_times env a name) (\<lambda>_.
    rbind (check_platforms (dget a ''platforms'') name) (\<lambda>_.
    rbind (check_cves (dget a ''cve_ids'') name) (\<lambda>_.
    rbind (in_set (dget a ''severity'') catalog_severities) (\<lambda>known.
    rbind (intel_reject (\<not> known) (name @ '' severity is invalid'')) (\<lambda>_.
    rbind (rfold (\<lambda>f _. intel_reject (dget a f \<noteq> JNull \<and> \<not> is_bool (dget a f)) (name @ '' '' @ f @ '' must be boolean/null''))
      [''exploited'', ''ransomware''] ()) (\<lambda>_.
    rbind (intel_text (dget a ''action'') (name @ '' action'') 1 500) (\<lambda>_.
    rbind (check_products (dget a ''products'') name) (\<lambda>_.
    rbind (check_provenance (dget a ''provenance'') source name) (\<lambda>_.
    check_zba_record a name)))))))))))))"

record catalog_advisory =
  ca_id :: string
  ca_source :: string
  ca_fields :: dict

definition check_advisory ::
    "catalog_env \<Rightarrow> catalog_source list \<Rightarrow> nat \<times> json \<Rightarrow> catalog_advisory list \<Rightarrow> catalog_advisory list res" where
  "check_advisory env sources = (\<lambda>(i, v) seen.
    (let a = obj_of v; at = ''catalog advisory '' @ dec_nat i in
     if \<not> is_obj v then Inl (IntelligenceError (at @ '' must be an object''))
     else
     rbind (exact_keys IntelligenceError a advisory_keys at) (\<lambda>_.
     rbind (intel_text (dget a ''id'') (''advisory '' @ dec_nat i @ '' id'') 3 160) (\<lambda>identifier.
     rbind (intel_reject (identifier \<in> set (map ca_id seen)) (''duplicate advisory ID: '' @ identifier)) (\<lambda>_.
     let name = ''advisory '' @ identifier in
     rbind (intel_text (dget a ''source_id'') (name @ '' source'') 3 64) (\<lambda>source_id.
     case source_of sources source_id of
       None \<Rightarrow> Inl (IntelligenceError (name @ '' uses an unknown source''))
     | Some source \<Rightarrow>
       rbind (check_advisory_fields env a source name) (\<lambda>_.
       Inr (seen @ [\<lparr>ca_id = identifier, ca_source = source_id, ca_fields = a\<rparr>]))))))))"

section \<open>The contributions\<close>

definition semantic_record :: "dict \<Rightarrow> dict" where
  "semantic_record a =
    (let p = obj_of (dget a ''provenance'') in
     dput ''provenance'' (JObj (mk_dict [(''source_record_id'', dget p ''source_record_id''), (''parser'', dget p ''parser'')]))
       (ddel ''zba'' (ddel ''provenance'' a)))"

definition records_digest :: "dict list \<Rightarrow> string res" where
  "records_digest ds = rbind (canonical_json_bytes (JList (map JObj ds))) (\<lambda>b. Inr (hexdigest b))"

definition contributed :: "catalog_advisory list \<Rightarrow> string \<Rightarrow> dict list" where
  "contributed advisories source_id =
    sort_key (\<lambda>a. str_of (dget a ''id'')) (map ca_fields (filter (\<lambda>a. ca_source a = source_id) advisories))"

definition check_contribution :: "catalog_advisory list \<Rightarrow> catalog_source \<Rightarrow> unit \<Rightarrow> unit res" where
  "check_contribution advisories source u =
    (let ordered = contributed advisories (cs_id source); name = ''source '' @ cs_id source in
     rbind (intel_reject (JInt (int (length ordered)) \<noteq> dget (cs_fields source) ''advisory_count'') (name @ '' advisory count mismatch''))
       (\<lambda>_.
     rbind (records_digest ordered) (\<lambda>contribution.
     rbind (intel_reject (JStr contribution \<noteq> dget (cs_fields source) ''contribution_sha256'')
       (name @ '' contribution digest mismatch'')) (\<lambda>_.
     rbind (records_digest (map semantic_record ordered)) (\<lambda>semantic.
     intel_reject (JStr semantic \<noteq> dget (cs_fields source) ''semantic_sha256'') (name @ '' semantic digest mismatch''))))))"

section \<open>The catalog\<close>

definition catalog_keys :: "string list" where
  "catalog_keys = [''schema'', ''generated_at'', ''policy'', ''sources'', ''advisories'']"

definition max_advisories :: nat where "max_advisories = 4096"

text \<open>The policy is compared with \<^verbatim>\<open>==\<close>, for which 1 and 1.0 are true and 0 and 0.0 are false.\<close>

definition data_only_policy :: "(string \<times> bool) list" where
  "data_only_policy = [(''data_only'', True), (''remote_commands_allowed'', False), (''auto_remediation_allowed'', False),
     (''detection_rules_derived'', False), (''malware_samples_allowed'', False)]"

definition flag_equals :: "catalog_env \<Rightarrow> json \<Rightarrow> bool \<Rightarrow> bool" where
  "flag_equals env v b =
    (case v of JBool c \<Rightarrow> c = b | JInt i \<Rightarrow> i = (if b then 1 else 0) | JFloat t \<Rightarrow> ce_whole env t = Some (if b then 1 else 0)
     | _ \<Rightarrow> False)"

definition data_only :: "catalog_env \<Rightarrow> dict \<Rightarrow> bool" where
  "data_only env policy =
    (keys_of policy = set (map fst data_only_policy) \<and> list_all (\<lambda>(k, b). flag_equals env (dget policy k) b) data_only_policy)"

definition latest_version :: "catalog_source list \<Rightarrow> string" where
  "latest_version sources = foldl max [] (map cs_version sources)"

definition validate_catalog :: "catalog_env \<Rightarrow> json \<Rightarrow> unit res" where
  "validate_catalog env v =
    (let c = obj_of v; sources = dget c ''sources''; advisories = dget c ''advisories'' in
     if \<not> is_obj v then Inl (IntelligenceError ''desktop intelligence catalog must be an object'')
     else
     rbind (exact_keys IntelligenceError c catalog_keys ''catalog'') (\<lambda>_.
     rbind (intel_reject (dget c ''schema'' \<noteq> JStr ''zsec.desktop-intelligence.v1'') ''desktop intelligence catalog schema is unsupported'') (\<lambda>_.
     rbind (intel_time env (dget c ''generated_at'') ''catalog generated_at'') (\<lambda>generated.
     rbind (intel_reject (\<not> is_obj (dget c ''policy'')) ''catalog policy must be an object'') (\<lambda>_.
     rbind (intel_reject (\<not> data_only env (obj_of (dget c ''policy''))) ''catalog policy violates the data-only safety contract'') (\<lambda>_.
     rbind (intel_reject (\<not> is_list sources \<or> list_of sources = [] \<or> length source_ids < length (list_of sources))
       ''catalog sources array is invalid'') (\<lambda>_.
     rbind (intel_reject (\<not> is_list advisories \<or> list_of advisories = [] \<or> max_advisories < length (list_of advisories))
       ''catalog advisories array is invalid'') (\<lambda>_.
     rbind (rfold (check_source env) (enumerate0 (list_of sources)) []) (\<lambda>checked.
     rbind (intel_reject (generated \<noteq> latest_version checked) ''catalog generated_at does not equal the newest source version'') (\<lambda>_.
     rbind (rfold (check_advisory env checked) (enumerate0 (list_of advisories)) []) (\<lambda>read.
     rfold (check_contribution read) checked ())))))))))))"

end
