(* ===== verification/Auto_Update.thy ===== *)
theory Auto_Update
  imports Intelligence Update_Status
begin

text \<open>
  The update of the advisory catalog of \<^verbatim>\<open>src/zsec_shield/automatic_updates.py\<close>: the signed envelope,
  its rollback state, the installation, the status file and the run.
\<close>

section \<open>The envelope\<close>

definition intelligence_payload_keys :: "string list" where
  "intelligence_payload_keys = [''schema'', ''sequence'', ''generated_at'', ''expires_at'', ''catalog_sha256'', ''catalog'', ''policy'']"

definition parse_intelligence_envelope :: "string \<Rightarrow> dict res" where
  "parse_intelligence_envelope raw =
    (if max_intelligence_bytes < length raw then Inl (FeedError ''intelligence envelope exceeds the size limit'')
     else rbind (strict_json_loads raw) (\<lambda>v.
     if \<not> is_obj v \<or> keys_of (obj_of v) \<noteq> set envelope_keys then
       Inl (FeedError ''intelligence envelope fields are invalid'')
     else if dget (obj_of v) ''schema'' \<noteq> JStr ''zsec.signed-envelope.v1'' \<or> dget (obj_of v) ''algorithm'' \<noteq> JStr ''ed25519'' then
       Inl (FeedError ''intelligence envelope identity is invalid'')
     else if \<not> is_str (dget (obj_of v) ''key_id'') then Inl (FeedError ''intelligence key ID is invalid'')
     else Inr (obj_of v)))"

definition check_intelligence_window :: "(nat \<Rightarrow> nat res) \<Rightarrow> dict \<Rightarrow> nat \<Rightarrow> unit res" where
  "check_intelligence_window zone payload now =
    rbind (update_time zone (dget payload ''generated_at'') ''generated_at'') (\<lambda>generated.
    rbind (update_time zone (dget payload ''expires_at'') ''expires_at'') (\<lambda>expires.
    if generated > now + minutes 5 then Inl (FeedError ''intelligence generation time is in the future'')
    else if expires \<le> now \<or> expires \<le> generated \<or> expires - generated > days 14 then
      Inl (FeedError ''intelligence expiry is invalid'')
    else Inr ()))"

definition check_payload_catalog :: "catalog_env \<Rightarrow> dict \<Rightarrow> unit res" where
  "check_payload_catalog env payload =
    (let catalog = dget payload ''catalog'' in
     case validate_catalog env catalog of
       Inl (IntelligenceError m) \<Rightarrow> Inl (FeedError (''intelligence catalog is invalid: '' @ m))
     | Inl e \<Rightarrow> Inl e
     | Inr _ \<Rightarrow>
       rbind (canonical_json_bytes catalog) (\<lambda>b.
       if dget payload ''catalog_sha256'' \<noteq> JStr (hexdigest (b @ [CHR 0x0A])) then
         Inl (FeedError ''intelligence catalog digest does not match the signed payload'')
       else Inr ()))"

definition check_intelligence_payload :: "catalog_env \<Rightarrow> (nat \<Rightarrow> nat res) \<Rightarrow> dict \<Rightarrow> nat \<Rightarrow> unit res" where
  "check_intelligence_payload env zone payload now =
    (if keys_of payload \<noteq> set intelligence_payload_keys \<or> dget payload ''schema'' \<noteq> JStr ''zsec.intelligence.payload.v1'' then
       Inl (FeedError ''intelligence payload fields or schema are invalid'')
     else if \<not> is_obj (dget payload ''policy'') \<or> \<not> data_only env (obj_of (dget payload ''policy'')) then
       Inl (FeedError ''intelligence payload violates the data-only policy'')
     else if \<not> valid_sequence (dget payload ''sequence'') then Inl (FeedError ''intelligence sequence is invalid'')
     else rbind (check_intelligence_window zone payload now) (\<lambda>_. check_payload_catalog env payload))"

definition check_intelligence_envelope ::
    "(string \<Rightarrow> string \<Rightarrow> string \<Rightarrow> bool) \<Rightarrow> catalog_env \<Rightarrow> (nat \<Rightarrow> nat res) \<Rightarrow> dict \<Rightarrow> keyring \<Rightarrow> nat \<Rightarrow> dict res" where
  "check_intelligence_envelope vf env zone envelope keyring now =
    rbind (update_key ''intelligence'' keyring (dget envelope ''key_id'') now) (\<lambda>trusted.
    let payload = dget envelope ''payload'' in
    if \<not> is_obj payload then Inl (FeedError ''intelligence payload must be an object'')
    else rbind (update_signed vf ''intelligence'' trusted (dget envelope ''signature'') payload) (\<lambda>_.
    rbind (check_intelligence_payload env zone (obj_of payload) now) (\<lambda>_. Inr (obj_of payload))))"

definition verify_intelligence_envelope ::
    "(string \<Rightarrow> string \<Rightarrow> string \<Rightarrow> bool) \<Rightarrow> catalog_env \<Rightarrow> (nat \<Rightarrow> nat res) \<Rightarrow> string \<Rightarrow> path \<Rightarrow> nat \<Rightarrow> (dict \<times> dict) io" where
  "verify_intelligence_envelope vf env zone raw keyring_path now =
    io_bind (io_lift (parse_intelligence_envelope raw)) (\<lambda>envelope.
    io_bind (load_keyring keyring_path) (\<lambda>keyring.
    io_bind (io_lift (check_intelligence_envelope vf env zone envelope keyring now)) (\<lambda>payload.
    io_ret (envelope, payload))))"

section \<open>The installation\<close>

definition intelligence_state_keys :: "string list" where
  "intelligence_state_keys = [''schema'', ''max_sequence'', ''catalog_sha256'', ''key_id'', ''installed_at'']"

definition check_intelligence_state :: "json \<Rightarrow> dict res" where
  "check_intelligence_state v =
    (let d = obj_of v in
     if \<not> is_obj v \<or> keys_of d \<noteq> set intelligence_state_keys then Inl (FeedError ''intelligence rollback state fields are invalid'')
     else if dget d ''schema'' \<noteq> JStr ''zsec.intelligence.client-state.v1'' then
       Inl (FeedError ''intelligence rollback state schema is invalid'')
     else if \<not> is_int_nb (dget d ''max_sequence'') \<or> int_of (dget d ''max_sequence'') < 1 then
       Inl (FeedError ''intelligence rollback sequence is invalid'')
     else Inr d)"

definition load_intelligence_state :: "path \<Rightarrow> dict option io" where
  "load_intelligence_state p =
    io_bind (path_exists p) (\<lambda>there.
    if \<not> there then io_ret None
    else io_bind (sys_read_bytes p) (\<lambda>raw.
      io_bind (io_lift (rbind (strict_json_loads raw) check_intelligence_state)) (\<lambda>d. io_ret (Some d))))"

definition intelligence_rollback_check :: "dict \<Rightarrow> dict option \<Rightarrow> string res" where
  "intelligence_rollback_check payload previous =
    (case previous of None \<Rightarrow> Inr ''installed''
     | Some d \<Rightarrow>
       if int_of (dget payload ''sequence'') < int_of (dget d ''max_sequence'') then
         Inl (FeedError ''intelligence rollback sequence was rejected'')
       else if dget payload ''sequence'' = dget d ''max_sequence'' then
         (if dget payload ''catalog_sha256'' \<noteq> dget d ''catalog_sha256'' then
            Inl (FeedError ''intelligence sequence reuse with changed content was rejected'')
          else Inr ''unchanged'')
       else Inr ''installed'')"

definition intelligence_state_record :: "dict \<Rightarrow> dict \<Rightarrow> nat \<Rightarrow> dict" where
  "intelligence_state_record envelope payload now = mk_dict
    [(''schema'', JStr ''zsec.intelligence.client-state.v1''), (''max_sequence'', dget payload ''sequence''),
     (''catalog_sha256'', dget payload ''catalog_sha256''), (''key_id'', dget envelope ''key_id''),
     (''installed_at'', JStr (format_utc now))]"

definition keep_last_known_good :: "path \<Rightarrow> unit io" where
  "keep_last_known_good state_dir =
    io_bind (path_is_file (intelligence_envelope_path state_dir)) (\<lambda>there.
    if there then
      io_bind (sys_read_bytes (intelligence_envelope_path state_dir)) (\<lambda>raw.
      atomic_write_bytes (intelligence_last_known_good_path state_dir) raw 384)
    else io_ret ())"

definition install_verified :: "path \<Rightarrow> dict \<Rightarrow> dict \<Rightarrow> string \<Rightarrow> string \<Rightarrow> nat \<Rightarrow> string io" where
  "install_verified state_dir envelope payload canonical_catalog normalized_envelope now =
    io_bind (load_intelligence_state (intelligence_state_path state_dir)) (\<lambda>previous.
    io_bind (io_lift (intelligence_rollback_check payload previous)) (\<lambda>outcome.
    io_then (keep_last_known_good state_dir)
    (io_then (atomic_write_bytes (intelligence_document_path state_dir) canonical_catalog 384)
    (io_then (atomic_write_bytes (intelligence_envelope_path state_dir) normalized_envelope 384)
    (io_then (atomic_write_json (intelligence_state_path state_dir) (JObj (intelligence_state_record envelope payload now)) 384)
    (io_ret outcome))))))"

definition intelligence_lock_path :: "path \<Rightarrow> path" where
  "intelligence_lock_path d = join_path (join_path d ''intelligence'') ''.update.lock''"

definition install_intelligence_envelope ::
    "(string \<Rightarrow> string \<Rightarrow> string \<Rightarrow> bool) \<Rightarrow> catalog_env \<Rightarrow> (nat \<Rightarrow> nat res) \<Rightarrow> string \<Rightarrow> path \<Rightarrow> path \<Rightarrow> nat \<Rightarrow> (string \<times> dict) io" where
  "install_intelligence_envelope vf env zone raw state_dir keyring_path now =
    io_bind (verify_intelligence_envelope vf env zone raw keyring_path now) (\<lambda>(envelope, payload).
    io_bind (io_lift (canonical_json_bytes (dget payload ''catalog''))) (\<lambda>b.
    io_bind (io_lift (indented_json_bytes (JObj envelope))) (\<lambda>normalized.
    io_bind (update_lock (intelligence_lock_path state_dir)
      (install_verified state_dir envelope payload (b @ [CHR 0x0A]) normalized now)) (\<lambda>outcome.
    io_ret (outcome, payload)))))"

section \<open>The status\<close>

record update_status =
  us_state :: string
  us_checked :: "string option"
  us_success :: "string option"
  us_next :: string
  us_sequence :: "int option"
  us_expires :: "string option"
  us_source :: string
  us_error :: "string option"

definition update_status_schema :: string where
  "update_status_schema = ''zsec.shield.automatic-update-status.v1''"

definition update_status_to_dict :: "update_status \<Rightarrow> dict" where
  "update_status_to_dict s = mk_dict
    [(''schema'', JStr update_status_schema), (''state'', JStr (us_state s)), (''last_checked_at'', opt_str (us_checked s)),
     (''last_success_at'', opt_str (us_success s)), (''next_check_at'', JStr (us_next s)),
     (''feed_sequence'', opt_int (us_sequence s)), (''feed_expires_at'', opt_str (us_expires s)),
     (''source'', JStr (us_source s)), (''error'', opt_str (us_error s))]"

definition update_status_keys :: "string list" where
  "update_status_keys = [''schema'', ''state'', ''last_checked_at'', ''last_success_at'', ''next_check_at'', ''feed_sequence'',
     ''feed_expires_at'', ''source'', ''error'']"

definition validate_update_status :: "(nat \<Rightarrow> nat res) \<Rightarrow> json \<Rightarrow> update_status res" where
  "validate_update_status zone v =
    (let d = obj_of v in
     if \<not> is_obj v \<or> keys_of d \<noteq> set update_status_keys then Inl (FeedError ''automatic update status fields are invalid'')
     else if dget d ''schema'' \<noteq> JStr update_status_schema then Inl (FeedError ''automatic update status schema is invalid'')
     else
     rbind (in_set (dget d ''state'') [''never_checked'', ''current'', ''updated'', ''error'']) (\<lambda>ok.
     if \<not> ok then Inl (FeedError ''automatic update status state is invalid'')
     else
     rbind (status_source ''automatic update status source is invalid'' (dget d ''source'')) (\<lambda>source.
     rbind (update_time zone (dget d ''next_check_at'') ''next_check_at'') (\<lambda>_.
     rbind (optional_update_time zone d ''last_checked_at'') (\<lambda>_.
     rbind (optional_update_time zone d ''last_success_at'') (\<lambda>_.
     rbind (optional_update_time zone d ''feed_expires_at'') (\<lambda>_.
     rbind (optional_sequence ''automatic update status feed_sequence is invalid'' (dget d ''feed_sequence'')) (\<lambda>sequence.
     rbind (status_error ''automatic update status error is invalid'' (dget d ''error'')) (\<lambda>error.
     Inr \<lparr>us_state = str_of (dget d ''state''), us_checked = opt_text (dget d ''last_checked_at''),
       us_success = opt_text (dget d ''last_success_at''), us_next = str_of (dget d ''next_check_at''), us_sequence = sequence,
       us_expires = opt_text (dget d ''feed_expires_at''), us_source = source, us_error = error\<rparr>)))))))))"

definition blank_update_status :: "string \<Rightarrow> string \<Rightarrow> nat \<Rightarrow> string option \<Rightarrow> update_status" where
  "blank_update_status state source now error =
    \<lparr>us_state = state, us_checked = None, us_success = None, us_next = format_utc now, us_sequence = None, us_expires = None,
     us_source = source, us_error = error\<rparr>"

definition read_update_status :: "(nat \<Rightarrow> nat res) \<Rightarrow> path \<Rightarrow> string \<Rightarrow> nat \<Rightarrow> update_status io" where
  "read_update_status zone p source now =
    io_catch
      (io_bind (read_status_file p ''automatic update status is not a bounded regular file'') (\<lambda>v.
       io_lift (validate_update_status zone v)))
      feed_or_os
      (\<lambda>e. io_ret (blank_update_status ''error'' source now (Some (py_take 500 (exn_text e)))))"

definition load_automatic_update_status :: "(nat \<Rightarrow> nat res) \<Rightarrow> path \<Rightarrow> string \<Rightarrow> nat \<Rightarrow> update_status io" where
  "load_automatic_update_status zone state_dir source now =
    (let p = automatic_update_status_path state_dir in
     io_bind (path_exists p) (\<lambda>there.
     if \<not> there then io_ret (blank_update_status ''never_checked'' source now None)
     else io_bind (read_update_status zone p source now) (\<lambda>status.
       io_ret (if us_source status \<noteq> source then
           status\<lparr>us_state := ''never_checked'', us_next := format_utc now, us_source := source, us_error := None\<rparr>
         else status))))"

section \<open>The run\<close>

definition automatic_update_due :: "(nat \<Rightarrow> nat res) \<Rightarrow> update_status \<Rightarrow> nat \<Rightarrow> bool res" where
  "automatic_update_due zone status now =
    rbind (update_time zone (JStr (us_next status)) ''next_check_at'') (\<lambda>t. Inr (t \<le> now))"

definition new_update_status ::
    "(string \<Rightarrow> string \<Rightarrow> string \<Rightarrow> bool) \<Rightarrow> catalog_env \<Rightarrow> update_input \<Rightarrow> string res \<Rightarrow> path \<Rightarrow> path \<Rightarrow> string \<Rightarrow> string
       \<Rightarrow> update_status io" where
  "new_update_status vf env i download state_dir keyring_path source next =
    (let checked_at = format_utc (ui_now i) in
     io_bind (io_lift download) (\<lambda>raw.
     io_bind (install_intelligence_envelope vf env (ui_zone i) raw state_dir keyring_path (ui_now i)) (\<lambda>(outcome, payload).
     io_ret \<lparr>us_state = (if outcome = ''installed'' then ''updated'' else ''current''), us_checked = Some checked_at,
       us_success = Some checked_at, us_next = next, us_sequence = Some (int_of (dget payload ''sequence'')),
       us_expires = Some (str_of (dget payload ''expires_at'')), us_source = source, us_error = None\<rparr>)))"

definition failed_update_status :: "update_input \<Rightarrow> update_status \<Rightarrow> string \<Rightarrow> exn \<Rightarrow> update_status res" where
  "failed_update_status i previous source e =
    rbind (next_failed_check i) (\<lambda>next.
    Inr \<lparr>us_state = ''error'', us_checked = Some (format_utc (ui_now i)), us_success = us_success previous,
      us_next = format_utc next, us_sequence = us_sequence previous, us_expires = us_expires previous, us_source = source,
      us_error = Some (failure_text e)\<rparr>)"

definition run_automatic_update ::
    "(string \<Rightarrow> string \<Rightarrow> string \<Rightarrow> bool) \<Rightarrow> catalog_env \<Rightarrow> exchange \<Rightarrow> update_input \<Rightarrow> path \<Rightarrow> path \<Rightarrow> string \<Rightarrow> update_status io" where
  "run_automatic_update vf env x i state_dir keyring_path source =
    io_bind (load_automatic_update_status (ui_zone i) state_dir source (ui_now i)) (\<lambda>previous.
    io_bind (if ui_force i then io_ret True else io_lift (automatic_update_due (ui_zone i) previous (ui_now i))) (\<lambda>due.
    if \<not> due then io_ret previous
    else
    io_bind (io_lift (next_check i)) (\<lambda>next.
    io_bind (io_catch
        (new_update_status vf env i (download_intelligence_feed (ce_nfkc env) x source) state_dir keyring_path source (format_utc next))
        feed_or_os (\<lambda>e. io_lift (failed_update_status i previous source e))) (\<lambda>status.
    io_then (atomic_write_json (automatic_update_status_path state_dir) (JObj (update_status_to_dict status)) 384)
      (io_ret status)))))"

end
