(* ===== verification/Auto_Update_Proofs.thy ===== *)
theory Auto_Update_Proofs
  imports Auto_Update Update_Logic Atomic_Write
begin

text \<open>
  The guarantees of the advisory catalog: what an accepted catalog and envelope hold, and that an update,
  however it ends, keeps the recorded sequence and writes nothing but its own files.
\<close>

section \<open>An accepted catalog\<close>

lemma intel_reject_Inr [simp]: "intel_reject b m = Inr u \<longleftrightarrow> \<not> b"
  by (simp add: intel_reject_def)

definition listed :: "catalog_env \<Rightarrow> catalog_source \<Rightarrow> bool" where
  "listed env s = (cs_id s \<in> set source_ids
     \<and> (\<exists>url. intel_text (dget (cs_fields s) ''url'') [] 12 1000 = Inr url \<and> source_url_allowed env (cs_id s) url))"

lemma intel_text_field: "intel_text v f a b = Inr t \<longleftrightarrow> intel_text v g a b = Inr t"
  by (auto simp: intel_text_def Let_def)

lemma https_url_text: "intel_https_url env v f = Inr t \<Longrightarrow> intel_text v g 12 1000 = Inr t"
  using intel_text_field [of v f 12 1000 t g] by (auto simp: intel_https_url_def rbind_Inr_iff split: if_splits)

lemma check_source_Inr:
  assumes "check_source env (i, v) seen = Inr seen'"
  shows "\<exists>s. seen' = seen @ [s] \<and> v = JObj (cs_fields s) \<and> listed env s \<and> cs_id s \<notin> set (map cs_id seen)"
proof -
  define url where "url = dget (obj_of v) ''url''"
  define sid where "sid = dget (obj_of v) ''source_id''"
  from assms obtain source_id u version where "is_obj v"
    "source_id \<in> set source_ids" "source_id \<notin> set (map cs_id seen)"
    and u: "intel_https_url env url (''source '' @ source_id @ '' URL'') = Inr u" "source_url_allowed env source_id u"
    and s: "seen' = seen @ [\<lparr>cs_id = source_id, cs_version = version, cs_fields = obj_of v\<rparr>]"
    unfolding check_source_def Let_def prod.case url_def [symmetric] sid_def [symmetric] if_Inr_iff rbind_Inr_iff intel_reject_Inr
    by auto
  moreover from \<open>is_obj v\<close> obtain d where "v = JObj d" by (cases v) auto
  moreover note https_url_text [OF u(1), of "[]"]
  ultimately show ?thesis by (auto simp: listed_def url_def)
qed

lemma sources_checked:
  assumes "rfold (check_source env) ys seen = Inr r" and "list_all (listed env) seen" and "distinct (map cs_id seen)"
  shows "\<exists>new. r = seen @ new \<and> map snd ys = map (JObj \<circ> cs_fields) new \<and> list_all (listed env) r \<and> distinct (map cs_id r)"
  using assms
proof (induction ys arbitrary: seen)
  case (Cons y ys)
  obtain i v where y: "y = (i, v)" by (cases y)
  from Cons.prems(1) obtain seen' where s: "check_source env (i, v) seen = Inr seen'" "rfold (check_source env) ys seen' = Inr r"
    by (auto simp: rbind_Inr_iff y)
  from check_source_Inr [OF s(1)] obtain c where c: "seen' = seen @ [c]" "v = JObj (cs_fields c)" "listed env c"
    "cs_id c \<notin> set (map cs_id seen)" by blast
  have "\<exists>new. r = seen' @ new \<and> map snd ys = map (JObj \<circ> cs_fields) new \<and> list_all (listed env) r \<and> distinct (map cs_id r)"
    by (rule Cons.IH [OF s(2)]) (use Cons.prems c in auto)
  then obtain new where "r = seen' @ new" "map snd ys = map (JObj \<circ> cs_fields) new" "list_all (listed env) r" "distinct (map cs_id r)"
    by blast
  with c y show ?case by (intro exI [of _ "c # new"]) simp
qed simp

text \<open>An advisory that was read: it is committed, belongs to a source and agrees with it.\<close>

definition committed :: "catalog_source list \<Rightarrow> catalog_advisory \<Rightarrow> bool" where
  "committed sources a =
    (\<exists>s c. source_of sources (ca_source a) = Some s \<and> dget (ca_fields a) ''source_url'' = dget (cs_fields s) ''url''
       \<and> dget (obj_of (dget (ca_fields a) ''provenance'')) ''source_body_sha256'' = dget (cs_fields s) ''body_sha256''
       \<and> advisory_commitment (ca_fields a) = Inr c \<and> dget (obj_of (dget (ca_fields a) ''zba'')) ''commitment'' = JStr c)"

lemma advisory_fields_Inr:
  assumes "check_advisory_fields env a source name = Inr u"
  shows "dget a ''source_url'' = dget (cs_fields source) ''url''
    \<and> dget (obj_of (dget a ''provenance'')) ''source_body_sha256'' = dget (cs_fields source) ''body_sha256''
    \<and> (\<exists>c. advisory_commitment a = Inr c \<and> dget (obj_of (dget a ''zba'')) ''commitment'' = JStr c)"
proof -
  define p where "p = dget a ''provenance''"
  define b where "b = dget (obj_of p) ''source_body_sha256''"
  define bs where "bs = dget (cs_fields source) ''body_sha256''"
  define url where "url = dget a ''source_url''"
  define surl where "surl = dget (cs_fields source) ''url''"
  define z where "z = dget (obj_of (dget a ''zba'')) ''commitment''"
  from assms have u: "url = surl" and p: "check_provenance p source name = Inr ()" and z: "check_zba_record a name = Inr ()"
    unfolding check_advisory_fields_def p_def [symmetric] url_def [symmetric] surl_def [symmetric] rbind_Inr_iff intel_reject_Inr by auto
  from p have "b = bs"
    unfolding check_provenance_def Let_def b_def [symmetric] bs_def [symmetric] if_Inr_iff rbind_Inr_iff intel_reject_Inr by auto
  moreover from z have "\<exists>c. advisory_commitment a = Inr c \<and> z = JStr c"
    unfolding check_zba_record_def Let_def z_def [symmetric] if_Inr_iff rbind_Inr_iff intel_reject_Inr by auto
  ultimately show ?thesis using u by (simp add: p_def b_def bs_def url_def surl_def z_def)
qed

lemma check_advisory_Inr:
  assumes "check_advisory env sources (i, v) seen = Inr seen'"
  shows "\<exists>a. seen' = seen @ [a] \<and> v = JObj (ca_fields a) \<and> committed sources a \<and> ca_id a \<notin> set (map ca_id seen)"
proof -
  define k where "k = dget (obj_of v) ''id''"
  define m where "m = dget (obj_of v) ''source_id''"
  from assms obtain ident source_id s name where "is_obj v" "ident \<notin> set (map ca_id seen)"
    and s: "source_of sources source_id = Some s" and f: "check_advisory_fields env (obj_of v) s name = Inr ()"
    and r: "seen' = seen @ [\<lparr>ca_id = ident, ca_source = source_id, ca_fields = obj_of v\<rparr>]"
    unfolding check_advisory_def Let_def prod.case k_def [symmetric] m_def [symmetric] if_Inr_iff rbind_Inr_iff intel_reject_Inr
    by (auto split: option.splits simp: rbind_Inr_iff)
  moreover from \<open>is_obj v\<close> obtain d where "v = JObj d" by (cases v) auto
  ultimately show ?thesis using advisory_fields_Inr [OF f] by (auto simp: committed_def)
qed

lemma advisories_checked:
  assumes "rfold (check_advisory env sources) ys seen = Inr r" and "list_all (committed sources) seen" and "distinct (map ca_id seen)"
  shows "\<exists>new. r = seen @ new \<and> map snd ys = map (JObj \<circ> ca_fields) new \<and> list_all (committed sources) r \<and> distinct (map ca_id r)"
  using assms
proof (induction ys arbitrary: seen)
  case (Cons y ys)
  obtain i v where y: "y = (i, v)" by (cases y)
  from Cons.prems(1) obtain seen' where s: "check_advisory env sources (i, v) seen = Inr seen'"
    "rfold (check_advisory env sources) ys seen' = Inr r"
    by (auto simp: rbind_Inr_iff y)
  from check_advisory_Inr [OF s(1)] obtain c where c: "seen' = seen @ [c]" "v = JObj (ca_fields c)" "committed sources c"
    "ca_id c \<notin> set (map ca_id seen)" by blast
  have "\<exists>new. r = seen' @ new \<and> map snd ys = map (JObj \<circ> ca_fields) new \<and> list_all (committed sources) r \<and> distinct (map ca_id r)"
    by (rule Cons.IH [OF s(2)]) (use Cons.prems c in auto)
  then obtain new where "r = seen' @ new" "map snd ys = map (JObj \<circ> ca_fields) new" "list_all (committed sources) r"
    "distinct (map ca_id r)" by blast
  with c y show ?case by (intro exI [of _ "c # new"]) simp
qed simp

text \<open>The digests of a source cover the advisories that name it.\<close>

definition contributes :: "catalog_advisory list \<Rightarrow> catalog_source \<Rightarrow> bool" where
  "contributes advisories s =
    (dget (cs_fields s) ''advisory_count'' = JInt (int (length (filter (\<lambda>a. ca_source a = cs_id s) advisories)))
     \<and> (\<exists>c. records_digest (contributed advisories (cs_id s)) = Inr c \<and> dget (cs_fields s) ''contribution_sha256'' = JStr c)
     \<and> (\<exists>c. records_digest (map semantic_record (contributed advisories (cs_id s))) = Inr c
          \<and> dget (cs_fields s) ''semantic_sha256'' = JStr c))"

lemma check_contribution_Inr: "check_contribution advisories s u = Inr v \<Longrightarrow> contributes advisories s"
proof -
  assume a: "check_contribution advisories s u = Inr v"
  define n where "n = dget (cs_fields s) ''advisory_count''"
  define c where "c = dget (cs_fields s) ''contribution_sha256''"
  define e where "e = dget (cs_fields s) ''semantic_sha256''"
  from a have "JInt (int (length (contributed advisories (cs_id s)))) = n"
    "\<exists>x. records_digest (contributed advisories (cs_id s)) = Inr x \<and> JStr x = c"
    "\<exists>x. records_digest (map semantic_record (contributed advisories (cs_id s))) = Inr x \<and> JStr x = e"
    unfolding check_contribution_def Let_def n_def [symmetric] c_def [symmetric] e_def [symmetric] rbind_Inr_iff intel_reject_Inr
    by auto
  then show ?thesis by (auto simp: contributes_def contributed_def n_def c_def e_def)
qed

lemma contributions_checked: "rfold (check_contribution advisories) ss u = Inr v \<Longrightarrow> list_all (contributes advisories) ss"
  by (induction ss arbitrary: u) (auto simp: rbind_Inr_iff dest: check_contribution_Inr)

text \<open>
  C10: An accepted catalog is data only: its policy forbids remote commands, remediation, detection rules and
  samples; every source is one of the four known and has an allowed URL; every advisory belongs to one of
  the sources, agrees with its URL and body digest and carries the commitment of its own fields; and the
  count and both digests of a source are those of the advisories that name it.
\<close>

theorem catalog_bound:
  assumes "validate_catalog env v = Inr u"
  shows "\<exists>c sources advisories. v = JObj c \<and> data_only env (obj_of (dget c ''policy''))
    \<and> dget c ''sources'' = JList (map (JObj \<circ> cs_fields) sources) \<and> sources \<noteq> [] \<and> distinct (map cs_id sources)
    \<and> dget c ''advisories'' = JList (map (JObj \<circ> ca_fields) advisories) \<and> distinct (map ca_id advisories)
    \<and> length advisories \<le> max_advisories
    \<and> list_all (listed env) sources \<and> list_all (committed sources) advisories \<and> list_all (contributes advisories) sources"
proof -
  define c where "c = obj_of v"
  define ss where "ss = dget c ''sources''"
  define ads where "ads = dget c ''advisories''"
  define po where "po = dget c ''policy''"
  from assms obtain sources advisories where "is_obj v" "data_only env (obj_of po)"
    and ss: "is_list ss" "list_of ss \<noteq> []" and ads: "is_list ads" "\<not> max_advisories < length (list_of ads)"
    and s: "rfold (check_source env) (enumerate0 (list_of ss)) [] = Inr sources"
    and a: "rfold (check_advisory env sources) (enumerate0 (list_of ads)) [] = Inr advisories"
    and r: "rfold (check_contribution advisories) sources () = Inr ()"
    unfolding validate_catalog_def Let_def c_def [symmetric] ss_def [symmetric] ads_def [symmetric] po_def [symmetric]
      if_Inr_iff rbind_Inr_iff intel_reject_Inr by auto
  from sources_checked [OF s] have s': "list_of ss = map (JObj \<circ> cs_fields) sources" "list_all (listed env) sources"
    "distinct (map cs_id sources)" by auto
  from advisories_checked [OF a] have a': "list_of ads = map (JObj \<circ> ca_fields) advisories" "list_all (committed sources) advisories"
    "distinct (map ca_id advisories)" by auto
  from ss(1) s'(1) have "ss = JList (map (JObj \<circ> cs_fields) sources)" by (cases ss) auto
  moreover from ads(1) a'(1) have "ads = JList (map (JObj \<circ> ca_fields) advisories)" by (cases ads) auto
  moreover from \<open>is_obj v\<close> have "v = JObj c" by (cases v) (auto simp: c_def)
  ultimately show ?thesis
    using s' a' ss(2) ads(2) contributions_checked [OF r] \<open>data_only env (obj_of po)\<close>
    by (intro exI [of _ c] exI [of _ sources] exI [of _ advisories]) (auto simp: ss_def ads_def po_def)
qed

section \<open>An accepted envelope\<close>

lemma payload_Inr:
  assumes "check_intelligence_payload env zone payload now = Inr u"
  shows "data_only env (obj_of (dget payload ''policy'')) \<and> (\<exists>n. dget payload ''sequence'' = JInt n \<and> 1 \<le> n)
    \<and> check_intelligence_window zone payload now = Inr () \<and> check_payload_catalog env payload = Inr ()"
proof -
  define n where "n = dget payload ''sequence''"
  define po where "po = dget payload ''policy''"
  have "data_only env (obj_of po)" "valid_sequence n" "check_intelligence_window zone payload now = Inr ()"
    "check_payload_catalog env payload = Inr ()"
    using assms unfolding check_intelligence_payload_def rbind_Inr_iff if_Inr_iff n_def [symmetric] po_def [symmetric] by auto
  then show ?thesis by (cases n) (simp_all add: n_def po_def valid_sequence_def)
qed

lemma payload_catalog_Inr:
  assumes "check_payload_catalog env payload = Inr u"
  shows "validate_catalog env (dget payload ''catalog'') = Inr ()
    \<and> (\<exists>b. canonical_json_bytes (dget payload ''catalog'') = Inr b \<and> dget payload ''catalog_sha256'' = JStr (hexdigest (b @ [CHR 0x0A])))"
proof -
  define c where "c = dget payload ''catalog''"
  define h where "h = dget payload ''catalog_sha256''"
  have "validate_catalog env c = Inr () \<and> (\<exists>b. canonical_json_bytes c = Inr b \<and> h = JStr (hexdigest (b @ [CHR 0x0A])))"
    using assms unfolding check_payload_catalog_def Let_def c_def [symmetric] h_def [symmetric]
    by (auto simp: rbind_Inr_iff if_Inr_iff split: sum.splits exn.splits)
  then show ?thesis by (simp add: c_def h_def)
qed

lemma window_Inr:
  assumes "check_intelligence_window zone payload now = Inr u"
  shows "\<exists>g e. update_time zone (dget payload ''generated_at'') ''generated_at'' = Inr g
    \<and> update_time zone (dget payload ''expires_at'') ''expires_at'' = Inr e \<and> g \<le> now + minutes 5 \<and> now < e \<and> g < e \<and> e - g \<le> days 14"
proof -
  define g where "g = update_time zone (dget payload ''generated_at'') ''generated_at''"
  define e where "e = update_time zone (dget payload ''expires_at'') ''expires_at''"
  have "\<exists>x y. g = Inr x \<and> e = Inr y \<and> x \<le> now + minutes 5 \<and> now < y \<and> x < y \<and> y - x \<le> days 14"
    using assms unfolding check_intelligence_window_def g_def [symmetric] e_def [symmetric] rbind_Inr_iff if_Inr_iff
    by (auto simp: not_less not_le)
  then show ?thesis by (simp add: g_def e_def)
qed

text \<open>
  C11: A catalog is taken from an envelope only under the signature of an active trusted key, within a
  validity of at most fourteen days, with a data-only policy, a valid catalog and the digest of that
  catalog's canonical bytes.
\<close>

theorem intelligence_authentic:
  assumes "check_intelligence_envelope vf env zone envelope ring now = Inr payload"
  shows "\<exists>id k n g e b. dget envelope ''key_id'' = JStr id \<and> map_of ring id = Some k \<and> valid_at k now
    \<and> dget envelope ''payload'' = JObj payload \<and> signed_by vf k (dget envelope ''signature'') (JObj payload)
    \<and> dget payload ''sequence'' = JInt n \<and> 1 \<le> n \<and> data_only env (obj_of (dget payload ''policy''))
    \<and> update_time zone (dget payload ''generated_at'') ''generated_at'' = Inr g
    \<and> update_time zone (dget payload ''expires_at'') ''expires_at'' = Inr e \<and> g \<le> now + minutes 5 \<and> now < e \<and> e - g \<le> days 14
    \<and> validate_catalog env (dget payload ''catalog'') = Inr ()
    \<and> canonical_json_bytes (dget payload ''catalog'') = Inr b \<and> dget payload ''catalog_sha256'' = JStr (hexdigest (b @ [CHR 0x0A]))"
proof -
  define v where "v = dget envelope ''payload''"
  from assms obtain k where k: "update_key ''intelligence'' ring (dget envelope ''key_id'') now = Inr k"
    and o: "is_obj v" and s: "update_signed vf ''intelligence'' k (dget envelope ''signature'') v = Inr ()"
    and c: "check_intelligence_payload env zone (obj_of v) now = Inr ()" and p: "payload = obj_of v"
    unfolding check_intelligence_envelope_def Let_def v_def [symmetric] by (auto simp: rbind_Inr_iff if_Inr_iff)
  from o p have v: "v = JObj payload" by (cases v) auto
  note a = payload_Inr [OF c [folded p]]
  then obtain n where n: "dget payload ''sequence'' = JInt n" "1 \<le> n" by blast
  from a have "check_intelligence_window zone payload now = Inr ()" by blast
  from window_Inr [OF this] obtain g e where w: "update_time zone (dget payload ''generated_at'') ''generated_at'' = Inr g"
    "update_time zone (dget payload ''expires_at'') ''expires_at'' = Inr e" "g \<le> now + minutes 5" "now < e" "e - g \<le> days 14" by blast
  from a have "check_payload_catalog env payload = Inr ()" by blast
  note pc = payload_catalog_Inr [OF this]
  from k obtain id where i: "dget envelope ''key_id'' = JStr id" "map_of ring id = Some k" "valid_at k now" by (auto simp: update_key_Inr)
  note sg = update_signed_Inr [OF s, unfolded v]
  from pc obtain b where b: "canonical_json_bytes (dget payload ''catalog'') = Inr b"
    "dget payload ''catalog_sha256'' = JStr (hexdigest (b @ [CHR 0x0A]))" by blast
  from v have dv: "dget envelope ''payload'' = JObj payload" by (simp add: v_def)
  show ?thesis
    by (intro exI [of _ id] exI [of _ k] exI [of _ n] exI [of _ g] exI [of _ e] exI [of _ b])
       (use i dv sg n a w pc b in blast)
qed

section \<open>The recorded sequence\<close>

definition parse_intelligence_state :: "string \<Rightarrow> dict res" where
  "parse_intelligence_state raw = rbind (strict_json_loads raw) check_intelligence_state"

lemma load_intelligence_state_has:
  assumes "i_kind d = Reg" and "parse_intelligence_state (i_data d) = Inr st"
  shows "triple (has p d) (load_intelligence_state p) (\<lambda>x f. has p d f \<and> x = Some st) (\<lambda>_. has p d)"
  unfolding load_intelligence_state_def parse_intelligence_state_def [symmetric]
proof (rule triple_bind [OF has_exists triple_assume], simp add: assms(1), goal_cases)
  case (1 there)
  have "triple (has p d) (io_bind (sys_read_bytes p) (\<lambda>raw. io_bind (io_lift (parse_intelligence_state raw)) (\<lambda>d. io_ret (Some d))))
     (\<lambda>x f. has p d f \<and> x = Some st) (\<lambda>_. has p d)"
    by (rule triple_bind [OF triple_read_bytes_Reg [OF assms(1)] triple_assume], rule triple_lift_bind)
       (auto intro: triple_ret simp: assms(2))
  then show ?case using 1 by simp
qed

interpretation intelligence_record: rollback_record parse_intelligence_state load_intelligence_state
  by unfold_locales (rule load_intelligence_state_has)

lemma intelligence_record_get:
  "dget (intelligence_state_record e p t) ''schema'' = JStr ''zsec.intelligence.client-state.v1''"
  "dget (intelligence_state_record e p t) ''max_sequence'' = dget p ''sequence''"
  "keys_of (intelligence_state_record e p t) = set intelligence_state_keys"
  by (simp_all add: intelligence_state_record_def dget_mk_dict keys_of_mk_dict intelligence_state_keys_def)

lemma intelligence_record_parses:
  assumes e: "parse_intelligence_envelope raw = Inr envelope"
    and c: "check_intelligence_envelope vf env zone envelope ring t = Inr payload"
    and b: "indented_json_bytes (JObj (intelligence_state_record envelope payload now)) = Inr b"
  shows "parse_intelligence_state b = Inr (intelligence_state_record envelope payload now)"
proof -
  define v where "v = dget envelope ''payload''"
  from c have o: "is_obj v" and p: "check_intelligence_payload env zone payload t = Inr ()" and pv: "payload = obj_of v"
    and k: "is_str (dget envelope ''key_id'')"
    unfolding check_intelligence_envelope_def Let_def v_def [symmetric] by (auto simp: rbind_Inr_iff if_Inr_iff update_key_Inr)
  from o pv have v: "v = JObj payload" by (cases v) auto
  note a = payload_Inr [OF p]
  from a obtain n where n: "dget payload ''sequence'' = JInt n" "1 \<le> n" by blast
  from a have "check_payload_catalog env payload = Inr ()" by blast
  from payload_catalog_Inr [OF this] obtain h where h: "dget payload ''catalog_sha256'' = JStr h" by blast
  obtain id where id: "dget envelope ''key_id'' = JStr id" using k by (cases "dget envelope ''key_id''") auto
  have "parsed (JObj envelope)"
  proof -
    from e obtain u where u: "strict_json_loads raw = Inr u" "is_obj u" "envelope = obj_of u"
      unfolding parse_intelligence_envelope_def rbind_Inr_iff if_Inr_iff by blast
    show ?thesis using strict_json_loads_parsed [OF u(1)] u(2,3) by (cases u) auto
  qed
  then have "parsed (dget payload ''sequence'')" by (metis parsed_dget v v_def)
  then have w: "wf_json (JInt n)" using n by (auto simp: wf_json_iff)
  have "wf_json (JObj (intelligence_state_record envelope payload now))"
    unfolding intelligence_state_record_def n h id by (rule wf_json_mk_dict) (use w in auto)
  then have "strict_json_loads b = Inr (JObj (intelligence_state_record envelope payload now))"
    using b by (rule strict_indented)
  then show ?thesis
    using n by (auto simp: parse_intelligence_state_def check_intelligence_state_def intelligence_record_get)
qed

lemma intelligence_check_le:
  "intelligence_rollback_check payload (Some st) = Inr u \<Longrightarrow> int_of (dget st ''max_sequence'') \<le> int_of (dget payload ''sequence'')"
  by (auto simp: intelligence_rollback_check_def split: if_splits)

definition intelligence_files :: "path \<Rightarrow> path set" where
  "intelligence_files D = {intelligence_document_path D, intelligence_envelope_path D, intelligence_last_known_good_path D,
     intelligence_state_path D, automatic_update_status_path D}"

lemma intelligence_paths:
  "p \<in> intelligence_files D \<Longrightarrow> p \<noteq> []" "intelligence_state_path D \<noteq> intelligence_document_path D"
  "intelligence_state_path D \<noteq> intelligence_envelope_path D" "intelligence_state_path D \<noteq> intelligence_last_known_good_path D"
  "intelligence_state_path D \<noteq> automatic_update_status_path D"
  by (auto simp: intelligence_files_def intelligence_document_path_def intelligence_envelope_path_def intelligence_state_path_def
      intelligence_last_known_good_path_def automatic_update_status_path_def join_path_def)

lemma intelligence_nonempty:
  "intelligence_document_path D \<noteq> []" "intelligence_envelope_path D \<noteq> []" "intelligence_last_known_good_path D \<noteq> []"
  "intelligence_state_path D \<noteq> []" "automatic_update_status_path D \<noteq> []"
  by (auto intro!: intelligence_paths(1) [of _ D] simp: intelligence_files_def)

lemma write_verified:
  fixes D :: path
  defines "sp \<equiv> intelligence_state_path D"
  assumes e: "parse_intelligence_envelope raw = Inr envelope" "check_intelligence_envelope vf env zone envelope ring t = Inr payload"
    and d: "i_kind d = Reg" "parse_intelligence_state (i_data d) = Inr st" "n \<le> int_of (dget st ''max_sequence'')"
  shows "triple (has sp d) (install_verified D envelope payload cb nb now) (\<lambda>_. record_floor parse_intelligence_state sp n)
     (\<lambda>_. record_floor parse_intelligence_state sp n)"
  unfolding install_verified_def sp_def [symmetric]
proof (rule intelligence_record.read_checked [OF d], goal_cases)
  case (1 outcome)
  let ?fl = "record_floor parse_intelligence_state sp n"
  have fl: "has sp d f \<Longrightarrow> ?fl f" for f by (rule floor_has [where parse = parse_intelligence_state, OF _ d])
  have w: "triple (has sp d) (atomic_write_json sp (JObj (intelligence_state_record envelope payload now)) 384) (\<lambda>_. ?fl) (\<lambda>_. ?fl)"
    using intelligence_check_le [OF 1] d(3) intelligence_record_parses [OF e]
    by (intro write_record [where parse = parse_intelligence_state, OF d])
       (auto simp: sp_def parent_len intelligence_nonempty intelligence_record_get)
  have o: "triple (has sp d) (atomic_write_bytes q x 384) (\<lambda>_. has sp d) (\<lambda>_. ?fl)" if "sp \<noteq> q" "q \<noteq> []" for q x
    by (rule triple_conseq [OF atomic_write_keeps]) (use that in \<open>auto simp: parent_len intro: fl\<close>)
  have k: "triple (has sp d) (keep_last_known_good D) (\<lambda>_. has sp d) (\<lambda>_. ?fl)"
    unfolding keep_last_known_good_def
  proof (rule triple_bind [where Q = "\<lambda>_. has sp d"], goal_cases)
    case 1
    show ?case by (rule triple_conseq [OF looksD [OF looks_is_file, of "has sp d"]]) (auto intro: fl [unfolded sp_def] simp: sp_def)
  next
    case (2 there)
    have "triple (has sp d) (io_bind (sys_read_bytes (intelligence_envelope_path D))
        (\<lambda>raw. atomic_write_bytes (intelligence_last_known_good_path D) raw 384)) (\<lambda>_. has sp d) (\<lambda>_. ?fl)"
      by (rule triple_bind [OF triple_conseq [OF looksD [OF looks_read_bytes, of "has sp d"]] o])
         (use fl in \<open>auto simp: sp_def intelligence_paths intelligence_nonempty\<close>)
    then show ?case by (auto intro: triple_ret)
  qed
  show ?case
    by (rule triple_then [OF k triple_then [OF o triple_then [OF o triple_then [OF w triple_ret]]]])
       (auto simp: sp_def intelligence_paths intelligence_nonempty intro: fl [unfolded sp_def])
qed

lemma verify_intelligence:
  "triple P (verify_intelligence_envelope vf env zone raw kp now)
     (\<lambda>(envelope, payload) f. P f \<and> (\<exists>ring. parse_intelligence_envelope raw = Inr envelope
        \<and> check_intelligence_envelope vf env zone envelope ring now = Inr payload)) (\<lambda>_. P)"
  unfolding verify_intelligence_envelope_def
proof (rule triple_lift_bind, assumption, rule triple_bind [OF looksD [OF looks_load_ring, of P]], goal_cases)
  case (1 envelope ring)
  show ?case by (rule triple_lift_bind, assumption, rule triple_ret) (use 1 in auto)
qed

lemma looks_update_load: "looks (load_automatic_update_status zone D source now)"
  unfolding load_automatic_update_status_def read_update_status_def Let_def
  by (auto intro!: looks_bind looks_lift looks_exists looks_ret looks_catch looks_read_status)

text \<open>Every step of a run is one of these: looking, installing under the lock, writing the status.\<close>

lemma intelligence_steps:
  fixes I :: "fs \<Rightarrow> bool"
  assumes rec: "\<And>raw envelope ring payload cb nb. parse_intelligence_envelope raw = Inr envelope \<Longrightarrow>
      check_intelligence_envelope vf env (ui_zone i) envelope ring (ui_now i) = Inr payload \<Longrightarrow>
      triple I (update_lock (intelligence_lock_path D) (install_verified D envelope payload cb nb (ui_now i))) (\<lambda>_. I) (\<lambda>_. I)"
    and status: "\<And>v. triple I (atomic_write_json (automatic_update_status_path D) v 384) (\<lambda>_. I) (\<lambda>_. I)"
  shows "triple I (run_automatic_update vf env x i D kp source) (\<lambda>_. I) (\<lambda>_. I)"
proof -
  have inst: "triple I (install_intelligence_envelope vf env (ui_zone i) raw D kp (ui_now i)) (\<lambda>_. I) (\<lambda>_. I)" for raw
    unfolding install_intelligence_envelope_def
  proof (rule triple_bind [OF verify_intelligence], goal_cases)
    case (1 ep)
    obtain envelope payload where ep: "ep = (envelope, payload)" by (cases ep)
    show ?case
      unfolding ep prod.case
    proof (rule triple_assume, elim exE conjE, goal_cases)
      case (1 ring)
      show ?case
        by (rule triple_lift_bind, assumption, rule triple_lift_bind, assumption,
            rule triple_bind [OF rec [OF 1] triple_ret])
    qed
  qed
  have new: "triple I (new_update_status vf env i download D kp source nx) (\<lambda>_. I) (\<lambda>_. I)" for download nx
    unfolding new_update_status_def Let_def
    by (rule triple_lift_bind, assumption, rule triple_bind [OF inst]) (auto intro: triple_ret)
  show ?thesis
    unfolding run_automatic_update_def
  proof (rule triple_bind [OF looksD [OF looks_update_load, of I]], rule triple_bind [where Q = "\<lambda>_. I"], goal_cases)
    case (1 previous)
    show ?case by (rule looksD) (auto intro!: looks_bind looks_lift looks_ret)
  next
    case (2 previous due)
    show ?case
    proof (cases due)
      case True
      have "triple I (io_catch (new_update_status vf env i (download_intelligence_feed (ce_nfkc env) x source) D kp source (format_utc t))
          feed_or_os (\<lambda>e. io_lift (failed_update_status i previous source e))) (\<lambda>_. I) (\<lambda>_. I)" for t
        by (rule triple_catch [OF new]) (auto intro: looksD looks_lift)
      with True show ?thesis
        by (auto intro!: triple_bind [where Q = "\<lambda>_. I"] looksD [OF looks_lift] triple_then [OF status] triple_ret)
    qed (auto intro: triple_ret)
  qed
qed

text \<open>
  C12: However an update of the advisory catalog ends, whatever the network delivers and whichever system
  call fails: if the rollback state can be read, it can be read afterwards and the sequence recorded in
  it has not decreased.
\<close>

theorem intelligence_never_rolls_back:
  assumes "calm w"
    and "record_floor parse_intelligence_state (intelligence_state_path D) n (w_fs w)"
    and "run_automatic_update vf env x i D kp source w = (r, w')"
  shows "record_floor parse_intelligence_state (intelligence_state_path D) n (w_fs w')"
proof -
  let ?p = "intelligence_state_path D" and ?parse = parse_intelligence_state
  let ?I = "record_floor ?parse ?p n"
  have "triple ?I (run_automatic_update vf env x i D kp source) (\<lambda>_. ?I) (\<lambda>_. ?I)"
  proof (rule intelligence_steps)
    fix raw envelope ring payload cb nb
    assume e: "parse_intelligence_envelope raw = Inr envelope"
      "check_intelligence_envelope vf env (ui_zone i) envelope ring (ui_now i) = Inr payload"
    show "triple ?I (update_lock (intelligence_lock_path D) (install_verified D envelope payload cb nb (ui_now i))) (\<lambda>_. ?I) (\<lambda>_. ?I)"
      by (rule floor_guarded, rule triple_update_lock [OF write_verified [OF e]])
         (auto intro: floor_has [where parse = ?parse])
  next
    show "triple ?I (atomic_write_json (automatic_update_status_path D) v 384) (\<lambda>_. ?I) (\<lambda>_. ?I)" for v
      by (rule floor_other) (simp_all add: intelligence_paths intelligence_nonempty parent_len)
  qed
  from tripleX [OF this assms] show ?thesis by (cases r) simp_all
qed

text \<open>
  C13: An update of the advisory catalog changes no regular file but the catalog, its envelope, the envelope
  before, the rollback state and its status: rules, quarantine and scanner files stay as they are.
\<close>

theorem intelligence_data_only:
  assumes "calm w" and "fs_ok (w_fs w)" and "published b (w_fs w) q" and "q \<notin> intelligence_files D"
    and "run_automatic_update vf env x i D kp source w = (r, w')"
  shows "published b (w_fs w') q"
proof -
  let ?F = "[(q, b)]"
  have n: "p \<notin> fst ` set ?F" if "p \<in> intelligence_files D" for p using that assms(4) by auto
  have s: "stable ?F (atomic_write_json p v m)" if "p \<in> intelligence_files D" for p v m
    by (rule stable_atomic_json [OF n [OF that] intelligence_paths(1) [OF that]])
  have t: "stable ?F (atomic_write_bytes p v m)" if "p \<in> intelligence_files D" for p v m
    unfolding stable_def
    by (rule triple_conseq [OF stable_atomic_write [where F = ?F and p = p and data = v and mode = m]])
       (use n [OF that] intelligence_paths(1) [OF that] in \<open>auto simp: keeps_def\<close>)
  have l: "looks (load_intelligence_state p)" for p
    unfolding load_intelligence_state_def by (auto intro!: looks_bind looks_exists looks_ret looks_read_bytes looks_lift)
  have k: "stable ?F (keep_last_known_good D)"
    unfolding keep_last_known_good_def
    by (auto intro!: stable_bind stable_looks [OF looks_is_file] stable_looks [OF looks_read_bytes] t stable_looks [OF looks_ret])
       (auto simp: intelligence_files_def)
  have "triple (keeps ?F) (run_automatic_update vf env x i D kp source) (\<lambda>_. keeps ?F) (\<lambda>_. keeps ?F)"
    by (rule intelligence_steps; rule stableD)
       (auto simp: install_verified_def intro!: stable_update_lock stable_bind stable_then s t k stable_looks [OF l]
          stable_looks [OF looks_lift] stable_looks [OF looks_ret], auto simp: intelligence_files_def)
  from tripleX [OF this assms(1) _ assms(5)] have "keeps ?F (w_fs w')"
    using assms(2,3) by (cases r) (auto simp: keeps_def)
  then show ?thesis by (simp add: keeps_def)
qed

end
