(* ===== verification/Catalog_Install.thy ===== *)
theory Catalog_Install
  imports Intelligence Vault_World Paths
begin

text \<open>
  The installation of a catalog (\<^verbatim>\<open>install_catalog\<close> of \<^verbatim>\<open>src/zsec_shield/intelligence.py\<close>): its bytes,
  the rollback state, the comparison with the state before and the files it writes.
\<close>

section \<open>The bytes and the state\<close>

definition max_catalog_bytes :: nat where "max_catalog_bytes = 8 * 1024 * 1024"

definition catalog_bytes :: "catalog_env \<Rightarrow> json \<Rightarrow> string res" where
  "catalog_bytes env catalog =
    rbind (validate_catalog env catalog) (\<lambda>_.
    rbind (indented_json_bytes catalog) (\<lambda>b.
    if max_catalog_bytes < length b then Inl (IntelligenceError ''desktop intelligence catalog exceeds the size limit'')
    else Inr b))"

definition catalog_state_schema :: string where "catalog_state_schema = ''zsec.desktop-intelligence-state.v1''"

definition check_state_source :: "catalog_env \<Rightarrow> nat \<times> json \<Rightarrow> string list \<Rightarrow> string list res" where
  "check_state_source env = (\<lambda>(i, v) seen.
    (let d = obj_of v in
     if \<not> is_obj v then Inl (IntelligenceError (''desktop intelligence state source '' @ dec_nat i @ '' is invalid''))
     else
     rbind (exact_keys IntelligenceError d [''source_id'', ''version'', ''semantic_sha256''] (''state source '' @ dec_nat i)) (\<lambda>_.
     rbind (intel_text (dget d ''source_id'') (''state source '' @ dec_nat i @ '' ID'') 3 64) (\<lambda>source_id.
     rbind (intel_reject (source_id \<notin> set source_ids \<or> source_id \<in> set seen)
       (''state source ID is unsupported/duplicate: '' @ source_id)) (\<lambda>_.
     rbind (intel_time env (dget d ''version'') (''state source '' @ source_id @ '' version'')) (\<lambda>_.
     rbind (intel_reject (\<not> intel_digest (dget d ''semantic_sha256'')) (''state source '' @ source_id @ '' digest is invalid'')) (\<lambda>_.
     Inr (seen @ [source_id]))))))))"

definition validate_catalog_state :: "catalog_env \<Rightarrow> json \<Rightarrow> dict res" where
  "validate_catalog_state env v =
    (let d = obj_of v; sources = dget d ''sources'' in
     if \<not> is_obj v then Inl (IntelligenceError ''desktop intelligence state must be an object'')
     else
     rbind (exact_keys IntelligenceError d [''schema'', ''current_catalog_sha256'', ''sources'', ''installed_at'']
       ''desktop intelligence state'') (\<lambda>_.
     rbind (intel_reject (dget d ''schema'' \<noteq> JStr catalog_state_schema) ''desktop intelligence state schema is unsupported'') (\<lambda>_.
     rbind (intel_reject (\<not> intel_digest (dget d ''current_catalog_sha256'')) ''desktop intelligence state digest is invalid'') (\<lambda>_.
     rbind (intel_time env (dget d ''installed_at'') ''desktop intelligence state installed_at'') (\<lambda>_.
     rbind (intel_reject (\<not> is_list sources \<or> list_of sources = []) ''desktop intelligence state sources are invalid'') (\<lambda>_.
     rbind (rfold (check_state_source env) (enumerate0 (list_of sources)) []) (\<lambda>_.
     Inr d)))))))"

definition intel_json :: "string \<Rightarrow> json res" where
  "intel_json raw =
    (case strict_json_loads raw of
       Inr v \<Rightarrow> Inr v
     | Inl e \<Rightarrow> if is_feed_error e then Inl (IntelligenceError (''current intelligence catalog/state is invalid: '' @ exn_text e))
         else Inl e)"

text \<open>What two existing files must be: a valid catalog and a state that records its digest.\<close>

definition check_existing :: "catalog_env \<Rightarrow> string \<Rightarrow> string \<Rightarrow> dict res" where
  "check_existing env raw state_raw =
    rbind (intel_reject (max_catalog_bytes < length raw \<or> 256 * 1024 < length state_raw)
      ''current intelligence catalog/state exceeds the size limit'') (\<lambda>_.
    rbind (intel_json raw) (\<lambda>catalog.
    rbind (intel_json state_raw) (\<lambda>v.
    rbind (validate_catalog env catalog) (\<lambda>_.
    rbind (validate_catalog_state env v) (\<lambda>state.
    if JStr (hexdigest raw) \<noteq> dget state ''current_catalog_sha256'' then
      Inl (IntelligenceError ''current catalog does not match rollback state'')
    else Inr state)))))"

definition read_existing :: "catalog_env \<Rightarrow> path \<Rightarrow> path \<Rightarrow> (string \<times> dict) option io" where
  "read_existing env output_path state_path =
    io_bind (path_exists output_path) (\<lambda>a.
    io_bind (path_exists state_path) (\<lambda>b.
    io_if (a \<noteq> b) (IntelligenceError ''catalog and rollback state must either both exist or both be absent'')
    (io_bind (path_exists output_path) (\<lambda>there.
     if \<not> there then io_ret None
     else
     io_bind (io_catch
       (io_bind (sys_read_bytes output_path) (\<lambda>raw. io_bind (sys_read_bytes state_path) (\<lambda>state_raw. io_ret (raw, state_raw))))
       is_os_error (\<lambda>e. io_raise (IntelligenceError (''cannot read current intelligence state: '' @ exn_text e)))) (\<lambda>(raw, state_raw).
     io_bind (io_lift (check_existing env raw state_raw)) (\<lambda>state. io_ret (Some (raw, state))))))))"

section \<open>The comparison with the state before\<close>

definition by_source :: "dict \<Rightarrow> (string \<times> dict) list" where
  "by_source d = map (\<lambda>v. (str_of (dget (obj_of v) ''source_id''), obj_of v)) (list_of (dget d ''sources''))"

definition compare_source :: "catalog_env \<Rightarrow> (string \<times> dict) list \<Rightarrow> string \<times> dict \<Rightarrow> unit \<Rightarrow> unit res" where
  "compare_source env new_sources = (\<lambda>(source_id, old) u.
    (let new = (case map_of new_sources source_id of None \<Rightarrow> [] | Some d \<Rightarrow> d) in
     rbind (intel_parse_time env (dget old ''version'') (''old '' @ source_id @ '' version'')) (\<lambda>old_version.
     rbind (intel_parse_time env (dget new ''version'') (''new '' @ source_id @ '' version'')) (\<lambda>new_version.
     rbind (intel_reject (new_version < old_version) (''source rollback rejected: '' @ source_id)) (\<lambda>_.
     intel_reject (new_version = old_version \<and> dget new ''semantic_sha256'' \<noteq> dget old ''semantic_sha256'')
       (''source version reuse with changed content rejected: '' @ source_id))))))"

definition check_catalog_rollback :: "catalog_env \<Rightarrow> dict \<Rightarrow> dict \<Rightarrow> unit res" where
  "check_catalog_rollback env previous catalog =
    (let old = by_source previous; new = by_source catalog;
         removed = sort (filter (\<lambda>k. k \<notin> set (map fst new)) (remdups (map fst old))) in
     if removed \<noteq> [] then Inl (IntelligenceError (''source removal rejected: '' @ join_with '','' removed))
     else rfold (compare_source env new) old ())"

section \<open>The installation\<close>

record update_result =
  ur_outcome :: string
  ur_catalog :: dict
  ur_sha256 :: string
  ur_output_path :: path
  ur_state_path :: path
  ur_dry_run :: bool

definition update_result_to_dict :: "update_result \<Rightarrow> dict" where
  "update_result_to_dict r = mk_dict
    [(''outcome'', JStr (ur_outcome r)), (''catalog_sha256'', JStr (ur_sha256 r)),
     (''advisories'', JInt (int (length (list_of (dget (ur_catalog r) ''advisories''))))),
     (''sources'', JList (map (\<lambda>s. dget (obj_of s) ''source_id'') (list_of (dget (ur_catalog r) ''sources'')))),
     (''generated_at'', dget (ur_catalog r) ''generated_at''), (''output_path'', JStr (ur_output_path r)),
     (''state_path'', JStr (ur_state_path r)), (''dry_run'', JBool (ur_dry_run r)), (''safety'', dget (ur_catalog r) ''policy'')]"

definition catalog_state_record :: "dict \<Rightarrow> string \<Rightarrow> nat \<Rightarrow> dict" where
  "catalog_state_record catalog digest now = mk_dict
    [(''schema'', JStr catalog_state_schema), (''current_catalog_sha256'', JStr digest),
     (''sources'', JList (map (\<lambda>v. JObj (mk_dict (map (\<lambda>k. (k, dget (obj_of v) k)) [''source_id'', ''version'', ''semantic_sha256''])))
        (list_of (dget catalog ''sources'')))),
     (''installed_at'', JStr (format_utc now))]"

definition keep_backup :: "path \<Rightarrow> path \<Rightarrow> path \<Rightarrow> string \<Rightarrow> string \<Rightarrow> unit io" where
  "keep_backup output_path state_path backup_dir old_digest old_raw =
    (let backup = join_path backup_dir old_digest; backup_catalog = join_path backup (base_name output_path);
         backup_state = join_path backup (base_name state_path) in
     io_bind (path_exists backup_catalog) (\<lambda>a.
     io_bind (if a then io_ret True else path_exists backup_state) (\<lambda>there.
     if there then
       io_bind (path_is_file backup_catalog) (\<lambda>c.
       io_bind (if c then path_is_file backup_state else io_ret False) (\<lambda>ok.
       io_if (\<not> ok) (IntelligenceError ''existing rollback backup is incomplete'')
       (io_bind (sys_read_bytes backup_catalog) (\<lambda>raw.
        io_if (raw \<noteq> old_raw) (IntelligenceError ''existing rollback backup catalog does not match'') (io_ret ())))))
     else
       io_then (atomic_write_bytes backup_catalog old_raw 384)
       (io_bind (sys_read_bytes state_path) (\<lambda>raw. atomic_write_bytes backup_state raw 384)))))"

definition install_locked ::
    "catalog_env \<Rightarrow> dict \<Rightarrow> string \<Rightarrow> path \<Rightarrow> path \<Rightarrow> path \<Rightarrow> nat \<Rightarrow> bool io" where
  "install_locked env catalog encoded output_path state_path backup_dir now =
    io_bind (read_existing env output_path state_path) (\<lambda>current.
    io_bind (case current of None \<Rightarrow> io_ret False
       | Some (old_raw, old_state) \<Rightarrow>
         io_bind (io_lift (check_catalog_rollback env old_state catalog)) (\<lambda>_.
         let old_digest = str_of (dget old_state ''current_catalog_sha256'') in
         if old_digest = hexdigest encoded then io_ret True
         else io_then (keep_backup output_path state_path backup_dir old_digest old_raw) (io_ret False))) (\<lambda>same.
    if same then io_ret True
    else
      io_then (atomic_write_bytes output_path encoded 384)
      (io_then (atomic_write_json state_path (JObj (catalog_state_record catalog (hexdigest encoded) now)) 384)
      (io_ret False))))"

definition install_catalog ::
    "catalog_env \<Rightarrow> dict \<Rightarrow> path \<Rightarrow> path \<Rightarrow> path \<Rightarrow> nat \<Rightarrow> bool \<Rightarrow> update_result io" where
  "install_catalog env catalog output_path state_path backup_dir now dry_run =
    io_bind (io_lift (catalog_bytes env (JObj catalog))) (\<lambda>encoded.
    let result = (\<lambda>outcome. \<lparr>ur_outcome = outcome, ur_catalog = catalog, ur_sha256 = hexdigest encoded,
          ur_output_path = output_path, ur_state_path = state_path, ur_dry_run = dry_run\<rparr>) in
    io_bind (read_existing env output_path state_path) (\<lambda>current.
    io_bind (case current of None \<Rightarrow> io_ret (if dry_run then ''validated'' else ''installed'')
       | Some (old_raw, old_state) \<Rightarrow>
         io_bind (io_lift (check_catalog_rollback env old_state catalog)) (\<lambda>_.
         io_ret (if dget old_state ''current_catalog_sha256'' = JStr (hexdigest encoded) then ''unchanged'' else ''updated''))) (\<lambda>outcome.
    if dry_run then io_ret (result outcome)
    else
      io_bind (update_lock (state_path @ ''.lock'') (install_locked env catalog encoded output_path state_path backup_dir now)) (\<lambda>same.
      io_ret (result (if same then ''unchanged'' else outcome))))))"

end
