(* ===== verification/Catalog_Proofs.thy ===== *)
theory Catalog_Proofs
  imports Catalog_Install Update_Logic
begin

text \<open>
  What the installation of a catalog guarantees: which successors of a state it accepts, and that a catalog
  it replaces is kept in the backup directory.
\<close>

section \<open>The accepted successors\<close>

text \<open>A source of the state is continued by a catalog: same identifier, no older, and unchanged when not newer.\<close>

definition continued :: "catalog_env \<Rightarrow> (string \<times> dict) list \<Rightarrow> string \<times> dict \<Rightarrow> bool" where
  "continued env new_sources = (\<lambda>(source_id, old).
    case map_of new_sources source_id of
      Some new \<Rightarrow>
        (case (intel_parse_time env (dget old ''version'') (''old '' @ source_id @ '' version''),
               intel_parse_time env (dget new ''version'') (''new '' @ source_id @ '' version'')) of
           (Inr a, Inr b) \<Rightarrow> a < b \<or> (a = b \<and> dget new ''semantic_sha256'' = dget old ''semantic_sha256'')
         | _ \<Rightarrow> False)
    | None \<Rightarrow> False)"

lemma compare_source_Inr:
  assumes "map_of new source_id = Some d"
  shows "compare_source env new (source_id, old) u = Inr v \<longleftrightarrow> continued env new (source_id, old)"
proof -
  define x where "x = dget old ''semantic_sha256''"
  define y where "y = dget d ''semantic_sha256''"
  define a where "a = intel_parse_time env (dget old ''version'') (''old '' @ source_id @ '' version'')"
  define b where "b = intel_parse_time env (dget d ''version'') (''new '' @ source_id @ '' version'')"
  show ?thesis
    unfolding compare_source_def continued_def prod.case assms option.case Let_def x_def [symmetric] y_def [symmetric]
      a_def [symmetric] b_def [symmetric] intel_reject_def
    by (cases a; cases b) auto
qed

lemma compare_sources_Inr:
  "list_all (\<lambda>(k, _). map_of new k \<noteq> None) old \<Longrightarrow>
    rfold (compare_source env new) old () = Inr () \<longleftrightarrow> list_all (continued env new) old"
proof (induction old)
  case (Cons o' old)
  obtain k d where o': "o' = (k, d)" by (cases o')
  with Cons.prems obtain n where "map_of new k = Some n" by auto
  from compare_source_Inr [OF this] Cons o' show ?case by (auto simp: rbind_Inr_iff)
qed simp

text \<open>
  C14: A catalog may follow a recorded state exactly when every source of the state is still there with a
  version that is no older, and with the same semantic digest when the version is the same.
\<close>

theorem catalog_successors:
  "check_catalog_rollback env previous catalog = Inr () \<longleftrightarrow> list_all (continued env (by_source catalog)) (by_source previous)"
proof (cases "set (map fst (by_source previous)) \<subseteq> set (map fst (by_source catalog))")
  case True
  then have "filter (\<lambda>k. k \<notin> set (map fst (by_source catalog))) (remdups (map fst (by_source previous))) = []"
    by (auto simp: filter_empty_conv)
  moreover have "list_all (\<lambda>(k, _). map_of (by_source catalog) k \<noteq> None) (by_source previous)"
    using True by (force simp: list_all_iff map_of_eq_None_iff)
  ultimately show ?thesis by (simp add: check_catalog_rollback_def compare_sources_Inr)
next
  case False
  then obtain k where k0: "k \<in> set (map fst (by_source previous))" "k \<notin> set (map fst (by_source catalog))" by blast
  then obtain d where k: "(k, d) \<in> set (by_source previous)" "k \<notin> fst ` set (by_source catalog)" by auto
  then have "\<not> continued env (by_source catalog) (k, d)" by (simp add: continued_def map_of_eq_None_iff [THEN iffD2])
  then have "\<not> list_all (continued env (by_source catalog)) (by_source previous)" using k by (auto simp: list_all_iff)
  moreover have "sort (filter (\<lambda>k. k \<notin> set (map fst (by_source catalog))) (remdups (map fst (by_source previous)))) \<noteq> []"
    using k0 by (auto simp: filter_empty_conv simp flip: set_empty)
  ultimately show ?thesis by (simp add: check_catalog_rollback_def Let_def)
qed

section \<open>The backup\<close>

lemma absent_read:
  assumes "view f0 p = None"
  shows "triple (\<lambda>f. f = f0) (sys_read_bytes p) (\<lambda>_ _. False) (\<lambda>_ f. f = f0)"
proof -
  have "resolve max_links f0 p = Inl (FileNotFoundError p)"
    using assms by (simp add: max_links_def numeral_eq_Suc view_names)
  then show ?thesis unfolding sys_read_bytes_def by (intro triple_look) auto
qed

lemma published_read:
  assumes "published b f0 p"
  shows "triple (\<lambda>f. f = f0) (sys_read_bytes p) (\<lambda>x f. f = f0 \<and> x = b) (\<lambda>_ f. f = f0)"
  unfolding sys_read_bytes_def
  by (rule triple_look) (use assms in \<open>auto simp: published_def rbind_Inr_iff dest!: resolve_nonlink split: if_splits\<close>)

definition backup_of :: "path \<Rightarrow> path \<Rightarrow> string \<Rightarrow> path" where
  "backup_of backup_dir p raw = join_path (join_path backup_dir (hexdigest raw)) (base_name p)"

lemma backup_kept:
  assumes k: "keeps [(out, raw)] f0" and b: "bc = backup_of dir out raw" "bc \<noteq> []" "bc \<noteq> out"
    and bs: "bs = backup_of dir st raw" "bs \<noteq> []" "bs \<noteq> out" "bs \<noteq> bc"
    and v: "view f0 bc = None \<or> published x f0 bc"
  shows "triple (\<lambda>f. f = f0) (keep_backup out st dir (hexdigest raw) raw)
    (\<lambda>_. keeps [(bc, raw), (out, raw)]) (\<lambda>_. keeps [(out, raw)])"
proof -
  let ?R = "\<lambda>_ :: exn. keeps [(out, raw)]"
  have r: "triple (\<lambda>f. f = f0) (sys_read_bytes bc) (\<lambda>b f. f = f0 \<and> published b f0 bc) (\<lambda>_ f. f = f0)"
    using v
  proof
    assume "view f0 bc = None"
    from absent_read [OF this] show ?thesis by (rule triple_conseq) auto
  next
    assume p: "published x f0 bc"
    from published_read [OF p] show ?thesis by (rule triple_conseq) (use p in auto)
  qed
  have old: "triple (\<lambda>f. f = f0) (io_bind (path_is_file bc) (\<lambda>c.
       io_bind (if c then path_is_file bs else io_ret False) (\<lambda>ok.
       io_if (\<not> ok) (IntelligenceError ''existing rollback backup is incomplete'')
       (io_bind (sys_read_bytes bc) (\<lambda>y.
        io_if (y \<noteq> raw) (IntelligenceError ''existing rollback backup catalog does not match'') (io_ret ()))))))
    (\<lambda>_. keeps [(bc, raw), (out, raw)]) ?R"
  proof (rule triple_bind [where Q = "\<lambda>_ f. f = f0"], goal_cases)
    case 1
    show ?case by (rule triple_conseq [OF looksD [OF looks_is_file, of "\<lambda>f. f = f0"]]) (use k in auto)
  next
    case (2 c)
    show ?case
    proof (rule triple_bind [where Q = "\<lambda>_ f. f = f0"], goal_cases)
      case 1
      have "looks (if c then path_is_file bs else io_ret False)" by (simp add: looks_is_file looks_ret)
      then show ?case by (rule triple_conseq [OF looksD [of _ "\<lambda>f. f = f0"]]) (use k in auto)
    next
      case (2 ok)
      show ?case
        by (cases ok) (use k in \<open>auto simp: io_if_def intro!: triple_bind [OF triple_conseq [OF r, where Q' = "\<lambda>b f. f = f0 \<and> published b f0 bc"]] triple_ret triple_raise\<close>)
    qed
  qed
  have new: "triple (\<lambda>f. f = f0) (io_then (atomic_write_bytes bc raw 384)
       (io_bind (sys_read_bytes st) (\<lambda>y. atomic_write_bytes bs y 384)))
    (\<lambda>_. keeps [(bc, raw), (out, raw)]) ?R"
  proof (rule triple_then [where Q = "keeps [(bc, raw), (out, raw)]"], goal_cases)
    case 1
    show ?case by (rule triple_conseq [OF stable_atomic_write [of bc "[(out, raw)]" raw]]) (use b k in auto)
  next
    case 2
    show ?case
    proof (rule triple_bind [where Q = "\<lambda>_. keeps [(bc, raw), (out, raw)]"], goal_cases)
      case 1
      show ?case by (rule triple_conseq [OF looksD [OF looks_read_bytes, of "keeps [(bc, raw), (out, raw)]"]]) auto
    next
      case (2 y)
      show ?case by (rule triple_conseq [OF stable_atomic_write [of bs "[(bc, raw), (out, raw)]" y]]) (use bs in auto)
    qed
  qed
  show ?thesis
    unfolding keep_backup_def Let_def b(1) [unfolded backup_of_def, symmetric] bs(1) [unfolded backup_of_def, symmetric]
  proof (rule triple_bind [where Q = "\<lambda>_ f. f = f0"], goal_cases)
    case 1
    show ?case by (rule triple_conseq [OF looksD [OF looks_exists, of "\<lambda>f. f = f0"]]) (use k in auto)
  next
    case (2 a)
    show ?case
    proof (rule triple_bind [where Q = "\<lambda>_ f. f = f0"], goal_cases)
      case 1
      have "looks (if a then io_ret True else path_exists bs)" by (simp add: looks_exists looks_ret)
      then show ?case by (rule triple_conseq [OF looksD [of _ "\<lambda>f. f = f0"]]) (use k in auto)
    next
      case (2 there)
      show ?case using old new by (cases there) simp_all
    qed
  qed
qed

lemma existing_digest:
  assumes "check_existing env raw state_raw = Inr st"
  shows "str_of (dget st ''current_catalog_sha256'') = hexdigest raw"
proof -
  define d where "d = dget st ''current_catalog_sha256''"
  from assms have "JStr (hexdigest raw) = d"
    unfolding check_existing_def by (auto simp: rbind_Inr_iff d_def [symmetric] split: if_splits)
  from this [symmetric] show ?thesis by (simp add: d_def)
qed

lemma published_exists:
  assumes "fs_ok f0" and "published b f0 p"
  shows "triple (\<lambda>f. f = f0) (path_exists p) (\<lambda>x f. f = f0 \<and> x) (\<lambda>_ f. f = f0)"
proof -
  obtain d where d: "view f0 p = Some d" "i_kind d = Reg" using assms(2) by (auto simp: published_def)
  then have n: "i_kind d \<noteq> Lnk" by simp
  show ?thesis
    by (rule triple_conseq [OF triple_conj [OF has_exists [OF n, of p] looksD [OF looks_exists, of "\<lambda>f. f = f0"]]])
       (use d assms(1) in \<open>auto simp: has_def\<close>)
qed

lemma existing_read:
  assumes ok: "fs_ok f0" and p: "published raw f0 out"
  shows "triple (\<lambda>f. f = f0) (read_existing env out st)
    (\<lambda>x f. f = f0 \<and> (\<exists>d. x = Some (raw, d) \<and> str_of (dget d ''current_catalog_sha256'') = hexdigest raw)) (\<lambda>_ f. f = f0)"
proof -
  let ?P = "\<lambda>f. f = f0"
  let ?Q = "\<lambda>x f. f = f0 \<and> (\<exists>d. x = Some (raw, d) \<and> str_of (dget d ''current_catalog_sha256'') = hexdigest raw)"
  have both: "triple ?P (io_catch (io_bind (sys_read_bytes out) (\<lambda>raw. io_bind (sys_read_bytes st) (\<lambda>state_raw. io_ret (raw, state_raw))))
       is_os_error (\<lambda>e. io_raise (IntelligenceError (''cannot read current intelligence state: '' @ exn_text e))))
     (\<lambda>x f. f = f0 \<and> fst x = raw) (\<lambda>_. ?P)"
  proof (rule triple_catch [where R' = "\<lambda>_. ?P"])
    show "triple ?P (io_bind (sys_read_bytes out) (\<lambda>raw. io_bind (sys_read_bytes st) (\<lambda>state_raw. io_ret (raw, state_raw))))
       (\<lambda>x f. f = f0 \<and> fst x = raw) (\<lambda>_. ?P)"
      by (rule triple_bind [OF published_read [OF p] triple_assume], rule triple_bind [OF looksD [OF looks_read_bytes] triple_ret]) auto
  qed (auto intro: triple_raise)
  have check: "triple ?P (io_bind (io_lift (check_existing env (fst x) (snd x))) (\<lambda>state. io_ret (Some (fst x, state)))) ?Q (\<lambda>_. ?P)"
    if "fst x = raw" for x
    by (rule triple_lift_bind, assumption, rule triple_ret) (use that existing_digest in auto)
  show ?thesis
    unfolding read_existing_def
  proof (rule triple_bind [OF looksD [OF looks_exists, of ?P]], rule triple_bind [OF looksD [OF looks_exists, of ?P]],
      rule triple_if, simp, rule triple_bind [OF published_exists [OF ok p] triple_assume], goal_cases)
    case (1 a b there)
    have "triple ?P (io_bind (io_catch (io_bind (sys_read_bytes out) (\<lambda>raw. io_bind (sys_read_bytes st) (\<lambda>state_raw. io_ret (raw, state_raw))))
       is_os_error (\<lambda>e. io_raise (IntelligenceError (''cannot read current intelligence state: '' @ exn_text e))))
       (\<lambda>x. io_bind (io_lift (check_existing env (fst x) (snd x))) (\<lambda>state. io_ret (Some (fst x, state))))) ?Q (\<lambda>_. ?P)"
      by (rule triple_bind [OF both triple_assume], rule check)
    then show ?case using 1(2) by (simp add: case_prod_unfold)
  qed
qed

text \<open>
  C15: Whatever system call of an installation fails, the catalog that was there is afterwards still
  the current one or lies, byte for byte, in the backup directory under its digest.
\<close>

theorem replaced_catalog_kept:
  assumes "calm w" and "fs_ok (w_fs w)" and "published raw (w_fs w) output_path"
    and "view (w_fs w) (backup_of backup_dir output_path raw) = None
      \<or> published x (w_fs w) (backup_of backup_dir output_path raw)"
    and "distinct [[], output_path, state_path, backup_of backup_dir output_path raw, backup_of backup_dir state_path raw]"
    and "install_locked env catalog encoded output_path state_path backup_dir now w = (r, w')"
  shows "published raw (w_fs w') output_path \<or> published raw (w_fs w') (backup_of backup_dir output_path raw)"
proof -
  let ?bc = "backup_of backup_dir output_path raw" and ?f = "w_fs w"
  let ?O = "keeps [(output_path, raw)]" and ?B = "keeps [(?bc, raw)]"
  let ?P = "\<lambda>f. ?O f \<or> ?B f"
  have k: "?O ?f" using assms(2,3) by (simp add: keeps_def)
  have s: "stable [(?bc, raw)] (atomic_write_bytes p v m)" if "p = output_path \<or> p = state_path" for p v m
    unfolding stable_def
    by (rule triple_conseq [OF stable_atomic_write [where F = "[(?bc, raw)]"]]) (use assms(5) that in auto)
  have replace: "triple ?B (io_then (atomic_write_bytes output_path encoded 384)
       (io_then (atomic_write_json state_path v 384) (io_ret False))) (\<lambda>_. ?B) (\<lambda>_. ?B)" for v
    by (rule stableD, intro stable_then s stable_looks [OF looks_ret] stable_atomic_json) (use assms(5) in auto)
  have read: "triple (\<lambda>f. f = ?f) (read_existing env output_path state_path)
      (\<lambda>x f. f = ?f \<and> (\<exists>d. x = Some (raw, d) \<and> str_of (dget d ''current_catalog_sha256'') = hexdigest raw)) (\<lambda>_. ?P)"
    by (rule triple_conseq [OF existing_read [OF assms(2,3)]]) (use k in auto)
  have main: "triple (\<lambda>f. f = ?f) (install_locked env catalog encoded output_path state_path backup_dir now) (\<lambda>_. ?P) (\<lambda>_. ?P)"
    unfolding install_locked_def
  proof (rule triple_bind [OF read triple_assume], goal_cases)
    case (1 current)
    then obtain d where d: "current = Some (raw, d)" "str_of (dget d ''current_catalog_sha256'') = hexdigest raw" by blast
    show ?case
      unfolding d(1) option.case prod.case Let_def d(2)
    proof (rule triple_bind [where Q = "\<lambda>same f. if same then ?O f else ?B f"], rule triple_lift_bind, goal_cases)
      case 1
      then show ?case using k by simp
    next
      case (2 u)
      have "triple (\<lambda>f. f = ?f) (io_then (keep_backup output_path state_path backup_dir (hexdigest raw) raw) (io_ret False))
          (\<lambda>same f. if same then ?O f else ?B f) (\<lambda>_. ?P)"
        by (rule triple_then [OF triple_conseq [OF backup_kept [OF k refl _ _ refl _ _ _ assms(4)]] triple_ret]) (use assms(5) in auto)
      then show ?case using k by (auto intro!: triple_ret)
    next
      case (3 same)
      show ?case
        by (cases same) (auto intro: triple_ret triple_conseq [OF replace])
    qed
  qed
  from tripleX [OF main assms(1) refl assms(6)] show ?thesis by (cases r) auto
qed

end
