(* ===== verification/Auto_Update_Examples.thy ===== *)
theory Auto_Update_Examples
  imports Auto_Update_Proofs App_Update_Proofs Catalog_Proofs
begin

text \<open>
  A small catalog, a signed envelope for it and the runs that witness the properties of the advisory
  catalog.  Its digests are those of its own canonical text and stay symbolic.
\<close>

section \<open>A catalog\<close>

definition ex_catalog_env :: catalog_env where
  "ex_catalog_env = \<lparr>ce_nfkc = (\<lambda>_. True), ce_other_time = (\<lambda>_. Some (Inr 0)), ce_whole = (\<lambda>_. None)\<rparr>"

definition ex_when :: string where "ex_when = ''Mon, 01 Jan 0001 00:00:00 GMT''"

definition ex_hash :: string where "ex_hash = replicate 64 CHR ''a''"

definition ex_provenance :: dict where
  "ex_provenance = mk_dict [(''source_body_sha256'', JStr ex_hash), (''source_record_id'', JStr ''r1''), (''parser'', JStr ''p-v1'')]"

definition ex_bare :: dict where
  "ex_bare = mk_dict [(''id'', JStr ''a-1''), (''source_id'', JStr ''apple-security''), (''source_url'', JStr apple_security_url),
     (''record_url'', JStr apple_security_url), (''title'', JStr ''t''), (''summary'', JStr ''s''), (''published_at'', JStr ex_when),
     (''modified_at'', JStr ex_when), (''platforms'', JList [JStr ''macos'']), (''cve_ids'', JList []), (''severity'', JStr ''unknown''),
     (''exploited'', JNull), (''ransomware'', JNull), (''action'', JStr ''do''), (''products'', JList [JStr ''p'']),
     (''provenance'', JObj ex_provenance)]"

definition ex_zba :: dict where
  "ex_zba = mk_dict [(''spec'', JStr zba_intelligence_spec), (''phase'', JStr ''observed''), (''evidence'', JStr ''authoritative-advisory''),
     (''commitment'', JStr (hexdigest (intelligence_domain @ dump Compact 0 (JObj ex_bare))))]"

definition ex_advisory :: dict where "ex_advisory = dput ''zba'' (JObj ex_zba) ex_bare"

definition ex_source :: dict where
  "ex_source = mk_dict [(''source_id'', JStr ''apple-security''), (''authority'', JStr ''abc''), (''url'', JStr apple_security_url),
     (''version'', JStr ex_when), (''body_sha256'', JStr ex_hash),
     (''contribution_sha256'', JStr (hexdigest (dump Compact 0 (JList [JObj ex_advisory])))),
     (''semantic_sha256'', JStr (hexdigest (dump Compact 0 (JList [JObj (semantic_record ex_advisory)])))),
     (''advisory_count'', JInt 1), (''parser'', JStr ''p-v1'')]"

definition ex_policy :: dict where
  "ex_policy = mk_dict [(''data_only'', JBool True), (''remote_commands_allowed'', JBool False), (''auto_remediation_allowed'', JBool False),
     (''detection_rules_derived'', JBool False), (''malware_samples_allowed'', JBool False)]"

definition ex_catalog :: dict where
  "ex_catalog = mk_dict [(''schema'', JStr ''zsec.desktop-intelligence.v1''), (''generated_at'', JStr ex_when), (''policy'', JObj ex_policy),
     (''sources'', JList [JObj ex_source]), (''advisories'', JList [JObj ex_advisory])]"

lemma ex_text:
  assumes "normal_text t = t" and "a \<le> py_len t \<and> py_len t \<le> b" and "\<not> list_ex (\<lambda>c. ord c < 32) t"
  shows "intel_text (JStr t) f a b = Inr t"
  using assms by (simp add: intel_text_def)

lemma ex_when_text: "normal_text ex_when = ex_when" "8 \<le> py_len ex_when \<and> py_len ex_when \<le> 80" "\<not> list_ex (\<lambda>c. ord c < 32) ex_when"
  "\<not> date_only ex_when" "\<not> ends_with ex_when ''Z''" "from_iso ex_when = None"
  by code_simp+

lemma ex_when_time: "intel_parse_time ex_catalog_env (JStr ex_when) f = Inr 0" "intel_time ex_catalog_env (JStr ex_when) f = Inr (format_utc 0)"
  by (simp_all add: intel_time_def intel_parse_time_def ex_text ex_when_text) (simp_all add: ex_catalog_env_def)

lemma ex_url_text: "normal_text apple_security_url = apple_security_url" "12 \<le> py_len apple_security_url \<and> py_len apple_security_url \<le> 1000"
  "\<not> list_ex (\<lambda>c. ord c < 32) apple_security_url"
  by code_simp+

lemma ex_url_split: "urlsplit (\<lambda>_. True) apple_security_url
    = Inr \<lparr>u_scheme = ''https'', u_netloc = ''support.apple.com'', u_path = ''/en-us/100100'', u_query = [], u_fragment = []\<rparr>"
  by code_simp

lemma ex_url_ok: "intel_https_url ex_catalog_env (JStr apple_security_url) f = Inr apple_security_url"
  "source_url_allowed ex_catalog_env ''apple-security'' apple_security_url"
proof -
  have c: "credential_free \<lparr>u_scheme = ''https'', u_netloc = ''support.apple.com'', u_path = ''/en-us/100100'', u_query = [], u_fragment = []\<rparr>"
    by code_simp
  then show "intel_https_url ex_catalog_env (JStr apple_security_url) f = Inr apple_security_url"
    by (simp add: intel_https_url_def ex_text ex_url_text ex_url_split ex_catalog_env_def)
  show "source_url_allowed ex_catalog_env ''apple-security'' apple_security_url" by code_simp
qed

lemma ex_short: "intel_text (JStr ''apple-security'') f 3 64 = Inr ''apple-security''" "intel_text (JStr ''abc'') f 3 200 = Inr ''abc''"
  "intel_text (JStr ''p-v1'') f 3 80 = Inr ''p-v1''" "intel_text (JStr ''r1'') f 1 160 = Inr ''r1''" "intel_text (JStr ''a-1'') f 3 160 = Inr ''a-1''"
  "intel_text (JStr ''t'') f 1 300 = Inr ''t''" "intel_text (JStr ''s'') f 1 700 = Inr ''s''" "intel_text (JStr ''p'') f 1 300 = Inr ''p''"
  "intel_text (JStr ''do'') f 1 500 = Inr ''do''"
  by (rule ex_text; code_simp)+

lemma ex_hash_ok: "intel_digest (JStr ex_hash)" "is_ascii ex_hash"
  by code_simp+

text \<open>The example is ASCII throughout, so its canonical bytes are its canonical text.\<close>

lemma ex_ascii_parts: "is_ascii apple_security_url" "is_ascii ex_when" "is_ascii zba_intelligence_spec"
  by code_simp+

lemma ex_ascii_bare: "ascii_json (JObj ex_provenance)" "ascii_json (JObj ex_bare)"
proof -
  show p: "ascii_json (JObj ex_provenance)"
    unfolding ex_provenance_def by (rule ascii_mk_dict) (simp_all add: ex_hash_ok ord_def)
  show "ascii_json (JObj ex_bare)"
    unfolding ex_bare_def by (rule ascii_mk_dict) (simp_all add: p [unfolded ascii_json.simps] ex_ascii_parts ord_def)
qed

lemma ex_ascii_advisory: "ascii_json (JObj ex_zba)" "ascii_json (JObj ex_advisory)"
proof -
  show z: "ascii_json (JObj ex_zba)"
    unfolding ex_zba_def by (rule ascii_mk_dict) (simp_all add: hexdigest_ascii ex_ascii_parts ord_def)
  have "is_ascii ''zba''" by code_simp
  then show "ascii_json (JObj ex_advisory)"
    unfolding ex_advisory_def by (intro ascii_dput ex_ascii_bare z)
qed

lemma ex_advisory_split: "keys_of ex_advisory = set advisory_keys" "ddel ''zba'' ex_advisory = ex_bare"
  "dget ex_advisory ''zba'' = JObj ex_zba" "k \<noteq> ''zba'' \<Longrightarrow> dget ex_advisory k = dget ex_bare k"
proof -
  have w: "wf_dict ex_bare" by (simp add: ex_bare_def wf_mk_dict)
  have n: "''zba'' \<notin> keys_of ex_bare" by (simp add: ex_bare_def keys_of_mk_dict)
  show "ddel ''zba'' ex_advisory = ex_bare" by (simp add: ex_advisory_def ddel_dput [OF w n])
  show "dget ex_advisory ''zba'' = JObj ex_zba" "k \<noteq> ''zba'' \<Longrightarrow> dget ex_advisory k = dget ex_bare k"
    by (simp_all add: ex_advisory_def dget_dput [OF w])
  have "keys_of ex_advisory = insert ''zba'' (keys_of ex_bare)"
    by (simp add: set_eq_iff keys_of_iff ex_advisory_def map_of_dput [OF w])
  also have "keys_of ex_bare = set (butlast advisory_keys)" by (simp add: ex_bare_def keys_of_mk_dict advisory_keys_def)
  finally have "keys_of ex_advisory = insert (last advisory_keys) (set (butlast advisory_keys))" by (simp add: advisory_keys_def)
  also have "\<dots> = set (butlast advisory_keys @ [last advisory_keys])" by (simp only: set_append list.set Un_insert_right Un_empty_right)
  also have "butlast advisory_keys @ [last advisory_keys] = advisory_keys" by (rule append_butlast_last_id) (simp add: advisory_keys_def)
  finally show "keys_of ex_advisory = set advisory_keys" .
qed

lemma ex_ascii_semantic: "ascii_json (JObj (semantic_record ex_advisory))"
proof -
  have "is_ascii ''provenance''" by code_simp
  moreover have "dget ex_advisory ''provenance'' = JObj ex_provenance"
    by (simp add: ex_advisory_split(4) ex_bare_def dget_mk_dict)
  moreover have "ascii_json (JObj (mk_dict [(''source_record_id'', dget ex_provenance ''source_record_id''), (''parser'', dget ex_provenance ''parser'')]))"
    by (rule ascii_mk_dict) (simp_all add: ex_provenance_def dget_mk_dict ord_def)
  ultimately show ?thesis
    unfolding semantic_record_def Let_def by (auto intro!: ascii_dput ascii_ddel ex_ascii_advisory simp del: ascii_json.simps(7))
qed

lemma ex_digests:
  "advisory_commitment ex_advisory = Inr (hexdigest (intelligence_domain @ dump Compact 0 (JObj ex_bare)))"
  "records_digest [ex_advisory] = Inr (hexdigest (dump Compact 0 (JList [JObj ex_advisory])))"
  "records_digest [semantic_record ex_advisory] = Inr (hexdigest (dump Compact 0 (JList [JObj (semantic_record ex_advisory)])))"
proof -
  have l: "ascii_json (JObj d) \<Longrightarrow> ascii_json (JList [JObj d])" for d by simp
  show "advisory_commitment ex_advisory = Inr (hexdigest (intelligence_domain @ dump Compact 0 (JObj ex_bare)))"
    by (simp add: advisory_commitment_def ex_advisory_split canonical_ascii [OF ex_ascii_bare(2)] del: dump.simps)
  show "records_digest [ex_advisory] = Inr (hexdigest (dump Compact 0 (JList [JObj ex_advisory])))"
    by (simp add: records_digest_def canonical_ascii [OF l [OF ex_ascii_advisory(2)]] del: dump.simps)
  show "records_digest [semantic_record ex_advisory] = Inr (hexdigest (dump Compact 0 (JList [JObj (semantic_record ex_advisory)])))"
    by (simp add: records_digest_def canonical_ascii [OF l [OF ex_ascii_semantic]] del: dump.simps)
qed

lemma ex_source_get: "keys_of ex_source = set source_keys" "dget ex_source ''source_id'' = JStr ''apple-security''"
  "dget ex_source ''authority'' = JStr ''abc''" "dget ex_source ''url'' = JStr apple_security_url" "dget ex_source ''version'' = JStr ex_when"
  "dget ex_source ''body_sha256'' = JStr ex_hash" "dget ex_source ''parser'' = JStr ''p-v1''" "dget ex_source ''advisory_count'' = JInt 1"
  "dget ex_source ''contribution_sha256'' = JStr (hexdigest (dump Compact 0 (JList [JObj ex_advisory])))"
  "dget ex_source ''semantic_sha256'' = JStr (hexdigest (dump Compact 0 (JList [JObj (semantic_record ex_advisory)])))"
  by (simp_all add: ex_source_def dget_mk_dict keys_of_mk_dict source_keys_def del: dump.simps)

lemma ex_advisory_get: "dget ex_advisory ''id'' = JStr ''a-1''" "dget ex_advisory ''source_id'' = JStr ''apple-security''"
  "dget ex_advisory ''source_url'' = JStr apple_security_url" "dget ex_advisory ''record_url'' = JStr apple_security_url"
  "dget ex_advisory ''title'' = JStr ''t''" "dget ex_advisory ''summary'' = JStr ''s''" "dget ex_advisory ''published_at'' = JStr ex_when"
  "dget ex_advisory ''modified_at'' = JStr ex_when" "dget ex_advisory ''platforms'' = JList [JStr ''macos'']"
  "dget ex_advisory ''cve_ids'' = JList []" "dget ex_advisory ''severity'' = JStr ''unknown''" "dget ex_advisory ''exploited'' = JNull"
  "dget ex_advisory ''ransomware'' = JNull" "dget ex_advisory ''action'' = JStr ''do''" "dget ex_advisory ''products'' = JList [JStr ''p'']"
  "dget ex_advisory ''provenance'' = JObj ex_provenance"
  by (simp_all add: ex_advisory_split(4) ex_bare_def dget_mk_dict)

definition ex_source_read :: catalog_source where
  "ex_source_read = \<lparr>cs_id = ''apple-security'', cs_version = format_utc 0, cs_fields = ex_source\<rparr>"

definition ex_advisory_read :: catalog_advisory where
  "ex_advisory_read = \<lparr>ca_id = ''a-1'', ca_source = ''apple-security'', ca_fields = ex_advisory\<rparr>"

lemma digest_hexdigest: "intel_digest (JStr (hexdigest b))"
  by (simp add: intel_digest_def hexdigest_lower)

lemma ex_source_ok: "check_source ex_catalog_env (0, JObj ex_source) [] = Inr [ex_source_read]"
  using ex_hash_ok(1) unfolding check_source_def Let_def prod.case obj_of.simps ex_source_get
  by (simp add: exact_keys_def ex_source_get ex_short ex_url_ok ex_when_time digest_hexdigest ex_source_read_def
      intel_reject_def source_ids_def del: dump.simps)

lemma ex_provenance_ok: "check_provenance (JObj ex_provenance) ex_source_read f = Inr ()"
proof -
  have g: "keys_of ex_provenance = set [''source_body_sha256'', ''source_record_id'', ''parser'']"
    "dget ex_provenance ''source_body_sha256'' = JStr ex_hash" "dget ex_provenance ''source_record_id'' = JStr ''r1''"
    "dget ex_provenance ''parser'' = JStr ''p-v1''"
    by (simp_all add: ex_provenance_def dget_mk_dict keys_of_mk_dict)
  show ?thesis
    unfolding check_provenance_def Let_def obj_of.simps g
    by (simp add: exact_keys_def g ex_short [simplified] ex_hash_ok(1) intel_reject_def ex_source_read_def ex_source_get)
qed

lemma ex_zba_ok: "check_zba_record ex_advisory f = Inr ()"
proof -
  have g: "keys_of ex_zba = set [''spec'', ''phase'', ''evidence'', ''commitment'']" "dget ex_zba ''spec'' = JStr zba_intelligence_spec"
    "dget ex_zba ''phase'' = JStr ''observed''" "dget ex_zba ''evidence'' = JStr ''authoritative-advisory''"
    "dget ex_zba ''commitment'' = JStr (hexdigest (intelligence_domain @ dump Compact 0 (JObj ex_bare)))"
    by (simp_all add: ex_zba_def dget_mk_dict keys_of_mk_dict del: dump.simps)
  show ?thesis
    unfolding check_zba_record_def Let_def ex_advisory_split(3) obj_of.simps g ex_digests
    by (simp add: exact_keys_def g digest_hexdigest intel_reject_def del: dump.simps)
qed

lemma ex_lists_ok: "check_platforms (JList [JStr ''macos'']) f = Inr ()" "check_cves (JList []) f = Inr ()"
  "check_products (JList [JStr ''p'']) f = Inr ()" "in_set (JStr ''unknown'') catalog_severities = Inr True"
  using ex_short [simplified]
  by (simp_all add: check_platforms_def check_cves_def check_products_def canonical_order_def unhashable_def catalog_platforms_def
      in_set_def catalog_severities_def Let_def)

lemma ex_advisory_ok: "check_advisory ex_catalog_env [ex_source_read] (0, JObj ex_advisory) [] = Inr [ex_advisory_read]"
proof -
  have t: "check_times ex_catalog_env ex_advisory f = Inr ()" for f
    by (simp add: check_times_def ex_advisory_get ex_when_time intel_reject_def)
  have "check_advisory_fields ex_catalog_env ex_advisory ex_source_read f = Inr ()" for f
    unfolding check_advisory_fields_def ex_advisory_get rfold.simps
    by (simp add: ex_short [simplified] ex_url_ok t ex_lists_ok ex_provenance_ok ex_zba_ok ex_advisory_get intel_reject_def
        ex_source_read_def [THEN arg_cong [where f = cs_fields]] ex_source_get)
  moreover have "source_of [ex_source_read] ''apple-security'' = Some ex_source_read"
    by (simp add: source_of_def ex_source_read_def)
  ultimately show ?thesis
    unfolding check_advisory_def Let_def prod.case obj_of.simps ex_advisory_get
    by (simp add: exact_keys_def ex_advisory_split(1) ex_short [simplified] intel_reject_def ex_advisory_read_def)
qed

lemma ex_contribution_ok: "check_contribution [ex_advisory_read] ex_source_read () = Inr ()"
proof -
  have c: "contributed [ex_advisory_read] (cs_id ex_source_read) = [ex_advisory]"
    by (simp add: contributed_def ex_advisory_read_def ex_source_read_def)
  show ?thesis
    unfolding check_contribution_def Let_def c
    by (simp add: ex_digests ex_source_read_def [THEN arg_cong [where f = cs_fields]] ex_source_get intel_reject_def del: dump.simps)
qed

lemma ex_catalog_get: "keys_of ex_catalog = set catalog_keys" "dget ex_catalog ''schema'' = JStr ''zsec.desktop-intelligence.v1''"
  "dget ex_catalog ''generated_at'' = JStr ex_when" "dget ex_catalog ''policy'' = JObj ex_policy"
  "dget ex_catalog ''sources'' = JList [JObj ex_source]" "dget ex_catalog ''advisories'' = JList [JObj ex_advisory]"
  by (simp_all add: ex_catalog_def dget_mk_dict keys_of_mk_dict catalog_keys_def)

lemma ex_policy_ok: "data_only env ex_policy"
  by (simp add: data_only_def data_only_policy_def ex_policy_def keys_of_mk_dict dget_mk_dict flag_equals_def)

lemma ex_catalog_ok: "validate_catalog ex_catalog_env (JObj ex_catalog) = Inr ()"
proof -
  have g: "latest_version [ex_source_read] = format_utc 0"
    by (simp add: latest_version_def ex_source_read_def max_def)
  show ?thesis
    unfolding validate_catalog_def Let_def obj_of.simps ex_catalog_get list_of.simps
    by (simp add: exact_keys_def ex_catalog_get ex_when_time ex_policy_ok g ex_source_ok ex_advisory_ok ex_contribution_ok
        enumerate0_def intel_reject_def source_ids_def max_advisories_def)
qed

lemma catalog_bound_witness:
  "\<exists>c sources advisories. JObj ex_catalog = JObj c \<and> data_only ex_catalog_env (obj_of (dget c ''policy''))
    \<and> dget c ''sources'' = JList (map (JObj \<circ> cs_fields) sources) \<and> sources \<noteq> [] \<and> distinct (map cs_id sources)
    \<and> dget c ''advisories'' = JList (map (JObj \<circ> ca_fields) advisories) \<and> distinct (map ca_id advisories)
    \<and> length advisories \<le> max_advisories
    \<and> list_all (listed ex_catalog_env) sources \<and> list_all (committed sources) advisories \<and> list_all (contributes advisories) sources"
  by (rule catalog_bound [OF ex_catalog_ok])

section \<open>An envelope\<close>

definition ex_catalog_payload :: dict where
  "ex_catalog_payload = mk_dict [(''schema'', JStr ''zsec.intelligence.payload.v1''), (''sequence'', JInt 3),
     (''generated_at'', JStr (format_utc 0)), (''expires_at'', JStr (format_utc (days 7))),
     (''catalog_sha256'', JStr (hexdigest (dump Compact 0 (JObj ex_catalog) @ [CHR 0x0A]))), (''catalog'', JObj ex_catalog),
     (''policy'', JObj ex_policy)]"

definition ex_catalog_envelope :: dict where
  "ex_catalog_envelope = mk_dict [(''schema'', JStr ''zsec.signed-envelope.v1''), (''algorithm'', JStr ''ed25519''),
     (''key_id'', JStr ''k01''), (''payload'', JObj ex_catalog_payload), (''signature'', JStr (b64encode (replicate 64 CHR ''s'')))]"

lemma ex_ascii_catalog: "ascii_json (JObj ex_policy)" "ascii_json (JObj ex_catalog)" "ascii_json (JObj ex_catalog_payload)"
proof -
  show p: "ascii_json (JObj ex_policy)" unfolding ex_policy_def by (rule ascii_mk_dict) (simp_all add: ord_def)
  have s: "ascii_json (JObj ex_source)"
    unfolding ex_source_def by (rule ascii_mk_dict) (simp_all add: hexdigest_ascii ex_ascii_parts ex_hash_ok ord_def del: dump.simps)
  show c: "ascii_json (JObj ex_catalog)"
    unfolding ex_catalog_def
    by (rule ascii_mk_dict) (simp_all add: p [unfolded ascii_json.simps] s [unfolded ascii_json.simps]
        ex_ascii_advisory(2) [unfolded ascii_json.simps] ex_ascii_parts ord_def)
  show "ascii_json (JObj ex_catalog_payload)"
    unfolding ex_catalog_payload_def
    by (rule ascii_mk_dict) (simp_all add: p [unfolded ascii_json.simps] c [unfolded ascii_json.simps] hexdigest_ascii
        format_utc_ascii days_def usec_def max_time_def max_day_def usec_day_def ord_def del: dump.simps)
qed

lemma ex_catalog_window: "check_intelligence_window zone ex_catalog_payload 0 = Inr ()"
proof -
  have g: "dget ex_catalog_payload ''generated_at'' = JStr (format_utc 0)" "dget ex_catalog_payload ''expires_at'' = JStr (format_utc (days 7))"
    by (simp_all add: ex_catalog_payload_def dget_mk_dict del: dump.simps)
  have t: "0 < max_time" "days 7 < max_time" "days 7 mod usec = 0" "\<not> days 14 < days 7" "0 < days 7"
    by (simp_all add: days_def usec_def usec_day_def max_time_def max_day_def)
  show ?thesis unfolding check_intelligence_window_def g by (simp add: update_time_format [OF t(1)] update_time_format [OF t(2)] t)
qed

lemma ex_catalog_payload_ok: "check_intelligence_payload ex_catalog_env zone ex_catalog_payload 0 = Inr ()"
proof -
  have g: "keys_of ex_catalog_payload = set intelligence_payload_keys" "dget ex_catalog_payload ''schema'' = JStr ''zsec.intelligence.payload.v1''"
    "dget ex_catalog_payload ''sequence'' = JInt 3" "dget ex_catalog_payload ''policy'' = JObj ex_policy"
    "dget ex_catalog_payload ''catalog'' = JObj ex_catalog"
    "dget ex_catalog_payload ''catalog_sha256'' = JStr (hexdigest (dump Compact 0 (JObj ex_catalog) @ [CHR 0x0A]))"
    by (simp_all add: ex_catalog_payload_def dget_mk_dict keys_of_mk_dict intelligence_payload_keys_def del: dump.simps)
  have "check_payload_catalog ex_catalog_env ex_catalog_payload = Inr ()"
    unfolding check_payload_catalog_def Let_def g
    by (simp add: ex_catalog_ok canonical_ascii [OF ex_ascii_catalog(2)] del: dump.simps)
  then show ?thesis
    unfolding check_intelligence_payload_def g by (simp add: ex_policy_ok valid_sequence_def ex_catalog_window)
qed

lemma ex_envelope_accepted:
  "check_intelligence_envelope (\<lambda>_ _ _. True) ex_catalog_env Inr ex_catalog_envelope ex_ring 0 = Inr ex_catalog_payload"
proof -
  define k where "k = the (map_of ex_ring ''k01'')"
  have p: "dget ex_catalog_envelope ''payload'' = JObj ex_catalog_payload"
    and s: "dget ex_catalog_envelope ''signature'' = JStr (b64encode (replicate 64 CHR ''s''))"
    by (simp_all add: ex_catalog_envelope_def dget_mk_dict)
  have "update_key ''intelligence'' ex_ring (dget ex_catalog_envelope ''key_id'') 0 = Inr k"
    unfolding update_key_Inr by (simp add: k_def ex_catalog_envelope_def dget_mk_dict ex_ring_def valid_at_def)
  moreover have "decode_update_signature (JStr (b64encode (replicate 64 CHR ''s''))) = Inr (replicate 64 CHR ''s'')"
    by code_simp
  ultimately show ?thesis
    by (simp add: check_intelligence_envelope_def p s update_signed_def canonical_ascii [OF ex_ascii_catalog(3)] ex_catalog_payload_ok
        del: dump.simps)
qed

lemma intelligence_authentic_witness:
  "\<exists>id k n g e b. dget ex_catalog_envelope ''key_id'' = JStr id \<and> map_of ex_ring id = Some k \<and> valid_at k 0
    \<and> dget ex_catalog_envelope ''payload'' = JObj ex_catalog_payload
    \<and> signed_by (\<lambda>_ _ _. True) k (dget ex_catalog_envelope ''signature'') (JObj ex_catalog_payload)
    \<and> dget ex_catalog_payload ''sequence'' = JInt n \<and> 1 \<le> n \<and> data_only ex_catalog_env (obj_of (dget ex_catalog_payload ''policy''))
    \<and> update_time Inr (dget ex_catalog_payload ''generated_at'') ''generated_at'' = Inr g
    \<and> update_time Inr (dget ex_catalog_payload ''expires_at'') ''expires_at'' = Inr e \<and> g \<le> 0 + minutes 5 \<and> 0 < e \<and> e - g \<le> days 14
    \<and> validate_catalog ex_catalog_env (dget ex_catalog_payload ''catalog'') = Inr ()
    \<and> canonical_json_bytes (dget ex_catalog_payload ''catalog'') = Inr b
    \<and> dget ex_catalog_payload ''catalog_sha256'' = JStr (hexdigest (b @ [CHR 0x0A]))"
  by (rule intelligence_authentic [OF ex_envelope_accepted])

section \<open>Runs\<close>

definition ex_catalog_record :: dict where
  "ex_catalog_record = mk_dict
    [(''schema'', JStr ''zsec.intelligence.client-state.v1''), (''max_sequence'', JInt 3), (''catalog_sha256'', JStr ex_hash),
     (''key_id'', JStr ''k01''), (''installed_at'', JStr (format_utc 0))]"

definition ex_catalog_text :: string where
  "ex_catalog_text = dump Indented 0 (JObj ex_catalog_record) @ [CHR 0x0A]"

lemma ex_catalog_parses: "parse_intelligence_state ex_catalog_text = Inr ex_catalog_record"
proof -
  let ?r = "JObj ex_catalog_record"
  have g: "keys_of ex_catalog_record = set intelligence_state_keys" "dget ex_catalog_record ''schema'' = JStr ''zsec.intelligence.client-state.v1''"
    "dget ex_catalog_record ''max_sequence'' = JInt 3"
    by (simp_all add: ex_catalog_record_def dget_mk_dict keys_of_mk_dict intelligence_state_keys_def)
  have z: "0 < max_time" by (simp add: max_time_def max_day_def usec_day_def)
  have "length (dec_nat 3) = 1" by code_simp
  then have d3: "length (dec_nat 3) \<le> 4300" by simp
  have a: "ascii_json ?r" unfolding ex_catalog_record_def
    by (rule ascii_mk_dict) (simp_all add: format_utc_ascii z ex_hash_ok ord_def)
  have "wf_json ?r" unfolding ex_catalog_record_def by (rule wf_json_mk_dict) (simp_all add: d3)
  from strict_indented [OF this indented_ascii [OF a]] have "strict_json_loads ex_catalog_text = Inr ?r"
    by (simp only: ex_catalog_text_def)
  then show ?thesis by (simp add: parse_intelligence_state_def check_intelligence_state_def g)
qed

abbreviation ex_catalog_run where
  "ex_catalog_run \<equiv> run_automatic_update (\<lambda>_ _ _. True) ex_catalog_env ex_exchange ex_app_input ''/d'' ''/k'' ''https://s''"

definition ex_catalog_world :: world where
  "ex_catalog_world = empty_world\<lparr>w_fs := \<lparr>f_names = (\<lambda>_. None)(intelligence_state_path ''/d'' \<mapsto> 0),
       f_inodes = (\<lambda>_. file_inode ex_catalog_text), f_next = 1\<rparr>\<rparr>"

lemma intelligence_never_rolls_back_witness:
  "record_floor parse_intelligence_state (intelligence_state_path ''/d'') 3 (w_fs (snd (ex_catalog_run ex_catalog_world)))"
proof -
  have "record_floor parse_intelligence_state (intelligence_state_path ''/d'') 3 (w_fs ex_catalog_world)"
    by (rule floor_published [where parse = parse_intelligence_state, OF _ _ ex_catalog_parses])
       (simp_all add: fs_ok_def published_def view_def file_inode_def ex_catalog_world_def ex_catalog_record_def dget_mk_dict)
  moreover have "calm ex_catalog_world" by (simp add: calm_def empty_world_def ex_catalog_world_def)
  ultimately show ?thesis
    using intelligence_never_rolls_back [OF _ _ surjective_pairing] by blast
qed

lemma intelligence_data_only_witness:
  "published ''f'' (w_fs (snd (ex_catalog_run (empty_world\<lparr>w_fs := \<lparr>f_names = (\<lambda>_. None)(''/x'' \<mapsto> 0),
       f_inodes = (\<lambda>_. file_inode ''f''), f_next = 1\<rparr>\<rparr>)))) ''/x''"
  by (rule intelligence_data_only [OF _ _ _ _ surjective_pairing])
     (simp_all add: calm_def empty_world_def fs_ok_def published_def view_def file_inode_def intelligence_files_def
      intelligence_document_path_def intelligence_envelope_path_def intelligence_last_known_good_path_def
      intelligence_state_path_def automatic_update_status_path_def join_path_def)

text \<open>A catalog that an installation replaces.\<close>

definition ex_kept_world :: world where
  "ex_kept_world = empty_world\<lparr>w_fs := \<lparr>f_names = (\<lambda>_. None)(''/o'' \<mapsto> 0), f_inodes = (\<lambda>_. file_inode ''raw''), f_next = 1\<rparr>\<rparr>"

lemma replaced_catalog_kept_witness:
  "published ''raw'' (w_fs (snd (install_locked ex_catalog_env ex_catalog ''new'' ''/o'' ''/s'' ''/b'' 0 ex_kept_world))) ''/o''
   \<or> published ''raw'' (w_fs (snd (install_locked ex_catalog_env ex_catalog ''new'' ''/o'' ''/s'' ''/b'' 0 ex_kept_world))) (backup_of ''/b'' ''/o'' ''raw'')"
proof (rule replaced_catalog_kept [OF _ _ _ _ _ surjective_pairing])
  have b: "base_name ''/o'' = ''o''" "base_name ''/s'' = ''s''" by code_simp+
  show d: "distinct [[], ''/o'', ''/s'', backup_of ''/b'' ''/o'' ''raw'', backup_of ''/b'' ''/s'' ''raw'']"
    by (simp add: backup_of_def join_path_def b)
  then show "view (w_fs ex_kept_world) (backup_of ''/b'' ''/o'' ''raw'') = None
      \<or> published [] (w_fs ex_kept_world) (backup_of ''/b'' ''/o'' ''raw'')"
    by (auto simp: view_def ex_kept_world_def)
qed (simp_all add: ex_kept_world_def calm_def empty_world_def fs_ok_def published_def view_def file_inode_def)

end
