(* ===== verification/Contracts.thy ===== *)
theory Contracts
  imports Feed Quarantine_Restore
begin

text \<open>
  The validators of \<^verbatim>\<open>apps/windows-ui/zsec_desktop/contracts.py\<close>: what the desktop accepts from the
  command line program before it shows anything.  A document is what \<^verbatim>\<open>json.loads\<close> gives, so the keys
  of an object are texts.  An exception that is no \<^verbatim>\<open>ContractError\<close>, such as the \<^verbatim>\<open>TypeError\<close> of a set
  test on a list, is \<open>Escaped\<close>.
\<close>

section \<open>Results\<close>

datatype contract_exn = ContractError string | Escaped exn

type_synonym 'a checked = "contract_exn + 'a"

definition reject :: "bool \<Rightarrow> string \<Rightarrow> unit checked" where
  "reject b message = (if b then Inl (ContractError message) else Inr ())"

text \<open>Steps one after the other; a step looks only at what the steps before it have let through.\<close>

fun steps :: "unit checked list \<Rightarrow> unit checked" where
  "steps [] = Inr ()"
| "steps (m # ms) = rbind m (\<lambda>_. steps ms)"

lemma steps_iff [simp]:
  "steps [] = Inr u" "steps (m # ms) = Inr u \<longleftrightarrow> m = Inr () \<and> steps ms = Inr ()"
  by (auto simp: rbind_Inr_iff)

lemma steps_map [simp]: "steps (map f xs) = Inr u \<longleftrightarrow> (\<forall>x \<in> set xs. f x = Inr ())"
  by (induction xs) (auto simp: rbind_Inr_iff)

declare steps.simps [simp del]

lemma reject_Inr [simp]: "reject b m = Inr u \<longleftrightarrow> \<not> b"
  by (simp add: reject_def)

text \<open>What the code takes from the Python runtime beyond the model of texts: case folding and lower case
  of all of Unicode, \<^verbatim>\<open>str\<close> of a value that is no text, and the whole number a float literal is equal to.\<close>

record runtime =
  rt_fold :: "string \<Rightarrow> string"
  rt_lower :: "string \<Rightarrow> string"
  rt_show :: "json \<Rightarrow> string"
  rt_whole :: "string \<Rightarrow> int option"

definition equals_int :: "runtime \<Rightarrow> json \<Rightarrow> int \<Rightarrow> bool" where
  "equals_int rt v n = (case v of JFloat t \<Rightarrow> rt_whole rt t = Some n | JInt i \<Rightarrow> i = n | JBool b \<Rightarrow> int_of v = n | _ \<Rightarrow> False)"

section \<open>Fields\<close>

definition c_object :: "json \<Rightarrow> string \<Rightarrow> unit checked" where
  "c_object v field = reject (\<not> is_obj v) (field @ '' must be an object'')"

definition c_list :: "json \<Rightarrow> string \<Rightarrow> unit checked" where
  "c_list v field = reject (\<not> is_list v) (field @ '' must be an array'')"

definition bounded_text :: "json \<Rightarrow> nat \<Rightarrow> bool" where
  "bounded_text v maximum = (is_str v \<and> str_of v \<noteq> [] \<and> py_len (str_of v) \<le> maximum)"

definition c_string :: "json \<Rightarrow> string \<Rightarrow> nat \<Rightarrow> unit checked" where
  "c_string v field maximum = reject (\<not> bounded_text v maximum) (field @ '' must be a non-empty bounded string'')"

definition c_optional_string :: "json \<Rightarrow> string \<Rightarrow> nat \<Rightarrow> unit checked" where
  "c_optional_string v field maximum = (if v = JNull then Inr () else c_string v field maximum)"

definition c_optional_time :: "json \<Rightarrow> string \<Rightarrow> unit checked" where
  "c_optional_time v field =
    rbind (c_optional_string v field 80) (\<lambda>_.
    if v = JNull then Inr ()
    else steps [reject (\<not> ends_with (str_of v) ''Z'') (field @ '' must be a UTC timestamp''),
      reject (from_iso (butlast (str_of v) @ ''+00:00'') = None) (field @ '' must be a UTC timestamp'')])"

definition c_bool :: "json \<Rightarrow> string \<Rightarrow> unit checked" where
  "c_bool v field = reject (\<not> is_bool v) (field @ '' must be a boolean'')"

definition c_integer :: "json \<Rightarrow> string \<Rightarrow> int \<Rightarrow> unit checked" where
  "c_integer v field minimum =
    reject (\<not> is_int_nb v \<or> int_of v < minimum) (field @ '' must be an integer >= '' @ dec_int minimum)"

definition c_schema :: "json \<Rightarrow> string \<Rightarrow> unit checked" where
  "c_schema v expected =
    steps [c_object v ''payload'', reject (dget (obj_of v) ''schema'' \<noteq> JStr expected) (''unsupported schema; expected '' @ expected)]"

text \<open>A boolean that must have the value \<open>b\<close>, and the test \<^verbatim>\<open>x in {...}\<close> of texts.\<close>

definition c_flag :: "bool \<Rightarrow> json \<Rightarrow> string \<Rightarrow> string \<Rightarrow> unit checked" where
  "c_flag b v field message = steps [c_bool v field, reject (v \<noteq> JBool b) message]"

definition c_among :: "json \<Rightarrow> string list \<Rightarrow> string \<Rightarrow> unit checked" where
  "c_among v xs message =
    (if unhashable v then Inl (Escaped (OtherError ''unhashable type'')) else reject (v \<notin> JStr ` set xs) message)"

definition c_is :: "json \<Rightarrow> string \<Rightarrow> string \<Rightarrow> unit checked" where
  "c_is v expected message = reject (v \<noteq> JStr expected) message"

lemmas field_defs = c_object_def c_list_def c_string_def c_bool_def c_integer_def c_flag_def c_is_def c_schema_def

lemma is_bool_iff: "is_bool v \<longleftrightarrow> (\<exists>b. v = JBool b)"
  by (cases v) auto

lemma is_str_iff: "is_str v \<longleftrightarrow> (\<exists>s. v = JStr s)"
  by (cases v) auto

lemma is_obj_iff: "is_obj v \<longleftrightarrow> (\<exists>d. v = JObj d)"
  by (cases v) auto

lemma is_list_iff: "is_list v \<longleftrightarrow> (\<exists>xs. v = JList xs)"
  by (cases v) auto

lemma field_Inr [simp]:
  "c_object v f = Inr u \<longleftrightarrow> is_obj v" "c_list v f = Inr u \<longleftrightarrow> is_list v"
  "c_string v f n = Inr u \<longleftrightarrow> bounded_text v n" "c_bool v f = Inr u \<longleftrightarrow> is_bool v"
  "c_integer v f k = Inr u \<longleftrightarrow> is_int_nb v \<and> k \<le> int_of v"
  "c_flag b v f m = Inr u \<longleftrightarrow> v = JBool b" "c_is v s m = Inr u \<longleftrightarrow> v = JStr s"
  "c_optional_string v f n = Inr u \<longleftrightarrow> v = JNull \<or> bounded_text v n"
  "c_among v xs m = Inr u \<longleftrightarrow> (\<exists>s \<in> set xs. v = JStr s)"
  "c_schema v s = Inr u \<longleftrightarrow> (\<exists>d. v = JObj d \<and> dget d ''schema'' = JStr s)"
  by (cases v; auto simp: field_defs c_optional_string_def c_among_def unhashable_def bounded_text_def)+

definition element :: "string \<Rightarrow> nat \<Rightarrow> string \<Rightarrow> string" where
  "element field i rest = field @ ''['' @ dec_nat i @ '']'' @ rest"

section \<open>The status\<close>

definition check_worker :: "json \<Rightarrow> unit checked" where
  "check_worker v =
    (let g = dget (obj_of v) in steps
      [c_object v ''content_worker'',
       c_is (g ''mode'') ''bounded_out_of_process_rules_and_review_providers'' ''status content_worker mode is unsupported'',
       c_flag False (g ''path_disclosure'') ''content_worker.path_disclosure'' ''content worker unexpectedly receives a source path'',
       c_flag True (g ''broker_digest_verification'') ''content_worker.broker_digest_verification''
         ''content worker must retain broker digest verification'',
       c_flag False (g ''reduced_privilege'') ''content_worker.reduced_privilege'' ''this build cannot assert a reduced-privilege worker'',
       c_flag False (g ''hostile_format_parser_gate_met'') ''content_worker.hostile_format_parser_gate_met''
         ''this build cannot assert the hostile-parser gate''])"

definition known_outcomes :: "string list" where
  "known_outcomes = [''no_configured_rule_matches'', ''configured_rule_matches_detected'', ''review_observations'', ''incomplete'']"

definition outcome_counters :: "json \<Rightarrow> int \<Rightarrow> int \<Rightarrow> int \<Rightarrow> unit checked" where
  "outcome_counters outcome findings observations errors = steps
    [reject (outcome = JStr ''no_configured_rule_matches'' \<and> (findings \<noteq> 0 \<or> observations \<noteq> 0 \<or> errors \<noteq> 0))
       ''no-match outcome has inconsistent counters'',
     reject (outcome = JStr ''configured_rule_matches_detected'' \<and> findings = 0) ''finding outcome has a zero finding counter'',
     reject (outcome = JStr ''review_observations'' \<and> (observations = 0 \<or> findings \<noteq> 0 \<or> errors \<noteq> 0))
       ''review-observation outcome has inconsistent counters'']"

definition check_scan_state :: "dict \<Rightarrow> unit checked" where
  "check_scan_state root =
    (let g = dget root; diagnostic = dget (obj_of (g ''last_scan_diagnostic'')) in steps
      [c_integer (g ''findings'') ''findings'' 0, c_integer (g ''observations'') ''observations'' 0,
       c_integer (g ''last_scan_errors'') ''last_scan_errors'' 0, c_object (g ''last_scan_diagnostic'') ''last_scan_diagnostic'',
       c_bool (diagnostic ''available'') ''last_scan_diagnostic.available'',
       c_optional_string (diagnostic ''error'') ''last_scan_diagnostic.error'' 1000,
       if g ''last_scan'' = JNull then Inr () else c_string (g ''last_scan'') ''last_scan'' 80,
       if g ''last_scan_outcome'' = JNull then Inr () else c_among (g ''last_scan_outcome'') known_outcomes ''last_scan_outcome is unknown'',
       reject (diagnostic ''available'' \<noteq> JBool (g ''last_scan'' \<noteq> JNull)) ''last-scan availability and timestamp are inconsistent'',
       outcome_counters (g ''last_scan_outcome'') (int_of (g ''findings'')) (int_of (g ''observations'')) (int_of (g ''last_scan_errors'')),
       reject (diagnostic ''error'' \<noteq> JNull \<and> diagnostic ''available'' = JBool True)
         ''validated last-scan state cannot also have a diagnostic error''])"

definition check_update_status :: "json \<Rightarrow> unit checked" where
  "check_update_status v =
    (let g = dget (obj_of v) in
     if v = JNull then Inr () else steps
      [c_object v ''update_status'',
       c_among (g ''state'') [''never_checked'', ''current'', ''updated'', ''error''] ''update_status.state is unknown'',
       steps (map (\<lambda>field. c_optional_time (g field) (''update_status.'' @ field)) [''last_checked_at'', ''last_success_at'', ''feed_expires_at'']),
       c_optional_string (g ''error'') ''update_status.error'' 500,
       c_optional_time (g ''next_check_at'') ''update_status.next_check_at'',
       c_string (g ''source'') ''update_status.source'' 2048,
       c_is (g ''source'') ''https://talktoai.org/zsec/intelligence/v1/feed.json'' ''automatic advisory update source is not release-owned'',
       if g ''feed_sequence'' = JNull then Inr () else c_integer (g ''feed_sequence'') ''update_status.feed_sequence'' 0,
       reject (g ''feed_sequence'' \<noteq> JNull \<and> int_of (g ''feed_sequence'') < 1) ''update_status.feed_sequence is invalid''])"

definition validate_status :: "runtime \<Rightarrow> json \<Rightarrow> dict checked" where
  "validate_status rt payload =
    (let root = obj_of payload; g = dget root; quarantine = dget (obj_of (g ''quarantine'')) in
     rbind (steps
      [c_schema payload ''zsec.shield.status.v2'',
       reject (\<not> equals_int rt (g ''contract_version'') 2) ''unsupported status contract_version'',
       c_string (g ''version'') ''version'' 80, c_string (g ''generated_at'') ''generated_at'' 80,
       c_string (g ''platform'') ''platform'' 80,
       c_is (g ''scanner_mode'') ''on-demand'' ''status scanner_mode is inconsistent with this desktop build'',
       check_worker (g ''content_worker''),
       c_flag False (g ''real_time_protection'') ''real_time_protection'' ''desktop status unexpectedly asserts real-time protection'',
       check_scan_state root,
       c_object (g ''feed'') ''feed'',
       c_among (dget (obj_of (g ''feed'')) ''state'') [''absent'', ''valid'', ''invalid''] ''feed.state is unknown'',
       check_update_status (g ''update_status''),
       c_integer (g ''quarantine_count'') ''quarantine_count'' 0,
       c_object (g ''quarantine'') ''quarantine'',
       c_integer (quarantine ''entries'') ''quarantine.entries'' 0,
       reject (quarantine ''entries'' \<noteq> g ''quarantine_count'') ''quarantine counters are inconsistent'',
       c_list (quarantine ''metadata_errors'') ''quarantine.metadata_errors''])
     (\<lambda>_. Inr root))"

end
