(* ===== verification/Contract_Reports.thy ===== *)
theory Contract_Reports
  imports Contracts
begin

text \<open>
  The validators of \<^verbatim>\<open>apps/windows-ui/zsec_desktop/contracts.py\<close> for the reports of single commands:
  readiness, recovery drill, quarantine list, scan, feed update, Windows action and watch events.
\<close>

section \<open>Readiness\<close>

definition check_gate :: "nat \<times> json \<Rightarrow> string list \<Rightarrow> string list checked" where
  "check_gate = (\<lambda>(i, v) seen.
    (let g = dget (obj_of v); id = str_of (g ''id'') in
     rbind (steps
      [c_object v (element ''blocking_gates'' i []), c_string (g ''id'') (element ''blocking_gates'' i ''.id'') 100,
       reject (id \<in> set seen) ''replacement blocker identifiers must be unique'',
       c_string (g ''title'') (element ''blocking_gates'' i ''.title'') 200,
       c_is (g ''state'') ''not_met'' ''a replacement blocker unexpectedly claims to be met'',
       c_string (g ''evidence_required'') (element ''blocking_gates'' i ''.evidence_required'') 2000])
     (\<lambda>_. Inr (seen @ [id]))))"

definition c_count :: "json \<Rightarrow> string \<Rightarrow> nat \<Rightarrow> string \<Rightarrow> unit checked" where
  "c_count v field n message = steps [c_integer v field 0, reject (v \<noteq> JInt (int n)) message]"

lemma c_count_Inr [simp]: "c_count v f n m = Inr u \<longleftrightarrow> v = JInt (int n)"
  by (cases v) (auto simp: c_count_def)

definition validate_readiness :: "json \<Rightarrow> dict checked" where
  "validate_readiness payload =
    (let root = obj_of payload; g = dget root; blockers = list_of (g ''blocking_gates''); counts = dget (obj_of (g ''gate_counts''));
         message = ''replacement gate counters are inconsistent'' in
     rbind (steps
      [c_schema payload ''zero.security.replacement-readiness.v1'',
       c_is (g ''decision'') ''keep_existing_protection'' ''this desktop build only supports the blocking readiness decision'',
       c_flag False (g ''eligible_for_primary_replacement'') ''eligible_for_primary_replacement''
         ''desktop build cannot assert primary-replacement eligibility'',
       c_flag True (g ''existing_provider_must_remain_active'') ''existing_provider_must_remain_active''
         ''desktop build must require the existing provider'',
       c_flag False (g ''automatic_uninstall_available'') ''automatic_uninstall_available''
         ''desktop build cannot expose automatic antivirus uninstall'',
       c_flag False (g ''manual_override_available'') ''manual_override_available'' ''desktop build cannot expose a replacement override'',
       c_list (g ''blocking_gates'') ''blocking_gates''])
     (\<lambda>_. rbind (rfold check_gate (enumerate0 blockers) [])
     (\<lambda>_. rbind (steps
      [c_object (g ''gate_counts'') ''gate_counts'',
       c_count (counts ''met'') ''gate_counts.met'' 0 message,
       c_count (counts ''not_met'') ''gate_counts.not_met'' (length blockers) message,
       c_count (counts ''total'') ''gate_counts.total'' (length blockers) message])
     (\<lambda>_. Inr root))))"

section \<open>The recovery drill\<close>

definition drill_check_ids :: "string list" where
  "drill_check_ids = [''encrypted_authenticated_copy'', ''authenticated_restore'', ''no_overwrite_restore'',
     ''ciphertext_tamper_rejected'', ''device_key_loss_and_recovery'']"

definition check_drill :: "nat \<times> json \<Rightarrow> string list \<times> nat \<Rightarrow> (string list \<times> nat) checked" where
  "check_drill = (\<lambda>(i, v) (seen, passed).
    (let g = dget (obj_of v); id = str_of (g ''id'') in
     rbind (steps
      [c_object v (element ''checks'' i []), c_string (g ''id'') (element ''checks'' i ''.id'') 100,
       reject (id \<in> set seen) ''recovery drill check identifiers must be unique'',
       c_bool (g ''passed'') (element ''checks'' i ''.passed''),
       if g ''passed'' = JBool True then reject (g ''error'' \<noteq> JNull) ''passing recovery drill check cannot contain an error''
       else c_string (g ''error'') (element ''checks'' i ''.error'') 2000])
     (\<lambda>_. Inr (seen @ [id], if g ''passed'' = JBool True then Suc passed else passed))))"

definition validate_recovery_drill :: "json \<Rightarrow> dict checked" where
  "validate_recovery_drill payload =
    (let root = obj_of payload; g = dget root; checks = list_of (g ''checks''); n = length checks; summary = dget (obj_of (g ''summary''));
         message = ''recovery drill summary is inconsistent'' in
     rbind (steps
      [c_schema payload ''zsec.antivirus.recovery-drill.v1'',
       c_is (g ''product'') ''ZSEC Antivirus'' ''recovery drill product identity is invalid'',
       c_string (g ''started_at'') ''started_at'' 80, c_string (g ''completed_at'') ''completed_at'' 80,
       c_is (g ''scope'') ''isolated synthetic data only'' ''recovery drill scope is not isolated synthetic data'',
       c_flag False (g ''independent_certification'') ''independent_certification''
         ''local recovery drill cannot assert independent certification'',
       c_bool (g ''passed'') ''passed'', c_list (g ''checks'') ''checks'',
       reject (checks = [] \<or> 32 < n) ''recovery drill check count is invalid''])
     (\<lambda>_. rbind (rfold check_drill (enumerate0 checks) ([], 0))
     (\<lambda>(seen, passed). rbind (steps
      [reject (set seen \<noteq> set drill_check_ids) ''recovery drill does not contain the exact v1 control set'',
       c_object (g ''summary'') ''summary'',
       c_count (summary ''passed'') ''summary.passed'' passed message,
       c_count (summary ''failed'') ''summary.failed'' (n - passed) message,
       c_count (summary ''total'') ''summary.total'' n message,
       reject (g ''passed'' \<noteq> JBool (n - passed = 0)) message])
     (\<lambda>_. Inr root))))"

section \<open>The quarantine list\<close>

definition lower_hex_digit :: "char \<Rightarrow> bool" where
  "lower_hex_digit c = (48 \<le> ord c \<and> ord c \<le> 57 \<or> 97 \<le> ord c \<and> ord c \<le> 102)"

definition c_digest :: "json \<Rightarrow> string \<Rightarrow> string \<Rightarrow> unit checked" where
  "c_digest v field message = steps [c_string v field 64,
     reject (py_len (str_of v) \<noteq> 64 \<or> \<not> list_all lower_hex_digit (str_of v)) message]"

definition canonical_uuid :: "string \<Rightarrow> bool" where
  "canonical_uuid s = (case uuid_of_text s of None \<Rightarrow> False | Some n \<Rightarrow> uuid_str n = lower s)"

definition check_entry :: "nat \<times> json \<Rightarrow> string list \<Rightarrow> string list checked" where
  "check_entry = (\<lambda>(i, v) seen.
    (let g = dget (obj_of v); id = str_of (g ''id'') in
     rbind (steps
      [c_object v (element ''entries'' i []), c_string (g ''id'') (element ''entries'' i ''.id'') 40,
       reject (\<not> canonical_uuid id) (element ''entries'' i ''.id is not a canonical UUID''),
       reject (id \<in> set seen) ''duplicate quarantine entry identifier'',
       c_among (g ''state'') [''quarantined'', ''copy_only'', ''restored''] (element ''entries'' i ''.state is unknown''),
       c_string (g ''original_path'') (element ''entries'' i ''.original_path'') 32768,
       c_digest (g ''sha256'') (element ''entries'' i ''.sha256'') (element ''entries'' i ''.sha256 is invalid'')])
     (\<lambda>_. Inr (seen @ [id]))))"

definition validate_quarantine_list :: "json \<Rightarrow> dict checked" where
  "validate_quarantine_list payload =
    (let root = obj_of payload; g = dget root in
     rbind (steps
      [c_schema payload ''zsec.shield.quarantine-list.v1'', c_list (g ''entries'') ''entries'', c_list (g ''errors'') ''errors''])
     (\<lambda>_. rbind (rfold check_entry (enumerate0 (list_of (g ''entries''))) [])
     (\<lambda>_. Inr root)))"

section \<open>The scan report\<close>

definition check_observation :: "nat \<times> json \<Rightarrow> unit checked" where
  "check_observation = (\<lambda>(i, v).
    (let g = dget (obj_of v); f = element ''scan.observations'' i in steps
      [c_object v (f []), c_string (g ''path'') (f ''.path'') 32768, c_string (g ''provider'') (f ''.provider'') 40,
       c_string (g ''category'') (f ''.category'') 80,
       c_among (g ''severity'') [''info'', ''low'', ''medium'', ''high'', ''critical''] (f ''.severity is invalid''),
       c_string (g ''summary'') (f ''.summary'') 300, c_object (g ''evidence'') (f ''.evidence''),
       c_flag False (g ''quarantine_eligible'') (f ''.quarantine_eligible'') ''review-only observation cannot authorize quarantine'']))"

definition validate_scan_report :: "json \<Rightarrow> dict checked" where
  "validate_scan_report payload =
    (let root = obj_of payload; g = dget root; policy = obj_of (g ''policy''); scan = dget (obj_of (g ''scan'')) in
     rbind (steps
      [c_schema payload ''zsec.shield.report.v1'', c_among (g ''outcome'') known_outcomes ''scan outcome is unknown'',
       c_object (g ''policy'') ''policy'',
       c_flag False (dget policy ''real_time_protection'') ''policy.real_time_protection''
         ''on-demand report unexpectedly asserts real-time protection'',
       if dhas policy ''heuristic_observations_quarantine_eligible'' then
         c_flag False (dget policy ''heuristic_observations_quarantine_eligible'') ''policy.heuristic_observations_quarantine_eligible''
           ''review providers unexpectedly authorize quarantine''
       else Inr (),
       c_object (g ''scan'') ''scan'', c_list (scan ''findings'') ''scan.findings'',
       c_list (scan ''observations'') ''scan.observations'',
       steps (map check_observation (enumerate0 (list_of (scan ''observations'')))),
       c_list (scan ''issues'') ''scan.issues'', c_object (scan ''stats'') ''scan.stats'',
       c_list (g ''quarantine'') ''quarantine''])
     (\<lambda>_. Inr root))"

section \<open>The feed update\<close>

definition validate_feed_update :: "json \<Rightarrow> dict checked" where
  "validate_feed_update payload =
    (let root = obj_of payload; g = dget root in
     rbind (steps
      [c_schema payload ''zsec.shield.update-result.v1'',
       c_among (g ''outcome'') [''installed'', ''unchanged''] ''feed update outcome is unknown'',
       c_integer (g ''sequence'') ''sequence'' 1, c_integer (g ''rules_count'') ''rules_count'' 0,
       c_digest (g ''payload_sha256'') ''payload_sha256'' ''feed payload digest is invalid'',
       c_is (g ''policy'') ''signed data-only rules; no command fields are accepted'' ''feed update policy is inconsistent''])
     (\<lambda>_. Inr root))"

section \<open>An action of Windows protection\<close>

definition check_action_evidence :: "json \<Rightarrow> unit checked" where
  "check_action_evidence v =
    (let e = dget (obj_of v) in steps
      [c_object v ''evidence'', c_is (e ''source'') ''Get-MpComputerStatus'' ''Windows protection evidence uses an unsupported source'',
       steps (map (\<lambda>f. c_bool (e f) (''evidence.'' @ f)) [''antivirus_enabled'', ''real_time_protection_enabled'', ''service_enabled'',
         ''behavior_monitor_enabled'', ''ioav_protection_enabled'', ''on_access_protection_enabled'']),
       if e ''signatures_out_of_date'' = JNull then Inr () else c_bool (e ''signatures_out_of_date'') ''evidence.signatures_out_of_date'',
       steps (map (\<lambda>f. c_optional_string (e f) (''evidence.'' @ f) 160)
         [''signature_version'', ''signature_last_updated'', ''quick_scan_end'', ''full_scan_end''])])"

definition validate_windows_protection_action :: "json \<Rightarrow> dict checked" where
  "validate_windows_protection_action payload =
    (let root = obj_of payload; g = dget root in
     rbind (steps
      [c_schema payload ''zsec.antivirus.windows-protection-action.v1'',
       c_is (g ''product'') ''ZSEC Antivirus'' ''Windows protection action has an unexpected product'',
       c_is (g ''provider'') ''Microsoft Defender Antivirus'' ''Windows protection action has an unexpected provider'',
       c_among (g ''action'') [''UpdateSignatures'', ''QuickScan'', ''FullScan''] ''Windows protection action is unsupported'',
       c_string (g ''started_at'') ''started_at'' 80, c_string (g ''completed_at'') ''completed_at'' 80,
       steps (map (\<lambda>f. c_flag False (g f) f (''Windows protection action unexpectedly asserts '' @ f))
         [''provider_configuration_changed'', ''exclusions_changed'', ''security_center_registration_changed'', ''existing_provider_removed'']),
       c_among (g ''outcome'') [''completed'', ''failed''] ''Windows protection action outcome is unknown'',
       c_optional_string (g ''error'') ''error'' 1000,
       if g ''outcome'' = JStr ''failed'' then
         reject (g ''error'' = JNull \<or> g ''evidence'' \<noteq> JNull) ''failed Windows protection action has contradictory evidence''
       else steps [reject (g ''error'' \<noteq> JNull) ''completed Windows protection action unexpectedly has an error'',
         check_action_evidence (g ''evidence'')]])
     (\<lambda>_. Inr root))"

section \<open>A record of the watch session\<close>

definition check_inventory :: "dict \<Rightarrow> unit checked" where
  "check_inventory root =
    (let g = dget root; scan = dget (obj_of (g ''scan'')); stats = dget (obj_of (scan ''stats'')) in steps
      [c_among (g ''outcome'') [''metadata_inventory_complete'', ''incomplete''] ''watch metadata inventory outcome is unsupported'',
       c_object (g ''scan'') ''scan'',
       steps (map (\<lambda>f. c_list (scan f) (''scan.'' @ f)) [''findings'', ''observations'', ''issues'']),
       c_object (scan ''stats'') ''scan.stats'', c_integer (stats ''files_hashed'') ''scan.stats.files_hashed'' 0,
       c_integer (stats ''errors'') ''scan.stats.errors'' 0,
       reject (stats ''files_hashed'' \<noteq> JInt 0 \<or> scan ''findings'' \<noteq> JList [] \<or> scan ''observations'' \<noteq> JList [])
         ''metadata inventory unexpectedly claims content inspection'',
       reject (g ''outcome'' = JStr ''metadata_inventory_complete'' \<and> (stats ''errors'' \<noteq> JInt 0 \<or> scan ''issues'' \<noteq> JList []))
         ''metadata inventory completion has inconsistent issues'',
       c_list (g ''quarantine'') ''quarantine'',
       reject (g ''quarantine'' \<noteq> JList []) ''metadata inventory cannot authorize quarantine''])"

definition check_superseded :: "dict \<Rightarrow> unit checked" where
  "check_superseded root =
    (let g = dget root; triggers = list_of (g ''triggers''); paths = list_of (g ''sample_paths'') in steps
      [c_list (g ''triggers'') ''triggers'',
       reject (32 < length triggers) ''superseded event trigger count exceeds its bound'',
       steps (map (\<lambda>t. c_string t ''trigger'' 80) triggers),
       if g ''event'' = JStr ''event_superseded'' then steps
         [c_string (g ''path'') ''path'' 32768,
          c_among (g ''reason'') [''path_vanished_before_scan'', ''path_vanished_during_scan''] ''superseded event reason is unsupported'']
       else steps
         [c_integer (g ''count'') ''count'' 2, c_integer (g ''sample_paths_omitted'') ''sample_paths_omitted'' 0,
          c_list (g ''sample_paths'') ''sample_paths'',
          reject (paths = [] \<or> 8 < length paths \<or> int_of (g ''count'') \<noteq> int (length paths) + int_of (g ''sample_paths_omitted''))
            ''superseded event sample counters are inconsistent'',
          steps (map (\<lambda>p. c_string p ''sample path'' 32768) paths),
          c_is (g ''reason'') ''paths_vanished_during_scan'' ''superseded events reason is unsupported'']])"

definition check_heartbeat :: "dict \<Rightarrow> unit checked" where
  "check_heartbeat root =
    (let g = dget root in steps
      [c_among (g ''backend_active'') [''native'', ''polling''] ''watch heartbeat backend is unsupported'',
       c_bool (g ''operational_incomplete'') ''operational_incomplete'',
       if dhas root ''inventory_complete'' then steps
         [c_bool (g ''inventory_complete'') ''inventory_complete'',
          reject (g ''inventory_complete'' = JBool True \<and> g ''operational_incomplete'' = JBool True)
            ''inventory recovery heartbeat reports incomplete operation'']
       else Inr ()])"

definition known_events :: "string list" where
  "known_events = [''session_started'', ''backend_fallback'', ''scan_completed'', ''reconciliation_completed'',
     ''metadata_inventory_completed'', ''event_superseded'', ''events_superseded'', ''health_issue'', ''health_heartbeat'',
     ''session_completed'']"

definition validate_watch_event :: "json \<Rightarrow> dict checked" where
  "validate_watch_event payload =
    (let root = obj_of payload; g = dget root; policy = dget (obj_of (g ''policy'')) in
     rbind (steps
      [c_schema payload ''zsec.shield.watch-event.v1'', c_among (g ''event'') known_events ''watch event is unknown'',
       c_string (g ''session_id'') ''session_id'' 80, c_integer (g ''sequence'') ''sequence'' 1,
       c_string (g ''generated_at'') ''generated_at'' 80,
       reject (\<not> ends_with (str_of (g ''generated_at'')) ''Z'' \<or> CHR ''T'' \<notin> set (str_of (g ''generated_at'')))
         ''watch event generated_at must be a UTC timestamp'',
       if g ''event'' = JStr ''metadata_inventory_completed'' then check_inventory root else Inr (),
       if g ''event'' \<in> {JStr ''event_superseded'', JStr ''events_superseded''} then check_superseded root else Inr (),
       if g ''event'' = JStr ''health_heartbeat'' then check_heartbeat root else Inr (),
       if g ''policy'' = JNull then Inr () else steps
         [c_object (g ''policy'') ''policy'',
          c_flag False (policy ''real_time_protection'') ''policy.real_time_protection''
            ''watch event unexpectedly asserts real-time protection'',
          c_flag False (policy ''pre_access_enforcement'') ''policy.pre_access_enforcement''
            ''watch event unexpectedly asserts pre-access enforcement'']])
     (\<lambda>_. Inr root))"

end
