(* ===== verification/Contract_Companion.thy ===== *)
theory Contract_Companion
  imports Contracts
begin

text \<open>
  \<^verbatim>\<open>validate_companion_status\<close> of \<^verbatim>\<open>apps/windows-ui/zsec_desktop/contracts.py\<close>: the evidence about the
  primary antivirus, Defender and the post-change companion.
\<close>

section \<open>The primary protection\<close>

definition companion_decisions :: "string list" where
  "companion_decisions = [''not_installed'', ''baseline_in_progress'', ''metadata_inventory_in_progress'', ''degraded'', ''healthy_companion'']"

definition check_companion_head :: "json \<Rightarrow> unit checked" where
  "check_companion_head payload =
    (let g = dget (obj_of payload); reasons = list_of (g ''reasons'') in steps
      [c_schema payload ''zsec.antivirus.windows-companion-status.v1'',
       steps (map (\<lambda>f. c_flag False (g f) f (''companion unexpectedly asserts '' @ f))
         [''primary_antivirus'', ''real_time_protection'', ''pre_access_enforcement'']),
       c_flag True (g ''existing_protection_must_remain_active'') ''existing_protection_must_remain_active''
         ''companion must preserve existing protection'',
       c_flag False (g ''primary_provider_uninstall_allowed'') ''primary_provider_uninstall_allowed''
         ''companion cannot authorize provider uninstall'',
       c_flag False (g ''cutover_allowed'') ''cutover_allowed'' ''companion cannot authorize cutover'',
       c_bool (g ''installed'') ''installed'', c_bool (g ''healthy'') ''healthy'',
       c_among (g ''decision'') companion_decisions ''companion decision is unknown'',
       c_list (g ''reasons'') ''reasons'',
       reject (32 < length reasons) ''companion reasons exceed their bound'',
       steps (map (\<lambda>(i, r). c_string r (element ''reasons'' i []) 500) (enumerate0 reasons))])"

definition check_registration ::
    "runtime \<Rightarrow> nat \<times> json \<Rightarrow> (string \<times> string) list \<Rightarrow> (string \<times> string) list checked" where
  "check_registration rt = (\<lambda>(i, v) seen.
    (let g = dget (obj_of v); f = element ''registered_products'' i;
         identity = (rt_fold rt (str_of (g ''display_name'')), rt_fold rt (str_of (g ''instance_guid''))) in
     rbind (steps
      [c_object v (f []), c_string (g ''display_name'') (f ''.display_name'') 256,
       c_string (g ''instance_guid'') (f ''.instance_guid'') 128,
       c_integer (g ''product_state_raw'') (f ''.product_state_raw'') 0,
       c_flag False (g ''product_state_interpreted'') (f ''.product_state_interpreted'')
         ''raw SecurityCenter2 productState cannot be interpreted'',
       reject (identity \<in> set seen) ''registered antivirus inventory contains a duplicate''])
     (\<lambda>_. Inr (seen @ [identity]))))"

definition expected_services :: "string list" where
  "expected_services = [''WinDefend'', ''WdNisSvc'', ''MDCoreSvc'', ''wscsvc'', ''SecurityHealthService'']"

definition check_service :: "nat \<times> json \<Rightarrow> string list \<Rightarrow> string list checked" where
  "check_service = (\<lambda>(i, v) seen.
    (let g = dget (obj_of v); f = element ''security_services'' i; name = str_of (g ''name'') in
     rbind (steps
      [c_object v (f []), c_string (g ''name'') (f ''.name'') 80,
       reject (name \<notin> set expected_services \<or> name \<in> set seen) ''Windows security service inventory is inconsistent'',
       c_bool (g ''available'') (f ''.available''), c_string (g ''status'') (f ''.status'') 80])
     (\<lambda>_. Inr (seen @ [name]))))"

definition check_primary :: "runtime \<Rightarrow> json \<Rightarrow> unit checked" where
  "check_primary rt v =
    (let e = dget (obj_of v); p = (\<lambda>f. ''existing_primary_protection.'' @ f) in
     rbind (steps
      [c_object v ''existing_primary_protection'',
       c_is (e ''method'') ''WscGetSecurityProviderHealth(WSC_SECURITY_PROVIDER_ANTIVIRUS)''
         ''existing protection uses an unsupported health source'',
       c_bool (e ''aggregate_good'') (p ''aggregate_good''),
       c_among (e ''aggregate_health'') [''GOOD'', ''NOTMONITORED'', ''POOR'', ''SNOOZE'', ''UNKNOWN'']
         ''Windows Security Center aggregate health is unknown'',
       c_list (e ''registered_products'') (p ''registered_products''),
       reject (64 < length (list_of (e ''registered_products''))) ''registered antivirus inventory exceeds its bound''])
     (\<lambda>_. rbind (rfold (check_registration rt) (enumerate0 (list_of (e ''registered_products''))) [])
     (\<lambda>_. rbind (steps
      [c_bool (e ''registration_inventory_complete'') (p ''registration_inventory_complete''),
       c_optional_string (e ''registration_inventory_error'') (p ''registration_inventory_error'') 1000,
       c_list (e ''security_services'') (p ''security_services'')])
     (\<lambda>_. rbind (rfold check_service (enumerate0 (list_of (e ''security_services''))) [])
     (\<lambda>names. reject (set names \<noteq> set expected_services) ''Windows security service inventory is incomplete'')))))"

section \<open>Defender\<close>

definition check_network_protection :: "json \<Rightarrow> unit checked" where
  "check_network_protection v =
    (let n = dget (obj_of v) in steps
      [c_object v ''defender.network_protection'',
       c_among (n ''state'') [''active'', ''audit'', ''disabled'', ''unavailable''] ''Defender Network Protection state is unknown'',
       if n ''raw_value'' = JNull then Inr () else steps
         [c_integer (n ''raw_value'') ''defender.network_protection.raw_value'' 0,
          reject (int_of (n ''raw_value'') \<notin> {0, 1, 2}) ''Defender Network Protection raw value is unsupported''],
       c_is (n ''source'') ''Get-MpPreference.EnableNetworkProtection''
         ''Defender Network Protection evidence uses an unsupported source'',
       c_string (n ''note'') ''defender.network_protection.note'' 500])"

definition defender_features :: "string list" where
  "defender_features = [''antivirus_enabled'', ''real_time_protection_enabled'', ''antispyware_enabled'', ''service_enabled'',
     ''behavior_monitor_enabled'', ''ioav_protection_enabled'', ''on_access_protection_enabled'', ''network_inspection_enabled'',
     ''reboot_required'']"

definition all_true :: "dict \<Rightarrow> string list \<Rightarrow> bool" where
  "all_true d fs = list_all (\<lambda>f. dget d f = JBool True) fs"

definition check_defender_state :: "json \<Rightarrow> unit checked" where
  "check_defender_state v =
    (let d = obj_of v; g = dget d; confirmed = g ''confirmed_active'' = JBool True in steps
      [c_object v ''existing_primary_protection.defender'',
       c_is (g ''source'') ''Get-MpComputerStatus'' ''Defender evidence uses an unsupported source'',
       c_bool (g ''available'') ''defender.available'',
       steps (map (\<lambda>f. if g f = JNull then Inr () else c_bool (g f) (''defender.'' @ f)) defender_features),
       c_among (g ''tamper_protection'') [''enabled'', ''disabled'', ''unknown''] ''Defender tamper-protection state is unknown'',
       check_network_protection (g ''network_protection''),
       c_bool (g ''confirmed_active'') ''defender.confirmed_active'',
       c_bool (g ''baseline_features_confirmed'') ''defender.baseline_features_confirmed'',
       c_bool (g ''signatures_current'') ''defender.signatures_current'',
       c_bool (g ''update_recommended'') ''defender.update_recommended'',
       reject (confirmed \<and> g ''available'' \<noteq> JBool True) ''Defender active state contradicts provider availability'',
       reject (confirmed \<noteq> all_true d [''antivirus_enabled'', ''real_time_protection_enabled'', ''service_enabled''])
         ''Defender active state contradicts its feature evidence'',
       reject ((g ''baseline_features_confirmed'' = JBool True) \<noteq> (confirmed \<and> all_true d
           [''behavior_monitor_enabled'', ''ioav_protection_enabled'', ''on_access_protection_enabled'', ''network_inspection_enabled'']))
         ''Defender baseline state contradicts its feature evidence''])"

definition check_signatures :: "dict \<Rightarrow> unit checked" where
  "check_signatures d =
    (let s = dget (obj_of (dget d ''signatures'')); out = s ''defender_reports_out_of_date'';
         present = s ''antivirus_version'' \<noteq> JNull \<and> s ''antivirus_last_updated'' \<noteq> JNull in steps
      [c_object (dget d ''signatures'') ''defender.signatures'',
       steps (map (\<lambda>f. c_optional_string (s f) (''defender.signatures.'' @ f) 160)
         [''engine_version'', ''product_version'', ''antivirus_version'', ''antivirus_last_updated'']),
       if s ''antivirus_age_days'' = JNull then Inr () else c_integer (s ''antivirus_age_days'') ''defender.signatures.antivirus_age_days'' 0,
       if out = JNull then Inr () else steps
         [c_bool out ''defender.signatures.defender_reports_out_of_date'',
          reject (dget d ''signatures_current'' \<noteq> JBool (out \<noteq> JBool True \<and> present)
              \<or> dget d ''update_recommended'' \<noteq> JBool (out = JBool True \<or> \<not> present))
            ''Defender signature summary contradicts provider evidence'']])"

definition check_scans :: "dict \<Rightarrow> unit checked" where
  "check_scans d =
    (let s = dget (obj_of (dget d ''scans'')) in steps
      [c_object (dget d ''scans'') ''defender.scans'',
       steps (map (\<lambda>f. if s f = JNull then Inr () else c_integer (s f) (''defender.scans.'' @ f) 0)
         [''quick_scan_age_days'', ''full_scan_age_days'']),
       steps (map (\<lambda>f. c_optional_string (s f) (''defender.scans.'' @ f) 160) [''quick_scan_end'', ''full_scan_end'']),
       c_string (dget d ''note'') ''defender.note'' 1000])"

section \<open>The decision\<close>

definition check_supervisor :: "string \<Rightarrow> json \<Rightarrow> unit checked" where
  "check_supervisor who v =
    (let s = dget (obj_of v) in steps
      [c_object v ''supervisor'',
       c_flag True (s ''registration_verified'') ''supervisor.registration_verified''
         (who @ '' companion supervisor registration is unverified''),
       c_among (s ''state'') [''registered_for_logon'', ''registered_and_running''] (who @ '' companion supervisor state is unsupported'')])"

definition check_verified :: "string \<Rightarrow> string \<Rightarrow> json \<Rightarrow> string list \<Rightarrow> unit checked" where
  "check_verified who label v fs = steps
    [c_object v label,
     steps (map (\<lambda>f. c_flag True (dget (obj_of v) f) (label @ ''.'' @ f) (who @ '' companion lacks '' @ f)) fs)]"

definition hash_fields :: "string list" where
  "hash_fields = [''cli_hash_verified'', ''runtime_hash_verified'', ''launcher_hash_verified'']"

definition health_fields :: "string list" where
  "health_fields = [''schema_valid'', ''fresh'', ''process_verified'']"

definition check_initializing :: "dict \<Rightarrow> bool \<Rightarrow> unit checked" where
  "check_initializing root metadata =
    (let g = dget root; health = dget (obj_of (g ''health'')); last = health ''last_record'' in steps
      [reject (g ''reasons'' \<noteq> JList [JStr (if metadata then ''initial protected-folder metadata inventory is in progress''
           else ''initial protected-folder baseline is in progress'')]) ''initializing companion reason is inconsistent'',
       check_supervisor ''initializing'' (g ''supervisor''),
       check_verified ''initializing'' ''integrity'' (g ''integrity'') hash_fields,
       check_verified ''initializing'' ''health'' (g ''health'') health_fields,
       c_object last ''health.last_record'',
       c_is (dget (obj_of last) ''operational_state'') (if metadata then ''inventorying_metadata'' else ''baselining'')
         ''initializing companion health state is inconsistent''])"

definition check_decision :: "dict \<Rightarrow> unit checked" where
  "check_decision root =
    (let g = dget root; installed = g ''installed'' = JBool True; healthy = g ''healthy'' = JBool True;
         good = dget (obj_of (g ''existing_primary_protection'')) ''aggregate_good'' = JBool True; decision = g ''decision'' in
     if decision = JStr ''not_installed'' then
       reject (installed \<or> healthy) ''not_installed companion decision contradicts installed/healthy state''
     else if decision = JStr ''degraded'' then reject healthy ''degraded companion decision contradicts healthy state''
     else if decision \<in> {JStr ''baseline_in_progress'', JStr ''metadata_inventory_in_progress''} then steps
       [reject (\<not> installed \<or> healthy \<or> \<not> good) ''initializing companion decision contradicts protection evidence'',
        check_initializing root (decision = JStr ''metadata_inventory_in_progress'')]
     else steps
       [reject (\<not> installed \<or> \<not> healthy \<or> \<not> good) ''healthy companion decision lacks required protection evidence'',
        check_supervisor ''healthy'' (g ''supervisor''),
        check_verified ''healthy'' ''integrity'' (g ''integrity'') hash_fields,
        check_verified ''healthy'' ''health'' (g ''health'') health_fields])"

definition validate_companion_status :: "runtime \<Rightarrow> json \<Rightarrow> dict checked" where
  "validate_companion_status rt payload =
    (let root = obj_of payload; existing = dget root ''existing_primary_protection''; defender = dget (obj_of existing) ''defender'' in
     rbind (steps
      [check_companion_head payload, check_primary rt existing, check_defender_state defender,
       check_signatures (obj_of defender), check_scans (obj_of defender), check_decision root])
     (\<lambda>_. Inr root))"

end
