(* ===== verification/Contract_Views.thy ===== *)
theory Contract_Views
  imports Contract_Companion
begin

text \<open>
  What the desktop shows for a validated document: the presentations of
  \<^verbatim>\<open>apps/windows-ui/zsec_desktop/contracts.py\<close>.  A subscript of a missing key raises \<^verbatim>\<open>KeyError\<close>; a
  subscript of a value that is no object is outside what the validators let through, and is an error here.
\<close>

section \<open>Python values\<close>

definition at :: "json \<Rightarrow> string \<Rightarrow> json checked" where
  "at v k =
    (case v of
       JObj d \<Rightarrow> (if dhas d k then Inr (dget d k) else Inl (Escaped (OtherError ''KeyError'')))
     | _ \<Rightarrow> Inl (Escaped (OtherError ''TypeError'')))"

definition py_str :: "runtime \<Rightarrow> json \<Rightarrow> string" where
  "py_str rt v = (case v of JStr s \<Rightarrow> s | JInt n \<Rightarrow> dec_int n | JNull \<Rightarrow> ''None'' | _ \<Rightarrow> rt_show rt v)"

definition truthy :: "runtime \<Rightarrow> json \<Rightarrow> bool" where
  "truthy rt v =
    (case v of JNull \<Rightarrow> False | JBool b \<Rightarrow> b | JInt n \<Rightarrow> n \<noteq> 0 | JFloat t \<Rightarrow> rt_whole rt t \<noteq> Some 0
     | JStr s \<Rightarrow> s \<noteq> [] | JList xs \<Rightarrow> xs \<noteq> [] | JObj d \<Rightarrow> d \<noteq> [])"

definition shown_or :: "runtime \<Rightarrow> json \<Rightarrow> string \<Rightarrow> string" where
  "shown_or rt v fallback = (if truthy rt v then py_str rt v else fallback)"

text \<open>\<^verbatim>\<open>s.strip()\<close>, and \<^verbatim>\<open>s.replace("Z", t)\<close>.\<close>

function skip_space :: "string \<Rightarrow> string" where
  "skip_space s = (if 0 < space_length s then skip_space (drop (space_length s) s) else s)"
  by pat_completeness auto
termination
proof (relation "measure length", simp, goal_cases)
  case (1 s)
  then show ?case by (cases s) (auto simp: space_length_def)
qed

declare skip_space.simps [simp del]

text \<open>Where the trailing white space begins: the shortest prefix after which only white space follows.\<close>

definition py_strip :: "string \<Rightarrow> string" where
  "py_strip s =
    (let t = skip_space s;
         ends = filter (\<lambda>n. skip_space (drop n t) = []) [0..<Suc (length t)]
     in take (hd ends) t)"

definition replace_char :: "char \<Rightarrow> string \<Rightarrow> string \<Rightarrow> string" where
  "replace_char c t s = concat (map (\<lambda>x. if x = c then t else [x]) s)"

record presentation =
  pr_state :: string
  pr_headline :: string
  pr_detail :: string
  pr_accent :: string

definition present :: "string \<Rightarrow> string \<Rightarrow> string \<Rightarrow> string \<Rightarrow> presentation" where
  "present state headline detail accent = \<lparr>pr_state = state, pr_headline = headline, pr_detail = detail, pr_accent = accent\<rparr>"

text \<open>The middle dot.\<close>

definition dot :: string where "dot = [CHR '' '', CHR 0xC2, CHR 0xB7, CHR '' '']"

section \<open>The last scan\<close>

definition status_presentation :: "runtime \<Rightarrow> dict \<Rightarrow> presentation checked" where
  "status_presentation rt status =
    rbind (at (JObj status) ''last_scan_diagnostic'') (\<lambda>diagnostic.
    rbind (at (JObj status) ''last_scan_outcome'') (\<lambda>outcome.
    rbind (at diagnostic ''error'') (\<lambda>error.
    if error \<noteq> JNull then Inr (present ''unavailable'' ''Scan evidence unavailable'' (py_str rt error) ''#ef4444'')
    else
    rbind (at diagnostic ''available'') (\<lambda>available.
    rbind (if truthy rt available then at (JObj status) ''last_scan'' else Inr JNull) (\<lambda>last_scan.
    if \<not> truthy rt available \<or> last_scan = JNull then
      Inr (present ''not_run'' ''No completed scan'' ''Run an on-demand scan to create local evidence.'' ''#f59e0b'')
    else if outcome = JStr ''incomplete'' then
      rbind (at (JObj status) ''last_scan_errors'') (\<lambda>n.
      Inr (present ''incomplete'' ''Last scan incomplete'' (py_str rt n @ '' issue(s) prevented a complete result.'') ''#ef4444''))
    else if outcome = JStr ''configured_rule_matches_detected'' then
      rbind (at (JObj status) ''findings'') (\<lambda>n.
      Inr (present ''matches'' ''Configured rules matched'' (py_str rt n @ '' file finding(s) require review.'') ''#ef4444''))
    else if outcome = JStr ''review_observations'' then
      rbind (at (JObj status) ''observations'') (\<lambda>n.
      Inr (present ''review'' ''No malware rule matches'' (py_str rt n @
        '' item(s) are available for review. These conservative observations are not malware detections, and nothing was quarantined.'')
        ''#26d9d1''))
    else if outcome = JStr ''no_configured_rule_matches'' then
      Inr (present ''no_matches'' ''No configured rule matches'' ''This completed scan is not proof that the computer is clean.''
        ''#22c55e'')
    else Inr (present ''unknown'' ''Scan state unavailable'' ''The last-scan outcome is unavailable.'' ''#f59e0b''))))))"

section \<open>The advisory update\<close>

text \<open>
  A state that is no text cannot equal one of the known words, whatever \<^verbatim>\<open>str\<close> makes of it.  A moment
  near the end of the calendar overflows when two hours are added.
\<close>

definition update_state :: "runtime \<Rightarrow> json \<Rightarrow> string" where
  "update_state rt v = (case v of JStr s \<Rightarrow> if s = [] then ''unknown'' else rt_lower rt (py_strip s) | _ \<Rightarrow> ''unknown'')"

definition failed_view :: "runtime \<Rightarrow> json \<Rightarrow> json \<Rightarrow> presentation" where
  "failed_view rt last_success error =
    (if truthy rt last_success then
       present ''degraded_retained'' (''Advisory check failed'' @ dot @ ''prior catalog retained'')
         (''Last valid advisory update: '' @ py_str rt last_success @ ''. Last error: '' @ shown_or rt error ''not reported'' @ ''.'') ''amber''
     else present ''failed'' ''Advisory update has never succeeded''
         (''Last error: '' @ shown_or rt error ''not reported'' @ ''.'') ''red'')"

definition scheduled_view :: "runtime \<Rightarrow> json \<Rightarrow> json \<Rightarrow> nat \<Rightarrow> presentation checked" where
  "scheduled_view rt last_success next_check now =
    (case from_iso (replace_char (CHR ''Z'') ''+00:00'' (py_str rt next_check)) of
       Some (Aware local offset) \<Rightarrow>
         if max_time \<le> local + minutes 120 then Inl (Escaped (OtherError ''date value out of range''))
         else if int local + int (minutes 120) - offset < int now then
           Inr (present ''overdue'' ''Advisory update check overdue''
             (''Last valid update: '' @ shown_or rt last_success ''not recorded'' @ ''; scheduled check was '' @ py_str rt next_check @ ''.'')
             ''amber'')
         else
           Inr (present ''current'' ''Signed advisory catalog current''
             (''Last valid update: '' @ shown_or rt last_success ''not recorded'' @ ''; next check: '' @ py_str rt next_check
               @ ''. This catalog is informational and creates no detection rule.'') ''green'')
     | _ \<Rightarrow> Inr (present ''invalid_schedule'' ''Advisory schedule evidence invalid''
             ''The interface cannot establish when the next signed check is due.'' ''red''))"

definition update_presentation :: "runtime \<Rightarrow> json \<Rightarrow> nat \<Rightarrow> presentation checked" where
  "update_presentation rt v now =
    (let g = dget (obj_of v); state = update_state rt (g ''state'') in
     if \<not> is_obj v then Inr (present ''unavailable'' ''Advisory update evidence unavailable''
       ''No successful check is inferred; scanner-rule status is shown separately.'' ''amber'')
     else if state = ''error'' then Inr (failed_view rt (g ''last_success_at'') (g ''error''))
     else if state = ''never_checked'' then Inr (present ''never_checked'' ''Advisory catalog not checked yet''
       ''The signed advisory catalog is informational and does not add scanner rules.'' ''amber'')
     else if state = ''current'' \<or> state = ''updated'' then
       scheduled_view rt (g ''last_success_at'') (g ''next_check_at'') now
     else Inr (present ''unknown'' ''Advisory update state unknown'' ''No update success is inferred from an unknown state.'' ''red''))"

section \<open>The companion\<close>

definition protection_name :: "bool \<Rightarrow> string" where
  "protection_name defender = (if defender then ''Microsoft Defender protection'' else ''Windows antivirus protection'')"

text \<open>The view when the primary antivirus is healthy and no hash check failed.\<close>

definition live_process :: "json \<Rightarrow> bool" where
  "live_process health = (is_obj health \<and> all_true (obj_of health) health_fields)"

definition degraded_view :: "runtime \<Rightarrow> dict \<Rightarrow> bool \<Rightarrow> string list \<Rightarrow> presentation" where
  "degraded_view rt payload defender reason_values =
    (let reasons = join_with ''; '' reason_values; folded = map (rt_fold rt) reason_values; name = protection_name defender;
         supervisor = dget payload ''supervisor''; verified = is_obj supervisor \<and> dget (obj_of supervisor) ''registration_verified'' = JBool True
     in
     if list_ex (infixb ''health heartbeat is stale or from the future'') folded then
       present ''stale'' ''ZSEC post-change monitoring evidence stale''
         (name @ '' remains active as primary enforcement. A fresh ZSEC monitoring heartbeat is not currently verified. ''
           @ ''ZSEC will refresh this evidence automatically. Current evidence: '' @ reasons) ''amber''
     else if verified \<and> list_ex (infixb ''heartbeat process is absent'') folded then
       present ''recovering'' ''ZSEC post-change companion restarting''
         (name @ '' remains active as primary enforcement. The verified ZSEC supervisor will restart local monitoring automatically. ''
           @ ''Current evidence: '' @ reasons) ''amber''
     else if live_process (dget payload ''health'') \<and> folded = [''watch session reports degraded''] then
       present ''coverage_review'' (''ZSEC post-change monitoring running'' @ dot @ ''scoped coverage limited'')
         (name @ '' remains active as primary enforcement. The verified ZSEC change-monitoring process is running, but at least one ''
           @ ''protected path could not be inspected or was excluded by its fail-closed path policy. Coverage remains incomplete while ''
           @ ''five-minute reconciliation retries automatically.'') ''amber''
     else
       present ''degraded'' ''ZSEC post-change monitoring not verified''
         (name @ '' remains active as primary enforcement, but ZSEC monitoring is not currently verified. Current evidence: ''
           @ (if reasons = [] then ''monitoring evidence is incomplete.'' else reasons)) ''amber'')"

definition initializing_view :: "bool \<Rightarrow> bool \<Rightarrow> presentation" where
  "initializing_view metadata defender =
    present (if metadata then ''inventorying'' else ''baselining'') ''ZSEC post-change monitoring running''
      ((if defender then ''Microsoft Defender real-time enforcement'' else ''Windows antivirus protection'')
        @ '' is active. ZSEC change monitoring is running while the one-time ''
        @ (if metadata then ''protected-folder metadata inventory completes automatically.''
           else ''coverage inventory completes automatically.'')) ''cyan''"

text \<open>\<^verbatim>\<open>payload["reasons"][:3]\<close>, a list of texts after validation.\<close>

definition first_reasons :: "json \<Rightarrow> string list checked" where
  "first_reasons v =
    (if is_list v \<and> list_all is_str (take 3 (list_of v)) then Inr (map str_of (take 3 (list_of v)))
     else Inl (Escaped (OtherError ''TypeError'')))"

definition integrity_failed :: "dict \<Rightarrow> bool" where
  "integrity_failed payload =
    (let i = dget payload ''integrity'' in is_obj i \<and> list_ex (\<lambda>f. dget (obj_of i) f = JBool False) hash_fields)"

definition companion_presentation :: "runtime \<Rightarrow> dict \<Rightarrow> presentation checked" where
  "companion_presentation rt payload =
    rbind (at (JObj payload) ''decision'') (\<lambda>decision.
    if decision = JStr ''healthy_companion'' then
      Inr (present ''healthy'' ''ZSEC post-change companion running''
        (''Process, hashes, heartbeat and logon supervisor are verified. ZSEC inspects changes after they occur; ''
          @ ''the existing antivirus remains the primary real-time enforcement layer.'') ''green'')
    else if decision = JStr ''not_installed'' then
      Inr (present ''not_installed'' ''ZSEC post-change companion not installed''
        ''ZSEC is not a primary antivirus. Microsoft Defender or another existing antivirus must remain active.'' ''amber'')
    else if unhashable decision then Inl (Escaped (OtherError ''unhashable type''))
    else if decision \<in> {JStr ''baseline_in_progress'', JStr ''metadata_inventory_in_progress''} then
      rbind (at (JObj payload) ''existing_primary_protection'') (\<lambda>primary.
      rbind (at primary ''defender'') (\<lambda>defender.
      rbind (at defender ''confirmed_active'') (\<lambda>active.
      Inr (initializing_view (decision = JStr ''metadata_inventory_in_progress'') (truthy rt active)))))
    else
      rbind (at (JObj payload) ''reasons'') (\<lambda>v.
      rbind (first_reasons v) (\<lambda>reason_values.
      rbind (at (JObj payload) ''existing_primary_protection'') (\<lambda>primary.
      rbind (at primary ''aggregate_good'') (\<lambda>good.
      rbind (at primary ''defender'') (\<lambda>defender.
      rbind (at defender ''confirmed_active'') (\<lambda>active.
      if truthy rt good \<and> \<not> integrity_failed payload then Inr (degraded_view rt payload (truthy rt active) reason_values)
      else
        let reasons = join_with ''; '' reason_values in
        Inr (present ''degraded'' (''Windows real-time protection unverified'' @ dot @ ''ZSEC monitoring degraded'')
          (if reasons = [] then ''Primary protection and ZSEC monitoring evidence are incomplete.'' else reasons) ''red''))))))))"

section \<open>The protection layers\<close>

record layer =
  ly_key :: string
  ly_title :: string
  ly_status :: string
  ly_detail :: string
  ly_accent :: string

definition make_layer :: "string \<Rightarrow> string \<Rightarrow> string \<times> string \<times> string \<Rightarrow> layer" where
  "make_layer key title = (\<lambda>(status, detail, accent).
    \<lparr>ly_key = key, ly_title = title, ly_status = status, ly_detail = detail, ly_accent = accent\<rparr>)"

definition windows_layer :: "bool \<Rightarrow> bool \<Rightarrow> layer" where
  "windows_layer active good =
    (if active \<and> good then make_layer ''windows'' ''Microsoft Defender real-time protection''
       (''ACTIVE'', ''Verified real-time, pre-access enforcement; ZSEC is not primary'', ''green'')
     else if active then make_layer ''windows'' ''Microsoft Defender real-time protection''
       (''ACTIVE'' @ dot @ ''HEALTH REVIEW'', ''Real-time controls are confirmed, but aggregate provider health is not GOOD'', ''amber'')
     else if good then make_layer ''windows'' ''Windows antivirus protection''
       (''ACTIVE PROVIDER'', ''Windows Security reports GOOD; Defender is not confirmed as active'', ''amber'')
     else make_layer ''windows'' ''Windows real-time protection''
       (''NOT VERIFIED'', ''Keep the existing antivirus active and review provider evidence'', ''red''))"

definition companion_states :: "string \<Rightarrow> (string \<times> string \<times> string \<times> string) list" where
  "companion_states degraded_accent =
    [(''healthy'', ''RUNNING'', ''Process, integrity, heartbeat and sign-in supervisor verified'', ''green''),
     (''baselining'', ''RUNNING'' @ dot @ ''INVENTORY IN PROGRESS'',
        ''Post-change monitoring is active while initial coverage is inventoried'', ''cyan''),
     (''inventorying'', ''RUNNING'' @ dot @ ''INVENTORY IN PROGRESS'',
        ''Post-change monitoring is active while folder metadata is inventoried'', ''cyan''),
     (''coverage_review'', ''RUNNING'' @ dot @ ''COVERAGE EXCEPTION'',
        ''Process verified; at least one protected path remains uninspected'', ''amber''),
     (''stale'', ''EVIDENCE STALE'', ''A fresh monitoring heartbeat is not currently verified'', ''amber''),
     (''recovering'', ''RESTARTING'', ''Verified supervisor is retrying the post-change companion'', ''amber''),
     (''degraded'', ''NOT VERIFIED'', ''Post-change monitoring evidence is incomplete'', degraded_accent),
     (''not_installed'', ''NOT INSTALLED'', ''No automatic ZSEC post-change companion is installed'', ''amber'')]"

definition scope_states :: "string \<Rightarrow> (string \<times> string \<times> string \<times> string) list" where
  "scope_states degraded_accent =
    [(''healthy'', ''SCOPED'', ''Protected folders only; post-change inspection, not pre-access coverage'', ''cyan''),
     (''baselining'', ''SCOPED'' @ dot @ ''INVENTORY IN PROGRESS'', ''Protected-folder coverage is still being established'', ''amber''),
     (''inventorying'', ''SCOPED'' @ dot @ ''INVENTORY IN PROGRESS'',
        ''Protected-folder metadata coverage is still being established'', ''amber''),
     (''coverage_review'', ''LIMITED'', ''At least one protected path was not inspected; reconciliation will retry'', ''amber''),
     (''stale'', ''UNVERIFIED'', ''Current protected-folder coverage cannot be confirmed from stale evidence'', ''amber''),
     (''recovering'', ''UNVERIFIED DURING RESTART'',
        ''Current protected-folder coverage is not confirmed until monitoring recovers'', ''amber''),
     (''degraded'', ''INCOMPLETE'', ''Review the monitoring evidence; do not infer whole-device ZSEC coverage'', degraded_accent),
     (''not_installed'', ''UNAVAILABLE'', ''ZSEC protected-folder monitoring is not installed'', ''amber'')]"

definition state_row :: "string \<Rightarrow> (string \<times> 'a) list \<Rightarrow> 'a checked" where
  "state_row k rows = (case map_of rows k of None \<Rightarrow> Inl (Escaped (OtherError ''KeyError'')) | Some r \<Rightarrow> Inr r)"

definition protection_layers_presentation :: "runtime \<Rightarrow> dict \<Rightarrow> (layer \<times> layer \<times> layer) checked" where
  "protection_layers_presentation rt payload =
    rbind (at (JObj payload) ''existing_primary_protection'') (\<lambda>primary.
    rbind (at primary ''defender'') (\<lambda>defender.
    rbind (at defender ''confirmed_active'') (\<lambda>active.
    rbind (at primary ''aggregate_good'') (\<lambda>good.
    rbind (companion_presentation rt payload) (\<lambda>companion.
    let degraded_accent = (if pr_accent companion = ''red'' then ''red'' else ''amber'') in
    rbind (state_row (pr_state companion) (companion_states degraded_accent)) (\<lambda>zsec.
    rbind (state_row (pr_state companion) (scope_states degraded_accent)) (\<lambda>scope.
    Inr (windows_layer (truthy rt active) (truthy rt good), make_layer ''zsec'' ''ZSEC post-change companion'' zsec,
      make_layer ''scope'' ''ZSEC coverage boundary'' scope))))))))"

section \<open>The handover to Defender\<close>

text \<open>A chain of tests \<^verbatim>\<open>d[k] == v and ...\<close> that stops at the first that fails.\<close>

fun all_are :: "(json \<times> string \<times> json) list \<Rightarrow> bool checked" where
  "all_are [] = Inr True"
| "all_are ((d, k, x) # rest) = rbind (at d k) (\<lambda>v. if v = x then all_are rest else Inr False)"

fun blocked_by :: "(json \<times> string \<times> json \<times> string) list \<Rightarrow> string list checked" where
  "blocked_by [] = Inr []"
| "blocked_by ((d, k, x, message) # rest) =
    rbind (at d k) (\<lambda>v. rbind (blocked_by rest) (\<lambda>ms. Inr (if v = x then ms else message # ms)))"

definition handover_tests :: "json \<Rightarrow> json \<Rightarrow> (json \<times> string \<times> json) list" where
  "handover_tests existing defender =
    [(existing, ''aggregate_good'', JBool True), (existing, ''registration_inventory_complete'', JBool True),
     (defender, ''available'', JBool True), (defender, ''confirmed_active'', JBool True),
     (defender, ''baseline_features_confirmed'', JBool True), (defender, ''signatures_current'', JBool True),
     (defender, ''tamper_protection'', JStr ''enabled''), (defender, ''reboot_required'', JBool False)]"

definition handover_blockers :: "json \<Rightarrow> json \<Rightarrow> (json \<times> string \<times> json \<times> string) list" where
  "handover_blockers existing defender =
    [(existing, ''registration_inventory_complete'', JBool True, ''provider inventory incomplete''),
     (existing, ''aggregate_good'', JBool True, ''Windows Security aggregate not GOOD''),
     (defender, ''confirmed_active'', JBool True, ''Defender real-time enforcement inactive''),
     (defender, ''baseline_features_confirmed'', JBool True, ''Defender baseline controls incomplete''),
     (defender, ''signatures_current'', JBool True, ''Defender intelligence not confirmed current''),
     (defender, ''tamper_protection'', JStr ''enabled'', ''Defender tamper protection not confirmed enabled''),
     (defender, ''reboot_required'', JBool False, ''Defender reboot state is unknown or pending'')]"

definition registered_names :: "runtime \<Rightarrow> json \<Rightarrow> string list checked" where
  "registered_names rt existing =
    rbind (at existing ''registered_products'') (\<lambda>products.
    if \<not> is_list products then Inl (Escaped (OtherError ''TypeError''))
    else rmap (\<lambda>p. rbind (at p ''display_name'') (\<lambda>name. Inr (py_str rt name))) (list_of products))"

definition windows_cutover_presentation :: "runtime \<Rightarrow> dict \<Rightarrow> presentation checked" where
  "windows_cutover_presentation rt payload =
    rbind (at (JObj payload) ''existing_primary_protection'') (\<lambda>existing.
    rbind (at existing ''defender'') (\<lambda>defender.
    rbind (registered_names rt existing) (\<lambda>names.
    let malwarebytes = list_ex (\<lambda>name. infixb ''malwarebytes'' (rt_fold rt name)) names in
    rbind (all_are (handover_tests existing defender)) (\<lambda>ready.
    if malwarebytes \<and> ready then
      Inr (present ''eligible_operator_cutover'' ''Eligible for operator cutover''
        (''Defender is active with baseline controls, current security intelligence, tamper protection, and no pending reboot; ''
          @ ''Defender must remain the enforcement provider. ZSEC does not remove Malwarebytes.'') ''amber'')
    else if \<not> malwarebytes \<and> ready then
      Inr (present ''cutover_verified'' ''Defender-backed cutover verified''
        (''Malwarebytes is absent from the complete registration inventory and Defender enforcement is active with baseline controls, ''
          @ ''current intelligence, tamper protection, and no pending reboot.'') ''green'')
    else
      rbind (blocked_by (handover_blockers existing defender)) (\<lambda>ms.
      let blockers = (if malwarebytes then ''Malwarebytes remains registered'' # ms else ms) in
      Inr (present ''blocked'' ''Malwarebytes removal blocked''
        (if blockers = [] then ''required Defender handoff evidence is incomplete'' else join_with ''; '' blockers) ''red''))))))"

end
