(* ===== verification/Contract_Proofs.thy ===== *)
theory Contract_Proofs
  imports Contract_Reports Contract_Views
begin

text \<open>
  The guarantees of the desktop's contracts: what is shown in green rests on evidence in the document,
  every accepted companion document can be shown, and an accepted recovery drill has the exact controls.
\<close>

section \<open>The last scan\<close>

lemma at_Inr [simp]: "at v k = Inr x \<longleftrightarrow> (\<exists>d. v = JObj d \<and> dhas d k \<and> x = dget d k)"
  by (auto simp: at_def split: json.splits)

lemma truthy_bool [simp]: "truthy rt (JBool b) = b"
  by (simp add: truthy_def)

lemma dget_dhas: "dget d k \<noteq> JNull \<Longrightarrow> dhas d k"
  by (auto simp: dget_def dhas_def split: option.splits)

lemma validated_status:
  assumes "validate_status rt payload = Inr root"
  shows "payload = JObj root \<and> dget root ''real_time_protection'' = JBool False \<and> check_scan_state root = Inr ()"
proof -
  define r where "r = obj_of payload"
  from assms have "is_obj payload" and "root = r" and "dget r ''real_time_protection'' = JBool False" "check_scan_state r = Inr ()"
    unfolding validate_status_def Let_def r_def [symmetric] rbind_Inr_iff steps_iff field_Inr by auto
  then show ?thesis by (auto simp: is_obj_iff r_def)
qed

lemma scan_stateE:
  assumes "check_scan_state root = Inr ()"
  obtains d where "dget root ''last_scan_diagnostic'' = JObj d" and "dget d ''available'' = JBool (dget root ''last_scan'' \<noteq> JNull)"
    and "dget d ''error'' = JNull \<or> bounded_text (dget d ''error'') 1000 \<and> dget d ''available'' \<noteq> JBool True"
    and "is_int_nb (dget root ''findings'')" and "is_int_nb (dget root ''observations'')" and "is_int_nb (dget root ''last_scan_errors'')"
    and "dget root ''last_scan'' = JNull \<or> bounded_text (dget root ''last_scan'') 80"
    and "dget root ''last_scan_outcome'' = JNull \<or> (\<exists>s \<in> set known_outcomes. dget root ''last_scan_outcome'' = JStr s)"
    and "outcome_counters (dget root ''last_scan_outcome'') (int_of (dget root ''findings''))
      (int_of (dget root ''observations'')) (int_of (dget root ''last_scan_errors'')) = Inr ()"
proof -
  define f where "f = dget root ''findings''"
  define n where "n = dget root ''observations''"
  define e where "e = dget root ''last_scan_errors''"
  define l where "l = dget root ''last_scan''"
  define t where "t = dget root ''last_scan_outcome''"
  define v where "v = dget root ''last_scan_diagnostic''"
  define a where "a = dget (obj_of v) ''available''"
  define x where "x = dget (obj_of v) ''error''"
  note defs = f_def [symmetric] n_def [symmetric] e_def [symmetric] l_def [symmetric] t_def [symmetric] v_def [symmetric]
    a_def [symmetric] x_def [symmetric]
  from assms have "is_obj v" "a = JBool (l \<noteq> JNull)" "x = JNull \<or> bounded_text x 1000 \<and> a \<noteq> JBool True"
    "is_int_nb f" "is_int_nb n" "is_int_nb e" "l = JNull \<or> bounded_text l 80"
    "t = JNull \<or> (\<exists>s \<in> set known_outcomes. t = JStr s)" "outcome_counters t (int_of f) (int_of n) (int_of e) = Inr ()"
    unfolding check_scan_state_def Let_def defs steps_iff field_Inr reject_Inr by (auto split: if_splits)
  moreover from \<open>is_obj v\<close> obtain d where "v = JObj d" by (auto simp: is_obj_iff)
  ultimately show ?thesis using that [of d] unfolding defs by (simp add: a_def x_def)
qed

text \<open>
  C18: The desktop shows the last scan in green only for an accepted status that records a completed scan with
  the outcome "no configured rule matches", with no finding, no observation and no error, no diagnostic
  error, and no claim of real-time protection.
\<close>

theorem green_status_backed:
  assumes "validate_status rt payload = Inr root" and "status_presentation rt root = Inr p"
    and "pr_accent p = ''#22c55e''"
  shows "dget root ''last_scan_outcome'' = JStr ''no_configured_rule_matches''
    \<and> dget root ''findings'' = JInt 0 \<and> dget root ''observations'' = JInt 0 \<and> dget root ''last_scan_errors'' = JInt 0
    \<and> bounded_text (dget root ''last_scan'') 80 \<and> dget (obj_of (dget root ''last_scan_diagnostic'')) ''available'' = JBool True
    \<and> dget (obj_of (dget root ''last_scan_diagnostic'')) ''error'' = JNull \<and> dget root ''real_time_protection'' = JBool False"
proof -
  note v = validated_status [OF assms(1)]
  from v have "check_scan_state root = Inr ()" by blast
  then obtain d where d: "dget root ''last_scan_diagnostic'' = JObj d" "dget d ''available'' = JBool (dget root ''last_scan'' \<noteq> JNull)"
    "is_int_nb (dget root ''findings'')" "is_int_nb (dget root ''observations'')" "is_int_nb (dget root ''last_scan_errors'')"
    "dget root ''last_scan'' = JNull \<or> bounded_text (dget root ''last_scan'') 80"
    "outcome_counters (dget root ''last_scan_outcome'') (int_of (dget root ''findings''))
      (int_of (dget root ''observations'')) (int_of (dget root ''last_scan_errors'')) = Inr ()"
    by (rule scan_stateE) blast
  from assms(2,3) have g: "dget root ''last_scan_outcome'' = JStr ''no_configured_rule_matches''" "dget d ''error'' = JNull"
    "dget root ''last_scan'' \<noteq> JNull"
    unfolding status_presentation_def rbind_Inr_iff
    by (auto simp: rbind_Inr_iff present_def d(1,2) split: if_splits)
  from d(7) g(1) have "int_of (dget root ''findings'') = 0" "int_of (dget root ''observations'') = 0" "int_of (dget root ''last_scan_errors'') = 0"
    by (simp_all add: outcome_counters_def)
  then have "dget root ''findings'' = JInt 0" "dget root ''observations'' = JInt 0" "dget root ''last_scan_errors'' = JInt 0"
    using d(3-5) by (auto elim!: is_int_nb.elims)
  with g d v show ?thesis by auto
qed

text \<open>
  An accepted status can be shown exactly when it has the keys \<^verbatim>\<open>last_scan_outcome\<close> and
  \<^verbatim>\<open>last_scan_diagnostic.error\<close>: the validator reads both with \<^verbatim>\<open>get\<close> and accepts a document without
  them, and the presentation then ends with a \<^verbatim>\<open>KeyError\<close>.
\<close>

theorem status_shown_iff:
  assumes "validate_status rt payload = Inr root"
  shows "(if dhas root ''last_scan_outcome'' \<and> dhas (obj_of (dget root ''last_scan_diagnostic'')) ''error''
    then \<exists>p. status_presentation rt root = Inr p
    else status_presentation rt root = Inl (Escaped (OtherError ''KeyError'')))"
proof -
  from validated_status [OF assms] have "check_scan_state root = Inr ()" by blast
  then obtain d where d: "dget root ''last_scan_diagnostic'' = JObj d" "dget d ''available'' = JBool (dget root ''last_scan'' \<noteq> JNull)"
    "is_int_nb (dget root ''findings'')" "is_int_nb (dget root ''observations'')" "is_int_nb (dget root ''last_scan_errors'')"
    by (rule scan_stateE) blast
  have k: "dhas root ''last_scan_diagnostic''" "dhas d ''available''" by (rule dget_dhas, simp add: d)+
  have i: "dhas root f" if "is_int_nb (dget root f)" for f using that by (intro dget_dhas) auto
  have l: "dhas root ''last_scan''" if "dget root ''last_scan'' \<noteq> JNull" using that by (rule dget_dhas)
  show ?thesis
    unfolding status_presentation_def
    using k i [OF d(3)] i [OF d(4)] i [OF d(5)] l by (auto simp: at_def d(1,2))
qed

section \<open>The companion\<close>

lemma companion_parts:
  assumes "validate_companion_status rt payload = Inr root"
  defines "existing \<equiv> dget root ''existing_primary_protection''"
  shows "payload = JObj root \<and> check_companion_head payload = Inr () \<and> check_primary rt existing = Inr ()
    \<and> check_defender_state (dget (obj_of existing) ''defender'') = Inr () \<and> check_signatures (obj_of (dget (obj_of existing) ''defender'')) = Inr ()
    \<and> check_decision root = Inr ()"
proof -
  from assms(1) have c: "check_companion_head payload = Inr ()" and r: "root = obj_of payload"
    and e: "check_primary rt existing = Inr ()" "check_defender_state (dget (obj_of existing) ''defender'') = Inr ()"
      "check_signatures (obj_of (dget (obj_of existing) ''defender'')) = Inr ()" "check_decision root = Inr ()"
    unfolding validate_companion_status_def Let_def rbind_Inr_iff steps_iff existing_def by auto
  from c have "is_obj payload" unfolding check_companion_head_def Let_def steps_iff field_Inr by auto
  with c r e show ?thesis by (auto simp: is_obj_iff)
qed

lemma companion_headE:
  assumes "check_companion_head (JObj root) = Inr ()"
  shows "\<forall>f \<in> {''primary_antivirus'', ''real_time_protection'', ''pre_access_enforcement''}. dget root f = JBool False"
    and "\<exists>s \<in> set companion_decisions. dget root ''decision'' = JStr s"
    and "\<exists>xs. dget root ''reasons'' = JList xs \<and> (\<forall>x \<in> set xs. bounded_text x 500)"
proof -
  define r where "r = dget root ''reasons''"
  from assms have f: "\<forall>f \<in> set [''primary_antivirus'', ''real_time_protection'', ''pre_access_enforcement'']. dget root f = JBool False"
    and d: "\<exists>s \<in> set companion_decisions. dget root ''decision'' = JStr s" and l: "is_list r"
    and x: "\<forall>y \<in> set (enumerate0 (list_of r)). (\<lambda>(i, r). c_string r (element ''reasons'' i []) 500) y = Inr ()"
    unfolding check_companion_head_def Let_def obj_of.simps r_def [symmetric] steps_iff steps_map field_Inr by auto
  from f show "\<forall>f \<in> {''primary_antivirus'', ''real_time_protection'', ''pre_access_enforcement''}. dget root f = JBool False"
    by simp
  show "\<exists>s \<in> set companion_decisions. dget root ''decision'' = JStr s" by (rule d)
  from l obtain xs where xs: "r = JList xs" by (auto simp: is_list_iff)
  have "bounded_text y 500" if "y \<in> set xs" for y
  proof -
    from that have "y \<in> snd ` set (enumerate0 xs)" by (simp flip: set_map)
    then obtain i where "(i, y) \<in> set (enumerate0 xs)" by auto
    with x show ?thesis by (auto simp: xs)
  qed
  then show "\<exists>xs. dget root ''reasons'' = JList xs \<and> (\<forall>x \<in> set xs. bounded_text x 500)" using xs r_def by auto
qed

lemma primaryE:
  assumes "check_primary rt v = Inr ()"
  obtains e b xs where "v = JObj e" and "dget e ''aggregate_good'' = JBool b" and "dget e ''registered_products'' = JList xs"
    and "\<exists>ids. rfold (check_registration rt) (enumerate0 xs) [] = Inr ids" and "is_bool (dget e ''registration_inventory_complete'')"
proof -
  define good where "good = dget (obj_of v) ''aggregate_good''"
  define products where "products = dget (obj_of v) ''registered_products''"
  define complete where "complete = dget (obj_of v) ''registration_inventory_complete''"
  from assms have "is_obj v" "is_bool good" "is_list products" "is_bool complete"
    "\<exists>ids. rfold (check_registration rt) (enumerate0 (list_of products)) [] = Inr ids"
    unfolding check_primary_def Let_def good_def [symmetric] products_def [symmetric] complete_def [symmetric] rbind_Inr_iff steps_iff
      field_Inr by auto
  then show ?thesis using that
    by (auto simp: is_obj_iff is_bool_iff is_list_iff good_def products_def complete_def)
qed

lemma defenderE:
  assumes "check_defender_state v = Inr ()"
  obtains d a b c where "v = JObj d" and "dget d ''confirmed_active'' = JBool a" and "dget d ''baseline_features_confirmed'' = JBool b"
    and "dget d ''signatures_current'' = JBool c" and "is_bool (dget d ''available'')"
    and "\<exists>t. dget d ''tamper_protection'' = JStr t"
    and "a \<longrightarrow> dget d ''available'' = JBool True"
    and "a = all_true d [''antivirus_enabled'', ''real_time_protection_enabled'', ''service_enabled'']"
    and "b = (a \<and> all_true d [''behavior_monitor_enabled'', ''ioav_protection_enabled'', ''on_access_protection_enabled'', ''network_inspection_enabled''])"
proof -
  define x where "x = dget (obj_of v) ''confirmed_active''"
  define y where "y = dget (obj_of v) ''baseline_features_confirmed''"
  define z where "z = dget (obj_of v) ''signatures_current''"
  define av where "av = dget (obj_of v) ''available''"
  define t where "t = dget (obj_of v) ''tamper_protection''"
  define core where "core = all_true (obj_of v) [''antivirus_enabled'', ''real_time_protection_enabled'', ''service_enabled'']"
  define base where "base = all_true (obj_of v)
    [''behavior_monitor_enabled'', ''ioav_protection_enabled'', ''on_access_protection_enabled'', ''network_inspection_enabled'']"
  from assms have "is_obj v" "is_bool x" "is_bool y" "is_bool z" "is_bool av" "\<exists>s. t = JStr s"
    "\<not> (x = JBool True \<and> av \<noteq> JBool True)" "(x = JBool True) = core" "(y = JBool True) = (x = JBool True \<and> base)"
    unfolding check_defender_state_def Let_def x_def [symmetric] y_def [symmetric] z_def [symmetric] av_def [symmetric]
      t_def [symmetric] core_def [symmetric] base_def [symmetric] steps_iff field_Inr reject_Inr by auto
  moreover from this obtain d a b c where "v = JObj d" "x = JBool a" "y = JBool b" "z = JBool c"
    by (auto simp: is_obj_iff is_bool_iff)
  ultimately show ?thesis using that [of d a b c] by (simp add: x_def y_def z_def av_def t_def core_def base_def)
qed

lemma registration_names:
  assumes "rfold (check_registration rt) ys seen = Inr ids" and "(i, p) \<in> set ys"
  shows "\<exists>d s. p = JObj d \<and> dget d ''display_name'' = JStr s \<and> s \<noteq> []"
  using assms
proof (induction ys arbitrary: seen)
  case (Cons y ys)
  then obtain seen' where c: "check_registration rt y seen = Inr seen'" "rfold (check_registration rt) ys seen' = Inr ids"
    by (auto simp: rbind_Inr_iff)
  show ?case
  proof (cases "y = (i, p)")
    case True
    define n where "n = dget (obj_of p) ''display_name''"
    from c(1) have "is_obj p" "bounded_text n 256"
      unfolding check_registration_def Let_def True prod.case n_def [symmetric] rbind_Inr_iff steps_iff field_Inr by auto
    then show ?thesis by (auto simp: is_obj_iff bounded_text_def is_str_iff n_def)
  qed (use Cons c in auto)
qed simp

definition view_states :: "string list" where
  "view_states = [''healthy'', ''baselining'', ''inventorying'', ''coverage_review'', ''stale'', ''recovering'', ''degraded'', ''not_installed'']"

lemma companion_row:
  assumes "k \<in> set view_states" and "acc \<in> {''red'', ''amber''}"
  shows "\<exists>a b c. state_row k (companion_states acc) = Inr (a, b, c) \<and> (c = ''green'' \<longrightarrow> k = ''healthy'')"
proof -
  have "list_all (\<lambda>k. list_all (\<lambda>acc. case state_row k (companion_states acc) of
      Inr (a, b, c) \<Rightarrow> c = ''green'' \<longrightarrow> k = ''healthy'' | Inl _ \<Rightarrow> False) [''red'', ''amber'']) view_states" by code_simp
  with assms have "case state_row k (companion_states acc) of Inr (a, b, c) \<Rightarrow> c = ''green'' \<longrightarrow> k = ''healthy'' | Inl _ \<Rightarrow> False"
    by (auto simp: list_all_iff)
  then show ?thesis by (auto split: sum.splits)
qed

lemma scope_row:
  assumes "k \<in> set view_states" and "acc \<in> {''red'', ''amber''}"
  shows "\<exists>a b c. state_row k (scope_states acc) = Inr (a, b, c) \<and> c \<noteq> ''green''"
proof -
  have "list_all (\<lambda>k. list_all (\<lambda>acc. case state_row k (scope_states acc) of
      Inr (a, b, c) \<Rightarrow> c \<noteq> ''green'' | Inl _ \<Rightarrow> False) [''red'', ''amber'']) view_states" by code_simp
  with assms have "case state_row k (scope_states acc) of Inr (a, b, c) \<Rightarrow> c \<noteq> ''green'' | Inl _ \<Rightarrow> False"
    by (auto simp: list_all_iff)
  then show ?thesis by (auto split: sum.splits)
qed

text \<open>Every accepted document can be shown, and the healthy view is that of the healthy decision.\<close>

lemma first_reasons_ok:
  assumes "\<forall>x \<in> set xs. bounded_text x n"
  shows "first_reasons (JList xs) = Inr (map str_of (take 3 xs))"
  using assms by (auto simp: first_reasons_def list_all_iff bounded_text_def dest: in_set_takeD)

lemma degraded_state: "pr_state (degraded_view rt root b rs) \<in> {''stale'', ''recovering'', ''coverage_review'', ''degraded''}"
  unfolding degraded_view_def Let_def present_def by simp

lemma companion_shown:
  assumes "validate_companion_status rt payload = Inr root"
  shows "\<exists>p. companion_presentation rt root = Inr p \<and> pr_state p \<in> set view_states
    \<and> (pr_state p = ''healthy'' \<longrightarrow> dget root ''decision'' = JStr ''healthy_companion'')"
proof -
  note parts = companion_parts [OF assms]
  from parts have head: "check_companion_head (JObj root) = Inr ()" by metis
  define dec where "dec = dget root ''decision''"
  from companion_headE(2) [OF head] obtain s where s: "dec = JStr s" unfolding dec_def by blast
  from companion_headE(3) [OF head] obtain xs where xs: "dget root ''reasons'' = JList xs" "\<forall>x \<in> set xs. bounded_text x 500" by blast
  from parts obtain e b where e: "dget root ''existing_primary_protection'' = JObj e" "dget e ''aggregate_good'' = JBool b"
    by (blast elim: primaryE)
  from parts e(1) have "check_defender_state (dget e ''defender'') = Inr ()" by simp
  then obtain d a where d: "dget e ''defender'' = JObj d" "dget d ''confirmed_active'' = JBool a"
    by (rule defenderE) blast
  have has: "dhas root ''decision''" "dhas root ''reasons''" "dhas root ''existing_primary_protection''" "dhas e ''aggregate_good''"
    "dhas e ''defender''" "dhas d ''confirmed_active''"
    using s xs e d by (simp_all add: dget_dhas dec_def)
  have at: "at (JObj root) ''decision'' = Inr dec" "at (JObj root) ''reasons'' = Inr (JList xs)"
    "at (JObj root) ''existing_primary_protection'' = Inr (JObj e)" "at (JObj e) ''aggregate_good'' = Inr (JBool b)"
    "at (JObj e) ''defender'' = Inr (JObj d)" "at (JObj d) ''confirmed_active'' = Inr (JBool a)"
    using has by (simp_all add: dec_def xs e d)
  have h: "\<not> unhashable dec" by (simp add: s unhashable_def)
  show ?thesis
    unfolding companion_presentation_def at rbind.simps first_reasons_ok [OF xs(2)] dec_def [symmetric] if_not_P [OF h]
    using degraded_state [of rt root a "map str_of (take 3 xs)"]
    by (simp add: present_def initializing_view_def view_states_def Let_def) auto
qed

lemma healthy_evidence:
  assumes "check_decision root = Inr ()" and "dget root ''decision'' = JStr ''healthy_companion''"
  shows "dget root ''installed'' = JBool True \<and> dget root ''healthy'' = JBool True
    \<and> dget (obj_of (dget root ''existing_primary_protection'')) ''aggregate_good'' = JBool True
    \<and> all_true (obj_of (dget root ''integrity'')) hash_fields \<and> all_true (obj_of (dget root ''health'')) health_fields"
proof -
  have n: "JStr ''healthy_companion'' \<noteq> JStr ''not_installed''" "JStr ''healthy_companion'' \<noteq> JStr ''degraded''"
    "JStr ''healthy_companion'' \<notin> {JStr ''baseline_in_progress'', JStr ''metadata_inventory_in_progress''}" by simp_all
  show ?thesis
    using assms(1) unfolding check_decision_def Let_def assms(2) if_not_P [OF n(1)] if_not_P [OF n(2)] if_not_P [OF n(3)]
      steps_iff reject_Inr check_verified_def steps_map field_Inr
    by (auto simp: all_true_def list_all_iff)
qed

text \<open>
  C16: Every companion document that is accepted can be shown, whatever it holds. The row about coverage is
  never green; the row of the companion is green only with a verified process, heartbeat and hashes, an
  installed and healthy companion and a healthy primary antivirus; the row of Windows is green only when
  the features of Defender confirm it; and the document claims no real-time protection.
\<close>

theorem layers_backed:
  assumes "validate_companion_status rt payload = Inr root"
  shows "\<exists>windows zsec scope e d. protection_layers_presentation rt root = Inr (windows, zsec, scope)
    \<and> dget root ''existing_primary_protection'' = JObj e \<and> dget e ''defender'' = JObj d
    \<and> ly_accent scope \<noteq> ''green''
    \<and> (ly_accent zsec = ''green'' \<longrightarrow> dget root ''installed'' = JBool True \<and> dget root ''healthy'' = JBool True
        \<and> dget e ''aggregate_good'' = JBool True \<and> all_true (obj_of (dget root ''integrity'')) hash_fields
        \<and> all_true (obj_of (dget root ''health'')) health_fields)
    \<and> (ly_accent windows = ''green'' \<longrightarrow> dget e ''aggregate_good'' = JBool True
        \<and> all_true d [''antivirus_enabled'', ''real_time_protection_enabled'', ''service_enabled''])
    \<and> dget root ''real_time_protection'' = JBool False"
proof -
  note parts = companion_parts [OF assms]
  from parts have head: "check_companion_head (JObj root) = Inr ()" and dec: "check_decision root = Inr ()" by metis+
  from companion_headE(1) [OF head] have rtp: "dget root ''real_time_protection'' = JBool False" by blast
  from parts obtain e b where e: "dget root ''existing_primary_protection'' = JObj e" "dget e ''aggregate_good'' = JBool b"
    by (blast elim: primaryE)
  from parts e(1) have "check_defender_state (dget e ''defender'') = Inr ()" by simp
  then obtain d a where d: "dget e ''defender'' = JObj d" "dget d ''confirmed_active'' = JBool a"
    and core: "a = all_true d [''antivirus_enabled'', ''real_time_protection_enabled'', ''service_enabled'']"
    by (rule defenderE) blast
  obtain p where p: "companion_presentation rt root = Inr p" "pr_state p \<in> set view_states"
    "pr_state p = ''healthy'' \<Longrightarrow> dget root ''decision'' = JStr ''healthy_companion''"
    using companion_shown [OF assms] by blast
  define acc where "acc = (if pr_accent p = ''red'' then ''red'' else ''amber'')"
  have acc: "acc \<in> {''red'', ''amber''}" by (simp add: acc_def)
  obtain x1 x2 x3 where x: "state_row (pr_state p) (companion_states acc) = Inr (x1, x2, x3)" "x3 = ''green'' \<longrightarrow> pr_state p = ''healthy''"
    using companion_row [OF p(2) acc] by blast
  obtain y1 y2 y3 where y: "state_row (pr_state p) (scope_states acc) = Inr (y1, y2, y3)" "y3 \<noteq> ''green''"
    using scope_row [OF p(2) acc] by blast
  have at: "at (JObj root) ''existing_primary_protection'' = Inr (JObj e)" "at (JObj e) ''aggregate_good'' = Inr (JBool b)"
    "at (JObj e) ''defender'' = Inr (JObj d)" "at (JObj d) ''confirmed_active'' = Inr (JBool a)"
    using e d by (simp_all add: dget_dhas)
  have shown: "protection_layers_presentation rt root = Inr (windows_layer a b,
      make_layer ''zsec'' ''ZSEC post-change companion'' (x1, x2, x3), make_layer ''scope'' ''ZSEC coverage boundary'' (y1, y2, y3))"
    unfolding protection_layers_presentation_def at rbind.simps p(1) Let_def acc_def [symmetric] x(1) y(1) by simp
  have w: "ly_accent (windows_layer a b) = ''green'' \<Longrightarrow> a \<and> b" by (simp add: windows_layer_def make_layer_def split: if_splits)
  have z: "ly_accent (make_layer k t (u, v, c)) = c" for k t u v c by (simp add: make_layer_def)
  have h: "x3 = ''green'' \<Longrightarrow> dget root ''decision'' = JStr ''healthy_companion''" using x(2) p(3) by blast
  note g = healthy_evidence [OF dec]
  show ?thesis
  proof (intro exI conjI impI; (rule shown e(1) d(1) rtp)?)
    show "ly_accent (make_layer ''scope'' ''ZSEC coverage boundary'' (y1, y2, y3)) \<noteq> ''green''" using y(2) by (simp only: z not_False_eq_True)
  next
    assume "ly_accent (make_layer ''zsec'' ''ZSEC post-change companion'' (x1, x2, x3)) = ''green''"
    then have "dget root ''decision'' = JStr ''healthy_companion''" unfolding z by (rule h)
    note ev = g [OF this, unfolded e(1) obj_of.simps]
    show "dget root ''installed'' = JBool True" "dget root ''healthy'' = JBool True" "dget e ''aggregate_good'' = JBool True"
      "all_true (obj_of (dget root ''integrity'')) hash_fields" "all_true (obj_of (dget root ''health'')) health_fields"
      using ev by blast+
  next
    assume "ly_accent (windows_layer a b) = ''green''"
    from w [OF this] show "dget e ''aggregate_good'' = JBool True"
      "all_true d [''antivirus_enabled'', ''real_time_protection_enabled'', ''service_enabled'']"
      using e(2) core by simp_all
  qed
qed

text \<open>
  C17: The handover to Defender is shown as verified only when the accepted document has a complete inventory
  without a product named Malwarebytes and Defender is available, active with its baseline features, has
  current signatures, enabled tamper protection and no pending reboot.
\<close>

theorem cutover_backed:
  assumes "validate_companion_status rt payload = Inr root" and "windows_cutover_presentation rt root = Inr p"
    and "pr_accent p = ''green''"
  shows "\<exists>e d names. dget root ''existing_primary_protection'' = JObj e \<and> dget e ''defender'' = JObj d
    \<and> registered_names rt (JObj e) = Inr names \<and> list_all (\<lambda>n. \<not> infixb ''malwarebytes'' (rt_fold rt n)) names
    \<and> dget e ''aggregate_good'' = JBool True \<and> dget e ''registration_inventory_complete'' = JBool True
    \<and> all_true d ([''available'', ''confirmed_active'', ''baseline_features_confirmed'', ''signatures_current'']
        @ [''antivirus_enabled'', ''real_time_protection_enabled'', ''service_enabled'', ''behavior_monitor_enabled'',
           ''ioav_protection_enabled'', ''on_access_protection_enabled'', ''network_inspection_enabled''])
    \<and> dget d ''tamper_protection'' = JStr ''enabled'' \<and> dget d ''reboot_required'' = JBool False"
proof -
  note parts = companion_parts [OF assms(1)]
  from parts obtain e where e: "dget root ''existing_primary_protection'' = JObj e" by (blast elim: primaryE)
  from parts e have ds: "check_defender_state (dget e ''defender'') = Inr ()" by simp
  then obtain d a b where d: "dget e ''defender'' = JObj d" "dget d ''confirmed_active'' = JBool a"
      "dget d ''baseline_features_confirmed'' = JBool b"
    and core: "a = all_true d [''antivirus_enabled'', ''real_time_protection_enabled'', ''service_enabled'']"
    and base: "b = (a \<and> all_true d [''behavior_monitor_enabled'', ''ioav_protection_enabled'', ''on_access_protection_enabled'', ''network_inspection_enabled''])"
    by (rule defenderE) blast
  have at: "at (JObj root) ''existing_primary_protection'' = Inr (JObj e)" "at (JObj e) ''defender'' = Inr (JObj d)"
    using e d by (simp_all add: dget_dhas)
  from assms(2) obtain names ready where n: "registered_names rt (JObj e) = Inr names"
    and r: "all_are (handover_tests (JObj e) (JObj d)) = Inr ready"
    and c: "ready \<and> \<not> list_ex (\<lambda>name. infixb ''malwarebytes'' (rt_fold rt name)) names"
    using assms(3) unfolding windows_cutover_presentation_def at rbind.simps Let_def rbind_Inr_iff
    by (auto simp: rbind_Inr_iff present_def split: if_splits)
  from r c have t: "dget e ''aggregate_good'' = JBool True \<and> dget e ''registration_inventory_complete'' = JBool True
      \<and> dget d ''available'' = JBool True \<and> dget d ''confirmed_active'' = JBool True \<and> dget d ''baseline_features_confirmed'' = JBool True
      \<and> dget d ''signatures_current'' = JBool True \<and> dget d ''tamper_protection'' = JStr ''enabled'' \<and> dget d ''reboot_required'' = JBool False"
    unfolding handover_tests_def by (auto simp: rbind_Inr_iff split: if_splits)
  from t d have "a" "b" by simp_all
  with core base t n c e d(1) show ?thesis by (auto simp: all_true_def list_all_iff list_ex_iff)
qed

section \<open>The recovery drill\<close>

definition drill_id :: "dict \<Rightarrow> string" where
  "drill_id c = str_of (dget c ''id'')"

definition drill_passed :: "dict \<Rightarrow> bool" where
  "drill_passed c = (dget c ''passed'' = JBool True)"

lemma check_drill_Inr:
  assumes "check_drill (i, v) (seen, n) = Inr s"
  shows "\<exists>c. v = JObj c \<and> drill_id c \<notin> set seen \<and> drill_passed c = (dget c ''error'' = JNull)
    \<and> s = (seen @ [drill_id c], if drill_passed c then Suc n else n)"
proof -
  define id where "id = dget (obj_of v) ''id''"
  define p where "p = dget (obj_of v) ''passed''"
  define e where "e = dget (obj_of v) ''error''"
  from assms have "is_obj v" "str_of id \<notin> set seen" "is_bool p" "if p = JBool True then e = JNull else bounded_text e 2000"
    "s = (seen @ [str_of id], if p = JBool True then Suc n else n)"
    unfolding check_drill_def Let_def prod.case id_def [symmetric] p_def [symmetric] e_def [symmetric] rbind_Inr_iff steps_iff
      field_Inr reject_Inr by (auto split: if_splits)
  moreover from this obtain c b where c: "v = JObj c" and b: "p = JBool b" by (auto simp: is_obj_iff is_bool_iff)
  ultimately have "drill_id c \<notin> set seen" "drill_passed c = b" "b = (e = JNull)" "s = (seen @ [drill_id c], if b then Suc n else n)"
    by (cases b; simp add: drill_id_def drill_passed_def id_def p_def; auto simp: bounded_text_def)+
  with c show ?thesis by (simp add: e_def)
qed

lemma drill_fold:
  assumes "rfold check_drill ys (seen, n) = Inr (ids, m)" and "distinct seen"
  shows "\<exists>cs. map snd ys = map JObj cs \<and> ids = seen @ map drill_id cs \<and> distinct ids \<and> m = n + length (filter drill_passed cs)
    \<and> list_all (\<lambda>c. drill_passed c = (dget c ''error'' = JNull)) cs"
  using assms
proof (induction ys arbitrary: seen n)
  case Nil
  then show ?case by (intro exI [of _ "[]"]) simp
next
  case (Cons y ys)
  obtain i v where y: "y = (i, v)" by (cases y)
  from Cons.prems(1) obtain s where s: "check_drill (i, v) (seen, n) = Inr s" "rfold check_drill ys s = Inr (ids, m)"
    by (auto simp: rbind_Inr_iff y)
  from check_drill_Inr [OF s(1)] obtain c where c: "v = JObj c" "drill_id c \<notin> set seen" "drill_passed c = (dget c ''error'' = JNull)"
    "s = (seen @ [drill_id c], if drill_passed c then Suc n else n)" by blast
  from Cons.IH [OF s(2) [unfolded c(4)]] Cons.prems(2) c(2) obtain cs where
    "map snd ys = map JObj cs" "ids = (seen @ [drill_id c]) @ map drill_id cs" "distinct ids"
    "m = (if drill_passed c then Suc n else n) + length (filter drill_passed cs)"
    "list_all (\<lambda>c. drill_passed c = (dget c ''error'' = JNull)) cs" by auto
  with c y show ?case by (intro exI [of _ "c # cs"]) auto
qed

text \<open>
  An accepted recovery drill report has exactly the five controls of the drill, each once; a control has an
  error exactly when it failed, the counters are those of the controls, and the drill passed exactly when
  every control did.
\<close>

theorem drill_exact:
  assumes "validate_recovery_drill payload = Inr root"
  shows "\<exists>cs. dget root ''checks'' = JList (map JObj cs) \<and> distinct (map drill_id cs)
    \<and> set (map drill_id cs) = set drill_check_ids \<and> length cs = 5
    \<and> list_all (\<lambda>c. drill_passed c = (dget c ''error'' = JNull)) cs
    \<and> dget root ''passed'' = JBool (list_all drill_passed cs)
    \<and> dget (obj_of (dget root ''summary'')) ''passed'' = JInt (int (length (filter drill_passed cs)))"
proof -
  define checks where "checks = dget (obj_of payload) ''checks''"
  define ps where "ps = dget (obj_of payload) ''passed''"
  define sp where "sp = dget (obj_of (dget (obj_of payload) ''summary'')) ''passed''"
  from assms obtain ids n where r: "root = obj_of payload" and l: "is_list checks"
    and f: "rfold check_drill (enumerate0 (list_of checks)) ([], 0) = Inr (ids, n)"
    and i: "set ids = set drill_check_ids" and p: "ps = JBool (length (list_of checks) - n = 0)" and sp: "sp = JInt (int n)"
    unfolding validate_recovery_drill_def Let_def checks_def [symmetric] ps_def [symmetric] sp_def [symmetric] rbind_Inr_iff steps_iff
      field_Inr c_count_Inr by (auto simp: rbind_Inr_iff)
  from drill_fold [OF f] obtain cs where cs: "list_of checks = map JObj cs" "ids = map drill_id cs" "distinct ids"
    "n = length (filter drill_passed cs)" "list_all (\<lambda>c. drill_passed c = (dget c ''error'' = JNull)) cs" by auto
  have "card (set drill_check_ids) = 5" by (simp add: drill_check_ids_def)
  with cs(2,3) i have five: "length cs = 5" using distinct_card [OF cs(3)] by simp
  have all: "(length cs - length (filter drill_passed cs) = 0) = list_all drill_passed cs"
  proof -
    have "length (filter drill_passed cs) = length cs \<longleftrightarrow> list_all drill_passed cs"
      by (metis filter_id_conv length_filter_less list_all_iff nat_neq_iff)
    moreover have "length (filter drill_passed cs) \<le> length cs" by (rule length_filter_le)
    ultimately show ?thesis by (metis diff_is_0_eq le_antisym order_refl)
  qed
  from l cs(1) have "checks = JList (map JObj cs)" by (auto simp: is_list_iff)
  with cs i five all p sp show ?thesis by (intro exI [of _ cs]) (simp add: r checks_def ps_def sp_def)
qed

end
