(* ===== verification/Contract_Examples.thy ===== *)
theory Contract_Examples
  imports Contract_Proofs
begin

text \<open>Concrete documents that the desktop accepts, and the guarantees at them.\<close>

definition ex_runtime :: runtime where
  "ex_runtime = \<lparr>rt_fold = lower, rt_lower = lower, rt_show = (\<lambda>_. []), rt_whole = (\<lambda>_. None)\<rparr>"

lemma bounded_text_str: "s \<noteq> [] \<Longrightarrow> length s \<le> n \<Longrightarrow> bounded_text (JStr s) n"
  using py_len_le [of s] by (simp add: bounded_text_def)

lemma rbind_unit [simp]: "rbind m (\<lambda>_. Inr x) = Inr x \<longleftrightarrow> m = Inr ()"
  by (cases m) auto

lemma dhas_mk_dict: "dhas (mk_dict kvs) k \<longleftrightarrow> k \<in> fst ` set kvs"
  by (simp add: dhas_def map_of_mk_dict map_of_eq_None_iff)

lemma dget_absent: "k \<notin> fst ` set kvs \<Longrightarrow> dget (mk_dict kvs) k = JNull"
  by (simp add: dget_def map_of_mk_dict map_of_eq_None_iff [THEN iffD2])

lemma dget_Nil [simp]: "dget [] k = JNull"
  by (simp add: dget_def)

section \<open>A status\<close>

definition ex_worker_status :: dict where
  "ex_worker_status = mk_dict [(''mode'', JStr ''bounded_out_of_process_rules_and_review_providers''), (''path_disclosure'', JBool False),
     (''broker_digest_verification'', JBool True), (''reduced_privilege'', JBool False), (''hostile_format_parser_gate_met'', JBool False)]"

definition ex_diagnostic :: dict where
  "ex_diagnostic = mk_dict [(''available'', JBool True), (''error'', JNull)]"

definition ex_status :: dict where
  "ex_status = mk_dict [(''schema'', JStr ''zsec.shield.status.v2''), (''contract_version'', JInt 2), (''version'', JStr ''1''),
     (''generated_at'', JStr ''t''), (''platform'', JStr ''p''), (''scanner_mode'', JStr ''on-demand''),
     (''content_worker'', JObj ex_worker_status), (''real_time_protection'', JBool False), (''findings'', JInt 0),
     (''observations'', JInt 0), (''last_scan_errors'', JInt 0), (''last_scan_diagnostic'', JObj ex_diagnostic),
     (''last_scan'', JStr ''t''), (''last_scan_outcome'', JStr ''no_configured_rule_matches''),
     (''feed'', JObj (mk_dict [(''state'', JStr ''absent'')])), (''quarantine_count'', JInt 0),
     (''quarantine'', JObj (mk_dict [(''entries'', JInt 0), (''metadata_errors'', JList [])]))]"

lemma ex_status_accepted: "validate_status ex_runtime (JObj ex_status) = Inr ex_status"
proof -
  have w: "check_worker (JObj ex_worker_status) = Inr ()"
    by (simp add: check_worker_def ex_worker_status_def dget_mk_dict dget_absent Let_def)
  have s: "check_scan_state ex_status = Inr ()"
    by (simp add: check_scan_state_def ex_status_def ex_diagnostic_def dget_mk_dict dget_absent Let_def bounded_text_str known_outcomes_def outcome_counters_def)
  show ?thesis
    using s by (simp add: validate_status_def ex_status_def dget_mk_dict dget_absent Let_def w bounded_text_str equals_int_def check_update_status_def)
qed

lemma ex_status_shown:
  "status_presentation ex_runtime ex_status = Inr (present ''no_matches'' ''No configured rule matches''
     ''This completed scan is not proof that the computer is clean.'' ''#22c55e'')"
  by (simp add: status_presentation_def at_def ex_status_def ex_diagnostic_def dget_mk_dict dget_absent Let_def dhas_mk_dict)

lemma green_status_backed_witness:
  "dget ex_status ''findings'' = JInt 0 \<and> dget ex_status ''real_time_protection'' = JBool False"
  using green_status_backed [OF ex_status_accepted ex_status_shown] by (simp add: present_def)

lemma status_shown_iff_witness: "\<exists>p. status_presentation ex_runtime ex_status = Inr p"
proof -
  have "dhas ex_status ''last_scan_outcome''" "dhas (obj_of (dget ex_status ''last_scan_diagnostic'')) ''error''"
    by (simp_all add: ex_status_def ex_diagnostic_def dget_mk_dict dget_absent Let_def dhas_mk_dict)
  then show ?thesis using status_shown_iff [OF ex_status_accepted] by simp
qed

section \<open>A companion\<close>

definition ex_defender :: dict where
  "ex_defender = mk_dict [(''source'', JStr ''Get-MpComputerStatus''), (''available'', JBool True), (''antivirus_enabled'', JBool True),
     (''real_time_protection_enabled'', JBool True), (''service_enabled'', JBool True), (''behavior_monitor_enabled'', JBool True),
     (''ioav_protection_enabled'', JBool True), (''on_access_protection_enabled'', JBool True),
     (''network_inspection_enabled'', JBool True), (''reboot_required'', JBool False), (''tamper_protection'', JStr ''enabled''),
     (''network_protection'', JObj (mk_dict [(''state'', JStr ''active''), (''raw_value'', JInt 1),
        (''source'', JStr ''Get-MpPreference.EnableNetworkProtection''), (''note'', JStr ''n'')])),
     (''confirmed_active'', JBool True), (''baseline_features_confirmed'', JBool True), (''signatures_current'', JBool True),
     (''update_recommended'', JBool False), (''signatures'', JObj (mk_dict [(''antivirus_version'', JStr ''1''),
        (''antivirus_last_updated'', JStr ''t''), (''defender_reports_out_of_date'', JBool False)])),
     (''scans'', JObj []), (''note'', JStr ''n'')]"

definition ex_service :: "string \<Rightarrow> json" where
  "ex_service name = JObj (mk_dict [(''name'', JStr name), (''available'', JBool True), (''status'', JStr ''Running'')])"

definition ex_primary :: dict where
  "ex_primary = mk_dict [(''method'', JStr ''WscGetSecurityProviderHealth(WSC_SECURITY_PROVIDER_ANTIVIRUS)''),
     (''aggregate_good'', JBool True), (''aggregate_health'', JStr ''GOOD''), (''registered_products'', JList []),
     (''registration_inventory_complete'', JBool True), (''security_services'', JList (map ex_service expected_services)),
     (''defender'', JObj ex_defender)]"

definition ex_all_true :: "string list \<Rightarrow> dict" where
  "ex_all_true fs = mk_dict (map (\<lambda>f. (f, JBool True)) fs)"

definition ex_companion :: dict where
  "ex_companion = mk_dict [(''schema'', JStr ''zsec.antivirus.windows-companion-status.v1''), (''primary_antivirus'', JBool False),
     (''real_time_protection'', JBool False), (''pre_access_enforcement'', JBool False),
     (''existing_protection_must_remain_active'', JBool True), (''primary_provider_uninstall_allowed'', JBool False),
     (''cutover_allowed'', JBool False), (''installed'', JBool True), (''healthy'', JBool True),
     (''decision'', JStr ''healthy_companion''), (''reasons'', JList []), (''existing_primary_protection'', JObj ex_primary),
     (''supervisor'', JObj (mk_dict [(''registration_verified'', JBool True), (''state'', JStr ''registered_for_logon'')])),
     (''integrity'', JObj (ex_all_true hash_fields)), (''health'', JObj (ex_all_true health_fields))]"

lemma ex_services: "\<exists>ns. rfold check_service (enumerate0 (map ex_service expected_services)) [] = Inr ns \<and> set ns = set expected_services"
proof -
  have e: "enumerate0 (map ex_service expected_services) = [(0, ex_service ''WinDefend''), (1, ex_service ''WdNisSvc''),
      (2, ex_service ''MDCoreSvc''), (3, ex_service ''wscsvc''), (4, ex_service ''SecurityHealthService'')]"
    by (simp add: enumerate0_def expected_services_def upt_rec)
  have c: "check_service (i, ex_service n) seen = Inr (seen @ [n])" if "n \<in> set expected_services" "n \<notin> set seen" for i n seen
  proof -
    have "n \<noteq> [] \<and> length n \<le> 80" using that(1) by (auto simp: expected_services_def)
    then have "steps [c_object (ex_service n) (element ''security_services'' i []), c_string (JStr n) (element ''security_services'' i ''.name'') 80,
       reject (n \<notin> set expected_services \<or> n \<in> set seen) ''Windows security service inventory is inconsistent'',
       c_bool (JBool True) (element ''security_services'' i ''.available''),
       c_string (JStr ''Running'') (element ''security_services'' i ''.status'') 80] = Inr ()"
      using that by (simp add: bounded_text_str ex_service_def)
    then show ?thesis by (simp add: check_service_def ex_service_def dget_mk_dict dget_absent Let_def)
  qed
  show ?thesis
    unfolding e by (simp add: c expected_services_def)
qed

lemma ex_primary_accepted: "check_primary ex_runtime (JObj ex_primary) = Inr ()"
proof -
  obtain ns where ns: "rfold check_service (enumerate0 (map ex_service expected_services)) [] = Inr ns" "set ns = set expected_services"
    using ex_services by blast
  have "enumerate0 ([] :: json list) = []" by (simp add: enumerate0_def)
  then show ?thesis
    by (simp add: check_primary_def ex_primary_def dget_mk_dict dget_absent Let_def ns rbind_Inr_iff)
qed

lemma ex_defender_accepted:
  "check_defender_state (JObj ex_defender) = Inr ()" "check_signatures ex_defender = Inr ()" "check_scans ex_defender = Inr ()"
  by (simp_all add: check_defender_state_def ex_defender_def dget_mk_dict dget_absent Let_def defender_features_def all_true_def bounded_text_str
      check_network_protection_def check_signatures_def check_scans_def)

lemma ex_companion_accepted: "validate_companion_status ex_runtime (JObj ex_companion) = Inr ex_companion"
proof -
  have h: "check_companion_head (JObj ex_companion) = Inr ()"
    by (simp add: check_companion_head_def ex_companion_def dget_mk_dict dget_absent Let_def companion_decisions_def enumerate0_def)
  have g: "dget ex_companion ''existing_primary_protection'' = JObj ex_primary" "dget ex_primary ''defender'' = JObj ex_defender"
    by (simp_all add: ex_companion_def ex_primary_def dget_mk_dict dget_absent Let_def)
  have d: "check_decision ex_companion = Inr ()"
    by (simp add: check_decision_def ex_companion_def dget_mk_dict dget_absent Let_def ex_primary_def check_supervisor_def check_verified_def
        ex_all_true_def hash_fields_def health_fields_def)
  show ?thesis
    by (simp add: validate_companion_status_def g h d ex_primary_accepted ex_defender_accepted)
qed

lemma layers_backed_witness:
  "\<exists>windows zsec scope. protection_layers_presentation ex_runtime ex_companion = Inr (windows, zsec, scope) \<and> ly_accent scope \<noteq> ''green''"
  using layers_backed [OF ex_companion_accepted] by blast

lemma ex_cutover_shown: "\<exists>p. windows_cutover_presentation ex_runtime ex_companion = Inr p \<and> pr_accent p = ''green''"
proof -
  have g: "dget ex_companion ''existing_primary_protection'' = JObj ex_primary" "dget ex_primary ''defender'' = JObj ex_defender"
      "dhas ex_companion ''existing_primary_protection''" "dhas ex_primary ''defender''"
    by (simp_all add: ex_companion_def ex_primary_def dget_mk_dict dget_absent Let_def dhas_mk_dict)
  have n: "registered_names ex_runtime (JObj ex_primary) = Inr []"
    by (simp add: registered_names_def at_def ex_primary_def dget_mk_dict dget_absent Let_def dhas_mk_dict)
  have t: "all_are (handover_tests (JObj ex_primary) (JObj ex_defender)) = Inr True"
    by (simp add: handover_tests_def at_def ex_primary_def ex_defender_def dget_mk_dict dget_absent Let_def dhas_mk_dict)
  show ?thesis
    by (simp add: windows_cutover_presentation_def at_def g n t present_def)
qed

lemma cutover_backed_witness:
  "\<exists>e names. dget ex_companion ''existing_primary_protection'' = JObj e \<and> registered_names ex_runtime (JObj e) = Inr names"
  using ex_cutover_shown cutover_backed [OF ex_companion_accepted] by blast

section \<open>A drill\<close>

definition ex_drill_check :: "string \<Rightarrow> json" where
  "ex_drill_check c = JObj (mk_dict [(''id'', JStr c), (''passed'', JBool True)])"

definition ex_drill :: dict where
  "ex_drill = mk_dict [(''schema'', JStr ''zsec.antivirus.recovery-drill.v1''), (''product'', JStr ''ZSEC Antivirus''),
     (''started_at'', JStr ''t''), (''completed_at'', JStr ''t''), (''scope'', JStr ''isolated synthetic data only''),
     (''independent_certification'', JBool False), (''passed'', JBool True),
     (''checks'', JList (map ex_drill_check drill_check_ids)),
     (''summary'', JObj (mk_dict [(''passed'', JInt 5), (''failed'', JInt 0), (''total'', JInt 5)]))]"

lemma ex_drill_fold: "rfold check_drill (enumerate0 (map ex_drill_check drill_check_ids)) ([], 0) = Inr (drill_check_ids, 5)"
proof -
  have e: "enumerate0 (map ex_drill_check drill_check_ids) = [(0, ex_drill_check ''encrypted_authenticated_copy''),
     (1, ex_drill_check ''authenticated_restore''), (2, ex_drill_check ''no_overwrite_restore''),
     (3, ex_drill_check ''ciphertext_tamper_rejected''), (4, ex_drill_check ''device_key_loss_and_recovery'')]"
    by (simp add: enumerate0_def drill_check_ids_def upt_rec)
  have c: "check_drill (i, ex_drill_check c) (seen, n) = Inr (seen @ [c], Suc n)" if "c \<noteq> []" "length c \<le> 100" "c \<notin> set seen" for i c seen n
  proof -
    have "steps [c_object (ex_drill_check c) (element ''checks'' i []), c_string (JStr c) (element ''checks'' i ''.id'') 100,
       reject (c \<in> set seen) ''recovery drill check identifiers must be unique'', c_bool (JBool True) (element ''checks'' i ''.passed''),
       reject False ''passing recovery drill check cannot contain an error''] = Inr ()"
      using that by (simp add: bounded_text_str ex_drill_check_def)
    then show ?thesis by (simp add: check_drill_def ex_drill_check_def dget_mk_dict dget_absent Let_def)
  qed
  show ?thesis
    unfolding e by (simp add: c drill_check_ids_def)
qed

lemma ex_drill_accepted: "validate_recovery_drill (JObj ex_drill) = Inr ex_drill"
proof -
  have "length drill_check_ids = 5" "drill_check_ids \<noteq> []" by (simp_all add: drill_check_ids_def)
  then show ?thesis
    by (simp add: validate_recovery_drill_def ex_drill_def dget_mk_dict dget_absent Let_def ex_drill_fold bounded_text_str rbind_Inr_iff)
qed

lemma drill_exact_witness:
  "\<exists>cs. dget ex_drill ''checks'' = JList (map JObj cs) \<and> length cs = 5 \<and> set (map drill_id cs) = set drill_check_ids"
  using drill_exact [OF ex_drill_accepted] by blast

end
