(* ===== verification/Readiness.thy ===== *)
theory Readiness
  imports Contract_Proofs
begin

text \<open>
  The replacement readiness of \<^verbatim>\<open>src/zsec_shield/readiness.py\<close>: the fixed tables of foundations and gates,
  the decision for a platform, and the agreement with the validator of the desktop.
\<close>

section \<open>The tables\<close>

definition readiness_schema :: string where "readiness_schema = ''zero.security.replacement-readiness.v1''"

definition platform_aliases :: "(string \<times> string) list" where
  "platform_aliases = [(''windows'', ''windows''), (''linux'', ''linux''), (''darwin'', ''macos''), (''macos'', ''macos'')]"

definition foundations :: "(string \<times> string) list" where
  "foundations = [
    (''deterministic_on_demand_scanner'',
     ''Streaming SHA-256 and exact configured-rule checks are implemented and tested.''),
    (''signed_data_only_feed'',
     ''Ed25519 feed verification, expiry and rollback checks are implemented.''),
    (''authenticated_encrypted_quarantine'',
     ''ZSV2 authenticated encrypted quarantine is implemented in the Community channel.''),
    (''cross_platform_native_archives'',
     ''Unsigned Community archives are built and smoke-tested on Windows, macOS and Linux.'')]"

definition common_gates :: "(string \<times> string \<times> string) list" where
  "common_gates = [
    (''locked_efficacy_evaluation'', ''Independent malware and cleanware evaluation'',
     ''Versioned, held-out efficacy and false-positive results must meet published thresholds.''),
    (''publisher_signed_release'', ''Publisher-signed production release'',
     ''Installer, binaries and update metadata must verify to the approved publisher identity.''),
    (''binary_update_rollback'', ''Expiring staged updates and rollback'',
     ''Binary, engine and rule updates need expiry, freeze protection, health halts and tested rollback.''),
    (''parser_isolation'', ''Hostile-file parser isolation'',
     ''Archive, document and executable parsers must run with bounded resources and reduced privilege.''),
    (''performance_compatibility'', ''Desktop performance and compatibility fleet'',
     ''Supported hardware, filesystems, applications and operating-system updates must pass regression gates.''),
    (''recovery_drills'', ''Quarantine and key-recovery certification'',
     ''Crash, corruption, lost-key, restore and rollback drills must preserve recoverability.''),
    (''coexistence_cutover_rollback'', ''Coexistence and transactional cutover'',
     ''A pilot must prove the old provider stays active until Zero Security is active and can be restored automatically.''),
    (''support_incident_response'', ''Support and incident-response operation'',
     ''Signed emergency releases, revocation, vulnerability intake and user recovery procedures must be staffed.'')]"

definition windows_gates :: "(string \<times> string \<times> string) list" where
  "windows_gates = [
    (''windows_minifilter'', ''Signed FltMgr minifilter'',
     ''A Microsoft-assigned altitude, HVCI-compatible driver and bounded verdict path must pass HLK and Verifier.''),
    (''windows_protected_service'', ''Protected service and restricted workers'',
     ''The broker, parser workers and authenticated IPC must pass tamper and privilege-boundary tests.''),
    (''windows_amsi_elam'', ''x86/x64 AMSI and ELAM coverage'',
     ''Both AMSI architectures, boot-start ELAM and safe failure behavior must be independently exercised.''),
    (''windows_security_registration'', ''Approved Windows Security registration'',
     ''Microsoft onboarding and independently verified active/current Windows Security state are required.'')]"

definition linux_gates :: "(string \<times> string \<times> string) list" where
  "linux_gates = [
    (''linux_supported_matrix'', ''Supported distribution and kernel matrix'',
     ''Exact distributions, kernels, architectures, filesystems and lifecycle dates must be published and tested.''),
    (''linux_realtime_broker'', ''Privileged fanotify real-time broker'',
     ''Permission and notification modes need fail-safe policy, queue-overflow handling and filesystem coverage tests.''),
    (''linux_service_confinement'', ''systemd, SELinux and AppArmor confinement'',
     ''The daemon and workers must use least privilege, capability bounds, syscall controls and supported MAC profiles.''),
    (''linux_signed_packages'', ''Signed distribution packages and repositories'',
     ''Reproducible DEB/RPM packages, repository metadata, dependency policy and uninstall/rollback must be verified.'')]"

definition macos_gates :: "(string \<times> string \<times> string) list" where
  "macos_gates = [
    (''macos_endpoint_security'', ''Endpoint Security system extension'',
     ''The approved entitlement, event coverage, deadline behavior and overload handling must pass release tests.''),
    (''macos_signed_notarized_app'', ''Developer ID, hardened runtime and notarization'',
     ''The app, system extension and updater must be signed, notarized and accepted without bypassing Gatekeeper.''),
    (''macos_consent_and_coexistence'', ''Consent, Full Disk Access and Apple-control coexistence'',
     ''System-extension activation and privacy consent must be clear while XProtect, Gatekeeper and SIP stay enabled.''),
    (''macos_architecture_matrix'', ''Apple silicon and supported Intel coverage'',
     ''Supported macOS releases, architectures, filesystems, sleep/wake and OS-upgrade paths must pass a real fleet.'')]"

definition platform_gates :: "string \<Rightarrow> (string \<times> string \<times> string) list" where
  "platform_gates p =
    (if p = ''windows'' then windows_gates else if p = ''linux'' then linux_gates else if p = ''macos'' then macos_gates
     else [(''supported_platform'', ''Supported desktop platform'',
            ''Zero Security has no production replacement programme for this platform.'')])"

section \<open>The decision\<close>

text \<open>The system is the name the caller gives or \<^verbatim>\<open>platform.system()\<close>; the time of the report is an argument.\<close>

definition normalize_platform :: "string \<Rightarrow> string" where
  "normalize_platform detected =
    (case map_of platform_aliases (lower (py_strip detected)) of Some p \<Rightarrow> p | None \<Rightarrow> ''unsupported'')"

definition program_version :: string where "program_version = ''0.3.38''"

definition gate_record :: "string \<times> string \<times> string \<Rightarrow> json" where
  "gate_record = (\<lambda>(gate_id, title, evidence).
    JObj (mk_dict [(''id'', JStr gate_id), (''title'', JStr title), (''state'', JStr ''not_met''), (''evidence_required'', JStr evidence)]))"

definition foundation_record :: "string \<times> string \<Rightarrow> json" where
  "foundation_record = (\<lambda>(foundation_id, evidence).
    JObj (mk_dict [(''id'', JStr foundation_id), (''state'', JStr ''implemented_preview''), (''evidence'', JStr evidence)]))"

definition cutover_rule :: string where
  "cutover_rule = ''Zero Security may offer removal of another antivirus only after every platform and common gate is ''
     @ ''independently evidenced on the exact release, a coexistence pilot passes, Zero Security is verified active and current, ''
     @ ''and automatic rollback proves the previous or operating-system provider can be restored.''"

definition next_action :: string where
  "next_action = ''Keep the currently active antivirus and operating-system protections enabled; use Zero Security as an ''
     @ ''on-demand companion while the production gates remain unmet.''"

definition replacement_readiness :: "string \<Rightarrow> nat \<Rightarrow> dict" where
  "replacement_readiness system now =
    (let p = normalize_platform system; blockers = map gate_record (common_gates @ platform_gates p); n = JInt (int (length blockers)) in
     mk_dict
      [(''schema'', JStr readiness_schema), (''generated_at'', JStr (format_utc now)), (''version'', JStr program_version),
       (''platform'', JStr p), (''release_stage'', JStr ''on-demand-preview''), (''decision'', JStr ''keep_existing_protection''),
       (''eligible_for_primary_replacement'', JBool False), (''existing_provider_must_remain_active'', JBool True),
       (''automatic_uninstall_available'', JBool False), (''manual_override_available'', JBool False),
       (''implemented_foundations'', JList (map foundation_record foundations)), (''blocking_gates'', JList blockers),
       (''gate_counts'', JObj (mk_dict [(''met'', JInt 0), (''not_met'', n), (''total'', n)])),
       (''cutover_rule'', JStr cutover_rule), (''next_action'', JStr next_action)])"

section \<open>The desktop accepts it\<close>

text \<open>A list of gates the desktop accepts: their identifiers differ and their texts are within its bounds.\<close>

definition fair_gate :: "string \<times> string \<times> string \<Rightarrow> bool" where
  "fair_gate = (\<lambda>(i, t, e). i \<noteq> [] \<and> py_len i \<le> 100 \<and> t \<noteq> [] \<and> py_len t \<le> 200 \<and> e \<noteq> [] \<and> py_len e \<le> 2000)"

lemma fair_gate_length:
  "i \<noteq> [] \<and> drop 100 i = [] \<and> t \<noteq> [] \<and> drop 200 t = [] \<and> e \<noteq> [] \<and> drop 2000 e = [] \<Longrightarrow> fair_gate (i, t, e)"
  using py_len_le [of i] py_len_le [of t] py_len_le [of e] by (simp add: fair_gate_def)

lemma check_gate_fair:
  assumes "fair_gate g" and "fst g \<notin> set seen"
  shows "check_gate (n, gate_record g) seen = Inr (seen @ [fst g])"
proof -
  obtain i t e where g: "g = (i, t, e)" by (cases g)
  have "steps [c_object (gate_record g) x, c_string (JStr i) y 100, reject (i \<in> set seen) z, c_string (JStr t) u 200,
      c_is (JStr ''not_met'') ''not_met'' v, c_string (JStr e) w 2000] = Inr ()" for x y z u v w
    using assms by (simp add: g fair_gate_def gate_record_def bounded_text_def)
  then show ?thesis
    by (auto simp: check_gate_def gate_record_def g dget_mk_dict Let_def rbind_Inr_iff)
qed

lemma check_gates_fair:
  assumes "list_all fair_gate gs" and "distinct (seen @ map fst gs)"
  shows "rfold check_gate (enumerate n (map gate_record gs)) seen = Inr (seen @ map fst gs)"
  using assms
proof (induction gs arbitrary: n seen)
  case (Cons g gs)
  then show ?case by (simp add: check_gate_fair)
qed simp

lemma gates_fair: "list_all fair_gate (common_gates @ platform_gates p)" "distinct (map fst (common_gates @ platform_gates p))"
proof -
  have c: "list_all fair_gate (common_gates @ gs) \<and> distinct (map fst (common_gates @ gs))"
    if "gs \<in> {windows_gates, linux_gates, macos_gates, platform_gates []}" for gs
    using that by (elim insertE emptyE)
      (simp_all add: fair_gate_length common_gates_def windows_gates_def linux_gates_def macos_gates_def platform_gates_def)
  have "platform_gates p \<in> {windows_gates, linux_gates, macos_gates, platform_gates []}"
    by (simp add: platform_gates_def)
  from c [OF this] show "list_all fair_gate (common_gates @ platform_gates p)" "distinct (map fst (common_gates @ platform_gates p))"
    by blast+
qed

text \<open>
  C25: Whatever the platform and the time, the readiness report keeps the existing protection: the desktop's
  validator, which refuses every report that offers a replacement or an override, accepts it, and the
  counter of unmet gates is the number of blockers, at least nine.
\<close>

theorem readiness_accepted:
  "validate_readiness (JObj (replacement_readiness system now)) = Inr (replacement_readiness system now)
   \<and> (\<exists>gs. dget (replacement_readiness system now) ''blocking_gates'' = JList (map gate_record gs) \<and> 9 \<le> length gs
      \<and> dget (obj_of (dget (replacement_readiness system now) ''gate_counts'')) ''not_met'' = JInt (int (length gs)))"
proof -
  let ?gs = "common_gates @ platform_gates (normalize_platform system)" and ?r = "replacement_readiness system now"
  have g: "dget ?r ''schema'' = JStr readiness_schema" "dget ?r ''decision'' = JStr ''keep_existing_protection''"
    "dget ?r ''eligible_for_primary_replacement'' = JBool False" "dget ?r ''existing_provider_must_remain_active'' = JBool True"
    "dget ?r ''automatic_uninstall_available'' = JBool False" "dget ?r ''manual_override_available'' = JBool False"
    "dget ?r ''blocking_gates'' = JList (map gate_record ?gs)"
    "dget ?r ''gate_counts'' = JObj (mk_dict [(''met'', JInt 0), (''not_met'', JInt (int (length ?gs))), (''total'', JInt (int (length ?gs)))])"
    by (simp_all add: replacement_readiness_def Let_def dget_mk_dict)
  have c: "dget (mk_dict [(''met'', JInt 0), (''not_met'', JInt n), (''total'', JInt n)]) ''met'' = JInt 0"
    "dget (mk_dict [(''met'', JInt 0), (''not_met'', JInt n), (''total'', JInt n)]) ''not_met'' = JInt n"
    "dget (mk_dict [(''met'', JInt 0), (''not_met'', JInt n), (''total'', JInt n)]) ''total'' = JInt n" for n
    by (simp_all add: dget_mk_dict)
  have f: "rfold check_gate (enumerate0 (map gate_record ?gs)) [] = Inr (map fst ?gs)"
  proof -
    have "enumerate0 (map gate_record ?gs) = enumerate 0 (map gate_record ?gs)"
      by (simp only: enumerate0_def enumerate_eq_zip add_0)
    moreover have "distinct ([] @ map fst ?gs)" using gates_fair(2) by (simp only: append_Nil)
    ultimately show ?thesis
      using check_gates_fair [OF gates_fair(1), of "[]" "normalize_platform system" 0] by (simp only: append_Nil)
  qed
  have l: "1 \<le> length (platform_gates p)" for p
    by (simp add: platform_gates_def windows_gates_def linux_gates_def macos_gates_def)
  have "length common_gates = 8" by (simp add: common_gates_def)
  then have n: "9 \<le> length ?gs" using l [of "normalize_platform system"] by simp
  have "validate_readiness (JObj ?r) = Inr ?r"
    unfolding validate_readiness_def Let_def obj_of.simps g list_of.simps f c length_map
    by (simp add: rbind_Inr_iff g readiness_schema_def)
  then show ?thesis using n by (intro conjI exI [of _ ?gs]) (simp_all only: g(7,8) obj_of.simps c)
qed

end
