(* ===== verification/Cli.thy ===== *)
theory Cli
  imports Auto_Update_Proofs App_Update_Proofs Contract_Reports Quarantine_Restore Scanner Status_Store Readiness
begin

text \<open>
  The commands of \<^verbatim>\<open>src/zsec_shield/cli.py\<close>: each calls the components, assembles a report from their
  results and chooses the exit code.  The parsed arguments and what happens outside the program (the
  clock, the network, random bytes) are records; the inventory of the platform, of which the commands only
  read the name of the system, is the dictionary \<open>cl_inventory\<close>.  Printing is left out, so a command
  returns its report and its exit code.
\<close>

section \<open>Arguments\<close>

record cli =
  cl_absolute :: "string \<Rightarrow> path"
  cl_environ :: environ
  cl_package :: path
  cl_state :: "string option"
  cl_keyring :: "string option"
  cl_verify :: "string \<Rightarrow> string \<Rightarrow> string \<Rightarrow> bool"
  cl_crypto :: crypto
  cl_inventory :: dict
  cl_platform :: string
  cl_now :: nat
  cl_done :: nat

definition exit_ok :: nat where "exit_ok = 0"
definition exit_findings :: nat where "exit_findings = 1"
definition exit_incomplete :: nat where "exit_incomplete = 2"

lemmas exit_defs = exit_ok_def exit_findings_def exit_incomplete_def

definition cli_state_dir :: "cli \<Rightarrow> path" where
  "cli_state_dir c = cl_absolute c (case cl_state c of Some p \<Rightarrow> p | None \<Rightarrow> default_state_dir (cl_absolute c) (cl_environ c))"

definition cli_keyring :: "cli \<Rightarrow> path io" where
  "cli_keyring c = resolve_keyring_path (cl_absolute c) (cl_package c) (cl_environ c) (cli_state_dir c) (cl_keyring c)"

section \<open>The check\<close>

record check_args =
  ck_command :: string
  ck_paths :: "path list"
  ck_max_file_bytes :: nat
  ck_chunk_bytes :: nat
  ck_cross_filesystems :: bool
  ck_quarantine :: bool
  ck_report :: "path option"

text \<open>What the scan meets: the tree, the worker process of a scanner, Windows' check of signatures, the two
  readings of the clock; and the identifiers, times and random bytes of each quarantine.\<close>

record scan_env =
  se_os :: os
  se_inspect :: "scanner \<Rightarrow> inspector"
  se_trust :: authenticode
  se_fuel :: nat
  se_started :: nat
  se_completed :: nat
  se_quarantine :: "file_finding \<Rightarrow> quarantine_input"

definition check_config :: "check_args \<Rightarrow> path \<Rightarrow> scanner_config" where
  "check_config a state_dir =
    \<lparr>sc_max_file_bytes = ck_max_file_bytes a, sc_chunk_bytes = ck_chunk_bytes a,
     sc_cross_filesystems = ck_cross_filesystems a, sc_excluded_paths = [state_dir], sc_worker_isolation = True,
     sc_worker_timeout = 45 * usec, sc_worker_max_requests = 512\<rparr>"

definition run_scan :: "scan_env \<Rightarrow> check_args \<Rightarrow> path \<Rightarrow> rule list \<Rightarrow> scan_result res" where
  "run_scan e a state_dir rules =
    rbind (new_scanner (se_os e) rules (check_config a state_dir)) (\<lambda>s.
      case scan (se_os e) s (Some (se_inspect e s)) (se_trust e) \<lparr>cb_filter = None, cb_observer = None\<rparr> True (se_fuel e)
          (se_started e) (se_completed e) (ck_paths a) () of
        None \<Rightarrow> Inl (OtherError ''the walk does not end'')
      | Some (r, _) \<Rightarrow> r)"

definition quarantine_failure :: "file_finding \<Rightarrow> exn \<Rightarrow> json \<times> scan_issue" where
  "quarantine_failure f e =
    (case e of
       QuarantinePartialError message entry_id \<Rightarrow>
         (JObj (mk_dict [(''id'', JStr entry_id), (''state'', JStr ''copy_only''), (''error'', JStr message)]),
          \<lparr>si_path = ff_path f, si_code = ''quarantine_partial'', si_message = message\<rparr>)
     | _ \<Rightarrow>
         (JObj (mk_dict [(''id'', JNull), (''state'', JStr ''failed''), (''path'', JStr (ff_path f)), (''error'', JStr (exn_text e))]),
          \<lparr>si_path = ff_path f, si_code = ''quarantine_failed'', si_message = exn_text e\<rparr>))"

definition check_quarantine :: "cli \<Rightarrow> scan_env \<Rightarrow> file_finding \<Rightarrow> (json \<times> scan_issue option) io" where
  "check_quarantine c e f =
    io_catch
      (io_bind (quarantine_finding (cl_crypto c) (se_quarantine e f) f (cli_state_dir c)) (\<lambda>d.
       io_ret (JObj (mk_dict (map (\<lambda>k. (k, dget d k)) [''id'', ''state'', ''original_path'', ''sha256''])), None)))
      is_zsec_error
      (\<lambda>x. io_ret (map_prod id Some (quarantine_failure f x)))"

fun quarantine_all :: "cli \<Rightarrow> scan_env \<Rightarrow> file_finding list \<Rightarrow> (json list \<times> scan_issue list) io" where
  "quarantine_all c e [] = io_ret ([], [])"
| "quarantine_all c e (f # fs) =
    io_bind (check_quarantine c e f) (\<lambda>(j, i).
    io_bind (quarantine_all c e fs) (\<lambda>(js, is).
    io_ret (j # js, (case i of None \<Rightarrow> is | Some x \<Rightarrow> x # is))))"

definition add_issues :: "scan_issue list \<Rightarrow> scan_result \<Rightarrow> scan_result" where
  "add_issues is r =
    (let r' = r\<lparr>sr_issues := sr_issues r @ is\<rparr>
     in r'\<lparr>sr_stats := (sr_stats r')\<lparr>st_errors := length (sr_issues r')\<rparr>\<rparr>)"

definition check_outcome :: "string \<Rightarrow> scan_result \<Rightarrow> string" where
  "check_outcome feed_state r =
    (if sr_issues r \<noteq> [] \<or> feed_state = ''invalid'' then ''incomplete''
     else if sr_findings r \<noteq> [] then ''configured_rule_matches_detected''
     else if sr_observations r \<noteq> [] then ''review_observations''
     else ''no_configured_rule_matches'')"

definition check_policy :: "bool \<Rightarrow> dict" where
  "check_policy quarantine = mk_dict
    [(''scanner_mode'', JStr ''on-demand''), (''content_worker'', JStr ''bounded_out_of_process_rules_and_review_providers''),
     (''content_worker_reduced_privilege'', JBool False),
     (''feed_behavior'', JStr ''data-only rules; no commands or actions are accepted''),
     (''quarantine_requested'', JBool quarantine), (''heuristic_observations_quarantine_eligible'', JBool False),
     (''real_time_protection'', JBool False)]"

definition check_limitations :: "string list" where
  "check_limitations =
    [''No configured match does not prove that a system is clean.'',
     ''Files above the configured size limit, unreadable files, links, special ''
       @ ''files, and skipped filesystems are not inspected.'',
     ''This MVP has no kernel driver, behavior monitoring, memory scanning, ''
       @ ''cloud reputation, or real-time protection.'']"

definition rule_counts :: "rule list \<Rightarrow> dict" where
  "rule_counts feed_rules = mk_dict
    [(''built_in'', JInt (int (length builtin_rules))), (''verified_feed'', JInt (int (length feed_rules))),
     (''total'', JInt (int (length (builtin_rules @ feed_rules))))]"

definition check_report :: "cli \<Rightarrow> check_args \<Rightarrow> feed_status \<Rightarrow> rule list \<Rightarrow> scan_result \<Rightarrow> string \<Rightarrow> json list \<Rightarrow> dict" where
  "check_report c a status feed_rules r outcome quarantined = mk_dict
    [(''schema'', JStr ''zsec.shield.report.v1''), (''version'', JStr program_version),
     (''generated_at'', JStr (format_utc (cl_done c))), (''command'', JStr (ck_command a)), (''outcome'', JStr outcome),
     (''policy'', JObj (check_policy (ck_quarantine a))), (''inventory'', JObj (cl_inventory c)),
     (''feed'', JObj (feed_status_to_dict status)), (''rules'', JObj (rule_counts feed_rules)),
     (''scan'', JObj (scan_result_to_dict r)), (''quarantine'', JList quarantined),
     (''limitations'', JList (map JStr check_limitations))]"

text \<open>The summary for the status command; a failure to write it makes the check incomplete.\<close>

definition keep_summary :: "path \<Rightarrow> scan_result \<Rightarrow> string \<Rightarrow> (scan_result \<times> string) io" where
  "keep_summary state_dir r outcome =
    io_catch
      (io_then (save_last_scan state_dir (sr_completed_at r) (int (length (sr_findings r))) (int (length (sr_issues r)))
          (int (st_files_hashed (sr_stats r))) (int (st_bytes_hashed (sr_stats r))) (int (length (sr_observations r))) outcome)
        (io_ret (r, outcome)))
      is_os_error
      (\<lambda>e. io_ret (add_issues [\<lparr>si_path = state_dir, si_code = ''status_summary_failed'', si_message = exn_text e\<rparr>] r,
         ''incomplete''))"

definition check_exit :: "scan_result \<Rightarrow> string \<Rightarrow> nat" where
  "check_exit r outcome =
    (if outcome = ''incomplete'' then exit_incomplete
     else if sr_findings r \<noteq> [] \<or> sr_observations r \<noteq> [] then exit_findings else exit_ok)"

definition command_check :: "cli \<Rightarrow> scan_env \<Rightarrow> check_args \<Rightarrow> (dict \<times> nat) io" where
  "command_check c e a =
    (let state_dir = cli_state_dir c in
     io_bind (cli_keyring c) (\<lambda>keyring_path.
     io_bind (inspect_feed (cl_verify c) state_dir keyring_path (cl_now c)) (\<lambda>(status, feed_rules).
     io_bind (io_lift (run_scan e a state_dir (builtin_rules @ feed_rules))) (\<lambda>result.
     io_bind (if ck_quarantine a then quarantine_all c e (sr_findings result) else io_ret ([], [])) (\<lambda>(quarantined, issues).
     let r = (if ck_quarantine a then add_issues issues result else result) in
     io_bind (keep_summary state_dir r (check_outcome (fs_state status) r)) (\<lambda>(r', outcome).
     let report = check_report c a status feed_rules r' outcome quarantined in
     io_then (case ck_report a of None \<Rightarrow> io_ret () | Some p \<Rightarrow> atomic_write_json (cl_absolute c p) (JObj report) 384)
     (io_ret (report, check_exit r' outcome))))))))"

section \<open>The updates\<close>

text \<open>A timeout is in microseconds.\<close>

definition check_timeout :: "int \<Rightarrow> unit res" where
  "check_timeout t =
    (if \<not> (1000000 \<le> t \<and> t \<le> 120 * 1000000) then Inl (ZsecShieldError ''timeout must be between 1 and 120 seconds'') else Inr ())"

datatype feed_source = From_Url string | From_File string

text \<open>\<open>x\<close> is what happens on the network, \<open>nfkc\<close> the Unicode tables of \<open>urlsplit\<close>.\<close>

definition fetch_feed :: "cli \<Rightarrow> (string \<Rightarrow> bool) \<Rightarrow> exchange \<Rightarrow> feed_source \<Rightarrow> (string \<times> string) io" where
  "fetch_feed c nfkc x source =
    (case source of
       From_Url url \<Rightarrow> io_bind (io_lift (download_feed nfkc x url)) (\<lambda>raw. io_ret (raw, url))
     | From_File p \<Rightarrow> io_bind (read_local_feed (cl_absolute c p)) (\<lambda>raw. io_ret (raw, cl_absolute c p)))"

definition installed_report :: "cli \<Rightarrow> path \<Rightarrow> string \<Rightarrow> string \<Rightarrow> verified_feed \<Rightarrow> dict" where
  "installed_report c keyring_path source outcome v = mk_dict
    [(''schema'', JStr ''zsec.shield.update-result.v1''), (''version'', JStr program_version),
     (''updated_at'', JStr (format_utc (cl_done c))), (''outcome'', JStr outcome), (''source'', JStr source),
     (''keyring_path'', JStr keyring_path), (''key_id'', JStr (vf_key_id v)), (''sequence'', JInt (vf_sequence v)),
     (''rules_count'', JInt (int (length (vf_rules v)))), (''expires_at'', JStr (format_utc (vf_expires_at v))),
     (''payload_sha256'', JStr (vf_payload_sha256 v)),
     (''policy'', JStr ''signed data-only rules; no command fields are accepted'')]"

definition command_update :: "cli \<Rightarrow> (string \<Rightarrow> bool) \<Rightarrow> exchange \<Rightarrow> feed_source \<Rightarrow> int \<Rightarrow> (dict \<times> nat) io" where
  "command_update c nfkc x source timeout =
    io_bind (io_lift (check_timeout timeout)) (\<lambda>_.
    io_bind (cli_keyring c) (\<lambda>keyring_path.
    io_bind (fetch_feed c nfkc x source) (\<lambda>(raw, name).
    io_bind (install_feed (cl_verify c) raw (cli_state_dir c) keyring_path (cl_now c)) (\<lambda>(outcome, verified).
    io_ret (installed_report c keyring_path name outcome verified, exit_ok)))))"

definition status_exit :: "string \<Rightarrow> nat" where
  "status_exit state = (if state = ''error'' then exit_incomplete else exit_ok)"

definition command_update_intelligence ::
    "cli \<Rightarrow> catalog_env \<Rightarrow> exchange \<Rightarrow> update_input \<Rightarrow> string \<Rightarrow> int \<Rightarrow> (dict \<times> nat) io" where
  "command_update_intelligence c env x i url timeout =
    io_bind (io_lift (check_timeout timeout)) (\<lambda>_.
    io_bind (cli_keyring c) (\<lambda>keyring_path.
    io_bind (run_automatic_update (cl_verify c) env x i (cli_state_dir c) keyring_path url) (\<lambda>status.
    io_ret (update_status_to_dict status, status_exit (us_state status)))))"

definition command_check_application_update ::
    "cli \<Rightarrow> (string \<Rightarrow> bool) \<Rightarrow> (nat \<Rightarrow> nat res) \<Rightarrow> exchange \<Rightarrow> string \<Rightarrow> int \<Rightarrow> (dict \<times> nat) io" where
  "command_check_application_update c nfkc zone x url timeout =
    io_bind (io_lift (check_timeout timeout)) (\<lambda>_.
    io_bind (io_lift (download_feed nfkc x url)) (\<lambda>raw.
    io_bind (cli_keyring c) (\<lambda>keyring_path.
    io_bind (verify_application_update_envelope (cl_verify c) zone raw keyring_path (cl_now c)) (\<lambda>notice.
    io_ret (notice, exit_ok)))))"

definition command_update_application_notice ::
    "cli \<Rightarrow> (string \<Rightarrow> bool) \<Rightarrow> exchange \<Rightarrow> update_input \<Rightarrow> string \<Rightarrow> int \<Rightarrow> (dict \<times> nat) io" where
  "command_update_application_notice c nfkc x i url timeout =
    io_bind (io_lift (check_timeout timeout)) (\<lambda>_.
    io_bind (cli_keyring c) (\<lambda>keyring_path.
    io_bind (run_automatic_application_update_check (cl_verify c) nfkc x i (cli_state_dir c) keyring_path program_version url) (\<lambda>status.
    io_ret (app_status_to_dict status, status_exit (as_state status)))))"

section \<open>The status\<close>

definition intelligence_url :: string where
  "intelligence_url = ''https://talktoai.org/zsec/intelligence/v1/feed.json''"

definition application_update_url :: string where
  "application_update_url = ''https://talktoai.org/zsec/updates/v1/stable.json''"

definition count_states :: "dict list \<Rightarrow> dict" where
  "count_states entries =
    foldl (\<lambda>d e. let s = str_of (dget e ''state'') in dput s (JInt ((case dget d s of JInt n \<Rightarrow> n | _ \<Rightarrow> 0) + 1)) d) [] entries"

text \<open>\<^verbatim>\<open>str(host.get("system") or sys.platform).lower()\<close> for an inventory whose system is a text.\<close>

definition platform_name :: "cli \<Rightarrow> string" where
  "platform_name c =
    (let system = str_of (dget (obj_of (dget (cl_inventory c) ''host'')) ''system'')
     in lower (if system \<noteq> [] then system else cl_platform c))"

definition definitions_text :: "feed_status \<Rightarrow> string" where
  "definitions_text status = py_take 80 (''built-in:'' @ program_version @ '';feed:''
     @ (case fs_sequence status of Some n \<Rightarrow> ''sequence-'' @ dec_int n | None \<Rightarrow> fs_state status))"

definition worker_record :: dict where
  "worker_record = mk_dict
    [(''mode'', JStr ''bounded_out_of_process_rules_and_review_providers''), (''path_disclosure'', JBool False),
     (''broker_digest_verification'', JBool True), (''reduced_privilege'', JBool False),
     (''hostile_format_parser_gate_met'', JBool False)]"

definition error_record :: "string \<times> string \<Rightarrow> json" where
  "error_record = (\<lambda>(entry, message). JObj (mk_dict [(''entry'', JStr entry), (''error'', JStr message)]))"

text \<open>A field of the last scan, with the value when there is none.\<close>

definition last_field :: "dict option \<Rightarrow> string \<Rightarrow> json \<Rightarrow> json" where
  "last_field recent k v = (case recent of None \<Rightarrow> v | Some d \<Rightarrow> dget d k)"

definition status_report ::
    "cli \<Rightarrow> feed_status \<Rightarrow> update_status \<Rightarrow> app_status \<Rightarrow> dict list \<Rightarrow> (string \<times> string) list \<Rightarrow> dict option
     \<Rightarrow> string option \<Rightarrow> dict" where
  "status_report c feed update app entries errors recent error = mk_dict
    [(''schema'', JStr ''zsec.shield.status.v2''), (''contract_version'', JInt 2), (''version'', JStr program_version),
     (''generated_at'', JStr (format_utc (cl_done c))), (''platform'', JStr (platform_name c)),
     (''definitions'', JStr (definitions_text feed)), (''last_scan'', last_field recent ''completed_at'' JNull),
     (''findings'', last_field recent ''findings'' (JInt 0)), (''observations'', last_field recent ''observations'' (JInt 0)),
     (''last_scan_outcome'', last_field recent ''outcome'' JNull), (''last_scan_errors'', last_field recent ''issues'' (JInt 0)),
     (''last_scan_files_hashed'', last_field recent ''files_hashed'' JNull),
     (''last_scan_bytes_hashed'', last_field recent ''bytes_hashed'' JNull),
     (''last_scan_diagnostic'', JObj (mk_dict [(''available'', JBool (recent \<noteq> None)), (''error'', opt_str error)])),
     (''quarantine_count'', JInt (int (length entries))), (''scanner_mode'', JStr ''on-demand''),
     (''content_worker'', JObj worker_record), (''real_time_protection'', JBool False),
     (''state_dir'', JStr (cli_state_dir c)), (''built_in_rules'', JInt (int (length builtin_rules))),
     (''feed'', JObj (feed_status_to_dict feed)), (''update_status'', JObj (ddel ''schema'' (update_status_to_dict update))),
     (''application_update_status'', JObj (ddel ''schema'' (app_status_to_dict app))),
     (''quarantine'', JObj (mk_dict [(''entries'', JInt (int (length entries))), (''states'', JObj (count_states entries)),
        (''metadata_errors'', JList (map error_record errors))])),
     (''inventory'', JObj (cl_inventory c))]"

definition command_status :: "cli \<Rightarrow> (nat \<Rightarrow> nat res) \<Rightarrow> string list res \<Rightarrow> (dict \<times> nat) io" where
  "command_status c zone listing =
    (let state_dir = cli_state_dir c in
     io_bind (cli_keyring c) (\<lambda>keyring_path.
     io_bind (inspect_feed (cl_verify c) state_dir keyring_path (cl_now c)) (\<lambda>(feed, _).
     io_bind (load_automatic_update_status zone state_dir intelligence_url (cl_now c)) (\<lambda>update.
     io_bind (load_application_update_status zone state_dir program_version application_update_url (cl_now c)) (\<lambda>app.
     io_bind (list_entries (cl_crypto c) listing state_dir) (\<lambda>(entries, errors).
     io_bind (load_last_scan state_dir) (\<lambda>(recent, error).
     io_ret (status_report c feed update app entries errors recent error,
       if fs_state feed = ''invalid'' \<or> errors \<noteq> [] \<or> error \<noteq> None then exit_incomplete else exit_ok))))))))"

section \<open>The readiness, the quarantine\<close>

definition command_replacement_readiness :: "cli \<Rightarrow> string option \<Rightarrow> string \<Rightarrow> dict \<times> nat" where
  "command_replacement_readiness c platform system =
    (replacement_readiness (case platform of Some p \<Rightarrow> p | None \<Rightarrow> system) (cl_done c), exit_incomplete)"

definition command_quarantine_list :: "cli \<Rightarrow> string list res \<Rightarrow> (dict \<times> nat) io" where
  "command_quarantine_list c listing =
    io_bind (list_entries (cl_crypto c) listing (cli_state_dir c)) (\<lambda>(entries, errors).
    io_ret (mk_dict
      [(''schema'', JStr ''zsec.shield.quarantine-list.v1''), (''generated_at'', JStr (format_utc (cl_done c))),
       (''state_dir'', JStr (cli_state_dir c)), (''entries'', JList (map JObj entries)),
       (''errors'', JList (map error_record errors))],
      if errors \<noteq> [] then exit_incomplete else exit_ok))"

definition command_restore :: "cli \<Rightarrow> restore_input \<Rightarrow> string \<Rightarrow> path option \<Rightarrow> (dict \<times> nat) io" where
  "command_restore c inp entry_id destination =
    io_bind (restore_entry (cl_crypto c) inp entry_id (cli_state_dir c) destination) (\<lambda>d.
    io_ret (foldl (\<lambda>acc (k, v). dput k v acc)
       (mk_dict [(''schema'', JStr ''zsec.shield.restore-result.v1''), (''restored_at'', JStr (format_utc (cl_done c)))]) d, exit_ok))"

section \<open>The exit of the program\<close>

text \<open>\<open>main\<close>: an exception of the program is reported under its name, every other one as unexpected, unless
  \<^verbatim>\<open>--debug\<close> lets it through.\<close>

definition error_report :: "exn \<Rightarrow> dict" where
  "error_report e = mk_dict
    (if is_zsec_error e then
       [(''schema'', JStr ''zsec.shield.error.v1''), (''error'', JStr (exn_name e)), (''message'', JStr (exn_text e))]
     else
       [(''schema'', JStr ''zsec.shield.error.v1''), (''error'', JStr ''UnexpectedError''),
        (''message'', JStr (''unexpected failure: '' @ exn_name e @ '': '' @ exn_text e))])"

definition main :: "bool \<Rightarrow> (dict \<times> nat) io \<Rightarrow> (dict \<times> nat) io" where
  "main debug handler =
    io_catch handler (\<lambda>e. is_zsec_error e \<or> \<not> debug) (\<lambda>e. io_ret (error_report e, exit_incomplete))"

end
