(* ===== verification/Cli_Status.thy ===== *)
theory Cli_Status
  imports Cli Contract_Examples Crypto_Vault_Proofs
begin

text \<open>
  The status command and the desktop: what the readers of the state directory guarantee of what they
  return is what the validator of the desktop asks for, up to the lengths of some texts.
\<close>

section \<open>The status\<close>

lemma inspect_feed_state:
  assumes "inspect_feed vf D kp now w = (Inr (s, rules), w')"
  shows "fs_state s \<in> set [''absent'', ''valid'', ''invalid'']"
proof -
  have n: "fs_state (plain_status x p k e) = x" "fs_state (valid_status v p k) = ''valid''" for x p k e v
    by (simp_all add: plain_status_def valid_status_def)
  show ?thesis
    using assms unfolding inspect_feed_def Let_def io_inv
    by (auto simp: io_inv n split: if_splits)
qed

text \<open>What the desktop needs of a status of the update of the catalog, whatever the file held.\<close>

definition shown_update :: "(nat \<Rightarrow> nat res) \<Rightarrow> string \<Rightarrow> update_status \<Rightarrow> bool" where
  "shown_update zone source s =
    (us_state s \<in> set [''never_checked'', ''current'', ''updated'', ''error''] \<and> us_source s = source
     \<and> opt_all (readable_time zone) (us_checked s) \<and> opt_all (readable_time zone) (us_success s)
     \<and> opt_all (readable_time zone) (us_expires s) \<and> readable_time zone (us_next s) \<and> opt_all (\<lambda>n. 1 \<le> n) (us_sequence s))"

lemma validated_update:
  assumes "validate_update_status zone v = Inr s"
  shows "shown_update zone (us_source s) s"
proof -
  define d where "d = obj_of v"
  define g where "g = dget d"
  define nx where "nx = g ''next_check_at''"
  define st where "st = g ''state''"
  define states where "states = [''never_checked'', ''current'', ''updated'', ''error'']"
  from assms obtain sq t source e where st: "in_set st states = Inr True"
    and t: "update_time zone nx ''next_check_at'' = Inr t"
    and tm: "optional_update_time zone d ''last_checked_at'' = Inr ()" "optional_update_time zone d ''last_success_at'' = Inr ()"
      "optional_update_time zone d ''feed_expires_at'' = Inr ()"
    and sq: "optional_sequence ''automatic update status feed_sequence is invalid'' (g ''feed_sequence'') = Inr sq"
    and s: "s = \<lparr>us_state = str_of st, us_checked = opt_text (g ''last_checked_at''),
       us_success = opt_text (g ''last_success_at''), us_next = str_of nx, us_sequence = sq,
       us_expires = opt_text (g ''feed_expires_at''), us_source = source, us_error = e\<rparr>"
    unfolding validate_update_status_def Let_def d_def [symmetric] g_def [symmetric] nx_def [symmetric]
      st_def [symmetric] states_def [symmetric] rbind_Inr_iff if_Inr_iff by auto
  have "\<exists>x. st = JStr x \<and> x \<in> set states" using st by (auto simp: in_set_Inr)
  moreover have "\<exists>x. nx = JStr x" by (rule update_time_str [OF t])
  ultimately show ?thesis
    using optional_sequence_all [OF sq] optional_time_all [OF tm(1)] optional_time_all [OF tm(2)] optional_time_all [OF tm(3)] t
    by (auto simp: shown_update_def s g_def states_def [symmetric] time_field [of _ _ "''next_check_at''"])
qed

lemma loaded_update:
  assumes "load_automatic_update_status zone D source now w = (Inr s, w')" and "now < max_time"
  shows "shown_update zone source s"
proof -
  have blank: "shown_update zone source (blank_update_status state source now e)"
    if "state \<in> set [''never_checked'', ''current'', ''updated'', ''error'']" for state e
    using that assms(2) by (simp add: shown_update_def blank_update_status_def opt_all_def readable_format)
  have read: "shown_update zone (us_source x) x"
    if "read_update_status zone p source now w1 = (Inr x, w2)" for p x w1 w2
    using that blank [of "''error''"] unfolding read_update_status_def
    by (auto simp: io_inv intro: validated_update) (auto simp: blank_update_status_def)
  show ?thesis
  proof (cases "s = blank_update_status ''never_checked'' source now None")
    case True
    then show ?thesis using blank [of "''never_checked''"] by simp
  next
    case False
    with assms(1) obtain x p w1 w2 where x: "read_update_status zone p source now w1 = (Inr x, w2)"
      and s: "s = (if us_source x \<noteq> source then
           x\<lparr>us_state := ''never_checked'', us_next := format_utc now, us_source := source, us_error := None\<rparr> else x)"
      unfolding load_automatic_update_status_def Let_def by (auto simp: io_inv split: if_splits)
    from read [OF x] show ?thesis using assms(2) by (auto simp: s shown_update_def readable_format)
  qed
qed


text \<open>What the reader of the last scan guarantees of a record.\<close>

definition shown_scan :: "dict \<Rightarrow> bool" where
  "shown_scan d =
    (is_str (dget d ''completed_at'') \<and> str_of (dget d ''completed_at'') \<noteq> []
     \<and> valid_counter (dget d ''findings'') \<and> valid_counter (dget d ''issues'') \<and> valid_counter (dget d ''observations'')
     \<and> dget d ''outcome'' \<in> JStr ` set known_outcomes
     \<and> outcome_counters (dget d ''outcome'') (int_of (dget d ''findings'')) (int_of (dget d ''observations'')) (int_of (dget d ''issues'')) = Inr ())"

lemma loaded_scan:
  assumes "load_last_scan dir w = (Inr (Some d, m), w')"
  shows "shown_scan d \<and> m = None"
proof -
  from load_last_scan_Inr [OF assms] obtain raw where m: "m = None" and raw: "parse_last_scan raw = Inr d" by blast
  then obtain x where x: "strict_json_loads raw = Inr x" and c: "check_last_scan x = Inr d"
    by (auto simp: parse_last_scan_def split: sum.splits)
  obtain e where e: "x = JObj e" using c by (cases x) (simp_all add: check_last_scan_def)
  have wf: "wf_dict e" using strict_json_loads_parsed [OF x] by (simp add: e)
  obtain v where v: "last_scan_version (dget e ''schema'') = Some v"
    using c by (auto simp: e check_last_scan_def Let_def split: option.splits)
  then have v3: "v = 1 \<or> v = 2 \<or> v = 3" by (auto simp: last_scan_version_def split: if_splits)
  from c v have d: "d = upgrade_last_scan v e"
    and counters: "list_all (\<lambda>k. valid_counter (dget e k))
        (filter (\<lambda>k. k \<notin> set [''schema'', ''completed_at'', ''outcome'']) (last_scan_fields v))"
    and at: "is_str (dget e ''completed_at'')" "str_of (dget e ''completed_at'') \<noteq> []"
    and oc: "is_str (dget e ''outcome'')" "str_of (dget e ''outcome'') \<in> set last_scan_outcomes"
    and p: "outcome_problem v (str_of (dget e ''outcome'')) (int_of (dget e ''findings''))
                   (int_of (dget e ''issues'')) (int_of (dget e ''observations'')) = None"
    by (auto simp: e check_last_scan_def Let_def split: if_splits option.splits)
  have fi: "valid_counter (dget e ''findings'')" "valid_counter (dget e ''issues'')"
    using counters by (simp_all add: last_scan_fields_def)
  have same: "dget d k = dget e k" if "k \<in> set [''completed_at'', ''outcome'', ''findings'', ''issues'']" for k
    unfolding d by (rule upgrade_fields [OF wf]) (use that in auto)
  have obs: "valid_counter (dget d ''observations'') \<and> (if v = 3 then dget d ''observations'' = dget e ''observations'' else dget d ''observations'' = JInt 0)"
  proof (cases "v = 3")
    case True
    then show ?thesis using counters by (simp add: d upgrade_last_scan_def last_scan_fields_def)
  next
    case False
    with v3 have "dget d ''observations'' = JInt 0" unfolding d by (intro upgrade_observations [OF wf]) simp
    then show ?thesis using False by (simp add: valid_counter_def)
  qed
  obtain o' where o: "dget e ''outcome'' = JStr o'" "o' \<in> set last_scan_outcomes" using oc by (cases "dget e ''outcome''") auto
  have k: "set last_scan_outcomes = set known_outcomes" by (auto simp: last_scan_outcomes_def known_outcomes_def)
  have "outcome_counters (JStr o') (int_of (dget d ''findings'')) (int_of (dget d ''observations'')) (int_of (dget d ''issues'')) = Inr ()"
    using p obs fi o(2) by (auto simp: o same outcome_counters_def outcome_problem_def valid_counter_def split: if_splits)
  then show ?thesis using at fi obs o m by (auto simp: shown_scan_def same k)
qed

text \<open>The texts of a status that the desktop bounds, with the bounds.\<close>

definition desktop_texts :: "dict \<Rightarrow> (json \<times> nat) list" where
  "desktop_texts d =
    (let update = dget (obj_of (dget d ''update_status'')) in
     [(dget d ''platform'', 80), (dget d ''last_scan'', 80), (dget (obj_of (dget d ''last_scan_diagnostic'')) ''error'', 1000),
      (update ''last_checked_at'', 80), (update ''last_success_at'', 80), (update ''feed_expires_at'', 80), (update ''next_check_at'', 80),
      (update ''error'', 500)])"


definition in_bounds :: "json \<times> nat \<Rightarrow> bool" where
  "in_bounds = (\<lambda>(v, n). v = JNull \<or> bounded_text v n)"

lemma shown_time:
  assumes "opt_all (readable_time zone) x"
  shows "c_optional_time (opt_str x) f = Inr () \<longleftrightarrow> in_bounds (opt_str x, 80)"
proof (cases x)
  case (Some s)
  with assms have "ends_with s ''Z'' \<and> from_iso (butlast s @ ''+00:00'') \<noteq> None"
    by (auto simp: opt_all_def readable_time_def is_Inr_iff update_time_def Let_def split: if_splits option.splits)
  then show ?thesis by (auto simp: Some c_optional_time_def opt_str_def in_bounds_def rbind_Inr_iff)
qed (simp add: c_optional_time_def opt_str_def in_bounds_def rbind_Inr_iff)

lemma shown_next: "readable_time zone s \<Longrightarrow> c_optional_time (JStr s) f = Inr () \<longleftrightarrow> in_bounds (JStr s, 80)"
  using shown_time [of zone "Some s" f] by (simp add: opt_all_def opt_str_def)

lemma shown_keys:
  "dget (ddel ''schema'' (update_status_to_dict s)) ''state'' = JStr (us_state s)"
  "dget (ddel ''schema'' (update_status_to_dict s)) ''last_checked_at'' = opt_str (us_checked s)"
  "dget (ddel ''schema'' (update_status_to_dict s)) ''last_success_at'' = opt_str (us_success s)"
  "dget (ddel ''schema'' (update_status_to_dict s)) ''next_check_at'' = JStr (us_next s)"
  "dget (ddel ''schema'' (update_status_to_dict s)) ''feed_sequence'' = opt_int (us_sequence s)"
  "dget (ddel ''schema'' (update_status_to_dict s)) ''feed_expires_at'' = opt_str (us_expires s)"
  "dget (ddel ''schema'' (update_status_to_dict s)) ''source'' = JStr (us_source s)"
  "dget (ddel ''schema'' (update_status_to_dict s)) ''error'' = opt_str (us_error s)"
  by (simp_all add: dget_ddel update_status_to_dict_def dget_mk_dict)

lemma update_shown:
  assumes "shown_update zone intelligence_url s"
  shows "check_update_status (JObj (ddel ''schema'' (update_status_to_dict s))) = Inr () \<longleftrightarrow>
    in_bounds (opt_str (us_checked s), 80) \<and> in_bounds (opt_str (us_success s), 80) \<and> in_bounds (opt_str (us_expires s), 80)
    \<and> in_bounds (JStr (us_next s), 80) \<and> in_bounds (opt_str (us_error s), 500)"
proof -
  note a = assms [unfolded shown_update_def]
  have t: "c_optional_time (opt_str (us_checked s)) f = Inr () \<longleftrightarrow> in_bounds (opt_str (us_checked s), 80)"
    "c_optional_time (opt_str (us_success s)) f = Inr () \<longleftrightarrow> in_bounds (opt_str (us_success s), 80)"
    "c_optional_time (opt_str (us_expires s)) f = Inr () \<longleftrightarrow> in_bounds (opt_str (us_expires s), 80)"
    "c_optional_time (JStr (us_next s)) f = Inr () \<longleftrightarrow> in_bounds (JStr (us_next s), 80)" for f
    using a shown_time shown_next by blast+
  have src: "us_source s = intelligence_url" "bounded_text (JStr intelligence_url) 2048"
    using a py_len_le [of intelligence_url] by (simp_all add: bounded_text_def intelligence_url_def)
  have sq: "(if opt_int (us_sequence s) = JNull then Inr () else c_integer (opt_int (us_sequence s)) f 0) = Inr ()"
    "\<not> (opt_int (us_sequence s) \<noteq> JNull \<and> int_of (opt_int (us_sequence s)) < 1)" for f
    using a by (cases "us_sequence s"; simp add: opt_int_def opt_all_def)+
  show ?thesis
    unfolding check_update_status_def Let_def obj_of.simps shown_keys list.map
    by (simp add: t src sq in_bounds_def) (use a in \<open>auto simp: intelligence_url_def\<close>)
qed


lemma report_keys:
  "dget (status_report c feed update app entries errors recent error) ''schema'' = JStr ''zsec.shield.status.v2''"
  "dget (status_report c feed update app entries errors recent error) ''contract_version'' = JInt 2"
  "dget (status_report c feed update app entries errors recent error) ''version'' = JStr program_version"
  "dget (status_report c feed update app entries errors recent error) ''generated_at'' = JStr (format_utc (cl_done c))"
  "dget (status_report c feed update app entries errors recent error) ''platform'' = JStr (platform_name c)"
  "dget (status_report c feed update app entries errors recent error) ''scanner_mode'' = JStr ''on-demand''"
  "dget (status_report c feed update app entries errors recent error) ''content_worker'' = JObj worker_record"
  "dget (status_report c feed update app entries errors recent error) ''real_time_protection'' = JBool False"
  "dget (status_report c feed update app entries errors recent error) ''feed'' = JObj (feed_status_to_dict feed)"
  "dget (status_report c feed update app entries errors recent error) ''update_status'' = JObj (ddel ''schema'' (update_status_to_dict update))"
  "dget (status_report c feed update app entries errors recent error) ''quarantine_count'' = JInt (int (length entries))"
  "dget (status_report c feed update app entries errors recent error) ''quarantine'' = JObj (mk_dict [(''entries'', JInt (int (length entries))),
     (''states'', JObj (count_states entries)), (''metadata_errors'', JList (map error_record errors))])"
  by (simp_all add: status_report_def dget_mk_dict)

lemma report_scan_keys:
  "dget (status_report c feed update app entries errors recent error) ''last_scan'' = last_field recent ''completed_at'' JNull"
  "dget (status_report c feed update app entries errors recent error) ''findings'' = last_field recent ''findings'' (JInt 0)"
  "dget (status_report c feed update app entries errors recent error) ''observations'' = last_field recent ''observations'' (JInt 0)"
  "dget (status_report c feed update app entries errors recent error) ''last_scan_outcome'' = last_field recent ''outcome'' JNull"
  "dget (status_report c feed update app entries errors recent error) ''last_scan_errors'' = last_field recent ''issues'' (JInt 0)"
  "dget (status_report c feed update app entries errors recent error) ''last_scan_diagnostic'' =
     JObj (mk_dict [(''available'', JBool (recent \<noteq> None)), (''error'', opt_str error)])"
  by (simp_all add: status_report_def dget_mk_dict)

lemma scan_shown:
  assumes "\<And>d. recent = Some d \<Longrightarrow> shown_scan d \<and> error = None"
  shows "check_scan_state (status_report c feed update app entries errors recent error) = Inr () \<longleftrightarrow>
    in_bounds (last_field recent ''completed_at'' JNull, 80) \<and> in_bounds (opt_str error, 1000)"
proof (cases recent)
  case None
  then show ?thesis
    unfolding check_scan_state_def Let_def report_scan_keys
    by (simp add: last_field_def dget_mk_dict in_bounds_def outcome_counters_def)
next
  case (Some d)
  from assms [OF Some] have d: "shown_scan d" and e: "error = None" by simp_all
  note k = d [unfolded shown_scan_def]
  obtain t where t: "dget d ''completed_at'' = JStr t" "t \<noteq> []" using k by (auto simp: is_str_iff)
  obtain o' where o: "dget d ''outcome'' = JStr o'" "o' \<in> set known_outcomes" using k by auto
  have c: "dget (mk_dict [(''available'', JBool (recent \<noteq> None)), (''error'', opt_str error)]) ''available'' = JBool True"
    "dget (mk_dict [(''available'', JBool (recent \<noteq> None)), (''error'', opt_str error)]) ''error'' = JNull"
    by (simp_all add: dget_mk_dict Some e opt_str_def)
  show ?thesis
    unfolding check_scan_state_def Let_def report_scan_keys obj_of.simps c
    using k t o by (simp add: Some last_field_def e opt_str_def in_bounds_def valid_counter_def)
qed

lemma worker_shown: "check_worker (JObj worker_record) = Inr ()"
  by (simp add: check_worker_def worker_record_def dget_mk_dict)


lemma program_text: "bounded_text (JStr program_version) 80"
  using py_len_le [of program_version] by (simp add: bounded_text_def program_version_def)

lemma time_text: "t < max_time \<Longrightarrow> bounded_text (JStr (format_utc t)) 80"
  using py_len_le [of "format_utc t"] utc_text_shape(1) [of t] by (simp add: bounded_text_def format_utc_text)

lemma platform_bounds: "in_bounds (JStr s, n) \<longleftrightarrow> bounded_text (JStr s) n"
  by (simp add: in_bounds_def)

text \<open>
  C23: Whatever the files of the state directory hold and whatever call fails, the desktop accepts the status
  that the program reports exactly when the texts the program takes over unchecked are within the desktop's
  bounds: the name of the platform, the time of the last scan, the two error texts and the times of the
  advisory update.  Everything else in the report always fits.
\<close>

theorem status_accepted:
  assumes "command_status c zone listing w = (Inr (report, code), w')"
    and "cl_now c < max_time" and "cl_done c < max_time"
  shows "validate_status rt (JObj report) = Inr report \<longleftrightarrow> list_all in_bounds (desktop_texts report)"
proof -
  from assms(1) obtain kp w1 w2 w3 w4 w5 w6 feed rules update app entries errors recent error where
    feed: "inspect_feed (cl_verify c) (cli_state_dir c) kp (cl_now c) w1 = (Inr (feed, rules), w2)"
    and update: "load_automatic_update_status zone (cli_state_dir c) intelligence_url (cl_now c) w2 = (Inr update, w3)"
    and scan: "load_last_scan (cli_state_dir c) w5 = (Inr (recent, error), w6)"
    and r: "report = status_report c feed update app entries errors recent error"
    unfolding command_status_def Let_def by (auto simp: io_inv split: prod.splits)
  have s: "recent = Some d \<Longrightarrow> shown_scan d \<and> error = None" for d using loaded_scan scan by blast
  have f: "dget (feed_status_to_dict feed) ''state'' = JStr (fs_state feed)" "fs_state feed \<in> set [''absent'', ''valid'', ''invalid'']"
    using inspect_feed_state [OF feed] by (simp_all add: feed_status_to_dict_def dget_mk_dict)
  have q: "dget (mk_dict [(''entries'', JInt (int (length entries))), (''states'', x), (''metadata_errors'', y)]) ''entries'' = JInt (int (length entries))"
    "dget (mk_dict [(''entries'', JInt (int (length entries))), (''states'', x), (''metadata_errors'', y)]) ''metadata_errors'' = y" for x y
    by (simp_all add: dget_mk_dict)
  note u = update_shown [OF loaded_update [OF update assms(2)]]
  have e: "dget (mk_dict [(''available'', JBool (recent \<noteq> None)), (''error'', opt_str error)]) ''error'' = opt_str error"
    by (simp add: dget_mk_dict)
  have "validate_status rt (JObj report) = Inr report \<longleftrightarrow>
      bounded_text (JStr (platform_name c)) 80 \<and> check_scan_state report = Inr ()
      \<and> check_update_status (JObj (ddel ''schema'' (update_status_to_dict update))) = Inr ()"
    unfolding validate_status_def Let_def obj_of.simps r report_keys f q
    using program_text time_text [OF assms(3)] f(2)
    by (simp add: rbind_Inr_iff report_keys equals_int_def worker_shown)
  moreover have "check_scan_state report = Inr () \<longleftrightarrow>
      in_bounds (last_field recent ''completed_at'' JNull, 80) \<and> in_bounds (opt_str error, 1000)"
    unfolding r by (rule scan_shown [OF s])
  ultimately show ?thesis
    unfolding desktop_texts_def Let_def r report_keys report_scan_keys obj_of.simps shown_keys e u
    by (auto simp: platform_bounds)
qed

section \<open>A concrete run\<close>

text \<open>A system without any file, on which no call fails.\<close>

definition barren :: "world \<Rightarrow> bool" where
  "barren w = (quiet w \<and> (\<forall>p. view (w_fs w) p = None))"

lemma barren_absent: "barren w \<Longrightarrow> path_exists p w = (Inr False, tick w)"
  by (simp add: barren_def quiet_absent)

lemma barren_tick: "barren w \<Longrightarrow> barren (tick w)"
  by (simp add: barren_def)

lemma barren_empty: "barren empty_world"
  using empty_world_ok(1) by (simp add: barren_def empty_world_def view_def)

lemma barren_reads:
  assumes "barren w"
  shows "\<exists>w'. barren w' \<and> inspect_feed vf D kp now w = (Inr (plain_status ''absent'' (feed_document_path D) kp None, []), w')"
    and "\<exists>w'. barren w' \<and> load_automatic_update_status zone D source now w = (Inr (blank_update_status ''never_checked'' source now None), w')"
    and "parse_release_version (JStr installed) = Inr x \<Longrightarrow>
      \<exists>w'. barren w' \<and> load_application_update_status zone D installed source now w = (Inr (blank_app_status ''never_checked'' installed source now None), w')"
    and "\<exists>w'. barren w' \<and> list_entries cr listing D w = (Inr ([], []), w')"
    and "\<exists>w'. barren w' \<and> load_last_scan D w = (Inr (None, None), w')"
proof -
  note b = assms barren_tick [OF assms] barren_tick [OF barren_tick [OF assms]]
  note r = barren_absent [OF b(1)] barren_absent [OF b(2)]
  show "\<exists>w'. barren w' \<and> inspect_feed vf D kp now w = (Inr (plain_status ''absent'' (feed_document_path D) kp None, []), w')"
    using b by (auto simp: inspect_feed_def Let_def io_bind_def r io_ret_def intro!: exI [of _ "tick (tick w)"])
  show "\<exists>w'. barren w' \<and> load_automatic_update_status zone D source now w = (Inr (blank_update_status ''never_checked'' source now None), w')"
    "parse_release_version (JStr installed) = Inr x \<Longrightarrow>
      \<exists>w'. barren w' \<and> load_application_update_status zone D installed source now w = (Inr (blank_app_status ''never_checked'' installed source now None), w')"
    "\<exists>w'. barren w' \<and> list_entries cr listing D w = (Inr ([], []), w')"
    "\<exists>w'. barren w' \<and> load_last_scan D w = (Inr (None, None), w')"
    using b by (auto simp: load_automatic_update_status_def load_application_update_status_def list_entries_def load_last_scan_def
        Let_def io_bind_def io_lift_def r io_ret_def intro!: exI [of _ "tick w"])
qed

definition ex_cli :: cli where
  "ex_cli = \<lparr>cl_absolute = id, cl_environ = \<lparr>ev_shield_home = [], ev_keyring = [], ev_localappdata = [], ev_xdg_state_home = [],
       ev_system = ''Linux'', ev_user_home = ''/h''\<rparr>,
     cl_package = ''/p'', cl_state = Some ''/d'', cl_keyring = Some ''/k'', cl_verify = (\<lambda>_ _ _. False),
     cl_crypto = toy, cl_inventory = [], cl_platform = ''Linux'', cl_now = 0, cl_done = 0\<rparr>"

definition ex_report :: dict where
  "ex_report = status_report ex_cli (plain_status ''absent'' (feed_document_path ''/d'') ''/k'' None)
     (blank_update_status ''never_checked'' intelligence_url 0 None)
     (blank_app_status ''never_checked'' program_version application_update_url 0 None) [] [] None None"

lemma ex_status_run: "\<exists>w'. command_status ex_cli Inr (Inr []) empty_world = (Inr (ex_report, exit_ok), w')"
proof -
  obtain v where v: "parse_release_version (JStr program_version) = Inr v"
    by (simp add: program_version_def parse_release_version_def Let_def is_digit_def digit_val_def ord_def nat_of_dec_def)
  have d: "cli_state_dir ex_cli = ''/d''" "cli_keyring ex_cli w = (Inr ''/k'', w)" for w
    by (simp_all add: cli_state_dir_def cli_keyring_def ex_cli_def resolve_keyring_path_def io_ret_def)
  have s: "fs_state (plain_status x p k e) = x" for x p k e by (simp add: plain_status_def)
  note r = barren_reads
  obtain w1 w2 w3 w4 w5 where "barren w1" "barren w2" "barren w3" "barren w4"
    and a: "inspect_feed (cl_verify ex_cli) ''/d'' ''/k'' (cl_now ex_cli) empty_world
        = (Inr (plain_status ''absent'' (feed_document_path ''/d'') ''/k'' None, []), w1)"
      "load_automatic_update_status Inr ''/d'' intelligence_url (cl_now ex_cli) w1
        = (Inr (blank_update_status ''never_checked'' intelligence_url (cl_now ex_cli) None), w2)"
      "load_application_update_status Inr ''/d'' program_version application_update_url (cl_now ex_cli) w2
        = (Inr (blank_app_status ''never_checked'' program_version application_update_url (cl_now ex_cli) None), w3)"
      "list_entries (cl_crypto ex_cli) (Inr []) ''/d'' w3 = (Inr ([], []), w4)"
      "load_last_scan ''/d'' w4 = (Inr (None, None), w5)"
    using r(1) [OF barren_empty] r(2) r(3) [OF _ v] r(4) r(5) by metis
  have n: "cl_now ex_cli = 0" by (simp add: ex_cli_def)
  show ?thesis
    by (simp add: command_status_def Let_def d io_bind_def n a [unfolded n] s ex_report_def io_ret_def)
qed

lemma status_accepted_witness: "validate_status ex_runtime (JObj ex_report) = Inr ex_report"
proof -
  have "list_all in_bounds (desktop_texts ex_report)"
    unfolding desktop_texts_def Let_def ex_report_def report_keys report_scan_keys obj_of.simps shown_keys
    using time_text [of 0] py_len_le [of "platform_name ex_cli"]
    by (simp add: blank_update_status_def in_bounds_def opt_str_def last_field_def dget_mk_dict max_time_def max_day_def usec_day_def)
      (simp add: platform_name_def ex_cli_def bounded_text_def lower_def dget_def)
  moreover obtain w' where "command_status ex_cli Inr (Inr []) empty_world = (Inr (ex_report, exit_ok), w')"
    using ex_status_run by blast
  ultimately show ?thesis
    using status_accepted [of ex_cli Inr "Inr []" empty_world ex_report exit_ok w' ex_runtime]
    by (simp add: ex_cli_def max_time_def max_day_def usec_day_def)
qed

end
