(* ===== verification/Cli_Reports.thy ===== *)
theory Cli_Reports
  imports Cli_Status Vault_Entry Scanner_Proofs
begin

text \<open>
  The reports of the other commands and the desktop: the result of a feed update, the list of the
  quarantine, the report of a check and its exit code.
\<close>

section \<open>The feed update\<close>

lemma digest_accepted: "c_digest (JStr (hexdigest b)) f m = Inr ()"
proof -
  have l: "py_len (hexdigest b) = 64" "hexdigest b \<noteq> []"
    using hexdigest_ascii [of b] hexdigest_length [of b] by (auto simp: py_len_ascii simp del: hexdigest_length)
  have "list_all lower_hex_digit (hexdigest b)"
    using hexdigest_lower [of b] by (simp add: list_all_iff lower_hex_digit_def is_hex_lower_def)
  with l show ?thesis by (simp add: c_digest_def bounded_text_def)
qed

lemma io_finally_Inr: "io_finally m c w = (Inr x, w'') \<Longrightarrow> \<exists>w'. m w = (Inr x, w')"
  by (auto simp: io_finally_def split: prod.splits sum.splits)

lemma install_feed_Inr:
  assumes "install_feed vf raw D kp now w = (Inr (outcome, v), w')"
  shows "(outcome = ''installed'' \<or> outcome = ''unchanged'') \<and> (\<exists>keyring. verify_feed_document vf raw keyring now = Inr v)"
proof -
  from assms obtain keyring w1 w2 m where v: "verify_feed_document vf raw keyring now = Inr v"
    and "update_lock (feed_lock_path D) m w1 = (Inr outcome, w2)"
    and m: "m = io_bind (read_state (feed_state_path D)) (\<lambda>previous.
       io_bind (io_lift (rollback_check previous v)) (\<lambda>outcome.
       io_bind (io_lift (indented_json_bytes (JObj (vf_document v)))) (\<lambda>normalized.
       io_then (atomic_write_bytes (feed_document_path D) normalized 384)
       (io_then (atomic_write_json (feed_state_path D) (JObj (state_record v now)) 384)
       (io_ret outcome)))))"
    unfolding install_feed_def by (auto simp: io_inv)
  then obtain w3 w4 where "m w3 = (Inr outcome, w4)"
    unfolding update_lock_def io_inv by (auto dest: io_finally_Inr)
  then obtain previous where "rollback_check previous v = Inr outcome"
    by (auto simp: m io_inv)
  then show ?thesis using v by (auto simp: rollback_check_def Let_def split: option.splits if_splits)
qed

text \<open>
  Whatever the source of a feed and whatever call fails, the result of an update that returns is one the
  desktop accepts: it names the outcome, a positive sequence and the digest of the signed payload.
\<close>

theorem update_accepted:
  assumes "command_update c nfkc x source timeout w = (Inr (report, code), w')"
  shows "validate_feed_update (JObj report) = Inr report"
proof -
  from assms obtain kp name raw outcome v w1 w2 where
    i: "install_feed (cl_verify c) raw (cli_state_dir c) kp (cl_now c) w1 = (Inr (outcome, v), w2)"
    and r: "report = installed_report c kp name outcome v"
    unfolding command_update_def by (auto simp: io_inv split: prod.splits)
  from install_feed_Inr [OF i] obtain keyring where o: "outcome = ''installed'' \<or> outcome = ''unchanged''"
    and v: "verify_feed_document (cl_verify c) raw keyring (cl_now c) = Inr v" by blast
  obtain b payload where s: "vf_payload_sha256 v = hexdigest b"
    and q: "verify_payload payload (cl_now c) = Inr (vf_sequence v, vf_generated_at v, vf_expires_at v, vf_rules v)"
    by (rule verify_feed_Inr [OF v])
  have g: "dget report ''schema'' = JStr ''zsec.shield.update-result.v1''" "dget report ''outcome'' = JStr outcome"
    "dget report ''sequence'' = JInt (vf_sequence v)" "dget report ''rules_count'' = JInt (int (length (vf_rules v)))"
    "dget report ''payload_sha256'' = JStr (hexdigest b)"
    "dget report ''policy'' = JStr ''signed data-only rules; no command fields are accepted''"
    by (simp_all add: r installed_report_def dget_mk_dict s)
  show ?thesis
    unfolding validate_feed_update_def Let_def obj_of.simps g
    using o verify_payload_Inr(4) [OF q] by (auto simp: rbind_Inr_iff g digest_accepted)
qed

section \<open>The quarantine list\<close>

text \<open>What the reader of an entry guarantees, and what the desktop asks for beyond it.\<close>

definition read_entry :: "string \<Rightarrow> dict \<Rightarrow> bool" where
  "read_entry name d = (dget d ''id'' = JStr name \<and> bounded_text (JStr name) 40 \<and> canonical_uuid name
     \<and> (\<exists>s. dget d ''sha256'' = JStr s \<and> py_len s = 64) \<and> dget d ''state'' \<in> JStr ` set entry_states)"

definition shown_entry :: "dict \<Rightarrow> bool" where
  "shown_entry e = (dget e ''state'' \<noteq> JStr ''copy_ready'' \<and> bounded_text (dget e ''original_path'') 32768
     \<and> list_all lower_hex_digit (str_of (dget e ''sha256'')))"

lemma uuid_str_length: "length (uuid_str n) = 36"
  by (simp add: uuid_str_def Let_def)

lemma entry_id_canonical:
  assumes "validate_entry_id name = Inr x"
  shows "canonical_uuid name \<and> bounded_text (JStr name) 40"
proof -
  from assms obtain n where n: "uuid_of_text name = Some n" "uuid_str n = lower name"
    by (auto simp: validate_entry_id_def split: option.splits if_splits)
  then have "length name = 36" using uuid_str_length [of n] by (simp add: lower_def)
  then show ?thesis using n py_len_le [of name] by (auto simp: canonical_uuid_def bounded_text_def)
qed

lemma check_common_entry:
  assumes "check_common v name = Inr d" and "validate_entry_id name = Inr x"
  shows "read_entry name d"
proof -
  define e where "e = obj_of v"
  define g where "g = dget e"
  from assms(1) have "d = e \<and> g ''id'' = JStr name \<and> is_str (g ''sha256'') \<and> valid_sha256 (str_of (g ''sha256''))
      \<and> in_set (g ''state'') entry_states = Inr True"
    unfolding check_common_def Let_def e_def [symmetric] g_def [symmetric] if_Inr_iff rbind_Inr_iff by auto
  then show ?thesis
    using entry_id_canonical [OF assms(2)]
    by (auto simp: read_entry_def g_def is_str_iff valid_sha256_def in_set_Inr)
qed

lemma listed_entries:
  assumes "list_candidates cr E D names w = (Inr (rs, es), w')" and "distinct names"
  shows "\<exists>ds ns. rs = map entry_summary ds \<and> list_all2 read_entry ns ds \<and> distinct ns \<and> set ns \<subseteq> set names"
  using assms
proof (induction names arbitrary: w rs es)
  case Nil
  then show ?case by auto
next
  case (Cons n names)
  show ?case
  proof (cases "starts_with n ''.''")
    case True
    with Cons.prems Cons.IH show ?thesis by simp (metis subset_insertI2)
  next
    case False
    define q where "q = io_catch (io_bind (io_lift (validate_entry_id n)) (\<lambda>_. io_bind (read_metadata cr (join_path E n) n D) (\<lambda>d.
          io_ret ([entry_summary d], [])))) is_quarantine_error (\<lambda>e. io_ret ([], [(n, exn_text e)]))"
    have "list_candidates cr E D (n # names) = io_bind q (\<lambda>(rs, es).
        io_bind (list_candidates cr E D names) (\<lambda>(rs', es'). io_ret (rs @ rs', es @ es')))"
      using False by (simp add: q_def)
    with Cons.prems(1) obtain r1 e1 r2 e2 w1 where h: "q w = (Inr (r1, e1), w1)"
      and t: "list_candidates cr E D names w1 = (Inr (r2, e2), w')" and rs: "rs = r1 @ r2"
      by (auto simp: io_bind_eq_Inr split: prod.splits)
    from Cons.IH [OF t] Cons.prems(2) obtain ds ns where
      d: "r2 = map entry_summary ds" "list_all2 read_entry ns ds" "distinct ns" "set ns \<subseteq> set names" by auto
    show ?thesis
    proof (cases "r1 = []")
      case True
      with d rs show ?thesis by (intro exI [of _ ds] exI [of _ ns]) auto
    next
      case False
      with h obtain x e w2 where v: "validate_entry_id n = Inr x" and r: "read_metadata cr (join_path E n) n D w = (Inr e, w1)"
        and r1: "r1 = [entry_summary e]" by (auto simp: q_def io_inv) metis
      from r obtain j where "check_common j n = Inr e"
        unfolding read_metadata_def by (auto simp: io_inv split: if_splits)
      from check_common_entry [OF this v] d rs r1 Cons.prems(2) show ?thesis
        by (intro exI [of _ "e # ds"] exI [of _ "n # ns"]) auto
    qed
  qed
qed

lemma summary_keys:
  "dget (entry_summary d) ''id'' = dget d ''id''" "dget (entry_summary d) ''state'' = dget d ''state''"
  "dget (entry_summary d) ''original_path'' = dget d ''original_path''" "dget (entry_summary d) ''sha256'' = dget d ''sha256''"
  by (simp_all add: entry_summary_def dget_mk_dict)

lemma check_entry_shown:
  assumes "read_entry n d" and "n \<notin> set seen"
  shows "check_entry (i, JObj (entry_summary d)) seen = Inr r \<longleftrightarrow> shown_entry (entry_summary d) \<and> r = seen @ [n]"
proof -
  obtain s where s: "dget d ''sha256'' = JStr s" "py_len s = 64" and id: "dget d ''id'' = JStr n"
    and k: "bounded_text (JStr n) 40" "canonical_uuid n" and st: "dget d ''state'' \<in> JStr ` set entry_states"
    using assms(1) unfolding read_entry_def by blast
  have "s \<noteq> []" using s(2) by (auto simp: py_len_def)
  then have dg: "c_digest (JStr s) f m = Inr () \<longleftrightarrow> list_all lower_hex_digit s" for f m
    using s(2) by (simp add: c_digest_def bounded_text_def)
  show "check_entry (i, JObj (entry_summary d)) seen = Inr r \<longleftrightarrow> shown_entry (entry_summary d) \<and> r = seen @ [n]"
    unfolding check_entry_def Let_def prod.case obj_of.simps summary_keys id s shown_entry_def str_of.simps
    using assms(2) k st by (auto simp: rbind_Inr_iff dg entry_states_def)
qed

lemma check_entries_shown:
  assumes "list_all2 read_entry ns ds" and "distinct (seen @ ns)"
  shows "(\<exists>r. rfold check_entry (enumerate k (map JObj (map entry_summary ds))) seen = Inr r) \<longleftrightarrow>
    list_all shown_entry (map entry_summary ds)"
  using assms
proof (induction ns ds arbitrary: k seen rule: list_all2_induct)
  case (Cons n ns d ds)
  have "n \<notin> set seen" "distinct ((seen @ [n]) @ ns)" using Cons.prems by auto
  with check_entry_shown [OF Cons.hyps(1)] Cons.IH show ?case by (auto simp: rbind_Inr_iff)
qed simp

text \<open>
  C24: The desktop accepts the list of the quarantine, whatever the entries hold, exactly when no entry is still
  in the state between the copy and the removal of the original and every original path and digest is a
  text of the form the desktop wants; the exit code is zero exactly when every entry could be read.
\<close>

theorem quarantine_list_accepted:
  assumes "command_quarantine_list c (Inr names) w = (Inr (report, code), w')" and "distinct names"
  shows "(validate_quarantine_list (JObj report) = Inr report \<longleftrightarrow>
      list_all shown_entry (map obj_of (list_of (dget report ''entries''))))
    \<and> (code = exit_ok \<longleftrightarrow> dget report ''errors'' = JList [])"
proof -
  from assms(1) obtain entries errors w1 where
    l: "list_entries (cl_crypto c) (Inr names) (cli_state_dir c) w = (Inr (entries, errors), w1)"
    and r: "report = mk_dict
      [(''schema'', JStr ''zsec.shield.quarantine-list.v1''), (''generated_at'', JStr (format_utc (cl_done c))),
       (''state_dir'', JStr (cli_state_dir c)), (''entries'', JList (map JObj entries)),
       (''errors'', JList (map error_record errors))]"
    and code: "code = (if errors \<noteq> [] then exit_incomplete else exit_ok)"
    unfolding command_quarantine_list_def by (auto simp: io_inv split: prod.splits)
  have g: "dget report ''schema'' = JStr ''zsec.shield.quarantine-list.v1''" "dget report ''entries'' = JList (map JObj entries)"
    "dget report ''errors'' = JList (map error_record errors)"
    by (simp_all add: r dget_mk_dict)
  have "\<exists>ds ns. entries = map entry_summary ds \<and> list_all2 read_entry ns ds \<and> distinct ns"
  proof (cases "entries = []")
    case False
    with l obtain w2 where "list_candidates (cl_crypto c) (quarantine_entries_dir (cli_state_dir c)) (cli_state_dir c) (sort names) w2
        = (Inr (entries, errors), w1)"
      unfolding list_entries_def by (auto simp: io_inv split: if_splits)
    from listed_entries [OF this] assms(2) show ?thesis by auto
  qed simp
  then obtain ds ns where d: "entries = map entry_summary ds" "list_all2 read_entry ns ds" "distinct ns" by blast
  have o: "map obj_of (map JObj xs) = xs" for xs by (induction xs) simp_all
  have "(\<exists>r. rfold check_entry (enumerate0 (map JObj entries)) [] = Inr r) \<longleftrightarrow> list_all shown_entry entries"
    using check_entries_shown [OF d(2), of "[]" 0] d(3) unfolding d(1) enumerate0_def enumerate_eq_zip add_0 by simp
  then have "validate_quarantine_list (JObj report) = Inr report \<longleftrightarrow> list_all shown_entry entries"
    unfolding validate_quarantine_list_def Let_def obj_of.simps g list_of.simps by (auto simp: rbind_Inr_iff g)
  then show ?thesis unfolding g list_of.simps o by (simp add: code exit_defs)
qed


section \<open>The check\<close>

definition vetted :: "dict \<Rightarrow> bool" where
  "vetted d = (\<exists>v. validate_observation v = Inr d)"

text \<open>An observation of the report but for its path.\<close>

definition fair_observation :: "observation \<Rightarrow> bool" where
  "fair_observation b = (bounded_text (JStr (ob_provider b)) 40 \<and> bounded_text (JStr (ob_category b)) 80
     \<and> bounded_text (JStr (ob_summary b)) 300 \<and> \<not> ob_quarantine_eligible b)"

lemma vetted_fair:
  assumes "vetted d"
  shows "fair_observation (worker_observation p d)"
proof -
  from assms obtain v where v: "validate_observation v = Inr d" unfolding vetted_def by blast
  define e where "e = obj_of v"
  define g where "g = dget e"
  define provider where "provider = g ''provider''"
  define category where "category = g ''category''"
  define summary where "summary = g ''summary''"
  define evidence where "evidence = g ''evidence''"
  define severity where "severity = g ''severity''"
  have "d = e \<and> 1 \<le> py_len (str_of provider) \<and> py_len (str_of provider) \<le> 40 \<and> 1 \<le> py_len (str_of category)
      \<and> py_len (str_of category) \<le> 80 \<and> 1 \<le> py_len (str_of summary) \<and> py_len (str_of summary) \<le> 300"
    using v unfolding validate_observation_def Let_def e_def [symmetric] g_def [symmetric] provider_def [symmetric]
      category_def [symmetric] summary_def [symmetric] evidence_def [symmetric] severity_def [symmetric]
    by (simp add: observation_fields_error_def split: if_splits)
  moreover have "1 \<le> py_len t \<Longrightarrow> t \<noteq> []" for t by (auto simp: py_len_def)
  ultimately show ?thesis
    by (auto simp: fair_observation_def worker_observation_def bounded_text_def provider_def category_def summary_def g_def)
qed

lemma review_fair: "list_all vetted ds \<Longrightarrow> list_all fair_observation (review_observations p ds)"
  by (auto simp: review_observations_def list_all_iff vetted_fair)

lemma scan_file_fair:
  assumes i: "\<And>f m x. inspect f m = Inr x \<Longrightarrow> list_all vetted (ws_observations x)"
    and t: "\<And>p m d. trust p m = Some d \<Longrightarrow> vetted d"
    and "scan_file os s (Some inspect) trust p before x = Inr (fd, x')" and "list_all fair_observation (sx_observations x)"
  shows "list_all fair_observation (sx_observations x')"
proof -
  have c: "list_all fair_observation obs" if "worker_content os inspect trust p f opened = Content digest n ids obs" for f opened digest n ids obs
    using that i [of f opened] t [of p opened]
    by (auto simp: worker_content_def review_fair split: sum.splits option.splits if_splits)
  show ?thesis
    using assms(3,4) c unfolding scan_file_def Let_def
    by (auto simp: add_issue_def add_too_large_def add_hashed_def split: sum.splits if_splits content_result.splits)
qed

lemma visit_events_fair:
  assumes i: "\<And>f m x. inspect f m = Inr x \<Longrightarrow> list_all vetted (ws_observations x)"
    and t: "\<And>p m d. trust p m = Some d \<Longrightarrow> vetted d"
    and "visit_events os s (Some inspect) trust \<lparr>cb_filter = None, cb_observer = None\<rparr> seen es x c = (Inr x', c')"
    and "list_all fair_observation (sx_observations x)"
  shows "list_all fair_observation (sx_observations x')"
  using assms(3,4)
proof (induction es arbitrary: seen x c)
  case (Cons e es)
  show ?case
  proof (cases e)
    case (Found p m)
    show ?thesis
    proof (cases "seen \<noteq> None \<and> path_key os p \<in> set (the seen)")
      case True
      with Cons.prems Cons.IH show ?thesis by (simp add: Found)
    next
      case False
      with Cons.prems(1) obtain y c1 where y: "visit_file os s (Some inspect) trust \<lparr>cb_filter = None, cb_observer = None\<rparr> p m x c = (Inr y, c1)"
        and r: "visit_events os s (Some inspect) trust \<lparr>cb_filter = None, cb_observer = None\<rparr> (map_option ((#) (path_key os p)) seen) es y c1 = (Inr x', c')"
        by (auto simp: Found split: prod.splits sum.splits)
      from y obtain fd z where z: "scan_file os s (Some inspect) trust p m x = Inr (fd, z)" and "sx_observations y = sx_observations z"
        by (auto simp: visit_file_def Let_def split: sum.splits prod.splits option.splits)
      with scan_file_fair [OF i t z Cons.prems(2)] Cons.IH [OF r] show ?thesis by simp
    qed
  next
    case (Problem p code e)
    with Cons.prems Cons.IH show ?thesis by (auto simp: add_issue_def)
  next
    case (Skipped k)
    with Cons.prems Cons.IH show ?thesis by (auto simp: add_skip_def)
  qed
qed simp

lemma run_scan_fair:
  assumes "\<And>s f m x. se_inspect e s f m = Inr x \<Longrightarrow> list_all vetted (ws_observations x)"
    and "\<And>p m d. se_trust e p m = Some d \<Longrightarrow> vetted d"
    and "run_scan e a D rules = Inr r"
  shows "list_all fair_observation (sr_observations r)"
proof -
  from assms(3) obtain s events x y where
    x: "visit_events (se_os e) s (Some (se_inspect e s)) (se_trust e) \<lparr>cb_filter = None, cb_observer = None\<rparr> (Some []) events
       \<lparr>sx_stats = y, sx_issues = [], sx_findings = [], sx_observations = []\<rparr> () = (Inr x, ())"
    and r: "sr_observations r = sx_observations (sort_results x)"
    unfolding run_scan_def rbind_Inr_iff scan_def Let_def
    by (auto split: if_splits option.splits prod.splits sum.splits bind_splits)
  have "list_all fair_observation (sx_observations x)" using visit_events_fair [OF assms(1,2) x] by simp
  then show ?thesis by (simp add: r sort_results_def list_all_iff)
qed


lemma failure_not_None: "(j, None) = map_prod id Some x \<longleftrightarrow> False"
  by (cases x) simp

lemma lift_Inr: "io_lift m w = (Inr x, w') \<longleftrightarrow> m = Inr x \<and> w' = w"
  by auto

text \<open>The record that a quarantine returns.\<close>

lemma quarantine_record:
  assumes "quarantine_finding cr inp f D w = (Inr d, w')"
  shows "dget d ''state'' = JStr ''quarantined'' \<and> dget d ''original_path'' = JStr (ff_path f)"
proof -
  from assms obtain p snap device metadata aad envelope key w1 w2 w3 w4 temporary signed where
    m: "copy_ready_metadata (qi_entry_id inp) (qi_created_at inp) f snap = Inr metadata"
    and c: "store_copy cr (qi_fuel inp) device f snap temporary p metadata aad envelope key w1 = (Inr signed, w2)"
    and r: "write_v2_metadata cr (join_path p ''metadata.json'')
          (dput ''quarantined_at'' (JStr (qi_quarantined_at inp)) (dput ''state'' (JStr ''quarantined'') signed)) D w3 = (Inr d, w4)"
    unfolding quarantine_finding_def Let_def io_inv lift_Inr
    by (auto simp: io_inv lift_Inr case_prod_beta simp del: io_lift_eq)
  from m obtain kvs where k: "metadata = mk_dict kvs" "dget metadata ''original_path'' = JStr (ff_path f)"
    by (auto simp: copy_ready_metadata_def rbind_Inr_iff dget_mk_dict)
  from c obtain t where t: "sign_metadata cr device (dput ''content_tag'' t
      (dput ''vault'' (JObj (envelope_to_dict envelope (dr_protection device))) metadata)) = Inr signed"
    unfolding store_copy_def by (auto simp: io_inv)
  have w: "wf_dict metadata" by (simp add: k(1))
  then have ws: "wf_dict signed" using t by (auto simp: sign_metadata_Inr intro!: wf_dput wf_ddel)
  have "dget signed ''original_path'' = JStr (ff_path f)"
    using dget_signed [OF _ t, of "''original_path''"] w by (simp add: wf_dput dget_dput k(2))
  moreover from r obtain dev where d: "sign_metadata cr dev
      (dput ''quarantined_at'' (JStr (qi_quarantined_at inp)) (dput ''state'' (JStr ''quarantined'') signed)) = Inr d"
    unfolding write_v2_metadata_def by (auto simp: io_inv)
  ultimately show ?thesis
    using ws by (simp add: dget_signed [OF _ d] wf_dput dget_dput)
qed

definition json_pair :: "string \<Rightarrow> string \<Rightarrow> json \<Rightarrow> json \<times> json" where
  "json_pair j k v = (dget (obj_of v) j, dget (obj_of v) k)"

lemma quarantine_all_done:
  assumes "quarantine_all c e fs w = (Inr (js, []), w')"
  shows "map (json_pair ''original_path'' ''state'') js = map (\<lambda>f. (JStr (ff_path f), JStr ''quarantined'')) fs"
  using assms
proof (induction fs arbitrary: js w)
  case (Cons f fs)
  from Cons.prems obtain j i js' is' w1 where j: "check_quarantine c e f w = (Inr (j, i), w1)"
    and r: "quarantine_all c e fs w1 = (Inr (js', is'), w')" and js: "js = j # js'"
    and none: "[] = (case i of None \<Rightarrow> is' | Some x \<Rightarrow> x # is')"
    by (auto simp: io_bind_eq_Inr split: prod.splits)
  from none have n: "i = None" "is' = []" by (auto split: option.splits)
  from j obtain d where d: "quarantine_finding (cl_crypto c) (se_quarantine e f) f (cli_state_dir c) w = (Inr d, w1)"
    and v: "j = JObj (mk_dict (map (\<lambda>k. (k, dget d k)) [''id'', ''state'', ''original_path'', ''sha256'']))"
    unfolding n(1) check_quarantine_def by (auto simp: io_inv failure_not_None)
  have "json_pair ''original_path'' ''state'' j = (JStr (ff_path f), JStr ''quarantined'')"
    using quarantine_record [OF d] by (simp add: json_pair_def v dget_mk_dict)
  with Cons.IH [OF r [unfolded n(2)]] show ?case by (simp add: js)
qed simp

lemma keep_summary_Inr:
  assumes "keep_summary D r outcome w = (Inr (r', outcome'), w')"
  shows "(r' = r \<and> outcome' = outcome) \<or> (\<exists>i. r' = add_issues [i] r \<and> outcome' = ''incomplete'')"
  using assms unfolding keep_summary_def by (auto simp: io_inv)

lemma add_issues_simps [simp]: "sr_findings (add_issues is r) = sr_findings r" "sr_observations (add_issues is r) = sr_observations r"
  "sr_issues (add_issues is r) = sr_issues r @ is"
  by (simp_all add: add_issues_def Let_def)

text \<open>What a check that returns has done.\<close>

lemma command_check_Inr:
  assumes "command_check c e a w = (Inr (report, code), w')"
  obtains status feed_rules result r quarantined w1 w2 w3 where
    "report = check_report c a status feed_rules r (check_outcome (fs_state status) r) quarantined"
    and "code = check_exit r (check_outcome (fs_state status) r)" and "fs_state status \<in> set [''absent'', ''valid'', ''invalid'']"
    and "run_scan e a (cli_state_dir c) (builtin_rules @ feed_rules) = Inr result"
    and "sr_findings r = sr_findings result" and "sr_observations r = sr_observations result"
    and "ck_quarantine a \<Longrightarrow> sr_issues r = [] \<Longrightarrow> quarantine_all c e (sr_findings r) w2 = (Inr (quarantined, []), w3)"
proof -
  from assms obtain kp status feed_rules result quarantined "is" r outcome w1 w2 w3 w4 w5 w6 where
    f: "inspect_feed (cl_verify c) (cli_state_dir c) kp (cl_now c) w1 = (Inr (status, feed_rules), w2)"
    and s: "run_scan e a (cli_state_dir c) (builtin_rules @ feed_rules) = Inr result"
    and q: "(if ck_quarantine a then quarantine_all c e (sr_findings result) else io_ret ([], [])) w3 = (Inr (quarantined, is), w4)"
    and k: "keep_summary (cli_state_dir c) (if ck_quarantine a then add_issues is result else result)
        (check_outcome (fs_state status) (if ck_quarantine a then add_issues is result else result)) w5 = (Inr (r, outcome), w6)"
    and rep: "report = check_report c a status feed_rules r outcome quarantined" "code = check_exit r outcome"
    unfolding command_check_def Let_def by (auto simp: io_inv lift_Inr simp del: io_lift_eq split: prod.splits)
  define r0 where "r0 = (if ck_quarantine a then add_issues is result else result)"
  from keep_summary_Inr [OF k [folded r0_def]] have o: "outcome = check_outcome (fs_state status) r"
    and same: "sr_findings r = sr_findings r0" "sr_observations r = sr_observations r0" "sr_issues r = [] \<Longrightarrow> sr_issues r0 = []"
    by (auto simp: check_outcome_def)
  have "quarantine_all c e (sr_findings r) w3 = (Inr (quarantined, []), w4)" if "ck_quarantine a" "sr_issues r = []"
    using that q same by (simp add: r0_def)
  then show thesis
    using that [OF rep [unfolded o] inspect_feed_state [OF f] s] same by (auto simp: r0_def split: if_splits)
qed

lemma check_report_keys:
  "dget (check_report c a status rules r outcome quarantined) ''schema'' = JStr ''zsec.shield.report.v1''"
  "dget (check_report c a status rules r outcome quarantined) ''outcome'' = JStr outcome"
  "dget (check_report c a status rules r outcome quarantined) ''policy'' = JObj (check_policy (ck_quarantine a))"
  "dget (check_report c a status rules r outcome quarantined) ''scan'' = JObj (scan_result_to_dict r)"
  "dget (check_report c a status rules r outcome quarantined) ''feed'' = JObj (feed_status_to_dict status)"
  "dget (check_report c a status rules r outcome quarantined) ''quarantine'' = JList quarantined"
  "dget (scan_result_to_dict r) ''findings'' = JList (map (JObj \<circ> finding_to_dict) (sr_findings r))"
  "dget (scan_result_to_dict r) ''observations'' = JList (map (JObj \<circ> observation_to_dict) (sr_observations r))"
  "dget (scan_result_to_dict r) ''issues'' = JList (map (JObj \<circ> issue_to_dict) (sr_issues r))"
  "dget (scan_result_to_dict r) ''stats'' = JObj (stats_to_dict (sr_stats r))"
  "dget (feed_status_to_dict status) ''state'' = JStr (fs_state status)"
  "dget (finding_to_dict f) ''path'' = JStr (ff_path f)"
  by (simp_all add: check_report_def scan_result_to_dict_def feed_status_to_dict_def finding_to_dict_def dget_mk_dict)

text \<open>
  C21: The exit code of a check says exactly what its report holds: zero only with no finding, observation or
  issue and with a feed that is not invalid, one only without an issue, two in every other case; and a
  check with quarantine that does not end with two has quarantined every file it found, in this order.
\<close>

theorem check_verdict:
  assumes "command_check c e a w = (Inr (report, code), w')"
    and "field = (\<lambda>k. dget (obj_of (dget report ''scan'')) k)" and "bad = (dget (obj_of (dget report ''feed'')) ''state'' = JStr ''invalid'')"
  shows "(code = exit_ok \<longleftrightarrow> field ''findings'' = JList [] \<and> field ''observations'' = JList [] \<and> field ''issues'' = JList [] \<and> \<not> bad)
    \<and> (code = exit_findings \<longleftrightarrow> (field ''findings'' \<noteq> JList [] \<or> field ''observations'' \<noteq> JList []) \<and> field ''issues'' = JList [] \<and> \<not> bad)
    \<and> (code = exit_incomplete \<longleftrightarrow> field ''issues'' \<noteq> JList [] \<or> bad)
    \<and> (ck_quarantine a \<and> code \<noteq> exit_incomplete \<longrightarrow>
        map (json_pair ''original_path'' ''state'') (list_of (dget report ''quarantine''))
        = map (\<lambda>f. (dget (obj_of f) ''path'', JStr ''quarantined'')) (list_of (field ''findings'')))"
proof (rule command_check_Inr [OF assms(1)])
  fix status feed_rules result r quarantined w1 w2 w3
  assume rep: "report = check_report c a status feed_rules r (check_outcome (fs_state status) r) quarantined"
    and code: "code = check_exit r (check_outcome (fs_state status) r)"
    and q: "ck_quarantine a \<Longrightarrow> sr_issues r = [] \<Longrightarrow> quarantine_all c e (sr_findings r) w2 = (Inr (quarantined, []), w3)"
  have k: "field ''findings'' = JList (map (JObj \<circ> finding_to_dict) (sr_findings r))"
    "field ''observations'' = JList (map (JObj \<circ> observation_to_dict) (sr_observations r))"
    "field ''issues'' = JList (map (JObj \<circ> issue_to_dict) (sr_issues r))"
    "bad \<longleftrightarrow> fs_state status = ''invalid''" "dget report ''quarantine'' = JList quarantined"
    by (simp_all add: assms(2,3) rep check_report_keys)
  have c: "code = (if sr_issues r \<noteq> [] \<or> bad then exit_incomplete
      else if sr_findings r \<noteq> [] \<or> sr_observations r \<noteq> [] then exit_findings else exit_ok)"
    by (simp add: code k(4) check_exit_def check_outcome_def)
  have "map (json_pair ''original_path'' ''state'') quarantined
      = map (\<lambda>f. (dget (obj_of f) ''path'', JStr ''quarantined'')) (map (JObj \<circ> finding_to_dict) (sr_findings r))"
    if "ck_quarantine a" "code \<noteq> exit_incomplete"
  proof -
    have "sr_issues r = []" using that(2) by (simp add: c split: if_splits)
    from quarantine_all_done [OF q [OF that(1) this]] show ?thesis by (simp add: check_report_keys comp_def)
  qed
  then show ?thesis
    unfolding k(1-3,5) list_of.simps by (cases "sr_issues r = []"; cases bad; simp add: c exit_defs)
qed


lemma observation_keys:
  "dget (observation_to_dict b) ''path'' = JStr (ob_path b)" "dget (observation_to_dict b) ''provider'' = JStr (ob_provider b)"
  "dget (observation_to_dict b) ''category'' = JStr (ob_category b)"
  "dget (observation_to_dict b) ''severity'' = JStr (severity_str (ob_severity b))"
  "dget (observation_to_dict b) ''summary'' = JStr (ob_summary b)" "dget (observation_to_dict b) ''evidence'' = JObj (ob_evidence b)"
  "dget (observation_to_dict b) ''quarantine_eligible'' = JBool (ob_quarantine_eligible b)"
  by (simp_all add: observation_to_dict_def dget_mk_dict)

lemma check_observation_fair:
  assumes "fair_observation b"
  shows "check_observation (i, JObj (observation_to_dict b)) = Inr () \<longleftrightarrow> bounded_text (JStr (ob_path b)) 32768"
proof -
  have "severity_str v \<in> set [''info'', ''low'', ''medium'', ''high'', ''critical'']" for v by (cases v) simp_all
  then show ?thesis
    unfolding check_observation_def Let_def prod.case obj_of.simps observation_keys
    using assms by (simp add: fair_observation_def)
qed

lemma check_observations_fair:
  assumes "list_all fair_observation bs"
  shows "steps (map check_observation (enumerate0 (map (JObj \<circ> observation_to_dict) bs))) = Inr ()
    \<longleftrightarrow> list_all (\<lambda>b. bounded_text (JStr (ob_path b)) 32768) bs"
proof -
  have "set (enumerate0 xs) = (\<lambda>i. (i, xs ! i)) ` {..<length xs}" for xs :: "json list"
    by (force simp: enumerate0_def set_zip)
  then have "(\<forall>x \<in> set (enumerate0 (map (JObj \<circ> observation_to_dict) bs)). check_observation x = Inr ())
      \<longleftrightarrow> (\<forall>i < length bs. check_observation (i, JObj (observation_to_dict (bs ! i))) = Inr ())"
    by auto
  also have "\<dots> \<longleftrightarrow> list_all (\<lambda>b. bounded_text (JStr (ob_path b)) 32768) bs"
    using assms check_observation_fair by (auto simp: list_all_length)
  finally show ?thesis by simp
qed

lemma policy_keys: "dget (check_policy q) ''real_time_protection'' = JBool False"
  "dget (check_policy q) ''heuristic_observations_quarantine_eligible'' = JBool False"
  by (simp_all add: check_policy_def dget_mk_dict)

text \<open>
  C22: The desktop accepts the report of a check, whatever was found and whatever failed, exactly when the paths
  of its observations are not empty and no longer than the desktop allows.  The worker may be hostile: all
  that is used of it is that the broker has vetted each of its observations.
\<close>

theorem check_accepted:
  assumes "command_check c e a w = (Inr (report, code), w')"
    and "\<And>s f m x. se_inspect e s f m = Inr x \<Longrightarrow> list_all vetted (ws_observations x)"
    and "\<And>p m d. se_trust e p m = Some d \<Longrightarrow> vetted d"
  shows "validate_scan_report (JObj report) = Inr report \<longleftrightarrow>
    list_all (\<lambda>b. bounded_text (dget (obj_of b) ''path'') 32768) (list_of (dget (obj_of (dget report ''scan'')) ''observations''))"
proof (rule command_check_Inr [OF assms(1)])
  fix status feed_rules result r quarantined w1 w2 w3
  assume rep: "report = check_report c a status feed_rules r (check_outcome (fs_state status) r) quarantined"
    and s: "run_scan e a (cli_state_dir c) (builtin_rules @ feed_rules) = Inr result"
    and o: "sr_observations r = sr_observations result"
  have fair: "list_all fair_observation (sr_observations r)" using run_scan_fair [OF assms(2,3) s] by (simp add: o)
  have k: "check_outcome x r \<in> set known_outcomes" for x by (simp add: check_outcome_def known_outcomes_def)
  have p: "dhas (check_policy q) ''heuristic_observations_quarantine_eligible''" for q
    by (simp add: check_policy_def dhas_mk_dict)
  have "validate_scan_report (JObj report) = Inr report \<longleftrightarrow>
      steps (map check_observation (enumerate0 (map (JObj \<circ> observation_to_dict) (sr_observations r)))) = Inr ()"
    unfolding validate_scan_report_def Let_def rep obj_of.simps check_report_keys list_of.simps policy_keys
    using k by (simp add: rbind_Inr_iff check_report_keys p)
  then show ?thesis
    unfolding check_observations_fair [OF fair] rep check_report_keys obj_of.simps list_of.simps
    by (simp add: list.pred_map comp_def observation_keys)
qed

text \<open>The broker vets what the worker answers.\<close>

lemma broker_vets:
  assumes "broker_inspect rules n size_time chunks after rid reply = Inr x"
  shows "list_all vetted (ws_observations x)"
proof -
  have v: "rmap validate_observation vs = Inr ds \<Longrightarrow> list_all vetted ds" for vs ds
    by (induction vs arbitrary: ds) (auto simp: rbind_Inr_iff vetted_def)
  from assms obtain d k y rid' where "validate_response rules d k rid' = Inr y" and "ws_observations x = ws_observations y"
    unfolding broker_inspect_def Let_def by (auto simp: rbind_Inr_iff split: if_splits)
  then show ?thesis
    unfolding validate_response_def Let_def by (auto simp: rbind_Inr_iff schema_error_def intro: v split: if_splits)
qed


section \<open>A concrete run\<close>

text \<open>The check of the state directory itself, which is excluded, on a system without any file.\<close>

definition ex_scan_env :: scan_env where
  "ex_scan_env = \<lparr>se_os = ex_os, se_inspect = (\<lambda>s f m. broker_inspect (sn_rules s) 100 (md_size m, 0) (of_chunks f) (md_size m, 0) ''r'' None),
     se_trust = (\<lambda>_ _. None), se_fuel = 0, se_started = 0, se_completed = 0, 
     se_quarantine = (\<lambda>_. \<lparr>qi_fuel = 0, qi_entry_id = [], qi_created_at = [], qi_quarantined_at = [], qi_device_key = [],
       qi_random = \<lparr>er_content_key = [], er_salt = [], er_wrap_nonce = [], er_content_nonce = []\<rparr>\<rparr>)\<rparr>"

definition ex_check :: check_args where
  "ex_check = \<lparr>ck_command = ''check'', ck_paths = [''/d''], ck_max_file_bytes = 100, ck_chunk_bytes = 4096,
     ck_cross_filesystems = False, ck_quarantine = False, ck_report = None\<rparr>"

definition ex_result :: scan_result where
  "ex_result = \<lparr>sr_started_at = format_utc 0, sr_completed_at = format_utc 0, sr_roots = [''/d''], sr_findings = [],
     sr_observations = [], sr_issues = [], sr_stats = stats0\<lparr>st_roots_requested := 1, st_skipped_excluded := 1\<rparr>\<rparr>"

lemma ex_run_scan: "run_scan ex_scan_env ex_check ''/d'' builtin_rules = Inr ex_result"
proof -
  have p: "path_key ex_os ''/d'' = ''/d''" "absolute ex_os ''/d'' = ''/d''" "under ''/d'' ''/d''" by code_simp+
  obtain s where s: "new_scanner ex_os builtin_rules (check_config ex_check ''/d'') = Inr s" "sn_excluded s = [''/d'']"
    by (simp add: new_scanner_def check_config_def ex_check_def usec_def builtin_rules_def check_rule_def p eicar_def)
  have "iter_regular_files ex_os s 0 ''/d'' = Some [Skipped Skip_Excluded]"
    by (simp add: iter_regular_files_def is_excluded_def s(2) p)
  moreover have "ck_paths ex_check = [''/d'']" by (simp add: ex_check_def)
  ultimately show ?thesis
    by (simp add: run_scan_def ex_scan_env_def s(1) scan_def Let_def p all_events_def sort_results_def add_skip_def
        ex_result_def stats0_def)
qed

definition ex_check_report :: dict where
  "ex_check_report = check_report ex_cli ex_check (plain_status ''absent'' (feed_document_path ''/d'') ''/k'' None) []
     ex_result ''no_configured_rule_matches'' []"

lemma ex_check_run: "\<exists>w'. command_check ex_cli ex_scan_env ex_check empty_world = (Inr (ex_check_report, exit_ok), w')"
proof -
  have d: "cli_state_dir ex_cli = ''/d''" "cli_keyring ex_cli w = (Inr ''/k'', w)" for w
    by (simp_all add: cli_state_dir_def cli_keyring_def ex_cli_def resolve_keyring_path_def io_ret_def)
  let ?w = "tick (tick empty_world)" and ?p = "last_scan_path ''/d''"
  have i: "inspect_feed (cl_verify ex_cli) ''/d'' ''/k'' (cl_now ex_cli) empty_world
      = (Inr (plain_status ''absent'' (feed_document_path ''/d'') ''/k'' None, []), ?w)"
    using barren_absent [OF barren_empty] barren_absent [OF barren_tick [OF barren_empty]]
    by (simp add: inspect_feed_def Let_def io_bind_def io_ret_def)
  have p: "?p = ''/d/status/last-scan.json''" by (simp add: last_scan_path_def join_path_def)
  have a: "parent_of ''/d/status/last-scan.json'' = ''/d/status''"
    "set (ancestors ''/d/status'') \<subseteq> {''/d/status'', ''/d'', ''/'', []}" by code_simp+
  have q: "quiet ?w" "fs_ok (w_fs ?w)" "fresh_ok ?w"
    using empty_world_ok by (simp_all add: fresh_ok_def) (simp add: fresh_name_def tick_def)
  have wr: "writable (w_fs ?w) ?p" by (simp add: p writable_def a view_def empty_world_def)
  have "fresh_name ?w q" if "q \<in> {''/d/status/last-scan.json'', ''/d/status'', ''/d'', ''/'', []}" for q
    using that by (auto simp: fresh_name_def tick_def empty_world_def suffix_def Cons_eq_append_conv)
  with a(2) have fr: "\<forall>q \<in> set (?p # ancestors (parent_of ?p)). fresh_name ?w q" by (auto simp: p a(1))
  let ?v = "JObj (last_scan_record (format_utc 0) 0 0 0 0 0 ''no_configured_rule_matches'')"
  have "ascii_json ?v" unfolding last_scan_record_def
    by (rule ascii_mk_dict) (simp_all add: format_utc_ascii max_time_def max_day_def usec_day_def ord_def)
  from indented_ascii [OF this] obtain raw where raw: "indented_json_bytes ?v = Inr raw" by blast
  obtain g k where e: "atomic_write_bytes ?p raw 384 ?w = (Inr (), ?w\<lparr>w_fs := g, w_tick := k\<rparr>)"
    using atomic_write_returns [OF q(1,2) wr q(3) fr] by blast
  have n: "check_outcome ''absent'' ex_result = ''no_configured_rule_matches''" by (simp add: check_outcome_def ex_result_def)
  have "keep_summary ''/d'' ex_result ''no_configured_rule_matches'' ?w
      = (Inr (ex_result, ''no_configured_rule_matches''), ?w\<lparr>w_fs := g, w_tick := k\<rparr>)"
    using e raw by (simp add: keep_summary_def ex_result_def stats0_def save_last_scan_def atomic_write_json_def io_catch_def io_then_def
        io_bind_def io_lift_def io_ret_def)
  moreover have "fs_state (plain_status x y z u) = x" for x y z u by (simp add: plain_status_def)
  moreover have "ck_quarantine ex_check = False" "ck_report ex_check = None" by (simp_all add: ex_check_def)
  moreover have "check_exit ex_result ''no_configured_rule_matches'' = exit_ok" by (simp add: check_exit_def ex_result_def)
  ultimately show ?thesis
    by (simp add: command_check_def Let_def d io_bind_def io_then_def i ex_run_scan n io_lift_def ex_check_report_def io_ret_def)
qed

lemma check_verdict_witness:
  "dget (obj_of (dget ex_check_report ''scan'')) ''findings'' = JList [] \<and> exit_ok \<noteq> exit_findings"
proof -
  obtain w' where "command_check ex_cli ex_scan_env ex_check empty_world = (Inr (ex_check_report, exit_ok), w')"
    using ex_check_run by blast
  from check_verdict [OF this refl refl] show ?thesis by (simp add: exit_defs)
qed

lemma check_accepted_witness: "validate_scan_report (JObj ex_check_report) = Inr ex_check_report"
proof -
  obtain w' where r: "command_check ex_cli ex_scan_env ex_check empty_world = (Inr (ex_check_report, exit_ok), w')"
    using ex_check_run by blast
  have "list_of (dget (obj_of (dget ex_check_report ''scan'')) ''observations'') = []"
    by (simp add: ex_check_report_def check_report_keys ex_result_def)
  moreover have "validate_scan_report (JObj ex_check_report) = Inr ex_check_report \<longleftrightarrow>
      list_all (\<lambda>b. bounded_text (dget (obj_of b) ''path'') 32768) (list_of (dget (obj_of (dget ex_check_report ''scan'')) ''observations''))"
    by (rule check_accepted [OF r]) (auto simp: ex_scan_env_def dest: broker_vets)
  ultimately show ?thesis by simp
qed

lemma quarantine_list_accepted_witness:
  "\<exists>report w'. command_quarantine_list ex_cli (Inr []) empty_world = (Inr (report, exit_ok), w') \<and> validate_quarantine_list (JObj report) = Inr report"
proof -
  obtain w1 where "list_entries (cl_crypto ex_cli) (Inr []) (cli_state_dir ex_cli) empty_world = (Inr ([], []), w1)"
    using barren_reads(4) [OF barren_empty] by blast
  then obtain report where r: "command_quarantine_list ex_cli (Inr []) empty_world = (Inr (report, exit_ok), w1)"
    and "list_of (dget report ''entries'') = []"
    by (simp add: command_quarantine_list_def io_bind_def io_ret_def dget_mk_dict)
  with quarantine_list_accepted [OF r] show ?thesis by auto
qed

end
