(* ===== verification/Event_Log.thy ===== *)
theory Event_Log
  imports Vault_World
begin

text \<open>
  The evidence files of \<^verbatim>\<open>src/zsec_shield/watch_evidence.py\<close>: the check of a path below the state directory,
  and \<open>RotatingNdjsonLog\<close>, which appends one line per record and keeps a bounded number of older files.
  Paths are absolute and normalised, as \<open>_absolute\<close> makes them, and the root directory is the empty path,
  so that the comparison of \<open>_is_within\<close> is \<open>below\<close>.
\<close>

section \<open>Evidence paths\<close>

text \<open>The directories from below the state directory down to \<open>current\<close>, as the loop collects them.\<close>

function evidence_parents :: "path \<Rightarrow> path \<Rightarrow> path list res" where
  "evidence_parents state current =
    (if current = state then Inr []
     else if parent_of current = current \<or> \<not> below state current \<or> length current \<le> length (parent_of current) then
       Inl (WatchError ''watch evidence path escaped the state directory'')
     else rbind (evidence_parents state (parent_of current)) (\<lambda>ps. Inr (ps @ [current])))"
  by pat_completeness auto
termination by (relation "measure (\<lambda>(_, c). length c)") auto

declare evidence_parents.simps [simp del]

definition check_evidence :: "fkind \<Rightarrow> string \<Rightarrow> string \<Rightarrow> path \<Rightarrow> unit io" where
  "check_evidence kind unreadable wrong p =
    io_bind (path_exists p) (\<lambda>there.
      if \<not> there then io_ret ()
      else io_bind (io_catch (sys_lstat p) is_os_error
             (\<lambda>e. io_raise (WatchError (unreadable @ '': '' @ p @ '': '' @ exn_text e)))) (\<lambda>(_, d).
           io_if (i_kind d \<noteq> kind) (WatchError (wrong @ '': '' @ p)) (io_ret ())))"

fun io_each :: "('a \<Rightarrow> unit io) \<Rightarrow> 'a list \<Rightarrow> unit io" where
  "io_each g [] = io_ret ()"
| "io_each g (x # xs) = io_then (g x) (io_each g xs)"

definition validate_evidence_path :: "path \<Rightarrow> path \<Rightarrow> unit io" where
  "validate_evidence_path p state =
    io_if (p = state \<or> \<not> below state p)
      (WatchError ''watch evidence files must be located below the excluded state directory'')
    (io_bind (io_lift (evidence_parents state (parent_of p))) (\<lambda>ps.
     io_then (io_each (check_evidence Dir ''cannot inspect watch evidence directory''
                ''watch evidence directory must not be a link or reparse point'') ps)
             (check_evidence Reg ''cannot inspect watch evidence file''
                ''watch evidence path must be a regular, non-link file'' p)))"

section \<open>The log\<close>

record event_log =
  el_path :: path
  el_state :: path
  el_max :: nat
  el_backups :: nat

definition new_event_log :: "path \<Rightarrow> path \<Rightarrow> nat \<Rightarrow> nat \<Rightarrow> event_log io" where
  "new_event_log p state max_bytes backups =
    io_if (\<not> (64 * 1024 \<le> max_bytes \<and> max_bytes \<le> 64 * 1024 * 1024))
      (WatchError ''event log max_bytes must be between 65536 and 67108864'')
    (io_if (\<not> (1 \<le> backups \<and> backups \<le> 10)) (WatchError ''event log backups must be between 1 and 10'')
    (io_then (validate_evidence_path p state)
      (io_ret \<lparr>el_path = p, el_state = state, el_max = max_bytes, el_backups = backups\<rparr>)))"

text \<open>The log and its backups; the smaller the number the newer the file.\<close>

definition log_name :: "event_log \<Rightarrow> nat \<Rightarrow> path" where
  "log_name l k = (if k = 0 then el_path l else el_path l @ ''.'' @ dec_nat k)"

definition drop_oldest :: "event_log \<Rightarrow> unit io" where
  "drop_oldest l =
    (let oldest = log_name l (el_backups l) in
     io_bind (path_exists oldest) (\<lambda>there.
       if \<not> there then io_ret ()
       else io_then (validate_evidence_path oldest (el_state l))
         (io_catch (sys_unlink oldest) is_os_error
           (\<lambda>e. io_raise (WatchError (''cannot remove oldest watch event log: '' @ exn_text e))))))"

definition check_log_target :: "event_log \<Rightarrow> nat \<Rightarrow> unit io" where
  "check_log_target l k =
    io_bind (path_exists (log_name l k)) (\<lambda>there.
      if there then validate_evidence_path (log_name l k) (el_state l) else io_ret ())"

definition move_log :: "event_log \<Rightarrow> string \<Rightarrow> nat \<Rightarrow> unit io" where
  "move_log l what k =
    io_then (check_log_target l (Suc k))
      (io_catch (sys_replace (log_name l k) (log_name l (Suc k))) is_os_error
        (\<lambda>e. io_raise (WatchError (''cannot rotate '' @ what @ '': '' @ exn_text e))))"

definition shift_backup :: "event_log \<Rightarrow> nat \<Rightarrow> unit io" where
  "shift_backup l k =
    io_bind (path_exists (log_name l k)) (\<lambda>there.
      if \<not> there then io_ret ()
      else io_then (validate_evidence_path (log_name l k) (el_state l)) (move_log l ''watch event log'' k))"

definition rotate_log :: "event_log \<Rightarrow> unit io" where
  "rotate_log l =
    io_then (drop_oldest l)
    (io_then (io_each (shift_backup l) (rev [1..<el_backups l]))
             (move_log l ''current watch event log'' 0))"

text \<open>\<^verbatim>\<open>os.open\<close> with \<^verbatim>\<open>O_WRONLY | O_CREAT | O_APPEND | O_NOFOLLOW\<close>, and \<^verbatim>\<open>os.write\<close>, which may write a part.\<close>

definition sys_open_log :: "path \<Rightarrow> nat io" where
  "sys_open_log p = sys (\<lambda>f. case f_names f p of
       Some i \<Rightarrow> (if i_kind (f_inodes f i) = Lnk then Inl (OSError ''too many levels of symbolic links'')
                 else if i_kind (f_inodes f i) = Dir then Inl (OSError ''is a directory'') else Inr i, f)
     | None \<Rightarrow> create_excl p f)"

definition sys_write_part :: "nat \<Rightarrow> string \<Rightarrow> nat io" where
  "sys_write_part i d w =
    (let n = min (w_cut w (w_tick w)) (length d) in
     sys (\<lambda>f. (Inr n, append_data i (take n d) f)) w)"

text \<open>The loop over the rest of the line; every turn but the last shortens it.\<close>

fun append_rest :: "nat \<Rightarrow> nat \<Rightarrow> string \<Rightarrow> unit io" where
  "append_rest 0 i d = io_ret ()"
| "append_rest (Suc n) i d =
    (if d = [] then io_ret ()
     else io_bind (sys_write_part i d) (\<lambda>k.
       io_if (k = 0) (WatchError ''watch event log append made no progress'') (append_rest n i (drop k d))))"

definition append_open :: "string \<Rightarrow> nat \<Rightarrow> unit io" where
  "append_open line i =
    io_catch
      (io_bind (sys_fstat i) (\<lambda>(_, d).
       io_if (i_kind d \<noteq> Reg) (WatchError ''opened watch event log is not a regular, non-reparse file'')
       (io_then (append_rest (length line) i line) (sys_fsync i))))
      is_os_error (\<lambda>e. io_raise (WatchError (''cannot append watch event log: '' @ exn_text e)))"

definition append_bytes :: "event_log \<Rightarrow> string \<Rightarrow> unit io" where
  "append_bytes l line =
    io_bind (io_catch (sys_open_log (el_path l)) is_os_error
      (\<lambda>e. io_raise (WatchError (''cannot open watch event log: '' @ exn_text e)))) (append_open line)"

definition log_size :: "event_log \<Rightarrow> nat io" where
  "log_size l =
    io_catch (io_bind (path_exists (el_path l)) (\<lambda>there. if there then stat_size (el_path l) else io_ret 0))
      is_os_error (\<lambda>e. io_raise (WatchError (''cannot inspect watch event log: '' @ exn_text e)))"

definition log_line :: "dict \<Rightarrow> string res" where
  "log_line entry = rbind (canonical_json_bytes (JObj entry)) (\<lambda>b. Inr (b @ [CHR 0x0A]))"

definition log_append :: "event_log \<Rightarrow> dict \<Rightarrow> unit io" where
  "log_append l entry =
    io_bind (io_lift (log_line entry)) (\<lambda>line.
    io_if (el_max l < length line) (WatchError ''one watch event is larger than the configured event-log bound'')
    (io_then (sys_mkdirs (parent_of (el_path l)))
    (io_then (validate_evidence_path (el_path l) (el_state l))
    (io_bind (log_size l) (\<lambda>size_now.
     io_then (if 0 < size_now \<and> el_max l < size_now + length line then rotate_log l else io_ret ())
             (append_bytes l line))))))"


section \<open>The calls on the log\<close>

lemma dec_nat_inj [simp]: "dec_nat m = dec_nat n \<longleftrightarrow> m = n"
  by (metis nat_of_dec_nat)

lemma log_name_inj [simp]: "log_name l j = log_name l k \<longleftrightarrow> j = k"
  by (auto simp: log_name_def)

lemma log_name_length: "length (el_path l) \<le> length (log_name l k)"
  by (simp add: log_name_def)

lemma exists_exact:
  assumes "\<And>f. P f \<Longrightarrow> (case view f p of None \<Rightarrow> \<not> b | Some d \<Rightarrow> b \<and> i_kind d \<noteq> Lnk)"
  shows "triple P (path_exists p) (\<lambda>c f. P f \<and> c = b) (\<lambda>_. P)"
proof (rule triple_fs_exact)
  fix f0
  assume p: "P f0"
  show "triple (\<lambda>f. f = f0) (path_exists p) (\<lambda>c f. P f \<and> c = b) (\<lambda>_. P)"
  proof (cases "view f0 p")
    case None
    with assms [OF p] show ?thesis using p by (auto intro!: triple_conseq [OF absent_exists [of f0 p]])
  next
    case (Some d)
    then obtain i where i: "resolve max_links f0 p = Inr i"
      using assms [OF p] by (auto dest!: resolve_nonlink)
    show ?thesis
    proof (rule tripleI)
      fix w r w'
      assume w: "calm w" "w_fs w = f0" and e: "path_exists p w = (r, w')"
      note c = calm_step [OF w(1)]
      have n: "x \<noteq> FileNotFoundError q" if "w_faults w (w_tick w) = Some x" for x q
        using w(1) that by (auto simp: calm_def)
      show "calm w' \<and> post (\<lambda>c f. P f \<and> c = b) (\<lambda>_. P) r (w_fs w')"
        using e i c w n assms [OF p] Some p
        by (cases "w_faults w (w_tick w)")
          (auto simp: path_exists_def sys_stat_def sys_def Let_def io_catch_def io_bind_def io_ret_def split: exn.splits)
    qed
  qed
qed

lemma triple_wrap:
  "triple P m Q (\<lambda>_. E) \<Longrightarrow> triple P (io_catch m is_os_error (\<lambda>e. io_raise (h e))) Q (\<lambda>_. E)"
  by (rule triple_catch) (auto intro: triple_raise)

lemma looks_each: "(\<And>x. looks (g x)) \<Longrightarrow> looks (io_each g xs)"
  by (induction xs) (auto simp: io_then_def intro!: looks_intros)

lemma looks_check_evidence: "looks (check_evidence kind m n p)"
  unfolding check_evidence_def by (auto intro!: looks_intros looks_exists split: prod.split)

lemma looks_validate: "looks (validate_evidence_path p state)"
  unfolding validate_evidence_path_def io_then_def by (intro looks_intros looks_each looks_check_evidence)

text \<open>\<open>renamed l f0 g f\<close>: only names of the log changed, and the file of number \<open>k\<close> is \<open>g k\<close>.\<close>

definition renamed :: "event_log \<Rightarrow> fs \<Rightarrow> (nat \<Rightarrow> nat option) \<Rightarrow> fs \<Rightarrow> bool" where
  "renamed l f0 g f =
    (f_inodes f = f_inodes f0 \<and> f_next f = f_next f0 \<and> (\<forall>k \<le> el_backups l. f_names f (log_name l k) = g k)
     \<and> (\<forall>q. q \<notin> log_name l ` {..el_backups l} \<longrightarrow> f_names f q = f_names f0 q))"

definition plain :: "event_log \<Rightarrow> fs \<Rightarrow> (nat \<Rightarrow> nat option) \<Rightarrow> bool" where
  "plain l f0 g = (\<forall>k i. k \<le> el_backups l \<longrightarrow> g k = Some i \<longrightarrow> i_kind (f_inodes f0 i) = Reg)"

lemma renamed_cong: "(\<And>k. k \<le> el_backups l \<Longrightarrow> g k = h k) \<Longrightarrow> renamed l f0 g = renamed l f0 h"
  by (auto simp: renamed_def fun_eq_iff)

lemma renamed_exists:
  assumes "plain l f0 g" "k \<le> el_backups l"
  shows "triple (renamed l f0 g) (path_exists (log_name l k)) (\<lambda>c f. renamed l f0 g f \<and> c = (g k \<noteq> None)) (\<lambda>_. renamed l f0 g)"
  by (rule exists_exact) (use assms in \<open>auto simp: renamed_def plain_def view_def split: option.split\<close>)

lemma renamed_update:
  assumes "renamed l f0 g f" "k \<le> el_backups l"
  shows "renamed l f0 (g(k := x)) (f\<lparr>f_names := (f_names f)(log_name l k := x)\<rparr>)"
  using assms by (auto simp: renamed_def)

lemma triple_drop_oldest:
  assumes "plain l f0 g"
  shows "triple (renamed l f0 g) (drop_oldest l) (\<lambda>_. renamed l f0 (g(el_backups l := None))) (\<lambda>_. renamed l f0 g)"
  unfolding drop_oldest_def Let_def
proof (rule triple_bind [OF renamed_exists [OF assms order_refl]])
  fix there
  let ?n = "log_name l (el_backups l)"
  have u: "triple (renamed l f0 g) (sys_unlink ?n) (\<lambda>_. renamed l f0 (g(el_backups l := None))) (\<lambda>_. renamed l f0 g)"
    unfolding sys_unlink_def by (rule triple_sys) (auto simp: renamed_update split: option.splits if_splits)
  show "triple (\<lambda>f. renamed l f0 g f \<and> there = (g (el_backups l) \<noteq> None))
     (if \<not> there then io_ret () else io_then (validate_evidence_path ?n (el_state l))
       (io_catch (sys_unlink ?n) is_os_error
         (\<lambda>e. io_raise (WatchError (''cannot remove oldest watch event log: '' @ exn_text e)))))
     (\<lambda>_. renamed l f0 (g(el_backups l := None))) (\<lambda>_. renamed l f0 g)"
  proof (cases there)
    case True
    then show ?thesis
      by simp (rule triple_pre [OF triple_then [OF looksD [OF looks_validate] triple_wrap [OF u]]], simp)
  next
    case False
    have e: "g(el_backups l := None) = g" if "g (el_backups l) = None" using that by auto
    show ?thesis using False by (auto simp: e intro: triple_ret)
  qed
qed

lemma triple_move:
  assumes "plain l f0 h" "h (Suc k) = None" "k < el_backups l"
  shows "triple (renamed l f0 h) (move_log l what k) (\<lambda>_. renamed l f0 (h(k := None, Suc k := h k))) (\<lambda>_. renamed l f0 h)"
proof -
  have r: "triple (renamed l f0 h) (sys_replace (log_name l k) (log_name l (Suc k)))
      (\<lambda>_. renamed l f0 (h(k := None, Suc k := h k))) (\<lambda>_. renamed l f0 h)"
    unfolding sys_replace_def
  proof (rule triple_sys)
    fix f r f'
    assume f: "renamed l f0 h f" and a: "(case f_names f (log_name l k) of None \<Rightarrow> (Inl (FileNotFoundError (log_name l k)), f)
      | Some i \<Rightarrow> case f_names f (log_name l (Suc k)) of
          None \<Rightarrow> (Inr (), f\<lparr>f_names := (f_names f)(log_name l k := None, log_name l (Suc k) \<mapsto> i)\<rparr>)
        | Some j \<Rightarrow> if i_kind (f_inodes f j) = Dir then (Inl (OSError ''is a directory''), f)
            else (Inr (), f\<lparr>f_names := (f_names f)(log_name l k := None, log_name l (Suc k) \<mapsto> i)\<rparr>)) = (r, f')"
    have n: "f_names f (log_name l k) = h k" "f_names f (log_name l (Suc k)) = None"
      using f assms(2,3) by (auto simp: renamed_def)
    show "post (\<lambda>_. renamed l f0 (h(k := None, Suc k := h k))) (\<lambda>_. renamed l f0 h) r f'"
    proof (cases "h k")
      case (Some i)
      have "renamed l f0 (h(k := None, Suc k \<mapsto> i)) (f\<lparr>f_names := (f_names f)(log_name l k := None, log_name l (Suc k) \<mapsto> i)\<rparr>)"
        using f assms(3) by (auto simp: renamed_def)
      with a n Some show ?thesis by auto
    qed (use a n f in auto)
  qed
  have "triple (renamed l f0 h) (check_log_target l (Suc k)) (\<lambda>_. renamed l f0 h) (\<lambda>_. renamed l f0 h)"
    unfolding check_log_target_def by (intro looksD looks_bind looks_exists) (simp add: looks_validate looks_ret)
  from triple_then [OF this triple_wrap [OF r]] show ?thesis unfolding move_log_def .
qed

lemma triple_shift:
  assumes "plain l f0 h" "h (Suc k) = None" "k < el_backups l"
  shows "triple (renamed l f0 h) (shift_backup l k) (\<lambda>_. renamed l f0 (h(k := None, Suc k := h k))) (\<lambda>_. renamed l f0 h)"
  unfolding shift_backup_def
proof (rule triple_bind [OF renamed_exists [OF assms(1)]])
  fix there
  show "triple (\<lambda>f. renamed l f0 h f \<and> there = (h k \<noteq> None))
     (if \<not> there then io_ret () else io_then (validate_evidence_path (log_name l k) (el_state l)) (move_log l ''watch event log'' k))
     (\<lambda>_. renamed l f0 (h(k := None, Suc k := h k))) (\<lambda>_. renamed l f0 h)"
  proof (cases there)
    case True
    then show ?thesis
      by simp (rule triple_pre [OF triple_then [OF looksD [OF looks_validate] triple_move [OF assms]]], simp)
  next
    case False
    have e: "h(k := None, Suc k := None) = h" if "h k = None" using that assms(2) by auto
    show ?thesis using False by (auto simp: e intro: triple_ret)
  qed
qed (use assms(3) in simp)

text \<open>The files after the backups from \<open>j\<close> on have moved up by one.\<close>

definition moved :: "(nat \<Rightarrow> 'a option) \<Rightarrow> nat \<Rightarrow> nat \<Rightarrow> 'a option" where
  "moved g j k = (if k < j then g k else if k = j then None else g (k - 1))"

lemma moved_step: "(moved g (Suc k))(k := None, Suc k := moved g (Suc k) k) = moved g k"
  by (auto simp: moved_def fun_eq_iff)

lemma moved_plain:
  assumes "plain l f0 g"
  shows "plain l f0 (moved g j)"
  unfolding plain_def
proof (intro allI impI)
  fix k i
  assume k: "k \<le> el_backups l" "moved g j k = Some i"
  then have "g k = Some i \<or> g (k - 1) = Some i" by (auto simp: moved_def split: if_splits)
  moreover have "k - 1 \<le> el_backups l" using k(1) by simp
  ultimately show "i_kind (f_inodes f0 i) = Reg" using k(1) assms unfolding plain_def by blast
qed

definition partly_moved :: "event_log \<Rightarrow> fs \<Rightarrow> (nat \<Rightarrow> nat option) \<Rightarrow> fs \<Rightarrow> bool" where
  "partly_moved l f0 g f = (\<exists>j \<le> Suc (el_backups l). renamed l f0 (moved g j) f)"

lemma partly_movedI: "j \<le> Suc (el_backups l) \<Longrightarrow> renamed l f0 (moved g j) f \<Longrightarrow> partly_moved l f0 g f"
  by (auto simp: partly_moved_def)

lemma moved_none: "moved g j j = None"
  by (simp add: moved_def)

lemma triple_shifts:
  assumes "plain l f0 g" "Suc j \<le> el_backups l"
  shows "triple (renamed l f0 (moved g (Suc j))) (io_each (shift_backup l) (rev [1..<Suc j]))
    (\<lambda>_. renamed l f0 (moved g 1)) (\<lambda>_. partly_moved l f0 g)"
  using assms(2)
proof (induction j)
  case 0
  show ?case by (auto intro: triple_ret)
next
  case (Suc j)
  have "triple (renamed l f0 (moved g (Suc (Suc j)))) (shift_backup l (Suc j)) (\<lambda>_. renamed l f0 (moved g (Suc j))) (\<lambda>_. partly_moved l f0 g)"
    by (rule triple_conseq [OF triple_shift [OF moved_plain [OF assms(1)], of "Suc (Suc j)" "Suc j"]])
       (use Suc.prems in \<open>auto simp: moved_step moved_none intro: partly_movedI [rotated]\<close>)
  from triple_then [OF this Suc.IH] Suc.prems show ?case by simp
qed

lemma triple_rotate:
  assumes "plain l f0 g" "1 \<le> el_backups l"
  shows "triple (renamed l f0 g) (rotate_log l) (\<lambda>_. renamed l f0 (moved g 0)) (\<lambda>_. partly_moved l f0 g)"
proof -
  have e: "renamed l f0 (moved g (Suc (el_backups l))) = renamed l f0 g"
    "renamed l f0 (g(el_backups l := None)) = renamed l f0 (moved g (el_backups l))"
    by (rule renamed_cong; simp add: moved_def)+
  obtain n where n: "el_backups l = Suc n" using assms(2) by (cases "el_backups l") auto
  have 1: "triple (renamed l f0 g) (drop_oldest l) (\<lambda>_. renamed l f0 (moved g (el_backups l))) (\<lambda>_. partly_moved l f0 g)"
    using triple_drop_oldest [OF assms(1)] unfolding e(2)
    by (rule triple_conseq) (use e(1) in \<open>auto simp: partly_moved_def\<close>)
  have 3: "triple (renamed l f0 (moved g 1)) (move_log l what 0) (\<lambda>_. renamed l f0 (moved g 0)) (\<lambda>_. partly_moved l f0 g)" for what
    by (rule triple_conseq [OF triple_move [OF moved_plain [OF assms(1)], of 1 0 what]])
       (use assms(2) moved_step [of g 0] in \<open>auto simp: moved_none intro: partly_movedI [rotated]\<close>)
  note 2 = triple_shifts [OF assms(1), of n, folded n, OF order_refl]
  show ?thesis
    unfolding rotate_log_def using triple_then [OF 1 triple_then [OF 2 3]] by simp
qed


section \<open>The line\<close>

lemma append_data_append: "append_data i t (append_data i s f) = append_data i (s @ t) f"
  by (simp add: append_data_def)

lemma append_data_Nil [simp]: "append_data i [] f = f"
  by (simp add: append_data_def)

lemma triple_write_part:
  assumes "\<And>n. Q n (append_data i (take n d) f1)" and "R f1"
  shows "triple (\<lambda>f. f = f1) (sys_write_part i d) Q (\<lambda>_. R)"
proof (rule tripleI)
  fix w r w'
  assume w: "calm w" "w_fs w = f1" and e: "sys_write_part i d w = (r, w')"
  define n where "n = min (w_cut w (w_tick w)) (length d)"
  have "triple (\<lambda>f. f = f1) (sys (\<lambda>f. (Inr n, append_data i (take n d) f))) Q (\<lambda>_. R)"
    by (rule triple_sys) (use assms in auto)
  then show "calm w' \<and> post Q (\<lambda>_. R) r (w_fs w')"
    using w e unfolding sys_write_part_def Let_def n_def [symmetric] by (rule tripleX)
qed


lemma triple_append_rest:
  "triple (\<lambda>f. f = append_data i s f1) (append_rest n i d)
     (\<lambda>_ f. length d \<le> n \<longrightarrow> f = append_data i (s @ d) f1) (\<lambda>_ f. \<exists>t. prefix t d \<and> f = append_data i (s @ t) f1)"
proof (induction n arbitrary: s d)
  case 0
  show ?case by (auto intro: triple_ret)
next
  case (Suc n)
  let ?R = "\<lambda>(_::exn) f. \<exists>t. prefix t d \<and> f = append_data i (s @ t) f1"
  show ?case
  proof (cases "d = []")
    case True
    then show ?thesis by (auto intro: triple_ret)
  next
    case False
    have k: "triple (\<lambda>f. f = append_data i (s @ take k d) f1)
        (io_if (k = 0) (WatchError ''watch event log append made no progress'') (append_rest n i (drop k d)))
        (\<lambda>_ f. length d \<le> Suc n \<longrightarrow> f = append_data i (s @ d) f1) ?R" for k
    proof (rule triple_if)
      assume "k \<noteq> 0"
      have p: "prefix t (drop k d) \<Longrightarrow> prefix (take k d @ t) d" for t
        by (metis append_take_drop_id prefix_def append_assoc)
      show "triple (\<lambda>f. f = append_data i (s @ take k d) f1) (append_rest n i (drop k d))
          (\<lambda>_ f. length d \<le> Suc n \<longrightarrow> f = append_data i (s @ d) f1) ?R"
        by (rule triple_conseq [OF Suc.IH [of "s @ take k d" "drop k d"]])
           (use \<open>k \<noteq> 0\<close> p in \<open>auto simp: append_assoc\<close>)
    qed (auto intro: exI [of _ "[]"])
    have w: "triple (\<lambda>f. f = append_data i s f1) (sys_write_part i d) (\<lambda>k f. f = append_data i (s @ take k d) f1) ?R"
      by (rule triple_write_part) (auto simp: append_data_append intro: exI [of _ "[]"])
    show ?thesis using triple_bind [OF w k] False by simp
  qed
qed

lemma triple_append_open:
  assumes "i_kind (f_inodes f1 i) = Reg"
  shows "triple (\<lambda>f. f = f1)
      (append_open line i)
      (\<lambda>_ f. f = append_data i line f1) (\<lambda>_ f. \<exists>t. prefix t line \<and> f = append_data i t f1)"
  unfolding append_open_def
proof (rule triple_wrap, rule triple_bind [where Q = "\<lambda>(_, d) f. f = f1 \<and> i_kind d = Reg"])
  let ?R = "\<lambda>(_::exn) f. \<exists>t. prefix t line \<and> f = append_data i t f1"
  show "triple (\<lambda>f. f = f1) (sys_fstat i) (\<lambda>(_, d) f. f = f1 \<and> i_kind d = Reg) ?R"
    unfolding sys_fstat_def by (rule triple_look) (use assms in \<open>auto intro: exI [of _ "[]"]\<close>)
  have a: "triple (\<lambda>f. f = f1) (append_rest (length line) i line) (\<lambda>_ f. f = append_data i line f1) ?R"
    using triple_append_rest [of i "[]" f1 "length line" line] by simp
  have s: "triple (\<lambda>f. f = append_data i line f1) (sys_fsync i) (\<lambda>_ f. f = append_data i line f1) ?R"
    unfolding sys_fsync_def by (rule triple_nop) auto
  fix x :: "nat \<times> inode"
  show "triple ((case x of (_, d) \<Rightarrow> \<lambda>f. f = f1 \<and> i_kind d = Reg))
     (case x of (_, d) \<Rightarrow> io_if (i_kind d \<noteq> Reg) (WatchError ''opened watch event log is not a regular, non-reparse file'')
         (io_then (append_rest (length line) i line) (sys_fsync i)))
     (\<lambda>_ f. f = append_data i line f1) ?R"
    by (cases x) (auto intro!: triple_if intro: triple_pre [OF triple_then [OF a s]])
qed

lemma triple_append_bytes:
  assumes "f_names f1 (el_path l) = Some i" "i_kind (f_inodes f1 i) = Reg"
  shows "triple (\<lambda>f. f = f1) (append_bytes l line)
    (\<lambda>_ f. f = append_data i line f1) (\<lambda>_ f. \<exists>t. prefix t line \<and> f = append_data i t f1)"
  unfolding append_bytes_def
proof (rule triple_bind [where Q = "\<lambda>j f. f = f1 \<and> j = i"], rule triple_wrap)
  show "triple (\<lambda>f. f = f1) (sys_open_log (el_path l)) (\<lambda>j f. f = f1 \<and> j = i) (\<lambda>_ f. \<exists>t. prefix t line \<and> f = append_data i t f1)"
    unfolding sys_open_log_def by (rule triple_sys) (use assms in \<open>auto intro: exI [of _ "[]"]\<close>)
qed (rule triple_assume, simp add: triple_append_open assms(2))

lemma triple_append_new:
  assumes "f_names f1 (el_path l) = None" and "f2 = new_inode f1 (el_path l) (file_inode [])"
  shows "triple (\<lambda>f. f = f1) (append_bytes l line)
    (\<lambda>_ f. f = append_data (f_next f1) line f2)
    (\<lambda>_ f. f = f1 \<or> (\<exists>t. prefix t line \<and> f = append_data (f_next f1) t f2))"
  unfolding append_bytes_def
proof (rule triple_bind [where Q = "\<lambda>j f. f = f2 \<and> j = f_next f1"], rule triple_wrap)
  show "triple (\<lambda>f. f = f1) (sys_open_log (el_path l)) (\<lambda>j f. f = f2 \<and> j = f_next f1)
      (\<lambda>_ f. f = f1 \<or> (\<exists>t. prefix t line \<and> f = append_data (f_next f1) t f2))"
    unfolding sys_open_log_def by (rule triple_sys) (use assms in \<open>auto simp: create_excl_def split: if_splits\<close>)
next
  fix j
  have "i_kind (f_inodes f2 (f_next f1)) = Reg" by (simp add: assms(2) new_inode_def file_inode_def)
  from triple_append_open [OF this, of line]
  show "triple (\<lambda>f. f = f2 \<and> j = f_next f1)
     (append_open line j)
     (\<lambda>_ f. f = append_data (f_next f1) line f2)
     (\<lambda>_ f. f = f1 \<or> (\<exists>t. prefix t line \<and> f = append_data (f_next f1) t f2))"
    by (intro triple_assume) (auto intro: triple_conseq)
qed

section \<open>What the log holds\<close>

definition log_data :: "event_log \<Rightarrow> fs \<Rightarrow> nat \<Rightarrow> string option" where
  "log_data l f k = map_option i_data (view f (log_name l k))"

text \<open>Every file of the log is a regular file within the bound, and the current one has no second name.\<close>

definition log_ok :: "event_log \<Rightarrow> fs \<Rightarrow> bool" where
  "log_ok l f =
    (fs_ok f \<and> (\<forall>k d. k \<le> el_backups l \<longrightarrow> view f (log_name l k) = Some d \<longrightarrow> i_kind d = Reg \<and> length (i_data d) \<le> el_max l)
     \<and> (\<forall>q. f_names f q \<noteq> None \<longrightarrow> f_names f q = f_names f (el_path l) \<longrightarrow> q = el_path l))"

text \<open>What an appended line makes of the contents.\<close>

definition appended :: "nat \<Rightarrow> string \<Rightarrow> (nat \<Rightarrow> string option) \<Rightarrow> nat \<Rightarrow> string option" where
  "appended bound line c =
    (let now = (case c 0 of None \<Rightarrow> [] | Some s \<Rightarrow> s) in
     if now \<noteq> [] \<and> bound < length now + length line then (\<lambda>k. case k of 0 \<Rightarrow> Some line | Suc j \<Rightarrow> c j)
     else c(0 := Some (now @ line)))"

text \<open>Everything but the oldest backup is still there, with at most a part of the line behind it.\<close>

definition survives :: "nat \<Rightarrow> string \<Rightarrow> (nat \<Rightarrow> string option) \<Rightarrow> (nat \<Rightarrow> string option) \<Rightarrow> bool" where
  "survives n line c c' = (\<forall>k < n. \<forall>s. c k = Some s \<longrightarrow> (\<exists>j \<le> n. \<exists>t. prefix t line \<and> c' j = Some (s @ t)))"

lemma triple_log_size:
  assumes "\<And>d. view f1 (el_path l) = Some d \<Longrightarrow> i_kind d \<noteq> Lnk"
  shows "triple (\<lambda>f. f = f1) (log_size l)
    (\<lambda>n f. f = f1 \<and> n = (case log_data l f1 0 of None \<Rightarrow> 0 | Some s \<Rightarrow> length s)) (\<lambda>_ f. f = f1)"
  unfolding log_size_def
proof (rule triple_wrap, rule triple_bind [OF exists_exact [where b = "view f1 (el_path l) \<noteq> None"]])
  fix there
  show "triple (\<lambda>f. f = f1 \<and> there = (view f1 (el_path l) \<noteq> None)) (if there then stat_size (el_path l) else io_ret 0)
     (\<lambda>n f. f = f1 \<and> n = (case log_data l f1 0 of None \<Rightarrow> 0 | Some s \<Rightarrow> length s)) (\<lambda>_ f. f = f1)"
  proof (cases "view f1 (el_path l)")
    case None
    then show ?thesis by (cases there) (auto simp: log_data_def log_name_def triple_def io_ret_def)
  next
    case (Some d)
    have s: "triple (\<lambda>f. f = f1) (sys_stat (el_path l)) (\<lambda>(_, x) f. f = f1 \<and> x = d) (\<lambda>_ f. f = f1)"
      unfolding sys_stat_def
      by (rule triple_look) (use Some assms in \<open>auto simp: rbind_Inr_iff dest!: resolve_nonlink\<close>)
    have "triple (\<lambda>f. f = f1) (stat_size (el_path l)) (\<lambda>n f. f = f1 \<and> n = length (i_data d)) (\<lambda>_ f. f = f1)"
      unfolding stat_size_def by (rule triple_bind [OF s]) (auto split: prod.split intro!: triple_ret)
    with Some show ?thesis by (cases there) (auto simp: log_data_def log_name_def triple_def io_ret_def)
  qed
qed (use assms in \<open>auto split: option.split\<close>)


text \<open>The effect of the calls on the contents.\<close>

lemma renamed_data:
  assumes "renamed l f1 (moved (\<lambda>k. f_names f1 (log_name l k)) j) f" "k \<le> el_backups l"
  shows "log_data l f k = moved (log_data l f1) j k"
  using assms by (auto simp: renamed_def log_data_def view_def moved_def)

lemma renamed_ok:
  assumes ok: "log_ok l f1" and r: "renamed l f1 (moved (\<lambda>k. f_names f1 (log_name l k)) j) f"
  shows "log_ok l f"
proof -
  let ?g = "\<lambda>k. f_names f1 (log_name l k)"
  have n: "f_names f (log_name l k) = moved ?g j k" if "k \<le> el_backups l" for k using r that by (simp add: renamed_def)
  have o: "f_names f q = f_names f1 q" if "q \<notin> log_name l ` {..el_backups l}" for q using r that by (simp add: renamed_def)
  have i: "f_inodes f = f_inodes f1" "f_next f = f_next f1" using r by (simp_all add: renamed_def)
  have some: "\<exists>m. f_names f q = f_names f1 m \<and> (q = m \<or> (\<exists>k. m = log_name l k \<and> q = log_name l (Suc k) \<and> j \<le> k \<and> k < el_backups l))"
    if q: "f_names f q \<noteq> None" for q
  proof (cases "q \<in> log_name l ` {..el_backups l}")
    case True
    then obtain k where k: "q = log_name l k" "k \<le> el_backups l" by auto
    show ?thesis
    proof (cases "k < j")
      case True
      with k n [OF k(2)] show ?thesis by (intro exI [of _ q]) (simp add: moved_def)
    next
      case False
      have "k \<noteq> j" using q k n [OF k(2)] by (auto simp: moved_def)
      with False show ?thesis
        using k n [OF k(2)] by (intro exI [of _ "log_name l (k - 1)"]) (cases k; auto simp: moved_def)
    qed
  qed (auto simp: o)
  have "fs_ok f" using ok some i(2) unfolding log_ok_def fs_ok_def by (metis option.distinct(1))
  moreover have "i_kind d = Reg \<and> length (i_data d) \<le> el_max l" if k: "k \<le> el_backups l" and v: "view f (log_name l k) = Some d" for k d
  proof -
    have "view f1 (log_name l k) = Some d \<or> view f1 (log_name l (k - 1)) = Some d"
      using v n [OF k] by (auto simp: view_def i moved_def split: if_splits)
    with ok k show ?thesis by (auto simp: log_ok_def dest: le_trans [OF diff_le_self])
  qed
  moreover have "q = el_path l" if q: "f_names f q \<noteq> None" "f_names f q = f_names f (el_path l)" for q
  proof -
    have p: "f_names f (el_path l) = (if j = 0 then None else f_names f1 (el_path l))"
      using n [of 0] by (simp add: log_name_def moved_def)
    with q have j: "j \<noteq> 0" by (auto split: if_splits)
    obtain m where m: "f_names f q = f_names f1 m" "q = m \<or> (\<exists>k. m = log_name l k \<and> q = log_name l (Suc k) \<and> j \<le> k \<and> k < el_backups l)"
      using some [of q] q(1) by blast
    with q p j have "f_names f1 m \<noteq> None" "f_names f1 m = f_names f1 (el_path l)" by auto
    with ok have "m = el_path l" by (simp add: log_ok_def)
    then have "m = log_name l 0" by (simp add: log_name_def)
    with m(2) j show ?thesis by (auto simp: log_name_def split: if_splits)
  qed
  ultimately show ?thesis unfolding log_ok_def by blast
qed

lemma append_ok:
  assumes ok: "log_ok l f" and i: "f_names f (el_path l) = Some i" and n: "length (i_data (f_inodes f i)) + length t \<le> el_max l"
  shows "log_ok l (append_data i t f)"
    and "log_data l (append_data i t f) = (log_data l f)(0 := Some (i_data (f_inodes f i) @ t))"
proof -
  have v: "view (append_data i t f) q = (if q = el_path l then Some ((f_inodes f i)\<lparr>i_data := i_data (f_inodes f i) @ t\<rparr>) else view f q)" for q
    using ok i unfolding log_ok_def append_data_def view_def by (cases "f_names f q") auto
  have k: "i_kind (f_inodes f i) = Reg"
    using ok i unfolding log_ok_def view_def by (metis le0 log_name_def option.simps(9))
  show "log_data l (append_data i t f) = (log_data l f)(0 := Some (i_data (f_inodes f i) @ t))"
    by (auto simp: fun_eq_iff log_data_def v) (simp_all add: log_name_def)
  show "log_ok l (append_data i t f)"
    using ok n k unfolding log_ok_def v by (auto simp: append_data_def fs_ok_def split: if_splits)
qed

lemma append_new_ok:
  assumes ok: "log_ok l f" and i: "f_names f (el_path l) = None" and n: "length t \<le> el_max l"
  shows "log_ok l (append_data (f_next f) t (new_inode f (el_path l) (file_inode [])))"
    and "log_data l (append_data (f_next f) t (new_inode f (el_path l) (file_inode []))) = (log_data l f)(0 := Some t)"
proof -
  let ?f = "append_data (f_next f) t (new_inode f (el_path l) (file_inode []))"
  have lt: "f_names f q \<noteq> Some (f_next f)" for q using ok by (auto simp: log_ok_def fs_ok_def)
  have v: "view ?f q = (if q = el_path l then Some (file_inode t) else view f q)" for q
    using lt [of q] by (cases "f_names f q") (auto simp: append_data_def new_inode_def view_def file_inode_def)
  have "i_data (file_inode t) = t" by (simp add: file_inode_def)
  then show "log_data l ?f = (log_data l f)(0 := Some t)"
    by (auto simp: fun_eq_iff log_data_def v) (simp_all add: log_name_def v)
  show "log_ok l ?f"
    using ok n lt unfolding log_ok_def v
    by (auto simp: append_data_def new_inode_def fs_ok_def file_inode_def less_SucI split: if_splits)
qed


text \<open>Directories that are made get fresh inodes and leave the log alone.\<close>

lemma add_dirs_names:
  assumes "fs_ok f" and "f_next f0 \<le> f_next f"
    and "\<And>q. f_names f q = f_names f0 q \<or> f_names f0 q = None \<and> q \<in> S \<and> (\<exists>i \<ge> f_next f0. f_names f q = Some i)"
  shows "f_names (fold add_dir ps f) q = f_names f0 q
    \<or> f_names f0 q = None \<and> q \<in> S \<union> set ps \<and> (\<exists>i \<ge> f_next f0. f_names (fold add_dir ps f) q = Some i)"
  using assms
proof (induction ps arbitrary: f S)
  case (Cons p ps)
  let ?g = "add_dir p f"
  have ok: "fs_ok ?g" "f_next f0 \<le> f_next ?g"
    using Cons.prems(1,2) by (auto simp: add_dir_def fs_ok_new_inode) (simp add: new_inode_def)
  have "f_names ?g q = f_names f0 q \<or> f_names f0 q = None \<and> q \<in> insert p S \<and> (\<exists>i \<ge> f_next f0. f_names ?g q = Some i)" for q
    using Cons.prems(3) [of q] Cons.prems(2) by (auto simp: add_dir_def new_inode_def)
  from Cons.IH [OF ok this] show ?case by simp
qed simp

lemma mkdirs_log:
  assumes "el_path l \<noteq> []"
  shows "triple (\<lambda>f. f = f0 \<and> log_ok l f0) (sys_mkdirs (parent_of (el_path l)))
    (\<lambda>_ f. log_ok l f \<and> log_data l f = log_data l f0) (\<lambda>_ f. log_ok l f \<and> log_data l f = log_data l f0)"
  unfolding sys_mkdirs_def
proof (rule triple_sys)
  fix f r f'
  let ?d = "parent_of (el_path l)"
  assume f: "f = f0 \<and> log_ok l f0" and a: "(let f' = fold add_dir (ancestors ?d) f in
      case f_names f' ?d of None \<Rightarrow> (Inr (), f')
      | Some i \<Rightarrow> if i_kind (f_inodes f' i) = Dir then (Inr (), f') else (Inl (FileExistsError ?d), f)) = (r, f')"
  define g where "g = fold add_dir (ancestors ?d) f0"
  have ok0: "fs_ok f0" using f by (simp add: log_ok_def)
  have g: "fs_ok g" "view g q = (if view f0 q = None \<and> q \<in> set (ancestors ?d) then Some dir_inode else view f0 q)" for q
    using add_dirs [OF ok0, of "ancestors ?d"] by (simp_all add: g_def)
  have n: "f_names g q = f_names f0 q \<or> f_names f0 q = None \<and> q \<in> set (ancestors ?d) \<and> (\<exists>i \<ge> f_next f0. f_names g q = Some i)" for q
    using add_dirs_names [OF ok0, of f0 "{}" "ancestors ?d" q] by (simp add: g_def)
  have "log_name l k \<notin> set (ancestors ?d)" for k
    using ancestors_length [of "log_name l k" ?d] log_name_length [of l k] parent_len [OF assms] by linarith
  then have v: "view g (log_name l k) = view f0 (log_name l k)" for k by (simp add: g(2))
  have p: "f_names g (el_path l) = f_names f0 (el_path l)"
    using n [of "el_path l"] v [of 0] by (auto simp: log_name_def view_def)
  have sole: "q = el_path l" if "f_names g q \<noteq> None" "f_names g q = f_names g (el_path l)" for q
  proof -
    have "f_names g q = f_names f0 q" using n [of q] that ok0 p unfolding fs_ok_def by (metis not_le)
    with that p f show ?thesis by (simp add: log_ok_def)
  qed
  have "i_kind d = Reg \<and> length (i_data d) \<le> el_max l" if "k \<le> el_backups l" "view g (log_name l k) = Some d" for k d
    using f v that by (simp add: log_ok_def)
  with g(1) sole have "log_ok l g" unfolding log_ok_def by blast
  moreover have "log_data l g = log_data l f0" by (simp add: log_data_def v fun_eq_iff)
  moreover from a f have "f' = g \<or> f' = f0" by (auto simp: Let_def g_def split: option.splits if_splits)
  ultimately show "post (\<lambda>_ f. log_ok l f \<and> log_data l f = log_data l f0) (\<lambda>_ f. log_ok l f \<and> log_data l f = log_data l f0) r f'"
    using f by (cases r) auto
qed simp

section \<open>The guarantee\<close>

lemma survives_refl: "survives n line c c"
  unfolding survives_def by (metis append_Nil2 less_imp_le prefix_bot.extremum)

lemma survives_rotated:
  assumes "j \<le> Suc n" and c: "\<And>k. k \<le> n \<Longrightarrow> c' k = moved c j k"
  shows "survives n line c c'"
  unfolding survives_def
proof (intro allI impI)
  fix k s
  assume k: "k < n" "c k = Some s"
  have "c' (if k < j then k else Suc k) = Some s" using c k by (auto simp: moved_def)
  then show "\<exists>m\<le>n. \<exists>t. prefix t line \<and> c' m = Some (s @ t)"
    using k(1) by (intro exI [of _ "if k < j then k else Suc k"]) (auto intro: exI [of _ "[]"])
qed

lemma survives_append:
  assumes "prefix t line"
  shows "survives n line c (c(0 := Some ((case c 0 of None \<Rightarrow> [] | Some s \<Rightarrow> s) @ t)))"
  unfolding survives_def
proof (intro allI impI)
  fix k u
  assume "k < n" "c k = Some u"
  with assms show "\<exists>j\<le>n. \<exists>t'. prefix t' line \<and> (c(0 := Some ((case c 0 of None \<Rightarrow> [] | Some s \<Rightarrow> s) @ t))) j = Some (u @ t')"
    by (intro exI [of _ k]) (cases k; auto intro: exI [of _ "[]"])
qed

text \<open>The append without a rotation before it, from a log with these contents.\<close>

lemma triple_append_ok:
  assumes ok: "log_ok l f1" and n: "\<And>s. log_data l f1 0 = Some s \<Longrightarrow> length s + length line \<le> el_max l" "length line \<le> el_max l"
  shows "triple (\<lambda>f. f = f1) (append_bytes l line)
    (\<lambda>_ f. log_ok l f \<and> log_data l f = (log_data l f1)(0 := Some ((case log_data l f1 0 of None \<Rightarrow> [] | Some s \<Rightarrow> s) @ line)))
    (\<lambda>_ f. log_ok l f \<and> (f = f1 \<or> (\<exists>t. prefix t line
       \<and> log_data l f = (log_data l f1)(0 := Some ((case log_data l f1 0 of None \<Rightarrow> [] | Some s \<Rightarrow> s) @ t)))))"
proof (cases "f_names f1 (el_path l)")
  case None
  have c: "log_data l f1 0 = None" using None by (simp add: log_data_def log_name_def view_def)
  have a: "length t \<le> el_max l" if "prefix t line" for t using that n(2) by (auto dest: prefix_length_le)
  show ?thesis
    by (rule triple_conseq [OF triple_append_new [OF None refl, of line]])
       (use append_new_ok [OF ok None] a n(2) ok c in \<open>auto simp del: fun_upd_apply\<close>)
next
  case (Some i)
  have c: "log_data l f1 0 = Some (i_data (f_inodes f1 i))" using Some by (simp add: log_data_def log_name_def view_def)
  have k: "i_kind (f_inodes f1 i) = Reg"
    using ok Some unfolding log_ok_def view_def by (metis le0 log_name_def option.simps(9))
  have a: "length (i_data (f_inodes f1 i)) + length t \<le> el_max l" if "prefix t line" for t
    using prefix_length_le [OF that] n(1) [OF c] by simp
  show ?thesis
    by (rule triple_conseq [OF triple_append_bytes [OF Some k, of line]])
       (use append_ok [OF ok Some] a c in \<open>auto simp del: fun_upd_apply\<close>)
qed


lemma survives_fresh:
  assumes "\<And>k. k \<le> n \<Longrightarrow> c' k = moved c 0 k"
  shows "survives n line c (c'(0 := x))"
  unfolding survives_def
proof (intro allI impI)
  fix k s
  assume "k < n" "c k = Some s"
  then have "(c'(0 := x)) (Suc k) = Some (s @ [])" using assms [of "Suc k"] by (simp add: moved_def)
  with \<open>k < n\<close> show "\<exists>j\<le>n. \<exists>t. prefix t line \<and> (c'(0 := x)) j = Some (s @ t)"
    by (intro exI [of _ "Suc k"]) (auto intro: exI [of _ "[]"])
qed

lemma appended_survives:
  assumes "\<forall>k \<le> n. c' k = appended bound line c k"
  shows "survives n line c c'"
proof -
  define now where "now = (case c 0 of None \<Rightarrow> [] | Some s \<Rightarrow> s)"
  show ?thesis
  proof (cases "now \<noteq> [] \<and> bound < length now + length line")
    case True
    have "\<exists>j\<le>n. \<exists>t. prefix t line \<and> c' j = Some (s @ t)" if "k < n" "c k = Some s" for k s
      using assms [rule_format, of "Suc k"] that True
      by (intro exI [of _ "Suc k"]) (auto simp: appended_def now_def [symmetric] intro: exI [of _ "[]"])
    then show ?thesis by (simp add: survives_def)
  next
    case False
    have "\<exists>j\<le>n. \<exists>t. prefix t line \<and> c' j = Some (s @ t)" if "k < n" "c k = Some s" for k s
      using assms [rule_format, of k] that False
      by (intro exI [of _ k]) (cases k; auto simp: appended_def now_def intro: exI [of _ "[]"] split: if_splits)
    then show ?thesis by (simp add: survives_def)
  qed
qed

lemma triple_write_line:
  assumes ok: "log_ok l f1" and b: "1 \<le> el_backups l" and n: "length line \<le> el_max l"
  shows "triple (\<lambda>f. f = f1)
    (io_bind (log_size l) (\<lambda>size_now.
     io_then (if 0 < size_now \<and> el_max l < size_now + length line then rotate_log l else io_ret ()) (append_bytes l line)))
    (\<lambda>_ f. log_ok l f \<and> (\<forall>k \<le> el_backups l. log_data l f k = appended (el_max l) line (log_data l f1) k))
    (\<lambda>_ f. log_ok l f \<and> survives (el_backups l) line (log_data l f1) (log_data l f))"
    (is "triple _ _ ?Q ?R")
proof -
  let ?c = "log_data l f1" and ?g = "\<lambda>k. f_names f1 (log_name l k)"
  define now where "now = (case ?c 0 of None \<Rightarrow> [] | Some s \<Rightarrow> s)"
  have same: "?R e f1" for e using ok survives_refl by blast
  have nl: "i_kind d \<noteq> Lnk" if "view f1 (el_path l) = Some d" for d
    using ok that unfolding log_ok_def by (metis fkind.distinct(3) le0 log_name_def)
  have len: "(case ?c 0 of None \<Rightarrow> 0 | Some s \<Rightarrow> length s) = length now" by (simp add: now_def split: option.split)
  have sz: "triple (\<lambda>f. f = f1) (log_size l) (\<lambda>n f. f = f1 \<and> n = length now) ?R"
    by (rule triple_conseq [OF triple_log_size [OF nl]]) (use same in \<open>simp_all add: len\<close>)
  show ?thesis
  proof (rule triple_bind [OF sz], rule triple_assume, simp only:)
    show "triple (\<lambda>f. f = f1) (io_then (if 0 < length now \<and> el_max l < length now + length line then rotate_log l else io_ret ())
        (append_bytes l line)) ?Q ?R"
    proof (cases "0 < length now \<and> el_max l < length now + length line")
      case True
      have p: "plain l f1 ?g" using ok unfolding plain_def log_ok_def view_def by (metis option.simps(9))
      have pm: "?R e f" if "partly_moved l f1 ?g f" for e f
      proof -
        from that obtain j where j: "j \<le> Suc (el_backups l)" "renamed l f1 (moved ?g j) f" by (auto simp: partly_moved_def)
        have "survives (el_backups l) line ?c (log_data l f)" by (rule survives_rotated [OF j(1)]) (rule renamed_data [OF j(2)])
        with renamed_ok [OF ok j(2)] show ?thesis by simp
      qed
      have app: "triple (\<lambda>f. f = f2) (append_bytes l line) ?Q ?R" if r: "renamed l f1 (moved ?g 0) f2" for f2
      proof -
        have d: "log_data l f2 k = moved ?c 0 k" if "k \<le> el_backups l" for k using renamed_data [OF r that] .
        then have z: "log_data l f2 0 = None" by (simp add: moved_def)
        have q: "?Q u f" if "log_ok l f" "log_data l f = (log_data l f2)(0 := Some line)" for u f
          using that d True by (auto simp: appended_def now_def [symmetric] moved_def split: nat.split)
        have e: "?R e f" if "log_ok l f" "f = f2 \<or> (\<exists>t. log_data l f = (log_data l f2)(0 := Some t))" for e f
        proof -
          have "survives (el_backups l) line ?c (log_data l f2)" by (rule survives_rotated [OF le0]) (rule d)
          moreover have "survives (el_backups l) line ?c ((log_data l f2)(0 := x))" for x by (rule survives_fresh) (rule d)
          ultimately show ?thesis using that by auto
        qed
        show ?thesis
          by (rule triple_conseq [OF triple_append_ok [OF renamed_ok [OF ok r] _ n]]) (use z q e in \<open>auto simp del: fun_upd_apply\<close>)
      qed
      have rot: "triple (\<lambda>f. f = f1) (rotate_log l) (\<lambda>_. renamed l f1 (moved ?g 0)) ?R"
        by (rule triple_conseq [OF triple_rotate [OF p b]]) (use pm in \<open>auto simp: renamed_def\<close>)
      have "triple (renamed l f1 (moved ?g 0)) (append_bytes l line) ?Q ?R" by (rule triple_fs_exact) (rule app)
      from triple_then [OF rot this] True show ?thesis by simp
    next
      case False
      have l: "length s + length line \<le> el_max l" if "?c 0 = Some s" for s using False that n by (cases s) (auto simp: now_def)
      have q: "?Q u f" if "log_ok l f" "log_data l f = ?c(0 := Some (now @ line))" for u f
        using that False by (auto simp: appended_def now_def [symmetric])
      have e: "?R e f" if "log_ok l f" "f = f1 \<or> (\<exists>t. prefix t line \<and> log_data l f = ?c(0 := Some (now @ t)))" for e f
      proof -
        have "survives (el_backups l) line ?c (?c(0 := Some (now @ t)))" if "prefix t line" for t
          unfolding now_def by (rule survives_append [OF that])
        moreover have "survives (el_backups l) line ?c ?c" by (rule survives_refl)
        ultimately show ?thesis using that by auto
      qed
      have "triple (\<lambda>f. f = f1) (append_bytes l line) ?Q ?R"
        by (rule triple_conseq [OF triple_append_ok [OF ok l n], folded now_def]) (use q e in \<open>auto simp del: fun_upd_apply\<close>)
      with False show ?thesis by (auto simp: io_then_def io_bind_def io_ret_def triple_def)
    qed
  qed
qed

lemma triple_log_append:
  assumes ok: "log_ok l f0" and b: "1 \<le> el_backups l" and p: "el_path l \<noteq> []" and line: "log_line entry = Inr line"
  shows "triple (\<lambda>f. f = f0) (log_append l entry)
    (\<lambda>_ f. log_ok l f \<and> (\<forall>k \<le> el_backups l. log_data l f k = appended (el_max l) line (log_data l f0) k))
    (\<lambda>_ f. log_ok l f \<and> survives (el_backups l) line (log_data l f0) (log_data l f))"
    (is "triple _ _ ?Q ?R")
proof -
  let ?A = "\<lambda>f. log_ok l f \<and> log_data l f = log_data l f0"
  let ?W = "io_bind (log_size l) (\<lambda>size_now.
    io_then (if 0 < size_now \<and> el_max l < size_now + length line then rotate_log l else io_ret ()) (append_bytes l line))"
  have ra: "?R e f" if "?A f" for e f
  proof -
    from that have "log_data l f = log_data l f0" "log_ok l f" by simp_all
    with survives_refl show ?thesis by simp
  qed
  have start: "?R e f0" for e using ok by (intro ra) simp
  have e: "triple ?A ?W ?Q ?R" if "\<not> el_max l < length line"
  proof (rule triple_fs_exact)
    fix f1
    assume a: "?A f1"
    show "triple (\<lambda>f. f = f1) ?W ?Q ?R"
      using triple_write_line [OF conjunct1 [OF a] b, of line] that unfolding conjunct2 [OF a] by simp
  qed
  have v: "triple ?A (validate_evidence_path (el_path l) (el_state l)) (\<lambda>_. ?A) ?R"
    by (rule triple_conseq [OF looksD [OF looks_validate, of ?A]]) (assumption | rule ra, assumption)+
  have m: "triple (\<lambda>f. f = f0) (sys_mkdirs (parent_of (el_path l))) (\<lambda>_. ?A) ?R"
    by (rule triple_conseq [OF mkdirs_log [OF p, of f0]]) (rule conjI, assumption, rule ok, assumption, rule ra, assumption)
  have "triple (\<lambda>f. f = f0 \<and> x = line)
     (io_if (el_max l < length x) (WatchError ''one watch event is larger than the configured event-log bound'')
      (io_then (sys_mkdirs (parent_of (el_path l)))
      (io_then (validate_evidence_path (el_path l) (el_state l))
      (io_bind (log_size l) (\<lambda>size_now.
       io_then (if 0 < size_now \<and> el_max l < size_now + length x then rotate_log l else io_ret ())
               (append_bytes l x)))))) ?Q ?R" for x
  proof (rule triple_assume, simp only:, rule triple_if)
    assume n: "\<not> el_max l < length line"
    show "triple (\<lambda>f. f = f0) (io_then (sys_mkdirs (parent_of (el_path l)))
      (io_then (validate_evidence_path (el_path l) (el_state l)) ?W)) ?Q ?R"
      by (rule triple_then [OF m triple_then [OF v e [OF n]]])
  qed (use start in blast)
  note rest = this
  have "triple (\<lambda>f. f = f0) (io_lift (log_line entry)) (\<lambda>x f. f = f0 \<and> x = line) ?R"
    unfolding line by (rule triple_lift) auto
  from triple_bind [OF this rest] show ?thesis unfolding log_append_def .
qed

text \<open>
  C20: Whatever call fails, the files of the event log stay regular files within the bound, and no recorded
  event is lost except with the oldest backup.  When the append returns, the line is at the end of the
  current file, or alone in it after every file has moved up by one because it did not fit.
\<close>

theorem event_log_append:
  assumes "calm w" and "log_ok l (w_fs w)" and "1 \<le> el_backups l" and "el_path l \<noteq> []" and "log_line entry = Inr line"
    and "log_append l entry w = (r, w')"
  shows "log_ok l (w_fs w')
    \<and> survives (el_backups l) line (log_data l (w_fs w)) (log_data l (w_fs w'))
    \<and> (r = Inr () \<longrightarrow> (\<forall>k \<le> el_backups l. log_data l (w_fs w') k = appended (el_max l) line (log_data l (w_fs w)) k))"
proof -
  from tripleX [OF triple_log_append [OF assms(2-5)] assms(1) refl assms(6)]
  have p: "post (\<lambda>_ f. log_ok l f \<and> (\<forall>k \<le> el_backups l. log_data l f k = appended (el_max l) line (log_data l (w_fs w)) k))
    (\<lambda>_ f. log_ok l f \<and> survives (el_backups l) line (log_data l (w_fs w)) (log_data l f)) r (w_fs w')" by simp
  show ?thesis
  proof (cases r)
    case (Inr u)
    with p have "log_ok l (w_fs w')" and q: "\<forall>k \<le> el_backups l. log_data l (w_fs w') k = appended (el_max l) line (log_data l (w_fs w)) k"
      by simp_all
    with appended_survives [OF q] show ?thesis by blast
  qed (use p in simp)
qed


definition ex_log :: event_log where
  "ex_log = \<lparr>el_path = ''/s/log'', el_state = ''/s'', el_max = 65536, el_backups = 2\<rparr>"

definition ex_log_world :: world where
  "ex_log_world = \<lparr>w_fs = \<lparr>f_names = (\<lambda>_. None), f_inodes = (\<lambda>_. dir_inode), f_next = 0\<rparr>,
     w_tick = 0, w_faults = (\<lambda>_. None), w_env = (\<lambda>_ f. f), w_cut = (\<lambda>_. 2), w_fresh = (\<lambda>_. ''t''),
     w_clock = (\<lambda>_. 0), w_locked = []\<rparr>"

text \<open>The line is written in two parts here.\<close>

lemma event_log_append_witness:
  "\<exists>w'. log_append ex_log [] ex_log_world = (Inr (), w')
    \<and> log_data ex_log (w_fs w') 0 = Some [CHR 0x7B, CHR 0x7D, CHR 0x0A]"
proof -
  obtain r w' where e: "log_append ex_log [] ex_log_world = (r, w')" by force
  have m: "sys_mkdirs ''/s'' ex_log_world = (Inr (), ex_log_world\<lparr>w_fs := new_inode (w_fs ex_log_world) ''/s'' dir_inode, w_tick := 1\<rparr>)"
    by (simp add: sys_mkdirs_def sys_def Let_def step_world_def ex_log_world_def ancestors.simps [of "''/s''"] ancestors.simps [of "[]"]
       parent_of_def add_dir_def new_inode_def dir_inode_def)
  define w1 where "w1 = ex_log_world\<lparr>w_fs := new_inode (w_fs ex_log_world) ''/s'' dir_inode, w_tick := 1\<rparr>"
  have x: "path_exists ''/s/log'' (w1\<lparr>w_tick := n\<rparr>) = (Inr False, w1\<lparr>w_tick := Suc n\<rparr>)" for n
    by (simp add: path_exists_def sys_stat_def sys_def Let_def step_world_def w1_def ex_log_world_def new_inode_def
      io_catch_def io_bind_def io_ret_def max_links_def numeral_eq_Suc)
  have p: "evidence_parents ''/s'' ''/s'' = Inr []" by (simp add: evidence_parents.simps)
  have v: "validate_evidence_path ''/s/log'' ''/s'' (w1\<lparr>w_tick := n\<rparr>) = (Inr (), w1\<lparr>w_tick := Suc n\<rparr>)" for n
    by (simp add: validate_evidence_path_def below_def parent_of_def p check_evidence_def io_bind_def io_then_def io_lift_def io_ret_def x)
  have z: "log_size ex_log (w1\<lparr>w_tick := n\<rparr>) = (Inr 0, w1\<lparr>w_tick := Suc n\<rparr>)" for n
    by (simp add: log_size_def ex_log_def io_catch_def io_bind_def io_ret_def x)
  have l: "log_line [] = Inr [CHR 0x7B, CHR 0x7D, CHR 0x0A]" by code_simp
  have c: "calm ex_log_world" "log_ok ex_log (w_fs ex_log_world)" "log_data ex_log (w_fs ex_log_world) 0 = None"
    by (simp_all add: calm_def log_ok_def fs_ok_def view_def log_data_def ex_log_world_def)
  define f2 where "f2 = new_inode (w_fs w1) ''/s/log'' (file_inode [])"
  have w: "w_faults w1 = (\<lambda>_. None)" "w_env w1 = (\<lambda>_ f. f)" "w_cut w1 = (\<lambda>_. 2)" "f_next (w_fs w1) = 1"
    by (simp_all add: w1_def ex_log_world_def new_inode_def)
  have o: "sys_open_log ''/s/log'' (w1\<lparr>w_tick := n\<rparr>) = (Inr 1, w1\<lparr>w_fs := f2, w_tick := Suc n\<rparr>)" for n
    by (simp add: sys_open_log_def sys_def Let_def step_world_def w f2_def create_excl_def dir_exists_def parent_of_def max_links_def
      numeral_eq_Suc) (simp add: create_excl_def dir_exists_def parent_of_def max_links_def numeral_eq_Suc
      w1_def ex_log_world_def new_inode_def dir_inode_def)
  have k: "i_kind (f_inodes f2 1) = Reg" by (simp add: f2_def new_inode_def file_inode_def w)
  have a: "fst (append_open [CHR 0x7B, CHR 0x7D, CHR 0x0A] 1 (w1\<lparr>w_fs := f2, w_tick := n\<rparr>)) = Inr ()" for n
    by (simp add: append_open_def sys_fstat_def sys_def Let_def step_world_def w k [simplified] io_catch_def io_bind_def io_then_def io_ret_def
      sys_write_part_def sys_fsync_def sys_nop_def eval_nat_numeral)
  have "log_append ex_log [] ex_log_world = append_open [CHR 0x7B, CHR 0x7D, CHR 0x0A] 1 (w1\<lparr>w_fs := f2, w_tick := 4\<rparr>)"
  proof -
    have ex: "el_path ex_log = ''/s/log''" "el_state ex_log = ''/s''" "el_max ex_log = 65536" by (simp_all add: ex_log_def)
    have "w1 = w1\<lparr>w_tick := 1\<rparr>" by (simp add: w1_def)
    with m have m': "sys_mkdirs (parent_of ''/s/log'') ex_log_world = (Inr (), w1\<lparr>w_tick := 1\<rparr>)"
      by (simp add: w1_def parent_of_def)
    have o': "append_bytes ex_log line (w1\<lparr>w_tick := 3\<rparr>) = append_open line 1 (w1\<lparr>w_fs := f2, w_tick := 4\<rparr>)" for line
      unfolding append_bytes_def ex by (simp add: io_bind_def io_catch_def o)
    have "log_append ex_log [] ex_log_world = io_then (io_ret ()) (append_bytes ex_log [CHR 0x7B, CHR 0x7D, CHR 0x0A]) (w1\<lparr>w_tick := 3\<rparr>)"
      unfolding log_append_def ex l
      by (simp add: io_bind_def io_then_def io_lift_def m' v z numeral_3_eq_3)
    then show ?thesis by (simp add: o')
  qed
  with a e have r: "r = Inr ()" by (metis fst_conv)
  from event_log_append [OF c(1,2) _ _ l e] r
  have "log_data ex_log (w_fs w') 0 = appended 65536 [CHR 0x7B, CHR 0x7D, CHR 0x0A] (log_data ex_log (w_fs ex_log_world)) 0"
    by (simp add: ex_log_def)
  with e r c(3) show ?thesis by (simp add: appended_def)
qed

end
