(* ===== verification/Watch_Evidence.thy ===== *)
theory Watch_Evidence
  imports Event_Log Atomic_Write Quarantine_Restore Watcher
begin

text \<open>
  \<open>WatchEvidenceSink\<close> of \<^verbatim>\<open>src/zsec_shield/watch_evidence.py\<close>: every record of a session goes into the event log
  and moves a small state machine, whose state is written to the health file.  The desktop and the
  supervisor read that file.
\<close>

section \<open>The sink\<close>

record sink =
  sk_health_file :: "path option"
  sk_log :: "event_log option"
  sk_heartbeat :: json
  sk_process :: int
  sk_started_at :: string
  sk_executable :: string
  sk_sha256 :: string
  sk_backend :: "string option"
  sk_roots :: "json list"
  sk_policy :: dict
  sk_state :: string
  sk_outcome :: "string option"
  sk_counters :: dict

definition optional_string :: "json \<Rightarrow> string option" where
  "optional_string v = (if is_str v then Some (str_of v) else None)"

definition integer_values :: "dict \<Rightarrow> dict" where
  "integer_values d = filter (\<lambda>(_, v). is_int_nb v) d"

definition sha256_file :: "nat \<Rightarrow> path \<Rightarrow> string io" where
  "sha256_file fuel p =
    io_catch (io_bind (sys_open_rb p) (\<lambda>i. io_bind (pump id fuel i None []) (\<lambda>b. io_ret (hexdigest b)))) is_os_error
      (\<lambda>e. io_raise (WatchError (''cannot hash the active runtime executable: '' @ exn_text e)))"

text \<open>The constructor; \<open>exe\<close> is the resolved path of the interpreter, \<open>log\<close> the path and the two bounds of the log.\<close>

definition new_sink ::
    "nat \<Rightarrow> path \<Rightarrow> path option \<Rightarrow> path option \<Rightarrow> nat \<Rightarrow> nat \<Rightarrow> json \<Rightarrow> int \<Rightarrow> string \<Rightarrow> path \<Rightarrow> sink io" where
  "new_sink fuel state_dir health_file log max_bytes backups heartbeat_seconds pid started exe =
    io_then (case health_file of None \<Rightarrow> io_ret () | Some h \<Rightarrow> validate_evidence_path h state_dir)
    (io_bind (case log of None \<Rightarrow> io_ret None
        | Some p \<Rightarrow> io_bind (new_event_log p state_dir max_bytes backups) (\<lambda>l. io_ret (Some l))) (\<lambda>l.
     io_bind (sha256_file fuel exe) (\<lambda>digest.
     io_ret \<lparr>sk_health_file = health_file, sk_log = l, sk_heartbeat = heartbeat_seconds, sk_process = pid,
        sk_started_at = started, sk_executable = exe, sk_sha256 = digest, sk_backend = None, sk_roots = [], sk_policy = [],
        sk_state = ''starting'', sk_outcome = None, sk_counters = []\<rparr>)))"

text \<open>The counters of a scan, when the record has them.\<close>

definition take_counters :: "json \<Rightarrow> sink \<Rightarrow> sink" where
  "take_counters v sk =
    (if is_obj v then sk\<lparr>sk_counters := integer_values (obj_of v)\<rparr> else sk)"

definition take_scan :: "dict \<Rightarrow> sink \<Rightarrow> sink" where
  "take_scan payload sk =
    (let sk = sk\<lparr>sk_outcome := optional_string (dget payload ''outcome'')\<rparr>; v = dget payload ''scan''
     in if is_obj v then take_counters (dget (obj_of v) ''stats'') sk else sk)"

text \<open>What one record makes of the state.\<close>

definition session_started :: "dict \<Rightarrow> sink \<Rightarrow> sink" where
  "session_started payload sk =
    (let roots = dget payload ''roots''; policy = dget payload ''policy'' in
     sk\<lparr>sk_backend := optional_string (dget payload ''backend_active''),
        sk_roots := (if is_list roots \<and> list_all is_str (list_of roots) then list_of roots else sk_roots sk),
        sk_policy := (if is_obj policy then obj_of policy else sk_policy sk), sk_state := ''inventorying_metadata''\<rparr>)"

definition scan_finished :: "dict \<Rightarrow> sink \<Rightarrow> sink" where
  "scan_finished payload sk =
    (let sk = take_scan payload sk
     in if sk_outcome sk = Some ''incomplete'' then sk\<lparr>sk_state := ''degraded''\<rparr> else sk)"

definition inventory_finished :: "dict \<Rightarrow> sink \<Rightarrow> sink" where
  "inventory_finished payload sk =
    (let sk = take_scan payload sk
     in if sk_outcome sk = Some ''metadata_inventory_complete'' then
          (if sk_state sk = ''degraded'' then sk else sk\<lparr>sk_state := ''healthy''\<rparr>)
        else sk\<lparr>sk_state := ''degraded''\<rparr>)"

definition heartbeat_seen :: "dict \<Rightarrow> sink \<Rightarrow> sink" where
  "heartbeat_seen payload sk =
    (let sk = take_counters (dget payload ''stats'') (sk\<lparr>sk_backend := optional_string (dget payload ''backend_active'')\<rparr>);
         gap = dget payload ''operational_incomplete''
     in if gap = JBool True then sk\<lparr>sk_state := ''degraded''\<rparr>
        else if gap = JBool False \<and> dget payload ''inventory_complete'' = JBool True then sk\<lparr>sk_state := ''healthy''\<rparr>
        else sk)"

definition session_finished :: "dict \<Rightarrow> sink \<Rightarrow> sink" where
  "session_finished payload sk =
    (let sk = sk\<lparr>sk_state := ''stopped''\<rparr>; v = dget payload ''summary''; summary = obj_of v
     in if is_obj v then take_counters (dget summary ''stats'') (sk\<lparr>sk_outcome := optional_string (dget summary ''outcome'')\<rparr>)
        else sk)"

definition sink_event :: "dict \<Rightarrow> sink \<Rightarrow> sink" where
  "sink_event payload sk =
    (let event = dget payload ''event'' in
     if event = JStr ''session_started'' then session_started payload sk
     else if event = JStr ''health_issue'' then sk\<lparr>sk_state := ''degraded''\<rparr>
     else if event \<in> set [JStr ''scan_completed'', JStr ''reconciliation_completed''] then scan_finished payload sk
     else if event = JStr ''metadata_inventory_completed'' then inventory_finished payload sk
     else if event = JStr ''health_heartbeat'' then heartbeat_seen payload sk
     else if event = JStr ''session_completed'' then session_finished payload sk
     else sk)"

definition health_record :: "dict \<Rightarrow> sink \<Rightarrow> dict" where
  "health_record payload sk = mk_dict
    [(''schema'', JStr ''zsec.antivirus.companion-health.v1''), (''product'', JStr ''ZSEC Antivirus''),
     (''engine'', JStr ''ZSEC Shield''), (''version'', dget payload ''version''), (''process_id'', JInt (sk_process sk)),
     (''process_started_at'', JStr (sk_started_at sk)), (''runtime_executable'', JStr (sk_executable sk)),
     (''runtime_sha256'', JStr (sk_sha256 sk)), (''updated_at'', dget payload ''generated_at''),
     (''heartbeat_seconds'', sk_heartbeat sk), (''session_id'', dget payload ''session_id''),
     (''sequence'', dget payload ''sequence''), (''last_event'', dget payload ''event''),
     (''operational_state'', JStr (sk_state sk)), (''backend_active'', opt_str (sk_backend sk)),
     (''roots'', JList (sk_roots sk)), (''last_outcome'', opt_str (sk_outcome sk)),
     (''counters'', JObj (sk_counters sk)), (''policy'', JObj (sk_policy sk))]"

text \<open>Outside Windows an error has no \<^verbatim>\<open>winerror\<close>, and the first one ends the attempts.\<close>

definition write_health_snapshot :: "path \<Rightarrow> dict \<Rightarrow> unit io" where
  "write_health_snapshot p health =
    io_catch (atomic_write_json p (JObj health) 384) is_os_error
      (\<lambda>e. io_raise (WatchError (''cannot update watch health snapshot: '' @ exn_text e)))"

text \<open>An exception of the log leaves the state as it was; one of the health file does not.\<close>

definition superseded_event :: "dict \<Rightarrow> bool" where
  "superseded_event payload = (dget payload ''event'' \<in> set [JStr ''event_superseded'', JStr ''events_superseded''])"

definition sink_record :: "dict \<Rightarrow> sink \<Rightarrow> world \<Rightarrow> (unit res \<times> sink) \<times> world" where
  "sink_record payload sk w =
    (case (case sk_log sk of None \<Rightarrow> io_ret () | Some l \<Rightarrow> log_append l payload) w of
       (Inl e, w') \<Rightarrow> ((Inl e, sk), w')
     | (Inr _, w') \<Rightarrow>
       (case sk_health_file sk of
          None \<Rightarrow> ((Inr (), sk), w')
        | Some h \<Rightarrow>
          if superseded_event payload then ((Inr (), sk), w')
          else let sk' = sink_event payload sk
               in (case write_health_snapshot h (health_record payload sk') w' of (r, w'') \<Rightarrow> ((r, sk'), w''))))"

section \<open>What the state says\<close>

text \<open>Records that report a gap, and the two that end one.\<close>

definition reports_gap :: "dict \<Rightarrow> bool" where
  "reports_gap p =
    (dget p ''event'' = JStr ''health_issue''
     \<or> dget p ''event'' \<in> set [JStr ''scan_completed'', JStr ''reconciliation_completed''] \<and> dget p ''outcome'' = JStr ''incomplete''
     \<or> dget p ''event'' = JStr ''metadata_inventory_completed'' \<and> dget p ''outcome'' \<noteq> JStr ''metadata_inventory_complete''
     \<or> dget p ''event'' = JStr ''health_heartbeat'' \<and> dget p ''operational_incomplete'' = JBool True)"

definition reports_coverage :: "dict \<Rightarrow> bool" where
  "reports_coverage p =
    (dget p ''event'' = JStr ''health_heartbeat'' \<and> dget p ''operational_incomplete'' = JBool False
     \<and> dget p ''inventory_complete'' = JBool True)"

definition inventory_done :: "dict \<Rightarrow> bool" where
  "inventory_done p =
    (dget p ''event'' = JStr ''metadata_inventory_completed'' \<and> dget p ''outcome'' = JStr ''metadata_inventory_complete'')"

definition starts_session :: "dict \<Rightarrow> bool" where
  "starts_session p = (dget p ''event'' = JStr ''session_started'')"

definition ends_session :: "dict \<Rightarrow> bool" where
  "ends_session p = (dget p ''event'' = JStr ''session_completed'')"

lemma optional_string_eq [simp]: "optional_string v = Some s \<longleftrightarrow> v = JStr s"
  by (cases v) (auto simp: optional_string_def)

lemma take_state [simp]:
  "sk_state (take_counters v sk) = sk_state sk" "sk_state (take_scan p sk) = sk_state sk"
  "sk_outcome (take_scan p sk) = optional_string (dget p ''outcome'')"
  by (simp_all add: take_counters_def take_scan_def Let_def)

lemma next_state:
  "sk_state (sink_event p sk) =
    (if starts_session p then ''inventorying_metadata'' else if ends_session p then ''stopped''
     else if reports_gap p then ''degraded''
     else if reports_coverage p \<or> inventory_done p \<and> sk_state sk \<noteq> ''degraded'' then ''healthy'' else sk_state sk)"
  by (simp add: sink_event_def session_started_def scan_finished_def inventory_finished_def heartbeat_seen_def session_finished_def Let_def starts_session_def ends_session_def reports_gap_def reports_coverage_def inventory_done_def)


text \<open>A gap is open when the last record that reports a gap or could end one reports it.\<close>

definition gap_decided :: "dict \<Rightarrow> bool" where
  "gap_decided p = (reports_gap p \<or> reports_coverage p \<or> starts_session p \<or> ends_session p)"

definition open_gap :: "dict list \<Rightarrow> bool" where
  "open_gap ps = (case dropWhile (\<lambda>p. \<not> gap_decided p) (rev ps) of [] \<Rightarrow> False | p # _ \<Rightarrow> reports_gap p)"

definition quiet_record :: "dict \<Rightarrow> bool" where
  "quiet_record p = (\<not> reports_gap p \<and> \<not> starts_session p \<and> \<not> ends_session p)"

lemma gap_exclusive:
  "reports_gap p \<Longrightarrow> \<not> reports_coverage p \<and> \<not> inventory_done p \<and> \<not> starts_session p \<and> \<not> ends_session p"
  "reports_coverage p \<Longrightarrow> \<not> starts_session p \<and> \<not> ends_session p"
  "inventory_done p \<Longrightarrow> \<not> starts_session p \<and> \<not> ends_session p"
  by (auto simp: reports_gap_def reports_coverage_def inventory_done_def starts_session_def ends_session_def)

lemma open_gap_snoc: "open_gap (ps @ [p]) = (if gap_decided p then reports_gap p else open_gap ps)"
  by (simp add: open_gap_def)

lemma degraded_trace:
  "sk_state sk \<noteq> ''degraded'' \<Longrightarrow> sk_state (fold sink_event ps sk) = ''degraded'' \<longleftrightarrow> open_gap ps"
proof (induction ps rule: rev_induct)
  case Nil
  then show ?case by (simp add: open_gap_def)
next
  case (snoc p ps)
  then show ?case using gap_exclusive [of p] by (auto simp: open_gap_snoc next_state gap_decided_def)
qed

lemma split_snoc:
  "(\<exists>us r vs. ps @ [p] = us @ r # vs \<and> P us r \<and> list_all Q vs) \<longleftrightarrow>
     P ps p \<or> Q p \<and> (\<exists>us r vs. ps = us @ r # vs \<and> P us r \<and> list_all Q vs)"
  (is "?L \<longleftrightarrow> ?R")
proof
  assume ?L
  then obtain us r vs where s: "ps @ [p] = us @ r # vs" "P us r" "list_all Q vs" by blast
  show ?R
  proof (cases vs rule: rev_cases)
    case (snoc vs' v)
    with s have "ps = us @ r # vs'" "v = p" "list_all Q vs'" "Q v" by simp_all
    with s(2) show ?R by blast
  qed (use s in simp)
next
  assume ?R
  then show ?L
  proof
    assume "Q p \<and> (\<exists>us r vs. ps = us @ r # vs \<and> P us r \<and> list_all Q vs)"
    then obtain us r vs where q: "Q p" "ps = us @ r # vs" "P us r" "list_all Q vs" by blast
    then have "ps @ [p] = us @ r # (vs @ [p])" "list_all Q (vs @ [p])" by simp_all
    with q(3) show ?L by blast
  next
    assume "P ps p"
    then show ?L by (intro exI [of _ ps] exI [of _ p] exI [of _ "[]"]) simp
  qed
qed

lemma healthy_trace:
  assumes "sk_state sk = ''starting''"
  shows "sk_state (fold sink_event ps sk) = ''healthy'' \<longleftrightarrow>
    (\<exists>us r vs. ps = us @ r # vs \<and> (reports_coverage r \<or> inventory_done r \<and> \<not> open_gap us) \<and> list_all quiet_record vs)"
proof (induction ps rule: rev_induct)
  case Nil
  show ?case using assms by simp
next
  case (snoc p ps)
  have d: "sk_state (fold sink_event ps sk) = ''degraded'' \<longleftrightarrow> open_gap ps" by (rule degraded_trace) (simp add: assms)
  show ?case
    unfolding split_snoc [where P = "\<lambda>us r. reports_coverage r \<or> inventory_done r \<and> \<not> open_gap us"] snoc.IH [symmetric]
    using d gap_exclusive [of p] by (auto simp: next_state quiet_record_def)
qed

section \<open>The health file\<close>

definition keeps_ok :: "'a io \<Rightarrow> bool" where
  "keeps_ok m = triple fs_ok m (\<lambda>_. fs_ok) (\<lambda>_. fs_ok)"

lemma keeps_ok_bind: "keeps_ok m \<Longrightarrow> (\<And>x. keeps_ok (f x)) \<Longrightarrow> keeps_ok (io_bind m f)"
  unfolding keeps_ok_def by (rule triple_bind)

lemma keeps_ok_then: "keeps_ok m \<Longrightarrow> keeps_ok k \<Longrightarrow> keeps_ok (io_then m k)"
  unfolding keeps_ok_def by (rule triple_then)

lemma keeps_ok_looks: "looks m \<Longrightarrow> keeps_ok m"
  unfolding keeps_ok_def by (rule looksD)

lemma keeps_ok_if: "keeps_ok k \<Longrightarrow> keeps_ok (io_if b e k)"
  by (cases b) (simp_all add: keeps_ok_looks looks_raise)

lemma keeps_ok_wrap: "keeps_ok m \<Longrightarrow> keeps_ok (io_catch m is_os_error (\<lambda>e. io_raise (h e)))"
  unfolding keeps_ok_def by (rule triple_wrap)

lemma keeps_ok_each: "(\<And>x. keeps_ok (g x)) \<Longrightarrow> keeps_ok (io_each g xs)"
  by (induction xs) (auto intro: keeps_ok_then keeps_ok_looks looks_ret)

lemma keeps_ok_sys: "(\<And>f r f'. fs_ok f \<Longrightarrow> act f = (r, f') \<Longrightarrow> fs_ok f') \<Longrightarrow> keeps_ok (sys act)"
  unfolding keeps_ok_def by (rule triple_sys) (auto, metis post.simps sum.exhaust)

lemma keeps_ok_calls: "keeps_ok (sys_unlink p)" "keeps_ok (sys_replace p q)" "keeps_ok (sys_open_log p)" "keeps_ok (sys_mkdirs p)"
proof -
  show "keeps_ok (sys_unlink p)" unfolding sys_unlink_def
    by (rule keeps_ok_sys) (auto simp: fs_ok_def split: option.splits if_splits)
  show "keeps_ok (sys_replace p q)" unfolding sys_replace_def
    by (rule keeps_ok_sys) (auto simp: fs_ok_def split: option.splits if_splits)
  show "keeps_ok (sys_open_log p)" unfolding sys_open_log_def
    by (rule keeps_ok_sys) (auto simp: create_excl_def fs_ok_new_inode split: option.splits if_splits)
  show "keeps_ok (sys_mkdirs p)" unfolding sys_mkdirs_def
    by (rule keeps_ok_sys) (auto simp: Let_def add_dirs split: option.splits if_splits)
qed

lemma keeps_ok_write_part: "keeps_ok (sys_write_part i d)"
  unfolding keeps_ok_def
  by (rule triple_fs_exact) (auto intro!: triple_write_part simp: append_data_def fs_ok_def)

lemma keeps_ok_rest: "keeps_ok (append_rest n i d)"
  by (induction n i d rule: append_rest.induct)
    (auto intro!: keeps_ok_bind keeps_ok_write_part keeps_ok_if keeps_ok_looks [OF looks_ret])

lemmas keeps_ok_intros = keeps_ok_bind keeps_ok_then keeps_ok_if keeps_ok_wrap keeps_ok_each keeps_ok_calls keeps_ok_rest
  keeps_ok_looks [OF looks_ret] keeps_ok_looks [OF looks_lift] keeps_ok_looks [OF looks_exists] keeps_ok_looks [OF looks_validate]
  keeps_ok_looks [OF looks_fstat] keeps_ok_looks [OF looks_stat_size]

lemma keeps_ok_append: "keeps_ok (log_append l p)"
proof -
  have m: "keeps_ok (move_log l what k)" for what k
    unfolding move_log_def check_log_target_def by (auto intro!: keeps_ok_intros)
  have r: "keeps_ok (rotate_log l)"
    unfolding rotate_log_def drop_oldest_def shift_backup_def Let_def by (auto intro!: keeps_ok_intros m)
  have a: "keeps_ok (append_bytes l line)" for line
    unfolding append_bytes_def append_open_def sys_fsync_def sys_nop_def
    by (auto intro!: keeps_ok_intros keeps_ok_looks [OF looks_sys] split: prod.split)
  show ?thesis
    unfolding log_append_def log_size_def by (auto intro!: keeps_ok_intros r a)
qed


text \<open>A session gives the sink one record after the other.\<close>

fun sink_run :: "dict list \<Rightarrow> sink \<Rightarrow> world \<Rightarrow> (unit res \<times> sink) \<times> world" where
  "sink_run [] sk w = ((Inr (), sk), w)"
| "sink_run (p # ps) sk w = (case sink_record p sk w of
     ((Inl e, sk'), w') \<Rightarrow> ((Inl e, sk'), w')
   | ((Inr _, sk'), w') \<Rightarrow> sink_run ps sk' w')"

lemma sink_event_keeps: "sk_health_file (sink_event p sk) = sk_health_file sk" "sk_log (sink_event p sk) = sk_log sk"
  by (simp_all add: sink_event_def session_started_def scan_finished_def inventory_finished_def heartbeat_seen_def
      session_finished_def take_scan_def take_counters_def Let_def)

lemma superseded_nop: "superseded_event p \<Longrightarrow> sink_event p sk = sk"
  by (auto simp: superseded_event_def sink_event_def)

lemma write_health_written:
  assumes "calm w" "fs_ok (w_fs w)" "p \<noteq> []" "write_health_snapshot p h w = (Inr (), w')"
  shows "\<exists>raw. indented_json_bytes (JObj h) = Inr raw \<and> published raw (w_fs w') p \<and> fs_ok (w_fs w') \<and> calm w'"
proof -
  from assms(4) have "atomic_write_json p (JObj h) 384 w = (Inr (), w')"
    by (auto simp: write_health_snapshot_def io_inv)
  then obtain raw where r: "indented_json_bytes (JObj h) = Inr raw" "atomic_write_bytes p raw 384 w = (Inr (), w')"
    by (cases "indented_json_bytes (JObj h)") (auto simp: atomic_write_json_def io_bind_def io_lift_def)
  from tripleX [OF triple_atomic_write [OF parent_len [OF assms(3)], of "w_fs w"] assms(1) _ r(2)] assms(2)
  show ?thesis using r(1) by auto
qed

lemma sink_record_returns:
  assumes "calm w" "fs_ok (w_fs w)" "sk_health_file sk = Some h" "h \<noteq> []" "sink_record p sk w = ((Inr (), sk'), w')"
  shows "calm w' \<and> fs_ok (w_fs w') \<and> sk' = sink_event p sk
    \<and> (\<not> superseded_event p \<longrightarrow> (\<exists>raw. indented_json_bytes (JObj (health_record p sk')) = Inr raw \<and> published raw (w_fs w') h))"
proof -
  define log where "log = (case sk_log sk of None \<Rightarrow> io_ret () | Some l \<Rightarrow> log_append l p)"
  have "keeps_ok log" by (auto simp: log_def keeps_ok_append keeps_ok_looks looks_ret split: option.split)
  moreover obtain w1 where l: "log w = (Inr (), w1)"
    using assms(5) by (cases "fst (log w)") (auto simp: sink_record_def log_def [symmetric] split: prod.splits sum.splits)
  ultimately have w1: "calm w1 \<and> fs_ok (w_fs w1)"
    using tripleX [where P = fs_ok and m = log, OF _ assms(1,2) l] by (fastforce simp: keeps_ok_def)
  show ?thesis
  proof (cases "superseded_event p")
    case True
    with assms(3,5) l w1 superseded_nop [OF True, of sk] show ?thesis by (simp add: sink_record_def log_def)
  next
    case False
    with assms(3,5) l have "sk' = sink_event p sk" "write_health_snapshot h (health_record p sk') w1 = (Inr (), w')"
      by (auto simp: sink_record_def log_def Let_def split: prod.splits)
    with write_health_written [OF _ _ assms(4)] w1 show ?thesis by blast
  qed
qed

lemma sink_run_snoc:
  "sink_run (ps @ [p]) sk w = ((Inr (), sk'), w') \<longleftrightarrow>
     (\<exists>sk1 w1. sink_run ps sk w = ((Inr (), sk1), w1) \<and> sink_record p sk1 w1 = ((Inr (), sk'), w'))"
  by (induction ps arbitrary: sk w) (auto split: prod.splits sum.splits)

lemma sink_run_returns:
  assumes "calm w" "fs_ok (w_fs w)" "sk_health_file sk = Some h" "h \<noteq> []"
  shows "sink_run ps sk w = ((Inr (), sk'), w') \<Longrightarrow> calm w' \<and> fs_ok (w_fs w') \<and> sk' = fold sink_event ps sk \<and> sk_health_file sk' = Some h"
proof (induction ps arbitrary: sk' w' rule: rev_induct)
  case (snoc p ps)
  then obtain sk1 w1 where s: "sink_run ps sk w = ((Inr (), sk1), w1)" "sink_record p sk1 w1 = ((Inr (), sk'), w')"
    by (auto simp: sink_run_snoc)
  with snoc.IH [OF s(1)] sink_record_returns [OF _ _ _ assms(4) s(2)] show ?case by (auto simp: sink_event_keeps)
qed (use assms in auto)

lemma health_record_state: "dget (health_record p sk) ''operational_state'' = JStr (sk_state sk)"
  by (simp add: health_record_def dget_mk_dict)



definition ex_sink :: sink where
  "ex_sink = \<lparr>sk_health_file = Some ''/d/a'', sk_log = None, sk_heartbeat = JInt 30, sk_process = 7, sk_started_at = ''t'',
     sk_executable = ''/p'', sk_sha256 = ''h'', sk_backend = None, sk_roots = [], sk_policy = [], sk_state = ''starting'',
     sk_outcome = None, sk_counters = []\<rparr>"

definition ex_inventory :: dict where
  "ex_inventory = mk_dict [(''event'', JStr ''metadata_inventory_completed''), (''outcome'', JStr ''metadata_inventory_complete'')]"


end
