(* ===== verification/Spec2Isabelle.thy ===== *)
theory Spec2Isabelle
  imports Util Sha256 Eicar Zba Feed_Install Atomic_Write Paths Scanner_Proofs Watcher_Proofs Status_Store
    Crypto_Vault_Proofs Quarantine_Proofs Restore_Proofs App_Update_Proofs Auto_Update_Examples Contract_Examples
    Readiness Cli_Reports Watch_Evidence
begin

text \<open>
  A verification library of ZSEC Shield, an on-demand malware scanner with a foreground watch mode, an
  encrypted quarantine, signed rule feeds, two automatic update checks and a Windows desktop that reads the
  reports of the scanner.  All paths below are relative to the repository; the engine is
  \<^verbatim>\<open>src/zsec_shield\<close>, the desktop \<^verbatim>\<open>apps/windows-ui/zsec_desktop\<close>.

  \<^bold>\<open>The parts of the program and their models.\<close>

  \<^item> The Python the program is written in.  \<open>Prelude\<close> has the exceptions of \<^verbatim>\<open>errors.py\<close> and of the standard
    library as one datatype, and results as sums; \<open>Pystr\<close>, \<open>Pytext\<close>, \<open>Base64\<close>, \<open>Pytime\<close>, \<open>Urls\<close>, \<open>Ospath\<close> and
    \<open>Sha256\<close> are the operations on texts, times, URLs, paths and digests the sources call; \<open>Json\<close> is the reader
    and the writer of the \<^verbatim>\<open>json\<close> module.  Texts and bytes are both \<open>char list\<close>; a text is its UTF-8 bytes, and
    \<open>py_len\<close> counts its characters.
  \<^item> \<open>World\<close> is the operating system: a file system of inodes and a schedule that says for every system call, by
    its number, what other processes did before it and whether it fails.  An operation of the program is a
    function from a world to a result and a world.  \<open>World_Logic\<close> has Hoare triples over it in which every call
    may fail; \<open>Vault_World\<close>, \<open>Vault_Logic\<close> add the calls of the quarantine.
  \<^item> \<open>Util\<close>, \<open>Json_Roundtrip\<close>, \<open>Atomic_Write\<close>: \<^verbatim>\<open>util.py\<close>, the strict JSON reader, the canonical writer and the
    atomic replacement of a file, on which every later component relies.
  \<^item> \<open>Models\<close>, \<open>Eicar\<close>, \<open>Zba\<close>, \<open>Paths\<close>, \<open>Status_Store\<close>: \<^verbatim>\<open>models.py\<close>, \<^verbatim>\<open>rules.py\<close>, \<^verbatim>\<open>zba.py\<close>, \<^verbatim>\<open>paths.py\<close>,
    \<^verbatim>\<open>status_store.py\<close>.
  \<^item> \<open>Feed\<close>, \<open>Feed_Proofs\<close>, \<open>Feed_Install\<close>, \<open>Transport\<close>: \<^verbatim>\<open>feed.py\<close>.  A feed is verified under a trusted key,
    installed under a lock with a rollback state, inspected before each scan, and fetched over HTTPS.
  \<^item> \<open>Content\<close>, \<open>Stream_Match\<close>, \<open>Scan_Worker\<close>, \<open>Scanner\<close>, \<open>Scanner_Walk\<close> and their \<open>_Proofs\<close>:
    \<^verbatim>\<open>content_inspection.py\<close>, \<^verbatim>\<open>scan_worker.py\<close>, \<^verbatim>\<open>scanner.py\<close>.  The scanner walks the roots, reads each file
    once, and matches in the process or through a broker that talks to a worker process in frames.
  \<^item> \<open>Watch_Queue\<close>, \<open>Watch_Config\<close>, \<open>Watch_Roots\<close>, \<open>Watcher\<close>, \<open>Watcher_Logic\<close>, \<open>Watcher_Proofs\<close>:
    \<^verbatim>\<open>watcher.py\<close>.  The queue is a step relation over its threads; the session is the handlers over its state.
  \<^item> \<open>Event_Log\<close>, \<open>Watch_Evidence\<close>: \<^verbatim>\<open>watch_evidence.py\<close>.  A record of a session is appended to a rotating log and
    moves the state machine whose snapshot is the health file.
  \<^item> \<open>Crypto_Vault\<close>, \<open>Quarantine\<close>, \<open>Quarantine_Restore\<close>, \<open>Vault_Entry\<close>, \<open>Quarantine_Steps\<close>, \<open>Quarantine_Proofs\<close>,
    \<open>Restore_Proofs\<close>: \<^verbatim>\<open>crypto_vault.py\<close> and \<^verbatim>\<open>quarantine.py\<close>.  A finding of the scanner is encrypted into an
    entry of the vault, listed, and restored.
  \<^item> \<open>Rollback\<close>, \<open>Update_Status\<close>, \<open>Update_Logic\<close>, \<open>App_Update\<close>, \<open>App_Update_Proofs\<close>: the check for application
    updates of \<^verbatim>\<open>automatic_updates.py\<close>.  \<open>Intelligence\<close>, \<open>Catalog_Install\<close>, \<open>Catalog_Proofs\<close>, \<open>Auto_Update\<close>,
    \<open>Auto_Update_Proofs\<close>, \<open>Auto_Update_Examples\<close>: the update of the advisory catalog of the same file, with the
    validation and installation of a catalog of \<^verbatim>\<open>intelligence.py\<close>.
  \<^item> \<open>Contracts\<close>, \<open>Contract_Reports\<close>, \<open>Contract_Companion\<close>, \<open>Contract_Views\<close> with \<open>Contract_Proofs\<close> and
    \<open>Contract_Examples\<close>: \<^verbatim>\<open>contracts.py\<close> of the desktop, the validators of what the engine prints and the
    presentations made of it.  \<open>Readiness\<close>: \<^verbatim>\<open>readiness.py\<close>, whose report one of these validators reads.
  \<^item> \<open>Cli\<close>, \<open>Cli_Status\<close>, \<open>Cli_Reports\<close>: the commands of \<^verbatim>\<open>cli.py\<close>, which call the components above, make their
    reports and choose the exit codes, and the handler of exceptions in \<^verbatim>\<open>main\<close>.  A command is a function from a
    world to its report, its exit code and a world.

  \<^bold>\<open>What the lemmas show.\<close>

  \<^item> Files: an atomic write leaves the old or the complete new content whichever call fails, and completes
    when none does; the strict reader gives back what either writer wrote.
  \<^item> Feeds and updates: only documents under the signature of an active trusted key and inside their
    lifetime are accepted; the recorded sequence never decreases however an installation ends (one locale,
    \<open>Rollback\<close>, interpreted for the three states); an update writes only its own files; a replaced catalog is
    kept; every status that is returned has the types its reader asks for.
  \<^item> Scanner: the walk reaches exactly what it may; the finding names exactly the matching rules, across the
    borders of chunks; the worker changes nothing when honest and cannot forge a digest or a rule when not.
  \<^item> Watch: the queue keeps its bound and loses no change silently, a path is not put off for ever, a clean
    outcome hides no known gap, and a finite session ends.  The health file says healthy exactly when a record
    vouches for the coverage and no later one reports a gap; the log loses no event but with its oldest backup.
  \<^item> Quarantine: whatever call fails, the original or an authenticated copy of it is there; a restore gives
    the bytes back and overwrites nothing.
  \<^item> Desktop: what is shown in green is backed by the document, and what the engine reports is accepted.
  \<^item> Commands: the exit code and the outcome of a check say the same and hide no issue of the scanner, the
    quarantine or the inspection of the feed; the reports of the commands check, status and quarantine list
    are accepted by the desktop's validators exactly under the conditions that are stated.

  \<^bold>\<open>Interfaces.\<close>  The file of a rollback state with its reader is the locale \<open>rollback_record\<close>, interpreted for the
  feed, the application update and the advisory catalog; the buffer between the threads of the observer and
  the loop of the watcher is the locale \<open>change_buffer\<close>, interpreted for the queue.

  \<^bold>\<open>Bounds and fuel.\<close>  Loops whose end depends on the environment carry fuel.  The JSON reader gets the length
  of its text plus one, which \<open>Json_Roundtrip\<close> shows to be enough; \<open>read_chunks\<close> gets the bound of the feed plus
  two, and each of its steps reads at least one byte; \<open>pump\<close> of the quarantine copies with fuel the caller
  gives, and running out is an exception of its own that the theorems count among the failures; the walk
  of the scanner gets fuel, and \<open>Scanner_Walk\<close> proves that it ends on every finite tree with enough of it.

  \<^bold>\<open>Parameters.\<close>  Ed25519, HKDF, AES-GCM, the directory reader of \<^verbatim>\<open>zipfile\<close>, WinVerifyTrust, the network (the
  redirects and the last response), the random bytes, identifiers and clock readings are arguments.  Of the
  ciphers only their documented law is used, that decryption undoes encryption under the same key and nonce.
  Of the library of times, \<^verbatim>\<open>email.utils\<close> and \<^verbatim>\<open>strptime\<close>, and of the Unicode tables, NFKC and the case of letters that
  are not ASCII, the results are arguments as well.

  \<^bold>\<open>Where the model deviates.\<close>  The system is POSIX: the branches for Windows (locks of \<^verbatim>\<open>msvcrt\<close>, DPAPI, reparse
  points) are left out.  Floating-point numbers in JSON are kept as their text, with one argument that says
  whether it is a whole number; a list of names that holds one counts as unsorted.  Durations are whole
  microseconds.  Subclasses of \<^verbatim>\<open>OSError\<close> are not told apart where no handler tells them apart, and the text of
  an exception that no code reads is omitted.

  \<^bold>\<open>Not modelled.\<close>  The argument parser, the printing and the commands watch, inventory, runtime-identity and
  recovery-drill of \<^verbatim>\<open>cli.py\<close>, with the self-test of the quarantine (\<^verbatim>\<open>recovery_drill.py\<close>); the inventory of the platform, the
  user interface of the desktop with its child process, registry and tray icon, which call libraries and hold no
  decision of their own beyond the contracts; the parsers of foreign advisory sources in \<^verbatim>\<open>intelligence.py\<close> and the
  publishing and packaging scripts, which run at the publisher; the limits of a worker process
  (\<^verbatim>\<open>setrlimit\<close>).
\<close>

end
